(* ===== verification/Prelude.thy ===== *)
theory Prelude
  imports Main "HOL-Library.Sublist" "HOL-Library.AList"
begin

text \<open>
  Shared vocabulary of the development: Go errors as values, the fragment of Go's \<open>strings\<close> and
  \<open>time\<close> packages that the modelled code calls, results of fallible code, and the theorem
  collections used by the component theories.
\<close>

section \<open>Theorem collections\<close>

named_theorems rule_defs \<open>definitions of the transition-rule groups of a state machine\<close>
named_theorems cond_simps \<open>evaluation of transition conditions\<close>
named_theorems frame_simps \<open>what an operation leaves unchanged\<close>

section \<open>Errors\<close>

text \<open>
  A Go function that returns \<open>(T, error)\<close> is a function into \<open>go_error + T\<close>; one that returns only
  an \<open>error\<close> yields a \<open>go_error option\<close>, where \<^term>\<open>None\<close> is \<open>nil\<close>. \<open>Panic\<close> stands for a run-time
  panic (a nil dereference, a failed type assertion); it leaves a function like an error does.
  Formatted messages keep their constant part.
\<close>

datatype go_error =
    ErrNew string
  | ErrWrapf string go_error
  | ErrJoin "go_error list"
  | ApiError nat go_error
  | ErrRecordNotFound
  | ErrDB
  | ErrCtx
  | NoConditionPassedToRunTransaction
  | NoMatchForTransitionType
  | Panic string

text \<open>\<open>errors.Join\<close> of the errors so far and a new one.\<close>

definition Join_errors :: "go_error option \<Rightarrow> go_error \<Rightarrow> go_error option" where
  "Join_errors ret err = Some (ErrJoin (case ret of None \<Rightarrow> [err] | Some e \<Rightarrow> [e, err]))"

text \<open>\<open>errors.Wrapf\<close> of \<open>github.com/pkg/errors\<close> returns \<open>nil\<close> when the wrapped error is \<open>nil\<close>.\<close>

definition Wrapf :: "go_error option \<Rightarrow> string \<Rightarrow> go_error option" where
  "Wrapf err msg = map_option (ErrWrapf msg) err"

lemma Wrapf_None_iff [simp]: "Wrapf err msg = None \<longleftrightarrow> err = None"
  by (simp add: Wrapf_def)

fun is_record_not_found :: "go_error \<Rightarrow> bool" where
  "is_record_not_found ErrRecordNotFound = True"
| "is_record_not_found (ErrWrapf _ e) = is_record_not_found e"
| "is_record_not_found (ErrJoin es) = list_ex is_record_not_found es"
| "is_record_not_found _ = False"

abbreviation nil_deref :: go_error where
  "nil_deref \<equiv> Panic ''invalid memory address or nil pointer dereference''"

section \<open>Time\<close>

text \<open>
  A \<open>time.Time\<close> is a number of nanoseconds since the zero time, so \<open>IsZero\<close> is equality with 0.
  A \<open>time.Duration\<close> is an \<open>int64\<close> of nanoseconds and \<open>Time.Sub\<close> saturates at its ends.
\<close>

type_synonym time = int
type_synonym duration = int

definition max_duration :: duration where
  "max_duration = 2 ^ 63 - 1"

definition min_duration :: duration where
  "min_duration = - (2 ^ 63)"

definition IsZero :: "time \<Rightarrow> bool" where
  "IsZero t \<longleftrightarrow> t = 0"

definition Since :: "time \<Rightarrow> time \<Rightarrow> duration" where
  "Since now t = max min_duration (min max_duration (now - t))"

definition Second :: duration where
  "Second = 1000000000"

definition Minute :: duration where
  "Minute = 60 * Second"

definition Hour :: duration where
  "Hour = 60 * Minute"

lemma Since_bounds: "min_duration \<le> Since now t \<and> Since now t \<le> max_duration"
  by (simp add: Since_def min_duration_def max_duration_def)

lemma Since_mono: "now \<le> now' \<Longrightarrow> Since now t \<le> Since now' t"
  by (auto simp: Since_def)

lemma Since_exact:
  "min_duration \<le> now - t \<Longrightarrow> now - t \<le> max_duration \<Longrightarrow> Since now t = now - t"
  by (simp add: Since_def)

text \<open>Go's integer division truncates towards zero.\<close>

definition go_div :: "int \<Rightarrow> int \<Rightarrow> int" where
  "go_div a b = sgn a * sgn b * (\<bar>a\<bar> div \<bar>b\<bar>)"

lemma go_div_nonneg: "0 \<le> a \<Longrightarrow> 0 < b \<Longrightarrow> go_div a b = a div b"
  by (cases "a = 0") (auto simp: go_div_def)

text \<open>\<open>Duration.Minutes\<close> followed by the conversion to \<open>int64\<close>, which truncates towards zero.\<close>

definition whole_minutes :: "duration \<Rightarrow> int" where
  "whole_minutes d = go_div d Minute"

section \<open>Strings\<close>

text \<open>\<open>strings.Contains\<close>, \<open>strings.Replace(s, old, new, 1)\<close> and \<open>strings.Join\<close>.\<close>

fun Contains :: "string \<Rightarrow> string \<Rightarrow> bool" where
  "Contains [] sub = prefix sub []"
| "Contains (c # cs) sub = (prefix sub (c # cs) \<or> Contains cs sub)"

fun Replace1 :: "string \<Rightarrow> string \<Rightarrow> string \<Rightarrow> string" where
  "Replace1 [] old new = (if old = [] then new else [])"
| "Replace1 (c # cs) old new =
     (if prefix old (c # cs) then new @ drop (length old) (c # cs)
      else c # Replace1 cs old new)"

fun Join :: "string list \<Rightarrow> string \<Rightarrow> string" where
  "Join [] sep = []"
| "Join [s] sep = s"
| "Join (s # ss) sep = s @ sep @ Join ss sep"

lemma Contains_iff_sublist: "Contains s sub \<longleftrightarrow> sublist sub s"
  by (induction s) (auto simp: sublist_Cons_right)

lemma Replace1_not_Contains: "\<not> Contains s old \<Longrightarrow> Replace1 s old new = s"
  by (induction s) auto

lemma Contains_append2: "Contains (a @ b @ c) b"
  by (simp add: Contains_iff_sublist sublist_appendI)

text \<open>The decimal representation that \<open>fmt\<close>'s \<open>%d\<close> verb and \<open>strconv\<close> print.\<close>

fun nat_digits :: "nat \<Rightarrow> string" where
  "nat_digits n =
     (if n < 10 then [char_of (48 + n)] else nat_digits (n div 10) @ [char_of (48 + n mod 10)])"

declare nat_digits.simps [simp del]

definition int_digits :: "int \<Rightarrow> string" where
  "int_digits i = (if i < 0 then CHR ''-'' # nat_digits (nat (- i)) else nat_digits (nat i))"

section \<open>Generic lemmas\<close>

lemma if_Inr_False [cond_simps]: "(if P then Inr Q else Inr False) = Inr (P \<and> Q)"
  by simp

lemma if_Inr_True [cond_simps]: "(if P then Inr True else Inr Q) = Inr (P \<or> Q)"
  by simp

lemma find_map_update:
  assumes "\<And>x. P (f x) = P x"
  shows "find P (map f xs) = map_option f (find P xs)"
  using assms by (induction xs) auto

lemma find_None_filter: "find P xs = None \<longleftrightarrow> filter P xs = []"
  by (induction xs) auto

lemma find_SomeD: "find P xs = Some x \<Longrightarrow> P x \<and> x \<in> set xs"
  by (induction xs) (auto split: if_splits)

lemma find_cong_on: "(\<And>x. x \<in> set xs \<Longrightarrow> P x = Q x) \<Longrightarrow> find P xs = find Q xs"
  by (induction xs) auto

end
