(* ===== verification/Stateswitch.thy ===== *)
theory Stateswitch
  imports Prelude
begin

text \<open>
  The state-machine engine that the service drives its hosts and clusters with (the vendored
  package \<open>stateswitch\<close>): transition rules, the condition combinators, registration of rules and
  \<open>Run\<close>. The engine is generic in the states \<open>'s\<close>, the transition types \<open>'t\<close>, the state switch with
  everything its callbacks reach \<open>'c\<close> and the transition arguments \<open>'a\<close>. Conditions only read; a
  transition or post-transition callback returns its error and the changed state switch.
\<close>

section \<open>Rules and conditions\<close>

type_synonym ('c, 'a) condition = "'c \<Rightarrow> 'a \<Rightarrow> go_error + bool"
type_synonym ('c, 'a) action = "'c \<Rightarrow> 'a \<Rightarrow> go_error option \<times> 'c"

record ('t, 's, 'c, 'a) transition_rule =
  TransitionType :: 't
  SourceStates :: "'s list"
  DestinationState :: 's
  Condition :: "('c, 'a) condition option"
  Transition :: "('c, 'a) action option"
  PostTransition :: "('c, 'a) action option"

fun Contain :: "'s list \<Rightarrow> 's \<Rightarrow> bool" where
  "Contain [] state = False"
| "Contain (st # sts) state = (if st = state then True else Contain sts state)"

definition Not :: "('c, 'a) condition \<Rightarrow> ('c, 'a) condition" where
  "Not operand sw args = (case operand sw args of Inl err \<Rightarrow> Inl err | Inr b \<Rightarrow> Inr (\<not> b))"

fun And :: "('c, 'a) condition list \<Rightarrow> ('c, 'a) condition" where
  "And [] sw args = Inr True"
| "And (oper # opers) sw args =
     (case oper sw args of Inl err \<Rightarrow> Inl err
      | Inr b \<Rightarrow> (if \<not> b then Inr False else And opers sw args))"

fun Or :: "('c, 'a) condition list \<Rightarrow> ('c, 'a) condition" where
  "Or [] sw args = Inr False"
| "Or (oper # opers) sw args =
     (case oper sw args of Inl err \<Rightarrow> Inl err
      | Inr b \<Rightarrow> (if b then Inr True else Or opers sw args))"

definition IsAllowedToRun ::
  "('c \<Rightarrow> 's) \<Rightarrow> ('t, 's, 'c, 'a) transition_rule \<Rightarrow> ('c, 'a) condition" where
  "IsAllowedToRun State tr sw args =
     (if Contain (SourceStates tr) (State sw)
      then (case Condition tr of None \<Rightarrow> Inr True | Some cond \<Rightarrow> cond sw args)
      else Inr False)"

section \<open>The machine\<close>

text \<open>\<open>transitionRules\<close>: from a transition type to its rules, in the order they were added.\<close>

type_synonym ('t, 's, 'c, 'a) state_machine =
  "'t \<Rightarrow> ('t, 's, 'c, 'a) transition_rule list option"

definition NewStateMachine :: "('t, 's, 'c, 'a) state_machine" where
  "NewStateMachine = (\<lambda>_. None)"

definition AddTransitionRule ::
  "('t, 's, 'c, 'a) transition_rule \<Rightarrow> ('t, 's, 'c, 'a) state_machine \<Rightarrow>
   ('t, 's, 'c, 'a) state_machine" where
  "AddTransitionRule rule sm =
     sm(TransitionType rule \<mapsto>
          (case sm (TransitionType rule) of None \<Rightarrow> [] | Some rules \<Rightarrow> rules) @ [rule])"

text \<open>The body of \<open>Run\<close>'s loop once a rule is allowed: transition, \<open>SetState\<close>, post transition.\<close>

definition fire ::
  "('s \<Rightarrow> 'c \<Rightarrow> go_error option \<times> 'c) \<Rightarrow> ('t, 's, 'c, 'a) transition_rule \<Rightarrow> ('c, 'a) action" where
  "fire SetState tr sw args =
     (case (case Transition tr of None \<Rightarrow> (None, sw) | Some f \<Rightarrow> f sw args) of
        (Some err, sw1) \<Rightarrow> (Some err, sw1)
      | (None, sw1) \<Rightarrow>
          (case SetState (DestinationState tr) sw1 of
             (Some err, sw2) \<Rightarrow> (Some err, sw2)
           | (None, sw2) \<Rightarrow>
               (case PostTransition tr of None \<Rightarrow> (None, sw2) | Some f \<Rightarrow> f sw2 args)))"

fun run_rules ::
  "('c \<Rightarrow> 's) \<Rightarrow> ('s \<Rightarrow> 'c \<Rightarrow> go_error option \<times> 'c) \<Rightarrow>
   ('t, 's, 'c, 'a) transition_rule list \<Rightarrow> ('c, 'a) action" where
  "run_rules State SetState [] sw args = (Some NoConditionPassedToRunTransaction, sw)"
| "run_rules State SetState (tr # trs) sw args =
     (case IsAllowedToRun State tr sw args of
        Inl err \<Rightarrow> (Some err, sw)
      | Inr allow \<Rightarrow>
          (if allow then fire SetState tr sw args else run_rules State SetState trs sw args))"

definition Run ::
  "('c \<Rightarrow> 's) \<Rightarrow> ('s \<Rightarrow> 'c \<Rightarrow> go_error option \<times> 'c) \<Rightarrow>
   ('t, 's, 'c, 'a) state_machine \<Rightarrow> 't \<Rightarrow> ('c, 'a) action" where
  "Run State SetState sm transitionType sw args =
     (case sm transitionType of
        None \<Rightarrow> (Some NoMatchForTransitionType, sw)
      | Some transByType \<Rightarrow> run_rules State SetState transByType sw args)"

section \<open>Evaluation of conditions\<close>

lemma Contain_iff [simp]: "Contain sts st \<longleftrightarrow> st \<in> set sts"
  by (induction sts) auto

lemma Not_Inr [cond_simps]: "f sw args = Inr b \<Longrightarrow> Not f sw args = Inr (\<not> b)"
  by (simp add: Not_def)

lemma And_Cons_Inr [cond_simps]:
  "f sw args = Inr b \<Longrightarrow> And (f # fs) sw args = (if b then And fs sw args else Inr False)"
  by simp

lemma Or_Cons_Inr [cond_simps]:
  "f sw args = Inr b \<Longrightarrow> Or (f # fs) sw args = (if b then Inr True else Or fs sw args)"
  by simp

text \<open>On conditions that do not fail the combinators are the Boolean connectives.\<close>

lemma And_map_total:
  "(\<And>x. x \<in> set xs \<Longrightarrow> f x sw args = Inr (b x)) \<Longrightarrow>
   And (map f xs) sw args = Inr (\<forall>x \<in> set xs. b x)"
  by (induction xs) auto

lemma Or_map_total:
  "(\<And>x. x \<in> set xs \<Longrightarrow> f x sw args = Inr (b x)) \<Longrightarrow>
   Or (map f xs) sw args = Inr (\<exists>x \<in> set xs. b x)"
  by (induction xs) auto

text \<open>Without any assumption: a conjunction holds exactly when each operand holds.\<close>

lemma And_True_iff: "And fs sw args = Inr True \<longleftrightarrow> (\<forall>f \<in> set fs. f sw args = Inr True)"
  by (induction fs) (auto split: sum.splits)

lemma Or_True_D: "Or fs sw args = Inr True \<Longrightarrow> \<exists>f \<in> set fs. f sw args = Inr True"
  by (induction fs) (auto split: sum.splits if_splits)

lemma Not_True_iff: "Not f sw args = Inr True \<longleftrightarrow> f sw args = Inr False"
  by (simp add: Not_def split: sum.splits)

lemma And_Inl_D: "And fs sw args = Inl err \<Longrightarrow> \<exists>f \<in> set fs. f sw args = Inl err"
  by (induction fs) (auto split: sum.splits if_splits)

lemma Or_Inl_D: "Or fs sw args = Inl err \<Longrightarrow> \<exists>f \<in> set fs. f sw args = Inl err"
  by (induction fs) (auto split: sum.splits if_splits)

lemma Not_Inl_iff: "Not f sw args = Inl err \<longleftrightarrow> f sw args = Inl err"
  by (simp add: Not_def split: sum.splits)

section \<open>Registered rules\<close>

lemma fold_AddTransitionRule:
  "fold AddTransitionRule rules sm t =
     (if filter (\<lambda>r. TransitionType r = t) rules = [] then sm t
      else Some ((case sm t of None \<Rightarrow> [] | Some rs \<Rightarrow> rs) @
                 filter (\<lambda>r. TransitionType r = t) rules))"
  by (induction rules arbitrary: sm)
     (auto simp: AddTransitionRule_def split: option.splits)

text \<open>The machine that a constructor such as \<open>NewHostStateMachine\<close> builds rule by rule.\<close>

definition build_machine ::
  "('t, 's, 'c, 'a) transition_rule list \<Rightarrow> ('t, 's, 'c, 'a) state_machine" where
  "build_machine rules = fold AddTransitionRule rules NewStateMachine"

lemma build_machine_eq:
  "build_machine rules t =
     (let rs = filter (\<lambda>r. TransitionType r = t) rules in if rs = [] then None else Some rs)"
  by (simp add: build_machine_def fold_AddTransitionRule NewStateMachine_def Let_def)

lemma Run_build_machine:
  "\<exists>r \<in> set rules. TransitionType r = t \<Longrightarrow>
   Run State SetState (build_machine rules) t sw args =
     run_rules State SetState (filter (\<lambda>r. TransitionType r = t) rules) sw args"
  by (auto simp: Run_def build_machine_eq Let_def filter_empty_conv)

text \<open>A rule that may be taken: it has the state as a source and its condition holds.\<close>

definition enabled ::
  "('c \<Rightarrow> 's) \<Rightarrow> ('t, 's, 'c, 'a) transition_rule \<Rightarrow> 'c \<Rightarrow> 'a \<Rightarrow> bool" where
  "enabled State tr sw args \<longleftrightarrow> IsAllowedToRun State tr sw args = Inr True"

lemma run_rules_append:
  "run_rules State SetState (xs @ ys) sw args =
     (if \<forall>tr \<in> set xs. IsAllowedToRun State tr sw args = Inr False
      then run_rules State SetState ys sw args
      else run_rules State SetState xs sw args)"
  by (induction xs) (auto split: sum.splits)

text \<open>\<open>Run\<close> takes the first enabled rule; the rules before it were refused without an error.\<close>

lemma run_rules_first:
  assumes "\<forall>r \<in> set pre. IsAllowedToRun State r sw args = Inr False"
    and "enabled State tr sw args"
  shows "run_rules State SetState (pre @ tr # post) sw args = fire SetState tr sw args"
  using assms by (simp add: run_rules_append enabled_def)

lemma run_rules_cases:
  obtains (none) "\<forall>r \<in> set rs. IsAllowedToRun State r sw args = Inr False"
      "run_rules State SetState rs sw args = (Some NoConditionPassedToRunTransaction, sw)"
  | (failed) err where "run_rules State SetState rs sw args = (Some err, sw)"
      "\<exists>r \<in> set rs. IsAllowedToRun State r sw args = Inl err"
  | (fired) pre tr post where "rs = pre @ tr # post"
      "\<forall>r \<in> set pre. IsAllowedToRun State r sw args = Inr False"
      "enabled State tr sw args"
      "run_rules State SetState rs sw args = fire SetState tr sw args"
proof (induction rs arbitrary: thesis)
  case Nil
  then show ?case by simp
next
  case (Cons r rs)
  show ?case
  proof (cases "IsAllowedToRun State r sw args")
    case (Inl err)
    then show ?thesis using Cons.prems(2) [of err] by simp
  next
    case (Inr b)
    show ?thesis
    proof (cases b)
      case True
      with Inr show ?thesis
        using Cons.prems(3) [of "[]" r rs] by (simp add: enabled_def)
    next
      case False
      with Inr have step: "run_rules State SetState (r # rs) sw args =
          run_rules State SetState rs sw args" by simp
      show ?thesis
      proof (rule Cons.IH)
        assume "\<forall>r \<in> set rs. IsAllowedToRun State r sw args = Inr False"
          "run_rules State SetState rs sw args = (Some NoConditionPassedToRunTransaction, sw)"
        then show ?thesis using Cons.prems(1) step Inr False by simp
      next
        fix err
        assume "run_rules State SetState rs sw args = (Some err, sw)"
          "\<exists>r \<in> set rs. IsAllowedToRun State r sw args = Inl err"
        then show ?thesis using Cons.prems(2) [of err] step by auto
      next
        fix pre tr post
        assume "rs = pre @ tr # post"
          "\<forall>r \<in> set pre. IsAllowedToRun State r sw args = Inr False"
          "enabled State tr sw args"
          "run_rules State SetState rs sw args = fire SetState tr sw args"
        then show ?thesis
          using Cons.prems(3) [of "r # pre" tr post] step Inr False by simp
      qed
    qed
  qed
qed

lemma enabled_source: "enabled State tr sw args \<Longrightarrow> State sw \<in> set (SourceStates tr)"
  by (auto simp: enabled_def IsAllowedToRun_def split: if_splits)

lemma enabled_condition:
  "enabled State tr sw args \<Longrightarrow> Condition tr = Some f \<Longrightarrow> f sw args = Inr True"
  by (auto simp: enabled_def IsAllowedToRun_def split: if_splits)

section \<open>The interface of a state switch\<close>

text \<open>
  What \<open>Run\<close> needs of the object it drives: \<open>SetState\<close> succeeds and \<open>State\<close> then reads the new state.
  The rules are those of one machine, none of which has a \<open>Transition\<close> callback that changes the
  state, and whose post transitions keep the state that was set whenever they succeed on an object on
  which the rule is admissible. What is admissible does not depend on the state that is set.
\<close>

locale state_switch =
  fixes State :: "'c \<Rightarrow> 's"
    and SetState :: "'s \<Rightarrow> 'c \<Rightarrow> go_error option \<times> 'c"
    and rules :: "('t, 's, 'c, 'a) transition_rule list"
    and admissible :: "('t, 's, 'c, 'a) transition_rule \<Rightarrow> 'c \<Rightarrow> bool"
  assumes SetState_ok: "\<exists>sw'. SetState s sw = (None, sw') \<and> State sw' = s"
    and SetState_admissible: "SetState s sw = (None, sw') \<Longrightarrow> admissible tr sw' \<longleftrightarrow> admissible tr sw"
    and transition_keeps:
      "tr \<in> set rules \<Longrightarrow> Transition tr = Some f \<Longrightarrow> f sw args = (None, sw') \<Longrightarrow>
       State sw' = State sw \<and> (admissible tr sw' \<longleftrightarrow> admissible tr sw)"
    and post_keeps:
      "tr \<in> set rules \<Longrightarrow> PostTransition tr = Some f \<Longrightarrow> f sw args = (None, sw') \<Longrightarrow>
       admissible tr sw \<Longrightarrow> State sw = DestinationState tr \<Longrightarrow> State sw' = State sw"
begin

lemma fire_destination:
  assumes "tr \<in> set rules" and "admissible tr sw" and "fire SetState tr sw args = (None, sw')"
  shows "State sw' = DestinationState tr"
proof -
  obtain sw0 where tr: "(case Transition tr of None \<Rightarrow> (None, sw) | Some f \<Rightarrow> f sw args) = (None, sw0)"
    using assms(3) by (auto simp: fire_def split: option.splits prod.splits)
  have "admissible tr sw0"
    using tr transition_keeps [OF assms(1), of _ sw args sw0] assms(2) by (auto split: option.splits)
  moreover obtain sw1 where set: "SetState (DestinationState tr) sw0 = (None, sw1)"
    and "State sw1 = DestinationState tr" using SetState_ok by blast
  moreover from this have "admissible tr sw1 \<longleftrightarrow> admissible tr sw0" using SetState_admissible by blast
  ultimately show ?thesis
    using assms(3) tr post_keeps [OF assms(1), of _ sw1 args sw']
    by (auto simp: fire_def split: option.splits)
qed

lemma Run_fired:
  assumes "Run State SetState (build_machine rules) t sw args = (None, sw')"
  shows "\<exists>tr \<in> set rules. TransitionType tr = t \<and> enabled State tr sw args \<and>
           fire SetState tr sw args = (None, sw')"
proof -
  let ?rs = "filter (\<lambda>r. TransitionType r = t) rules"
  from assms have run: "run_rules State SetState ?rs sw args = (None, sw')"
    by (auto simp: Run_def build_machine_eq Let_def split: if_splits)
  show ?thesis
  proof (rule run_rules_cases [of ?rs State sw args SetState])
    assume "run_rules State SetState ?rs sw args = (Some NoConditionPassedToRunTransaction, sw)"
    with run show ?thesis by simp
  next
    fix err assume "run_rules State SetState ?rs sw args = (Some err, sw)"
    with run show ?thesis by simp
  next
    fix pre tr post
    assume "?rs = pre @ tr # post" and en: "enabled State tr sw args"
      and "run_rules State SetState ?rs sw args = fire SetState tr sw args"
    then have "tr \<in> set ?rs" and "fire SetState tr sw args = (None, sw')" using run by auto
    with en show ?thesis by auto
  qed
qed

theorem Run_success:
  assumes "Run State SetState (build_machine rules) t sw args = (None, sw')"
    and "\<And>tr. tr \<in> set rules \<Longrightarrow> enabled State tr sw args \<Longrightarrow> admissible tr sw"
  shows "\<exists>tr \<in> set rules. TransitionType tr = t \<and> enabled State tr sw args \<and>
           State sw' = DestinationState tr"
  using Run_fired [OF assms(1)] fire_destination assms(2) by blast

lemma Run_no_rule:
  assumes "\<forall>tr \<in> set rules. TransitionType tr = t \<longrightarrow> State sw \<notin> set (SourceStates tr)"
  shows "\<exists>err. Run State SetState (build_machine rules) t sw args = (Some err, sw)"
proof -
  have "run_rules State SetState rs sw args = (Some NoConditionPassedToRunTransaction, sw)"
    if "\<forall>r \<in> set rs. State sw \<notin> set (SourceStates r)"
    for rs :: "('t, 's, 'c, 'a) transition_rule list"
    using that by (induction rs) (auto simp: IsAllowedToRun_def)
  from this [of "filter (\<lambda>r. TransitionType r = t) rules"] show ?thesis
    using assms by (auto simp: Run_def build_machine_eq Let_def)
qed

end

section \<open>Switches whose state is stored\<close>

text \<open>
  The service keeps the state of the object that \<open>Run\<close> drives in a database row as well: \<open>stored\<close>
  reads the state of the row, \<open>origin\<close> the state that the transition started from, and a rule is admissible
  when the row has that state and the rule starts from it. A rule without a
  post transition leaves the state as it is; a transition callback does not touch the row; a post
  transition that succeeds has written the destination state, except for those of the exempt
  transition types.
\<close>

locale persistent_switch = state_switch State SetState rules
    "\<lambda>tr sw. wf sw \<and> stored sw = Some (origin sw) \<and> origin sw \<in> set (SourceStates tr)"
  for State :: "'c \<Rightarrow> 's" and SetState :: "'s \<Rightarrow> 'c \<Rightarrow> go_error option \<times> 'c"
    and rules :: "('t, 's, 'c, 'a) transition_rule list"
    and stored :: "'c \<Rightarrow> 's option" and origin :: "'c \<Rightarrow> 's" and wf :: "'c \<Rightarrow> bool" +
  fixes exempt :: "'t set"
  assumes SetState_frame:
      "SetState s sw = (None, sw') \<Longrightarrow> stored sw' = stored sw \<and> origin sw' = origin sw \<and> wf sw' = wf sw"
    and Transition_frame:
      "tr \<in> set rules \<Longrightarrow> Transition tr = Some f \<Longrightarrow> f sw args = (None, sw') \<Longrightarrow>
       stored sw' = stored sw \<and> origin sw' = origin sw \<and> wf sw' = wf sw"
    and noop_rule:
      "tr \<in> set rules \<Longrightarrow> PostTransition tr = None \<Longrightarrow> SourceStates tr = [DestinationState tr]"
    and post_stores:
      "tr \<in> set rules \<Longrightarrow> TransitionType tr \<notin> exempt \<Longrightarrow> PostTransition tr = Some f \<Longrightarrow> wf sw \<Longrightarrow>
       stored sw = Some (origin sw) \<Longrightarrow> origin sw \<in> set (SourceStates tr) \<Longrightarrow>
       State sw = DestinationState tr \<Longrightarrow> f sw args = (None, sw') \<Longrightarrow>
       stored sw' = Some (DestinationState tr)"
begin

lemma fire_stores:
  assumes "tr \<in> set rules" and "TransitionType tr \<notin> exempt" and "wf sw"
    and "stored sw = Some (origin sw)" and "origin sw \<in> set (SourceStates tr)"
    and "fire SetState tr sw args = (None, sw')"
  shows "stored sw' = Some (DestinationState tr)"
proof -
  obtain sw0 where tr: "(case Transition tr of None \<Rightarrow> (None, sw) | Some f \<Rightarrow> f sw args) = (None, sw0)"
    using assms(6) by (auto simp: fire_def split: option.splits prod.splits)
  have fr0: "stored sw0 = stored sw" "origin sw0 = origin sw" "wf sw0 = wf sw"
    using tr Transition_frame [OF assms(1), of _ sw args sw0] by (auto split: option.splits)
  obtain sw1 where set: "SetState (DestinationState tr) sw0 = (None, sw1)"
    and st: "State sw1 = DestinationState tr" using SetState_ok by blast
  note fr = SetState_frame [OF set] fr0
  show ?thesis
  proof (cases "PostTransition tr")
    case None
    with assms set fr tr show ?thesis
      using noop_rule [OF assms(1) None] by (auto simp: fire_def)
  next
    case (Some f)
    with assms(6) set tr have "f sw1 args = (None, sw')" by (simp add: fire_def)
    with post_stores [OF assms(1,2) Some _ _ _ st, of args sw'] show ?thesis
      using assms(3-5) fr by simp
  qed
qed

theorem Run_stores:
  assumes "Run State SetState (build_machine rules) t sw args = (None, sw')" and "t \<notin> exempt"
    and "wf sw" and "stored sw = Some (State sw)" and "origin sw = State sw"
  shows "stored sw' = Some (State sw')"
proof -
  from Run_fired [OF assms(1)] obtain tr where tr: "tr \<in> set rules" "TransitionType tr = t"
    "enabled State tr sw args" "fire SetState tr sw args = (None, sw')" by blast
  have "stored sw' = Some (DestinationState tr)"
    using fire_stores [OF tr(1) _ assms(3) _ _ tr(4)] assms tr enabled_source [OF tr(3)] by simp
  with fire_destination [OF tr(1) _ tr(4)] assms enabled_source [OF tr(3)] show ?thesis by simp
qed

end

section \<open>The rule that is selected\<close>

text \<open>The rule that \<open>Run\<close> fires, if the conditions before it do not fail.\<close>

fun select_rule ::
  "('c \<Rightarrow> 's) \<Rightarrow> ('t, 's, 'c, 'a) transition_rule list \<Rightarrow> 'c \<Rightarrow> 'a \<Rightarrow>
   go_error + ('t, 's, 'c, 'a) transition_rule option" where
  "select_rule State [] sw args = Inr None"
| "select_rule State (tr # trs) sw args =
     (case IsAllowedToRun State tr sw args of
        Inl err \<Rightarrow> Inl err
      | Inr allow \<Rightarrow> if allow then Inr (Some tr) else select_rule State trs sw args)"

lemma run_rules_select:
  "run_rules State SetState trs sw args =
     (case select_rule State trs sw args of
        Inl err \<Rightarrow> (Some err, sw)
      | Inr None \<Rightarrow> (Some NoConditionPassedToRunTransaction, sw)
      | Inr (Some tr) \<Rightarrow> fire SetState tr sw args)"
  by (induction trs) (auto split: sum.splits)

lemma select_rule_filter:
  "select_rule State (filter (\<lambda>tr. State sw \<in> set (SourceStates tr)) trs) sw args =
   select_rule State trs sw args"
  by (induction trs) (auto simp: IsAllowedToRun_def split: sum.splits option.splits)

lemma select_rule_Some:
  "select_rule State trs sw args = Inr (Some tr) \<Longrightarrow> tr \<in> set trs \<and> enabled State tr sw args"
  by (induction trs) (auto simp: enabled_def split: sum.splits if_splits)

end
