(* ===== verification/Models.thy ===== *)
theory Models
  imports Complex_Main Stateswitch "HOL-Library.Char_ord" "HOL-Library.List_Lexorder"
begin

text \<open>
  The data model (\<open>models/\<close> and \<open>internal/common/db.go\<close>): enumerated string types as datatypes with
  the names of the Go constants, hosts, clusters, disks and inventories as records. A record holds
  the fields that the modelled operations read or write; an enumerated field that may be unset has
  a constructor for the empty string, and a pointer that the code compares with \<open>nil\<close> is an option.
\<close>

section \<open>Enumerated types\<close>

text \<open>\<open>HostStatusEmpty\<close> is both a nil pointer and the empty string, as \<open>swag.StringValue\<close> reads them.\<close>

datatype host_status =
    HostStatusEmpty
  | HostStatusDiscovering | HostStatusKnown | HostStatusDisconnected | HostStatusInsufficient
  | HostStatusDisabled | HostStatusPreparingForInstallation | HostStatusPreparingFailed
  | HostStatusPreparingSuccessful | HostStatusPendingForInput | HostStatusInstalling
  | HostStatusInstallingInProgress | HostStatusInstallingPendingUserAction
  | HostStatusResettingPendingUserAction | HostStatusInstalled | HostStatusError
  | HostStatusResetting | HostStatusAddedToExistingCluster | HostStatusCancelled
  | HostStatusBinding | HostStatusUnbinding | HostStatusUnbindingPendingUserAction
  | HostStatusKnownUnbound | HostStatusDisconnectedUnbound | HostStatusInsufficientUnbound
  | HostStatusDisabledUnbound | HostStatusDiscoveringUnbound | HostStatusReclaiming
  | HostStatusReclaimingRebooting

datatype host_stage =
    HostStageEmpty
  | HostStageStartingInstallation | HostStageWaitingForControlPlane | HostStageWaitingForBootkube
  | HostStageWaitingForController | HostStageInstalling | HostStageWritingImageToDisk
  | HostStageCopyingRegistryDataToDisk | HostStageRebooting | HostStageWaitingForIgnition
  | HostStageConfiguring | HostStageJoined | HostStageDone | HostStageFailed

datatype host_role =
    HostRoleEmpty | HostRoleAutoAssign | HostRoleMaster | HostRoleArbiter | HostRoleWorker
  | HostRoleBootstrap

datatype host_kind = HostKindEmpty | HostKindHost | HostKindAddToExistingClusterHost

datatype media_status = HostMediaStatusConnected | HostMediaStatusDisconnected

datatype logs_state =
    LogsStateRequested | LogsStateCollecting | LogsStateCompleted | LogsStateTimeout
  | LogsStateEmpty

datatype cluster_status =
    ClusterStatusInsufficient | ClusterStatusReady | ClusterStatusError
  | ClusterStatusPreparingForInstallation | ClusterStatusPendingForInput
  | ClusterStatusInstalling | ClusterStatusFinalizing | ClusterStatusInstalled
  | ClusterStatusAddingHosts | ClusterStatusCancelled
  | ClusterStatusInstallingPendingUserAction | ClusterStatusUnmonitored

datatype cluster_kind =
    ClusterKindCluster | ClusterKindAddHostsCluster | ClusterKindDisconnectedCluster

datatype preparation_status =
    LastInstallationPreparationStatusEmpty
  | LastInstallationPreparationStatusNotStarted
  | LastInstallationPreparationStatusFailed
  | LastInstallationPreparationStatusSuccess

datatype drive_type =
    DriveTypeUnknown | DriveTypeHDD | DriveTypeFDD | DriveTypeODD | DriveTypeSSD | DriveTypeVirtual
  | DriveTypeMultipath | DriveTypeISCSI | DriveTypeFC | DriveTypeLVM | DriveTypeRAID
  | DriveTypeECKD | DriveTypeECKDESE | DriveTypeFBA

datatype finalizing_stage =
    FinalizingStageEmpty
  | FinalizingStageWaitingForClusterOperators | FinalizingStageAddingRouterCa
  | FinalizingStageApplyingOlmManifests | FinalizingStageWaitingForOlmOperatorsCsvInitialization
  | FinalizingStageWaitingForOlmOperatorsCsv | FinalizingStageWaitingForOLMOperatorSetupJobs
  | FinalizingStageDone

datatype operator_type = OperatorTypeBuiltin | OperatorTypeOlm

datatype operator_status =
    OperatorStatusEmpty | OperatorStatusFailed | OperatorStatusProgressing | OperatorStatusAvailable

datatype event_severity =
    EventSeverityInfo | EventSeverityWarning | EventSeverityError | EventSeverityCritical

fun host_stage_string :: "host_stage \<Rightarrow> string" where
  "host_stage_string HostStageEmpty = ''''"
| "host_stage_string HostStageStartingInstallation = ''Starting installation''"
| "host_stage_string HostStageWaitingForControlPlane = ''Waiting for control plane''"
| "host_stage_string HostStageWaitingForBootkube = ''Waiting for bootkube''"
| "host_stage_string HostStageWaitingForController = ''Waiting for controller''"
| "host_stage_string HostStageInstalling = ''Installing''"
| "host_stage_string HostStageWritingImageToDisk = ''Writing image to disk''"
| "host_stage_string HostStageCopyingRegistryDataToDisk = ''Copying registry data to disk''"
| "host_stage_string HostStageRebooting = ''Rebooting''"
| "host_stage_string HostStageWaitingForIgnition = ''Waiting for ignition''"
| "host_stage_string HostStageConfiguring = ''Configuring''"
| "host_stage_string HostStageJoined = ''Joined''"
| "host_stage_string HostStageDone = ''Done''"
| "host_stage_string HostStageFailed = ''Failed''"

fun host_role_string :: "host_role \<Rightarrow> string" where
  "host_role_string HostRoleEmpty = ''''"
| "host_role_string HostRoleAutoAssign = ''auto-assign''"
| "host_role_string HostRoleMaster = ''master''"
| "host_role_string HostRoleArbiter = ''arbiter''"
| "host_role_string HostRoleWorker = ''worker''"
| "host_role_string HostRoleBootstrap = ''bootstrap''"

text \<open>Distinct constants have distinct strings, so comparing constructors is comparing strings.\<close>

lemma host_stage_string_inj [simp]:
  "host_stage_string s = host_stage_string s' \<longleftrightarrow> s = s'"
  by (cases s; cases s'; simp)

lemma host_role_string_inj [simp]: "host_role_string r = host_role_string r' \<longleftrightarrow> r = r'"
  by (cases r; cases r'; simp)

section \<open>Records\<close>

type_synonym uuid = string

record disk =
  Disk_ID :: string
  Disk_ByPath :: string
  Disk_Path :: string
  Disk_Name :: string
  Disk_Model :: string
  Disk_Serial :: string
  Disk_Vendor :: string
  Disk_Hctl :: string
  Disk_Wwn :: string
  Disk_SizeBytes :: int
  Disk_DriveType :: drive_type
  Disk_Eligible :: bool
  Disk_Holders :: string

text \<open>\<open>Inv_HasMemory\<close> and \<open>Inv_HasCPU\<close> say whether the pointers \<open>Memory\<close> and \<open>CPU\<close> are set.\<close>

record inventory =
  Inv_Hostname :: string
  Inv_Disks :: "disk list"
  Inv_BootDeviceType :: "string option"
  Inv_HasMemory :: bool
  Inv_HasCPU :: bool

text \<open>\<open>models.HostProgressInfo\<close>.\<close>

record host_progress =
  CurrentStage :: host_stage
  InstallationPercentage :: int
  ProgressInfo :: string
  StageStartedAt :: time
  StageUpdatedAt :: time
  StageTimedOut :: bool

definition zero_progress :: host_progress where
  "zero_progress = \<lparr>CurrentStage = HostStageEmpty, InstallationPercentage = 0, ProgressInfo = '''',
     StageStartedAt = 0, StageUpdatedAt = 0, StageTimedOut = False\<rparr>"

text \<open>
  \<open>common.Host\<close>, which embeds \<open>models.Host\<close>. \<open>Host_ID\<close> is a pointer in Go but the primary key,
  set in every host that reaches the modelled code.
\<close>

record host =
  Host_ID :: uuid
  Host_InfraEnvID :: uuid
  Host_ClusterID :: "uuid option"
  Host_Kind :: host_kind
  Host_Status :: host_status
  Host_StatusInfo :: "string option"
  Host_StatusUpdatedAt :: time
  Host_Role :: host_role
  Host_SuggestedRole :: host_role
  Host_Bootstrap :: bool
  Host_Progress :: "host_progress option"
  Host_StageStartedAt :: time
  Host_StageUpdatedAt :: time
  Host_LogsInfo :: logs_state
  Host_LogsStartedAt :: time
  Host_LogsCollectedAt :: time
  Host_Inventory :: string
  Host_ImagesStatus :: string
  Host_DisksInfo :: string
  Host_Connectivity :: string
  Host_APIVipConnectivity :: string
  Host_TangConnectivity :: string
  Host_DomainNameResolutions :: string
  Host_FreeAddresses :: string
  Host_NtpSources :: string
  Host_InstallationDiskID :: string
  Host_InstallationDiskPath :: string
  Host_MachineConfigPoolName :: string
  Host_DiscoveryAgentVersion :: string
  Host_InstallerVersion :: string
  Host_RequestedHostname :: string
  Host_MediaStatus :: "media_status option"
  Host_ConnectionTimedOut :: bool
  Host_CheckedInAt :: time
  Host_RegisteredAt :: time
  Host_ValidationsInfo :: string
  Host_FencingCredentials :: string
  Host_IgnitionConfigOverrides :: string
  Host_InstallerArgs :: string
  Host_NodeLabels :: string
  Host_DisksToBeFormatted :: string
  Host_SkipFormattingDisks :: string
  Host_Timestamp :: int
  Host_IgnitionEndpointTokenSet :: bool
  Host_IgnitionEndpointToken :: string
  Host_IgnitionEndpointHTTPHeaders :: string
  Host_KubeKeyNamespace :: string
  Host_Approved :: bool
  Host_TriggerMonitorTimestamp :: time

text \<open>The zero value \<open>models.Host{}\<close>.\<close>

definition zero_host :: host where
  "zero_host = \<lparr>Host_ID = '''', Host_InfraEnvID = '''', Host_ClusterID = None,
     Host_Kind = HostKindEmpty, Host_Status = HostStatusEmpty, Host_StatusInfo = None,
     Host_StatusUpdatedAt = 0, Host_Role = HostRoleEmpty,
     Host_SuggestedRole = HostRoleEmpty, Host_Bootstrap = False, Host_Progress = None,
     Host_StageStartedAt = 0, Host_StageUpdatedAt = 0, Host_LogsInfo = LogsStateEmpty,
     Host_LogsStartedAt = 0, Host_LogsCollectedAt = 0, Host_Inventory = '''',
     Host_ImagesStatus = '''', Host_DisksInfo = '''', Host_Connectivity = '''',
     Host_APIVipConnectivity = '''', Host_TangConnectivity = '''',
     Host_DomainNameResolutions = '''', Host_FreeAddresses = '''',
     Host_NtpSources = '''', Host_InstallationDiskID = '''',
     Host_InstallationDiskPath = '''', Host_MachineConfigPoolName = '''',
     Host_DiscoveryAgentVersion = '''', Host_InstallerVersion = '''',
     Host_RequestedHostname = '''', Host_MediaStatus = None,
     Host_ConnectionTimedOut = False, Host_CheckedInAt = 0, Host_RegisteredAt = 0,
     Host_ValidationsInfo = '''', Host_FencingCredentials = '''',
     Host_IgnitionConfigOverrides = '''', Host_InstallerArgs = '''',
     Host_NodeLabels = '''', Host_DisksToBeFormatted = '''',
     Host_SkipFormattingDisks = '''', Host_Timestamp = 0,
     Host_IgnitionEndpointTokenSet = False, Host_IgnitionEndpointToken = '''',
     Host_IgnitionEndpointHTTPHeaders = '''', Host_KubeKeyNamespace = '''',
     Host_Approved = False, Host_TriggerMonitorTimestamp = 0\<rparr>"

text \<open>\<open>models.ClusterProgressInfo\<close> and \<open>models.MonitoredOperator\<close>.\<close>

record cluster_progress =
  FinalizingStage :: finalizing_stage
  FinalizingStagePercentage :: int
  FinalizingStageStartedAt :: time
  FinalizingStageTimedOut :: bool
  InstallingStagePercentage :: int
  PreparingForInstallationStagePercentage :: int
  TotalPercentage :: int

definition zero_cluster_progress :: cluster_progress where
  "zero_cluster_progress = \<lparr>FinalizingStage = FinalizingStageEmpty, FinalizingStagePercentage = 0,
     FinalizingStageStartedAt = 0, FinalizingStageTimedOut = False, InstallingStagePercentage = 0,
     PreparingForInstallationStagePercentage = 0, TotalPercentage = 0\<rparr>"

record monitored_operator =
  MO_Name :: string
  MO_OperatorType :: operator_type
  MO_Status :: operator_status
  MO_TimeoutSeconds :: int

text \<open>
  The fields of \<open>common.Cluster\<close> that the modelled code uses. \<open>Cluster_Hosts\<close> is filled when a query
  loads the associated hosts; the other associations (operators, networks and VIPs) are kept with the
  row. A cluster network is a CIDR with the prefix of its hosts.
\<close>

record cluster =
  Cluster_ID :: uuid
  Cluster_Kind :: cluster_kind
  Cluster_Status :: cluster_status
  Cluster_StatusInfo :: string
  Cluster_StatusUpdatedAt :: time
  Cluster_ControlPlaneCount :: int
  Cluster_PreparationStatus :: preparation_status
  Cluster_PreparationReason :: string
  Cluster_IgnoredHostValidations :: string
  Cluster_OrgSoftTimeoutsEnabled :: bool
  Cluster_TriggerMonitorTimestamp :: time
  Cluster_Hosts :: "host list"
  Cluster_Name :: string
  Cluster_BaseDNSDomain :: string
  Cluster_InstallStartedAt :: time
  Cluster_InstallCompletedAt :: time
  Cluster_Progress :: "cluster_progress option"
  Cluster_LogsInfo :: logs_state
  Cluster_ControllerLogsStartedAt :: time
  Cluster_ControllerLogsCollectedAt :: time
  Cluster_OpenshiftClusterID :: string
  Cluster_AmsSubscriptionID :: string
  Cluster_IsAmsSubscriptionConsoleUrlSet :: bool
  Cluster_APIVipDNSName :: string
  Cluster_MonitoredOperators :: "monitored_operator list"
  Cluster_VipDhcpAllocation :: bool
  Cluster_APIVips :: "string list"
  Cluster_IngressVips :: "string list"
  Cluster_MachineNetworks :: "string list"
  Cluster_IgnoredClusterValidations :: string
  Cluster_ValidationsInfo :: string
  Cluster_UserManagedNetworking :: bool
  Cluster_ClusterNetworks :: "(string \<times> int) list"
  Cluster_ServiceNetworks :: "string list"
  Cluster_MachineNetworkCidrUpdatedAt :: time
  Cluster_PullSecretSet :: bool
  Cluster_SchedulableMastersForcedTrue :: "bool option"
  Cluster_ApiVipLease :: string
  Cluster_IngressVipLease :: string

definition zero_cluster :: cluster where
  "zero_cluster = \<lparr>Cluster_ID = '''', Cluster_Kind = ClusterKindCluster,
     Cluster_Status = ClusterStatusInsufficient, Cluster_StatusInfo = '''',
     Cluster_StatusUpdatedAt = 0, Cluster_ControlPlaneCount = 0,
     Cluster_PreparationStatus = LastInstallationPreparationStatusEmpty,
     Cluster_PreparationReason = '''', Cluster_IgnoredHostValidations = '''',
     Cluster_OrgSoftTimeoutsEnabled = False, Cluster_TriggerMonitorTimestamp = 0,
     Cluster_Hosts = [], Cluster_Name = '''', Cluster_BaseDNSDomain = '''', Cluster_InstallStartedAt = 0,
     Cluster_InstallCompletedAt = 0, Cluster_Progress = None, Cluster_LogsInfo = LogsStateEmpty,
     Cluster_ControllerLogsStartedAt = 0, Cluster_ControllerLogsCollectedAt = 0,
     Cluster_OpenshiftClusterID = '''', Cluster_AmsSubscriptionID = '''',
     Cluster_IsAmsSubscriptionConsoleUrlSet = False, Cluster_APIVipDNSName = '''',
     Cluster_MonitoredOperators = [], Cluster_VipDhcpAllocation = False, Cluster_APIVips = [],
     Cluster_IngressVips = [], Cluster_MachineNetworks = [], Cluster_IgnoredClusterValidations = '''',
     Cluster_ValidationsInfo = '''', Cluster_UserManagedNetworking = False,
     Cluster_ClusterNetworks = [], Cluster_ServiceNetworks = [],
     Cluster_MachineNetworkCidrUpdatedAt = 0, Cluster_PullSecretSet = False,
     Cluster_SchedulableMastersForcedTrue = None, Cluster_ApiVipLease = '''',
     Cluster_IngressVipLease = ''''\<rparr>"

text \<open>\<open>models.DiskInfo\<close>, \<open>models.DiskSpeed\<close> and \<open>models.ContainerImageAvailability\<close>.\<close>

record disk_speed =
  DS_ExitCode :: int
  DS_SpeedMs :: int
  DS_Tested :: bool

record disk_info =
  DI_Path :: string
  DI_DiskSpeed :: "disk_speed option"

datatype image_result = ContainerImageAvailabilityResultSuccess | ContainerImageAvailabilityResultFailure

text \<open>The rate, a \<open>float64\<close> in megabytes per second, is a rational number.\<close>

record image_status =
  Img_Name :: string
  Img_Result :: image_result
  Img_SizeBytes :: rat
  Img_DownloadRate :: rat
  Img_Time :: rat

end
