(* ===== verification/Host_Utils.thy ===== *)
theory Host_Utils
  imports Models
begin

text \<open>
  Pure helpers on hosts, disks and clusters: \<open>internal/host/hostutil/host_utils.go\<close>,
  \<open>internal/common/disks_info.go\<close> and the host-counting functions of \<open>internal/common/common.go\<close>.
  Decoding an inventory is the parameter \<open>UnmarshalInventory\<close> (Go's \<open>encoding/json\<close>).
\<close>

type_synonym unmarshal = "string \<Rightarrow> go_error + inventory"

section \<open>Host attributes\<close>

definition GetCurrentHostName :: "unmarshal \<Rightarrow> host \<Rightarrow> go_error + string" where
  "GetCurrentHostName UnmarshalInventory h =
     (if Host_RequestedHostname h \<noteq> '''' then Inr (Host_RequestedHostname h)
      else (case UnmarshalInventory (Host_Inventory h) of
              Inl err \<Rightarrow> Inl err
            | Inr invt \<Rightarrow> Inr (Inv_Hostname invt)))"

definition GetHostnameForMsg :: "unmarshal \<Rightarrow> host \<Rightarrow> string" where
  "GetHostnameForMsg UnmarshalInventory h =
     (case GetCurrentHostName UnmarshalInventory h of
        Inl _ \<Rightarrow> Host_ID h
      | Inr hostName \<Rightarrow> (if hostName = '''' then Host_ID h else hostName))"

fun GetEventSeverityFromHostStatus :: "host_status \<Rightarrow> event_severity" where
  "GetEventSeverityFromHostStatus HostStatusDisconnected = EventSeverityWarning"
| "GetEventSeverityFromHostStatus HostStatusInstallingPendingUserAction = EventSeverityWarning"
| "GetEventSeverityFromHostStatus HostStatusInsufficient = EventSeverityWarning"
| "GetEventSeverityFromHostStatus HostStatusError = EventSeverityError"
| "GetEventSeverityFromHostStatus _ = EventSeverityInfo"

definition IsRoleValid :: "host_role \<Rightarrow> bool \<Rightarrow> bool" where
  "IsRoleValid requestedRole isDay2Host =
     List.member
       (if isDay2Host
        then [HostRoleAutoAssign, HostRoleMaster, HostRoleArbiter, HostRoleWorker]
        else [HostRoleAutoAssign, HostRoleBootstrap, HostRoleMaster, HostRoleArbiter,
              HostRoleWorker]) requestedRole"

definition IsDay2Host :: "host \<Rightarrow> bool" where
  "IsDay2Host h \<longleftrightarrow> Host_Kind h = HostKindAddToExistingClusterHost"

definition IsUnboundHost :: "host \<Rightarrow> bool" where
  "IsUnboundHost h \<longleftrightarrow> Host_ClusterID h = None"

definition GetEffectiveRole :: "host \<Rightarrow> host_role" where
  "GetEffectiveRole h =
     (if Host_Role h = HostRoleAutoAssign \<and> Host_SuggestedRole h \<noteq> HostRoleEmpty
      then Host_SuggestedRole h else Host_Role h)"

definition IgnitionFileName :: "host \<Rightarrow> string" where
  "IgnitionFileName h = host_role_string (GetEffectiveRole h) @ ''-'' @ Host_ID h @ ''.ign''"

definition SaveDiskPartitionsIsSet :: "string \<Rightarrow> bool" where
  "SaveDiskPartitionsIsSet installerArgs =
     list_ex (Contains installerArgs) [''--save-partlabel'', ''--save-partindex'']"

section \<open>Host names\<close>

definition MaxHostnameLength :: nat where
  "MaxHostnameLength = 63"

definition ForbiddenHostnames :: "string list" where
  "ForbiddenHostnames =
     [''localhost'', ''localhost.localdomain'', ''localhost4'', ''localhost4.localdomain4'',
      ''localhost6'', ''localhost6.localdomain6'']"

definition alnum_char :: "char \<Rightarrow> bool" where
  "alnum_char c \<longleftrightarrow> (CHR ''a'' \<le> c \<and> c \<le> CHR ''z'') \<or> (CHR ''0'' \<le> c \<and> c \<le> CHR ''9'')"

definition label_char :: "char \<Rightarrow> bool" where
  "label_char c \<longleftrightarrow> alnum_char c \<or> c = CHR ''-''"

text \<open>The dot-separated labels of a string.\<close>

fun split_dots :: "string \<Rightarrow> string list" where
  "split_dots [] = [[]]"
| "split_dots (c # cs) =
     (if c = CHR ''.'' then [] # split_dots cs
      else (case split_dots cs of [] \<Rightarrow> [[c]] | l # ls \<Rightarrow> (c # l) # ls))"

text \<open>
  \<open>HostnamePattern\<close>, \<open>^[a-z0-9][a-z0-9-]{0,62}(?:[.][a-z0-9-]{1,63})*$\<close>: neither class contains a
  dot, so a match is a first label that starts with a letter or digit and further non-empty labels.
\<close>

definition HostnamePattern :: "string \<Rightarrow> bool" where
  "HostnamePattern s =
     (case split_dots s of
        [] \<Rightarrow> False
      | l # ls \<Rightarrow>
          (case l of [] \<Rightarrow> False | c # cs \<Rightarrow> alnum_char c \<and> length cs \<le> 62 \<and> list_all label_char cs) \<and>
          list_all (\<lambda>x. 1 \<le> length x \<and> length x \<le> 63 \<and> list_all label_char x) ls)"

definition ValidateHostname :: "string \<Rightarrow> go_error option" where
  "ValidateHostname hostname =
     (if length hostname > MaxHostnameLength
      then Some (ApiError 400 (ErrNew ''hostname is too long, must be 63 characters or less''))
      else if \<not> HostnamePattern hostname
      then Some (ApiError 400 (ErrNew ''Hostname does not pass required regex validation''))
      else if List.member ForbiddenHostnames hostname
      then Some (ApiError 400 (ErrNew ''The host name is forbidden''))
      else None)"

section \<open>Installation disks\<close>

definition GetDeviceFullName :: "disk \<Rightarrow> string" where
  "GetDeviceFullName d = ''/dev/'' @ Disk_Name d"

definition GetDeviceIdentifier :: "disk \<Rightarrow> string" where
  "GetDeviceIdentifier d = (if Disk_ID d \<noteq> '''' then Disk_ID d else GetDeviceFullName d)"

definition GetDiskByInstallationPath :: "disk list \<Rightarrow> string \<Rightarrow> disk option" where
  "GetDiskByInstallationPath disks installationPath =
     (if disks = [] \<or> installationPath = '''' then None
      else find (\<lambda>d. Disk_ID d = installationPath \<or> Disk_ByPath d = installationPath \<or>
                     GetDeviceFullName d = installationPath) disks)"

definition DetermineInstallationDisk :: "disk list \<Rightarrow> string \<Rightarrow> disk option" where
  "DetermineInstallationDisk disks installationPath =
     (case disks of
        [] \<Rightarrow> None
      | d # _ \<Rightarrow> (case GetDiskByInstallationPath disks installationPath of
                    None \<Rightarrow> Some d
                  | Some installationDisk \<Rightarrow> Some installationDisk))"

definition GetHostInstallationPath :: "host \<Rightarrow> string" where
  "GetHostInstallationPath h =
     (if Host_InstallationDiskID h \<noteq> '''' then Host_InstallationDiskID h
      else Host_InstallationDiskPath h)"

definition GetHostInstallationDisk :: "unmarshal \<Rightarrow> host \<Rightarrow> go_error + disk" where
  "GetHostInstallationDisk UnmarshalInventory h =
     (case UnmarshalInventory (Host_Inventory h) of
        Inl err \<Rightarrow> Inl err
      | Inr invt \<Rightarrow>
          (case GetDiskByInstallationPath (Inv_Disks invt) (GetHostInstallationPath h) of
             None \<Rightarrow> Inl (ErrNew ''installation disk not found for host'')
           | Some d \<Rightarrow> Inr d))"

record root_device_hints =
  Hint_DeviceName :: string
  Hint_HCTL :: string
  Hint_Model :: string
  Hint_Vendor :: string
  Hint_SerialNumber :: string
  Hint_MinSizeGigabytes :: int
  Hint_WWN :: string
  Hint_Rotational :: "bool option"

definition BytesToGb :: "int \<Rightarrow> int" where
  "BytesToGb bytes = go_div bytes 1000000000"

fun GetAcceptableDisksWithHints :: "disk list \<Rightarrow> root_device_hints option \<Rightarrow> disk list" where
  "GetAcceptableDisksWithHints [] hints = []"
| "GetAcceptableDisksWithHints (d # ds) hints =
     (let rest = GetAcceptableDisksWithHints ds hints in
      if \<not> Disk_Eligible d then rest
      else (case hints of
        None \<Rightarrow> d # rest
      | Some hs \<Rightarrow>
          if Hint_DeviceName hs \<noteq> '''' \<and> Hint_DeviceName hs \<noteq> Disk_Path d \<and>
             Hint_DeviceName hs \<noteq> Disk_ByPath d then rest
          else if Hint_HCTL hs \<noteq> '''' \<and> Hint_HCTL hs \<noteq> Disk_Hctl d then rest
          else if Hint_Model hs \<noteq> '''' \<and> \<not> Contains (Disk_Model d) (Hint_Model hs) then rest
          else if Hint_Vendor hs \<noteq> '''' \<and> \<not> Contains (Disk_Vendor d) (Hint_Vendor hs) then rest
          else if Hint_SerialNumber hs \<noteq> '''' \<and> Hint_SerialNumber hs \<noteq> Disk_Serial d then rest
          else if Hint_MinSizeGigabytes hs \<noteq> 0 \<and>
                  BytesToGb (Disk_SizeBytes d) < Hint_MinSizeGigabytes hs then rest
          else if Hint_WWN hs \<noteq> '''' \<and> Hint_WWN hs \<noteq> Disk_Wwn d then rest
          else if Hint_Rotational hs \<noteq> None \<and>
                  Hint_Rotational hs \<noteq> Some (Disk_DriveType d = DriveTypeHDD) then rest
          else d # rest))"

fun GetAllDisksOfHolder :: "disk list \<Rightarrow> disk \<Rightarrow> disk list" where
  "GetAllDisksOfHolder [] holderDisk = []"
| "GetAllDisksOfHolder (d # ds) holderDisk =
     (if Contains (Disk_Holders d) (Disk_Name holderDisk)
      then d # GetAllDisksOfHolder ds holderDisk else GetAllDisksOfHolder ds holderDisk)"

definition GetDisksOfHolderByType :: "disk list \<Rightarrow> disk \<Rightarrow> drive_type \<Rightarrow> disk list" where
  "GetDisksOfHolderByType allDisks holderDisk driveTypeFilter =
     filter (\<lambda>d. Disk_DriveType d = driveTypeFilter) (GetAllDisksOfHolder allDisks holderDisk)"

section \<open>Counting the hosts of a cluster\<close>

definition MinMasterHostsNeededForInstallationInHaMode :: nat where
  "MinMasterHostsNeededForInstallationInHaMode = 3"

definition MinMasterHostsNeededForInstallationInHaArbiterMode :: nat where
  "MinMasterHostsNeededForInstallationInHaArbiterMode = 2"

definition AllowedNumberOfMasterHostsInNoneHaMode :: nat where
  "AllowedNumberOfMasterHostsInNoneHaMode = 1"

definition AllowedNumberOfWorkersInNoneHaMode :: nat where
  "AllowedNumberOfWorkersInNoneHaMode = 0"

definition AllowedNumberOfMasterHostsInTwoNodesWithFencing :: nat where
  "AllowedNumberOfMasterHostsInTwoNodesWithFencing = 2"

definition MinimumNumberOfWorkersForNonSchedulableMastersClusterInHaMode :: nat where
  "MinimumNumberOfWorkersForNonSchedulableMastersClusterInHaMode = 2"

lemmas host_count_consts =
  MinMasterHostsNeededForInstallationInHaMode_def
  MinMasterHostsNeededForInstallationInHaArbiterMode_def
  AllowedNumberOfMasterHostsInNoneHaMode_def
  AllowedNumberOfWorkersInNoneHaMode_def
  AllowedNumberOfMasterHostsInTwoNodesWithFencing_def
  MinimumNumberOfWorkersForNonSchedulableMastersClusterInHaMode_def

definition IsSingleNodeCluster :: "cluster \<Rightarrow> bool" where
  "IsSingleNodeCluster c \<longleftrightarrow> Cluster_ControlPlaneCount c = 1"

definition IsDay2Cluster :: "cluster \<Rightarrow> bool" where
  "IsDay2Cluster c \<longleftrightarrow> Cluster_Kind c = ClusterKindAddHostsCluster"

definition GetHostsByRole :: "cluster option \<Rightarrow> host_role \<Rightarrow> host list" where
  "GetHostsByRole c role =
     (case c of None \<Rightarrow> [] | Some cl \<Rightarrow> filter (\<lambda>h. GetEffectiveRole h = role) (Cluster_Hosts cl))"

fun each_role ::
  "(host \<Rightarrow> host_role) \<Rightarrow> host list \<Rightarrow> host list \<times> host list \<times> host list \<times> host list" where
  "each_role roleFunction [] = ([], [], [], [])"
| "each_role roleFunction (h # hs) =
     (case each_role roleFunction hs of (ms, as, ws, aa) \<Rightarrow>
        (case roleFunction h of
           HostRoleMaster \<Rightarrow> (h # ms, as, ws, aa)
         | HostRoleBootstrap \<Rightarrow> (h # ms, as, ws, aa)
         | HostRoleArbiter \<Rightarrow> (ms, h # as, ws, aa)
         | HostRoleWorker \<Rightarrow> (ms, as, h # ws, aa)
         | HostRoleAutoAssign \<Rightarrow> (ms, as, ws, h # aa)
         | HostRoleEmpty \<Rightarrow> (ms, as, ws, aa)))"

definition GetHostsByEachRole ::
  "cluster \<Rightarrow> bool \<Rightarrow> host list \<times> host list \<times> host list \<times> host list" where
  "GetHostsByEachRole c effectiveRoles =
     each_role (if effectiveRoles then GetEffectiveRole else Host_Role) (Cluster_Hosts c)"

definition ShouldMastersBeSchedulable :: "cluster \<Rightarrow> bool" where
  "ShouldMastersBeSchedulable c =
     (if Cluster_ControlPlaneCount c = 1 then True
      else (case GetHostsByEachRole c True of (_, _, workers, _) \<Rightarrow>
              length workers < MinimumNumberOfWorkersForNonSchedulableMastersClusterInHaMode))"

definition NumberOfWorkers :: "cluster \<Rightarrow> nat" where
  "NumberOfWorkers c =
     fold (\<lambda>h num. if GetEffectiveRole h \<noteq> HostRoleWorker then num else num + 1)
       (Cluster_Hosts c) 0"

definition IsClusterTopologyHighlyAvailableArbiter :: "cluster option \<Rightarrow> bool" where
  "IsClusterTopologyHighlyAvailableArbiter c \<longleftrightarrow> GetHostsByRole c HostRoleArbiter \<noteq> []"

definition IsClusterTopologyTwoNodesWithFencing :: "cluster option \<Rightarrow> bool" where
  "IsClusterTopologyTwoNodesWithFencing c =
     (case c of
        None \<Rightarrow> False
      | Some cl \<Rightarrow>
          if Cluster_ControlPlaneCount cl \<noteq> int AllowedNumberOfMasterHostsInTwoNodesWithFencing
          then False
          else if IsClusterTopologyHighlyAvailableArbiter c then False
          else (let masters = GetHostsByRole c HostRoleMaster in
                if length masters \<noteq> AllowedNumberOfMasterHostsInTwoNodesWithFencing then False
                else list_all (\<lambda>m. Host_FencingCredentials m \<noteq> '''') masters))"

fun HostsInStatus :: "host list \<Rightarrow> host_status list \<Rightarrow> nat \<times> nat \<times> nat" where
  "HostsInStatus [] statuses = (0, 0, 0)"
| "HostsInStatus (h # hs) statuses =
     (case HostsInStatus hs statuses of (masters, arbiters, workers) \<Rightarrow>
        if List.member statuses (Host_Status h)
        then (case GetEffectiveRole h of
                HostRoleMaster \<Rightarrow> (masters + 1, arbiters, workers)
              | HostRoleBootstrap \<Rightarrow> (masters + 1, arbiters, workers)
              | HostRoleArbiter \<Rightarrow> (masters, arbiters + 1, workers)
              | HostRoleWorker \<Rightarrow> (masters, arbiters, workers + 1)
              | _ \<Rightarrow> (masters, arbiters, workers))
        else (masters, arbiters, workers))"

definition HasEnoughMastersAndWorkers :: "cluster \<Rightarrow> host_status list \<Rightarrow> bool" where
  "HasEnoughMastersAndWorkers c statuses =
     (case HostsInStatus (Cluster_Hosts c) statuses of
        (mastersInStatus, arbitersInStatus, workersInStatus) \<Rightarrow>
        if Cluster_ControlPlaneCount c = 1
        then mastersInStatus = AllowedNumberOfMasterHostsInNoneHaMode \<and>
             workersInStatus = AllowedNumberOfWorkersInNoneHaMode
        else (case GetHostsByEachRole c False of (masters, arbiters, workers, _) \<Rightarrow>
          let numberOfExpectedMasters = length masters;
              numberOfExpectedArbiters = length arbiters;
              minMasterHostsNeeded =
                (if numberOfExpectedArbiters \<noteq> 0
                 then MinMasterHostsNeededForInstallationInHaArbiterMode
                 else MinMasterHostsNeededForInstallationInHaMode)
          in if numberOfExpectedArbiters \<noteq> 0 \<and> arbitersInStatus = 0 then False
             else let minMasterHostsNeeded =
                    (if IsClusterTopologyTwoNodesWithFencing (Some c)
                     then AllowedNumberOfMasterHostsInTwoNodesWithFencing
                     else minMasterHostsNeeded)
               in if numberOfExpectedMasters < minMasterHostsNeeded \<or>
                     mastersInStatus < numberOfExpectedMasters then False
                  else let numberOfExpectedWorkers = length workers in
                    numberOfExpectedWorkers <
                      MinimumNumberOfWorkersForNonSchedulableMastersClusterInHaMode \<or>
                    numberOfExpectedWorkers \<ge>
                      MinimumNumberOfWorkersForNonSchedulableMastersClusterInHaMode \<and>
                    workersInStatus \<ge>
                      MinimumNumberOfWorkersForNonSchedulableMastersClusterInHaMode))"

text \<open>\<open>IsNtpSynced\<close>: the running minimum and maximum of the reported clocks, in seconds.\<close>

definition MaximumAllowedTimeDiffMinutes :: int where
  "MaximumAllowedTimeDiffMinutes = 4"

definition ntp_step :: "host \<Rightarrow> int \<times> int \<Rightarrow> int \<times> int" where
  "ntp_step h mm =
     (case mm of (mn, mx) \<Rightarrow>
        if Host_Status h = HostStatusDisconnected \<or>
           Host_Status h = HostStatusResettingPendingUserAction \<or>
           Host_Status h = HostStatusDiscovering \<or> Host_Timestamp h = 0 then (mn, mx)
        else (if Host_Timestamp h < mn \<or> mn = 0 then Host_Timestamp h else mn,
              if Host_Timestamp h > mx then Host_Timestamp h else mx))"

definition IsNtpSynced :: "cluster \<Rightarrow> bool" where
  "IsNtpSynced c =
     (case fold ntp_step (Cluster_Hosts c) (0, 0) of (mn, mx) \<Rightarrow>
        go_div (mx - mn) 60 \<le> MaximumAllowedTimeDiffMinutes)"

fun CanonizeStrings :: "string list \<Rightarrow> string list" where
  "CanonizeStrings [] = []"
| "CanonizeStrings [s] = [s]"
| "CanonizeStrings (s # t # ss) =
     (if t \<noteq> s then s # CanonizeStrings (t # ss) else CanonizeStrings (t # ss))"

end
