(* ===== verification/Guarded_Store.thy ===== *)
theory Guarded_Store
  imports Prelude
begin

text \<open>
  The contract of the service's row updates. Hosts and clusters are updated by statements whose
  \<open>WHERE\<close> clause names the row's key and the status that the caller last saw, so that concurrent
  components do not overwrite each other's transitions. The locale states the contract; the stores of
  hosts and of clusters interpret it.
\<close>

locale guarded_store =
  fixes row :: "'k \<Rightarrow> 'w \<Rightarrow> 'r option"
    and status :: "'r \<Rightarrow> 's"
    and wf :: "'w \<Rightarrow> bool"
    and assignment :: "'u \<Rightarrow> ('r \<Rightarrow> 'r) option"
    and update :: "'k \<Rightarrow> 's \<Rightarrow> 'u \<Rightarrow> 'w \<Rightarrow> (go_error + 'r) \<times> 'w"
  assumes update_wf: "wf w \<Longrightarrow> wf (snd (update k s u w))"
    and update_other: "k' \<noteq> k \<Longrightarrow> row k' (snd (update k s u w)) = row k' w"
    and update_row:
      "row k (snd (update k s u w)) = row k w \<or>
       (\<exists>f r. assignment u = Some f \<and> row k w = Some r \<and> status r = s \<and>
              row k (snd (update k s u w)) = Some (f r))"
    and update_ok:
      "wf w \<Longrightarrow> update k s u w = (Inr r', w') \<Longrightarrow>
       \<exists>f r. assignment u = Some f \<and> row k w = Some r \<and> row k w' = Some r' \<and>
             r' = (if status r = s then f r else r) \<and> (status r \<noteq> s \<longrightarrow> f r = r)"
begin

text \<open>An update whose guard does not match leaves every row as it is.\<close>

lemma update_refused:
  assumes "row k w = Some r" and "status r \<noteq> s"
  shows "row k' (snd (update k s u w)) = row k' w"
  using assms update_row [of k s u w] update_other [of k' k s u w] by (cases "k' = k") auto

text \<open>A row that does not exist is not created.\<close>

lemma update_absent: "row k w = None \<Longrightarrow> row k' (snd (update k s u w)) = row k' w"
  using update_row [of k s u w] update_other [of k' k s u w] by (cases "k' = k") auto

text \<open>
  Two transitions that start from the same status: once the first one has moved the row to another
  status, the second one changes nothing, whatever it would have assigned.
\<close>

lemma update_race:
  assumes "wf w" and "row k w = Some r" and "status r = s"
    and "update k s u1 w = (Inr r1, w1)" and "status r1 \<noteq> s"
  shows "row k (snd (update k s u2 w1)) = Some r1"
proof -
  from update_ok [OF assms(1,4)] have "row k w1 = Some r1" by auto
  with assms(5) show ?thesis using update_refused [of k w1 r1 s k u2] by simp
qed

text \<open>A sequence of updates, each by some component that saw some status.\<close>

primrec updates :: "('k \<times> 's \<times> 'u) list \<Rightarrow> 'w \<Rightarrow> 'w" where
  "updates [] w = w"
| "updates (x # xs) w = (case x of (k, s, u) \<Rightarrow> updates xs (snd (update k s u w)))"

lemma updates_wf: "wf w \<Longrightarrow> wf (updates xs w)"
  by (induction xs arbitrary: w) (auto simp: update_wf)

lemma updates_untouched:
  assumes "\<forall>(k', s, u) \<in> set xs. k' = k \<longrightarrow> s \<noteq> status r" and "row k w = Some r"
  shows "row k (updates xs w) = Some r"
  using assms
proof (induction xs arbitrary: w)
  case (Cons x xs)
  obtain k' s u where x: "x = (k', s, u)" by (cases x)
  have "row k (snd (update k' s u w)) = Some r"
    using Cons.prems update_other [of k k' s u w] update_refused [of k' w r s k u]
    by (cases "k' = k") (auto simp: x)
  with Cons show ?case by (simp add: x)
qed simp

end

end
