(* ===== verification/Host_Store.thy ===== *)
theory Host_Store
  imports Host_Utils Guarded_Store
begin

text \<open>
  The persistent state as the host code sees it and the guarded update of a host row:
  the table accesses of \<open>internal/common/db.go\<close> and \<open>internal/host/hostutil/update_host.go\<close>.

  A table is the list of its rows. A statement fails as a whole when the database reports an error
  (\<open>w_dbfault\<close> says for which kinds of statements it does) or when it assigns a value that does not
  fit its column, e.g. more than 2048 characters to a \<open>varchar(2048)\<close>. One operation reads one clock.
  The column \<open>updated_at\<close>, which \<open>gorm\<close> maintains, is not modelled.
\<close>

section \<open>The world\<close>

datatype event =
    HostRegistrationSucceededEvent uuid uuid "uuid option" string
  | HostStatusUpdatedEvent uuid uuid "uuid option" event_severity string host_status host_status string
  | HostStageTimedOutEvent uuid uuid "uuid option" string host_stage int
  | HostMediaDisconnectedEvent uuid uuid "uuid option"
  | HostRoleUpdatedEvent "uuid option" uuid uuid string host_role
  | HostBootstrapSetEvent uuid uuid "uuid option" string
  | HostCancelInstallationFailedEvent uuid uuid "uuid option" string go_error
  | HostInstallationCancelledEvent uuid uuid "uuid option" string
  | HostInstallationResetFailedEvent uuid uuid "uuid option" string go_error
  | HostInstallationResetEvent uuid uuid "uuid option" string
  | HostSetStatusFailedEvent uuid uuid "uuid option" string go_error
  | UserRequiredCompleteInstallationResetEvent uuid uuid "uuid option" string
  | HostValidationFailedEvent uuid uuid "uuid option" string string string
  | HostValidationFixedEvent uuid uuid "uuid option" string string
  | HostValidationChangedInternalEvent "uuid option" uuid uuid string
  | ImageStatusUpdatedEvent uuid uuid "uuid option" string string image_result
  | ClusterStatusUpdatedEvent uuid cluster_status string
  | FinalizingStageTimedOutEvent uuid finalizing_stage int
  | ClusterInstallationFailedEvent uuid string
  | ClusterDegradedOLMOperatorsFailedEvent uuid string
  | ClusterInstallationCompletedEvent uuid
  | InstallationPreparingTimedOutEvent uuid string
  | ClusterInstallationCanceledEvent uuid
  | CancelInstallationFailedEvent uuid go_error
  | ClusterInstallationResetEvent uuid
  | ResetInstallationFailedEvent uuid go_error
  | PrepareInstallationFailedEvent uuid string
  | ClusterPrepareInstallationStartedEvent uuid
  | ClusterFinalizingStageUpdatedEvent uuid finalizing_stage
  | ClusterValidationFailedEvent uuid string string string
  | ClusterValidationFixedEvent uuid string string
  | ClusterValidationChangedInternalEvent uuid string
  | ClusterRegistrationSucceededEvent uuid cluster_kind
  | ClusterDeregisteredEvent uuid
  | ClusterDeregisterFailedEvent uuid go_error
  | ApiIngressVipUpdatedEvent uuid string string

datatype db_op =
    SelectHosts | UpdateHosts | CreateHosts | DeleteHosts | SelectClusters | UpdateClusters
  | CreateClusters | DeleteClusters | DeleteVips | SaveVips | DeleteNetworks | SaveNetworks

record world =
  w_now :: time
  w_hosts :: "host list"
  w_deleted_hosts :: "(time \<times> host) list"
  w_clusters :: "cluster list"
  w_deleted_clusters :: "cluster list"
  w_events :: "event list"
  w_notified :: "host list"
  w_notified_clusters :: "cluster list"
  w_dbfault :: "db_op \<Rightarrow> bool"

type_synonym key = "uuid \<times> uuid"

definition host_key :: "host \<Rightarrow> key" where
  "host_key h = (Host_InfraEnvID h, Host_ID h)"

text \<open>The rows of a table have distinct primary keys, soft-deleted rows included.\<close>

definition wf_world :: "world \<Rightarrow> bool" where
  "wf_world w \<longleftrightarrow>
     distinct (map host_key (w_hosts w) @ map (\<lambda>(_, h). host_key h) (w_deleted_hosts w)) \<and>
     list_all (\<lambda>h. Host_Progress h \<noteq> None) (w_hosts w) \<and>
     distinct (map Cluster_ID (w_clusters w))"

definition send_event :: "event \<Rightarrow> world \<Rightarrow> world" where
  "send_event e w = w\<lparr>w_events := w_events w @ [e]\<rparr>"

definition Notify :: "host \<Rightarrow> world \<Rightarrow> world" where
  "Notify h w = w\<lparr>w_notified := w_notified w @ [h]\<rparr>"

section \<open>Columns\<close>

text \<open>
  The variadic arguments \<open>extra ...interface{}\<close> alternate column names and values. A name is
  \<open>IName\<close> of a column; the strings of an enumerated column are values of its datatype.
\<close>

datatype column =
    C_status | C_status_info | C_status_updated_at | C_trigger_monitor_timestamp | C_logs_info
  | C_logs_started_at | C_logs_collected_at | C_progress_current_stage
  | C_progress_installation_percentage | C_progress_progress_info
  | C_progress_stage_started_at | C_progress_stage_updated_at | C_progress_stage_timed_out
  | C_inventory | C_bootstrap | C_images_status | C_cluster_id | C_kind | C_connectivity
  | C_domain_name_resolutions | C_free_addresses | C_installation_disk_id
  | C_installation_disk_path | C_machine_config_pool_name | C_role | C_suggested_role
  | C_api_vip_connectivity | C_tang_connectivity | C_stage_started_at | C_stage_updated_at
  | C_discovery_agent_version | C_ntp_sources | C_media_status | C_connection_timed_out
  | C_registered_at | C_disks_info | C_requested_hostname | C_validations_info
  | C_fencing_credentials | C_node_labels | C_skip_formatting_disks
  | C_disks_to_be_formatted | C_ignition_endpoint_token | C_ignition_endpoint_token_set
  | C_ignition_endpoint_http_headers | C_kube_key_namespace

datatype iface =
    IName column | IString string | IBool bool | ITime time | INum int | IUuid "uuid option"
  | IStatus host_status | IStage host_stage | IRole host_role | IKind host_kind | ILogs logs_state
  | IMedia media_status | INil

definition as_string :: "iface \<Rightarrow> string option" where
  "as_string v = (case v of IString s \<Rightarrow> Some s | _ \<Rightarrow> None)"

definition varchar_max :: nat where
  "varchar_max = 2048"

definition as_varchar :: "iface \<Rightarrow> string option" where
  "as_varchar v = (case v of IString s \<Rightarrow> if length s \<le> varchar_max then Some s else None | _ \<Rightarrow> None)"

definition as_bool :: "iface \<Rightarrow> bool option" where
  "as_bool v = (case v of IBool b \<Rightarrow> Some b | _ \<Rightarrow> None)"

definition as_time :: "iface \<Rightarrow> time option" where
  "as_time v = (case v of ITime t \<Rightarrow> Some t | _ \<Rightarrow> None)"

definition as_bigint :: "iface \<Rightarrow> int option" where
  "as_bigint v = (case v of INum n \<Rightarrow> Some n | _ \<Rightarrow> None)"

definition as_uuid :: "iface \<Rightarrow> uuid option option" where
  "as_uuid v = (case v of IUuid u \<Rightarrow> Some u | _ \<Rightarrow> None)"

definition as_status :: "iface \<Rightarrow> host_status option" where
  "as_status v = (case v of IStatus s \<Rightarrow> Some s | _ \<Rightarrow> None)"

definition as_stage :: "iface \<Rightarrow> host_stage option" where
  "as_stage v = (case v of IStage s \<Rightarrow> Some s | _ \<Rightarrow> None)"

definition as_role :: "iface \<Rightarrow> host_role option" where
  "as_role v = (case v of IRole r \<Rightarrow> Some r | _ \<Rightarrow> None)"

definition as_kind :: "iface \<Rightarrow> host_kind option" where
  "as_kind v = (case v of IKind k \<Rightarrow> Some k | _ \<Rightarrow> None)"

definition as_logs :: "iface \<Rightarrow> logs_state option" where
  "as_logs v = (case v of ILogs l \<Rightarrow> Some l | _ \<Rightarrow> None)"

definition as_media :: "iface \<Rightarrow> media_status option" where
  "as_media v = (case v of IMedia m \<Rightarrow> Some m | _ \<Rightarrow> None)"

lemmas as_defs [simp] =
  as_string_def as_varchar_def as_bool_def as_time_def as_bigint_def as_uuid_def as_status_def
  as_stage_def as_role_def as_kind_def as_logs_def as_media_def

definition progress_of :: "host \<Rightarrow> host_progress" where
  "progress_of h = (case Host_Progress h of None \<Rightarrow> zero_progress | Some p \<Rightarrow> p)"

definition upd_progress :: "(host_progress \<Rightarrow> host_progress) \<Rightarrow> host \<Rightarrow> host" where
  "upd_progress f h =
     h\<lparr>Host_Progress := Some (f (progress_of h))\<rparr>"

text \<open>The assignment \<open>SET column = value\<close>; \<^term>\<open>None\<close> when the value does not fit the column.\<close>

fun assign :: "column \<Rightarrow> iface \<Rightarrow> (host \<Rightarrow> host) option" where
  "assign C_status v = map_option (\<lambda>x. Host_Status_update (\<lambda>_. x)) (as_status v)"
| "assign C_status_info v = map_option (\<lambda>x. Host_StatusInfo_update (\<lambda>_. Some x)) (as_varchar v)"
| "assign C_status_updated_at v = map_option (\<lambda>x. Host_StatusUpdatedAt_update (\<lambda>_. x)) (as_time v)"
| "assign C_trigger_monitor_timestamp v = map_option (\<lambda>x. Host_TriggerMonitorTimestamp_update (\<lambda>_. x)) (as_time v)"
| "assign C_logs_info v = map_option (\<lambda>x. Host_LogsInfo_update (\<lambda>_. x)) (as_logs v)"
| "assign C_logs_started_at v = map_option (\<lambda>x. Host_LogsStartedAt_update (\<lambda>_. x)) (as_time v)"
| "assign C_logs_collected_at v = map_option (\<lambda>x. Host_LogsCollectedAt_update (\<lambda>_. x)) (as_time v)"
| "assign C_progress_current_stage v = map_option (\<lambda>x. upd_progress (CurrentStage_update (\<lambda>_. x))) (as_stage v)"
| "assign C_progress_installation_percentage v = map_option (\<lambda>x. upd_progress (InstallationPercentage_update (\<lambda>_. x))) (as_bigint v)"
| "assign C_progress_progress_info v = map_option (\<lambda>x. upd_progress (ProgressInfo_update (\<lambda>_. x))) (as_varchar v)"
| "assign C_progress_stage_started_at v = map_option (\<lambda>x. upd_progress (StageStartedAt_update (\<lambda>_. x))) (as_time v)"
| "assign C_progress_stage_updated_at v = map_option (\<lambda>x. upd_progress (StageUpdatedAt_update (\<lambda>_. x))) (as_time v)"
| "assign C_progress_stage_timed_out v = map_option (\<lambda>x. upd_progress (StageTimedOut_update (\<lambda>_. x))) (as_bool v)"
| "assign C_inventory v = map_option (\<lambda>x. Host_Inventory_update (\<lambda>_. x)) (as_string v)"
| "assign C_bootstrap v = map_option (\<lambda>x. Host_Bootstrap_update (\<lambda>_. x)) (as_bool v)"
| "assign C_images_status v = map_option (\<lambda>x. Host_ImagesStatus_update (\<lambda>_. x)) (as_string v)"
| "assign C_cluster_id v = map_option (\<lambda>x. Host_ClusterID_update (\<lambda>_. x)) (as_uuid v)"
| "assign C_kind v = map_option (\<lambda>x. Host_Kind_update (\<lambda>_. x)) (as_kind v)"
| "assign C_connectivity v = map_option (\<lambda>x. Host_Connectivity_update (\<lambda>_. x)) (as_string v)"
| "assign C_domain_name_resolutions v = map_option (\<lambda>x. Host_DomainNameResolutions_update (\<lambda>_. x)) (as_string v)"
| "assign C_free_addresses v = map_option (\<lambda>x. Host_FreeAddresses_update (\<lambda>_. x)) (as_string v)"
| "assign C_installation_disk_id v = map_option (\<lambda>x. Host_InstallationDiskID_update (\<lambda>_. x)) (as_string v)"
| "assign C_installation_disk_path v = map_option (\<lambda>x. Host_InstallationDiskPath_update (\<lambda>_. x)) (as_string v)"
| "assign C_machine_config_pool_name v = map_option (\<lambda>x. Host_MachineConfigPoolName_update (\<lambda>_. x)) (as_string v)"
| "assign C_role v = map_option (\<lambda>x. Host_Role_update (\<lambda>_. x)) (as_role v)"
| "assign C_suggested_role v = map_option (\<lambda>x. Host_SuggestedRole_update (\<lambda>_. x)) (as_role v)"
| "assign C_api_vip_connectivity v = map_option (\<lambda>x. Host_APIVipConnectivity_update (\<lambda>_. x)) (as_string v)"
| "assign C_tang_connectivity v = map_option (\<lambda>x. Host_TangConnectivity_update (\<lambda>_. x)) (as_string v)"
| "assign C_stage_started_at v = map_option (\<lambda>x. Host_StageStartedAt_update (\<lambda>_. x)) (as_time v)"
| "assign C_stage_updated_at v = map_option (\<lambda>x. Host_StageUpdatedAt_update (\<lambda>_. x)) (as_time v)"
| "assign C_discovery_agent_version v = map_option (\<lambda>x. Host_DiscoveryAgentVersion_update (\<lambda>_. x)) (as_string v)"
| "assign C_ntp_sources v = map_option (\<lambda>x. Host_NtpSources_update (\<lambda>_. x)) (as_string v)"
| "assign C_media_status v = map_option (\<lambda>x. Host_MediaStatus_update (\<lambda>_. Some x)) (as_media v)"
| "assign C_connection_timed_out v = map_option (\<lambda>x. Host_ConnectionTimedOut_update (\<lambda>_. x)) (as_bool v)"
| "assign C_registered_at v = map_option (\<lambda>x. Host_RegisteredAt_update (\<lambda>_. x)) (as_time v)"
| "assign C_disks_info v = map_option (\<lambda>x. Host_DisksInfo_update (\<lambda>_. x)) (as_string v)"
| "assign C_requested_hostname v = map_option (\<lambda>x. Host_RequestedHostname_update (\<lambda>_. x)) (as_string v)"
| "assign C_validations_info v = map_option (\<lambda>x. Host_ValidationsInfo_update (\<lambda>_. x)) (as_string v)"
| "assign C_fencing_credentials v = map_option (\<lambda>x. Host_FencingCredentials_update (\<lambda>_. x)) (as_string v)"
| "assign C_node_labels v = map_option (\<lambda>x. Host_NodeLabels_update (\<lambda>_. x)) (as_string v)"
| "assign C_skip_formatting_disks v = map_option (\<lambda>x. Host_SkipFormattingDisks_update (\<lambda>_. x)) (as_string v)"
| "assign C_disks_to_be_formatted v = map_option (\<lambda>x. Host_DisksToBeFormatted_update (\<lambda>_. x)) (as_string v)"
| "assign C_ignition_endpoint_token v = map_option (\<lambda>x. Host_IgnitionEndpointToken_update (\<lambda>_. x)) (as_string v)"
| "assign C_ignition_endpoint_token_set v = map_option (\<lambda>x. Host_IgnitionEndpointTokenSet_update (\<lambda>_. x)) (as_bool v)"
| "assign C_ignition_endpoint_http_headers v = map_option (\<lambda>x. Host_IgnitionEndpointHTTPHeaders_update (\<lambda>_. x)) (as_string v)"
| "assign C_kube_key_namespace v = map_option (\<lambda>x. Host_KubeKeyNamespace_update (\<lambda>_. x)) (as_string v)"

fun assign_all :: "(column \<times> iface) list \<Rightarrow> (host \<Rightarrow> host) option" where
  "assign_all [] = Some id"
| "assign_all ((c, v) # cvs) =
     (case assign c v of
        None \<Rightarrow> None
      | Some f \<Rightarrow> (case assign_all cvs of None \<Rightarrow> None | Some g \<Rightarrow> Some (g \<circ> f)))"

section \<open>Reading rows\<close>

definition find_host :: "key \<Rightarrow> world \<Rightarrow> host option" where
  "find_host k w = find (\<lambda>h. host_key h = k) (w_hosts w)"

definition GetHostFromDB :: "world \<Rightarrow> uuid \<Rightarrow> uuid \<Rightarrow> go_error + host" where
  "GetHostFromDB w infraEnvId hostId =
     (if w_dbfault w SelectHosts then Inl (ErrWrapf ''failed to get host'' ErrDB)
      else (case find_host (infraEnvId, hostId) w of
              None \<Rightarrow> Inl (ErrWrapf ''failed to get host'' ErrRecordNotFound)
            | Some h \<Rightarrow> Inr h))"

definition find_cluster :: "uuid \<Rightarrow> world \<Rightarrow> cluster option" where
  "find_cluster clusterId w = find (\<lambda>c. Cluster_ID c = clusterId) (w_clusters w)"

text \<open>\<open>db.First(&cluster, "id = ?", id)\<close>; a nil identifier matches no row.\<close>

definition take_cluster :: "world \<Rightarrow> uuid option \<Rightarrow> go_error + cluster" where
  "take_cluster w clusterId =
     (if w_dbfault w SelectClusters then Inl ErrDB
      else (case clusterId of
              None \<Rightarrow> Inl ErrRecordNotFound
            | Some i \<Rightarrow> (case find_cluster i w of None \<Rightarrow> Inl ErrRecordNotFound | Some c \<Rightarrow> Inr c)))"

definition load_hosts :: "world \<Rightarrow> cluster \<Rightarrow> cluster" where
  "load_hosts w c =
     c\<lparr>Cluster_Hosts := filter (\<lambda>h. Host_ClusterID h = Some (Cluster_ID c)) (w_hosts w)\<rparr>"

definition GetClusterFromDBWithHosts :: "world \<Rightarrow> uuid \<Rightarrow> go_error + cluster" where
  "GetClusterFromDBWithHosts w clusterId =
     (case take_cluster w (Some clusterId) of
        Inl err \<Rightarrow> Inl (ErrWrapf ''Failed to get cluster'' err)
      | Inr c \<Rightarrow> if w_dbfault w SelectHosts then Inl (ErrWrapf ''Failed to get cluster'' ErrDB)
                else Inr (load_hosts w c))"

definition GetHostCluster :: "world \<Rightarrow> host \<Rightarrow> go_error + cluster" where
  "GetHostCluster w h =
     (case take_cluster w (Host_ClusterID h) of
        Inl _ \<Rightarrow> Inl (ErrNew ''Failed to find cluster'')
      | Inr c \<Rightarrow> Inr c)"

definition IsSingleNode :: "world \<Rightarrow> host \<Rightarrow> bool" where
  "IsSingleNode w h =
     (case GetHostCluster w h of Inl _ \<Rightarrow> False | Inr c \<Rightarrow> IsSingleNodeCluster c)"

section \<open>Guarded updates of a host\<close>

text \<open>The alternating argument list, read two by two; \<open>extra[i].(string)\<close> panics on a non-string.\<close>

fun pairs_of :: "iface list \<Rightarrow> go_error + (column \<times> iface) list" where
  "pairs_of (x # v # rest) =
     (case x of
        IName c \<Rightarrow> (case pairs_of rest of Inl err \<Rightarrow> Inl err | Inr cvs \<Rightarrow> Inr ((c, v) # cvs))
      | IString _ \<Rightarrow> Inl (ErrWrapf ''failed to update host'' ErrDB)
      | _ \<Rightarrow> Inl (Panic ''interface conversion''))"
| "pairs_of _ = Inr []"

text \<open>The Go map that the loop fills: a later entry for a column replaces an earlier one.\<close>

definition updates_map :: "(column \<times> iface) list \<Rightarrow> (column \<times> iface) list" where
  "updates_map cvs = fold (\<lambda>(c, v) m. AList.update c v m) cvs []"

text \<open>\<open>hostExistsInDB\<close>: the row has every updated column at its new value already.\<close>

definition hostExistsInDB :: "world \<Rightarrow> key \<Rightarrow> (host \<Rightarrow> host) \<Rightarrow> bool" where
  "hostExistsInDB w k f =
     (\<not> w_dbfault w SelectHosts \<and>
      (case find_host k w of None \<Rightarrow> False | Some h \<Rightarrow> f h = h))"

text \<open>\<open>UPDATE hosts SET ... WHERE id = ? AND infra_env_id = ? AND status = ?\<close>.\<close>

definition guard_row :: "key \<Rightarrow> host_status \<Rightarrow> host \<Rightarrow> bool" where
  "guard_row k srcStatus h \<longleftrightarrow> host_key h = k \<and> Host_Status h = srcStatus"

definition update_rows :: "(host \<Rightarrow> bool) \<Rightarrow> (host \<Rightarrow> host) \<Rightarrow> world \<Rightarrow> world" where
  "update_rows P f w = w\<lparr>w_hosts := map (\<lambda>h. if P h then f h else h) (w_hosts w)\<rparr>"

definition UpdateHost ::
  "uuid \<Rightarrow> uuid \<Rightarrow> host_status \<Rightarrow> iface list \<Rightarrow> world \<Rightarrow> (go_error + host) \<times> world" where
  "UpdateHost infraEnvId hostId srcStatus extra w =
     (if length extra mod 2 \<noteq> 0 then (Inl (ErrNew ''invalid update extra parameters''), w)
      else (case pairs_of extra of
        Inl err \<Rightarrow> (Inl err, w)
      | Inr cvs \<Rightarrow>
         (case assign_all (updates_map cvs) of
            None \<Rightarrow> (Inl (ErrWrapf ''failed to update host'' ErrDB), w)
          | Some f \<Rightarrow>
             if w_dbfault w UpdateHosts then (Inl (ErrWrapf ''failed to update host'' ErrDB), w)
             else
               let k = (infraEnvId, hostId);
                   rowsAffected = length (filter (guard_row k srcStatus) (w_hosts w));
                   w' = update_rows (guard_row k srcStatus) f w
               in if rowsAffected = 0 \<and> \<not> hostExistsInDB w' k f
                  then (Inl (ErrNew ''failed to update host. nothing has changed''), w')
                  else (case GetHostFromDB w' infraEnvId hostId of
                          Inl err \<Rightarrow> (Inl (ErrWrapf ''failed to read host after the update'' err), w')
                        | Inr h \<Rightarrow> (Inr h, w')))))"

definition UpdateHostAndNotify ::
  "uuid \<Rightarrow> uuid \<Rightarrow> host_status \<Rightarrow> iface list \<Rightarrow> world \<Rightarrow> (go_error + host) \<times> world" where
  "UpdateHostAndNotify infraEnvId hostId srcStatus extra w =
     (case UpdateHost infraEnvId hostId srcStatus extra w of
        (Inl err, w1) \<Rightarrow> (Inl err, w1)
      | (Inr h, w1) \<Rightarrow> (Inr h, Notify h w1))"

definition UpdateLogsProgress ::
  "uuid \<Rightarrow> uuid \<Rightarrow> host_status \<Rightarrow> logs_state \<Rightarrow> iface list \<Rightarrow> world \<Rightarrow> (go_error + host) \<times> world" where
  "UpdateLogsProgress infraEnvId hostId srcStatus progress extra w =
     UpdateHost infraEnvId hostId srcStatus
       ((if progress = LogsStateRequested
         then [IName C_logs_info, ILogs progress, IName C_logs_started_at, ITime (w_now w)]
         else [IName C_logs_info, ILogs progress]) @ extra) w"

text \<open>
  \<open>UpdateHostStatus\<close> returns \<open>(nil, errors.Wrapf(err, ...))\<close> also when the row that it reads back
  does not have the new status; then \<open>err\<close>, and with it the wrapped error, is nil. That result is
  \<open>Inr None\<close>.
\<close>

definition status_extra ::
  "time \<Rightarrow> host_status \<Rightarrow> host_status \<Rightarrow> string \<Rightarrow> iface list \<Rightarrow> iface list" where
  "status_extra now srcStatus newStatus statusInfo extra =
     [IName C_status, IStatus newStatus, IName C_status_info, IString statusInfo] @ extra @
     (if newStatus \<noteq> srcStatus
      then [IName C_status_updated_at, ITime now, IName C_trigger_monitor_timestamp, ITime now]
      else [])"

definition UpdateHostStatus ::
  "unmarshal \<Rightarrow> uuid \<Rightarrow> uuid \<Rightarrow> host_status \<Rightarrow> host_status \<Rightarrow> string \<Rightarrow> iface list \<Rightarrow> world \<Rightarrow>
   (go_error + host option) \<times> world" where
  "UpdateHostStatus UnmarshalInventory infraEnvId hostId srcStatus newStatus statusInfo extra w =
     (case UpdateHostAndNotify infraEnvId hostId srcStatus
             (status_extra (w_now w) srcStatus newStatus statusInfo extra) w of
        (Inl err, w1) \<Rightarrow> (Inl (ErrWrapf ''failed to update host state'' err), w1)
      | (Inr h, w1) \<Rightarrow>
          if Host_Status h \<noteq> newStatus then (Inr None, w1)
          else if newStatus \<noteq> srcStatus
          then (Inr (Some h),
                send_event
                  (HostStatusUpdatedEvent hostId infraEnvId (Host_ClusterID h)
                     (GetEventSeverityFromHostStatus newStatus)
                     (GetHostnameForMsg UnmarshalInventory h) srcStatus newStatus
                     (if statusInfo \<noteq> '''' then ''('' @ statusInfo @ '')'' else statusInfo)) w1)
          else (Inr (Some h), w1))"

definition UpdateHostStageTimeout ::
  "unmarshal \<Rightarrow> uuid \<Rightarrow> uuid \<Rightarrow> host_status \<Rightarrow> string \<Rightarrow> int \<Rightarrow> iface list \<Rightarrow> world \<Rightarrow>
   (go_error + host) \<times> world" where
  "UpdateHostStageTimeout UnmarshalInventory infraEnvId hostId srcStatus statusInfo
     maxDurationMinutes extra w =
     (case UpdateHostAndNotify infraEnvId hostId srcStatus
             ([IName C_status_info, IString statusInfo, IName C_progress_stage_timed_out, IBool True]
              @ extra) w of
        (Inl err, w1) \<Rightarrow> (Inl (ErrWrapf ''failed to set timeout for host'' err), w1)
      | (Inr h, w1) \<Rightarrow>
          (case Host_Progress h of
             None \<Rightarrow> (Inl nil_deref, w1)
           | Some p \<Rightarrow>
               (Inr h, send_event
                  (HostStageTimedOutEvent hostId infraEnvId (Host_ClusterID h)
                     (GetHostnameForMsg UnmarshalInventory h) (CurrentStage p)
                     maxDurationMinutes) w1)))"

definition StatusInfoMaxLength :: nat where
  "StatusInfoMaxLength = 2040"

definition TruncateStatusInfo :: "string \<Rightarrow> string" where
  "TruncateStatusInfo statusInfo =
     (if length statusInfo > StatusInfoMaxLength then take StatusInfoMaxLength statusInfo
      else statusInfo)"

section \<open>Laws of assignments\<close>

text \<open>The value that a column of a row holds; a null is \<open>INil\<close>.\<close>

fun column_value :: "column \<Rightarrow> host \<Rightarrow> iface" where
  "column_value C_status h = IStatus (Host_Status h)"
| "column_value C_status_info h = (case Host_StatusInfo h of None \<Rightarrow> INil | Some x \<Rightarrow> IString x)"
| "column_value C_status_updated_at h = ITime (Host_StatusUpdatedAt h)"
| "column_value C_trigger_monitor_timestamp h = ITime (Host_TriggerMonitorTimestamp h)"
| "column_value C_logs_info h = ILogs (Host_LogsInfo h)"
| "column_value C_logs_started_at h = ITime (Host_LogsStartedAt h)"
| "column_value C_logs_collected_at h = ITime (Host_LogsCollectedAt h)"
| "column_value C_progress_current_stage h = IStage (CurrentStage (progress_of h))"
| "column_value C_progress_installation_percentage h = INum (InstallationPercentage (progress_of h))"
| "column_value C_progress_progress_info h = IString (ProgressInfo (progress_of h))"
| "column_value C_progress_stage_started_at h = ITime (StageStartedAt (progress_of h))"
| "column_value C_progress_stage_updated_at h = ITime (StageUpdatedAt (progress_of h))"
| "column_value C_progress_stage_timed_out h = IBool (StageTimedOut (progress_of h))"
| "column_value C_inventory h = IString (Host_Inventory h)"
| "column_value C_bootstrap h = IBool (Host_Bootstrap h)"
| "column_value C_images_status h = IString (Host_ImagesStatus h)"
| "column_value C_cluster_id h = IUuid (Host_ClusterID h)"
| "column_value C_kind h = IKind (Host_Kind h)"
| "column_value C_connectivity h = IString (Host_Connectivity h)"
| "column_value C_domain_name_resolutions h = IString (Host_DomainNameResolutions h)"
| "column_value C_free_addresses h = IString (Host_FreeAddresses h)"
| "column_value C_installation_disk_id h = IString (Host_InstallationDiskID h)"
| "column_value C_installation_disk_path h = IString (Host_InstallationDiskPath h)"
| "column_value C_machine_config_pool_name h = IString (Host_MachineConfigPoolName h)"
| "column_value C_role h = IRole (Host_Role h)"
| "column_value C_suggested_role h = IRole (Host_SuggestedRole h)"
| "column_value C_api_vip_connectivity h = IString (Host_APIVipConnectivity h)"
| "column_value C_tang_connectivity h = IString (Host_TangConnectivity h)"
| "column_value C_stage_started_at h = ITime (Host_StageStartedAt h)"
| "column_value C_stage_updated_at h = ITime (Host_StageUpdatedAt h)"
| "column_value C_discovery_agent_version h = IString (Host_DiscoveryAgentVersion h)"
| "column_value C_ntp_sources h = IString (Host_NtpSources h)"
| "column_value C_media_status h = (case Host_MediaStatus h of None \<Rightarrow> INil | Some x \<Rightarrow> IMedia x)"
| "column_value C_connection_timed_out h = IBool (Host_ConnectionTimedOut h)"
| "column_value C_registered_at h = ITime (Host_RegisteredAt h)"
| "column_value C_disks_info h = IString (Host_DisksInfo h)"
| "column_value C_requested_hostname h = IString (Host_RequestedHostname h)"
| "column_value C_validations_info h = IString (Host_ValidationsInfo h)"
| "column_value C_fencing_credentials h = IString (Host_FencingCredentials h)"
| "column_value C_node_labels h = IString (Host_NodeLabels h)"
| "column_value C_skip_formatting_disks h = IString (Host_SkipFormattingDisks h)"
| "column_value C_disks_to_be_formatted h = IString (Host_DisksToBeFormatted h)"
| "column_value C_ignition_endpoint_token h = IString (Host_IgnitionEndpointToken h)"
| "column_value C_ignition_endpoint_token_set h = IBool (Host_IgnitionEndpointTokenSet h)"
| "column_value C_ignition_endpoint_http_headers h = IString (Host_IgnitionEndpointHTTPHeaders h)"
| "column_value C_kube_key_namespace h = IString (Host_KubeKeyNamespace h)"

lemma progress_of_update [simp]:
  "progress_of (h\<lparr>Host_Progress := p\<rparr>) = (case p of None \<Rightarrow> zero_progress | Some q \<Rightarrow> q)"
  by (simp add: progress_of_def)

lemma assign_key: "assign c v = Some f \<Longrightarrow> host_key (f h) = host_key h"
  by (cases c) (auto simp: host_key_def upd_progress_def)

lemma assign_same: "assign c v = Some f \<Longrightarrow> column_value c (f h) = v"
  by (cases c) (auto simp: upd_progress_def split: iface.splits if_splits)

lemma assign_other:
  "assign c v = Some f \<Longrightarrow> c \<noteq> c' \<Longrightarrow> column_value c' (f h) = column_value c' h"
  by (cases c; cases c'; clarsimp simp: upd_progress_def progress_of_def)

lemma assign_progress: "assign c v = Some f \<Longrightarrow> Host_Progress h \<noteq> None \<Longrightarrow> Host_Progress (f h) \<noteq> None"
  by (cases c) (auto simp: upd_progress_def)

text \<open>Each column of an updated row has the value assigned to it, or the one it had.\<close>

lemma assign_all_column:
  "assign_all cvs = Some f \<Longrightarrow> distinct (map fst cvs) \<Longrightarrow>
   column_value c (f h) = (case map_of cvs c of None \<Rightarrow> column_value c h | Some v \<Rightarrow> v)"
proof (induction cvs arbitrary: f h rule: assign_all.induct)
  case (2 d v cvs)
  then obtain f1 f2 where 1: "assign d v = Some f1" "assign_all cvs = Some f2" "f = f2 \<circ> f1"
    by (auto split: option.splits)
  with 2 have step: "column_value c (f h) =
      (case map_of cvs c of None \<Rightarrow> column_value c (f1 h) | Some v \<Rightarrow> v)" by auto
  show ?case
  proof (cases "d = c")
    case True
    with 2(3) have "map_of cvs c = None" by (simp add: map_of_eq_None_iff)
    with step True 1(1) show ?thesis by (simp add: assign_same)
  next
    case False
    with step show ?thesis
      using assign_other [OF 1(1) False, of h] by (cases "map_of cvs c") simp_all
  qed
qed simp

lemma assign_all_key: "assign_all cvs = Some f \<Longrightarrow> host_key (f h) = host_key h"
  by (induction cvs arbitrary: f h rule: assign_all.induct)
     (auto simp: assign_key split: option.splits)

lemma assign_all_progress:
  "assign_all cvs = Some f \<Longrightarrow> Host_Progress h \<noteq> None \<Longrightarrow> Host_Progress (f h) \<noteq> None"
proof (induction cvs arbitrary: f h rule: assign_all.induct)
  case (2 d v cvs)
  then obtain f1 f2 where "assign d v = Some f1" "assign_all cvs = Some f2" "f = f2 \<circ> f1"
    by (auto split: option.splits)
  with 2 show ?case using assign_progress [of d v f1 h] by simp
qed simp

lemma updates_map_invariant:
  "distinct (map fst m) \<Longrightarrow>
   distinct (map fst (fold (\<lambda>(c, v) m. AList.update c v m) cvs m)) \<and>
   map_of (fold (\<lambda>(c, v) m. AList.update c v m) cvs m) = map_of m ++ map_of (rev cvs)"
proof (induction cvs arbitrary: m)
  case (Cons cv cvs)
  obtain c v where "cv = (c, v)" by force
  moreover have "distinct (map fst (AList.update c v m))"
    using Cons.prems by (simp add: distinct_update)
  moreover have "map_of m ++ ([c \<mapsto> v] ++ map_of (rev cvs)) = (map_of m)(c \<mapsto> v) ++ map_of (rev cvs)"
    by simp
  ultimately show ?case
    using Cons.IH [of "AList.update c v m"] by (simp add: update_conv' fun_upd_def)
qed simp

lemma updates_map_distinct: "distinct (map fst (updates_map cvs))"
  using updates_map_invariant [of "[]" cvs] by (simp add: updates_map_def)

lemma updates_map_lookup: "map_of (updates_map cvs) = map_of (rev cvs)"
  using updates_map_invariant [of "[]" cvs] by (simp add: updates_map_def)

section \<open>What an update does to the table\<close>

lemma find_update_rows:
  assumes "\<And>h. host_key (f h) = host_key h"
  shows "find_host k (update_rows P f w) = map_option (\<lambda>h. if P h then f h else h) (find_host k w)"
  unfolding find_host_def update_rows_def by (simp add: find_map_update assms)

lemma find_host_SomeD: "find_host k w = Some h \<Longrightarrow> host_key h = k \<and> h \<in> set (w_hosts w)"
  by (auto simp: find_host_def dest: find_SomeD)

lemma find_host_unique:
  assumes "wf_world w" and "h \<in> set (w_hosts w)"
  shows "find_host (host_key h) w = Some h"
proof -
  have "distinct (map host_key hs) \<Longrightarrow> h \<in> set hs \<Longrightarrow> find (\<lambda>x. host_key x = host_key h) hs = Some h"
    for hs by (induction hs) (auto simp: image_iff)
  then show ?thesis using assms by (simp add: wf_world_def find_host_def)
qed

lemma guarded_rows_None:
  assumes "wf_world w"
  shows "length (filter (guard_row k s) (w_hosts w)) = 0 \<longleftrightarrow>
         (\<forall>h. find_host k w = Some h \<longrightarrow> Host_Status h \<noteq> s)"
  using find_host_unique [OF assms] find_host_SomeD [of k w]
  by (auto simp: filter_empty_conv guard_row_def)

lemma find_guarded:
  assumes "\<And>h. host_key (f h) = host_key h"
  shows "find_host k' (update_rows (guard_row k s) f w) =
         map_option (\<lambda>h. if k' = k \<and> Host_Status h = s then f h else h) (find_host k' w)"
  using find_host_SomeD [of k' w]
  by (cases "find_host k' w") (auto simp: find_update_rows [OF assms] guard_row_def)

text \<open>The assignment that an argument list stands for.\<close>

definition assignment :: "iface list \<Rightarrow> (host \<Rightarrow> host) option" where
  "assignment extra =
     (if length extra mod 2 \<noteq> 0 then None
      else case pairs_of extra of Inl _ \<Rightarrow> None | Inr cvs \<Rightarrow> assign_all (updates_map cvs))"

lemma assignment_key: "assignment extra = Some f \<Longrightarrow> host_key (f h) = host_key h"
  by (auto simp: assignment_def assign_all_key split: if_splits sum.splits)

lemma assignment_progress:
  "assignment extra = Some f \<Longrightarrow> Host_Progress h \<noteq> None \<Longrightarrow> Host_Progress (f h) \<noteq> None"
  using assign_all_progress [of _ f h]
  by (auto simp: assignment_def simp del: not_None_eq split: if_splits sum.splits)

lemma assignment_column:
  "assignment extra = Some f \<Longrightarrow> pairs_of extra = Inr cvs \<Longrightarrow>
   column_value c (f h) = (case map_of (rev cvs) c of None \<Rightarrow> column_value c h | Some v \<Rightarrow> v)"
  by (auto simp: assignment_def assign_all_column updates_map_distinct updates_map_lookup
           split: if_splits)

lemma UpdateHost_fails:
  "assignment extra = None \<or> w_dbfault w UpdateHosts \<Longrightarrow>
   \<exists>err. UpdateHost i j s extra w = (Inl err, w)"
  by (auto simp: UpdateHost_def assignment_def split: sum.splits option.splits)

lemma UpdateHost_runs:
  assumes "assignment extra = Some f" and "\<not> w_dbfault w UpdateHosts"
  shows "snd (UpdateHost i j s extra w) = update_rows (guard_row (i, j) s) f w"
  using assms
  by (auto simp: UpdateHost_def assignment_def Let_def split: if_splits sum.splits)

lemma UpdateHost_Inr:
  assumes "wf_world w" and "UpdateHost i j s extra w = (Inr r', w')"
  shows "\<exists>f r. assignment extra = Some f \<and> w' = update_rows (guard_row (i, j) s) f w \<and>
    find_host (i, j) w = Some r \<and> find_host (i, j) w' = Some r' \<and>
    r' = (if Host_Status r = s then f r else r) \<and> (Host_Status r \<noteq> s \<longrightarrow> f r = r)"
proof -
  from assms(2) UpdateHost_fails [of extra w i j s] obtain f
    where f: "assignment extra = Some f" and nf: "\<not> w_dbfault w UpdateHosts" by fastforce
  let ?w = "update_rows (guard_row (i, j) s) f w"
  have w': "w' = ?w" using UpdateHost_runs [OF f nf, of i j s] assms(2) by simp
  have found: "find_host (i, j) w' = Some r'"
    and ex: "length (filter (guard_row (i, j) s) (w_hosts w)) \<noteq> 0 \<or> hostExistsInDB w' (i, j) f"
    using assms(2) f nf
    by (auto simp: UpdateHost_def assignment_def Let_def GetHostFromDB_def split: if_splits sum.splits option.splits)
  from found obtain r where r: "find_host (i, j) w = Some r"
    and r': "r' = (if Host_Status r = s then f r else r)"
    by (auto simp: w' find_guarded [OF assignment_key [OF f]])
  have "f r = r" if "Host_Status r \<noteq> s"
    using ex found r r' that guarded_rows_None [OF assms(1), of "(i, j)" s]
    by (auto simp: hostExistsInDB_def)
  with f w' r found r' show ?thesis by blast
qed

lemma UpdateHost_column:
  assumes "wf_world w" and "UpdateHost i j s extra w = (Inr r', w')"
    and "pairs_of extra = Inr cvs" and "map_of (rev cvs) c = Some v"
  shows "column_value c r' = v"
proof -
  from UpdateHost_Inr [OF assms(1,2)] obtain f r
    where f: "assignment extra = Some f" and "r' = f r" by (metis (full_types))
  with assignment_column [OF f assms(3), of c r] assms(4) show ?thesis by simp
qed

lemma send_event_frame [simp]:
  "w_hosts (send_event e w) = w_hosts w" "w_now (send_event e w) = w_now w"
  "w_clusters (send_event e w) = w_clusters w" "w_dbfault (send_event e w) = w_dbfault w"
  "w_deleted_hosts (send_event e w) = w_deleted_hosts w"
  "w_notified (send_event e w) = w_notified w" "w_events (send_event e w) = w_events w @ [e]"
  by (simp_all add: send_event_def)

lemma Notify_frame [simp]:
  "w_hosts (Notify h w) = w_hosts w" "w_now (Notify h w) = w_now w"
  "w_clusters (Notify h w) = w_clusters w" "w_dbfault (Notify h w) = w_dbfault w"
  "w_deleted_hosts (Notify h w) = w_deleted_hosts w"
  "w_notified (Notify h w) = w_notified w @ [h]" "w_events (Notify h w) = w_events w"
  by (simp_all add: Notify_def)

lemma find_host_hosts: "w_hosts w = w_hosts w' \<Longrightarrow> find_host k w = find_host k w'"
  by (simp add: find_host_def)

lemma find_host_frame [simp]:
  "find_host k (send_event e w) = find_host k w" "find_host k (Notify h w) = find_host k w"
  by (simp_all add: find_host_def)

lemma wf_world_frame [simp]:
  "wf_world (send_event e w) = wf_world w" "wf_world (Notify h w) = wf_world w"
  by (simp_all add: wf_world_def)

lemma wf_update_rows:
  assumes "\<And>h. host_key (f h) = host_key h"
    and "\<And>h. Host_Progress h \<noteq> None \<Longrightarrow> Host_Progress (f h) \<noteq> None"
  shows "wf_world w \<Longrightarrow> wf_world (update_rows P f w)"
proof -
  have "map host_key (map (\<lambda>h. if P h then f h else h) hs) = map host_key hs" for hs
    by (induction hs) (simp_all add: assms(1))
  moreover have "list_all (\<lambda>h. Host_Progress h \<noteq> None) hs \<Longrightarrow>
      list_all (\<lambda>h. Host_Progress h \<noteq> None) (map (\<lambda>h. if P h then f h else h) hs)" for hs
    by (induction hs) (use assms(2) in auto)
  ultimately show "wf_world w \<Longrightarrow> wf_world (update_rows P f w)"
    by (simp add: wf_world_def update_rows_def del: map_map)
qed

lemma UpdateHost_snd_cases:
  obtains (unchanged) "snd (UpdateHost i j s extra w) = w"
  | (changed) f where "assignment extra = Some f" "\<not> w_dbfault w UpdateHosts"
      "snd (UpdateHost i j s extra w) = update_rows (guard_row (i, j) s) f w"
  using UpdateHost_fails [of extra w i j s] UpdateHost_runs [of extra _ w i j s]
  by (metis not_None_eq snd_conv)

lemma UpdateHost_wf: "wf_world w \<Longrightarrow> wf_world (snd (UpdateHost i j s extra w))"
  by (rule UpdateHost_snd_cases [of i j s extra w])
     (simp, metis wf_update_rows assignment_key assignment_progress)

lemma UpdateHost_frame [frame_simps]:
  "w_now (snd (UpdateHost i j s extra w)) = w_now w"
  "w_clusters (snd (UpdateHost i j s extra w)) = w_clusters w"
  "w_deleted_hosts (snd (UpdateHost i j s extra w)) = w_deleted_hosts w"
  "w_events (snd (UpdateHost i j s extra w)) = w_events w"
  "w_notified (snd (UpdateHost i j s extra w)) = w_notified w"
  "w_notified_clusters (snd (UpdateHost i j s extra w)) = w_notified_clusters w"
  "w_dbfault (snd (UpdateHost i j s extra w)) = w_dbfault w"
  by (rule UpdateHost_snd_cases [of i j s extra w]; simp add: update_rows_def)+

text \<open>The host table fulfils the contract of a guarded store.\<close>

interpretation hosts: guarded_store find_host Host_Status wf_world assignment
  "\<lambda>k. UpdateHost (fst k) (snd k)"
proof
  fix w k s u
  show "wf_world w \<Longrightarrow> wf_world (snd (UpdateHost (fst k) (snd k) s u w))" by (rule UpdateHost_wf)
next
  fix k' k :: key and s u w
  assume "k' \<noteq> k"
  then show "find_host k' (snd (UpdateHost (fst k) (snd k) s u w)) = find_host k' w"
  proof (cases rule: UpdateHost_snd_cases [of "fst k" "snd k" s u w])
    case (changed f)
    with \<open>k' \<noteq> k\<close> show ?thesis
      by (simp add: find_guarded [OF assignment_key [OF changed(1)]] map_option.id [unfolded id_def])
  qed simp
next
  fix k s u w
  show "find_host k (snd (UpdateHost (fst k) (snd k) s u w)) = find_host k w \<or>
      (\<exists>f r. assignment u = Some f \<and> find_host k w = Some r \<and> Host_Status r = s \<and>
             find_host k (snd (UpdateHost (fst k) (snd k) s u w)) = Some (f r))"
  proof (cases rule: UpdateHost_snd_cases [of "fst k" "snd k" s u w])
    case (changed f)
    then show ?thesis
      by (cases "find_host k w") (auto simp: find_guarded [OF assignment_key [OF changed(1)]])
  qed simp
next
  fix w k s u r' w'
  assume "wf_world w" and "UpdateHost (fst k) (snd k) s u w = (Inr r', w')"
  from UpdateHost_Inr [OF this] show "\<exists>f r. assignment u = Some f \<and> find_host k w = Some r \<and>
      find_host k w' = Some r' \<and> r' = (if Host_Status r = s then f r else r) \<and>
      (Host_Status r \<noteq> s \<longrightarrow> f r = r)" by (simp only: prod.collapse) blast
qed

section \<open>Status updates\<close>

lemma pairs_of_append:
  "even (length xs) \<Longrightarrow> pairs_of (xs @ ys) =
     (case pairs_of xs of Inl e \<Rightarrow> Inl e
      | Inr a \<Rightarrow> (case pairs_of ys of Inl e \<Rightarrow> Inl e | Inr b \<Rightarrow> Inr (a @ b)))"
  by (induction xs rule: pairs_of.induct) (auto split: sum.splits iface.splits)

text \<open>The columns that an argument list assigns.\<close>

definition extra_columns :: "iface list \<Rightarrow> column set" where
  "extra_columns extra = (case pairs_of extra of Inl _ \<Rightarrow> {} | Inr cvs \<Rightarrow> fst ` set cvs)"

lemma pairs_of_status_extra:
  assumes "even (length extra)" and "pairs_of extra = Inr cvs"
  shows "pairs_of (status_extra now s t info extra) =
    Inr ([(C_status, IStatus t), (C_status_info, IString info)] @ cvs @
         (if t \<noteq> s then [(C_status_updated_at, ITime now), (C_trigger_monitor_timestamp, ITime now)]
          else []))"
  using assms by (auto simp: status_extra_def pairs_of_append)

lemma map_of_rev_notin: "c \<notin> fst ` set cvs \<Longrightarrow> map_of (rev cvs) c = None"
  by (simp add: map_of_eq_None_iff)

text \<open>
  In a well-formed store a status update never yields the nil host with a nil error: when it reports
  no error, it returns the stored row, and that row has the requested status.
\<close>

lemma UpdateHostStatus_Inr:
  assumes "wf_world w" and "even (length extra)" and "pairs_of extra = Inr cvs"
    and "C_status \<notin> fst ` set cvs"
    and "UpdateHostStatus J i j s t info extra w = (Inr res, w')"
  shows "\<exists>h. res = Some h \<and> Host_Status h = t \<and> find_host (i, j) w' = Some h"
proof -
  let ?ex = "status_extra (w_now w) s t info extra"
  from assms(5) obtain h w1 where u: "UpdateHost i j s ?ex w = (Inr h, w1)"
    by (auto simp: UpdateHostStatus_def UpdateHostAndNotify_def split: sum.splits prod.splits)
  have "column_value C_status h = IStatus t"
    by (rule UpdateHost_column [OF assms(1) u pairs_of_status_extra [OF assms(2,3)]])
       (use assms(4) in \<open>auto simp: map_of_rev_notin map_add_def\<close>)
  then have st: "Host_Status h = t" by simp
  moreover have "find_host (i, j) w1 = Some h" using hosts.update_ok [of w "(i, j)"] assms(1) u by auto
  moreover have "res = Some h \<and> find_host (i, j) w' = find_host (i, j) w1"
    using assms(5) u st by (auto simp: UpdateHostStatus_def UpdateHostAndNotify_def split: if_splits)
  ultimately show ?thesis by simp
qed

lemma UpdateHostStatus_frame [frame_simps]:
  "w_hosts (snd (UpdateHostStatus J i j s t info extra w)) =
     w_hosts (snd (UpdateHost i j s (status_extra (w_now w) s t info extra) w))"
  "w_now (snd (UpdateHostStatus J i j s t info extra w)) = w_now w"
  "w_clusters (snd (UpdateHostStatus J i j s t info extra w)) = w_clusters w"
  "w_deleted_hosts (snd (UpdateHostStatus J i j s t info extra w)) = w_deleted_hosts w"
  "w_dbfault (snd (UpdateHostStatus J i j s t info extra w)) = w_dbfault w"
proof -
  obtain res w1 where u: "UpdateHost i j s (status_extra (w_now w) s t info extra) w = (res, w1)"
    by force
  note fr = UpdateHost_frame [of i j s "status_extra (w_now w) s t info extra" w, unfolded u snd_conv]
  show "w_hosts (snd (UpdateHostStatus J i j s t info extra w)) =
      w_hosts (snd (UpdateHost i j s (status_extra (w_now w) s t info extra) w))"
    "w_now (snd (UpdateHostStatus J i j s t info extra w)) = w_now w"
    "w_clusters (snd (UpdateHostStatus J i j s t info extra w)) = w_clusters w"
    "w_deleted_hosts (snd (UpdateHostStatus J i j s t info extra w)) = w_deleted_hosts w"
    "w_dbfault (snd (UpdateHostStatus J i j s t info extra w)) = w_dbfault w"
    by (cases res; simp add: UpdateHostStatus_def UpdateHostAndNotify_def u fr)+
qed

lemma TruncateStatusInfo_length: "length (TruncateStatusInfo s) \<le> StatusInfoMaxLength"
  by (simp add: TruncateStatusInfo_def)

end
