(* ===== verification/Host_Ids.thy ===== *)
theory Host_Ids
  imports Models
begin

text \<open>
  The identifiers of host validations and conditions: \<open>internal/host/validation_id.go\<close> and the
  constants of \<open>internal/host/conditions.go\<close>. The code keys one Go map with the strings of both
  kinds; the model keys it with the identifiers themselves, which is the same thing because no two
  of them have the same string.
\<close>

text \<open>\<open>OtherHostValidationID\<close> is any other string, as an operator may report it.\<close>

datatype validationID =
    IsMediaConnected | IsConnected | HasInventory | InventoryNotPartiallyTruncated
  | InventoryNotFullyTruncated | IsMachineCidrDefined | BelongsToMachineCidr | HasMinCPUCores
  | HasMinValidDisks | HasMinMemory | HasCPUCoresForRole | HasMemoryForRole | IsHostnameUnique
  | IsHostnameValid | IsIgnitionDownloadable | BelongsToMajorityGroup
  | IsPlatformNetworkSettingsValid | IsNTPSynced | IsTimeSyncedBetweenHostAndService
  | SucessfullOrUnknownContainerImagesAvailability | AreLsoRequirementsSatisfied
  | AreOdfRequirementsSatisfied | AreCnvRequirementsSatisfied | AreLvmRequirementsSatisfied
  | AreMceRequirementsSatisfied | AreMtvRequirementsSatisfied | AreOscRequirementsSatisfied
  | SufficientOrUnknownInstallationDiskSpeed | HasSufficientNetworkLatencyRequirementForRole
  | HasSufficientPacketLossRequirementForRole | HasDefaultRoute
  | IsAPIDomainNameResolvedCorrectly | IsAPIInternalDomainNameResolvedCorrectly
  | IsAppsDomainNameResolvedCorrectly | IsReleaseDomainNameResolvedCorrectly
  | CompatibleWithClusterPlatform | IsDNSWildcardNotConfigured
  | DiskEncryptionRequirementsSatisfied | NonOverlappingSubnets | VSphereHostUUIDEnabled
  | CompatibleAgent | NoSkipInstallationDisk | NoSkipMissingDisk | NoIPCollisionsInNetwork
  | NoIscsiNicBelongsToMachineCidr | AreNodeFeatureDiscoveryRequirementsSatisfied
  | AreNvidiaGPURequirementsSatisfied | ArePipelinesRequirementsSatisfied
  | AreServiceMeshRequirementsSatisfied | AreServerLessRequirementsSatisfied
  | AreOpenShiftAIRequirementsSatisfied | AreAuthorinoRequirementsSatisfied | IsMtuValid
  | AreNmstateRequirementsSatisfied | AreAMDGPURequirementsSatisfied
  | AreKMMRequirementsSatisfied | AreNodeHealthcheckRequirementsSatisfied
  | AreSelfNodeRemediationRequirementsSatisfied | AreFenceAgentsRemediationRequirementsSatisfied
  | AreNodeMaintenanceRequirementsSatisfied | AreKubeDeschedulerRequirementsSatisfied
  | AreClusterObservabilityRequirementsSatisfied | AreNUMAResourcesRequirementsSatisfied
  | AreOADPRequirementsSatisfied | AreMetalLBRequirementsSatisfied
  | AreLokiRequirementsSatisfied | AreOpenShiftLoggingRequirementsSatisfied
  | OtherHostValidationID string

datatype conditionId =
    InstallationDiskSpeedCheckSuccessful | ClusterPreparingForInstallation
  | ClusterPendingUserAction | ClusterInstalling | ValidRoleForInstallation
  | StageInWrongBootStages | ClusterInError | SuccessfulContainerImageAvailability
  | HostStageTimedOut | SoftTimeoutsEnabled | ConnectionTimedOut

primrec validationID_String :: "validationID \<Rightarrow> string" where
  "validationID_String IsMediaConnected = ''media-connected''"
| "validationID_String IsConnected = ''connected''"
| "validationID_String HasInventory = ''has-inventory''"
| "validationID_String InventoryNotPartiallyTruncated = ''inventory-not-partially-truncated''"
| "validationID_String InventoryNotFullyTruncated = ''inventory-not-fully-truncated''"
| "validationID_String IsMachineCidrDefined = ''machine-cidr-defined''"
| "validationID_String BelongsToMachineCidr = ''belongs-to-machine-cidr''"
| "validationID_String HasMinCPUCores = ''has-min-cpu-cores''"
| "validationID_String HasMinValidDisks = ''has-min-valid-disks''"
| "validationID_String HasMinMemory = ''has-min-memory''"
| "validationID_String HasCPUCoresForRole = ''has-cpu-cores-for-role''"
| "validationID_String HasMemoryForRole = ''has-memory-for-role''"
| "validationID_String IsHostnameUnique = ''hostname-unique''"
| "validationID_String IsHostnameValid = ''hostname-valid''"
| "validationID_String IsIgnitionDownloadable = ''ignition-downloadable''"
| "validationID_String BelongsToMajorityGroup = ''belongs-to-majority-group''"
| "validationID_String IsPlatformNetworkSettingsValid = ''valid-platform-network-settings''"
| "validationID_String IsNTPSynced = ''ntp-synced''"
| "validationID_String IsTimeSyncedBetweenHostAndService = ''time-synced-between-host-and-service''"
| "validationID_String SucessfullOrUnknownContainerImagesAvailability = ''container-images-available''"
| "validationID_String AreLsoRequirementsSatisfied = ''lso-requirements-satisfied''"
| "validationID_String AreOdfRequirementsSatisfied = ''odf-requirements-satisfied''"
| "validationID_String AreCnvRequirementsSatisfied = ''cnv-requirements-satisfied''"
| "validationID_String AreLvmRequirementsSatisfied = ''lvm-requirements-satisfied''"
| "validationID_String AreMceRequirementsSatisfied = ''mce-requirements-satisfied''"
| "validationID_String AreMtvRequirementsSatisfied = ''mtv-requirements-satisfied''"
| "validationID_String AreOscRequirementsSatisfied = ''osc-requirements-satisfied''"
| "validationID_String SufficientOrUnknownInstallationDiskSpeed = ''sufficient-installation-disk-speed''"
| "validationID_String HasSufficientNetworkLatencyRequirementForRole = ''sufficient-network-latency-requirement-for-role''"
| "validationID_String HasSufficientPacketLossRequirementForRole = ''sufficient-packet-loss-requirement-for-role''"
| "validationID_String HasDefaultRoute = ''has-default-route''"
| "validationID_String IsAPIDomainNameResolvedCorrectly = ''api-domain-name-resolved-correctly''"
| "validationID_String IsAPIInternalDomainNameResolvedCorrectly = ''api-int-domain-name-resolved-correctly''"
| "validationID_String IsAppsDomainNameResolvedCorrectly = ''apps-domain-name-resolved-correctly''"
| "validationID_String IsReleaseDomainNameResolvedCorrectly = ''release-domain-name-resolved-correctly''"
| "validationID_String CompatibleWithClusterPlatform = ''compatible-with-cluster-platform''"
| "validationID_String IsDNSWildcardNotConfigured = ''dns-wildcard-not-configured''"
| "validationID_String DiskEncryptionRequirementsSatisfied = ''disk-encryption-requirements-satisfied''"
| "validationID_String NonOverlappingSubnets = ''non-overlapping-subnets''"
| "validationID_String VSphereHostUUIDEnabled = ''vsphere-disk-uuid-enabled''"
| "validationID_String CompatibleAgent = ''compatible-agent''"
| "validationID_String NoSkipInstallationDisk = ''no-skip-installation-disk''"
| "validationID_String NoSkipMissingDisk = ''no-skip-missing-disk''"
| "validationID_String NoIPCollisionsInNetwork = ''no-ip-collisions-in-network''"
| "validationID_String NoIscsiNicBelongsToMachineCidr = ''no-iscsi-nic-belongs-to-machine-cidr''"
| "validationID_String AreNodeFeatureDiscoveryRequirementsSatisfied = ''node-feature-discovery-requirements-satisfied''"
| "validationID_String AreNvidiaGPURequirementsSatisfied = ''nvidia-gpu-requirements-satisfied''"
| "validationID_String ArePipelinesRequirementsSatisfied = ''pipelines-requirements-satisfied''"
| "validationID_String AreServiceMeshRequirementsSatisfied = ''servicemesh-requirements-satisfied''"
| "validationID_String AreServerLessRequirementsSatisfied = ''serverless-requirements-satisfied''"
| "validationID_String AreOpenShiftAIRequirementsSatisfied = ''openshift-ai-requirements-satisfied''"
| "validationID_String AreAuthorinoRequirementsSatisfied = ''authorino-requirements-satisfied''"
| "validationID_String IsMtuValid = ''mtu-valid''"
| "validationID_String AreNmstateRequirementsSatisfied = ''nmstate-requirements-satisfied''"
| "validationID_String AreAMDGPURequirementsSatisfied = ''amd-gpu-requirements-satisfied''"
| "validationID_String AreKMMRequirementsSatisfied = ''kmm-requirements-satisfied''"
| "validationID_String AreNodeHealthcheckRequirementsSatisfied = ''node-healthcheck-requirements-satisfied''"
| "validationID_String AreSelfNodeRemediationRequirementsSatisfied = ''self-node-remediation-requirements-satisfied''"
| "validationID_String AreFenceAgentsRemediationRequirementsSatisfied = ''fence-agents-remediation-requirements-satisfied''"
| "validationID_String AreNodeMaintenanceRequirementsSatisfied = ''node-maintenance-requirements-satisfied''"
| "validationID_String AreKubeDeschedulerRequirementsSatisfied = ''kube-descheduler-requirements-satisfied''"
| "validationID_String AreClusterObservabilityRequirementsSatisfied = ''cluster-observability-requirements-satisfied''"
| "validationID_String AreNUMAResourcesRequirementsSatisfied = ''numa-resources-requirements-satisfied''"
| "validationID_String AreOADPRequirementsSatisfied = ''oadp-requirements-satisfied''"
| "validationID_String AreMetalLBRequirementsSatisfied = ''metallb-requirements-satisfied''"
| "validationID_String AreLokiRequirementsSatisfied = ''loki-requirements-satisfied''"
| "validationID_String AreOpenShiftLoggingRequirementsSatisfied = ''openshift-logging-requirements-satisfied''"
| "validationID_String (OtherHostValidationID s) = s"

primrec conditionId_String :: "conditionId \<Rightarrow> string" where
  "conditionId_String InstallationDiskSpeedCheckSuccessful = ''installation-disk-speed-check-successful''"
| "conditionId_String ClusterPreparingForInstallation = ''cluster-preparing-for-installation''"
| "conditionId_String ClusterPendingUserAction = ''cluster-pending-user-action''"
| "conditionId_String ClusterInstalling = ''cluster-installing''"
| "conditionId_String ValidRoleForInstallation = ''valid-role-for-installation''"
| "conditionId_String StageInWrongBootStages = ''stage-in-wrong-boot-stages''"
| "conditionId_String ClusterInError = ''cluster-in-error''"
| "conditionId_String SuccessfulContainerImageAvailability = ''successful-container-image-availability''"
| "conditionId_String HostStageTimedOut = ''host-stage-timed-out''"
| "conditionId_String SoftTimeoutsEnabled = ''soft-timeouts-enabled''"
| "conditionId_String ConnectionTimedOut = ''connection-timed-out''"

datatype category = Cat_network | Cat_hardware | Cat_operators

definition network_validations :: "validationID list" where
  "network_validations =
     [IsConnected, IsMediaConnected, IsMachineCidrDefined, BelongsToMachineCidr,
      IsIgnitionDownloadable, BelongsToMajorityGroup, IsNTPSynced,
      IsTimeSyncedBetweenHostAndService, SucessfullOrUnknownContainerImagesAvailability,
      HasSufficientNetworkLatencyRequirementForRole, HasSufficientPacketLossRequirementForRole,
      HasDefaultRoute, IsAPIDomainNameResolvedCorrectly,
      IsAPIInternalDomainNameResolvedCorrectly, IsPlatformNetworkSettingsValid,
      IsAppsDomainNameResolvedCorrectly, IsDNSWildcardNotConfigured, NonOverlappingSubnets,
      IsReleaseDomainNameResolvedCorrectly, NoIPCollisionsInNetwork, IsMtuValid,
      NoIscsiNicBelongsToMachineCidr]"

definition hardware_validations :: "validationID list" where
  "hardware_validations =
     [HasInventory, InventoryNotPartiallyTruncated, InventoryNotFullyTruncated, HasMinCPUCores,
      HasMinValidDisks, HasMinMemory, SufficientOrUnknownInstallationDiskSpeed,
      HasCPUCoresForRole, HasMemoryForRole, IsHostnameUnique, IsHostnameValid,
      CompatibleWithClusterPlatform, VSphereHostUUIDEnabled,
      DiskEncryptionRequirementsSatisfied, CompatibleAgent, NoSkipInstallationDisk,
      NoSkipMissingDisk]"

definition operators_validations :: "validationID list" where
  "operators_validations =
     [AreLsoRequirementsSatisfied, AreOdfRequirementsSatisfied, AreCnvRequirementsSatisfied,
      AreLvmRequirementsSatisfied, AreMceRequirementsSatisfied, AreMtvRequirementsSatisfied,
      AreNodeFeatureDiscoveryRequirementsSatisfied, AreNvidiaGPURequirementsSatisfied,
      ArePipelinesRequirementsSatisfied, AreServiceMeshRequirementsSatisfied,
      AreServerLessRequirementsSatisfied, AreOpenShiftAIRequirementsSatisfied,
      AreAuthorinoRequirementsSatisfied, AreOscRequirementsSatisfied,
      AreNmstateRequirementsSatisfied, AreAMDGPURequirementsSatisfied,
      AreKMMRequirementsSatisfied, AreNodeHealthcheckRequirementsSatisfied,
      AreSelfNodeRemediationRequirementsSatisfied,
      AreFenceAgentsRemediationRequirementsSatisfied, AreNodeMaintenanceRequirementsSatisfied,
      AreKubeDeschedulerRequirementsSatisfied, AreClusterObservabilityRequirementsSatisfied,
      AreNUMAResourcesRequirementsSatisfied, AreOADPRequirementsSatisfied,
      AreMetalLBRequirementsSatisfied, AreLokiRequirementsSatisfied,
      AreOpenShiftLoggingRequirementsSatisfied]"

definition validation_category :: "validationID \<Rightarrow> go_error + category" where
  "validation_category v =
     (if List.member network_validations v then Inr Cat_network
      else if List.member hardware_validations v then Inr Cat_hardware
      else if List.member operators_validations v then Inr Cat_operators
      else Inl (ApiError 500 (ErrNew ''Unexpected validation id'')))"

section \<open>Keys of the condition map\<close>

datatype cond_key = VKey validationID | CKey conditionId

fun key_String :: "cond_key \<Rightarrow> string" where
  "key_String (VKey v) = validationID_String v"
| "key_String (CKey c) = conditionId_String c"

text \<open>All keys, in the order of their strings.\<close>

definition known_keys :: "cond_key list" where
  "known_keys =
    [VKey AreAMDGPURequirementsSatisfied, VKey IsAPIDomainNameResolvedCorrectly,
     VKey IsAPIInternalDomainNameResolvedCorrectly, VKey IsAppsDomainNameResolvedCorrectly,
     VKey AreAuthorinoRequirementsSatisfied, VKey BelongsToMachineCidr,
     VKey BelongsToMajorityGroup, CKey ClusterInError, CKey ClusterInstalling,
     VKey AreClusterObservabilityRequirementsSatisfied, CKey ClusterPendingUserAction,
     CKey ClusterPreparingForInstallation, VKey AreCnvRequirementsSatisfied,
     VKey CompatibleAgent, VKey CompatibleWithClusterPlatform, VKey IsConnected,
     CKey ConnectionTimedOut, VKey SucessfullOrUnknownContainerImagesAvailability,
     VKey DiskEncryptionRequirementsSatisfied, VKey IsDNSWildcardNotConfigured,
     VKey AreFenceAgentsRemediationRequirementsSatisfied, VKey HasCPUCoresForRole,
     VKey HasDefaultRoute, VKey HasInventory, VKey HasMemoryForRole, VKey HasMinCPUCores,
     VKey HasMinMemory, VKey HasMinValidDisks, CKey HostStageTimedOut, VKey IsHostnameUnique,
     VKey IsHostnameValid, VKey IsIgnitionDownloadable,
     CKey InstallationDiskSpeedCheckSuccessful, VKey InventoryNotFullyTruncated,
     VKey InventoryNotPartiallyTruncated, VKey AreKMMRequirementsSatisfied,
     VKey AreKubeDeschedulerRequirementsSatisfied, VKey AreLokiRequirementsSatisfied,
     VKey AreLsoRequirementsSatisfied, VKey AreLvmRequirementsSatisfied,
     VKey IsMachineCidrDefined, VKey AreMceRequirementsSatisfied, VKey IsMediaConnected,
     VKey AreMetalLBRequirementsSatisfied, VKey IsMtuValid, VKey AreMtvRequirementsSatisfied,
     VKey AreNmstateRequirementsSatisfied, VKey NoIPCollisionsInNetwork,
     VKey NoIscsiNicBelongsToMachineCidr, VKey NoSkipInstallationDisk, VKey NoSkipMissingDisk,
     VKey AreNodeFeatureDiscoveryRequirementsSatisfied,
     VKey AreNodeHealthcheckRequirementsSatisfied, VKey AreNodeMaintenanceRequirementsSatisfied,
     VKey NonOverlappingSubnets, VKey IsNTPSynced, VKey AreNUMAResourcesRequirementsSatisfied,
     VKey AreNvidiaGPURequirementsSatisfied, VKey AreOADPRequirementsSatisfied,
     VKey AreOdfRequirementsSatisfied, VKey AreOpenShiftAIRequirementsSatisfied,
     VKey AreOpenShiftLoggingRequirementsSatisfied, VKey AreOscRequirementsSatisfied,
     VKey ArePipelinesRequirementsSatisfied, VKey IsReleaseDomainNameResolvedCorrectly,
     VKey AreSelfNodeRemediationRequirementsSatisfied, VKey AreServerLessRequirementsSatisfied,
     VKey AreServiceMeshRequirementsSatisfied, CKey SoftTimeoutsEnabled,
     CKey StageInWrongBootStages, CKey SuccessfulContainerImageAvailability,
     VKey SufficientOrUnknownInstallationDiskSpeed,
     VKey HasSufficientNetworkLatencyRequirementForRole,
     VKey HasSufficientPacketLossRequirementForRole, VKey IsTimeSyncedBetweenHostAndService,
     VKey IsPlatformNetworkSettingsValid, CKey ValidRoleForInstallation,
     VKey VSphereHostUUIDEnabled]"

lemma known_keys_iff: "k \<in> set known_keys \<longleftrightarrow> (\<forall>s. k \<noteq> VKey (OtherHostValidationID s))"
proof (cases k)
  case (VKey v)
  then show ?thesis unfolding known_keys_def by (cases v) simp_all
next
  case (CKey c)
  then show ?thesis unfolding known_keys_def by (cases c) simp_all
qed

lemma sorted_key_strings: "successively (<) (map key_String known_keys)"
  by (simp add: known_keys_def less_char_def)

lemma key_String_inj:
  assumes "k \<in> set known_keys" and "k' \<in> set known_keys"
  shows "key_String k = key_String k' \<longleftrightarrow> k = k'"
proof -
  from sorted_key_strings have "sorted_wrt (<) (map key_String known_keys)"
    by (simp add: successively_conv_sorted_wrt)
  then have "distinct (map key_String known_keys)" using strict_sorted_iff by blast
  then show ?thesis using assms by (auto simp: distinct_map inj_on_def)
qed

end
