(* ===== verification/Host_Common.thy ===== *)
theory Host_Common
  imports Host_Store Host_Ids
begin

text \<open>
  Constants, configuration and small helpers of the host package: \<open>internal/host/common.go\<close>,
  \<open>internal/host/config.go\<close> and \<open>internal/host/statehost.go\<close>, with the part of \<open>time.Duration\<close>
  that status messages print.
\<close>

section \<open>Status messages\<close>

definition statusInfoMediaDisconnected :: string where
  "statusInfoMediaDisconnected =
     ''Unable to read from the discovery media. It was either disconnected or poor '' @
     ''network conditions prevented it from being read. Try using the minimal ISO '' @
     ''option and be sure to keep the media connected until the installation is '' @
     ''completed''"

definition statusInfoDisconnected :: string where
  "statusInfoDisconnected =
     ''Host has stopped communicating with the installation service''"

definition statusInfoDiscovering :: string where
  "statusInfoDiscovering =
     ''Waiting for host to send hardware details''"

definition statusInfoInsufficientHardware :: string where
  "statusInfoInsufficientHardware =
     ''Host does not meet the minimum hardware requirements: $FAILING_VALIDATIONS''"

definition statusInfoPendingForInput :: string where
  "statusInfoPendingForInput =
     ''Waiting for user input: $FAILING_VALIDATIONS''"

definition statusInfoNotReadyForInstall :: string where
  "statusInfoNotReadyForInstall =
     ''Host cannot be installed due to following failing validation(s): '' @
     ''$FAILING_VALIDATIONS''"

definition statusInfoPreparationTimeout :: string where
  "statusInfoPreparationTimeout =
     ''The host has encountered a preparation timeout, the following conditions '' @
     ''failed: $FAILING_CONDITIONS''"

definition statusInfoPreparationTimeoutDiskSpeed :: string where
  "statusInfoPreparationTimeoutDiskSpeed =
     ''the installation disk speed check did not complete within the timeout.''"

definition statusInfoPreparationTimeoutImageAvailability :: string where
  "statusInfoPreparationTimeoutImageAvailability =
     ''container availability was not determined within the timeout.''"

definition statusInfoKnown :: string where
  "statusInfoKnown =
     ''Host is ready to be installed''"

definition statusInfoInstalling :: string where
  "statusInfoInstalling =
     ''Installation is in progress''"

definition statusInfoResettingPendingUserAction :: string where
  "statusInfoResettingPendingUserAction =
     ''Host requires booting into the discovery image to complete resetting the '' @
     ''installation''"

definition statusInfoPreparingForInstallation :: string where
  "statusInfoPreparingForInstallation =
     ''Host is preparing for installation''"

definition statusInfoHostPreparationSuccessful :: string where
  "statusInfoHostPreparationSuccessful =
     ''Host finished successfully to prepare for installation''"

definition statusInfoHostPreparationFailure :: string where
  "statusInfoHostPreparationFailure =
     ''Host failed to prepare for installation due to following failing validation(s): '' @
     ''$FAILING_VALIDATIONS''"

definition statusInfoAbortingDueClusterErrors :: string where
  "statusInfoAbortingDueClusterErrors =
     ''Host is part of a cluster that failed to install''"

definition statusInfoInstallationTimedOut :: string where
  "statusInfoInstallationTimedOut =
     ''Host failed to install due to timeout while starting installation''"

definition statusInfoConnectionTimedOutInstalling :: string where
  "statusInfoConnectionTimedOutInstalling =
     ''Host failed to install due to timeout while connecting to host during the '' @
     ''installation phase.''"

definition statusInfoConnectionSoftTimedOutInstalling :: string where
  "statusInfoConnectionSoftTimedOutInstalling =
     ''Host is failing to perform periodic health check during the installation phase.''"

definition statusInfoConnectionSoftTimedOutInstallingReconnected :: string where
  "statusInfoConnectionSoftTimedOutInstallingReconnected =
     ''Host recovered from failure to perform periodic health check during the '' @
     ''installation phase.''"

definition statusInfoConnectionTimedOutPreparing :: string where
  "statusInfoConnectionTimedOutPreparing =
     ''Host failed to install due to timeout while connecting to host during the '' @
     ''preparation phase.''"

definition statusInfoInstallationInProgressTimedOut :: string where
  "statusInfoInstallationInProgressTimedOut =
     ''Host failed to install because its installation stage $STAGE took longer than '' @
     ''expected $MAX_TIME''"

definition statusInfoInstallationInProgressSoftTimedOut :: string where
  "statusInfoInstallationInProgressSoftTimedOut =
     ''Host installation stage $STAGE is taking longer than expected $MAX_TIME''"

definition statusInfoInstallationInProgressWritingImageToDiskTimedOut :: string where
  "statusInfoInstallationInProgressWritingImageToDiskTimedOut =
     ''Host failed to install because its installation stage $STAGE did not '' @
     ''sufficiently progress in the last $MAX_TIME.''"

definition statusInfoInstallationInProgressWritingImageToDiskSoftTimedOut :: string where
  "statusInfoInstallationInProgressWritingImageToDiskSoftTimedOut =
     ''Host installation stage $STAGE is not progressing sufficiently in the last '' @
     ''$MAX_TIME. To troubleshoot use kubeconfig or connect to the node using ssh''"

definition statusInfoInstallationInProgressCopyingRegistryDataToDiskTimedOut :: string where
  "statusInfoInstallationInProgressCopyingRegistryDataToDiskTimedOut =
     ''Host failed to install because its installation stage $STAGE did not '' @
     ''sufficiently progress in the last $MAX_TIME.''"

definition statusInfoInstallationInProgressCopyingRegistryDataToDiskSoftTimedOut :: string where
  "statusInfoInstallationInProgressCopyingRegistryDataToDiskSoftTimedOut =
     ''Host installation stage $STAGE is not progressing sufficiently in the last '' @
     ''$MAX_TIME. To troubleshoot use kubeconfig or connect to the node using ssh''"

definition statusInfoHostReadyToBeBound :: string where
  "statusInfoHostReadyToBeBound =
     ''Host is ready to be bound to a cluster''"

definition statusInfoBinding :: string where
  "statusInfoBinding =
     ''Host is waiting to be bound to the cluster''"

definition statusRebootTimeout :: string where
  "statusRebootTimeout =
     ''Host timed out when pulling the configuration files. Verify in the host console '' @
     ''that the host boots from the OpenShift installation disk $INSTALLATION_DISK and '' @
     ''has network access to the cluster API. The installation will resume after the '' @
     ''host successfully boots and can access the cluster API''"

definition statusInfoPendingUserActionTimeout :: string where
  "statusInfoPendingUserActionTimeout =
     ''Host failed to boot from the installation disk within the expected time.''"

definition statusInfoUnbinding :: string where
  "statusInfoUnbinding =
     ''Host is waiting to be unbound from the cluster''"

definition statusInfoRebootingDay2 :: string where
  "statusInfoRebootingDay2 =
     ''Host has rebooted and no further updates will be posted. Please check console '' @
     ''for progress and to possibly approve pending CSRs''"

definition statusInfoRebootingForReclaim :: string where
  "statusInfoRebootingForReclaim =
     ''Host is rebooting into the discovery image''"

section \<open>Stages and groups of statuses\<close>

definition BootstrapStages :: "host_stage list" where
  "BootstrapStages =
    [HostStageStartingInstallation, HostStageInstalling, HostStageWritingImageToDisk,
     HostStageCopyingRegistryDataToDisk, HostStageWaitingForControlPlane,
     HostStageWaitingForBootkube, HostStageWaitingForController, HostStageRebooting,
     HostStageConfiguring, HostStageJoined, HostStageDone]"

definition MasterStages :: "host_stage list" where
  "MasterStages =
    [HostStageStartingInstallation, HostStageInstalling, HostStageWritingImageToDisk,
     HostStageCopyingRegistryDataToDisk, HostStageRebooting, HostStageConfiguring,
     HostStageJoined, HostStageDone]"

definition WorkerStages :: "host_stage list" where
  "WorkerStages =
    [HostStageStartingInstallation, HostStageInstalling, HostStageWritingImageToDisk,
     HostStageWaitingForControlPlane, HostStageRebooting, HostStageWaitingForIgnition,
     HostStageConfiguring, HostStageJoined, HostStageDone]"

definition SnoStages :: "host_stage list" where
  "SnoStages =
    [HostStageStartingInstallation, HostStageInstalling, HostStageWaitingForBootkube,
     HostStageWritingImageToDisk, HostStageCopyingRegistryDataToDisk, HostStageRebooting,
     HostStageJoined, HostStageDone]"

definition HostInstallingStatuses :: "host_status list" where
  "HostInstallingStatuses =
    [HostStatusPreparingForInstallation, HostStatusPreparingFailed,
     HostStatusPreparingSuccessful, HostStatusInstalling, HostStatusInstallingInProgress,
     HostStatusInstallingPendingUserAction]"

definition manualRebootStages :: "host_stage list" where
  "manualRebootStages =
    [HostStageRebooting, HostStageWaitingForIgnition, HostStageConfiguring, HostStageJoined,
     HostStageDone]"

definition allStages :: "host_stage list" where
  "allStages =
    [HostStageConfiguring, HostStageDone, HostStageFailed, HostStageInstalling,
     HostStageJoined, HostStageRebooting, HostStageStartingInstallation,
     HostStageWaitingForBootkube, HostStageWaitingForControlPlane,
     HostStageWaitingForController, HostStageWaitingForIgnition, HostStageWritingImageToDisk,
     HostStageCopyingRegistryDataToDisk]"

definition hostStatusesBeforeInstallation :: "host_status list" where
  "hostStatusesBeforeInstallation =
    [HostStatusDiscovering, HostStatusKnown, HostStatusDisconnected, HostStatusInsufficient,
     HostStatusPendingForInput]"

definition hostStatusesInInfraEnv :: "host_status list" where
  "hostStatusesInInfraEnv =
    [HostStatusDisconnectedUnbound, HostStatusInsufficientUnbound,
     HostStatusDiscoveringUnbound, HostStatusKnownUnbound]"

definition hostStatusesBeforeInstallationOrUnbound :: "host_status list" where
  "hostStatusesBeforeInstallationOrUnbound =
    [HostStatusDiscovering, HostStatusKnown, HostStatusDisconnected, HostStatusInsufficient,
     HostStatusPendingForInput, HostStatusDisconnectedUnbound, HostStatusInsufficientUnbound,
     HostStatusDiscoveringUnbound, HostStatusKnownUnbound, HostStatusBinding]"

fun IndexOfStage_from :: "int \<Rightarrow> host_stage \<Rightarrow> host_stage list \<Rightarrow> int" where
  "IndexOfStage_from k element [] = -1"
| "IndexOfStage_from k element (v # vs) =
     (if element = v then k else IndexOfStage_from (k + 1) element vs)"

definition IndexOfStage :: "host_stage \<Rightarrow> host_stage list \<Rightarrow> int" where
  "IndexOfStage element data = IndexOfStage_from 0 element data"

definition FindMatchingStages :: "host_role \<Rightarrow> bool \<Rightarrow> bool \<Rightarrow> host_stage list" where
  "FindMatchingStages role bootstrap isSNO =
     (if bootstrap \<or> role = HostRoleBootstrap then (if isSNO then SnoStages else BootstrapStages)
      else if role = HostRoleMaster \<or> role = HostRoleArbiter then MasterStages
      else if role = HostRoleWorker then WorkerStages
      else [])"

definition FindHostByID :: "uuid \<Rightarrow> host list \<Rightarrow> host option" where
  "FindHostByID hostID hosts = find (\<lambda>h. hostID = Host_ID h) hosts"

section \<open>Durations as text\<close>

text \<open>\<open>time.Duration.String\<close>: \<open>72h3m0.5s\<close>, with units below a second for short durations.\<close>

fun trim_zeros :: "string \<Rightarrow> string" where
  "trim_zeros [] = []"
| "trim_zeros (c # cs) =
     (case trim_zeros cs of
        [] \<Rightarrow> if c = CHR ''0'' then [] else [c]
      | cs' \<Rightarrow> c # cs')"

fun pad_digits :: "nat \<Rightarrow> nat \<Rightarrow> string" where
  "pad_digits 0 n = []"
| "pad_digits (Suc k) n = pad_digits k (n div 10) @ [char_of (48 + n mod 10)]"

definition fmt_frac :: "nat \<Rightarrow> nat \<Rightarrow> string" where
  "fmt_frac v prec =
     nat_digits (v div 10 ^ prec) @
     (let frac = trim_zeros (pad_digits prec (v mod 10 ^ prec))
      in if frac = [] then [] else ''.'' @ frac)"

definition Duration_String :: "duration \<Rightarrow> string" where
  "Duration_String d =
     (let u = nat \<bar>d\<bar>; secs = u div 1000000000; mins = secs div 60; hrs = mins div 60;
          body =
            (if u = 0 then ''0s''
             else if u < 1000 then nat_digits u @ ''ns''
             else if u < 1000000 then fmt_frac u 3 @ [CHR 0xC2, CHR 0xB5] @ ''s''
             else if u < 1000000000 then fmt_frac u 6 @ ''ms''
             else (if hrs > 0 then nat_digits hrs @ ''h'' else []) @
                  (if mins > 0 then nat_digits (mins mod 60) @ ''m'' else []) @
                  fmt_frac ((secs mod 60) * 1000000000 + u mod 1000000000) 9 @ ''s'')
      in if d < 0 then ''-'' @ body else body)"

section \<open>Configuration\<close>

record config =
  PrepareForInstallationTimeout :: duration
  LogCollectionTimeout :: duration
  LogPendingTimeout :: duration
  EnableAutoAssign :: bool
  ResetTimeout :: duration
  MaxHostDisconnectionTime :: duration
  InstallingPendingUserActionTimeout :: duration
  hostStageTimeouts :: "(host_stage \<Rightarrow> duration option) option"

definition hostStageTimeoutDefaults :: "(host_stage \<times> duration) list" where
  "hostStageTimeoutDefaults =
     [(HostStageStartingInstallation, 30 * Minute),
      (HostStageWaitingForControlPlane, 60 * Minute),
      (HostStageWaitingForController, 60 * Minute),
      (HostStageWaitingForBootkube, 60 * Minute),
      (HostStageInstalling, 60 * Minute),
      (HostStageJoined, 60 * Minute),
      (HostStageWritingImageToDisk, 30 * Minute),
      (HostStageCopyingRegistryDataToDisk, 90 * Minute),
      (HostStageRebooting, 40 * Minute),
      (HostStageConfiguring, 60 * Minute),
      (HostStageWaitingForIgnition, 24 * Hour)]"

definition hostStageTimeoutDefault :: duration where
  "hostStageTimeoutDefault = 60 * Minute"

definition HostStageTimeout :: "config \<Rightarrow> host_stage \<Rightarrow> duration" where
  "HostStageTimeout c stage =
     (case hostStageTimeouts c of
        None \<Rightarrow> hostStageTimeoutDefault
      | Some timeouts \<Rightarrow>
          (case timeouts stage of None \<Rightarrow> hostStageTimeoutDefault | Some value \<Rightarrow> value))"

definition upper_char :: "char \<Rightarrow> char" where
  "upper_char c =
     (if CHR ''a'' \<le> c \<and> c \<le> CHR ''z'' then char_of (of_char c - (32 :: nat)) else c)"

definition stage_env_name :: "host_stage \<Rightarrow> string" where
  "stage_env_name stage =
     ''HOST_STAGE_'' @
     map (\<lambda>c. upper_char (if c = CHR '' '' then CHR ''_'' else c)) (host_stage_string stage) @
     ''_TIMEOUT''"

text \<open>
  \<open>Complete\<close> reads the overrides of the stage timeouts from the environment; \<open>ParseDuration\<close> is the
  function of Go's \<open>time\<close> package. The loop ranges over a map; the order only decides which one of
  several malformed values is reported.
\<close>

fun complete_stages ::
  "(string \<Rightarrow> string option) \<Rightarrow> (string \<Rightarrow> go_error + duration) \<Rightarrow>
   (host_stage \<times> duration) list \<Rightarrow> (host_stage \<Rightarrow> duration option) \<Rightarrow>
   go_error + (host_stage \<Rightarrow> duration option)" where
  "complete_stages LookupEnv ParseDuration [] values = Inr values"
| "complete_stages LookupEnv ParseDuration ((stage, value) # rest) values =
     (case LookupEnv (stage_env_name stage) of
        None \<Rightarrow> complete_stages LookupEnv ParseDuration rest (values(stage \<mapsto> value))
      | Some envValue \<Rightarrow>
          (case ParseDuration envValue of
             Inl err \<Rightarrow> Inl (ErrWrapf ''failed to parse timeout of host stage'' err)
           | Inr v \<Rightarrow> complete_stages LookupEnv ParseDuration rest (values(stage \<mapsto> v))))"

definition Complete ::
  "(string \<Rightarrow> string option) \<Rightarrow> (string \<Rightarrow> go_error + duration) \<Rightarrow> config \<Rightarrow> go_error + config" where
  "Complete LookupEnv ParseDuration c =
     (case complete_stages LookupEnv ParseDuration hostStageTimeoutDefaults (\<lambda>_. None) of
        Inl err \<Rightarrow> Inl err
      | Inr values \<Rightarrow> Inr (c\<lparr>hostStageTimeouts := Some values\<rparr>))"

definition singleNodeRebootTimeout :: duration where
  "singleNodeRebootTimeout = 80 * Minute"

definition InstallationTimeout :: duration where
  "InstallationTimeout = 20 * Minute"

definition ReclaimTimeout :: duration where
  "ReclaimTimeout = 60 * Minute"

section \<open>The state switch of a host\<close>

text \<open>
  \<open>stateHost\<close>: the status that the host had when the transition began and the host itself, here
  together with the world that the callbacks read and change.
\<close>

record host_ctx =
  ctx_world :: world
  srcState :: host_status
  sw_host :: host

definition newStateHost :: "host \<Rightarrow> world \<Rightarrow> host_ctx" where
  "newStateHost h w = \<lparr>ctx_world = w, srcState = Host_Status h, sw_host = h\<rparr>"

definition stateHost_State :: "host_ctx \<Rightarrow> host_status" where
  "stateHost_State sh = Host_Status (sw_host sh)"

definition stateHost_SetState :: "host_status \<Rightarrow> host_ctx \<Rightarrow> go_error option \<times> host_ctx" where
  "stateHost_SetState state sh = (None, sh\<lparr>sw_host := (sw_host sh)\<lparr>Host_Status := state\<rparr>\<rparr>)"

section \<open>Validation results\<close>

datatype validation_status =
    ValidationSuccess | ValidationSuccessSuppressOutput | ValidationFailure | ValidationPending
  | ValidationError | ValidationDisabled

record validation_result =
  VR_ID :: validationID
  VR_Status :: validation_status
  VR_Message :: string

text \<open>\<open>ValidationsStatus\<close>, a Go map, as the list of its entries in the order a loop visits them.\<close>

type_synonym validations_status = "(category \<times> validation_result list) list"

section \<open>Roles\<close>

text \<open>
  \<open>updateRole\<close>: guarded by the role that the caller saw instead of the status; an update that
  matches no row is not an error.
\<close>

definition updateRole ::
  "host \<Rightarrow> host_role \<Rightarrow> host_role \<Rightarrow> host_role \<Rightarrow> world \<Rightarrow> go_error option \<times> world" where
  "updateRole h role suggestedRole srcRole w =
     (if \<not> List.member hostStatusesBeforeInstallationOrUnbound (Host_Status h)
      then (Some (ApiError 400 (ErrNew ''host role can be set only before installation'')), w)
      else if srcRole \<noteq> role \<and> \<not> IsRoleValid role (IsDay2Host h)
      then (Some (ApiError 400 (ErrNew ''Requested role is invalid for host'')), w)
      else
        let fields =
              [(C_suggested_role, IRole suggestedRole)] @
              (if srcRole \<noteq> role
               then [(C_role, IRole role)] @
                    (if role = HostRoleWorker then [(C_bootstrap, IBool False)] else []) @
                    (if IsDay2Host h \<and> (Host_MachineConfigPoolName h = '''' \<or>
                                         Host_MachineConfigPoolName h = host_role_string srcRole)
                     then [(C_machine_config_pool_name, IString (host_role_string role))] else [])
               else []) @
              [(C_trigger_monitor_timestamp, ITime (w_now w))]
        in (case assign_all fields of
              None \<Rightarrow> (Some ErrDB, w)
            | Some f \<Rightarrow>
                if w_dbfault w UpdateHosts then (Some ErrDB, w)
                else (None, update_rows (\<lambda>r. host_key r = host_key h \<and> Host_Role r = srcRole) f w)))"

definition refreshHostStageUpdateTime ::
  "uuid \<Rightarrow> uuid \<Rightarrow> host_status \<Rightarrow> world \<Rightarrow> (go_error + host) \<times> world" where
  "refreshHostStageUpdateTime infraEnvId hostId srcStatus w =
     (case UpdateHost infraEnvId hostId srcStatus
             [IName C_progress_stage_updated_at, ITime (w_now w)] w of
        (Inl err, w1) \<Rightarrow> (Inl (ErrWrapf ''failed to refresh host status update time'' err), w1)
      | (Inr h, w1) \<Rightarrow> (Inr h, w1))"

end
