(* ===== verification/Host_Transition.thy ===== *)
theory Host_Transition
  imports Host_Common
begin

text \<open>
  The transition handler of the host state machine, \<open>internal/host/transition.go\<close>: the conditions
  and post transitions that the rules of the machine refer to. A callback takes the state switch
  (with the world) and the arguments of the transition, and a post transition returns its error and
  the changed state switch. The type assertion on the state switch always succeeds, since every
  caller passes \<open>newStateHost\<close>; the one on the arguments is the match on their constructor.
\<close>

section \<open>Arguments\<close>

type_synonym conditions = "cond_key \<Rightarrow> bool option"

datatype host_args =
    TransitionArgsRegisterHost string
  | TransitionArgsMediaDisconnected
  | TransitionArgsProgressHost bool
  | TransitionArgsHostInstallationFailed string
  | TransitionArgsCancelInstallation string
  | TransitionArgsInstallHost
  | TransitionArgsBindHost uuid
  | TransitionArgsUnbindHost
  | TransitionArgsReclaimHost
  | TransitionResettingPendingUserAction
  | TransitionArgsRefreshHost conditions validations_status

record transitionHandler =
  th_config :: config
  th_unmarshal :: unmarshal

type_synonym host_condition = "(host_ctx, host_args) condition"
type_synonym host_action = "(host_ctx, host_args) action"

text \<open>The fields that registration and unbinding reset.\<close>

definition resetLogsField :: "iface list" where
  "resetLogsField =
     [IName C_logs_info, ILogs LogsStateEmpty, IName C_logs_started_at, ITime 0,
      IName C_logs_collected_at, ITime 0]"

definition resetProgressFields :: "iface list" where
  "resetProgressFields =
     [IName C_progress_current_stage, IStage HostStageEmpty,
      IName C_progress_installation_percentage, INum 0,
      IName C_progress_progress_info, IString '''',
      IName C_progress_stage_started_at, ITime 0, IName C_progress_stage_updated_at, ITime 0]"

definition resetFields :: "iface list" where
  "resetFields =
     resetProgressFields @
     [IName C_inventory, IString '''', IName C_bootstrap, IBool False,
      IName C_images_status, IString '''']"

definition restFieldsOnUnbind :: "iface list" where
  "restFieldsOnUnbind =
     resetProgressFields @ resetLogsField @
     [IName C_cluster_id, IUuid None, IName C_kind, IKind HostKindHost,
      IName C_connectivity, IString '''', IName C_domain_name_resolutions, IString '''',
      IName C_free_addresses, IString '''', IName C_images_status, IString '''',
      IName C_installation_disk_id, IString '''', IName C_installation_disk_path, IString '''',
      IName C_machine_config_pool_name, IString '''', IName C_role, IRole HostRoleAutoAssign,
      IName C_api_vip_connectivity, IString '''', IName C_suggested_role, IRole HostRoleEmpty,
      IName C_images_status, IString '''', IName C_stage_started_at, ITime 0,
      IName C_stage_updated_at, ITime 0]"

section \<open>Updating the host of a transition\<close>

text \<open>
  A nil host without an error (\<open>Inr None\<close>) would be dereferenced by \<open>&host.Host\<close>.
\<close>

definition updateTransitionHost ::
  "transitionHandler \<Rightarrow> host_ctx \<Rightarrow> string \<Rightarrow> iface list \<Rightarrow> go_error option \<times> host_ctx" where
  "updateTransitionHost th state statusInfo extra =
     (case UpdateHostStatus (th_unmarshal th) (Host_InfraEnvID (sw_host state))
             (Host_ID (sw_host state)) (srcState state) (Host_Status (sw_host state))
             statusInfo extra (ctx_world state) of
        (Inl err, w) \<Rightarrow> (Some err, state\<lparr>ctx_world := w\<rparr>)
      | (Inr None, w) \<Rightarrow> (Some nil_deref, state\<lparr>ctx_world := w\<rparr>)
      | (Inr (Some h), w) \<Rightarrow> (None, state\<lparr>ctx_world := w, sw_host := h\<rparr>))"

text \<open>The post transitions of a refresh discard the returned host.\<close>

definition update_discarding ::
  "transitionHandler \<Rightarrow> host_ctx \<Rightarrow> string \<Rightarrow> iface list \<Rightarrow> go_error option \<times> host_ctx" where
  "update_discarding th state statusInfo extra =
     (case UpdateHostStatus (th_unmarshal th) (Host_InfraEnvID (sw_host state))
             (Host_ID (sw_host state)) (srcState state) (Host_Status (sw_host state))
             statusInfo extra (ctx_world state) of
        (Inl err, w) \<Rightarrow> (Some err, state\<lparr>ctx_world := w\<rparr>)
      | (Inr _, w) \<Rightarrow> (None, state\<lparr>ctx_world := w\<rparr>))"

section \<open>Registration\<close>

text \<open>\<open>db.Create\<close>: the new row's columns of the embedded progress are those of a zero progress.\<close>

definition Create_host :: "host \<Rightarrow> world \<Rightarrow> go_error option \<times> world" where
  "Create_host h w =
     (if w_dbfault w CreateHosts \<or>
         List.member (map host_key (w_hosts w) @ map (\<lambda>(_, r). host_key r) (w_deleted_hosts w))
           (host_key h)
      then (Some ErrDB, w)
      else (None, w\<lparr>w_hosts := w_hosts w @ [h\<lparr>Host_Progress := Some (progress_of h)\<rparr>]\<rparr>))"

definition PostRegisterHost :: "transitionHandler \<Rightarrow> host_action" where
  "PostRegisterHost th sh args =
     (case args of
        TransitionArgsRegisterHost discoveryAgentVersion \<Rightarrow>
          let hostParam = sw_host sh; w = ctx_world sh in
          (case GetHostFromDB w (Host_InfraEnvID hostParam) (Host_ID hostParam) of
             Inr _ \<Rightarrow>
               updateTransitionHost th sh statusInfoDiscovering
                 (resetFields @
                  [IName C_discovery_agent_version, IString discoveryAgentVersion,
                   IName C_ntp_sources, IString '''', IName C_kind, IKind (Host_Kind hostParam)] @
                  resetLogsField)
           | Inl _ \<Rightarrow>
               let hostParam = hostParam\<lparr>Host_StatusUpdatedAt := w_now w,
                                         Host_StatusInfo := Some statusInfoDiscovering\<rparr>;
                   hostToCreate = hostParam\<lparr>Host_TriggerMonitorTimestamp := w_now w\<rparr>
               in (case Create_host hostToCreate w of
                     (Some err, w1) \<Rightarrow> (Some err, sh\<lparr>ctx_world := w1, sw_host := hostParam\<rparr>)
                   | (None, w1) \<Rightarrow>
                       (None, sh\<lparr>ctx_world :=
                          send_event (HostRegistrationSucceededEvent (Host_ID hostToCreate)
                              (Host_InfraEnvID hostToCreate) (Host_ClusterID hostToCreate)
                              (GetHostnameForMsg (th_unmarshal th) hostParam)) w1,
                          sw_host := hostParam\<rparr>)))
      | _ \<Rightarrow> (Some (ErrNew ''PostRegisterHost invalid argument''), sh))"

definition PostRegisterDuringInstallation :: "transitionHandler \<Rightarrow> host_action" where
  "PostRegisterDuringInstallation th sh args =
     (case args of
        TransitionArgsRegisterHost _ \<Rightarrow>
          updateTransitionHost th sh ''The host unexpectedly restarted during the installation'' []
      | _ \<Rightarrow> (Some (ErrNew ''PostRegisterDuringInstallation invalid argument''), sh))"

definition PostRegisterAfterInstallation :: "transitionHandler \<Rightarrow> host_action" where
  "PostRegisterAfterInstallation th sh args =
     (case args of
        TransitionArgsRegisterHost _ \<Rightarrow>
          (Some (ApiError 409 (ErrNew
             ''Host is trying to register after the cluster has already been installed.'')), sh)
      | _ \<Rightarrow> (Some (ErrNew ''PostRegisterAfterInstallation invalid argument''), sh))"

text \<open>\<open>sHost.host.Progress.CurrentStage\<close> dereferences the progress.\<close>

definition current_stage :: "host_ctx \<Rightarrow> go_error + host_stage" where
  "current_stage sh =
     (case Host_Progress (sw_host sh) of None \<Rightarrow> Inl nil_deref | Some p \<Rightarrow> Inr (CurrentStage p))"

definition IsHostInReboot :: "transitionHandler \<Rightarrow> host_condition" where
  "IsHostInReboot th sh args =
     (case current_stage sh of Inl err \<Rightarrow> Inl err | Inr stage \<Rightarrow> Inr (stage = HostStageRebooting))"

definition IsHostInDone :: "transitionHandler \<Rightarrow> host_condition" where
  "IsHostInDone th sh args =
     (case current_stage sh of Inl err \<Rightarrow> Inl err | Inr stage \<Rightarrow> Inr (stage = HostStageDone))"

definition PostRegisterDuringReboot :: "transitionHandler \<Rightarrow> host_action" where
  "PostRegisterDuringReboot th sh args =
     (let h = sw_host sh; hostInstallationPath = GetHostInstallationPath h in
      if srcState sh = HostStatusInstallingPendingUserAction
      then (Some (ApiError 403 (ErrNew
              (''Host is required to be booted from disk '' @ hostInstallationPath))), sh)
      else (case args of
        TransitionArgsRegisterHost _ \<Rightarrow>
          if hostInstallationPath = '''' \<or> Host_Inventory h = ''''
          then (Some (ErrNew ''PostRegisterDuringReboot host does not have installation_disk_path or inventory''), sh)
          else (case GetHostInstallationDisk (th_unmarshal th) h of
            Inl _ \<Rightarrow> (Some (ErrNew ''PostRegisterDuringReboot Could not parse inventory of host''), sh)
          | Inr installationDisk \<Rightarrow>
              let messages =
                [''Expected the host to boot from disk, but it booted the installation image '' @
                 ''- please reboot and fix boot order to boot from disk''] @
                (if Disk_Model installationDisk \<noteq> '''' then [Disk_Model installationDisk] else []) @
                (if Disk_Serial installationDisk \<noteq> '''' then [Disk_Serial installationDisk] else []) @
                [''('' @ Disk_Name installationDisk @ '', '' @ GetDeviceIdentifier installationDisk @ '')'']
              in updateTransitionHost th sh (Join messages '' '') [])
      | _ \<Rightarrow> (Some (ErrNew ''PostRegisterDuringReboot invalid argument''), sh)))"

text \<open>
  The loop that filters the argument list: it advances two by two and drops the pairs of the
  columns \<open>inventory\<close> and \<open>bootstrap\<close>.
\<close>

fun filter_extra :: "iface list \<Rightarrow> iface list" where
  "filter_extra (name # v # rest) =
     (if name = IName C_inventory then filter_extra rest
      else if name = IName C_bootstrap then filter_extra rest
      else name # v # filter_extra rest)"
| "filter_extra [name] = (if name = IName C_inventory \<or> name = IName C_bootstrap then [] else [name])"
| "filter_extra [] = []"

definition InstallationPreparationReasonNotPerformed :: string where
  "InstallationPreparationReasonNotPerformed = ''Installation preparation not performed''"

definition reset_preparation :: "uuid \<Rightarrow> world \<Rightarrow> go_error option \<times> world" where
  "reset_preparation clusterId w =
     (if w_dbfault w UpdateClusters then (Some ErrDB, w)
      else (None, w\<lparr>w_clusters :=
        map (\<lambda>c. if Cluster_ID c = clusterId
                  then c\<lparr>Cluster_PreparationStatus := LastInstallationPreparationStatusNotStarted,
                         Cluster_PreparationReason := InstallationPreparationReasonNotPerformed\<rparr>
                  else c) (w_clusters w)\<rparr>))"

definition PostRegisterDuringPreparingForInstallation :: "transitionHandler \<Rightarrow> host_action" where
  "PostRegisterDuringPreparingForInstallation th sh args =
     (case args of
        TransitionArgsRegisterHost discoveryAgentVersion \<Rightarrow>
          let hostParam = sw_host sh; w = ctx_world sh in
          (case GetHostFromDB w (Host_InfraEnvID hostParam) (Host_ID hostParam) of
             Inl err \<Rightarrow> (Some err, sh)
           | Inr dbHost \<Rightarrow>
               (case (case Host_ClusterID dbHost of None \<Rightarrow> (None, w)
                      | Some clusterId \<Rightarrow> reset_preparation clusterId w) of
                  (Some err, w1) \<Rightarrow>
                    (Some (ErrWrapf ''failed to reset LastInstallationPreparation'' err),
                     sh\<lparr>ctx_world := w1\<rparr>)
                | (None, w1) \<Rightarrow>
                    (case UpdateHostStatus (th_unmarshal th) (Host_InfraEnvID hostParam)
                            (Host_ID hostParam) (srcState sh) HostStatusKnown statusInfoKnown
                            (filter_extra (resetFields @
                               [IName C_discovery_agent_version, IString discoveryAgentVersion,
                                IName C_ntp_sources, IString '''',
                                IName C_kind, IKind (Host_Kind hostParam)]) @
                             resetLogsField) w1 of
                       (Inl err, w2) \<Rightarrow> (Some err, sh\<lparr>ctx_world := w2\<rparr>)
                     | (Inr None, w2) \<Rightarrow> (Some nil_deref, sh\<lparr>ctx_world := w2\<rparr>)
                     | (Inr (Some h), w2) \<Rightarrow> (None, sh\<lparr>ctx_world := w2, sw_host := h\<rparr>))))
      | _ \<Rightarrow> (Some (ErrNew ''PostRegisterDuringPreparingForInstallation invalid argument''), sh))"

section \<open>Media, progress, failure, cancellation and installation\<close>

definition media_reason :: "host \<Rightarrow> string" where
  "media_reason h =
     (if Host_Status h = HostStatusError
      then (let reason = host_stage_string HostStageFailed @ '' - '' @ statusInfoMediaDisconnected
            in (case Host_StatusInfo h of
                  None \<Rightarrow> reason
                | Some info \<Rightarrow> (if \<not> Contains info reason then reason @ ''. '' @ info else info)))
      else statusInfoMediaDisconnected)"

definition PostHostMediaDisconnected :: "transitionHandler \<Rightarrow> host_action" where
  "PostHostMediaDisconnected th sh args =
     (case args of
        TransitionArgsMediaDisconnected \<Rightarrow>
          let h = sw_host sh in
          if Host_MediaStatus h = Some HostMediaStatusDisconnected then (None, sh)
          else
            let reason = media_reason h;
                sh1 = sh\<lparr>ctx_world := send_event
                        (HostMediaDisconnectedEvent (Host_ID h) (Host_InfraEnvID h) (Host_ClusterID h))
                        (ctx_world sh)\<rparr>
            in updateTransitionHost th sh1 reason
                 [IName C_media_status, IMedia HostMediaStatusDisconnected]
      | _ \<Rightarrow> (Some (ErrNew ''HostMediaDisconnected invalid argument''), sh))"

definition PostHostProgress :: "transitionHandler \<Rightarrow> host_action" where
  "PostHostProgress th sh args =
     (case args of
        TransitionArgsProgressHost managed \<Rightarrow>
          (case current_stage sh of
             Inl err \<Rightarrow> (Some err, sh)
           | Inr stage \<Rightarrow>
               let statusInfo = host_stage_string stage;
                   statusInfo =
                     (if statusInfo = host_stage_string HostStageDone \<and> IsDay2Host (sw_host sh) \<and> managed
                      then statusInfoRebootingDay2 else statusInfo)
               in updateTransitionHost th sh statusInfo [])
      | _ \<Rightarrow> (Some (ErrNew ''PostHostProgressChanged invalid argument''), sh))"

definition PostHostInstallationFailed :: "transitionHandler \<Rightarrow> host_action" where
  "PostHostInstallationFailed th sh args =
     (case args of
        TransitionArgsHostInstallationFailed reason \<Rightarrow> updateTransitionHost th sh reason []
      | _ \<Rightarrow> (Some (ErrNew ''HostInstallationFailed invalid argument''), sh))"

definition PostCancelInstallation :: "transitionHandler \<Rightarrow> host_action" where
  "PostCancelInstallation th sh args =
     (case args of
        TransitionArgsCancelInstallation reason \<Rightarrow> updateTransitionHost th sh reason []
      | _ \<Rightarrow> (Some (ErrNew ''PostCancelInstallation invalid argument''), sh))"

definition PostInstallHost :: "transitionHandler \<Rightarrow> host_action" where
  "PostInstallHost th sh args =
     (case args of
        TransitionArgsInstallHost \<Rightarrow> updateTransitionHost th sh statusInfoInstalling []
      | _ \<Rightarrow> (Some (ErrNew ''PostInstallHost invalid argument''), sh))"

section \<open>Binding, unbinding and reclaiming\<close>

definition PostBindHost :: "transitionHandler \<Rightarrow> host_action" where
  "PostBindHost th sh args =
     (case args of
        TransitionArgsBindHost clusterID \<Rightarrow>
          updateTransitionHost th sh statusInfoBinding
            (resetFields @ [IName C_cluster_id, IUuid (Some clusterID)])
      | _ \<Rightarrow> (Some (ErrNew ''PostBindHost invalid argument''), sh))"

definition updateHostForUnbind ::
  "transitionHandler \<Rightarrow> host_ctx \<Rightarrow> go_error option \<times> host_ctx" where
  "updateHostForUnbind th sh =
     updateTransitionHost th sh statusInfoUnbinding
       (resetFields @ resetLogsField @ restFieldsOnUnbind)"

definition PostUnbindHost :: "transitionHandler \<Rightarrow> host_action" where
  "PostUnbindHost th sh args =
     (case args of
        TransitionArgsUnbindHost \<Rightarrow> updateHostForUnbind th sh
      | _ \<Rightarrow> (Some (ErrNew ''PostUnbindHost invalid argument''), sh))"

definition PostRefreshReclaimTimeout :: "transitionHandler \<Rightarrow> host_action" where
  "PostRefreshReclaimTimeout th sh args =
     (case args of
        TransitionArgsRefreshHost _ _ \<Rightarrow> updateHostForUnbind th sh
      | _ \<Rightarrow> (Some (ErrNew ''PostRefreshReclaimTimeout invalid argument''), sh))"

definition PostReclaim :: "transitionHandler \<Rightarrow> host_action" where
  "PostReclaim th sh args =
     (case args of
        TransitionArgsReclaimHost \<Rightarrow> updateTransitionHost th sh statusInfoRebootingForReclaim []
      | _ \<Rightarrow> (Some (ErrNew ''PostReclaim invalid argument''), sh))"

section \<open>Preparing for installation and resetting\<close>

text \<open>\<open>validationFailed\<close>: the status of the first result with the identifier.\<close>

definition validationFailed :: "validations_status \<Rightarrow> validationID \<Rightarrow> bool" where
  "validationFailed results validationId =
     (case find (\<lambda>r. VR_ID r = validationId) (concat (map snd results)) of
        None \<Rightarrow> False
      | Some r \<Rightarrow> VR_Status r = ValidationFailure)"

definition PostPreparingForInstallationHost :: "transitionHandler \<Rightarrow> host_action" where
  "PostPreparingForInstallationHost th sh args =
     (case args of
        TransitionArgsRefreshHost _ validationResults \<Rightarrow>
          updateTransitionHost th sh statusInfoHostPreparationSuccessful
            ((if validationFailed validationResults SucessfullOrUnknownContainerImagesAvailability
              then [IName C_images_status, IString ''''] else []) @ resetLogsField)
      | _ \<Rightarrow> (Some (ErrNew ''PostPreparingForInstallationHost invalid argument''), sh))"

definition IsValidRoleForInstallation :: "transitionHandler \<Rightarrow> host_condition" where
  "IsValidRoleForInstallation th sh args =
     (if List.member [HostRoleMaster, HostRoleArbiter, HostRoleWorker] (Host_Role (sw_host sh))
      then Inr True
      else Inl (ApiError 409 (ErrNew ''Cannot install host due to invalid host role'')))"

definition PostResettingPendingUserAction :: "transitionHandler \<Rightarrow> host_action" where
  "PostResettingPendingUserAction th sh args =
     (case args of
        TransitionResettingPendingUserAction \<Rightarrow>
          updateTransitionHost th sh statusInfoResettingPendingUserAction []
      | _ \<Rightarrow> (Some (ErrNew ''ResettingPendingUserAction invalid argument''), sh))"

section \<open>Conditions of a refresh\<close>

text \<open>\<open>If\<close> looks its identifier up in the map that the preprocessor computed.\<close>

definition If_cond :: "cond_key \<Rightarrow> host_condition" where
  "If_cond i sh args =
     (case args of
        TransitionArgsRefreshHost conditions _ \<Rightarrow>
          (case conditions i of
             None \<Rightarrow> Inl (ErrNew (''If('' @ key_String i @ '') no such condition''))
           | Some b \<Rightarrow> Inr b)
      | _ \<Rightarrow> Inl (ErrNew (''If('' @ key_String i @ '') invalid argument'')))"

abbreviation IfV :: "validationID \<Rightarrow> host_condition" where
  "IfV v \<equiv> If_cond (VKey v)"

abbreviation IfC :: "conditionId \<Rightarrow> host_condition" where
  "IfC c \<equiv> If_cond (CKey c)"

definition cluster_status_of :: "host_ctx \<Rightarrow> uuid option \<Rightarrow> go_error + cluster_status" where
  "cluster_status_of sh clusterId =
     (case take_cluster (ctx_world sh) clusterId of
        Inl err \<Rightarrow> Inl err | Inr c \<Rightarrow> Inr (Cluster_Status c))"

definition HasClusterError :: "transitionHandler \<Rightarrow> host_condition" where
  "HasClusterError th sh args =
     (case args of
        TransitionArgsRefreshHost _ _ \<Rightarrow>
          (case Host_ClusterID (sw_host sh) of
             None \<Rightarrow> Inl nil_deref
           | Some clusterId \<Rightarrow>
               (case cluster_status_of sh (Some clusterId) of
                  Inl err \<Rightarrow> Inl err
                | Inr status \<Rightarrow> Inr (status = ClusterStatusError)))
      | _ \<Rightarrow> Inl (ErrNew ''HasClusterError invalid argument''))"

definition IsLogCollectionTimedOut :: "transitionHandler \<Rightarrow> host_condition" where
  "IsLogCollectionTimedOut th sh args =
     (let h = sw_host sh; now = w_now (ctx_world sh); c = th_config th in
      if Host_LogsInfo h = LogsStateEmpty \<and> IsZero (Host_LogsStartedAt h)
      then Inr (Since now (Host_StatusUpdatedAt h) > LogPendingTimeout c)
      else if Host_LogsInfo h = LogsStateRequested \<and> IsZero (Host_LogsCollectedAt h)
      then Inr (Since now (Host_LogsStartedAt h) > LogCollectionTimeout c)
      else if Host_LogsInfo h = LogsStateRequested \<and> \<not> IsZero (Host_LogsCollectedAt h)
      then Inr (Since now (Host_LogsCollectedAt h) > LogCollectionTimeout c)
      else if Host_LogsInfo h = LogsStateCollecting
      then Inr (Since now (Host_LogsCollectedAt h) > LogPendingTimeout c)
      else Inr False)"

definition HasStatusTimedOut :: "transitionHandler \<Rightarrow> duration \<Rightarrow> host_condition" where
  "HasStatusTimedOut th timeout sh args =
     Inr (Since (w_now (ctx_world sh)) (Host_StatusUpdatedAt (sw_host sh)) > timeout)"

definition HasInstallationInProgressTimedOut :: "transitionHandler \<Rightarrow> host_condition" where
  "HasInstallationInProgressTimedOut th sh args =
     (case Host_Progress (sw_host sh) of
        None \<Rightarrow> Inl nil_deref
      | Some p \<Rightarrow>
          let maxDuration =
                (if CurrentStage p = HostStageRebooting \<and> IsSingleNode (ctx_world sh) (sw_host sh)
                 then singleNodeRebootTimeout
                 else HostStageTimeout (th_config th) (CurrentStage p))
          in Inr (Since (w_now (ctx_world sh)) (StageUpdatedAt p) > maxDuration))"

definition HasPendingUserActionTimedOut :: "transitionHandler \<Rightarrow> host_condition" where
  "HasPendingUserActionTimedOut th sh args =
     Inr (Since (w_now (ctx_world sh)) (Host_StatusUpdatedAt (sw_host sh)) >
          InstallingPendingUserActionTimeout (th_config th))"

definition ClusterWouldSucceedWithoutHost :: "transitionHandler \<Rightarrow> host_condition" where
  "ClusterWouldSucceedWithoutHost th sh args =
     (case args of
        TransitionArgsRefreshHost _ _ \<Rightarrow>
          (case Host_ClusterID (sw_host sh) of
             None \<Rightarrow> Inl (ErrNew ''cluster ID must not be nil'')
           | Some clusterId \<Rightarrow>
               (case GetClusterFromDBWithHosts (ctx_world sh) clusterId of
                  Inl err \<Rightarrow> Inl err
                | Inr c \<Rightarrow> Inr (HasEnoughMastersAndWorkers c [HostStatusInstalled])))
      | _ \<Rightarrow> Inl (ErrNew ''ClusterWouldSucceedWithoutHost invalid argument''))"

definition IsClusterPostInstallation :: "transitionHandler \<Rightarrow> host_condition" where
  "IsClusterPostInstallation th sh args =
     (case args of
        TransitionArgsRefreshHost _ _ \<Rightarrow>
          (case Host_ClusterID (sw_host sh) of
             None \<Rightarrow> Inl (ErrNew ''cluster ID must not be nil'')
           | Some clusterId \<Rightarrow>
               (case cluster_status_of sh (Some clusterId) of
                  Inl err \<Rightarrow> Inl err
                | Inr status \<Rightarrow>
                    Inr (status = ClusterStatusInstalled \<or> status = ClusterStatusAddingHosts)))
      | _ \<Rightarrow> Inl (ErrNew ''IsClusterPostInstallation invalid argument''))"

definition IsInStages :: "host_stage list \<Rightarrow> host_condition" where
  "IsInStages stages sh args =
     Inr (case Host_Progress (sw_host sh) of
            None \<Rightarrow> False | Some p \<Rightarrow> List.member stages (CurrentStage p))"

definition th_IsDay2Host :: "transitionHandler \<Rightarrow> host_condition" where
  "th_IsDay2Host th sh args = Inr (IsDay2Host (sw_host sh))"

definition th_IsUnboundHost :: "transitionHandler \<Rightarrow> host_condition" where
  "th_IsUnboundHost th sh args = Inr (IsUnboundHost (sw_host sh))"

text \<open>The text of a \<open>strfmt.DateTime\<close> is never empty, not even that of the zero time.\<close>

definition hostIsResponsive :: "transitionHandler \<Rightarrow> world \<Rightarrow> host \<Rightarrow> bool" where
  "hostIsResponsive th w h \<longleftrightarrow>
     Since (w_now w) (Host_CheckedInAt h) \<le> MaxHostDisconnectionTime (th_config th)"

definition HostNotResponsiveWhilePreparingInstallation :: "transitionHandler \<Rightarrow> host_condition" where
  "HostNotResponsiveWhilePreparingInstallation th sh args =
     Inr (\<not> hostIsResponsive th (ctx_world sh) (sw_host sh))"

definition IsPreparingTimedOut :: "transitionHandler \<Rightarrow> host_condition" where
  "IsPreparingTimedOut th sh args =
     Inr (Since (w_now (ctx_world sh)) (Host_StatusUpdatedAt (sw_host sh)) >
          PrepareForInstallationTimeout (th_config th))"

section \<open>Post transitions of a refresh\<close>

fun getFailedValidations :: "validations_status \<Rightarrow> string list" where
  "getFailedValidations [] = []"
| "getFailedValidations ((_, validations) # rest) =
     map VR_Message (filter (\<lambda>v. VR_Status v = ValidationFailure) validations) @
     getFailedValidations rest"

definition replaceMacros ::
  "transitionHandler \<Rightarrow> string \<Rightarrow> host_ctx \<Rightarrow> validations_status \<Rightarrow> go_error + string" where
  "replaceMacros th template sh results =
     (case current_stage sh of
        Inl err \<Rightarrow> Inl err
      | Inr stage \<Rightarrow>
          let t1 = Replace1 template ''$STAGE'' (host_stage_string stage);
              t2 = Replace1 t1 ''$MAX_TIME''
                     (Duration_String (HostStageTimeout (th_config th) stage));
              t3 = (if Contains t2 ''$INSTALLATION_DISK''
                    then (case GetHostInstallationDisk (th_unmarshal th) (sw_host sh) of
                            Inl _ \<Rightarrow> Replace1 t2 ''$INSTALLATION_DISK'' ''''
                          | Inr d \<Rightarrow> Replace1 t2 ''$INSTALLATION_DISK''
                                      (''('' @ Disk_Name d @ '', '' @ GetDeviceIdentifier d @ '')''))
                    else t2);
              t4 = (if Contains t3 ''$FAILING_VALIDATIONS''
                    then Replace1 t3 ''$FAILING_VALIDATIONS''
                           (Join (sort (getFailedValidations results)) '' ; '')
                    else t3)
          in Inr t4)"

definition string_value :: "string option \<Rightarrow> string" where
  "string_value s = (case s of None \<Rightarrow> '''' | Some x \<Rightarrow> x)"

text \<open>The common end of the refresh post transitions: update only when something changes.\<close>

definition refresh_update ::
  "transitionHandler \<Rightarrow> host_ctx \<Rightarrow> string \<Rightarrow> go_error option \<times> host_ctx" where
  "refresh_update th sh statusInfo =
     (if srcState sh \<noteq> Host_Status (sw_host sh) \<or>
         string_value (Host_StatusInfo (sw_host sh)) \<noteq> statusInfo
      then update_discarding th sh statusInfo []
      else (None, sh))"

definition PostRefreshHost :: "transitionHandler \<Rightarrow> string \<Rightarrow> host_action" where
  "PostRefreshHost th reason sh args =
     (case args of
        TransitionArgsRefreshHost _ results \<Rightarrow>
          (case replaceMacros th reason sh results of
             Inl err \<Rightarrow> (Some err, sh)
           | Inr statusInfo \<Rightarrow> refresh_update th sh (TruncateStatusInfo statusInfo))
      | _ \<Rightarrow> (Some (ErrNew ''PostRefreshHost invalid argument''), sh))"

definition condition_value :: "conditions \<Rightarrow> cond_key \<Rightarrow> bool" where
  "condition_value conditions k = (conditions k = Some True)"

definition PostHostPreparationTimeout :: "transitionHandler \<Rightarrow> host_action" where
  "PostHostPreparationTimeout th sh args =
     (case args of
        TransitionArgsRefreshHost conditions _ \<Rightarrow>
          let failingConditions =
                (if \<not> condition_value conditions (CKey InstallationDiskSpeedCheckSuccessful)
                 then [statusInfoPreparationTimeoutDiskSpeed] else []) @
                (if \<not> condition_value conditions (CKey SuccessfulContainerImageAvailability)
                 then [statusInfoPreparationTimeoutImageAvailability] else []);
              statusInfo = Replace1 statusInfoPreparationTimeout ''$FAILING_CONDITIONS''
                             (Join failingConditions [CHR 10])
          in refresh_update th sh (TruncateStatusInfo statusInfo)
      | _ \<Rightarrow> (Some (ErrNew ''PostRefreshHost invalid argument''), sh))"

definition PostHostStageTimeout :: "transitionHandler \<Rightarrow> string \<Rightarrow> host_action" where
  "PostHostStageTimeout th reason sh args =
     (case args of
        TransitionArgsRefreshHost _ results \<Rightarrow>
          (case replaceMacros th reason sh results of
             Inl err \<Rightarrow> (Some err, sh)
           | Inr statusInfo \<Rightarrow>
               (case Host_Progress (sw_host sh) of
                  None \<Rightarrow> (Some nil_deref, sh)
                | Some p \<Rightarrow>
                    if string_value (Host_StatusInfo (sw_host sh)) \<noteq> statusInfo \<and> \<not> StageTimedOut p
                    then (case UpdateHostStageTimeout (th_unmarshal th)
                                 (Host_InfraEnvID (sw_host sh)) (Host_ID (sw_host sh)) (srcState sh)
                                 statusInfo
                                 (whole_minutes (HostStageTimeout (th_config th) (CurrentStage p)))
                                 [] (ctx_world sh) of
                            (Inl err, w) \<Rightarrow> (Some err, sh\<lparr>ctx_world := w\<rparr>)
                          | (Inr _, w) \<Rightarrow> (None, sh\<lparr>ctx_world := w\<rparr>))
                    else (None, sh)))
      | _ \<Rightarrow> (Some (ErrNew ''PostHostStageTimeout invalid argument''), sh))"

definition PostRefreshHostDisconnection :: "transitionHandler \<Rightarrow> string \<Rightarrow> bool \<Rightarrow> host_action" where
  "PostRefreshHostDisconnection th statusInfo connectionTimedOut sh args =
     (case args of
        TransitionArgsRefreshHost _ _ \<Rightarrow>
          if string_value (Host_StatusInfo (sw_host sh)) \<noteq> statusInfo \<or>
             Host_ConnectionTimedOut (sw_host sh) \<noteq> connectionTimedOut
          then update_discarding th sh statusInfo
                 [IName C_connection_timed_out, IBool connectionTimedOut]
          else (None, sh)
      | _ \<Rightarrow> (Some (ErrNew ''PostRefreshHostDisconnected invalid argument''), sh))"

definition PostRefreshLogsProgress :: "transitionHandler \<Rightarrow> logs_state \<Rightarrow> host_action" where
  "PostRefreshLogsProgress th progress sh args =
     (case args of
        TransitionArgsRefreshHost _ _ \<Rightarrow>
          (case UpdateLogsProgress (Host_InfraEnvID (sw_host sh)) (Host_ID (sw_host sh))
                  (srcState sh) progress [] (ctx_world sh) of
             (Inl err, w) \<Rightarrow> (Some err, sh\<lparr>ctx_world := w\<rparr>)
           | (Inr _, w) \<Rightarrow> (None, sh\<lparr>ctx_world := w\<rparr>))
      | _ \<Rightarrow> (Some (ErrNew ''Host PostRefreshLogsProgress invalid argument''), sh))"

definition PostRefreshHostRefreshStageUpdateTime :: "transitionHandler \<Rightarrow> host_action" where
  "PostRefreshHostRefreshStageUpdateTime th sh args =
     (case args of
        TransitionArgsRefreshHost _ _ \<Rightarrow>
          (case Host_Progress (sw_host sh) of
             None \<Rightarrow> (Some nil_deref, sh)
           | Some p \<Rightarrow>
               if Minute > Since (w_now (ctx_world sh)) (StageUpdatedAt p) then (None, sh)
               else (case refreshHostStageUpdateTime (Host_InfraEnvID (sw_host sh))
                            (Host_ID (sw_host sh)) (srcState sh) (ctx_world sh) of
                       (Inl err, w) \<Rightarrow> (Some err, sh\<lparr>ctx_world := w\<rparr>)
                     | (Inr _, w) \<Rightarrow> (None, sh\<lparr>ctx_world := w\<rparr>)))
      | _ \<Rightarrow> (Some (ErrNew ''PostRefreshHostRefreshStageUpdateTime invalid argument''), sh))"

end
