(* ===== verification/Host_Statemachine.thy ===== *)
theory Host_Statemachine
  imports Host_Transition
begin

text \<open>
  The host state machine: every transition rule of \<open>NewHostStateMachine\<close>
  (\<open>internal/host/statemachine.go\<close>) and of \<open>NewPoolHostStateMachine\<close>
  (\<open>internal/host/pool_host_statemachine.go\<close>), in the order in which the constructors add them.
  The documentation that a rule carries is not part of its behaviour. A loop that adds one rule per
  state is a \<open>map\<close> over the states.
\<close>

datatype host_transition_type =
    TransitionTypeRegisterHost
  | TransitionTypeHostInstallationFailed
  | TransitionTypeCancelInstallation
  | TransitionTypeInstallHost
  | TransitionTypeResettingPendingUserAction
  | TransitionTypeRefresh
  | TransitionTypeHostProgress
  | TransitionTypeMediaDisconnect
  | TransitionTypeBindHost
  | TransitionTypeUnbindHost
  | TransitionTypeReclaimHost
  | TransitionTypeRebootingForReclaim
  | TransitionTypeReclaimFailed

type_synonym host_rule =
  "(host_transition_type, host_status, host_ctx, host_args) transition_rule"

section \<open>Composed conditions\<close>

definition minRequiredHardwareIds :: "validationID list" where
  "minRequiredHardwareIds =
     [HasMinValidDisks, HasMinCPUCores, HasMinMemory, CompatibleWithClusterPlatform,
      DiskEncryptionRequirementsSatisfied]"

definition requiredInputIds :: "validationID list" where
  "requiredInputIds =
     [IsMachineCidrDefined]"

definition sufficientForInstallIds :: "validationID list" where
  "sufficientForInstallIds =
     [HasMemoryForRole, HasCPUCoresForRole, BelongsToMachineCidr, IsHostnameUnique,
      IsHostnameValid, IsIgnitionDownloadable, BelongsToMajorityGroup,
      AreOdfRequirementsSatisfied, AreLsoRequirementsSatisfied, AreCnvRequirementsSatisfied,
      AreLvmRequirementsSatisfied, AreMceRequirementsSatisfied, AreMtvRequirementsSatisfied,
      AreOscRequirementsSatisfied, HasSufficientNetworkLatencyRequirementForRole,
      HasSufficientPacketLossRequirementForRole, HasDefaultRoute,
      IsAPIDomainNameResolvedCorrectly, IsAPIInternalDomainNameResolvedCorrectly,
      IsAppsDomainNameResolvedCorrectly, IsDNSWildcardNotConfigured,
      IsPlatformNetworkSettingsValid, SufficientOrUnknownInstallationDiskSpeed,
      NonOverlappingSubnets, CompatibleAgent, IsTimeSyncedBetweenHostAndService,
      NoSkipInstallationDisk, NoSkipMissingDisk, NoIPCollisionsInNetwork,
      NoIscsiNicBelongsToMachineCidr, AreNodeFeatureDiscoveryRequirementsSatisfied,
      AreNvidiaGPURequirementsSatisfied, ArePipelinesRequirementsSatisfied,
      AreServiceMeshRequirementsSatisfied, AreServerLessRequirementsSatisfied,
      AreOpenShiftAIRequirementsSatisfied, AreAuthorinoRequirementsSatisfied,
      AreNmstateRequirementsSatisfied, AreAMDGPURequirementsSatisfied,
      AreKMMRequirementsSatisfied, AreNodeHealthcheckRequirementsSatisfied,
      AreSelfNodeRemediationRequirementsSatisfied,
      AreFenceAgentsRemediationRequirementsSatisfied, AreNodeMaintenanceRequirementsSatisfied,
      AreKubeDeschedulerRequirementsSatisfied, AreClusterObservabilityRequirementsSatisfied,
      AreNUMAResourcesRequirementsSatisfied, AreOADPRequirementsSatisfied,
      AreMetalLBRequirementsSatisfied, AreLokiRequirementsSatisfied,
      AreOpenShiftLoggingRequirementsSatisfied]"

definition installationDiskSpeedUnknown :: host_condition where
  "installationDiskSpeedUnknown =
     And [Not (IfC InstallationDiskSpeedCheckSuccessful), IfV SufficientOrUnknownInstallationDiskSpeed]"

definition imagesAvailabilityUnknown :: host_condition where
  "imagesAvailabilityUnknown =
     And [Not (IfC SuccessfulContainerImageAvailability),
          IfV SucessfullOrUnknownContainerImagesAvailability]"

definition allConditionsSuccessful :: host_condition where
  "allConditionsSuccessful =
     And [IfC InstallationDiskSpeedCheckSuccessful, IfC SuccessfulContainerImageAvailability]"

definition allConditionsSuccessfulOrUnknown :: host_condition where
  "allConditionsSuccessfulOrUnknown =
     And [IfV SufficientOrUnknownInstallationDiskSpeed,
          IfV SucessfullOrUnknownContainerImagesAvailability]"

definition atLeastOneConditionUnknown :: host_condition where
  "atLeastOneConditionUnknown =
     And [Or [installationDiskSpeedUnknown, imagesAvailabilityUnknown],
          allConditionsSuccessfulOrUnknown]"

definition shouldIgnoreInstallationProgressTimeout :: host_condition where
  "shouldIgnoreInstallationProgressTimeout =
     And [IfC StageInWrongBootStages, IfC ClusterPendingUserAction]"

definition hasValidInventory :: host_condition where
  "hasValidInventory = And [IfV HasInventory, IfV InventoryNotFullyTruncated]"

definition hasMinRequiredHardware :: host_condition where
  "hasMinRequiredHardware = And (map IfV minRequiredHardwareIds)"

definition requiredInputFieldsExist :: host_condition where
  "requiredInputFieldsExist = And (map IfV requiredInputIds)"

definition isSufficientForInstall :: host_condition where
  "isSufficientForInstall = And (map IfV sufficientForInstallIds)"

section \<open>Rules for bound hosts\<close>

text \<open>Initial registration and installation progress.\<close>

definition progress_rules :: "transitionHandler \<Rightarrow> host_rule list" where
  "progress_rules th =
     [\<lparr>TransitionType = TransitionTypeRegisterHost,
       SourceStates = [HostStatusEmpty],
       DestinationState = HostStatusDiscovering,
       Condition = Some (Not (th_IsUnboundHost th)),
       Transition = None,
       PostTransition = Some (PostRegisterHost th)\<rparr>,
      \<lparr>TransitionType = TransitionTypeHostProgress,
       SourceStates = [HostStatusInstallingInProgress, HostStatusInstalling],
       DestinationState = HostStatusInstallingInProgress,
       Condition = Some (And [IsHostInReboot th, th_IsDay2Host th]),
       Transition = None,
       PostTransition = Some (PostHostProgress th)\<rparr>,
      \<lparr>TransitionType = TransitionTypeHostProgress,
       SourceStates = [HostStatusInstallingInProgress, HostStatusInstalling,
         HostStatusInstallingPendingUserAction],
       DestinationState = HostStatusAddedToExistingCluster,
       Condition = Some (And [IsHostInDone th, th_IsDay2Host th]),
       Transition = None,
       PostTransition = Some (PostHostProgress th)\<rparr>,
      \<lparr>TransitionType = TransitionTypeHostProgress,
       SourceStates = [HostStatusInstallingInProgress, HostStatusInstalling],
       DestinationState = HostStatusInstalled,
       Condition = Some (IsHostInDone th),
       Transition = None,
       PostTransition = Some (PostHostProgress th)\<rparr>,
      \<lparr>TransitionType = TransitionTypeHostProgress,
       SourceStates = [HostStatusInstallingInProgress, HostStatusInstalling,
         HostStatusInstallingPendingUserAction],
       DestinationState = HostStatusInstallingInProgress,
       Condition = None,
       Transition = None,
       PostTransition = Some (PostHostProgress th)\<rparr>] @
     map (\<lambda>state.
      \<lparr>TransitionType = TransitionTypeHostProgress,
       SourceStates = [state],
       DestinationState = state,
       Condition = None,
       Transition = None,
       PostTransition = None\<rparr>)
       [HostStatusInstalled, HostStatusInstallingPendingUserAction,
        HostStatusResettingPendingUserAction]"

text \<open>Registration of a host that is known already.\<close>

definition registration_rules :: "transitionHandler \<Rightarrow> host_rule list" where
  "registration_rules th =
     [\<lparr>TransitionType = TransitionTypeRegisterHost,
       SourceStates = [HostStatusPreparingForInstallation, HostStatusPreparingSuccessful],
       DestinationState = HostStatusKnown,
       Condition = None,
       Transition = None,
       PostTransition = Some (PostRegisterDuringPreparingForInstallation th)\<rparr>,
      \<lparr>TransitionType = TransitionTypeRegisterHost,
       SourceStates = [HostStatusDiscovering, HostStatusKnown, HostStatusDisconnected,
         HostStatusInsufficient, HostStatusResettingPendingUserAction, HostStatusBinding,
         HostStatusPendingForInput],
       DestinationState = HostStatusDiscovering,
       Condition = None,
       Transition = None,
       PostTransition = Some (PostRegisterHost th)\<rparr>,
      \<lparr>TransitionType = TransitionTypeRegisterHost,
       SourceStates = [HostStatusResetting],
       DestinationState = HostStatusResetting,
       Condition = Some (IsHostInReboot th),
       Transition = None,
       PostTransition = None\<rparr>,
      \<lparr>TransitionType = TransitionTypeRegisterHost,
       SourceStates = [HostStatusResetting],
       DestinationState = HostStatusDiscovering,
       Condition = Some (Not (IsHostInReboot th)),
       Transition = None,
       PostTransition = Some (PostRegisterHost th)\<rparr>,
      \<lparr>TransitionType = TransitionTypeRegisterHost,
       SourceStates = [HostStatusInstallingInProgress, HostStatusInstallingPendingUserAction,
         HostStatusAddedToExistingCluster],
       DestinationState = HostStatusInstallingPendingUserAction,
       Condition = Some (Or [IsHostInReboot th, And [th_IsDay2Host th, IsHostInDone th]]),
       Transition = None,
       PostTransition = Some (PostRegisterDuringReboot th)\<rparr>,
      \<lparr>TransitionType = TransitionTypeRegisterHost,
       SourceStates = [HostStatusInstalling, HostStatusInstallingInProgress],
       DestinationState = HostStatusError,
       Condition = None,
       Transition = None,
       PostTransition = Some (PostRegisterDuringInstallation th)\<rparr>,
      \<lparr>TransitionType = TransitionTypeRegisterHost,
       SourceStates = [HostStatusError],
       DestinationState = HostStatusError,
       Condition = None,
       Transition = None,
       PostTransition = None\<rparr>,
      \<lparr>TransitionType = TransitionTypeRegisterHost,
       SourceStates = [HostStatusInstalled],
       DestinationState = HostStatusInstalled,
       Condition = None,
       Transition = None,
       PostTransition = Some (PostRegisterAfterInstallation th)\<rparr>]"

text \<open>Installation failure, cancellation, day-2 installation and reset.\<close>

definition installation_control_rules :: "transitionHandler \<Rightarrow> host_rule list" where
  "installation_control_rules th =
     [\<lparr>TransitionType = TransitionTypeHostInstallationFailed,
       SourceStates = [HostStatusInstalling, HostStatusInstallingInProgress],
       DestinationState = HostStatusError,
       Condition = None,
       Transition = None,
       PostTransition = Some (PostHostInstallationFailed th)\<rparr>,
      \<lparr>TransitionType = TransitionTypeCancelInstallation,
       SourceStates = [HostStatusInstallingPendingUserAction, HostStatusInstalling,
         HostStatusInstallingInProgress, HostStatusInstalled, HostStatusError],
       DestinationState = HostStatusCancelled,
       Condition = None,
       Transition = None,
       PostTransition = Some (PostCancelInstallation th)\<rparr>,
      \<lparr>TransitionType = TransitionTypeCancelInstallation,
       SourceStates = [HostStatusPreparingForInstallation, HostStatusPreparingSuccessful],
       DestinationState = HostStatusKnown,
       Condition = None,
       Transition = None,
       PostTransition = Some (PostCancelInstallation th)\<rparr>,
      \<lparr>TransitionType = TransitionTypeCancelInstallation,
       SourceStates = [HostStatusKnown],
       DestinationState = HostStatusKnown,
       Condition = None,
       Transition = None,
       PostTransition = None\<rparr>,
      \<lparr>TransitionType = TransitionTypeInstallHost,
       SourceStates = [HostStatusKnown],
       DestinationState = HostStatusInstalling,
       Condition = Some (th_IsDay2Host th),
       Transition = None,
       PostTransition = Some (PostInstallHost th)\<rparr>,
      \<lparr>TransitionType = TransitionTypeResettingPendingUserAction,
       SourceStates = [HostStatusResetting, HostStatusDiscovering, HostStatusKnown,
         HostStatusInstallingPendingUserAction, HostStatusInstalling,
         HostStatusPreparingForInstallation, HostStatusPreparingSuccessful,
         HostStatusPreparingFailed, HostStatusPendingForInput,
         HostStatusResettingPendingUserAction, HostStatusInstallingInProgress,
         HostStatusInstalled, HostStatusError, HostStatusCancelled,
         HostStatusAddedToExistingCluster],
       DestinationState = HostStatusResettingPendingUserAction,
       Condition = None,
       Transition = None,
       PostTransition = Some (PostResettingPendingUserAction th)\<rparr>]"

text \<open>Unbinding and reclaiming.\<close>

definition unbind_rules :: "transitionHandler \<Rightarrow> host_rule list" where
  "unbind_rules th =
     [\<lparr>TransitionType = TransitionTypeUnbindHost,
       SourceStates = [HostStatusKnown, HostStatusDiscovering, HostStatusDisconnected,
         HostStatusInsufficient, HostStatusPendingForInput],
       DestinationState = HostStatusUnbinding,
       Condition = None,
       Transition = None,
       PostTransition = Some (PostUnbindHost th)\<rparr>,
      \<lparr>TransitionType = TransitionTypeUnbindHost,
       SourceStates = [HostStatusPreparingForInstallation, HostStatusPreparingSuccessful,
         HostStatusPreparingFailed, HostStatusInstalling, HostStatusInstallingInProgress,
         HostStatusInstallingPendingUserAction, HostStatusInstalled,
         HostStatusAddedToExistingCluster, HostStatusError, HostStatusCancelled],
       DestinationState = HostStatusUnbindingPendingUserAction,
       Condition = None,
       Transition = None,
       PostTransition = Some (PostUnbindHost th)\<rparr>,
      \<lparr>TransitionType = TransitionTypeReclaimHost,
       SourceStates = [HostStatusInstalled, HostStatusAddedToExistingCluster],
       DestinationState = HostStatusReclaiming,
       Condition = None,
       Transition = None,
       PostTransition = Some (PostUnbindHost th)\<rparr>,
      \<lparr>TransitionType = TransitionTypeRebootingForReclaim,
       SourceStates = [HostStatusReclaiming],
       DestinationState = HostStatusReclaimingRebooting,
       Condition = None,
       Transition = None,
       PostTransition = Some (PostReclaim th)\<rparr>,
      \<lparr>TransitionType = TransitionTypeReclaimFailed,
       SourceStates = [HostStatusReclaiming, HostStatusReclaimingRebooting],
       DestinationState = HostStatusUnbindingPendingUserAction,
       Condition = None,
       Transition = None,
       PostTransition = Some (PostUnbindHost th)\<rparr>,
      \<lparr>TransitionType = TransitionTypeRefresh,
       SourceStates = [HostStatusReclaiming, HostStatusReclaimingRebooting],
       DestinationState = HostStatusUnbindingPendingUserAction,
       Condition = Some (HasStatusTimedOut th ReclaimTimeout),
       Transition = None,
       PostTransition = Some (PostRefreshReclaimTimeout th)\<rparr>,
      \<lparr>TransitionType = TransitionTypeReclaimHost,
       SourceStates = [HostStatusKnown, HostStatusDiscovering, HostStatusDisconnected,
         HostStatusInsufficient, HostStatusPendingForInput],
       DestinationState = HostStatusUnbinding,
       Condition = None,
       Transition = None,
       PostTransition = Some (PostUnbindHost th)\<rparr>,
      \<lparr>TransitionType = TransitionTypeReclaimHost,
       SourceStates = [HostStatusError, HostStatusCancelled],
       DestinationState = HostStatusUnbindingPendingUserAction,
       Condition = None,
       Transition = None,
       PostTransition = Some (PostUnbindHost th)\<rparr>]"

text \<open>Refresh of a host that prepares for installation.\<close>

definition preparing_rules :: "transitionHandler \<Rightarrow> host_rule list" where
  "preparing_rules th =
     [\<lparr>TransitionType = TransitionTypeRefresh,
       SourceStates = [HostStatusKnown],
       DestinationState = HostStatusPreparingForInstallation,
       Condition = Some (And [IfC ValidRoleForInstallation, IfV IsConnected,
         IfV IsMediaConnected, IfC ClusterPreparingForInstallation]),
       Transition = None,
       PostTransition = Some (PostPreparingForInstallationHost th)\<rparr>,
      \<lparr>TransitionType = TransitionTypeRefresh,
       SourceStates = [HostStatusPreparingForInstallation],
       DestinationState = HostStatusPreparingSuccessful,
       Condition = Some (And [IfV IsConnected, IfV IsMediaConnected, allConditionsSuccessful,
         IfC ClusterPreparingForInstallation]),
       Transition = None,
       PostTransition = Some (PostRefreshHost th statusInfoHostPreparationSuccessful)\<rparr>,
      \<lparr>TransitionType = TransitionTypeRefresh,
       SourceStates = [HostStatusPreparingSuccessful],
       DestinationState = HostStatusPreparingSuccessful,
       Condition = Some (And [IfV IsConnected, IfV IsMediaConnected,
         IfC ClusterPreparingForInstallation]),
       Transition = None,
       PostTransition = None\<rparr>,
      \<lparr>TransitionType = TransitionTypeRefresh,
       SourceStates = [HostStatusPreparingSuccessful],
       DestinationState = HostStatusInstalling,
       Condition = Some (And [IfV IsConnected, IfV IsMediaConnected, IfC ClusterInstalling]),
       Transition = None,
       PostTransition = Some (PostRefreshHost th statusInfoInstalling)\<rparr>,
      \<lparr>TransitionType = TransitionTypeRefresh,
       SourceStates = [HostStatusPreparingForInstallation],
       DestinationState = HostStatusKnown,
       Condition = Some (And [IfV IsConnected, IfV IsMediaConnected,
         allConditionsSuccessfulOrUnknown, Not (IfC ClusterPreparingForInstallation)]),
       Transition = None,
       PostTransition = Some (PostRefreshHost th statusInfoKnown)\<rparr>,
      \<lparr>TransitionType = TransitionTypeRefresh,
       SourceStates = [HostStatusPreparingForInstallation, HostStatusPreparingFailed, HostStatusKnown],
       DestinationState = HostStatusInsufficient,
       Condition = Some (And [IfV IsConnected, IfV IsMediaConnected,
         Not (IfV SufficientOrUnknownInstallationDiskSpeed)]),
       Transition = None,
       PostTransition = Some (PostRefreshHost th statusInfoNotReadyForInstall)\<rparr>,
      \<lparr>TransitionType = TransitionTypeRefresh,
       SourceStates = [HostStatusPreparingForInstallation],
       DestinationState = HostStatusPreparingFailed,
       Condition = Some (And [IfV IsConnected, IfV IsMediaConnected, IsPreparingTimedOut th,
         Or [installationDiskSpeedUnknown, imagesAvailabilityUnknown],
         allConditionsSuccessfulOrUnknown]),
       Transition = None,
       PostTransition = Some (PostHostPreparationTimeout th)\<rparr>,
      \<lparr>TransitionType = TransitionTypeRefresh,
       SourceStates = [HostStatusPreparingForInstallation],
       DestinationState = HostStatusPreparingFailed,
       Condition = Some (And [IfV IsConnected, IfV IsMediaConnected,
         Not (IfV SucessfullOrUnknownContainerImagesAvailability)]),
       Transition = None,
       PostTransition = Some (PostRefreshHost th statusInfoHostPreparationFailure)\<rparr>]"

text \<open>Refresh of a host that stays in, or leaves, the preparing states.\<close>

definition preparing_end_rules :: "transitionHandler \<Rightarrow> host_rule list" where
  "preparing_end_rules th =
     [\<lparr>TransitionType = TransitionTypeRefresh,
       SourceStates = [HostStatusPreparingForInstallation],
       DestinationState = HostStatusPreparingForInstallation,
       Condition = Some (And [IfV IsConnected, IfV IsMediaConnected,
         atLeastOneConditionUnknown, IfC ClusterPreparingForInstallation]),
       Transition = None,
       PostTransition = None\<rparr>,
      \<lparr>TransitionType = TransitionTypeRefresh,
       SourceStates = [HostStatusPreparingFailed],
       DestinationState = HostStatusKnown,
       Condition = Some (And [IfV IsConnected, IfV IsMediaConnected,
         Not (IfC ClusterPreparingForInstallation)]),
       Transition = None,
       PostTransition = Some (PostRefreshHost th statusInfoKnown)\<rparr>,
      \<lparr>TransitionType = TransitionTypeRefresh,
       SourceStates = [HostStatusPreparingSuccessful],
       DestinationState = HostStatusKnown,
       Condition = Some (And [IfV IsConnected, IfV IsMediaConnected,
         Not (Or [IfC ClusterPreparingForInstallation, IfC ClusterInstalling])]),
       Transition = None,
       PostTransition = Some (PostRefreshHost th statusInfoKnown)\<rparr>]"

text \<open>Disconnection before the installation and loss of the installation media.\<close>

definition disconnection_rules :: "transitionHandler \<Rightarrow> host_rule list" where
  "disconnection_rules th =
     [\<lparr>TransitionType = TransitionTypeRefresh,
       SourceStates = [HostStatusDiscovering, HostStatusInsufficient, HostStatusKnown,
         HostStatusPendingForInput, HostStatusDisconnected, HostStatusPreparingFailed],
       DestinationState = HostStatusDisconnected,
       Condition = Some (Or [Not (IfV IsConnected), Not (IfV IsMediaConnected)]),
       Transition = None,
       PostTransition = Some (PostRefreshHost th statusInfoDisconnected)\<rparr>,
      \<lparr>TransitionType = TransitionTypeMediaDisconnect,
       SourceStates = [HostStatusDiscovering, HostStatusInsufficient, HostStatusKnown,
         HostStatusPendingForInput, HostStatusDisconnected, HostStatusBinding],
       DestinationState = HostStatusDisconnected,
       Condition = None,
       Transition = None,
       PostTransition = Some (PostHostMediaDisconnected th)\<rparr>,
      \<lparr>TransitionType = TransitionTypeMediaDisconnect,
       SourceStates = [HostStatusPreparingForInstallation, HostStatusPreparingFailed,
         HostStatusPreparingSuccessful, HostStatusInstalling, HostStatusInstallingInProgress,
         HostStatusError],
       DestinationState = HostStatusError,
       Condition = None,
       Transition = None,
       PostTransition = Some (PostHostMediaDisconnected th)\<rparr>]"

text \<open>Refresh of an installing host: cluster errors, timeouts, lost connections.\<close>

definition installing_rules :: "transitionHandler \<Rightarrow> host_rule list" where
  "installing_rules th =
     [\<lparr>TransitionType = TransitionTypeRefresh,
       SourceStates = [HostStatusInstalling, HostStatusInstallingInProgress, HostStatusInstalled,
         HostStatusResettingPendingUserAction, HostStatusInstallingPendingUserAction],
       DestinationState = HostStatusError,
       Condition = Some (And [IfC ClusterInError, Not (th_IsDay2Host th)]),
       Transition = None,
       PostTransition = Some (PostRefreshHost th statusInfoAbortingDueClusterErrors)\<rparr>,
      \<lparr>TransitionType = TransitionTypeRefresh,
       SourceStates = [HostStatusInstalling],
       DestinationState = HostStatusError,
       Condition = Some (HasStatusTimedOut th InstallationTimeout),
       Transition = None,
       PostTransition = Some (PostRefreshHost th statusInfoInstallationTimedOut)\<rparr>,
      \<lparr>TransitionType = TransitionTypeRefresh,
       SourceStates = [HostStatusPreparingForInstallation, HostStatusPreparingSuccessful],
       DestinationState = HostStatusDisconnected,
       Condition = Some (Or [Not (IfV IsConnected), Not (IfV IsMediaConnected)]),
       Transition = None,
       PostTransition = Some (PostRefreshHost th statusInfoConnectionTimedOutPreparing)\<rparr>,
      \<lparr>TransitionType = TransitionTypeRefresh,
       SourceStates = [HostStatusInstalling, HostStatusInstallingInProgress],
       DestinationState = HostStatusError,
       Condition = Some (And [Not (IfV IsConnected), Not (IfC SoftTimeoutsEnabled)]),
       Transition = None,
       PostTransition = Some (PostRefreshHost th statusInfoConnectionTimedOutInstalling)\<rparr>] @
     concat (map (\<lambda>st.
     [\<lparr>TransitionType = TransitionTypeRefresh,
       SourceStates = [st],
       DestinationState = st,
       Condition = Some (And [Not (IfV IsConnected), IfC SoftTimeoutsEnabled,
         Not (IfC ConnectionTimedOut)]),
       Transition = None,
       PostTransition =
         Some (PostRefreshHostDisconnection th statusInfoConnectionSoftTimedOutInstalling True)\<rparr>,
      \<lparr>TransitionType = TransitionTypeRefresh,
       SourceStates = [st],
       DestinationState = st,
       Condition = Some (And [IfV IsConnected, IfC SoftTimeoutsEnabled,
         IfC ConnectionTimedOut]),
       Transition = None,
       PostTransition =
         Some (PostRefreshHostDisconnection th statusInfoConnectionSoftTimedOutInstallingReconnected False)\<rparr>])
       [HostStatusInstalling, HostStatusInstallingInProgress]) @
     [\<lparr>TransitionType = TransitionTypeRefresh,
       SourceStates = [HostStatusInstallingInProgress],
       DestinationState = HostStatusInstallingInProgress,
       Condition = Some (shouldIgnoreInstallationProgressTimeout),
       Transition = None,
       PostTransition = Some (PostRefreshHostRefreshStageUpdateTime th)\<rparr>]"

text \<open>Refresh of an installing host: stage timeouts.\<close>

definition stage_timeout_rules :: "transitionHandler \<Rightarrow> host_rule list" where
  "stage_timeout_rules th =
     [\<lparr>TransitionType = TransitionTypeRefresh,
       SourceStates = [HostStatusInstallingInProgress],
       DestinationState = HostStatusError,
       Condition = Some (And [Not (IfC SoftTimeoutsEnabled),
         Not (IsInStages [HostStageWritingImageToDisk, HostStageCopyingRegistryDataToDisk,
         HostStageRebooting]), HasInstallationInProgressTimedOut th,
         Not (shouldIgnoreInstallationProgressTimeout)]),
       Transition = None,
       PostTransition = Some (PostRefreshHost th statusInfoInstallationInProgressTimedOut)\<rparr>,
      \<lparr>TransitionType = TransitionTypeRefresh,
       SourceStates = [HostStatusInstallingInProgress],
       DestinationState = HostStatusError,
       Condition = Some (And [Not (IfC SoftTimeoutsEnabled),
         IsInStages [HostStageWritingImageToDisk], HasInstallationInProgressTimedOut th,
         Not (shouldIgnoreInstallationProgressTimeout)]),
       Transition = None,
       PostTransition =
         Some (PostRefreshHost th statusInfoInstallationInProgressWritingImageToDiskTimedOut)\<rparr>,
      \<lparr>TransitionType = TransitionTypeRefresh,
       SourceStates = [HostStatusInstallingInProgress],
       DestinationState = HostStatusError,
       Condition = Some (And [Not (IfC SoftTimeoutsEnabled),
         IsInStages [HostStageCopyingRegistryDataToDisk],
         HasInstallationInProgressTimedOut th, Not (shouldIgnoreInstallationProgressTimeout)]),
       Transition = None,
       PostTransition =
         Some (PostRefreshHost th statusInfoInstallationInProgressCopyingRegistryDataToDiskTimedOut)\<rparr>,
      \<lparr>TransitionType = TransitionTypeRefresh,
       SourceStates = [HostStatusInstallingInProgress],
       DestinationState = HostStatusInstallingInProgress,
       Condition = Some (And [IfC SoftTimeoutsEnabled, Not (IfC HostStageTimedOut),
         Not (IsInStages [HostStageWritingImageToDisk, HostStageCopyingRegistryDataToDisk,
         HostStageRebooting]), HasInstallationInProgressTimedOut th,
         Not (shouldIgnoreInstallationProgressTimeout)]),
       Transition = None,
       PostTransition =
         Some (PostHostStageTimeout th statusInfoInstallationInProgressSoftTimedOut)\<rparr>,
      \<lparr>TransitionType = TransitionTypeRefresh,
       SourceStates = [HostStatusInstallingInProgress],
       DestinationState = HostStatusInstallingInProgress,
       Condition = Some (And [IfC SoftTimeoutsEnabled, Not (IfC HostStageTimedOut),
         IsInStages [HostStageWritingImageToDisk], HasInstallationInProgressTimedOut th,
         Not (shouldIgnoreInstallationProgressTimeout)]),
       Transition = None,
       PostTransition =
         Some (PostHostStageTimeout th statusInfoInstallationInProgressWritingImageToDiskSoftTimedOut)\<rparr>,
      \<lparr>TransitionType = TransitionTypeRefresh,
       SourceStates = [HostStatusInstallingInProgress],
       DestinationState = HostStatusInstallingInProgress,
       Condition = Some (And [IfC SoftTimeoutsEnabled, Not (IfC HostStageTimedOut),
         IsInStages [HostStageCopyingRegistryDataToDisk],
         HasInstallationInProgressTimedOut th, Not (shouldIgnoreInstallationProgressTimeout)]),
       Transition = None,
       PostTransition =
         Some (PostHostStageTimeout th statusInfoInstallationInProgressCopyingRegistryDataToDiskSoftTimedOut)\<rparr>,
      \<lparr>TransitionType = TransitionTypeRefresh,
       SourceStates = [HostStatusInstallingInProgress],
       DestinationState = HostStatusInstallingPendingUserAction,
       Condition = Some (And [HasInstallationInProgressTimedOut th, IsHostInReboot th]),
       Transition = None,
       PostTransition = Some (PostRefreshHost th statusRebootTimeout)\<rparr>]"

text \<open>Refresh of a host that waits for the user; no-ops without a cluster error.\<close>

definition pending_user_action_rules :: "transitionHandler \<Rightarrow> host_rule list" where
  "pending_user_action_rules th =
     [\<lparr>TransitionType = TransitionTypeRefresh,
       SourceStates = [HostStatusInstallingPendingUserAction],
       DestinationState = HostStatusError,
       Condition = Some (And [HasPendingUserActionTimedOut th,
         ClusterWouldSucceedWithoutHost th, Not (IsClusterPostInstallation th)]),
       Transition = None,
       PostTransition = Some (PostRefreshHost th statusInfoPendingUserActionTimeout)\<rparr>] @
     map (\<lambda>state.
      \<lparr>TransitionType = TransitionTypeRefresh,
       SourceStates = [state],
       DestinationState = state,
       Condition = Some (Not (IfC ClusterInError)),
       Transition = None,
       PostTransition = None\<rparr>)
       [HostStatusInstalling, HostStatusInstallingInProgress, HostStatusInstalled,
        HostStatusInstallingPendingUserAction, HostStatusResettingPendingUserAction]"

text \<open>Refresh of a host before installation.\<close>

definition discovery_rules :: "transitionHandler \<Rightarrow> host_rule list" where
  "discovery_rules th =
     [\<lparr>TransitionType = TransitionTypeRefresh,
       SourceStates = [HostStatusDisconnected, HostStatusDiscovering],
       DestinationState = HostStatusDiscovering,
       Condition = Some (And [IfV IsConnected, IfV IsMediaConnected, Not (hasValidInventory)]),
       Transition = None,
       PostTransition = Some (PostRefreshHost th statusInfoDiscovering)\<rparr>,
      \<lparr>TransitionType = TransitionTypeRefresh,
       SourceStates = [HostStatusDisconnected, HostStatusDiscovering, HostStatusInsufficient,
         HostStatusKnown, HostStatusPendingForInput],
       DestinationState = HostStatusInsufficient,
       Condition = Some (And [IfV IsConnected, IfV IsMediaConnected, hasValidInventory,
         Not (hasMinRequiredHardware)]),
       Transition = None,
       PostTransition = Some (PostRefreshHost th statusInfoInsufficientHardware)\<rparr>,
      \<lparr>TransitionType = TransitionTypeRefresh,
       SourceStates = [HostStatusDisconnected, HostStatusDiscovering, HostStatusInsufficient,
         HostStatusKnown, HostStatusPendingForInput],
       DestinationState = HostStatusPendingForInput,
       Condition = Some (And [IfV IsConnected, IfV IsMediaConnected, hasValidInventory,
         IfV VSphereHostUUIDEnabled, hasMinRequiredHardware, Not (requiredInputFieldsExist)]),
       Transition = None,
       PostTransition = Some (PostRefreshHost th statusInfoPendingForInput)\<rparr>,
      \<lparr>TransitionType = TransitionTypeRefresh,
       SourceStates = [HostStatusDisconnected, HostStatusInsufficient, HostStatusPendingForInput,
         HostStatusDiscovering, HostStatusKnown],
       DestinationState = HostStatusInsufficient,
       Condition = Some (And [IfV IsConnected, IfV IsMediaConnected, IfV HasInventory,
         Or [hasMinRequiredHardware, Not (IfV InventoryNotFullyTruncated)],
         Or [Not (IfV VSphereHostUUIDEnabled), And [requiredInputFieldsExist,
         Not (isSufficientForInstall)]]]),
       Transition = None,
       PostTransition = Some (PostRefreshHost th statusInfoNotReadyForInstall)\<rparr>,
      \<lparr>TransitionType = TransitionTypeRefresh,
       SourceStates = [HostStatusDisconnected, HostStatusInsufficient, HostStatusPendingForInput,
         HostStatusDiscovering],
       DestinationState = HostStatusKnown,
       Condition = Some (And [IfV IsConnected, IfV IsMediaConnected, hasValidInventory,
         hasMinRequiredHardware, requiredInputFieldsExist, isSufficientForInstall,
         IfV VSphereHostUUIDEnabled]),
       Transition = None,
       PostTransition = Some (PostRefreshHost th statusInfoKnown)\<rparr>,
      \<lparr>TransitionType = TransitionTypeRefresh,
       SourceStates = [HostStatusKnown],
       DestinationState = HostStatusKnown,
       Condition = Some (And [IfV IsConnected, IfV IsMediaConnected, hasValidInventory,
         hasMinRequiredHardware, requiredInputFieldsExist, isSufficientForInstall,
         IfV VSphereHostUUIDEnabled, Not (And [IfC ClusterPreparingForInstallation,
         IfC ValidRoleForInstallation])]),
       Transition = None,
       PostTransition = Some (PostRefreshHost th statusInfoKnown)\<rparr>]"

text \<open>Refresh of failed, cancelled, resetting, added and reclaiming hosts.\<close>

definition final_rules :: "transitionHandler \<Rightarrow> host_rule list" where
  "final_rules th =
     map (\<lambda>state.
      \<lparr>TransitionType = TransitionTypeRefresh,
       SourceStates = [state],
       DestinationState = state,
       Condition = Some (IsLogCollectionTimedOut th),
       Transition = None,
       PostTransition = Some (PostRefreshLogsProgress th LogsStateTimeout)\<rparr>)
       [HostStatusError, HostStatusCancelled] @
     map (\<lambda>state.
      \<lparr>TransitionType = TransitionTypeRefresh,
       SourceStates = [state],
       DestinationState = state,
       Condition = None,
       Transition = None,
       PostTransition = None\<rparr>)
       [HostStatusError, HostStatusCancelled, HostStatusResetting] @
     [\<lparr>TransitionType = TransitionTypeRefresh,
       SourceStates = [HostStatusAddedToExistingCluster],
       DestinationState = HostStatusAddedToExistingCluster,
       Condition = Some (th_IsDay2Host th),
       Transition = None,
       PostTransition = None\<rparr>] @
     map (\<lambda>state.
      \<lparr>TransitionType = TransitionTypeRefresh,
       SourceStates = [state],
       DestinationState = state,
       Condition = Some (Not (HasStatusTimedOut th ReclaimTimeout)),
       Transition = None,
       PostTransition = None\<rparr>)
       [HostStatusReclaiming, HostStatusReclaimingRebooting]"

definition host_rules :: "transitionHandler \<Rightarrow> host_rule list" where
  "host_rules th =
     progress_rules th @ registration_rules th @ installation_control_rules th @ unbind_rules th @
     preparing_rules th @ preparing_end_rules th @ disconnection_rules th @ installing_rules th @
     stage_timeout_rules th @ pending_user_action_rules th @ discovery_rules th @ final_rules th"

section \<open>Rules for unbound hosts\<close>

definition pool_hasMinRequiredHardware :: host_condition where
  "pool_hasMinRequiredHardware = And [IfV HasMinValidDisks, IfV HasMinCPUCores, IfV HasMinMemory]"

definition sufficientToBeBound :: host_condition where
  "sufficientToBeBound = And [pool_hasMinRequiredHardware, IfV IsHostnameValid]"

text \<open>Hosts that are not bound to a cluster (\<open>pool_host_statemachine.go\<close>).\<close>

definition pool_rules :: "transitionHandler \<Rightarrow> host_rule list" where
  "pool_rules th =
     [\<lparr>TransitionType = TransitionTypeRegisterHost,
       SourceStates = [HostStatusEmpty],
       DestinationState = HostStatusDiscoveringUnbound,
       Condition = Some (th_IsUnboundHost th),
       Transition = None,
       PostTransition = Some (PostRegisterHost th)\<rparr>,
      \<lparr>TransitionType = TransitionTypeRegisterHost,
       SourceStates = [HostStatusDiscoveringUnbound, HostStatusDisconnectedUnbound,
         HostStatusInsufficientUnbound, HostStatusKnownUnbound, HostStatusUnbinding,
         HostStatusUnbindingPendingUserAction, HostStatusReclaimingRebooting],
       DestinationState = HostStatusDiscoveringUnbound,
       Condition = None,
       Transition = None,
       PostTransition = Some (PostRegisterHost th)\<rparr>,
      \<lparr>TransitionType = TransitionTypeBindHost,
       SourceStates = [HostStatusKnownUnbound],
       DestinationState = HostStatusBinding,
       Condition = None,
       Transition = None,
       PostTransition = Some (PostBindHost th)\<rparr>,
      \<lparr>TransitionType = TransitionTypeRefresh,
       SourceStates = [HostStatusDiscoveringUnbound, HostStatusInsufficientUnbound, HostStatusKnownUnbound,
         HostStatusDisconnectedUnbound, HostStatusUnbinding],
       DestinationState = HostStatusDisconnectedUnbound,
       Condition = Some (Not (IfV IsConnected)),
       Transition = None,
       PostTransition = Some (PostRefreshHost th statusInfoDisconnected)\<rparr>,
      \<lparr>TransitionType = TransitionTypeMediaDisconnect,
       SourceStates = [HostStatusDiscoveringUnbound, HostStatusInsufficientUnbound, HostStatusKnownUnbound,
         HostStatusDisconnectedUnbound, HostStatusUnbinding],
       DestinationState = HostStatusDisconnectedUnbound,
       Condition = None,
       Transition = None,
       PostTransition = Some (PostHostMediaDisconnected th)\<rparr>,
      \<lparr>TransitionType = TransitionTypeRefresh,
       SourceStates = [HostStatusDisconnectedUnbound, HostStatusDiscoveringUnbound],
       DestinationState = HostStatusDiscoveringUnbound,
       Condition = Some (And [IfV IsConnected, IfV IsMediaConnected, Not (hasValidInventory)]),
       Transition = None,
       PostTransition = Some (PostRefreshHost th statusInfoDiscovering)\<rparr>,
      \<lparr>TransitionType = TransitionTypeRefresh,
       SourceStates = [HostStatusDisconnectedUnbound, HostStatusDiscoveringUnbound,
         HostStatusInsufficientUnbound, HostStatusKnownUnbound],
       DestinationState = HostStatusInsufficientUnbound,
       Condition = Some (And [IfV IsConnected, IfV IsMediaConnected, hasValidInventory,
         Not (sufficientToBeBound)]),
       Transition = None,
       PostTransition = Some (PostRefreshHost th statusInfoInsufficientHardware)\<rparr>] @
     map (\<lambda>state.
      \<lparr>TransitionType = TransitionTypeRefresh,
       SourceStates = [state],
       DestinationState = state,
       Condition = None,
       Transition = None,
       PostTransition = None\<rparr>)
       [HostStatusBinding, HostStatusUnbinding] @
     [\<lparr>TransitionType = TransitionTypeRefresh,
       SourceStates = [HostStatusDisconnectedUnbound, HostStatusDiscoveringUnbound,
         HostStatusInsufficientUnbound, HostStatusKnownUnbound],
       DestinationState = HostStatusKnownUnbound,
       Condition = Some (And [IfV IsConnected, IfV IsMediaConnected, hasValidInventory,
         sufficientToBeBound]),
       Transition = None,
       PostTransition = Some (PostRefreshHost th statusInfoHostReadyToBeBound)\<rparr>]"

section \<open>The machine of the manager\<close>

text \<open>\<open>NewManager\<close> adds the rules of both constructors to one machine.\<close>

definition all_host_rules :: "transitionHandler \<Rightarrow> host_rule list" where
  "all_host_rules th = host_rules th @ pool_rules th"

definition host_sm ::
  "transitionHandler \<Rightarrow> (host_transition_type, host_status, host_ctx, host_args) state_machine" where
  "host_sm th = build_machine (all_host_rules th)"

definition sm_Run :: "transitionHandler \<Rightarrow> host_transition_type \<Rightarrow> host_action" where
  "sm_Run th = Run stateHost_State stateHost_SetState (host_sm th)"

lemmas host_rule_groups [rule_defs] =
  progress_rules_def registration_rules_def installation_control_rules_def unbind_rules_def
  preparing_rules_def preparing_end_rules_def disconnection_rules_def installing_rules_def
  stage_timeout_rules_def pending_user_action_rules_def discovery_rules_def final_rules_def
  pool_rules_def

end
