(* ===== verification/Host_Contract.thy ===== *)
theory Host_Contract
  imports Host_Statemachine
begin

text \<open>
  The contract between the state machine and the transition handler: which post transitions keep
  the state that the machine has set, and what they have stored when they succeed. The last section
  interprets the locales of the engine on the rules of the host machine.
\<close>

section \<open>Argument lists of status updates\<close>

text \<open>The lists are well-formed and leave the status column to \<open>UpdateHostStatus\<close>.\<close>

definition extra_ok :: "iface list \<Rightarrow> bool" where
  "extra_ok extra \<longleftrightarrow> even (length extra) \<and>
     (case pairs_of extra of Inl _ \<Rightarrow> False | Inr cvs \<Rightarrow> C_status \<notin> fst ` set cvs)"

lemma extra_ok_append: "extra_ok xs \<Longrightarrow> extra_ok ys \<Longrightarrow> extra_ok (xs @ ys)"
  by (auto simp: extra_ok_def pairs_of_append split: sum.splits)

lemma extra_ok_Nil [simp]: "extra_ok []"
  by (simp add: extra_ok_def)

lemma extra_ok_pair: "c \<noteq> C_status \<Longrightarrow> extra_ok ys \<Longrightarrow> extra_ok (IName c # v # ys)"
  by (auto simp: extra_ok_def split: sum.splits)

lemma extra_ok_reset [simp]:
  "extra_ok resetLogsField" "extra_ok resetProgressFields" "extra_ok resetFields"
  "extra_ok restFieldsOnUnbind"
  unfolding resetLogsField_def restFieldsOnUnbind_def resetFields_def resetProgressFields_def
  by (intro extra_ok_append extra_ok_pair extra_ok_Nil; simp)+

lemma extra_ok_filter: "extra_ok extra \<Longrightarrow> extra_ok (filter_extra extra)"
proof (induction extra rule: filter_extra.induct)
  case (1 name v rest)
  then have "extra_ok rest" by (auto simp: extra_ok_def split: sum.splits iface.splits)
  moreover obtain c where "name = IName c" "c \<noteq> C_status"
    using 1(4) by (auto simp: extra_ok_def split: sum.splits iface.splits)
  ultimately show ?case using 1(1-3) by (auto intro: extra_ok_pair)
qed (auto simp: extra_ok_def)

lemmas extra_ok_intros = extra_ok_append extra_ok_pair extra_ok_reset extra_ok_filter extra_ok_Nil

section \<open>Status updates of a transition\<close>

definition sh_key :: "host_ctx \<Rightarrow> key" where
  "sh_key sh = host_key (sw_host sh)"

definition stored_row :: "host_ctx \<Rightarrow> host option" where
  "stored_row sh = find_host (sh_key sh) (ctx_world sh)"

definition stored_status :: "host_ctx \<Rightarrow> host_status option" where
  "stored_status sh = map_option Host_Status (stored_row sh)"

lemma UpdateHostStatus_stored:
  assumes "wf_world w" and "extra_ok extra"
    and "UpdateHostStatus J i j s t info extra w = (Inr res, w')"
  shows "\<exists>h. res = Some h \<and> Host_Status h = t \<and> find_host (i, j) w' = Some h"
  using UpdateHostStatus_Inr [OF assms(1) _ _ _ assms(3)] assms(2)
  by (auto simp: extra_ok_def split: sum.splits)

lemma UpdateHostStatus_wf: "wf_world w \<Longrightarrow> wf_world (snd (UpdateHostStatus J i j s t info extra w))"
  using UpdateHost_wf [of w i j s "status_extra (w_now w) s t info extra"]
  by (simp add: wf_world_def frame_simps)

lemma updateTransitionHost_ok:
  assumes "updateTransitionHost th sh info extra = (None, sh')"
  shows "Host_Status (sw_host sh') = Host_Status (sw_host sh) \<and> srcState sh' = srcState sh"
  using assms
  by (auto simp: updateTransitionHost_def UpdateHostStatus_def split: prod.splits sum.splits option.splits if_splits)

lemma updateTransitionHost_stored:
  assumes "wf_world (ctx_world sh)" and "extra_ok extra"
    and "updateTransitionHost th sh info extra = (None, sh')"
  shows "stored_row sh' = Some (sw_host sh') \<and> sh_key sh' = sh_key sh \<and>
    stored_status sh' = Some (Host_Status (sw_host sh))"
proof -
  from assms(3) obtain h w where u: "UpdateHostStatus (th_unmarshal th) (Host_InfraEnvID (sw_host sh))
      (Host_ID (sw_host sh)) (srcState sh) (Host_Status (sw_host sh)) info extra (ctx_world sh) =
      (Inr (Some h), w)" and sh': "sh' = sh\<lparr>ctx_world := w, sw_host := h\<rparr>"
    by (auto simp: updateTransitionHost_def split: prod.splits sum.splits option.splits)
  from UpdateHostStatus_stored [OF assms(1,2) u]
  have "Host_Status h = Host_Status (sw_host sh)" "find_host (sh_key sh) w = Some h"
    by (auto simp: sh_key_def host_key_def)
  moreover from this have "host_key h = sh_key sh" using find_host_SomeD by blast
  ultimately show ?thesis by (simp add: sh' stored_row_def stored_status_def sh_key_def)
qed

lemma update_discarding_ok:
  assumes "update_discarding th sh info extra = (None, sh')"
  shows "sw_host sh' = sw_host sh \<and> srcState sh' = srcState sh"
  using assms by (auto simp: update_discarding_def split: prod.splits sum.splits)

lemma update_discarding_stored:
  assumes "wf_world (ctx_world sh)" and "extra_ok extra"
    and "update_discarding th sh info extra = (None, sh')"
  shows "stored_status sh' = Some (Host_Status (sw_host sh))"
proof -
  from assms(3) obtain res w where u: "UpdateHostStatus (th_unmarshal th) (Host_InfraEnvID (sw_host sh))
      (Host_ID (sw_host sh)) (srcState sh) (Host_Status (sw_host sh)) info extra (ctx_world sh) =
      (Inr res, w)" and sh': "sh' = sh\<lparr>ctx_world := w\<rparr>"
    by (auto simp: update_discarding_def split: prod.splits sum.splits)
  from UpdateHostStatus_stored [OF assms(1,2) u] show ?thesis
    by (auto simp: sh' stored_row_def stored_status_def sh_key_def host_key_def)
qed

text \<open>An update that does not assign the status leaves the stored status.\<close>

lemma UpdateHost_status:
  assumes "extra_ok extra"
  shows "map_option Host_Status (find_host k (snd (UpdateHost i j s extra w))) =
         map_option Host_Status (find_host k w)"
proof (rule UpdateHost_snd_cases [of i j s extra w])
  fix f assume f: "assignment extra = Some f"
    and w': "snd (UpdateHost i j s extra w) = update_rows (guard_row (i, j) s) f w"
  from assms obtain cvs where "pairs_of extra = Inr cvs" "C_status \<notin> fst ` set cvs"
    by (auto simp: extra_ok_def split: sum.splits)
  then have "Host_Status (f h) = Host_Status h" for h
    using assignment_column [OF f, of cvs C_status h] by (simp add: map_of_rev_notin)
  then show ?thesis
    by (cases "find_host k w") (auto simp: w' find_guarded [OF assignment_key [OF f]])
qed simp
section \<open>What a successful post transition has done\<close>

definition keeps_status :: "host_status \<Rightarrow> host_action \<Rightarrow> bool" where
  "keeps_status d f \<longleftrightarrow>
     (\<forall>sh args sh'. f sh args = (None, sh') \<longrightarrow> Host_Status (sw_host sh) = d \<longrightarrow>
        Host_Status (sw_host sh') = d)"

definition stores_status :: "host_status list \<Rightarrow> host_status \<Rightarrow> host_action \<Rightarrow> bool" where
  "stores_status srcs d f \<longleftrightarrow>
     (\<forall>sh args sh'. wf_world (ctx_world sh) \<longrightarrow> stored_status sh = Some (srcState sh) \<longrightarrow>
        srcState sh \<in> set srcs \<longrightarrow> Host_Status (sw_host sh) = d \<longrightarrow> f sh args = (None, sh') \<longrightarrow>
        stored_status sh' = Some d)"

lemma stored_status_Some:
  "stored_status sh = Some s \<Longrightarrow> \<exists>r. find_host (Host_InfraEnvID (sw_host sh), Host_ID (sw_host sh))
     (ctx_world sh) = Some r \<and> Host_Status r = s"
  by (auto simp: stored_status_def stored_row_def sh_key_def host_key_def)

text \<open>A host that is stored is not created a second time.\<close>

lemma Create_host_stored:
  assumes "find_host (host_key h) w = Some r"
  shows "Create_host h w = (Some ErrDB, w)"
proof -
  have "host_key h \<in> host_key ` set (w_hosts w)" using find_host_SomeD [OF assms] by (metis imageI)
  then show ?thesis by (simp add: Create_host_def)
qed

lemma PostRegisterHost_keeps: "keeps_status d (PostRegisterHost th)"
  by (auto simp: keeps_status_def PostRegisterHost_def Let_def dest: updateTransitionHost_ok
      split: host_args.splits sum.splits prod.splits option.splits)

lemma PostRegisterHost_stores: "stores_status srcs d (PostRegisterHost th)"
proof -
  have "stored_status sh' = Some (Host_Status (sw_host sh))"
    if wf: "wf_world (ctx_world sh)" and st: "stored_status sh = Some (srcState sh)"
      and run: "PostRegisterHost th sh args = (None, sh')" for sh args sh'
  proof -
    from run obtain v where v: "args = TransitionArgsRegisterHost v"
      by (auto simp: PostRegisterHost_def split: host_args.splits)
    from stored_status_Some [OF st] obtain r
      where r: "find_host (Host_InfraEnvID (sw_host sh), Host_ID (sw_host sh)) (ctx_world sh) = Some r" by auto
    have "\<exists>x. GetHostFromDB (ctx_world sh) (Host_InfraEnvID (sw_host sh)) (Host_ID (sw_host sh)) = Inr x"
      using run r Create_host_stored [of "(sw_host sh)\<lparr>Host_StatusUpdatedAt := w_now (ctx_world sh),
          Host_StatusInfo := Some statusInfoDiscovering,
          Host_TriggerMonitorTimestamp := w_now (ctx_world sh)\<rparr>" "ctx_world sh" r]
      by (auto simp: v PostRegisterHost_def GetHostFromDB_def Let_def host_key_def split: if_splits)
    with run v have "updateTransitionHost th sh statusInfoDiscovering
        (resetFields @
         [IName C_discovery_agent_version, IString v, IName C_ntp_sources, IString '''',
          IName C_kind, IKind (Host_Kind (sw_host sh))] @ resetLogsField) = (None, sh')"
      by (auto simp: PostRegisterHost_def)
    from updateTransitionHost_stored [OF wf _ this] show ?thesis
      by (simp add: extra_ok_intros)
  qed
  then show ?thesis by (auto simp: stores_status_def)
qed

lemma PostRegisterDuringPreparing_keeps:
  "keeps_status HostStatusKnown (PostRegisterDuringPreparingForInstallation th)"
  by (auto simp: keeps_status_def PostRegisterDuringPreparingForInstallation_def Let_def UpdateHostStatus_def
      split: host_args.splits sum.splits prod.splits option.splits if_splits)

lemma reset_preparation_frame [simp]:
  "w_hosts (snd (reset_preparation c w)) = w_hosts w"
  "w_dbfault (snd (reset_preparation c w)) = w_dbfault w"
  "wf_world (snd (reset_preparation c w)) = wf_world w"
  by (auto simp: reset_preparation_def wf_world_def comp_def if_distrib [of Cluster_ID] cong: if_cong)

lemma reset_preparation_wf: "reset_preparation c w = (e, w1) \<Longrightarrow> wf_world w1 = wf_world w"
  using reset_preparation_frame(3) [of c w] by simp

lemma PostRegisterDuringPreparing_stores:
  "stores_status srcs HostStatusKnown (PostRegisterDuringPreparingForInstallation th)"
proof -
  have "stored_status sh' = Some HostStatusKnown"
    if wf: "wf_world (ctx_world sh)"
      and run: "PostRegisterDuringPreparingForInstallation th sh args = (None, sh')" for sh args sh'
  proof -
    let ?reset = "\<lambda>d. case Host_ClusterID d of None \<Rightarrow> (None, ctx_world sh)
                       | Some c \<Rightarrow> reset_preparation c (ctx_world sh)"
    let ?extra = "\<lambda>v. filter_extra (resetFields @
        [IName C_discovery_agent_version, IString v, IName C_ntp_sources, IString '''',
         IName C_kind, IKind (Host_Kind (sw_host sh))]) @ resetLogsField"
    from run obtain v where v: "args = TransitionArgsRegisterHost v"
      by (auto simp: PostRegisterDuringPreparingForInstallation_def split: host_args.splits)
    from run v obtain d where d: "GetHostFromDB (ctx_world sh) (Host_InfraEnvID (sw_host sh))
        (Host_ID (sw_host sh)) = Inr d"
      by (auto simp: PostRegisterDuringPreparingForInstallation_def Let_def split: sum.splits)
    obtain e w1 where r: "?reset d = (e, w1)" by force
    from run obtain h w2 where
      u: "UpdateHostStatus (th_unmarshal th) (Host_InfraEnvID (sw_host sh)) (Host_ID (sw_host sh))
        (srcState sh) HostStatusKnown statusInfoKnown (?extra v) w1 = (Inr (Some h), w2)"
      and sh': "sh' = sh\<lparr>ctx_world := w2, sw_host := h\<rparr>"
      by (auto simp: PostRegisterDuringPreparingForInstallation_def v d r Let_def
          split: prod.splits sum.splits option.splits)
    from r wf have "wf_world w1" by (auto dest: reset_preparation_wf split: option.splits)
    moreover have "extra_ok (?extra v)" by (intro extra_ok_intros; simp)
    ultimately have "find_host (sh_key sh) w2 = Some h" "Host_Status h = HostStatusKnown"
      using UpdateHostStatus_stored [OF _ _ u] by (auto simp: sh_key_def host_key_def)
    moreover from this have "host_key h = sh_key sh" using find_host_SomeD by blast
    ultimately show ?thesis by (simp add: sh' stored_status_def stored_row_def sh_key_def)
  qed
  then show ?thesis by (auto simp: stores_status_def)
qed

text \<open>The post transitions that end with \<open>updateTransitionHost\<close>.\<close>

lemma keeps_updateTransitionHost:
  assumes "\<And>sh args sh'. f sh args = (None, sh') \<Longrightarrow>
    \<exists>sh0 info extra. updateTransitionHost th sh0 info extra = (None, sh') \<and>
       sw_host sh0 = sw_host sh \<and> wf_world (ctx_world sh0) = wf_world (ctx_world sh) \<and> extra_ok extra"
  shows "keeps_status d f" and "stores_status srcs d f"
proof -
  show "keeps_status d f"
    unfolding keeps_status_def using assms updateTransitionHost_ok by metis
  show "stores_status srcs d f"
    unfolding stores_status_def using assms updateTransitionHost_stored by metis
qed

lemma simple_posts:
  "keeps_status d (PostRegisterDuringInstallation th)" "stores_status srcs d (PostRegisterDuringInstallation th)"
  "keeps_status d (PostHostInstallationFailed th)" "stores_status srcs d (PostHostInstallationFailed th)"
  "keeps_status d (PostCancelInstallation th)" "stores_status srcs d (PostCancelInstallation th)"
  "keeps_status d (PostInstallHost th)" "stores_status srcs d (PostInstallHost th)"
  "keeps_status d (PostReclaim th)" "stores_status srcs d (PostReclaim th)"
  "keeps_status d (PostResettingPendingUserAction th)" "stores_status srcs d (PostResettingPendingUserAction th)"
  by (rule keeps_updateTransitionHost [of _ th],
      force simp: PostRegisterDuringInstallation_def PostHostInstallationFailed_def
        PostCancelInstallation_def PostInstallHost_def PostReclaim_def
        PostResettingPendingUserAction_def intro: extra_ok_Nil split: host_args.splits)+

lemma unbind_extra_ok: "extra_ok (resetFields @ resetLogsField @ restFieldsOnUnbind)"
  by (intro extra_ok_intros)

lemma bind_extra_ok: "extra_ok (resetFields @ [IName C_cluster_id, IUuid (Some c)])"
  by (intro extra_ok_intros; simp)

lemma prepare_extra_ok: "extra_ok ((if b then [IName C_images_status, IString ''''] else []) @ resetLogsField)"
  by (cases b) (auto intro!: extra_ok_intros)

lemma binding_posts:
  "keeps_status d (PostBindHost th)" "stores_status srcs d (PostBindHost th)"
  "keeps_status d (PostUnbindHost th)" "stores_status srcs d (PostUnbindHost th)"
  "keeps_status d (PostRefreshReclaimTimeout th)" "stores_status srcs d (PostRefreshReclaimTimeout th)"
  "keeps_status d (PostPreparingForInstallationHost th)" "stores_status srcs d (PostPreparingForInstallationHost th)"
  by (rule keeps_updateTransitionHost [of _ th],
      force simp: PostBindHost_def PostUnbindHost_def updateHostForUnbind_def
        PostRefreshReclaimTimeout_def PostPreparingForInstallationHost_def
        intro: bind_extra_ok unbind_extra_ok prepare_extra_ok split: host_args.splits)+

lemma PostHostProgress_keeps:
  "keeps_status d (PostHostProgress th)" "stores_status srcs d (PostHostProgress th)"
  by (rule keeps_updateTransitionHost [of _ th],
      force simp: PostHostProgress_def Let_def intro: extra_ok_Nil
        split: host_args.splits sum.splits)+

lemma PostRegisterDuringReboot_keeps:
  "keeps_status d (PostRegisterDuringReboot th)" "stores_status srcs d (PostRegisterDuringReboot th)"
  by (rule keeps_updateTransitionHost [of _ th],
      force simp: PostRegisterDuringReboot_def Let_def intro: extra_ok_Nil
        split: host_args.splits sum.splits if_splits)+

lemma PostRegisterAfterInstallation_keeps:
  "keeps_status d (PostRegisterAfterInstallation th)" "stores_status srcs d (PostRegisterAfterInstallation th)"
  by (auto simp: keeps_status_def stores_status_def PostRegisterAfterInstallation_def split: host_args.splits)

lemma media_extra_ok: "extra_ok [IName C_media_status, IMedia m]"
  by (intro extra_ok_intros) simp

lemma PostHostMediaDisconnected_keeps: "keeps_status d (PostHostMediaDisconnected th)"
  by (auto simp: keeps_status_def PostHostMediaDisconnected_def Let_def dest!: updateTransitionHost_ok
      split: host_args.splits if_splits)

text \<open>The post transitions of a refresh.\<close>

lemma refresh_update_host: "refresh_update th sh info = (None, sh') \<Longrightarrow> sw_host sh' = sw_host sh"
  by (auto simp: refresh_update_def dest: update_discarding_ok split: if_splits)

lemma refresh_update_stored:
  assumes "refresh_update th sh info = (None, sh')" and "wf_world (ctx_world sh)"
    and "stored_status sh = Some (srcState sh)"
  shows "stored_status sh' = Some (Host_Status (sw_host sh))"
proof (cases "update_discarding th sh info [] = (None, sh')")
  case True
  show ?thesis by (rule update_discarding_stored [OF assms(2) _ True]) simp
next
  case False
  with assms(1,3) show ?thesis by (auto simp: refresh_update_def split: if_splits)
qed

lemma keeps_refresh_update:
  assumes "\<And>sh args sh'. f sh args = (None, sh') \<Longrightarrow> \<exists>info. refresh_update th sh info = (None, sh')"
  shows "keeps_status d f" and "stores_status srcs d f"
proof -
  show "keeps_status d f"
    unfolding keeps_status_def using assms refresh_update_host by metis
  show "stores_status srcs d f"
    unfolding stores_status_def using assms refresh_update_stored by metis
qed

lemma refresh_posts:
  "keeps_status d (PostRefreshHost th reason)" "stores_status srcs d (PostRefreshHost th reason)"
  "keeps_status d (PostHostPreparationTimeout th)" "stores_status srcs d (PostHostPreparationTimeout th)"
  by (rule keeps_refresh_update [of _ th],
      auto simp: PostRefreshHost_def PostHostPreparationTimeout_def Let_def
        split: host_args.splits sum.splits)+

lemma disconnection_extra_ok: "extra_ok [IName C_connection_timed_out, IBool b]"
  by (intro extra_ok_intros) simp

lemma PostRefreshHostDisconnection_keeps:
  "keeps_status d (PostRefreshHostDisconnection th info b)"
  "stores_status [d] d (PostRefreshHostDisconnection th info b)"
  using update_discarding_ok update_discarding_stored [OF _ disconnection_extra_ok]
  by (fastforce simp: keeps_status_def stores_status_def PostRefreshHostDisconnection_def
      split: host_args.splits if_splits)+

lemma status_preserving:
  assumes "\<And>sh args sh'. f sh args = (None, sh') \<Longrightarrow> sw_host sh' = sw_host sh \<and>
    (w_hosts (ctx_world sh') = w_hosts (ctx_world sh) \<or>
     (\<exists>i j s extra. extra_ok extra \<and>
        w_hosts (ctx_world sh') = w_hosts (snd (UpdateHost i j s extra (ctx_world sh)))))"
  shows "keeps_status d f" and "stores_status [d] d f"
proof -
  show "keeps_status d f" unfolding keeps_status_def using assms by metis
  have "stored_status sh' = stored_status sh" if "f sh args = (None, sh')" for sh args sh'
    using assms [OF that] UpdateHost_status find_host_hosts
    unfolding stored_status_def stored_row_def sh_key_def by metis
  then show "stores_status [d] d f" by (auto simp: stores_status_def)
qed

lemma logs_extra_ok:
  "extra_ok [IName C_logs_info, ILogs l]" "extra_ok [IName C_logs_info, ILogs l, IName C_logs_started_at, ITime t]"
  "extra_ok [IName C_progress_stage_updated_at, ITime t]"
  "extra_ok [IName C_status_info, IString s, IName C_progress_stage_timed_out, IBool b]"
  by (intro extra_ok_intros; simp)+

lemma UpdateLogsProgress_hosts:
  "\<exists>extra. extra_ok extra \<and> UpdateLogsProgress i j s l [] w = UpdateHost i j s extra w"
  unfolding UpdateLogsProgress_def
  by (cases "l = LogsStateRequested") (force intro: logs_extra_ok)+

lemma PostRefreshLogsProgress_keeps:
  "keeps_status d (PostRefreshLogsProgress th l)" "stores_status [d] d (PostRefreshLogsProgress th l)"
proof -
  have "sw_host sh' = sw_host sh \<and> (\<exists>i j s extra. extra_ok extra \<and>
      w_hosts (ctx_world sh') = w_hosts (snd (UpdateHost i j s extra (ctx_world sh))))"
    if run: "PostRefreshLogsProgress th l sh args = (None, sh')" for sh args sh'
  proof -
    obtain extra where ex: "extra_ok extra" "UpdateLogsProgress (Host_InfraEnvID (sw_host sh))
      (Host_ID (sw_host sh)) (srcState sh) l [] (ctx_world sh) = UpdateHost (Host_InfraEnvID (sw_host sh))
      (Host_ID (sw_host sh)) (srcState sh) extra (ctx_world sh)" using UpdateLogsProgress_hosts by blast
    with run have "sw_host sh' = sw_host sh \<and> ctx_world sh' = snd (UpdateHost (Host_InfraEnvID (sw_host sh))
      (Host_ID (sw_host sh)) (srcState sh) extra (ctx_world sh))"
      by (auto simp: PostRefreshLogsProgress_def split: host_args.splits prod.splits sum.splits)
    with ex(1) show ?thesis by metis
  qed
  then show "keeps_status d (PostRefreshLogsProgress th l)" "stores_status [d] d (PostRefreshLogsProgress th l)"
    using status_preserving [of "PostRefreshLogsProgress th l"] by blast+
qed

lemma PostRefreshStageUpdateTime_keeps:
  "keeps_status d (PostRefreshHostRefreshStageUpdateTime th)"
  "stores_status [d] d (PostRefreshHostRefreshStageUpdateTime th)"
proof -
  have "sw_host sh' = sw_host sh \<and> (w_hosts (ctx_world sh') = w_hosts (ctx_world sh) \<or>
      (\<exists>i j s extra. extra_ok extra \<and>
      w_hosts (ctx_world sh') = w_hosts (snd (UpdateHost i j s extra (ctx_world sh)))))"
    if run: "PostRefreshHostRefreshStageUpdateTime th sh args = (None, sh')" for sh args sh'
  proof -
    from run have "sh' = sh \<or> sw_host sh' = sw_host sh \<and> ctx_world sh' =
        snd (UpdateHost (Host_InfraEnvID (sw_host sh)) (Host_ID (sw_host sh)) (srcState sh)
          [IName C_progress_stage_updated_at, ITime (w_now (ctx_world sh))] (ctx_world sh))"
      by (auto simp: PostRefreshHostRefreshStageUpdateTime_def refreshHostStageUpdateTime_def
          split: host_args.splits prod.splits sum.splits option.splits if_splits)
    then show ?thesis using logs_extra_ok(3) by metis
  qed
  then show "keeps_status d (PostRefreshHostRefreshStageUpdateTime th)"
    "stores_status [d] d (PostRefreshHostRefreshStageUpdateTime th)"
    using status_preserving [of "PostRefreshHostRefreshStageUpdateTime th"] by blast+
qed

lemma UpdateHostStageTimeout_hosts:
  "w_hosts (snd (UpdateHostStageTimeout J i j s info m [] w)) =
   w_hosts (snd (UpdateHost i j s
     [IName C_status_info, IString info, IName C_progress_stage_timed_out, IBool True] w))"
  by (simp add: UpdateHostStageTimeout_def UpdateHostAndNotify_def split: prod.splits sum.splits option.splits)

lemma PostHostStageTimeout_keeps:
  "keeps_status d (PostHostStageTimeout th reason)" "stores_status [d] d (PostHostStageTimeout th reason)"
proof -
  have "sw_host sh' = sw_host sh \<and> (w_hosts (ctx_world sh') = w_hosts (ctx_world sh) \<or>
      (\<exists>i j s extra. extra_ok extra \<and>
      w_hosts (ctx_world sh') = w_hosts (snd (UpdateHost i j s extra (ctx_world sh)))))"
    if run: "PostHostStageTimeout th reason sh args = (None, sh')" for sh args sh'
  proof -
    from run have "sh' = sh \<or> (\<exists>info m. sw_host sh' = sw_host sh \<and> ctx_world sh' =
        snd (UpdateHostStageTimeout (th_unmarshal th) (Host_InfraEnvID (sw_host sh)) (Host_ID (sw_host sh))
          (srcState sh) info m [] (ctx_world sh)))"
      by (auto simp: PostHostStageTimeout_def
          split: host_args.splits prod.splits sum.splits option.splits if_splits) (metis snd_conv)
    then show ?thesis using logs_extra_ok(4) UpdateHostStageTimeout_hosts by metis
  qed
  then show "keeps_status d (PostHostStageTimeout th reason)"
    "stores_status [d] d (PostHostStageTimeout th reason)"
    using status_preserving [of "PostHostStageTimeout th reason"] by blast+
qed

section \<open>The machine fulfils the contracts of the engine\<close>

definition rule_ok :: "host_rule \<Rightarrow> bool" where
  "rule_ok tr \<longleftrightarrow> Transition tr = None \<and>
     (case PostTransition tr of
        None \<Rightarrow> SourceStates tr = [DestinationState tr]
      | Some f \<Rightarrow> keeps_status (DestinationState tr) f \<and>
          (TransitionType tr \<noteq> TransitionTypeMediaDisconnect \<longrightarrow>
             stores_status (SourceStates tr) (DestinationState tr) f))"

lemmas post_laws =
  PostRegisterHost_keeps PostRegisterHost_stores PostRegisterDuringPreparing_keeps
  PostRegisterDuringPreparing_stores simple_posts binding_posts PostHostProgress_keeps
  PostRegisterDuringReboot_keeps PostRegisterAfterInstallation_keeps
  PostHostMediaDisconnected_keeps refresh_posts PostRefreshHostDisconnection_keeps
  PostRefreshLogsProgress_keeps PostRefreshStageUpdateTime_keeps PostHostStageTimeout_keeps

lemma host_rule_groups_ok:
  "list_all rule_ok (progress_rules th)" "list_all rule_ok (registration_rules th)"
  "list_all rule_ok (installation_control_rules th)" "list_all rule_ok (unbind_rules th)"
  "list_all rule_ok (preparing_rules th)" "list_all rule_ok (preparing_end_rules th)"
  "list_all rule_ok (disconnection_rules th)" "list_all rule_ok (installing_rules th)"
  "list_all rule_ok (stage_timeout_rules th)" "list_all rule_ok (pending_user_action_rules th)"
  "list_all rule_ok (discovery_rules th)" "list_all rule_ok (final_rules th)"
  "list_all rule_ok (pool_rules th)"
  by (simp_all add: rule_defs rule_ok_def post_laws)

lemma all_host_rules_ok: "tr \<in> set (all_host_rules th) \<Longrightarrow> rule_ok tr"
  using host_rule_groups_ok [of th]
  by (auto simp: all_host_rules_def host_rules_def list_all_iff)

lemma host_no_Transition: "tr \<in> set (all_host_rules th) \<Longrightarrow> Transition tr = None"
  using all_host_rules_ok [of tr th] by (simp add: rule_ok_def)

interpretation host_switch: persistent_switch stateHost_State stateHost_SetState
  "all_host_rules th" stored_status srcState "\<lambda>sh. wf_world (ctx_world sh)"
  "{TransitionTypeMediaDisconnect}" for th
proof
  show "\<exists>sw'. stateHost_SetState s sw = (None, sw') \<and> stateHost_State sw' = s" for s sw
    by (simp add: stateHost_SetState_def stateHost_State_def)
next
  fix tr f sw args sw'
  assume tr: "tr \<in> set (all_host_rules th)"
  note ok = all_host_rules_ok [OF tr]
  show "Transition tr = Some f \<Longrightarrow> stored_status sw' = stored_status sw \<and>
      srcState sw' = srcState sw \<and> wf_world (ctx_world sw') = wf_world (ctx_world sw)"
    using ok by (simp add: rule_ok_def)
  show "Transition tr = Some f \<Longrightarrow> stateHost_State sw' = stateHost_State sw \<and>
      ((wf_world (ctx_world sw') \<and> stored_status sw' = Some (srcState sw') \<and> srcState sw' \<in> set (SourceStates tr)) \<longleftrightarrow>
       (wf_world (ctx_world sw) \<and> stored_status sw = Some (srcState sw) \<and> srcState sw \<in> set (SourceStates tr)))"
    using ok by (simp add: rule_ok_def)
  show "PostTransition tr = None \<Longrightarrow> SourceStates tr = [DestinationState tr]"
    using ok by (simp add: rule_ok_def)
  show "PostTransition tr = Some f \<Longrightarrow> f sw args = (None, sw') \<Longrightarrow>
      stateHost_State sw = DestinationState tr \<Longrightarrow> stateHost_State sw' = stateHost_State sw"
    using ok by (simp add: rule_ok_def keeps_status_def stateHost_State_def)
  show "TransitionType tr \<notin> {TransitionTypeMediaDisconnect} \<Longrightarrow> PostTransition tr = Some f \<Longrightarrow>
      wf_world (ctx_world sw) \<Longrightarrow> stored_status sw = Some (srcState sw) \<Longrightarrow>
      srcState sw \<in> set (SourceStates tr) \<Longrightarrow> stateHost_State sw = DestinationState tr \<Longrightarrow>
      f sw args = (None, sw') \<Longrightarrow> stored_status sw' = Some (DestinationState tr)"
    using ok by (simp add: rule_ok_def stores_status_def stateHost_State_def)
next
  fix s sw sw' and tr :: host_rule
  assume set: "stateHost_SetState s sw = (None, sw')"
  then show fr: "stored_status sw' = stored_status sw \<and> srcState sw' = srcState sw \<and>
      wf_world (ctx_world sw') = wf_world (ctx_world sw)"
    by (auto simp: stateHost_SetState_def stored_status_def stored_row_def sh_key_def host_key_def)
  show "(wf_world (ctx_world sw') \<and> stored_status sw' = Some (srcState sw') \<and> srcState sw' \<in> set (SourceStates tr)) \<longleftrightarrow>
       (wf_world (ctx_world sw) \<and> stored_status sw = Some (srcState sw) \<and> srcState sw \<in> set (SourceStates tr))"
    using set by (auto simp: stateHost_SetState_def stored_status_def stored_row_def sh_key_def host_key_def)
qed

section \<open>When a status update succeeds\<close>

lemma assign_all_defined: "assign_all cvs \<noteq> None \<longleftrightarrow> (\<forall>(c, v) \<in> set cvs. assign c v \<noteq> None)"
  by (induction cvs rule: assign_all.induct) (auto split: option.splits)

lemma updates_map_subset: "set (updates_map cvs) \<subseteq> set cvs"
proof
  fix x assume "x \<in> set (updates_map cvs)"
  then have "map_of (updates_map cvs) (fst x) = Some (snd x)"
    by (simp add: updates_map_distinct)
  then have "map_of (rev cvs) (fst x) = Some (snd x)" by (simp add: updates_map_lookup)
  then show "x \<in> set cvs" by (auto dest: map_of_SomeD)
qed

text \<open>Every value of the argument list fits its column.\<close>

definition fits :: "iface list \<Rightarrow> bool" where
  "fits extra \<longleftrightarrow> even (length extra) \<and>
     (case pairs_of extra of Inl _ \<Rightarrow> False | Inr cvs \<Rightarrow> \<forall>(c, v) \<in> set cvs. assign c v \<noteq> None)"

lemma fits_Nil [simp]: "fits []"
  by (simp add: fits_def)

lemma fits_pair: "assign c v \<noteq> None \<Longrightarrow> fits ys \<Longrightarrow> fits (IName c # v # ys)"
  by (auto simp: fits_def split: sum.splits)

lemma fits_append: "fits xs \<Longrightarrow> fits ys \<Longrightarrow> fits (xs @ ys)"
  by (auto simp: fits_def pairs_of_append split: sum.splits)

lemma fits_reset [simp]:
  "fits resetLogsField" "fits resetProgressFields" "fits resetFields" "fits restFieldsOnUnbind"
  unfolding resetLogsField_def restFieldsOnUnbind_def resetFields_def resetProgressFields_def
  by (intro fits_append fits_pair fits_Nil; simp add: varchar_max_def)+

lemma assignment_fits:
  assumes "fits extra"
  shows "assignment extra \<noteq> None"
proof -
  from assms obtain cvs where cvs: "pairs_of extra = Inr cvs" "even (length extra)"
    "\<forall>(c, v) \<in> set cvs. assign c v \<noteq> None" by (auto simp: fits_def split: sum.splits)
  then have "assign_all (updates_map cvs) \<noteq> None"
    using updates_map_subset [of cvs] by (auto simp: assign_all_defined simp del: not_None_eq)
  with cvs show ?thesis by (auto simp: assignment_def)
qed

definition healthy :: "world \<Rightarrow> bool" where
  "healthy w \<longleftrightarrow> wf_world w \<and> \<not> w_dbfault w UpdateHosts \<and> \<not> w_dbfault w SelectHosts"

lemma UpdateHost_succeeds:
  assumes "healthy w" and "find_host (i, j) w = Some r" and "Host_Status r = s" and "fits extra"
  shows "\<exists>h w'. UpdateHost i j s extra w = (Inr h, w')"
proof -
  from assignment_fits [OF assms(4)] obtain f where f: "assignment extra = Some f" by blast
  let ?w = "update_rows (guard_row (i, j) s) f w"
  have "find_host (i, j) ?w = Some (f r)"
    using assms(2,3) by (simp add: find_guarded [OF assignment_key [OF f]])
  moreover have "w_dbfault ?w = w_dbfault w" by (simp add: update_rows_def)
  moreover have "length (filter (guard_row (i, j) s) (w_hosts w)) \<noteq> 0"
    using guarded_rows_None [of w "(i, j)" s] assms(1-3) by (auto simp: healthy_def)
  ultimately show ?thesis
    using f assms(1)
    by (auto simp: UpdateHost_def assignment_def healthy_def GetHostFromDB_def Let_def
        split: if_splits sum.splits)
qed

lemma fits_status_extra:
  "fits extra \<Longrightarrow> length info \<le> varchar_max \<Longrightarrow> fits (status_extra now s t info extra)"
  unfolding status_extra_def by (auto intro!: fits_append fits_pair fits_Nil)

lemma UpdateHostStatus_succeeds:
  assumes "healthy w" and "find_host (i, j) w = Some r" and "Host_Status r = s" and "fits extra"
    and "extra_ok extra" and "length info \<le> varchar_max"
  shows "\<exists>h w'. UpdateHostStatus J i j s t info extra w = (Inr (Some h), w')"
proof -
  obtain h w1 where u: "UpdateHost i j s (status_extra (w_now w) s t info extra) w = (Inr h, w1)"
    using UpdateHost_succeeds [OF assms(1-3) fits_status_extra [OF assms(4,6)]] by blast
  then have "\<exists>res w'. UpdateHostStatus J i j s t info extra w = (Inr res, w')"
    by (cases "Host_Status h = t"; cases "t = s"; simp add: UpdateHostStatus_def UpdateHostAndNotify_def)
  then obtain res w' where "UpdateHostStatus J i j s t info extra w = (Inr res, w')" by blast
  with UpdateHostStatus_stored [OF _ assms(5) this] assms(1) show ?thesis
    by (auto simp: healthy_def)
qed

text \<open>Whether a post transition of a refresh succeeds on a stored host in a healthy world.\<close>

definition refresh_succeeds :: "host_action \<Rightarrow> bool" where
  "refresh_succeeds f \<longleftrightarrow>
     (\<forall>sh c r. healthy (ctx_world sh) \<longrightarrow> stored_status sh = Some (srcState sh) \<longrightarrow>
        Host_Progress (sw_host sh) \<noteq> None \<longrightarrow> fst (f sh (TransitionArgsRefreshHost c r)) = None)"

lemma refresh_update_succeeds:
  assumes "healthy (ctx_world sh)" and "stored_status sh = Some (srcState sh)"
    and "length info \<le> varchar_max"
  shows "fst (refresh_update th sh info) = None"
proof -
  from stored_status_Some [OF assms(2)] obtain row where
    "find_host (Host_InfraEnvID (sw_host sh), Host_ID (sw_host sh)) (ctx_world sh) = Some row"
    "Host_Status row = srcState sh" by blast
  from UpdateHostStatus_succeeds [OF assms(1) this fits_Nil extra_ok_Nil assms(3)]
  obtain h w' where "UpdateHostStatus (th_unmarshal th) (Host_InfraEnvID (sw_host sh))
      (Host_ID (sw_host sh)) (srcState sh) (Host_Status (sw_host sh)) info []
      (ctx_world sh) = (Inr (Some h), w')" by blast
  then show ?thesis by (simp add: refresh_update_def update_discarding_def)
qed

lemma Truncate_varchar: "length (TruncateStatusInfo info) \<le> varchar_max"
  using TruncateStatusInfo_length [of info] by (simp add: StatusInfoMaxLength_def varchar_max_def)

lemma updateTransitionHost_succeeds:
  assumes "healthy (ctx_world sh)" and "stored_status sh = Some (srcState sh)"
    and "fits extra" and "extra_ok extra" and "length info \<le> varchar_max"
  shows "fst (updateTransitionHost th sh info extra) = None"
proof -
  from stored_status_Some [OF assms(2)] obtain row where
    "find_host (Host_InfraEnvID (sw_host sh), Host_ID (sw_host sh)) (ctx_world sh) = Some row"
    "Host_Status row = srcState sh" by blast
  from UpdateHostStatus_succeeds [OF assms(1) this assms(3-5)]
  obtain h w' where "UpdateHostStatus (th_unmarshal th) (Host_InfraEnvID (sw_host sh))
      (Host_ID (sw_host sh)) (srcState sh) (Host_Status (sw_host sh)) info extra
      (ctx_world sh) = (Inr (Some h), w')" by blast
  then show ?thesis by (simp add: updateTransitionHost_def)
qed

lemma refresh_succeeds_posts:
  "refresh_succeeds (PostRefreshHost th reason)"
  "refresh_succeeds (PostHostPreparationTimeout th)"
  "refresh_succeeds (PostPreparingForInstallationHost th)"
  "refresh_succeeds (PostRefreshReclaimTimeout th)"
  unfolding refresh_succeeds_def
proof -
  have "fst (PostRefreshHost th reason sh (TransitionArgsRefreshHost c r)) = None"
    if "healthy (ctx_world sh)" "stored_status sh = Some (srcState sh)" "Host_Progress (sw_host sh) \<noteq> None"
    for sh c r
  proof -
    from that(3) obtain info where "replaceMacros th reason sh r = Inr info"
      by (auto simp: replaceMacros_def current_stage_def Let_def)
    with refresh_update_succeeds [OF that(1,2) Truncate_varchar] show ?thesis
      by (simp add: PostRefreshHost_def)
  qed
  then show "\<forall>sh c r. healthy (ctx_world sh) \<longrightarrow> stored_status sh = Some (srcState sh) \<longrightarrow>
      Host_Progress (sw_host sh) \<noteq> None \<longrightarrow>
      fst (PostRefreshHost th reason sh (TransitionArgsRefreshHost c r)) = None" by blast
next
  show "\<forall>sh c r. healthy (ctx_world sh) \<longrightarrow> stored_status sh = Some (srcState sh) \<longrightarrow>
      Host_Progress (sw_host sh) \<noteq> None \<longrightarrow>
      fst (PostHostPreparationTimeout th sh (TransitionArgsRefreshHost c r)) = None"
    using refresh_update_succeeds [OF _ _ Truncate_varchar]
    by (auto simp: PostHostPreparationTimeout_def Let_def)
next
  have "fits ((if b then [IName C_images_status, IString ''''] else []) @ resetLogsField)" for b
    by (auto intro!: fits_append fits_pair)
  then show "\<forall>sh c r. healthy (ctx_world sh) \<longrightarrow> stored_status sh = Some (srcState sh) \<longrightarrow>
      Host_Progress (sw_host sh) \<noteq> None \<longrightarrow>
      fst (PostPreparingForInstallationHost th sh (TransitionArgsRefreshHost c r)) = None"
    using updateTransitionHost_succeeds [OF _ _ _ prepare_extra_ok]
    by (auto simp: PostPreparingForInstallationHost_def statusInfoHostPreparationSuccessful_def varchar_max_def)
next
  have "fits (resetFields @ resetLogsField @ restFieldsOnUnbind)"
    by (intro fits_append fits_reset)
  then show "\<forall>sh c r. healthy (ctx_world sh) \<longrightarrow> stored_status sh = Some (srcState sh) \<longrightarrow>
      Host_Progress (sw_host sh) \<noteq> None \<longrightarrow>
      fst (PostRefreshReclaimTimeout th sh (TransitionArgsRefreshHost c r)) = None"
    using updateTransitionHost_succeeds [OF _ _ _ unbind_extra_ok]
    by (auto simp: PostRefreshReclaimTimeout_def updateHostForUnbind_def statusInfoUnbinding_def varchar_max_def)
qed

end
