(* ===== verification/Host_Preprocess.thy ===== *)
theory Host_Preprocess
  imports Host_Transition
begin

text \<open>
  The preprocessor of a refresh, \<open>internal/host/refresh_status_preprocessor.go\<close> with the conditions of
  \<open>internal/host/conditions.go\<close> and the rules for ignoring validations of \<open>internal/common/validations.go\<close>:
  it evaluates the validations and conditions of a host into the map that the rules of the machine read
  and into the results that are shown to the user. The validation functions themselves, the operators
  and JSON decoding are parameters.
\<close>

section \<open>Context and parameters\<close>

text \<open>
  \<open>validationContext\<close>: \<open>vc_infraEnv\<close> says whether the pointer is set, \<open>vc_ctx_err\<close> whether the context
  is found expired when the loop reaches a validation.
\<close>

record validation_ctx =
  vc_host :: host
  vc_cluster :: "cluster option"
  vc_infraEnv :: bool
  vc_inventory :: "inventory option"
  vc_softTimeoutsEnabled :: bool
  vc_ctx_err :: "validationID \<Rightarrow> bool"

text \<open>\<open>api.ValidationResult\<close> of an operator.\<close>

record operator_result =
  OR_ValidationId :: validationID
  OR_Status :: validation_status
  OR_Reasons :: "string list"

text \<open>
  \<open>v_condition\<close> are the functions of \<open>validator.go\<close>; \<open>v_DisksInfo\<close> and \<open>v_ImageStatuses\<close> decode the
  JSON columns, \<open>v_StringList\<close> a JSON list.
\<close>

record validator =
  v_condition :: "validationID \<Rightarrow> validation_ctx \<Rightarrow> validation_status \<times> string"
  v_DisksInfo :: "string \<Rightarrow> go_error + (string \<rightharpoonup> disk_info)"
  v_ImageStatuses :: "string \<Rightarrow> go_error + (string \<times> image_status) list"
  v_StringList :: "string \<Rightarrow> go_error + string list"
  v_ValidateHost :: "cluster option \<Rightarrow> host \<Rightarrow> go_error + operator_result list"
  v_disabled :: "validationID list"

section \<open>Disk information\<close>

definition UnMarshalDisks :: "validator \<Rightarrow> string \<Rightarrow> go_error + (string \<rightharpoonup> disk_info)" where
  "UnMarshalDisks v diskInfoStr = (if diskInfoStr = '''' then Inr Map.empty else v_DisksInfo v diskInfoStr)"

definition GetDiskInfo :: "validator \<Rightarrow> string \<Rightarrow> string \<Rightarrow> go_error + disk_info option" where
  "GetDiskInfo v disksInfoStr path =
     (case UnMarshalDisks v disksInfoStr of Inl err \<Rightarrow> Inl err | Inr disksInfo \<Rightarrow> Inr (disksInfo path))"

definition GetBootDevice :: "host \<Rightarrow> go_error + string" where
  "GetBootDevice h =
     (let path = GetHostInstallationPath h
      in if path \<noteq> '''' then Inr path else Inl (ErrNew ''host has no installation path''))"

definition getBootDeviceInfo :: "validator \<Rightarrow> host \<Rightarrow> go_error + disk_info option" where
  "getBootDeviceInfo v h =
     (case GetBootDevice h of
        Inl err \<Rightarrow> Inl err
      | Inr bootDevice \<Rightarrow> GetDiskInfo v (Host_DisksInfo h) bootDevice)"

section \<open>Conditions\<close>

definition BootDeviceTypePersistent :: string where
  "BootDeviceTypePersistent = ''persistent''"

definition isInstallationDiskSpeedCheckSuccessful :: "validator \<Rightarrow> validation_ctx \<Rightarrow> bool" where
  "isInstallationDiskSpeedCheckSuccessful v c =
     (if vc_infraEnv c then False
      else if SaveDiskPartitionsIsSet (Host_InstallerArgs (vc_host c)) then True
      else if (case vc_inventory c of None \<Rightarrow> False
               | Some i \<Rightarrow> Inv_BootDeviceType i = Some BootDeviceTypePersistent) then True
      else (case getBootDeviceInfo v (vc_host c) of
              Inl _ \<Rightarrow> False
            | Inr None \<Rightarrow> False
            | Inr (Some info) \<Rightarrow>
                (case DI_DiskSpeed info of None \<Rightarrow> False | Some s \<Rightarrow> DS_Tested s \<and> DS_ExitCode s = 0)))"

text \<open>The status of the cluster; a nil cluster would be dereferenced.\<close>

definition cluster_in_status :: "cluster_status \<Rightarrow> validation_ctx \<Rightarrow> go_error + bool" where
  "cluster_in_status s c =
     (if vc_infraEnv c then Inr False
      else (case vc_cluster c of None \<Rightarrow> Inl nil_deref | Some cl \<Rightarrow> Inr (Cluster_Status cl = s)))"

definition isClusterPreparingForInstallation :: "validation_ctx \<Rightarrow> go_error + bool" where
  "isClusterPreparingForInstallation = cluster_in_status ClusterStatusPreparingForInstallation"

definition isClusterInstalling :: "validation_ctx \<Rightarrow> go_error + bool" where
  "isClusterInstalling = cluster_in_status ClusterStatusInstalling"

definition isClusterInError :: "validation_ctx \<Rightarrow> go_error + bool" where
  "isClusterInError = cluster_in_status ClusterStatusError"

definition isClusterPendingUserAction :: "validation_ctx \<Rightarrow> go_error + bool" where
  "isClusterPendingUserAction = cluster_in_status ClusterStatusInstallingPendingUserAction"

definition isValidRoleForInstallation :: "validation_ctx \<Rightarrow> bool" where
  "isValidRoleForInstallation c =
     (if vc_infraEnv c then False
      else List.member [HostRoleMaster, HostRoleArbiter, HostRoleWorker] (Host_Role (vc_host c)))"

definition WrongBootOrderIgnoreTimeoutStages :: "host_stage list" where
  "WrongBootOrderIgnoreTimeoutStages =
     [HostStageWaitingForControlPlane, HostStageWaitingForController, HostStageWaitingForBootkube,
      HostStageRebooting]"

definition isStageInWrongBootStages :: "validation_ctx \<Rightarrow> go_error + bool" where
  "isStageInWrongBootStages c =
     (if vc_infraEnv c then Inr False
      else (case Host_Progress (vc_host c) of
              None \<Rightarrow> Inl nil_deref
            | Some p \<Rightarrow> Inr (List.member WrongBootOrderIgnoreTimeoutStages (CurrentStage p))))"

definition ImageStatusDownloadRateThreshold :: rat where
  "ImageStatusDownloadRateThreshold = 1 / 1000"

definition isInvalidImageStatus :: "image_status \<Rightarrow> bool" where
  "isInvalidImageStatus s \<longleftrightarrow>
     Img_Result s = ContainerImageAvailabilityResultFailure \<or>
     (Img_SizeBytes s > 0 \<and> Img_DownloadRate s < ImageStatusDownloadRateThreshold)"

definition allImagesValid :: "(string \<times> image_status) list \<Rightarrow> bool" where
  "allImagesValid statuses \<longleftrightarrow> \<not> list_ex (\<lambda>(_, s). isInvalidImageStatus s) statuses"

definition UnmarshalImageStatuses :: "validator \<Rightarrow> string \<Rightarrow> go_error + (string \<times> image_status) list" where
  "UnmarshalImageStatuses v s = (if s = '''' then Inr [] else v_ImageStatuses v s)"

definition isSuccessfulContainerImageAvailability :: "validator \<Rightarrow> validation_ctx \<Rightarrow> bool" where
  "isSuccessfulContainerImageAvailability v c =
     (if vc_infraEnv c then False
      else (case UnmarshalImageStatuses v (Host_ImagesStatus (vc_host c)) of
              Inl _ \<Rightarrow> False | Inr statuses \<Rightarrow> statuses \<noteq> [] \<and> allImagesValid statuses))"

definition isHostStageTimedOut :: "validation_ctx \<Rightarrow> bool" where
  "isHostStageTimedOut c =
     (case Host_Progress (vc_host c) of None \<Rightarrow> False | Some p \<Rightarrow> StageTimedOut p)"

definition softTimeoutsEnabled :: "validation_ctx \<Rightarrow> bool" where
  "softTimeoutsEnabled c \<longleftrightarrow> vc_softTimeoutsEnabled c \<and>
     (case vc_cluster c of None \<Rightarrow> False | Some cl \<Rightarrow> Cluster_OrgSoftTimeoutsEnabled cl)"

definition connectionTimedOut :: "validation_ctx \<Rightarrow> bool" where
  "connectionTimedOut c = Host_ConnectionTimedOut (vc_host c)"

definition newConditions :: "validator \<Rightarrow> (conditionId \<times> (validation_ctx \<Rightarrow> go_error + bool)) list" where
  "newConditions v =
     [(InstallationDiskSpeedCheckSuccessful, \<lambda>c. Inr (isInstallationDiskSpeedCheckSuccessful v c)),
      (ClusterPreparingForInstallation, isClusterPreparingForInstallation),
      (ClusterInstalling, isClusterInstalling),
      (ValidRoleForInstallation, \<lambda>c. Inr (isValidRoleForInstallation c)),
      (StageInWrongBootStages, isStageInWrongBootStages),
      (ClusterPendingUserAction, isClusterPendingUserAction),
      (ClusterInError, isClusterInError),
      (SuccessfulContainerImageAvailability, \<lambda>c. Inr (isSuccessfulContainerImageAvailability v c)),
      (HostStageTimedOut, \<lambda>c. Inr (isHostStageTimedOut c)),
      (SoftTimeoutsEnabled, \<lambda>c. Inr (softTimeoutsEnabled c)),
      (ConnectionTimedOut, \<lambda>c. Inr (connectionTimedOut c))]"

section \<open>Ignoring validations\<close>

definition NonIgnorableHostValidations :: "validationID list" where
  "NonIgnorableHostValidations =
     [IsConnected, HasInventory, InventoryNotFullyTruncated, IsMachineCidrDefined, IsHostnameUnique,
      IsHostnameValid]"

definition MayIgnoreValidation :: "string \<Rightarrow> string list \<Rightarrow> bool" where
  "MayIgnoreValidation validationID nonIgnorables =
     (if validationID = ''all'' then True else \<not> List.member nonIgnorables validationID)"

definition ShouldIgnoreValidation :: "string list \<Rightarrow> string \<Rightarrow> string list \<Rightarrow> bool" where
  "ShouldIgnoreValidation ignoredValidations validationId nonIgnorables =
     (if \<not> MayIgnoreValidation validationId nonIgnorables then False
      else if List.member ignoredValidations ''all'' then True
      else List.member ignoredValidations validationId)"

fun MayIgnoreValidations :: "string list \<Rightarrow> string list \<Rightarrow> bool \<times> string list" where
  "MayIgnoreValidations [] nonIgnorables = (True, [])"
| "MayIgnoreValidations (validation # rest) nonIgnorables =
     (if List.member (validation # rest) ''all'' then (True, [])
      else (case MayIgnoreValidations rest nonIgnorables of
              (result, cantBeIgnored) \<Rightarrow>
                if \<not> MayIgnoreValidation validation nonIgnorables
                then (False, validation # cantBeIgnored) else (result, cantBeIgnored)))"

definition DeserializeJSONList :: "validator \<Rightarrow> string \<Rightarrow> go_error + string list" where
  "DeserializeJSONList v jsonString = (if jsonString = '''' then Inr [] else v_StringList v jsonString)"

section \<open>Preprocessing\<close>

text \<open>The validations in the order of the code, with the stages in which their results are not shown.\<close>

definition newValidations :: "(validationID \<times> host_stage list) list" where
  "newValidations =
     [(IsConnected, manualRebootStages), (IsMediaConnected, manualRebootStages),
      (HasInventory, []), (InventoryNotPartiallyTruncated, []), (InventoryNotFullyTruncated, []),
      (HasMinCPUCores, []), (HasMinMemory, []), (HasMinValidDisks, []),
      (IsMachineCidrDefined, []), (HasCPUCoresForRole, []), (HasMemoryForRole, []),
      (IsHostnameUnique, []), (BelongsToMachineCidr, []), (IsHostnameValid, []),
      (IsIgnitionDownloadable, []), (BelongsToMajorityGroup, []), (IsMtuValid, []),
      (IsPlatformNetworkSettingsValid, []), (IsNTPSynced, manualRebootStages),
      (IsTimeSyncedBetweenHostAndService, manualRebootStages),
      (SucessfullOrUnknownContainerImagesAvailability, []),
      (SufficientOrUnknownInstallationDiskSpeed, []),
      (HasSufficientNetworkLatencyRequirementForRole, []),
      (HasSufficientPacketLossRequirementForRole, []), (HasDefaultRoute, []),
      (IsAPIDomainNameResolvedCorrectly, []), (IsAPIInternalDomainNameResolvedCorrectly, []),
      (IsAppsDomainNameResolvedCorrectly, []), (CompatibleWithClusterPlatform, []),
      (IsDNSWildcardNotConfigured, []), (DiskEncryptionRequirementsSatisfied, []),
      (NonOverlappingSubnets, []), (VSphereHostUUIDEnabled, []), (CompatibleAgent, allStages),
      (NoSkipInstallationDisk, []), (NoSkipMissingDisk, []), (NoIPCollisionsInNetwork, []),
      (NoIscsiNicBelongsToMachineCidr, [])]"

definition validationDisabledByConfiguration :: string where
  "validationDisabledByConfiguration = ''Validation disabled by configuration''"

text \<open>\<open>validationsOutput[category] = append(validationsOutput[category], result)\<close>.\<close>

definition append_result :: "category \<Rightarrow> validation_result \<Rightarrow> validations_status \<Rightarrow> validations_status" where
  "append_result cat r out =
     AList.update cat ((case map_of out cat of None \<Rightarrow> [] | Some rs \<Rightarrow> rs) @ [r]) out"

text \<open>The body of the loop over the validations.\<close>

definition eval_validation ::
  "validator \<Rightarrow> bool \<Rightarrow> validation_ctx \<Rightarrow> validationID \<times> host_stage list \<Rightarrow>
   conditions \<times> validations_status \<Rightarrow> go_error + conditions \<times> validations_status" where
  "eval_validation v hasPerClusterOverride c vs st =
     (case (vs, st) of ((i, skippedStates), (conds, out)) \<Rightarrow>
        (case validation_category i of
           Inl err \<Rightarrow> Inl err
         | Inr cat \<Rightarrow>
             if vc_ctx_err c i then Inl (ErrWrapf ''context error'' ErrCtx)
             else
               (let disabled = \<not> hasPerClusterOverride \<and> List.member (v_disabled v) i;
                    res = (if disabled then (ValidationDisabled, validationDisabledByConfiguration)
                           else v_condition v i c);
                    conds1 = conds(VKey i \<mapsto> disabled \<or>
                               List.member [ValidationSuccess, ValidationSuccessSuppressOutput] (fst res))
                in if \<not> disabled \<and> fst res = ValidationSuccessSuppressOutput then Inr (conds1, out)
                   else (case Host_Progress (vc_host c) of
                           None \<Rightarrow> Inl nil_deref
                         | Some p \<Rightarrow>
                             if List.member skippedStates (CurrentStage p) then Inr (conds1, out)
                             else Inr (conds1, append_result cat
                                    \<lparr>VR_ID = i, VR_Status = fst res, VR_Message = snd res\<rparr> out)))))"

fun eval_validations ::
  "validator \<Rightarrow> bool \<Rightarrow> validation_ctx \<Rightarrow> (validationID \<times> host_stage list) list \<Rightarrow>
   conditions \<times> validations_status \<Rightarrow> go_error + conditions \<times> validations_status" where
  "eval_validations v ovr c [] st = Inr st"
| "eval_validations v ovr c (x # xs) st =
     (case eval_validation v ovr c x st of Inl err \<Rightarrow> Inl err | Inr st1 \<Rightarrow> eval_validations v ovr c xs st1)"

fun eval_conditions ::
  "(conditionId \<times> (validation_ctx \<Rightarrow> go_error + bool)) list \<Rightarrow> validation_ctx \<Rightarrow> conditions \<Rightarrow>
   go_error + conditions" where
  "eval_conditions [] c conds = Inr conds"
| "eval_conditions ((i, fn) # rest) c conds =
     (case fn c of Inl err \<Rightarrow> Inl err | Inr b \<Rightarrow> eval_conditions rest c (conds(CKey i \<mapsto> b)))"

definition sortByValidationResultID :: "validation_result list \<Rightarrow> validation_result list" where
  "sortByValidationResultID rs = sort_key (\<lambda>r. validationID_String (VR_ID r)) rs"

text \<open>The results of the operators: the condition is set before the category is looked up.\<close>

fun eval_operators ::
  "operator_result list \<Rightarrow> conditions \<times> validations_status \<Rightarrow> go_error + conditions \<times> validations_status" where
  "eval_operators [] st = Inr st"
| "eval_operators (r # rs) (conds, out) =
     (let i = OR_ValidationId r; conds1 = conds(VKey i \<mapsto> OR_Status r = ValidationSuccess) in
      case validation_category i of
        Inl err \<Rightarrow> Inl err
      | Inr cat \<Rightarrow>
          let out1 = append_result cat
                \<lparr>VR_ID = i, VR_Status = OR_Status r, VR_Message = Join (OR_Reasons r) [CHR 10]\<rparr> out
          in eval_operators rs
               (conds1, AList.update cat
                  (sortByValidationResultID (case map_of out1 cat of None \<Rightarrow> [] | Some x \<Rightarrow> x)) out1))"

text \<open>Ignored validations are forced to pass.\<close>

definition force_ignored :: "string list \<Rightarrow> validations_status \<Rightarrow> conditions \<Rightarrow> conditions" where
  "force_ignored ignored out conds =
     fold (\<lambda>r conds. if ShouldIgnoreValidation ignored (validationID_String (VR_ID r))
                          (map validationID_String NonIgnorableHostValidations)
                     then conds(VKey (VR_ID r) \<mapsto> True) else conds)
       (concat (map snd out)) conds"

definition preprocess :: "validator \<Rightarrow> validation_ctx \<Rightarrow> go_error + conditions \<times> validations_status" where
  "preprocess v c =
     (case (case vc_cluster c of
              None \<Rightarrow> Inr ([], False)
            | Some cl \<Rightarrow>
                (case DeserializeJSONList v (Cluster_IgnoredHostValidations cl) of
                   Inl err \<Rightarrow> Inl (ErrWrapf ''Unable to deserialize ignored host validations'' err)
                 | Inr ignored \<Rightarrow> Inr (ignored, Cluster_IgnoredHostValidations cl \<noteq> ''''))) of
        Inl err \<Rightarrow> Inl err
      | Inr (ignoredValidations, hasPerClusterOverride) \<Rightarrow>
          (case eval_validations v hasPerClusterOverride c newValidations (Map.empty, []) of
             Inl err \<Rightarrow> Inl err
           | Inr (conds1, out1) \<Rightarrow>
               (case eval_conditions (newConditions v) c conds1 of
                  Inl err \<Rightarrow> Inl err
                | Inr conds2 \<Rightarrow>
                    (case (if vc_infraEnv c then Inr (conds2, out1)
                           else (case v_ValidateHost v (vc_cluster c) (vc_host c) of
                                   Inl err \<Rightarrow> Inl err
                                 | Inr results \<Rightarrow> eval_operators results (conds2, out1))) of
                       Inl err \<Rightarrow> Inl err
                     | Inr (conds3, out2) \<Rightarrow>
                         Inr (force_ignored ignoredValidations out2 conds3, out2)))))"

section \<open>The keys that are evaluated\<close>

definition conditionIds :: "conditionId list" where
  "conditionIds =
     [InstallationDiskSpeedCheckSuccessful, ClusterPreparingForInstallation, ClusterInstalling,
      ValidRoleForInstallation, StageInWrongBootStages, ClusterPendingUserAction, ClusterInError,
      SuccessfulContainerImageAvailability, HostStageTimedOut, SoftTimeoutsEnabled, ConnectionTimedOut]"

definition base_keys :: "cond_key list" where
  "base_keys = map (VKey \<circ> fst) newValidations @ map CKey conditionIds"

lemma base_validations [simp]:
  "VKey IsConnected \<in> set base_keys" "VKey IsMediaConnected \<in> set base_keys"
  "VKey HasInventory \<in> set base_keys"
  "VKey InventoryNotPartiallyTruncated \<in> set base_keys"
  "VKey InventoryNotFullyTruncated \<in> set base_keys" "VKey HasMinCPUCores \<in> set base_keys"
  "VKey HasMinMemory \<in> set base_keys" "VKey HasMinValidDisks \<in> set base_keys"
  "VKey IsMachineCidrDefined \<in> set base_keys" "VKey HasCPUCoresForRole \<in> set base_keys"
  "VKey HasMemoryForRole \<in> set base_keys" "VKey IsHostnameUnique \<in> set base_keys"
  "VKey BelongsToMachineCidr \<in> set base_keys" "VKey IsHostnameValid \<in> set base_keys"
  "VKey IsIgnitionDownloadable \<in> set base_keys"
  "VKey BelongsToMajorityGroup \<in> set base_keys" "VKey IsMtuValid \<in> set base_keys"
  "VKey IsPlatformNetworkSettingsValid \<in> set base_keys" "VKey IsNTPSynced \<in> set base_keys"
  "VKey IsTimeSyncedBetweenHostAndService \<in> set base_keys"
  "VKey SucessfullOrUnknownContainerImagesAvailability \<in> set base_keys"
  "VKey SufficientOrUnknownInstallationDiskSpeed \<in> set base_keys"
  "VKey HasSufficientNetworkLatencyRequirementForRole \<in> set base_keys"
  "VKey HasSufficientPacketLossRequirementForRole \<in> set base_keys"
  "VKey HasDefaultRoute \<in> set base_keys"
  "VKey IsAPIDomainNameResolvedCorrectly \<in> set base_keys"
  "VKey IsAPIInternalDomainNameResolvedCorrectly \<in> set base_keys"
  "VKey IsAppsDomainNameResolvedCorrectly \<in> set base_keys"
  "VKey CompatibleWithClusterPlatform \<in> set base_keys"
  "VKey IsDNSWildcardNotConfigured \<in> set base_keys"
  "VKey DiskEncryptionRequirementsSatisfied \<in> set base_keys"
  "VKey NonOverlappingSubnets \<in> set base_keys"
  "VKey VSphereHostUUIDEnabled \<in> set base_keys" "VKey CompatibleAgent \<in> set base_keys"
  "VKey NoSkipInstallationDisk \<in> set base_keys" "VKey NoSkipMissingDisk \<in> set base_keys"
  "VKey NoIPCollisionsInNetwork \<in> set base_keys"
  "VKey NoIscsiNicBelongsToMachineCidr \<in> set base_keys"
  by (simp_all add: base_keys_def newValidations_def)

lemma base_conditionIds [simp]: "CKey i \<in> set base_keys"
  by (cases i) (simp_all add: base_keys_def conditionIds_def)

text \<open>Every validation and condition of the code has a value.\<close>

definition base_conditions :: "conditions \<Rightarrow> bool" where
  "base_conditions c \<longleftrightarrow> list_all (\<lambda>k. c k \<noteq> None) base_keys"

text \<open>So has, in addition, every validation of an operator.\<close>

definition complete_conditions :: "conditions \<Rightarrow> bool" where
  "complete_conditions c \<longleftrightarrow> base_conditions c \<and> list_all (\<lambda>i. c (VKey i) \<noteq> None) operators_validations"

lemma complete_base: "complete_conditions c \<Longrightarrow> base_conditions c"
  by (simp add: complete_conditions_def)

lemma base_conditionsD: "base_conditions c \<Longrightarrow> k \<in> set base_keys \<Longrightarrow> c k \<noteq> None"
  by (auto simp: base_conditions_def list_all_iff)

section \<open>What preprocessing computes\<close>

definition passes :: "validator \<Rightarrow> bool \<Rightarrow> validation_ctx \<Rightarrow> validationID \<Rightarrow> bool" where
  "passes v ovr c i \<longleftrightarrow> (\<not> ovr \<and> i \<in> set (v_disabled v)) \<or>
     fst (v_condition v i c) \<in> {ValidationSuccess, ValidationSuccessSuppressOutput}"

lemma eval_validation_conds:
  "eval_validation v ovr c x (m, out) = Inr (m', out') \<Longrightarrow> m' = m(VKey (fst x) \<mapsto> passes v ovr c (fst x))"
  by (auto simp: eval_validation_def passes_def Let_def split: prod.splits sum.splits option.splits if_splits)

lemma eval_validations_conds:
  assumes "eval_validations v ovr c xs (m, out) = Inr (m', out')"
  shows "m' k = (case k of VKey i \<Rightarrow> if i \<in> fst ` set xs then Some (passes v ovr c i) else m k | CKey _ \<Rightarrow> m k)"
  using assms
proof (induction xs arbitrary: m out)
  case (Cons x xs)
  then obtain m1 out1 where step: "eval_validation v ovr c x (m, out) = Inr (m1, out1)"
    "eval_validations v ovr c xs (m1, out1) = Inr (m', out')"
    by (auto split: sum.splits)
  from Cons.IH [OF step(2)] eval_validation_conds [OF step(1)] show ?case
    by (auto split: cond_key.splits)
qed (auto split: cond_key.splits)

lemma eval_conditions_other:
  "eval_conditions fs c m = Inr m' \<Longrightarrow> k \<notin> CKey ` fst ` set fs \<Longrightarrow> m' k = m k"
  by (induction fs c m rule: eval_conditions.induct) (auto split: sum.splits)

lemma eval_conditions_mono: "eval_conditions fs c m = Inr m' \<Longrightarrow> m k \<noteq> None \<Longrightarrow> m' k \<noteq> None"
  by (induction fs c m rule: eval_conditions.induct) (auto split: sum.splits)

lemma eval_conditions_defined:
  assumes "eval_conditions fs c m = Inr m'" and "i \<in> fst ` set fs"
  shows "m' (CKey i) \<noteq> None"
  using assms
proof (induction fs arbitrary: m)
  case (Cons f fs)
  obtain j fn where f: "f = (j, fn)" by (cases f)
  from Cons.prems(1) obtain b where e: "eval_conditions fs c (m(CKey j \<mapsto> b)) = Inr m'"
    by (auto simp: f split: sum.splits)
  show ?case
  proof (cases "i = j")
    case True
    then show ?thesis using eval_conditions_mono [OF e, of "CKey i"] by simp
  qed (use Cons.IH [OF e] Cons.prems(2) f in auto)
qed simp

lemma eval_operators_other:
  "eval_operators rs st = Inr (m', out') \<Longrightarrow> k \<notin> VKey ` OR_ValidationId ` set rs \<Longrightarrow> m' k = fst st k"
  by (induction rs st rule: eval_operators.induct) (auto simp: Let_def split: sum.splits)

lemma eval_operators_mono:
  "eval_operators rs st = Inr (m', out') \<Longrightarrow> fst st k \<noteq> None \<Longrightarrow> m' k \<noteq> None"
  by (induction rs st rule: eval_operators.induct) (auto simp: Let_def split: sum.splits)

lemma eval_operators_defined:
  assumes "eval_operators rs st = Inr (m', out')" and "i \<in> OR_ValidationId ` set rs"
  shows "m' (VKey i) \<noteq> None"
  using assms
proof (induction rs arbitrary: st)
  case (Cons r rs)
  obtain m out where st: "st = (m, out)" by (cases st)
  let ?m = "m(VKey (OR_ValidationId r) \<mapsto> OR_Status r = ValidationSuccess)"
  from Cons.prems(1) obtain out1 where e: "eval_operators rs (?m, out1) = Inr (m', out')"
    by (auto simp: st Let_def split: sum.splits)
  show ?case
  proof (cases "i = OR_ValidationId r")
    case True
    then show ?thesis using eval_operators_mono [OF e, of "VKey i"] by simp
  qed (use Cons.IH [OF e] Cons.prems(2) in auto)
qed simp

lemma force_ignored_cases:
  "force_ignored ig out m k = m k \<or>
   (force_ignored ig out m k = Some True \<and>
    (\<exists>i. k = VKey i \<and> ShouldIgnoreValidation ig (validationID_String i)
       (map validationID_String NonIgnorableHostValidations)))"
proof -
  let ?ignored = "\<lambda>i. ShouldIgnoreValidation ig (validationID_String i)
      (map validationID_String NonIgnorableHostValidations)"
  let ?f = "\<lambda>r m. if ?ignored (VR_ID r) then m(VKey (VR_ID r) \<mapsto> True) else m"
  have "fold ?f rs m k = m k \<or> (fold ?f rs m k = Some True \<and> (\<exists>i. k = VKey i \<and> ?ignored i))"
    for rs :: "validation_result list"
  proof (induction rs arbitrary: m)
    case (Cons r rs)
    from Cons.IH [of "?f r m"] show ?case by (auto split: if_splits)
  qed simp
  then show ?thesis unfolding force_ignored_def by blast
qed

definition has_override :: "validation_ctx \<Rightarrow> bool" where
  "has_override c =
     (case vc_cluster c of None \<Rightarrow> False | Some cl \<Rightarrow> Cluster_IgnoredHostValidations cl \<noteq> '''')"

text \<open>The steps of a successful run of the preprocessor.\<close>

lemma preprocess_steps:
  assumes "preprocess v c = Inr (conds, out)"
  obtains ig ovr m1 out1 m2 m3 where
    "eval_validations v ovr c newValidations (Map.empty, []) = Inr (m1, out1)"
    "eval_conditions (newConditions v) c m1 = Inr m2"
    "(if vc_infraEnv c then Inr (m2, out1)
      else case v_ValidateHost v (vc_cluster c) (vc_host c) of Inl err \<Rightarrow> Inl err
           | Inr rs \<Rightarrow> eval_operators rs (m2, out1)) = Inr (m3, out)"
    "conds = force_ignored ig out m3"
    "ovr = has_override c"
  using assms
  by (auto simp: preprocess_def has_override_def split: sum.splits option.splits prod.splits if_splits)

lemma newConditions_ids: "fst ` set (newConditions v) = set conditionIds"
  by (simp add: newConditions_def conditionIds_def)

lemma preprocess_base:
  assumes "preprocess v c = Inr (conds, out)"
  shows "base_conditions conds"
proof -
  from preprocess_steps [OF assms] obtain ig ovr m1 out1 m2 m3 where s:
    "eval_validations v ovr c newValidations (Map.empty, []) = Inr (m1, out1)"
    "eval_conditions (newConditions v) c m1 = Inr m2"
    "(if vc_infraEnv c then Inr (m2, out1)
      else case v_ValidateHost v (vc_cluster c) (vc_host c) of Inl err \<Rightarrow> Inl err
           | Inr rs \<Rightarrow> eval_operators rs (m2, out1)) = Inr (m3, out)"
    "conds = force_ignored ig out m3" by metis
  have "m2 k \<noteq> None" if k: "k \<in> set base_keys" for k
  proof -
    consider i where "k = VKey i" "i \<in> fst ` set newValidations" | i where "k = CKey i" "i \<in> set conditionIds"
      using k by (fastforce simp: base_keys_def)
    then show ?thesis
    proof cases
      case 1
      then show ?thesis
        using eval_validations_conds [OF s(1), of k] eval_conditions_other [OF s(2), of k] by auto
    qed (use eval_conditions_defined [OF s(2)] newConditions_ids in auto)
  qed
  moreover have "m3 k \<noteq> None" if "m2 k \<noteq> None" for k
    using that s(3) eval_operators_mono [of _ "(m2, out1)" m3 out k] by (auto split: if_splits sum.splits)
  ultimately have "m3 k \<noteq> None" if "k \<in> set base_keys" for k using that by blast
  then have "conds k \<noteq> None" if "k \<in> set base_keys" for k
    using force_ignored_cases [of ig out m3 k] s(4) that by auto
  then show ?thesis by (simp add: base_conditions_def list_all_iff)
qed

lemma preprocess_complete:
  assumes "preprocess v c = Inr (conds, out)" and "\<not> vc_infraEnv c"
    and "v_ValidateHost v (vc_cluster c) (vc_host c) = Inr rs"
    and "set operators_validations \<subseteq> OR_ValidationId ` set rs"
  shows "complete_conditions conds"
proof -
  from preprocess_steps [OF assms(1)] obtain ig m2 out1 m3 where s:
    "(if vc_infraEnv c then Inr (m2, out1)
      else case v_ValidateHost v (vc_cluster c) (vc_host c) of Inl err \<Rightarrow> Inl err
           | Inr rs \<Rightarrow> eval_operators rs (m2, out1)) = Inr (m3, out)"
    "conds = force_ignored ig out m3" by metis
  from s(1) assms(2,3) have e: "eval_operators rs (m2, out1) = Inr (m3, out)" by simp
  have "m3 (VKey i) \<noteq> None" if "i \<in> set operators_validations" for i
    by (rule eval_operators_defined [OF e subsetD [OF assms(4) that]])
  then have "conds (VKey i) \<noteq> None" if "i \<in> set operators_validations" for i
    using force_ignored_cases [of ig out m3 "VKey i"] s(2) that by auto
  then show ?thesis
    using preprocess_base [OF assms(1)] by (simp add: complete_conditions_def list_all_iff)
qed

text \<open>A validation that must not be ignored passes only on its merits.\<close>

lemma not_ignored:
  "i \<in> set NonIgnorableHostValidations \<Longrightarrow>
   \<not> ShouldIgnoreValidation ig (validationID_String i) (map validationID_String NonIgnorableHostValidations)"
  by (auto simp: ShouldIgnoreValidation_def MayIgnoreValidation_def NonIgnorableHostValidations_def)

lemma preprocess_merit:
  assumes "preprocess v c = Inr (conds, out)" and "conds (VKey i) = Some True"
    and "i \<in> set NonIgnorableHostValidations"
    and "\<And>rs. v_ValidateHost v (vc_cluster c) (vc_host c) = Inr rs \<Longrightarrow> i \<notin> OR_ValidationId ` set rs"
  shows "passes v (has_override c) c i"
proof -
  from preprocess_steps [OF assms(1)] obtain ig ovr m1 out1 m2 m3 where s:
    "eval_validations v ovr c newValidations (Map.empty, []) = Inr (m1, out1)"
    "eval_conditions (newConditions v) c m1 = Inr m2"
    "(if vc_infraEnv c then Inr (m2, out1)
      else case v_ValidateHost v (vc_cluster c) (vc_host c) of Inl err \<Rightarrow> Inl err
           | Inr rs \<Rightarrow> eval_operators rs (m2, out1)) = Inr (m3, out)"
    "conds = force_ignored ig out m3"
    "ovr = has_override c" .
  have "conds (VKey i) = m3 (VKey i)"
    using force_ignored_cases [of ig out m3 "VKey i"] not_ignored [OF assms(3), of ig] s(4) by auto
  also have "\<dots> = m2 (VKey i)"
    using s(3) assms(4) eval_operators_other [of _ "(m2, out1)" m3 out "VKey i"]
    by (auto split: if_splits sum.splits)
  also have "\<dots> = m1 (VKey i)" using eval_conditions_other [OF s(2), of "VKey i"] by auto
  also have "\<dots> = Some (passes v ovr c i)"
    using eval_validations_conds [OF s(1), of "VKey i"] assms(3)
    by (auto simp: NonIgnorableHostValidations_def newValidations_def)
  finally show ?thesis using assms(2) s(5) by simp
qed

end
