(* ===== verification/Host_Refresh.thy ===== *)
theory Host_Refresh
  imports Host_Contract Host_Preprocess
begin

text \<open>
  What a refresh decides: decision tables for the groups of states, proved equal to the selection
  that the rule list of the machine makes.
\<close>

section \<open>Selection\<close>

definition rules_for :: "transitionHandler \<Rightarrow> host_transition_type \<Rightarrow> host_status \<Rightarrow> host_rule list" where
  "rules_for th t s =
     filter (\<lambda>tr. s \<in> set (SourceStates tr))
       (filter (\<lambda>tr. TransitionType tr = t) (all_host_rules th))"

text \<open>The destination that the machine selects.\<close>

definition destination ::
  "transitionHandler \<Rightarrow> host_transition_type \<Rightarrow> host_ctx \<Rightarrow> host_args \<Rightarrow> go_error + host_status option" where
  "destination th t sh args =
     map_sum id (map_option DestinationState)
       (select_rule stateHost_State (rules_for th t (stateHost_State sh)) sh args)"

lemma sm_Run_eq:
  assumes "\<exists>tr \<in> set (all_host_rules th). TransitionType tr = t"
  shows "sm_Run th t sh args =
    (case select_rule stateHost_State (rules_for th t (stateHost_State sh)) sh args of
       Inl err \<Rightarrow> (Some err, sh)
     | Inr None \<Rightarrow> (Some NoConditionPassedToRunTransaction, sh)
     | Inr (Some tr) \<Rightarrow> fire stateHost_SetState tr sh args)"
  using assms
  by (simp add: sm_Run_def host_sm_def Run_build_machine run_rules_select rules_for_def select_rule_filter
           del: filter_filter)

section \<open>Conditions of a complete map\<close>

lemma If_cond_complete [cond_simps]:
  "base_conditions c \<Longrightarrow> k \<in> set base_keys \<Longrightarrow>
   If_cond k sh (TransitionArgsRefreshHost c r) = Inr (condition_value c k)"
  using base_conditionsD [of c k] by (auto simp: If_cond_def condition_value_def)

lemma If_cond_operator:
  "complete_conditions c \<Longrightarrow> i \<in> set operators_validations \<Longrightarrow>
   If_cond (VKey i) sh (TransitionArgsRefreshHost c r) = Inr (condition_value c (VKey i))"
  by (auto simp: complete_conditions_def list_all_iff If_cond_def condition_value_def)

definition all_pass :: "conditions \<Rightarrow> validationID list \<Rightarrow> bool" where
  "all_pass c ids \<longleftrightarrow> (\<forall>v \<in> set ids. condition_value c (VKey v))"

lemma And_IfV:
  assumes "\<And>v. v \<in> set ids \<Longrightarrow> IfV v sh (TransitionArgsRefreshHost c r) = Inr (condition_value c (VKey v))"
  shows "And (map IfV ids) sh (TransitionArgsRefreshHost c r) = Inr (all_pass c ids)"
  using assms by (simp add: And_map_total [where b = "\<lambda>v. condition_value c (VKey v)"] all_pass_def)

lemma composed_conditions [cond_simps]:
  assumes "base_conditions c"
  shows "hasMinRequiredHardware sh (TransitionArgsRefreshHost c r) = Inr (all_pass c minRequiredHardwareIds)"
    and "requiredInputFieldsExist sh (TransitionArgsRefreshHost c r) = Inr (all_pass c requiredInputIds)"
  unfolding hasMinRequiredHardware_def requiredInputFieldsExist_def
  by (rule And_IfV; use assms in \<open>auto simp: minRequiredHardwareIds_def requiredInputIds_def cond_simps\<close>)+

lemma isSufficientForInstall_complete [cond_simps]:
  assumes "complete_conditions c"
  shows "isSufficientForInstall sh (TransitionArgsRefreshHost c r) = Inr (all_pass c sufficientForInstallIds)"
  unfolding isSufficientForInstall_def
  by (rule And_IfV)
     (use assms in \<open>auto simp: sufficientForInstallIds_def operators_validations_def cond_simps complete_base
        If_cond_operator\<close>)

section \<open>Before installation\<close>

definition preinstall_spec :: "conditions \<Rightarrow> host_status \<Rightarrow> host_status option" where
  "preinstall_spec c s =
     (let v = (\<lambda>i. condition_value c (VKey i)); p = (\<lambda>i. condition_value c (CKey i)) in
      if \<not> (v IsConnected \<and> v IsMediaConnected) then Some HostStatusDisconnected
      else if s = HostStatusKnown \<and> p ClusterPreparingForInstallation \<and> p ValidRoleForInstallation
      then Some HostStatusPreparingForInstallation
      else if s = HostStatusKnown \<and> \<not> v SufficientOrUnknownInstallationDiskSpeed
      then Some HostStatusInsufficient
      else if s \<in> {HostStatusDisconnected, HostStatusDiscovering} \<and>
              \<not> (v HasInventory \<and> v InventoryNotFullyTruncated)
      then Some HostStatusDiscovering
      else if \<not> v HasInventory then None
      else if v InventoryNotFullyTruncated
      then if \<not> all_pass c minRequiredHardwareIds \<or> \<not> v VSphereHostUUIDEnabled
           then Some HostStatusInsufficient
           else if \<not> all_pass c requiredInputIds then Some HostStatusPendingForInput
           else if \<not> all_pass c sufficientForInstallIds then Some HostStatusInsufficient
           else Some HostStatusKnown
      else if \<not> v VSphereHostUUIDEnabled \<or>
              (all_pass c requiredInputIds \<and> \<not> all_pass c sufficientForInstallIds)
      then Some HostStatusInsufficient
      else None)"

lemmas selection_defs =
  destination_def rules_for_def all_host_rules_def host_rules_def rule_defs stateHost_State_def
  IsAllowedToRun_def

lemmas condition_defs =
  hasValidInventory_def installationDiskSpeedUnknown_def imagesAvailabilityUnknown_def
  allConditionsSuccessful_def allConditionsSuccessfulOrUnknown_def atLeastOneConditionUnknown_def
  shouldIgnoreInstallationProgressTimeout_def Not_def

definition preinstall_statuses :: "host_status list" where
  "preinstall_statuses =
     [HostStatusDisconnected, HostStatusDiscovering, HostStatusInsufficient, HostStatusKnown,
      HostStatusPendingForInput]"

theorem preinstall_refresh:
  assumes "complete_conditions c" and "Host_Status (sw_host sh) \<in> set preinstall_statuses"
  shows "destination th TransitionTypeRefresh sh (TransitionArgsRefreshHost c r) =
    Inr (preinstall_spec c (Host_Status (sw_host sh)))"
proof -
  from assms(2) consider "Host_Status (sw_host sh) = HostStatusDisconnected"
    | "Host_Status (sw_host sh) = HostStatusDiscovering" | "Host_Status (sw_host sh) = HostStatusInsufficient"
    | "Host_Status (sw_host sh) = HostStatusKnown" | "Host_Status (sw_host sh) = HostStatusPendingForInput"
    by (auto simp: preinstall_statuses_def)
  then show ?thesis
    by cases (simp_all add: assms(1) complete_base selection_defs condition_defs cond_simps preinstall_spec_def Let_def)
qed

section \<open>Preparing for installation\<close>

definition preparing_spec :: "conditions \<Rightarrow> bool \<Rightarrow> host_status \<Rightarrow> host_status option" where
  "preparing_spec c timedOut s =
     (let v = (\<lambda>i. condition_value c (VKey i)); p = (\<lambda>i. condition_value c (CKey i)) in
      if \<not> (v IsConnected \<and> v IsMediaConnected) then Some HostStatusDisconnected
      else if s = HostStatusPreparingSuccessful
      then Some (if p ClusterPreparingForInstallation then HostStatusPreparingSuccessful
                 else if p ClusterInstalling then HostStatusInstalling else HostStatusKnown)
      else if s = HostStatusPreparingForInstallation \<and> p ClusterPreparingForInstallation \<and>
              p InstallationDiskSpeedCheckSuccessful \<and> p SuccessfulContainerImageAvailability
      then Some HostStatusPreparingSuccessful
      else if \<not> v SufficientOrUnknownInstallationDiskSpeed then Some HostStatusInsufficient
      else if s = HostStatusPreparingForInstallation \<and>
              \<not> v SucessfullOrUnknownContainerImagesAvailability
      then Some HostStatusPreparingFailed
      else if \<not> p ClusterPreparingForInstallation then Some HostStatusKnown
      else if s = HostStatusPreparingFailed then None
      else Some (if timedOut then HostStatusPreparingFailed else HostStatusPreparingForInstallation))"

definition preparing_statuses :: "host_status list" where
  "preparing_statuses =
     [HostStatusPreparingForInstallation, HostStatusPreparingSuccessful, HostStatusPreparingFailed]"

definition status_age :: "host_ctx \<Rightarrow> duration" where
  "status_age sh = Since (w_now (ctx_world sh)) (Host_StatusUpdatedAt (sw_host sh))"

theorem preparing_refresh:
  assumes "base_conditions c" and "Host_Status (sw_host sh) \<in> set preparing_statuses"
  shows "destination th TransitionTypeRefresh sh (TransitionArgsRefreshHost c r) =
    Inr (preparing_spec c (status_age sh > PrepareForInstallationTimeout (th_config th))
          (Host_Status (sw_host sh)))"
proof -
  from assms(2) consider "Host_Status (sw_host sh) = HostStatusPreparingForInstallation"
    | "Host_Status (sw_host sh) = HostStatusPreparingSuccessful"
    | "Host_Status (sw_host sh) = HostStatusPreparingFailed" by (auto simp: preparing_statuses_def)
  then show ?thesis
    by cases (simp_all add: assms(1) selection_defs condition_defs cond_simps preparing_spec_def
        IsPreparingTimedOut_def status_age_def Let_def)
qed

section \<open>Installation\<close>

definition installing_spec :: "transitionHandler \<Rightarrow> host_ctx \<Rightarrow> host_progress \<Rightarrow> conditions \<Rightarrow> host_status option" where
  "installing_spec th sh pr c =
     (let v = (\<lambda>i. condition_value c (VKey i)); p = (\<lambda>i. condition_value c (CKey i));
          s = Host_Status (sw_host sh); stage = CurrentStage pr;
          ignore = p StageInWrongBootStages \<and> p ClusterPendingUserAction;
          limit = (if stage = HostStageRebooting \<and> IsSingleNode (ctx_world sh) (sw_host sh)
                   then singleNodeRebootTimeout else HostStageTimeout (th_config th) stage);
          late = Since (w_now (ctx_world sh)) (StageUpdatedAt pr) > limit in
      if p ClusterInError \<and> \<not> IsDay2Host (sw_host sh) then Some HostStatusError
      else if s = HostStatusInstalling \<and> status_age sh > InstallationTimeout then Some HostStatusError
      else if \<not> v IsConnected \<and> \<not> p SoftTimeoutsEnabled then Some HostStatusError
      else if p SoftTimeoutsEnabled \<and> v IsConnected = p ConnectionTimedOut then Some s
      else if s = HostStatusInstallingInProgress \<and> ignore then Some s
      else if s = HostStatusInstallingInProgress \<and> late \<and> stage = HostStageRebooting
      then Some HostStatusInstallingPendingUserAction
      else if s = HostStatusInstallingInProgress \<and> late \<and> \<not> p SoftTimeoutsEnabled
      then Some HostStatusError
      else if s = HostStatusInstallingInProgress \<and> late \<and> \<not> p HostStageTimedOut then Some s
      else if \<not> p ClusterInError then Some s else None)"

theorem installing_refresh:
  assumes "base_conditions c" and "Host_Progress (sw_host sh) = Some pr"
    and "Host_Status (sw_host sh) \<in> {HostStatusInstalling, HostStatusInstallingInProgress}"
  shows "destination th TransitionTypeRefresh sh (TransitionArgsRefreshHost c r) =
    Inr (installing_spec th sh pr c)"
proof -
  from assms(3) consider "Host_Status (sw_host sh) = HostStatusInstalling"
    | "Host_Status (sw_host sh) = HostStatusInstallingInProgress" by auto
  then show ?thesis
    by cases (simp_all add: assms(1,2) selection_defs condition_defs cond_simps installing_spec_def
        HasStatusTimedOut_def HasInstallationInProgressTimedOut_def th_IsDay2Host_def IsInStages_def
        IsHostInReboot_def current_stage_def status_age_def Let_def)
qed
section \<open>The other statuses\<close>

definition pool_spec :: "conditions \<Rightarrow> host_status \<Rightarrow> host_status option" where
  "pool_spec c s =
     (let v = (\<lambda>i. condition_value c (VKey i)) in
      if \<not> v IsConnected then Some HostStatusDisconnectedUnbound
      else if s = HostStatusUnbinding then Some HostStatusUnbinding
      else if \<not> v IsMediaConnected then None
      else if v HasInventory \<and> v InventoryNotFullyTruncated
      then Some (if v HasMinValidDisks \<and> v HasMinCPUCores \<and> v HasMinMemory \<and> v IsHostnameValid
                 then HostStatusKnownUnbound else HostStatusInsufficientUnbound)
      else if s = HostStatusDisconnectedUnbound \<or> s = HostStatusDiscoveringUnbound
      then Some HostStatusDiscoveringUnbound
      else None)"

definition pool_statuses :: "host_status list" where
  "pool_statuses =
     [HostStatusDisconnectedUnbound, HostStatusDiscoveringUnbound, HostStatusInsufficientUnbound,
      HostStatusKnownUnbound, HostStatusUnbinding]"

theorem pool_refresh:
  assumes "base_conditions c" and "Host_Status (sw_host sh) \<in> set pool_statuses"
  shows "destination th TransitionTypeRefresh sh (TransitionArgsRefreshHost c r) =
    Inr (pool_spec c (Host_Status (sw_host sh)))"
proof -
  from assms(2) consider "Host_Status (sw_host sh) = HostStatusDisconnectedUnbound"
    | "Host_Status (sw_host sh) = HostStatusDiscoveringUnbound"
    | "Host_Status (sw_host sh) = HostStatusInsufficientUnbound"
    | "Host_Status (sw_host sh) = HostStatusKnownUnbound"
    | "Host_Status (sw_host sh) = HostStatusUnbinding" by (auto simp: pool_statuses_def)
  then show ?thesis
    by cases (simp_all add: assms(1) selection_defs condition_defs cond_simps pool_spec_def
        sufficientToBeBound_def pool_hasMinRequiredHardware_def Let_def)
qed

text \<open>
  The remaining statuses do not look at validations. A host that waits for the user may need its
  cluster: the result is an error when the cluster cannot be loaded.
\<close>

definition settled_spec :: "host_ctx \<Rightarrow> conditions \<Rightarrow> host_status option" where
  "settled_spec sh c =
     (let s = Host_Status (sw_host sh); err = condition_value c (CKey ClusterInError) in
      if s \<in> {HostStatusInstalled, HostStatusResettingPendingUserAction}
      then (if \<not> err then Some s else if IsDay2Host (sw_host sh) then None else Some HostStatusError)
      else if s \<in> {HostStatusError, HostStatusCancelled, HostStatusResetting, HostStatusBinding} then Some s
      else if s = HostStatusAddedToExistingCluster
      then (if IsDay2Host (sw_host sh) then Some s else None)
      else if s \<in> {HostStatusReclaiming, HostStatusReclaimingRebooting}
      then Some (if status_age sh > ReclaimTimeout then HostStatusUnbindingPendingUserAction else s)
      else None)"

definition settled_statuses :: "host_status list" where
  "settled_statuses =
     [HostStatusInstalled, HostStatusResettingPendingUserAction, HostStatusError, HostStatusCancelled,
      HostStatusResetting, HostStatusBinding, HostStatusAddedToExistingCluster, HostStatusReclaiming,
      HostStatusReclaimingRebooting, HostStatusEmpty, HostStatusDisabled, HostStatusDisabledUnbound,
      HostStatusUnbindingPendingUserAction]"

lemma IsLogCollectionTimedOut_total: "\<exists>b. IsLogCollectionTimedOut th sh args = Inr b"
  by (auto simp: IsLogCollectionTimedOut_def Let_def)

theorem settled_refresh:
  assumes "base_conditions c" and "Host_Status (sw_host sh) \<in> set settled_statuses"
  shows "destination th TransitionTypeRefresh sh (TransitionArgsRefreshHost c r) =
    Inr (settled_spec sh c)"
proof -
  obtain b where b: "IsLogCollectionTimedOut th sh (TransitionArgsRefreshHost c r) = Inr b"
    using IsLogCollectionTimedOut_total by blast
  show ?thesis
    by (cases "Host_Status (sw_host sh)")
       (use assms in \<open>simp_all add: settled_statuses_def selection_defs condition_defs cond_simps
          settled_spec_def th_IsDay2Host_def HasStatusTimedOut_def status_age_def b Let_def\<close>)
qed

definition pending_user_action_spec :: "transitionHandler \<Rightarrow> host_ctx \<Rightarrow> conditions \<Rightarrow> cluster \<Rightarrow> host_status option" where
  "pending_user_action_spec th sh c cl =
     (let err = condition_value c (CKey ClusterInError) in
      if err \<and> \<not> IsDay2Host (sw_host sh) then Some HostStatusError
      else if status_age sh > InstallingPendingUserActionTimeout (th_config th) \<and>
              HasEnoughMastersAndWorkers (load_hosts (ctx_world sh) cl) [HostStatusInstalled] \<and>
              Cluster_Status cl \<notin> {ClusterStatusInstalled, ClusterStatusAddingHosts}
      then Some HostStatusError
      else if \<not> err then Some HostStatusInstallingPendingUserAction else None)"

theorem pending_user_action_refresh:
  assumes "base_conditions c" and "Host_Status (sw_host sh) = HostStatusInstallingPendingUserAction"
    and "Host_ClusterID (sw_host sh) = Some cid" and "find_cluster cid (ctx_world sh) = Some cl"
    and "\<not> w_dbfault (ctx_world sh) SelectClusters" and "\<not> w_dbfault (ctx_world sh) SelectHosts"
  shows "destination th TransitionTypeRefresh sh (TransitionArgsRefreshHost c r) =
    Inr (pending_user_action_spec th sh c cl)"
  using assms
  by (simp add: selection_defs condition_defs cond_simps pending_user_action_spec_def th_IsDay2Host_def
      HasPendingUserActionTimedOut_def ClusterWouldSucceedWithoutHost_def IsClusterPostInstallation_def
      GetClusterFromDBWithHosts_def take_cluster_def cluster_status_of_def status_age_def Let_def)

section \<open>Destinations of the events\<close>

lemma destination_type:
  "destination th t sh args =
     map_sum id (map_option DestinationState)
       (select_rule stateHost_State (filter (\<lambda>tr. TransitionType tr = t) (all_host_rules th)) sh args)"
  by (simp add: destination_def rules_for_def select_rule_filter del: filter_filter)

definition register_spec :: "host \<Rightarrow> host_stage \<Rightarrow> host_status option" where
  "register_spec h stage =
     (case Host_Status h of
        HostStatusEmpty \<Rightarrow>
          Some (if IsUnboundHost h then HostStatusDiscoveringUnbound else HostStatusDiscovering)
      | HostStatusPreparingForInstallation \<Rightarrow> Some HostStatusKnown
      | HostStatusPreparingSuccessful \<Rightarrow> Some HostStatusKnown
      | HostStatusResetting \<Rightarrow>
          Some (if stage = HostStageRebooting then HostStatusResetting else HostStatusDiscovering)
      | HostStatusInstalling \<Rightarrow> Some HostStatusError
      | HostStatusInstallingInProgress \<Rightarrow>
          Some (if stage = HostStageRebooting \<or> (IsDay2Host h \<and> stage = HostStageDone)
                then HostStatusInstallingPendingUserAction else HostStatusError)
      | HostStatusError \<Rightarrow> Some HostStatusError
      | HostStatusInstalled \<Rightarrow> Some HostStatusInstalled
      | s \<Rightarrow>
          if s \<in> {HostStatusDiscovering, HostStatusKnown, HostStatusDisconnected, HostStatusInsufficient,
                   HostStatusResettingPendingUserAction, HostStatusBinding, HostStatusPendingForInput}
          then Some HostStatusDiscovering
          else if s \<in> {HostStatusInstallingPendingUserAction, HostStatusAddedToExistingCluster} \<and>
                  (stage = HostStageRebooting \<or> (IsDay2Host h \<and> stage = HostStageDone))
          then Some HostStatusInstallingPendingUserAction
          else if s \<in> {HostStatusDiscoveringUnbound, HostStatusDisconnectedUnbound,
                        HostStatusInsufficientUnbound, HostStatusKnownUnbound, HostStatusUnbinding,
                        HostStatusUnbindingPendingUserAction, HostStatusReclaimingRebooting}
          then Some HostStatusDiscoveringUnbound
          else None)"

definition progress_spec :: "host \<Rightarrow> host_stage \<Rightarrow> host_status option" where
  "progress_spec h stage =
     (let s = Host_Status h in
      if s \<in> {HostStatusInstalling, HostStatusInstallingInProgress, HostStatusInstallingPendingUserAction}
      then if stage = HostStageDone
           then if IsDay2Host h then Some HostStatusAddedToExistingCluster
                else if s = HostStatusInstallingPendingUserAction then Some HostStatusInstallingInProgress
                else Some HostStatusInstalled
           else Some HostStatusInstallingInProgress
      else if s \<in> {HostStatusInstalled, HostStatusResettingPendingUserAction} then Some s
      else None)"

definition control_spec :: "host_transition_type \<Rightarrow> host \<Rightarrow> host_status option" where
  "control_spec t h =
     (let s = Host_Status h;
          discovered = {HostStatusKnown, HostStatusDiscovering, HostStatusDisconnected,
                        HostStatusInsufficient, HostStatusPendingForInput};
          prepared = {HostStatusPreparingForInstallation, HostStatusPreparingSuccessful};
          installing = {HostStatusInstalling, HostStatusInstallingInProgress} in
      case t of
        TransitionTypeHostInstallationFailed \<Rightarrow> if s \<in> installing then Some HostStatusError else None
      | TransitionTypeCancelInstallation \<Rightarrow>
          if s \<in> installing \<or> s \<in> {HostStatusInstallingPendingUserAction, HostStatusInstalled, HostStatusError}
          then Some HostStatusCancelled
          else if s \<in> prepared \<or> s = HostStatusKnown then Some HostStatusKnown
          else None
      | TransitionTypeInstallHost \<Rightarrow>
          if s = HostStatusKnown \<and> IsDay2Host h then Some HostStatusInstalling else None
      | TransitionTypeResettingPendingUserAction \<Rightarrow>
          if s \<in> prepared \<or> s \<in> installing \<or>
             s \<in> {HostStatusResetting, HostStatusDiscovering, HostStatusKnown,
                  HostStatusInstallingPendingUserAction, HostStatusPreparingFailed,
                  HostStatusPendingForInput, HostStatusResettingPendingUserAction, HostStatusInstalled,
                  HostStatusError, HostStatusCancelled, HostStatusAddedToExistingCluster}
          then Some HostStatusResettingPendingUserAction else None
      | TransitionTypeUnbindHost \<Rightarrow>
          if s \<in> discovered then Some HostStatusUnbinding
          else if s \<in> prepared \<or> s \<in> installing \<or>
             s \<in> {HostStatusPreparingFailed, HostStatusInstallingPendingUserAction, HostStatusInstalled,
                  HostStatusAddedToExistingCluster, HostStatusError, HostStatusCancelled}
          then Some HostStatusUnbindingPendingUserAction else None
      | TransitionTypeReclaimHost \<Rightarrow>
          if s \<in> {HostStatusInstalled, HostStatusAddedToExistingCluster} then Some HostStatusReclaiming
          else if s \<in> discovered then Some HostStatusUnbinding
          else if s \<in> {HostStatusError, HostStatusCancelled} then Some HostStatusUnbindingPendingUserAction
          else None
      | TransitionTypeRebootingForReclaim \<Rightarrow>
          if s = HostStatusReclaiming then Some HostStatusReclaimingRebooting else None
      | TransitionTypeReclaimFailed \<Rightarrow>
          if s \<in> {HostStatusReclaiming, HostStatusReclaimingRebooting}
          then Some HostStatusUnbindingPendingUserAction else None
      | TransitionTypeBindHost \<Rightarrow> if s = HostStatusKnownUnbound then Some HostStatusBinding else None
      | TransitionTypeMediaDisconnect \<Rightarrow>
          if s \<in> discovered \<or> s = HostStatusBinding then Some HostStatusDisconnected
          else if s \<in> prepared \<or> s \<in> installing \<or> s \<in> {HostStatusPreparingFailed, HostStatusError}
          then Some HostStatusError
          else if s \<in> {HostStatusDiscoveringUnbound, HostStatusInsufficientUnbound, HostStatusKnownUnbound,
                        HostStatusDisconnectedUnbound, HostStatusUnbinding}
          then Some HostStatusDisconnectedUnbound else None
      | _ \<Rightarrow> None)"

lemmas event_selection =
  destination_type all_host_rules_def host_rules_def rule_defs stateHost_State_def IsAllowedToRun_def
  th_IsDay2Host_def th_IsUnboundHost_def IsHostInReboot_def IsHostInDone_def current_stage_def Not_def

lemma progress_destination:
  assumes "Host_Progress (sw_host sh) = Some p"
  shows "destination th TransitionTypeHostProgress sh args =
    Inr (progress_spec (sw_host sh) (CurrentStage p))"
  by (cases "Host_Status (sw_host sh)")
     (simp_all add: event_selection assms progress_spec_def Let_def)

lemma register_destination:
  assumes "Host_Progress (sw_host sh) = Some p"
  shows "destination th TransitionTypeRegisterHost sh args =
    Inr (register_spec (sw_host sh) (CurrentStage p))"
  by (cases "Host_Status (sw_host sh)")
     (simp_all add: event_selection assms register_spec_def)

lemma control_destination:
  assumes "t \<notin> {TransitionTypeHostProgress, TransitionTypeRegisterHost, TransitionTypeRefresh}"
  shows "destination th t sh args = Inr (control_spec t (sw_host sh))"
  using assms by (cases t) (simp_all add: event_selection control_spec_def Let_def)

end
