(* ===== verification/Host_Behaviour.thy ===== *)
theory Host_Behaviour
  imports Host_Refresh
begin

text \<open>
  The behaviour of the host machine, end to end: runs of \<open>sm.Run\<close> on a host that the manager has read
  from the store. The first section lifts a decision table to the outcome of a run, the
  properties follow.
\<close>

section \<open>Outcomes of a refresh\<close>

text \<open>
  A host in the hands of a caller of the machine, in a store whose statements succeed: its progress is
  loaded and its row still has the status that the caller saw. Other columns may have changed meanwhile.
\<close>

definition loaded :: "host \<Rightarrow> world \<Rightarrow> bool" where
  "loaded h w \<longleftrightarrow> healthy w \<and> Host_Progress h \<noteq> None \<and>
     map_option Host_Status (find_host (host_key h) w) = Some (Host_Status h)"

text \<open>The post transition of a rule succeeds once the destination is set.\<close>

definition post_ok :: "host_ctx \<Rightarrow> host_args \<Rightarrow> host_rule \<Rightarrow> bool" where
  "post_ok sh args tr \<longleftrightarrow>
     (case PostTransition tr of
        None \<Rightarrow> True
      | Some f \<Rightarrow> fst (f (snd (stateHost_SetState (DestinationState tr) sh)) args) = None)"

text \<open>The outcome that a decision table prescribes for a run of the machine.\<close>

definition outcome :: "host_status option \<Rightarrow> host_ctx \<Rightarrow> go_error option \<times> host_ctx \<Rightarrow> bool" where
  "outcome d sh res \<longleftrightarrow>
     (case d of
        None \<Rightarrow> res = (Some NoConditionPassedToRunTransaction, sh)
      | Some s \<Rightarrow> fst res = None \<and> Host_Status (sw_host (snd res)) = s \<and> stored_status (snd res) = Some s)"

lemma find_host_progress: "wf_world w \<Longrightarrow> find_host k w = Some h \<Longrightarrow> Host_Progress h \<noteq> None"
  using find_host_SomeD [of k w h] by (auto simp: wf_world_def list_all_iff)

lemma loaded_facts:
  assumes "loaded h w"
  shows "healthy w" and "wf_world w" and "Host_Progress h \<noteq> None"
    and "stored_status (newStateHost h w) = Some (Host_Status h)"
    and "srcState (newStateHost h w) = Host_Status h"
    and "sw_host (newStateHost h w) = h" and "ctx_world (newStateHost h w) = w"
  using assms
  by (auto simp: loaded_def healthy_def newStateHost_def stored_status_def stored_row_def sh_key_def)

lemma rules_exist: "\<exists>tr \<in> set (all_host_rules th). TransitionType tr = t"
proof -
  have "map TransitionType (progress_rules th @ registration_rules th @ installation_control_rules th @
      unbind_rules th @ preparing_end_rules th @ disconnection_rules th @ pool_rules th) = ts \<Longrightarrow> t \<in> set ts" for ts
    by (cases t) (simp_all add: rule_defs, auto)
  then have "t \<in> TransitionType ` set (progress_rules th @ registration_rules th @ installation_control_rules th @
      unbind_rules th @ preparing_end_rules th @ disconnection_rules th @ pool_rules th)"
    by (metis list.set_map)
  then show ?thesis by (auto simp: all_host_rules_def host_rules_def)
qed

lemma run_total:
  assumes l: "loaded h w" and t: "t \<noteq> TransitionTypeMediaDisconnect"
    and d: "destination th t (newStateHost h w) args = Inr d"
    and posts: "\<forall>tr \<in> set (rules_for th t (Host_Status h)). post_ok (newStateHost h w) args tr"
  shows "outcome d (newStateHost h w) (sm_Run th t (newStateHost h w) args)"
proof -
  let ?sh = "newStateHost h w"
  let ?sel = "select_rule stateHost_State (rules_for th t (stateHost_State ?sh)) ?sh args"
  note run = sm_Run_eq [OF rules_exist, of th t ?sh args]
  from d obtain sel where sel: "?sel = Inr sel" "d = map_option DestinationState sel"
    by (cases ?sel) (auto simp: destination_def)
  show ?thesis
  proof (cases sel)
    case None
    with sel run show ?thesis by (simp add: outcome_def)
  next
    case (Some tr)
    with sel run have fire: "sm_Run th t ?sh args = fire stateHost_SetState tr ?sh args"
      by simp
    from sel Some have tr: "tr \<in> set (rules_for th t (Host_Status h))"
      using select_rule_Some [of stateHost_State "rules_for th t (stateHost_State ?sh)" ?sh args tr]
      by (simp add: stateHost_State_def newStateHost_def)
    then have trm: "tr \<in> set (all_host_rules th)" "TransitionType tr = t"
      "Host_Status h \<in> set (SourceStates tr)" by (auto simp: rules_for_def)
    have nt: "Transition tr = None" using host_no_Transition [OF trm(1)] .
    have ok: "fst (fire stateHost_SetState tr ?sh args) = None"
    proof (cases "PostTransition tr")
      case None
      with nt show ?thesis by (simp add: fire_def stateHost_SetState_def)
    next
      case (Some f)
      with posts tr have "fst (f (snd (stateHost_SetState (DestinationState tr) ?sh)) args) = None"
        by (auto simp: post_ok_def)
      with nt Some show ?thesis
        by (auto simp: fire_def stateHost_SetState_def newStateHost_def split: prod.splits)
    qed
    then obtain sh' where sh': "fire stateHost_SetState tr ?sh args = (None, sh')" by (metis prod.collapse)
    have "stored_status sh' = Some (DestinationState tr)"
      using host_switch.fire_stores [OF trm(1) _ _ _ _ sh'] loaded_facts [OF l] trm t by simp
    moreover have "Host_Status (sw_host sh') = DestinationState tr"
      using host_switch.fire_destination [OF trm(1) _ sh'] loaded_facts [OF l] trm t by (simp add: stateHost_State_def)
    ultimately show ?thesis using fire sh' sel Some by (simp add: outcome_def)
  qed
qed

lemmas refresh_total = run_total [where t = TransitionTypeRefresh, simplified]

lemma refresh_posts_ok:
  assumes "loaded h w" and "PostTransition tr = None \<or> (\<exists>f. PostTransition tr = Some f \<and> refresh_succeeds f)"
  shows "post_ok (newStateHost h w) (TransitionArgsRefreshHost c r) tr"
proof -
  let ?sh1 = "snd (stateHost_SetState (DestinationState tr) (newStateHost h w))"
  have "stored_status ?sh1 = Some (srcState ?sh1)"
    using loaded_facts(4) [OF assms(1)]
    by (simp add: newStateHost_def stateHost_SetState_def stored_status_def stored_row_def sh_key_def host_key_def)
  moreover have "healthy (ctx_world ?sh1)" "Host_Progress (sw_host ?sh1) \<noteq> None"
    using loaded_facts(1,3) [OF assms(1)] by (auto simp: newStateHost_def stateHost_SetState_def)
  ultimately show ?thesis using assms(2) by (auto simp: post_ok_def refresh_succeeds_def)
qed

lemma update_discarding_succeeds:
  assumes "healthy (ctx_world sh)" and "stored_status sh = Some (srcState sh)"
    and "fits extra" and "extra_ok extra" and "length info \<le> varchar_max"
  shows "fst (update_discarding th sh info extra) = None"
proof -
  from stored_status_Some [OF assms(2)] obtain row where
    "find_host (Host_InfraEnvID (sw_host sh), Host_ID (sw_host sh)) (ctx_world sh) = Some row"
    "Host_Status row = srcState sh" by blast
  from UpdateHostStatus_succeeds [OF assms(1) this assms(3-5)]
  obtain h w' where "UpdateHostStatus (th_unmarshal th) (Host_InfraEnvID (sw_host sh))
      (Host_ID (sw_host sh)) (srcState sh) (Host_Status (sw_host sh)) info extra
      (ctx_world sh) = (Inr (Some h), w')" by blast
  then show ?thesis by (simp add: update_discarding_def)
qed

lemma UpdateHost_stored_succeeds:
  assumes "healthy (ctx_world sh)" and "stored_status sh = Some (srcState sh)" and "fits extra"
  shows "\<exists>x w'. UpdateHost (Host_InfraEnvID (sw_host sh)) (Host_ID (sw_host sh)) (srcState sh) extra
    (ctx_world sh) = (Inr x, w')"
  using stored_status_Some [OF assms(2)] UpdateHost_succeeds [OF assms(1) _ _ assms(3)] by blast

lemma UpdateLogsProgress_succeeds:
  assumes "healthy (ctx_world sh)" and "stored_status sh = Some (srcState sh)"
  shows "\<exists>x w'. UpdateLogsProgress (Host_InfraEnvID (sw_host sh)) (Host_ID (sw_host sh)) (srcState sh) l []
    (ctx_world sh) = (Inr x, w')"
  unfolding UpdateLogsProgress_def
  by (rule UpdateHost_stored_succeeds [OF assms]) (simp add: fits_pair)

lemma refresh_succeeds_install:
  "length info \<le> varchar_max \<Longrightarrow> refresh_succeeds (PostRefreshHostDisconnection th info b)"
  "refresh_succeeds (PostRefreshLogsProgress th l)"
  "refresh_succeeds (PostRefreshHostRefreshStageUpdateTime th)"
proof -
  show "length info \<le> varchar_max \<Longrightarrow> refresh_succeeds (PostRefreshHostDisconnection th info b)"
    using update_discarding_succeeds [of _ "[IName C_connection_timed_out, IBool b]" info th]
    by (auto simp: refresh_succeeds_def PostRefreshHostDisconnection_def fits_pair extra_ok_pair)
  show "refresh_succeeds (PostRefreshLogsProgress th l)"
    unfolding refresh_succeeds_def
  proof (intro allI impI)
    fix sh c r assume "healthy (ctx_world sh)" "stored_status sh = Some (srcState sh)"
    from UpdateLogsProgress_succeeds [OF this, of l]
    show "fst (PostRefreshLogsProgress th l sh (TransitionArgsRefreshHost c r)) = None"
      by (auto simp: PostRefreshLogsProgress_def)
  qed
  show "refresh_succeeds (PostRefreshHostRefreshStageUpdateTime th)"
    unfolding refresh_succeeds_def
  proof (intro allI impI)
    fix sh c r assume "healthy (ctx_world sh)" "stored_status sh = Some (srcState sh)"
      and "Host_Progress (sw_host sh) \<noteq> None"
    with UpdateHost_stored_succeeds [of sh "[IName C_progress_stage_updated_at, ITime (w_now (ctx_world sh))]"]
    show "fst (PostRefreshHostRefreshStageUpdateTime th sh (TransitionArgsRefreshHost c r)) = None"
      by (auto simp: PostRefreshHostRefreshStageUpdateTime_def refreshHostStageUpdateTime_def fits_pair)
  qed
qed

lemma soft_texts [simp]:
  "length statusInfoConnectionSoftTimedOutInstalling \<le> varchar_max"
  "length statusInfoConnectionSoftTimedOutInstallingReconnected \<le> varchar_max"
  by (simp_all add: statusInfoConnectionSoftTimedOutInstalling_def
      statusInfoConnectionSoftTimedOutInstallingReconnected_def varchar_max_def)

lemmas rules_for_defs = rules_for_def all_host_rules_def host_rules_def rule_defs

lemmas refresh_total_simps = refresh_succeeds_posts refresh_succeeds_install rules_for_defs refresh_posts_ok

text \<open>The statuses whose rules have no post transition that may fail on a stored host.\<close>

lemma total_posts:
  assumes "Host_Status h \<noteq> HostStatusInstallingInProgress" and "loaded h w"
  shows "\<forall>tr \<in> set (rules_for th TransitionTypeRefresh (Host_Status h)).
      post_ok (newStateHost h w) (TransitionArgsRefreshHost c r) tr"
  using assms by (cases "Host_Status h") (simp_all add: refresh_total_simps)

text \<open>The messages of the soft timeouts are not truncated; they must fit the column.\<close>

definition soft_timeout_reasons :: "string list" where
  "soft_timeout_reasons =
     [statusInfoInstallationInProgressSoftTimedOut,
      statusInfoInstallationInProgressWritingImageToDiskSoftTimedOut,
      statusInfoInstallationInProgressCopyingRegistryDataToDiskSoftTimedOut]"

definition reasons_fit :: "transitionHandler \<Rightarrow> host_ctx \<Rightarrow> validations_status \<Rightarrow> bool" where
  "reasons_fit th sh r \<longleftrightarrow>
     list_all (\<lambda>reason. case replaceMacros th reason sh r of
        Inl _ \<Rightarrow> True | Inr info \<Rightarrow> length info \<le> varchar_max) soft_timeout_reasons"

lemma replaceMacros_SetState:
  "replaceMacros th reason (snd (stateHost_SetState s sh)) r = replaceMacros th reason sh r"
proof -
  have "GetHostInstallationDisk (th_unmarshal th) (sw_host (snd (stateHost_SetState s sh))) =
      GetHostInstallationDisk (th_unmarshal th) (sw_host sh)"
    and "current_stage (snd (stateHost_SetState s sh)) = current_stage sh"
    by (auto simp: stateHost_SetState_def GetHostInstallationDisk_def GetHostInstallationPath_def
        current_stage_def split: sum.splits option.splits)
  then show ?thesis by (simp only: replaceMacros_def)
qed

lemma PostHostStageTimeout_succeeds:
  assumes l: "loaded h w" and "reasons_fit th (newStateHost h w) r" and "reason \<in> set soft_timeout_reasons"
    and "PostTransition tr = Some (PostHostStageTimeout th reason)"
  shows "post_ok (newStateHost h w) (TransitionArgsRefreshHost c r) tr"
proof -
  let ?sh = "snd (stateHost_SetState (DestinationState tr) (newStateHost h w))"
  from loaded_facts(3) [OF l] obtain p where p: "Host_Progress (sw_host ?sh) = Some p"
    by (auto simp: newStateHost_def stateHost_SetState_def)
  then obtain info where info: "replaceMacros th reason ?sh r = Inr info"
    by (auto simp: replaceMacros_def current_stage_def Let_def)
  then have len: "length info \<le> varchar_max"
    using assms(2,3) by (auto simp: reasons_fit_def list_all_iff replaceMacros_SetState)
  let ?extra = "[IName C_status_info, IString info, IName C_progress_stage_timed_out, IBool True]"
  have st: "healthy (ctx_world ?sh)" "stored_status ?sh = Some (srcState ?sh)"
    using loaded_facts [OF l]
    by (auto simp: newStateHost_def stateHost_SetState_def stored_status_def stored_row_def sh_key_def host_key_def)
  have "fits ?extra" using len by (auto intro!: fits_pair)
  from UpdateHost_stored_succeeds [OF st this] obtain x w' where
    u: "UpdateHost (Host_InfraEnvID (sw_host ?sh)) (Host_ID (sw_host ?sh)) (srcState ?sh) ?extra
      (ctx_world ?sh) = (Inr x, w')" by blast
  have "wf_world (ctx_world ?sh)" using st by (simp add: healthy_def)
  with UpdateHost_wf [of "ctx_world ?sh"] u have "wf_world w'" by (metis snd_conv)
  moreover have "find_host (Host_InfraEnvID (sw_host ?sh), Host_ID (sw_host ?sh)) w' = Some x"
    using UpdateHost_Inr [OF \<open>wf_world (ctx_world ?sh)\<close> u] by auto
  ultimately obtain q where "Host_Progress x = Some q" using find_host_progress by blast
  with u p info assms(4) show ?thesis
    by (simp add: post_ok_def PostHostStageTimeout_def UpdateHostStageTimeout_def UpdateHostAndNotify_def)
qed

lemma in_progress_posts:
  assumes "Host_Status h = HostStatusInstallingInProgress" and "loaded h w"
    and "reasons_fit th (newStateHost h w) r"
  shows "\<forall>tr \<in> set (rules_for th TransitionTypeRefresh (Host_Status h)).
      post_ok (newStateHost h w) (TransitionArgsRefreshHost c r) tr"
  using assms
  by (simp add: refresh_total_simps)
     (intro conjI; rule PostHostStageTimeout_succeeds; simp add: soft_timeout_reasons_def)

section \<open>A concrete store\<close>

definition sample_host :: "host_status \<Rightarrow> host" where
  "sample_host s = zero_host\<lparr>Host_ID := ''h'', Host_InfraEnvID := ''e'', Host_ClusterID := Some ''c'',
     Host_Status := s, Host_Progress := Some zero_progress, Host_Role := HostRoleMaster\<rparr>"

definition sample_cluster :: cluster where
  "sample_cluster = zero_cluster\<lparr>Cluster_ID := ''c'', Cluster_Status := ClusterStatusInstalling,
     Cluster_ControlPlaneCount := 1\<rparr>"

definition sample_world :: "host \<Rightarrow> world" where
  "sample_world h =
     \<lparr>w_now = 100, w_hosts = [h], w_deleted_hosts = [], w_clusters = [sample_cluster], w_deleted_clusters = [], w_events = [],
      w_notified = [], w_notified_clusters = [], w_dbfault = (\<lambda>_. False)\<rparr>"

definition sample_handler :: transitionHandler where
  "sample_handler =
     \<lparr>th_config =
        \<lparr>PrepareForInstallationTimeout = 10 * Minute, LogCollectionTimeout = 60 * Minute,
         LogPendingTimeout = 2 * Minute, EnableAutoAssign = True, ResetTimeout = 3 * Minute,
         MaxHostDisconnectionTime = 3 * Minute, InstallingPendingUserActionTimeout = 60 * Minute,
         hostStageTimeouts = None\<rparr>,
      th_unmarshal = (\<lambda>_. Inl (ErrNew ''unexpected end of JSON input''))\<rparr>"

lemma loaded_sample: "Host_Progress h \<noteq> None \<Longrightarrow> loaded h (sample_world h)"
  by (simp add: loaded_def healthy_def wf_world_def sample_world_def find_host_def sample_cluster_def zero_cluster_def)

lemma sample_host_fields [simp]:
  "Host_Status (sample_host s) = s" "Host_Progress (sample_host s) = Some zero_progress"
  "Host_ClusterID (sample_host s) = Some ''c''"
  by (simp_all add: sample_host_def)

lemma loaded_sample_host: "loaded (sample_host s) (sample_world (sample_host s))"
  by (rule loaded_sample) simp

definition all_true :: conditions where
  "all_true = (\<lambda>_. Some True)"

lemma all_true_facts [simp]:
  "base_conditions all_true" "complete_conditions all_true" "condition_value all_true k" "all_pass all_true ids"
  by (simp_all add: complete_conditions_def base_conditions_def list_all_iff all_true_def condition_value_def
      all_pass_def)

lemma all_true_upd [simp]:
  "base_conditions (all_true(k := Some b))" "complete_conditions (all_true(k := Some b))"
  "condition_value (all_true(k := Some b)) k' = (k' = k \<longrightarrow> b)"
  by (auto simp: complete_conditions_def base_conditions_def list_all_iff all_true_def condition_value_def)
section \<open>Total correctness of a refresh\<close>

text \<open>
  A refresh of a host that is not being installed has exactly the outcome that the decision table
  \<open>preinstall_spec\<close> prescribes.
\<close>

lemma preinstall_run:
  assumes "loaded h w" and "complete_conditions c" and "Host_Status h \<in> set preinstall_statuses"
  shows "outcome (preinstall_spec c (Host_Status h)) (newStateHost h w)
    (sm_Run th TransitionTypeRefresh (newStateHost h w) (TransitionArgsRefreshHost c r))"
proof (rule refresh_total [OF assms(1)])
  show "destination th TransitionTypeRefresh (newStateHost h w) (TransitionArgsRefreshHost c r) =
      Inr (preinstall_spec c (Host_Status h))"
    using preinstall_refresh [OF assms(2), of "newStateHost h w"] assms(3) by (simp add: newStateHost_def)
next
  have "Host_Status h \<noteq> HostStatusInstallingInProgress" using assms(3) by (auto simp: preinstall_statuses_def)
  then show "\<forall>tr\<in>set (rules_for th TransitionTypeRefresh (Host_Status h)).
      post_ok (newStateHost h w) (TransitionArgsRefreshHost c r) tr" by (rule total_posts [OF _ assms(1)])
qed

text \<open>
  C11. A refresh of a stored host that prepares for installation, in a store whose statements succeed and
  with every condition evaluated, has exactly the outcome that a decision table prescribes: the run
  returns no error and both the host in memory and its row have the prescribed status, or, where the table
  has no entry, the run returns \<open>NoConditionPassedToRunTransaction\<close> and nothing changes. The table is
  \<open>preparing_spec\<close>, which depends on the time
  since the status was last changed, gives the outcome of every refresh.
\<close>

theorem preparing_refresh_total:
  assumes "loaded h w" and "base_conditions c" and "Host_Status h \<in> set preparing_statuses"
  shows "outcome (preparing_spec c (Since (w_now w) (Host_StatusUpdatedAt h) >
      PrepareForInstallationTimeout (th_config th)) (Host_Status h)) (newStateHost h w)
    (sm_Run th TransitionTypeRefresh (newStateHost h w) (TransitionArgsRefreshHost c r))"
proof (rule refresh_total [OF assms(1)])
  show "destination th TransitionTypeRefresh (newStateHost h w) (TransitionArgsRefreshHost c r) =
      Inr (preparing_spec c (Since (w_now w) (Host_StatusUpdatedAt h) >
        PrepareForInstallationTimeout (th_config th)) (Host_Status h))"
    using preparing_refresh [OF assms(2), of "newStateHost h w" th r] assms(3)
    by (simp add: newStateHost_def status_age_def)
next
  have "Host_Status h \<noteq> HostStatusInstallingInProgress" using assms(3) by (auto simp: preparing_statuses_def)
  then show "\<forall>tr\<in>set (rules_for th TransitionTypeRefresh (Host_Status h)).
      post_ok (newStateHost h w) (TransitionArgsRefreshHost c r) tr" by (rule total_posts [OF _ assms(1)])
qed

theorem preparing_refresh_total_witness:
  "let h = sample_host HostStatusPreparingForInstallation; sh = newStateHost h (sample_world h) in
   outcome (Some HostStatusPreparingSuccessful) sh
     (sm_Run sample_handler TransitionTypeRefresh sh (TransitionArgsRefreshHost all_true []))"
  using preparing_refresh_total [OF loaded_sample_host [of HostStatusPreparingForInstallation],
      of all_true sample_handler "[]"]
  by (simp add: preparing_statuses_def preparing_spec_def Let_def)

lemma installing_outcome:
  assumes "loaded h w" and "base_conditions c" and "Host_Progress h = Some p"
    and "Host_Status h \<in> {HostStatusInstalling, HostStatusInstallingInProgress}"
    and "reasons_fit th (newStateHost h w) r"
  shows "outcome (installing_spec th (newStateHost h w) p c) (newStateHost h w)
    (sm_Run th TransitionTypeRefresh (newStateHost h w) (TransitionArgsRefreshHost c r))"
proof (rule refresh_total [OF assms(1)])
  show "destination th TransitionTypeRefresh (newStateHost h w) (TransitionArgsRefreshHost c r) =
      Inr (installing_spec th (newStateHost h w) p c)"
    using installing_refresh [OF assms(2), of "newStateHost h w" p th r] assms(3,4)
    by (simp add: newStateHost_def)
  show "\<forall>tr\<in>set (rules_for th TransitionTypeRefresh (Host_Status h)).
      post_ok (newStateHost h w) (TransitionArgsRefreshHost c r) tr"
    using total_posts [OF _ assms(1)] in_progress_posts [OF _ assms(1,5)] assms(4) by metis
qed

text \<open>
  C12. The same for a host that is being installed. The result depends on the conditions, on the time
  since the status and the stage were last updated and on whether the cluster has a single node. The
  messages of the soft timeouts, the only ones that are not cut to the column's length, are assumed to
  fit.
\<close>

theorem installing_refresh_total:
  assumes "loaded h w" and "base_conditions c" and "Host_Progress h = Some p"
    and "Host_Status h \<in> {HostStatusInstalling, HostStatusInstallingInProgress}"
    and "reasons_fit th (newStateHost h w) r"
  shows "outcome (installing_spec th (newStateHost h w) p c) (newStateHost h w)
    (sm_Run th TransitionTypeRefresh (newStateHost h w) (TransitionArgsRefreshHost c r))"
  by (rule installing_outcome [OF assms])

lemma sample_digits:
  "trim_zeros (pad_digits 9 0) = []" "char_of (49 :: nat) = CHR ''1''" "char_of (48 :: nat) = CHR ''0''"
  by code_simp+

lemma sample_timeout: "Duration_String (HostStageTimeout (th_config sample_handler) s) = ''1h0m0s''"
  by (simp add: sample_handler_def HostStageTimeout_def hostStageTimeoutDefault_def Duration_String_def
      Minute_def Second_def fmt_frac_def nat_digits.simps sample_digits Let_def)

lemma sample_reasons_fit:
  "reasons_fit sample_handler (newStateHost (sample_host s) w) []"
  by (simp add: reasons_fit_def soft_timeout_reasons_def replaceMacros_def current_stage_def newStateHost_def
      sample_timeout zero_progress_def Let_def varchar_max_def
      statusInfoInstallationInProgressSoftTimedOut_def
      statusInfoInstallationInProgressWritingImageToDiskSoftTimedOut_def
      statusInfoInstallationInProgressCopyingRegistryDataToDiskSoftTimedOut_def)

theorem installing_refresh_total_witness:
  "let h = sample_host HostStatusInstallingInProgress; sh = newStateHost h (sample_world h) in
   outcome (Some HostStatusError) sh
     (sm_Run sample_handler TransitionTypeRefresh sh (TransitionArgsRefreshHost all_true []))"
proof -
  let ?h = "sample_host HostStatusInstallingInProgress"
  have "installing_spec sample_handler (newStateHost ?h (sample_world ?h)) zero_progress all_true =
      Some HostStatusError"
    by (simp add: installing_spec_def newStateHost_def IsDay2Host_def sample_host_def zero_host_def)
  then show ?thesis
    using installing_refresh_total [OF loaded_sample_host _ _ _ sample_reasons_fit,
        of all_true HostStatusInstallingInProgress zero_progress]
    by (simp add: Let_def)
qed

text \<open>
  C13. The same for the statuses in which a host waits or is finished. \<open>settled_spec\<close> shows in
  particular that a refresh leaves an error only by staying in it.
\<close>

theorem settled_refresh_total:
  assumes "loaded h w" and "base_conditions c" and "Host_Status h \<in> set settled_statuses"
  shows "outcome (settled_spec (newStateHost h w) c) (newStateHost h w)
    (sm_Run th TransitionTypeRefresh (newStateHost h w) (TransitionArgsRefreshHost c r))"
proof (rule refresh_total [OF assms(1)])
  show "destination th TransitionTypeRefresh (newStateHost h w) (TransitionArgsRefreshHost c r) =
      Inr (settled_spec (newStateHost h w) c)"
    using settled_refresh [OF assms(2), of "newStateHost h w" th r] assms(3) by (simp add: newStateHost_def)
next
  have "Host_Status h \<noteq> HostStatusInstallingInProgress" using assms(3) by (auto simp: settled_statuses_def)
  then show "\<forall>tr\<in>set (rules_for th TransitionTypeRefresh (Host_Status h)).
      post_ok (newStateHost h w) (TransitionArgsRefreshHost c r) tr" by (rule total_posts [OF _ assms(1)])
qed

theorem settled_refresh_total_witness:
  "let h = sample_host HostStatusInstalled; sh = newStateHost h (sample_world h) in
   outcome (Some HostStatusError) sh
     (sm_Run sample_handler TransitionTypeRefresh sh (TransitionArgsRefreshHost all_true []))"
  using settled_refresh_total [OF loaded_sample_host [of HostStatusInstalled], of all_true sample_handler "[]"]
  by (simp add: settled_statuses_def settled_spec_def Let_def newStateHost_def IsDay2Host_def sample_host_def zero_host_def)

text \<open>
  C14. The same for a host that is not bound to a cluster.
\<close>

theorem pool_refresh_total:
  assumes "loaded h w" and "base_conditions c" and "Host_Status h \<in> set pool_statuses"
  shows "outcome (pool_spec c (Host_Status h)) (newStateHost h w)
    (sm_Run th TransitionTypeRefresh (newStateHost h w) (TransitionArgsRefreshHost c r))"
proof (rule refresh_total [OF assms(1)])
  show "destination th TransitionTypeRefresh (newStateHost h w) (TransitionArgsRefreshHost c r) =
      Inr (pool_spec c (Host_Status h))"
    using pool_refresh [OF assms(2), of "newStateHost h w" th r] assms(3) by (simp add: newStateHost_def)
next
  have "Host_Status h \<noteq> HostStatusInstallingInProgress" using assms(3) by (auto simp: pool_statuses_def)
  then show "\<forall>tr\<in>set (rules_for th TransitionTypeRefresh (Host_Status h)).
      post_ok (newStateHost h w) (TransitionArgsRefreshHost c r) tr" by (rule total_posts [OF _ assms(1)])
qed

theorem pool_refresh_total_witness:
  "let h = sample_host HostStatusDiscoveringUnbound; sh = newStateHost h (sample_world h) in
   outcome (Some HostStatusKnownUnbound) sh
     (sm_Run sample_handler TransitionTypeRefresh sh (TransitionArgsRefreshHost all_true []))"
  using pool_refresh_total [OF loaded_sample_host [of HostStatusDiscoveringUnbound], of all_true sample_handler "[]"]
  by (simp add: pool_statuses_def pool_spec_def Let_def)

section \<open>Total correctness of the other transitions\<close>

text \<open>The arguments that the manager passes with a transition; a reason has to fit the column.\<close>

definition control_args :: "host_transition_type \<Rightarrow> host_args \<Rightarrow> bool" where
  "control_args t args =
     (case (t, args) of
        (TransitionTypeHostInstallationFailed, TransitionArgsHostInstallationFailed reason) \<Rightarrow>
          length reason \<le> varchar_max
      | (TransitionTypeCancelInstallation, TransitionArgsCancelInstallation reason) \<Rightarrow>
          length reason \<le> varchar_max
      | (TransitionTypeInstallHost, TransitionArgsInstallHost) \<Rightarrow> True
      | (TransitionTypeResettingPendingUserAction, TransitionResettingPendingUserAction) \<Rightarrow> True
      | (TransitionTypeUnbindHost, TransitionArgsUnbindHost) \<Rightarrow> True
      | (TransitionTypeReclaimHost, TransitionArgsUnbindHost) \<Rightarrow> True
      | (TransitionTypeRebootingForReclaim, TransitionArgsReclaimHost) \<Rightarrow> True
      | (TransitionTypeReclaimFailed, TransitionArgsUnbindHost) \<Rightarrow> True
      | (TransitionTypeBindHost, TransitionArgsBindHost _) \<Rightarrow> True
      | _ \<Rightarrow> False)"

definition succeeds_on :: "host_args \<Rightarrow> host_action \<Rightarrow> bool" where
  "succeeds_on args f \<longleftrightarrow>
     (\<forall>sh. healthy (ctx_world sh) \<longrightarrow> stored_status sh = Some (srcState sh) \<longrightarrow>
        Host_Progress (sw_host sh) \<noteq> None \<longrightarrow> fst (f sh args) = None)"

lemma succeeds_on_post_ok:
  assumes "loaded h w" and "PostTransition tr = None \<or> (\<exists>f. PostTransition tr = Some f \<and> succeeds_on args f)"
  shows "post_ok (newStateHost h w) args tr"
proof -
  let ?sh1 = "snd (stateHost_SetState (DestinationState tr) (newStateHost h w))"
  have "stored_status ?sh1 = Some (srcState ?sh1)"
    using loaded_facts(4) [OF assms(1)]
    by (simp add: newStateHost_def stateHost_SetState_def stored_status_def stored_row_def sh_key_def host_key_def)
  moreover have "healthy (ctx_world ?sh1)" "Host_Progress (sw_host ?sh1) \<noteq> None"
    using loaded_facts(1,3) [OF assms(1)] by (auto simp: newStateHost_def stateHost_SetState_def)
  ultimately show ?thesis using assms(2) by (auto simp: post_ok_def succeeds_on_def)
qed

lemma short_infos:
  "length statusInfoInstalling \<le> varchar_max" "length statusInfoBinding \<le> varchar_max"
  "length statusInfoUnbinding \<le> varchar_max" "length statusInfoRebootingForReclaim \<le> varchar_max"
  "length statusInfoResettingPendingUserAction \<le> varchar_max" "length statusInfoRebootingDay2 \<le> varchar_max"
  by (simp_all add: statusInfoInstalling_def statusInfoBinding_def statusInfoUnbinding_def
      statusInfoRebootingForReclaim_def statusInfoResettingPendingUserAction_def statusInfoRebootingDay2_def
      varchar_max_def)

lemma bind_fits: "fits (resetFields @ [IName C_cluster_id, IUuid (Some c)])"
  by (intro fits_append fits_reset fits_pair fits_Nil) simp

lemma unbind_fits: "fits (resetFields @ resetLogsField @ restFieldsOnUnbind)"
  by (intro fits_append fits_reset)

lemma control_posts_succeed:
  "length reason \<le> varchar_max \<Longrightarrow>
     succeeds_on (TransitionArgsHostInstallationFailed reason) (PostHostInstallationFailed th)"
  "length reason \<le> varchar_max \<Longrightarrow>
     succeeds_on (TransitionArgsCancelInstallation reason) (PostCancelInstallation th)"
  "succeeds_on TransitionArgsInstallHost (PostInstallHost th)"
  "succeeds_on TransitionResettingPendingUserAction (PostResettingPendingUserAction th)"
  "succeeds_on TransitionArgsUnbindHost (PostUnbindHost th)"
  "succeeds_on TransitionArgsReclaimHost (PostReclaim th)"
  "succeeds_on (TransitionArgsBindHost cid) (PostBindHost th)"
  by (simp_all add: succeeds_on_def PostHostInstallationFailed_def PostCancelInstallation_def PostInstallHost_def
      PostResettingPendingUserAction_def PostUnbindHost_def updateHostForUnbind_def PostReclaim_def PostBindHost_def
      updateTransitionHost_succeeds short_infos bind_fits unbind_fits bind_extra_ok unbind_extra_ok)

text \<open>The post transition that the rules of a transition type have.\<close>

definition typical_post :: "transitionHandler \<Rightarrow> host_rule \<Rightarrow> bool" where
  "typical_post th tr =
     (case TransitionType tr of
        TransitionTypeHostInstallationFailed \<Rightarrow> PostTransition tr = Some (PostHostInstallationFailed th)
      | TransitionTypeCancelInstallation \<Rightarrow>
          PostTransition tr = None \<or> PostTransition tr = Some (PostCancelInstallation th)
      | TransitionTypeInstallHost \<Rightarrow> PostTransition tr = Some (PostInstallHost th)
      | TransitionTypeResettingPendingUserAction \<Rightarrow>
          PostTransition tr = Some (PostResettingPendingUserAction th)
      | TransitionTypeUnbindHost \<Rightarrow> PostTransition tr = Some (PostUnbindHost th)
      | TransitionTypeReclaimHost \<Rightarrow> PostTransition tr = Some (PostUnbindHost th)
      | TransitionTypeReclaimFailed \<Rightarrow> PostTransition tr = Some (PostUnbindHost th)
      | TransitionTypeRebootingForReclaim \<Rightarrow> PostTransition tr = Some (PostReclaim th)
      | TransitionTypeBindHost \<Rightarrow> PostTransition tr = Some (PostBindHost th)
      | TransitionTypeMediaDisconnect \<Rightarrow> PostTransition tr = Some (PostHostMediaDisconnected th)
      | TransitionTypeHostProgress \<Rightarrow>
          PostTransition tr = None \<or> PostTransition tr = Some (PostHostProgress th)
      | _ \<Rightarrow> True)"

lemma typical_post_groups:
  "list_all (typical_post th) (progress_rules th)" "list_all (typical_post th) (registration_rules th)"
  "list_all (typical_post th) (installation_control_rules th)" "list_all (typical_post th) (unbind_rules th)"
  "list_all (typical_post th) (preparing_rules th)" "list_all (typical_post th) (preparing_end_rules th)"
  "list_all (typical_post th) (disconnection_rules th)" "list_all (typical_post th) (installing_rules th)"
  "list_all (typical_post th) (stage_timeout_rules th)" "list_all (typical_post th) (pending_user_action_rules th)"
  "list_all (typical_post th) (discovery_rules th)" "list_all (typical_post th) (final_rules th)"
  "list_all (typical_post th) (pool_rules th)"
  by (simp_all add: rule_defs typical_post_def)

lemma typical_posts: "tr \<in> set (all_host_rules th) \<Longrightarrow> typical_post th tr"
  using typical_post_groups [of th] by (auto simp: all_host_rules_def host_rules_def list_all_iff)

lemma control_posts:
  assumes "loaded h w" and "control_args t args"
  shows "\<forall>tr \<in> set (rules_for th t (Host_Status h)). post_ok (newStateHost h w) args tr"
proof
  fix tr assume "tr \<in> set (rules_for th t (Host_Status h))"
  then have "typical_post th tr" "TransitionType tr = t" by (auto simp: rules_for_def typical_posts)
  with assms(2) have "PostTransition tr = None \<or> (\<exists>f. PostTransition tr = Some f \<and> succeeds_on args f)"
    by (auto simp: typical_post_def control_args_def control_posts_succeed
        split: host_transition_type.splits host_args.splits)
  then show "post_ok (newStateHost h w) args tr" by (rule succeeds_on_post_ok [OF assms(1)])
qed

text \<open>
  Every transition that is not a refresh, a registration, a progress report or a media disconnection
  (cancel, install, reset, bind, unbind, reclaim, reclaim failure, installation failure), run with the
  arguments that the manager passes, either has no rule for the host's status and changes nothing, or
  succeeds and leaves the status of \<open>control_spec\<close> in memory and in the row.
\<close>

lemma control_run:
  assumes "loaded h w" and "control_args t args"
  shows "outcome (control_spec t h) (newStateHost h w) (sm_Run th t (newStateHost h w) args)"
proof (rule run_total [OF assms(1) _ _ control_posts [OF assms]])
  have t: "t \<notin> {TransitionTypeHostProgress, TransitionTypeRegisterHost, TransitionTypeRefresh,
      TransitionTypeMediaDisconnect}"
    using assms(2) by (auto simp: control_args_def)
  then show "t \<noteq> TransitionTypeMediaDisconnect" by simp
  show "destination th t (newStateHost h w) args = Inr (control_spec t h)"
    using control_destination [of t th "newStateHost h w" args] t by (simp add: newStateHost_def)
qed

lemma progress_posts:
  assumes "loaded h w"
  shows "\<forall>tr \<in> set (rules_for th TransitionTypeHostProgress (Host_Status h)).
    post_ok (newStateHost h w) (TransitionArgsProgressHost managed) tr"
proof -
  have "length (host_stage_string stage) \<le> varchar_max" for stage
    by (cases stage) (simp_all add: varchar_max_def)
  then have "succeeds_on (TransitionArgsProgressHost managed) (PostHostProgress th)"
    by (auto simp: succeeds_on_def PostHostProgress_def current_stage_def Let_def
        updateTransitionHost_succeeds short_infos)
  then have "PostTransition tr = None \<or>
      (\<exists>f. PostTransition tr = Some f \<and> succeeds_on (TransitionArgsProgressHost managed) f)"
    if "tr \<in> set (rules_for th TransitionTypeHostProgress (Host_Status h))" for tr
    using that typical_posts [of tr th] by (auto simp: rules_for_def typical_post_def)
  then show ?thesis using succeeds_on_post_ok [OF assms(1)] by blast
qed

text \<open>
  A progress report has the outcome of \<open>progress_spec\<close>: a host becomes installed exactly when it is
  installing, reports the stage Done and is not a day-2 host; a day-2 host that reports Done is added to
  its existing cluster; every other report of an installing host leaves it in progress, also one that
  waited for the user.
\<close>

lemma progress_run:
  assumes "loaded h w" and "Host_Progress h = Some p"
  shows "outcome (progress_spec h (CurrentStage p)) (newStateHost h w)
    (sm_Run th TransitionTypeHostProgress (newStateHost h w) (TransitionArgsProgressHost managed))"
  by (rule run_total [OF assms(1) _ _ progress_posts [OF assms(1)]])
     (use progress_destination [of "newStateHost h w" p th] assms(2) in \<open>simp_all add: newStateHost_def\<close>)

end
