(* ===== verification/Host_Binding.thy ===== *)
theory Host_Binding
  imports Host_Behaviour
begin

text \<open>
  The binding of a host to a cluster is recorded twice, in the column \<open>cluster_id\<close> and in the status:
  the statuses of the pool are those of hosts without a cluster. Every run of the machine keeps the two
  consistent, whatever the host in memory is, whether the run succeeds and whether its statements do.
\<close>

section \<open>The invariant\<close>

definition unbound_statuses :: "host_status list" where
  "unbound_statuses =
     [HostStatusDiscoveringUnbound, HostStatusDisconnectedUnbound, HostStatusInsufficientUnbound,
      HostStatusKnownUnbound, HostStatusDisabledUnbound, HostStatusUnbinding,
      HostStatusUnbindingPendingUserAction, HostStatusReclaiming, HostStatusReclaimingRebooting]"

definition bound_row :: "host \<Rightarrow> bool" where
  "bound_row h \<longleftrightarrow> Host_Status h \<noteq> HostStatusEmpty \<and>
     (Host_Status h \<in> set unbound_statuses \<longleftrightarrow> Host_ClusterID h = None)"

definition binding_ok :: "world \<Rightarrow> bool" where
  "binding_ok w \<longleftrightarrow> list_all bound_row (w_hosts w)"

text \<open>The value that an argument list assigns to \<open>cluster_id\<close>.\<close>

definition cluster_of :: "iface list \<Rightarrow> iface option" where
  "cluster_of extra = (case pairs_of extra of Inl _ \<Rightarrow> None | Inr cvs \<Rightarrow> map_of (rev cvs) C_cluster_id)"

definition cluster_ok :: "host_status \<Rightarrow> host_status \<Rightarrow> iface list \<Rightarrow> bool" where
  "cluster_ok s d extra \<longleftrightarrow> d \<noteq> HostStatusEmpty \<and>
     (case cluster_of extra of
        None \<Rightarrow> s \<in> set unbound_statuses \<longleftrightarrow> d \<in> set unbound_statuses
      | Some v \<Rightarrow> (v = IUuid None \<and> d \<in> set unbound_statuses) \<or>
                  (\<exists>c. v = IUuid (Some c)) \<and> d \<notin> set unbound_statuses)"

definition safe_write :: "host_status \<Rightarrow> iface list \<Rightarrow> bool" where
  "safe_write s extra \<longleftrightarrow>
     (\<forall>f h. assignment extra = Some f \<longrightarrow> bound_row h \<longrightarrow> Host_Status h = s \<longrightarrow> bound_row (f h))"

lemma UpdateHost_binding:
  assumes "safe_write s extra" and "binding_ok w"
  shows "binding_ok (snd (UpdateHost i j s extra w))"
proof (rule UpdateHost_snd_cases [of i j s extra w])
  show ?thesis if "snd (UpdateHost i j s extra w) = w" using that assms by simp
  show ?thesis if "assignment extra = Some f"
    "snd (UpdateHost i j s extra w) = update_rows (guard_row (i, j) s) f w" for f
    using that assms
    by (auto simp: binding_ok_def update_rows_def list_all_iff guard_row_def safe_write_def)
qed

lemma safe_write_columns:
  assumes "pairs_of extra = Inr cvs"
    and "map_of (rev cvs) C_status = Some (IStatus d) \<or> map_of (rev cvs) C_status = None \<and> d = s"
    and "cluster_ok s d extra"
  shows "safe_write s extra"
  unfolding safe_write_def
proof (intro allI impI)
  fix f h assume f: "assignment extra = Some f" and h: "bound_row h" "Host_Status h = s"
  have "Host_Status (f h) = d"
    using assignment_column [OF f assms(1), of C_status h] assms(2) h(2) by auto
  moreover have "Host_ClusterID (f h) =
      (case map_of (rev cvs) C_cluster_id of None \<Rightarrow> Host_ClusterID h
       | Some v \<Rightarrow> (case v of IUuid u \<Rightarrow> u | _ \<Rightarrow> Host_ClusterID (f h)))"
    using assignment_column [OF f assms(1), of C_cluster_id h] by (auto split: option.splits iface.splits)
  ultimately show "bound_row (f h)"
    using assms(1,3) h by (auto simp: bound_row_def cluster_ok_def cluster_of_def split: option.splits)
qed

lemma safe_status_extra:
  assumes "extra_ok extra" and "cluster_ok s d extra"
  shows "safe_write s (status_extra now s d info extra)"
proof -
  from assms(1) obtain cvs where cvs: "pairs_of extra = Inr cvs" "C_status \<notin> fst ` set cvs" "even (length extra)"
    by (auto simp: extra_ok_def split: sum.splits)
  obtain cvs' where cvs': "pairs_of (status_extra now s d info extra) = Inr cvs'"
    "map_of (rev cvs') C_status = Some (IStatus d)" "map_of (rev cvs') C_cluster_id = map_of (rev cvs) C_cluster_id"
    using cvs by (cases "d = s")
      (auto simp: status_extra_def pairs_of_append map_of_rev_notin map_add_def split: option.splits)
  show ?thesis
    by (rule safe_write_columns [OF cvs'(1)]) (use assms(2) cvs cvs' in \<open>auto simp: cluster_ok_def cluster_of_def\<close>)
qed

lemma safe_no_status:
  assumes "extra_ok extra" and "cluster_of extra = None" and "s \<noteq> HostStatusEmpty"
  shows "safe_write s extra"
proof -
  from assms(1) obtain cvs where "pairs_of extra = Inr cvs" "C_status \<notin> fst ` set cvs"
    by (auto simp: extra_ok_def split: sum.splits)
  then show ?thesis
    using assms(2,3) by (intro safe_write_columns [of _ _ s]) (auto simp: map_of_rev_notin cluster_ok_def)
qed

lemma UpdateHostStatus_binding:
  assumes "extra_ok extra" and "cluster_ok s d extra" and "binding_ok w"
  shows "binding_ok (snd (UpdateHostStatus J i j s d info extra w))"
  using UpdateHost_binding [OF safe_status_extra [OF assms(1,2)] assms(3)]
  by (simp add: binding_ok_def frame_simps)

section \<open>Post transitions\<close>

definition preserves_binding :: "host_status list \<Rightarrow> host_status \<Rightarrow> host_action \<Rightarrow> bool" where
  "preserves_binding srcs d f \<longleftrightarrow>
     (\<forall>sh args. binding_ok (ctx_world sh) \<longrightarrow> srcState sh \<in> set srcs \<longrightarrow> Host_Status (sw_host sh) = d \<longrightarrow>
        stored_row sh \<noteq> None \<longrightarrow> binding_ok (ctx_world (snd (f sh args))))"

definition same_binding :: "host_status list \<Rightarrow> host_status \<Rightarrow> bool" where
  "same_binding srcs d \<longleftrightarrow> d \<noteq> HostStatusEmpty \<and> HostStatusEmpty \<notin> set srcs \<and>
     list_all (\<lambda>s. s \<in> set unbound_statuses \<longleftrightarrow> d \<in> set unbound_statuses) srcs"

lemma same_cluster_ok:
  "same_binding srcs d \<Longrightarrow> s \<in> set srcs \<Longrightarrow> cluster_of extra = None \<Longrightarrow> cluster_ok s d extra"
  by (auto simp: same_binding_def cluster_ok_def list_all_iff)

lemma updateTransitionHost_binding:
  assumes "extra_ok extra" and "cluster_ok (srcState sh) (Host_Status (sw_host sh)) extra"
    and "binding_ok (ctx_world sh)"
  shows "binding_ok (ctx_world (snd (updateTransitionHost th sh info extra)))"
  using UpdateHostStatus_binding [OF assms(1,2), of "ctx_world sh" "th_unmarshal th" "Host_InfraEnvID (sw_host sh)"
      "Host_ID (sw_host sh)" info] assms(3)
  by (auto simp: updateTransitionHost_def split: prod.splits sum.splits option.splits)

lemma update_discarding_binding:
  assumes "extra_ok extra" and "cluster_ok (srcState sh) (Host_Status (sw_host sh)) extra"
    and "binding_ok (ctx_world sh)"
  shows "binding_ok (ctx_world (snd (update_discarding th sh info extra)))"
  using UpdateHostStatus_binding [OF assms(1,2), of "ctx_world sh" "th_unmarshal th" "Host_InfraEnvID (sw_host sh)"
      "Host_ID (sw_host sh)" info] assms(3)
  by (auto simp: update_discarding_def split: prod.splits sum.splits option.splits)

lemma cluster_of_simps [simp]:
  "cluster_of [] = None" "cluster_of resetLogsField = None"
  "cluster_of (resetFields @ resetLogsField @ restFieldsOnUnbind) = Some (IUuid None)"
  "cluster_of (resetFields @ [IName C_cluster_id, IUuid (Some c)]) = Some (IUuid (Some c))"
  "cluster_of ((if b then [IName C_images_status, IString ''''] else []) @ resetLogsField) = None"
  "cluster_of (resetFields @ IName C_discovery_agent_version # IString v # IName C_ntp_sources # IString '''' #
     IName C_kind # IKind k # resetLogsField) = None"
  "cluster_of (filter_extra (resetFields @ [IName C_discovery_agent_version, IString v, IName C_ntp_sources,
     IString '''', IName C_kind, IKind k]) @ resetLogsField) = None"
  "cluster_of (IName C_images_status # IString [] # resetLogsField) = None"
  "cluster_of [IName C_media_status, IMedia m] = None"
  "cluster_of [IName C_connection_timed_out, IBool b] = None"
  "cluster_of [IName C_logs_info, ILogs l] = None"
  "cluster_of [IName C_logs_info, ILogs l, IName C_logs_started_at, ITime t] = None"
  "cluster_of [IName C_progress_stage_updated_at, ITime t] = None"
  "cluster_of [IName C_status_info, IString i, IName C_progress_stage_timed_out, IBool b] = None"
  by (simp_all add: cluster_of_def resetFields_def resetProgressFields_def resetLogsField_def
      restFieldsOnUnbind_def)

lemma binding_refresh_update:
  assumes "cluster_ok (srcState sh) (Host_Status (sw_host sh)) []" and "binding_ok (ctx_world sh)"
  shows "binding_ok (ctx_world (snd (refresh_update th sh info)))"
  using update_discarding_binding [OF extra_ok_Nil assms] assms(2) by (simp add: refresh_update_def)

text \<open>Posts that do not assign the cluster.\<close>

lemma update_posts_binding:
  assumes "same_binding srcs d"
  shows "preserves_binding srcs d (PostRegisterDuringInstallation th)"
    "preserves_binding srcs d (PostHostInstallationFailed th)"
    "preserves_binding srcs d (PostCancelInstallation th)"
    "preserves_binding srcs d (PostInstallHost th)"
    "preserves_binding srcs d (PostReclaim th)"
    "preserves_binding srcs d (PostResettingPendingUserAction th)"
    "preserves_binding srcs d (PostHostProgress th)"
    "preserves_binding srcs d (PostRegisterDuringReboot th)"
    "preserves_binding srcs d (PostRegisterAfterInstallation th)"
    "preserves_binding srcs d (PostPreparingForInstallationHost th)"
  unfolding preserves_binding_def using assms
  by (auto simp: PostRegisterDuringInstallation_def PostHostInstallationFailed_def PostCancelInstallation_def
      PostInstallHost_def PostReclaim_def PostResettingPendingUserAction_def PostHostProgress_def
      PostRegisterDuringReboot_def PostRegisterAfterInstallation_def PostPreparingForInstallationHost_def
      Let_def prepare_extra_ok split: host_args.splits sum.splits
      intro!: updateTransitionHost_binding extra_ok_pair intro: same_cluster_ok)

lemma refresh_posts_binding:
  assumes "same_binding srcs d"
  shows "preserves_binding srcs d (PostRefreshHost th reason)"
    "preserves_binding srcs d (PostHostPreparationTimeout th)"
    "preserves_binding srcs d (PostRefreshHostDisconnection th info b)"
  unfolding preserves_binding_def using assms
  by (auto simp: PostRefreshHost_def PostHostPreparationTimeout_def PostRefreshHostDisconnection_def Let_def
      disconnection_extra_ok split: host_args.splits sum.splits
      intro!: binding_refresh_update update_discarding_binding intro: same_cluster_ok)

lemma UpdateHost_hosts_cong:
  assumes "w_hosts w1 = w_hosts w2" and "w_dbfault w1 = w_dbfault w2"
  shows "w_hosts (snd (UpdateHost i j s extra w1)) = w_hosts (snd (UpdateHost i j s extra w2))"
  using assms
  by (auto simp: UpdateHost_def update_rows_def GetHostFromDB_def Let_def split: sum.splits option.splits)

text \<open>Posts that write other columns only.\<close>

lemma column_posts_binding:
  assumes "same_binding srcs d"
  shows "preserves_binding srcs d (PostRefreshLogsProgress th l)"
    "preserves_binding srcs d (PostRefreshHostRefreshStageUpdateTime th)"
    "preserves_binding srcs d (PostHostStageTimeout th reason)"
proof -
  have ne: "s \<in> set srcs \<Longrightarrow> s \<noteq> HostStatusEmpty" for s using assms by (auto simp: same_binding_def)
  have logs: "binding_ok w \<Longrightarrow> s \<in> set srcs \<Longrightarrow> binding_ok (snd (UpdateLogsProgress i j s l [] w))" for w i j s
    by (auto simp: UpdateLogsProgress_def intro!: UpdateHost_binding safe_no_status logs_extra_ok ne)
  have stage: "binding_ok w \<Longrightarrow> s \<in> set srcs \<Longrightarrow>
      binding_ok (snd (UpdateHost i j s [IName C_progress_stage_updated_at, ITime t] w))" for w i j s t
    by (auto intro!: UpdateHost_binding safe_no_status logs_extra_ok ne)
  have timeout: "binding_ok (snd (UpdateHostStageTimeout J i j s info m [] w))"
    if "binding_ok w" "s \<in> set srcs" for J w i j s info m
  proof -
    have "binding_ok (snd (UpdateHost i j s
        [IName C_status_info, IString info, IName C_progress_stage_timed_out, IBool True] w))"
      using that by (auto intro!: UpdateHost_binding safe_no_status logs_extra_ok ne)
    then show ?thesis by (simp add: binding_ok_def UpdateHostStageTimeout_hosts)
  qed
  show "preserves_binding srcs d (PostRefreshLogsProgress th l)"
    unfolding preserves_binding_def using logs
    by (auto simp: PostRefreshLogsProgress_def split: host_args.splits prod.splits sum.splits) (metis snd_conv)+
  show "preserves_binding srcs d (PostRefreshHostRefreshStageUpdateTime th)"
    unfolding preserves_binding_def using stage
    by (auto simp: PostRefreshHostRefreshStageUpdateTime_def refreshHostStageUpdateTime_def
        split: host_args.splits prod.splits sum.splits option.splits) (metis snd_conv)+
  show "preserves_binding srcs d (PostHostStageTimeout th reason)"
    unfolding preserves_binding_def using timeout
    by (auto simp: PostHostStageTimeout_def
        split: host_args.splits prod.splits sum.splits option.splits) (metis snd_conv)+
qed

text \<open>Posts that bind or unbind.\<close>

lemma cluster_posts_binding:
  "d \<in> set unbound_statuses \<Longrightarrow> preserves_binding srcs d (PostUnbindHost th)"
  "d \<in> set unbound_statuses \<Longrightarrow> preserves_binding srcs d (PostRefreshReclaimTimeout th)"
  "d \<notin> set unbound_statuses \<Longrightarrow> d \<noteq> HostStatusEmpty \<Longrightarrow> preserves_binding srcs d (PostBindHost th)"
proof -
  have e: "HostStatusEmpty \<notin> set unbound_statuses" by (simp add: unbound_statuses_def)
  show "d \<in> set unbound_statuses \<Longrightarrow> preserves_binding srcs d (PostUnbindHost th)"
    "d \<in> set unbound_statuses \<Longrightarrow> preserves_binding srcs d (PostRefreshReclaimTimeout th)"
    "d \<notin> set unbound_statuses \<Longrightarrow> d \<noteq> HostStatusEmpty \<Longrightarrow> preserves_binding srcs d (PostBindHost th)"
    unfolding preserves_binding_def using e
    by (auto simp: PostUnbindHost_def PostRefreshReclaimTimeout_def updateHostForUnbind_def PostBindHost_def
        cluster_ok_def unbind_extra_ok bind_extra_ok split: host_args.splits intro!: updateTransitionHost_binding)
qed

text \<open>Posts that change the world before they update the host.\<close>

lemma PostHostMediaDisconnected_binding:
  assumes "same_binding srcs d"
  shows "preserves_binding srcs d (PostHostMediaDisconnected th)"
proof -
  have "binding_ok (ctx_world (snd (updateTransitionHost th (sh\<lparr>ctx_world := send_event e (ctx_world sh)\<rparr>) info
      [IName C_media_status, IMedia m])))"
    if "binding_ok (ctx_world sh)" "srcState sh \<in> set srcs" "Host_Status (sw_host sh) = d" for sh e info m
    using that assms
    by (intro updateTransitionHost_binding media_extra_ok) (auto simp: binding_ok_def intro: same_cluster_ok)
  then show ?thesis
    by (auto simp: preserves_binding_def PostHostMediaDisconnected_def Let_def split: host_args.splits)
qed

lemma PostRegisterHost_binding:
  assumes "same_binding srcs d"
  shows "preserves_binding srcs d (PostRegisterHost th)"
  unfolding preserves_binding_def
proof (intro allI impI)
  fix sh args
  assume ok: "binding_ok (ctx_world sh)" "srcState sh \<in> set srcs" "Host_Status (sw_host sh) = d"
    "stored_row sh \<noteq> None"
  then obtain r where r: "find_host (host_key (sw_host sh)) (ctx_world sh) = Some r"
    by (auto simp: stored_row_def sh_key_def)
  have c: "Create_host ((sw_host sh)\<lparr>Host_StatusUpdatedAt := t, Host_StatusInfo := i,
      Host_TriggerMonitorTimestamp := u\<rparr>) (ctx_world sh) = (Some ErrDB, ctx_world sh)" for t i u
    by (rule Create_host_stored [of _ _ r]) (use r in \<open>simp add: host_key_def\<close>)
  have u: "binding_ok (ctx_world (snd (updateTransitionHost th sh info
      (resetFields @ [IName C_discovery_agent_version, IString v, IName C_ntp_sources, IString '''',
       IName C_kind, IKind k] @ resetLogsField))))" for info v k
    using ok assms by (intro updateTransitionHost_binding) (auto simp: extra_ok_intros intro: same_cluster_ok)
  show "binding_ok (ctx_world (snd (PostRegisterHost th sh args)))"
    using ok u by (auto simp: PostRegisterHost_def c Let_def split: host_args.splits sum.splits)
qed

lemma reset_preparation_binding:
  "binding_ok (snd (reset_preparation c w)) = binding_ok w"
  by (simp add: binding_ok_def)

lemma PostRegisterDuringPreparing_binding:
  assumes "same_binding srcs HostStatusKnown"
  shows "preserves_binding srcs HostStatusKnown (PostRegisterDuringPreparingForInstallation th)"
proof -
  have "binding_ok (snd (UpdateHostStatus J i j s HostStatusKnown info
      (filter_extra (resetFields @ [IName C_discovery_agent_version, IString v, IName C_ntp_sources, IString '''',
       IName C_kind, IKind k]) @ resetLogsField) w))" if "binding_ok w" "s \<in> set srcs" for J i j s info v k w
    using that assms by (intro UpdateHostStatus_binding) (auto simp: extra_ok_intros intro: same_cluster_ok)
  then have upd: "UpdateHostStatus J i j s HostStatusKnown info
      (filter_extra (resetFields @ [IName C_discovery_agent_version, IString v, IName C_ntp_sources, IString '''',
       IName C_kind, IKind k]) @ resetLogsField) w = (res, w') \<Longrightarrow> binding_ok w \<Longrightarrow> s \<in> set srcs \<Longrightarrow> binding_ok w'"
    for J i j s info v k w res w' by (metis snd_conv)
  have res: "reset_preparation c w = (e, w') \<Longrightarrow> binding_ok w \<Longrightarrow> binding_ok w'" for c w e w'
    using reset_preparation_binding by (metis snd_conv)
  show ?thesis
    unfolding preserves_binding_def
    by (auto simp: PostRegisterDuringPreparingForInstallation_def Let_def
        split: host_args.splits sum.splits prod.splits option.splits dest: upd res)
qed

section \<open>Rules and runs\<close>

lemmas binding_laws =
  update_posts_binding refresh_posts_binding column_posts_binding cluster_posts_binding
  PostHostMediaDisconnected_binding PostRegisterHost_binding PostRegisterDuringPreparing_binding

definition rule_binding :: "transitionHandler \<Rightarrow> host_rule \<Rightarrow> bool" where
  "rule_binding th tr \<longleftrightarrow>
     (if SourceStates tr = [HostStatusEmpty] then PostTransition tr = Some (PostRegisterHost th)
      else (case PostTransition tr of
              None \<Rightarrow> True | Some f \<Rightarrow> preserves_binding (SourceStates tr) (DestinationState tr) f))"

lemma rule_groups_binding:
  "list_all (rule_binding th) (progress_rules th)" "list_all (rule_binding th) (registration_rules th)"
  "list_all (rule_binding th) (installation_control_rules th)" "list_all (rule_binding th) (unbind_rules th)"
  "list_all (rule_binding th) (preparing_rules th)" "list_all (rule_binding th) (preparing_end_rules th)"
  "list_all (rule_binding th) (disconnection_rules th)" "list_all (rule_binding th) (installing_rules th)"
  "list_all (rule_binding th) (stage_timeout_rules th)" "list_all (rule_binding th) (pending_user_action_rules th)"
  "list_all (rule_binding th) (discovery_rules th)" "list_all (rule_binding th) (final_rules th)"
  "list_all (rule_binding th) (pool_rules th)"
  by (simp_all add: rule_defs rule_binding_def binding_laws same_binding_def unbound_statuses_def)

lemma all_rules_binding: "tr \<in> set (all_host_rules th) \<Longrightarrow> rule_binding th tr"
  using rule_groups_binding [of th] by (auto simp: all_host_rules_def host_rules_def list_all_iff)

text \<open>A run on a host with a row, which may have changed since the host was read.\<close>

lemma run_binding:
  assumes ok: "binding_ok w" and row: "find_host (host_key h) w \<noteq> None"
  shows "binding_ok (ctx_world (snd (sm_Run th t (newStateHost h w) args)))"
proof -
  let ?sh = "newStateHost h w"
  let ?sel = "select_rule stateHost_State (rules_for th t (stateHost_State ?sh)) ?sh args"
  have "binding_ok (ctx_world (snd (fire stateHost_SetState tr ?sh args)))" if "?sel = Inr (Some tr)" for tr
  proof -
    from select_rule_Some [OF that] have tr: "tr \<in> set (all_host_rules th)" "Host_Status h \<in> set (SourceStates tr)"
      by (auto simp: rules_for_def stateHost_State_def newStateHost_def)
    have nt: "Transition tr = None" using host_no_Transition [OF tr(1)] .
    let ?sh1 = "?sh\<lparr>sw_host := h\<lparr>Host_Status := DestinationState tr\<rparr>\<rparr>"
    show ?thesis
    proof (cases "PostTransition tr")
      case None
      with nt ok show ?thesis by (simp add: fire_def stateHost_SetState_def newStateHost_def)
    next
      case (Some f)
      have "binding_ok (ctx_world (snd (f ?sh1 args)))"
      proof (cases "SourceStates tr = [HostStatusEmpty]")
        case False
        with all_rules_binding [OF tr(1)] Some have "preserves_binding (SourceStates tr) (DestinationState tr) f"
          by (simp add: rule_binding_def)
        with ok tr row show ?thesis
          by (auto simp: preserves_binding_def newStateHost_def stored_row_def sh_key_def host_key_def)
      next
        case True
        with all_rules_binding [OF tr(1)] Some have f: "f = PostRegisterHost th" by (simp add: rule_binding_def)
        have "safe_write HostStatusEmpty extra" for extra by (auto simp: safe_write_def bound_row_def)
        then have "binding_ok (snd (UpdateHostStatus J i j HostStatusEmpty d info extra w))" for J i j d info extra
          using UpdateHost_binding [OF _ ok] by (simp add: binding_ok_def frame_simps)
        then have "binding_ok (ctx_world (snd (updateTransitionHost th ?sh1 info extra)))" for info extra
          using True tr(2) by (auto simp: updateTransitionHost_def newStateHost_def
              split: prod.splits sum.splits option.splits) (metis snd_conv)+
        moreover from row obtain r where "find_host (host_key h) w = Some r" by blast
        ultimately show ?thesis
          using ok Create_host_stored [of _ w r]
          by (auto simp: f PostRegisterHost_def Let_def newStateHost_def host_key_def split: host_args.splits sum.splits)
      qed
      with nt Some show ?thesis
        by (auto simp: fire_def stateHost_SetState_def newStateHost_def split: prod.splits)
    qed
  qed
  with ok show ?thesis
    by (auto simp: sm_Run_eq [OF rules_exist] newStateHost_def split: sum.splits option.splits)
qed

text \<open>The first registration of a host creates its row.\<close>

lemma Create_host_binding:
  "Create_host h w = (e, w') \<Longrightarrow> binding_ok w \<Longrightarrow> bound_row h \<Longrightarrow> binding_ok w'"
  by (auto simp: Create_host_def binding_ok_def bound_row_def split: if_splits)

lemma PostRegisterHost_create_binding:
  assumes "GetHostFromDB (ctx_world sh) (Host_InfraEnvID (sw_host sh)) (Host_ID (sw_host sh)) = Inl err"
    and "binding_ok (ctx_world sh)" and "bound_row (sw_host sh)"
  shows "binding_ok (ctx_world (snd (PostRegisterHost th sh args)))"
proof -
  have "bound_row ((sw_host sh)\<lparr>Host_StatusUpdatedAt := t, Host_StatusInfo := i, Host_TriggerMonitorTimestamp := u\<rparr>)"
    for t i u using assms(3) by (simp add: bound_row_def)
  from Create_host_binding [OF _ assms(2) this] show ?thesis
    using assms(1,2)
    by (auto simp: PostRegisterHost_def Let_def binding_ok_def split: host_args.splits prod.splits option.splits)
qed

lemma registration_run:
  assumes "Host_Status h = HostStatusEmpty"
  shows "sm_Run th TransitionTypeRegisterHost (newStateHost h w) (TransitionArgsRegisterHost v) =
    PostRegisterHost th ((newStateHost h w)\<lparr>sw_host := h\<lparr>Host_Status :=
      if IsUnboundHost h then HostStatusDiscoveringUnbound else HostStatusDiscovering\<rparr>\<rparr>)
      (TransitionArgsRegisterHost v)"
  using assms
  by (simp add: sm_Run_eq [OF rules_exist] rules_for_def all_host_rules_def host_rules_def rule_defs fire_def
      IsAllowedToRun_def stateHost_State_def stateHost_SetState_def th_IsUnboundHost_def Not_def newStateHost_def
      split: prod.splits option.splits)

lemma registration_binding:
  assumes ok: "binding_ok w" and row: "find_host (host_key h) w = None" and st: "Host_Status h = HostStatusEmpty"
  shows "binding_ok (ctx_world (snd (sm_Run th TransitionTypeRegisterHost (newStateHost h w) (TransitionArgsRegisterHost v))))"
proof -
  let ?d = "if IsUnboundHost h then HostStatusDiscoveringUnbound else HostStatusDiscovering"
  let ?sh1 = "(newStateHost h w)\<lparr>sw_host := h\<lparr>Host_Status := ?d\<rparr>\<rparr>"
  have "\<exists>err. GetHostFromDB w (Host_InfraEnvID h) (Host_ID h) = Inl err"
    using row by (auto simp: GetHostFromDB_def host_key_def)
  moreover have "bound_row (sw_host ?sh1)"
    by (auto simp: bound_row_def unbound_statuses_def IsUnboundHost_def)
  ultimately show ?thesis
    unfolding registration_run [OF st]
    using PostRegisterHost_create_binding [of ?sh1] ok by (auto simp: newStateHost_def)
qed

end
