(* ===== verification/Float64.thy ===== *)
theory Float64
  imports Complex_Main "HOL-Library.Log_Nat"
begin

text \<open>
  The fragment of Go's \<open>float64\<close> that the progress computations use: conversion from \<open>int64\<close>,
  multiplication, addition and division, each of which rounds the exact result to 53 significant bits
  (ties to even), and conversion to \<open>int64\<close>, which truncates. Values are rational numbers; they stay far
  from the ends of the exponent range, so overflow and subnormal numbers do not occur. Each operation
  rounds on its own (no fused multiply-add).
\<close>

section \<open>Rounding\<close>

text \<open>The exponent of a positive number: the largest power of two that is not above it.\<close>

definition ilog2 :: "rat \<Rightarrow> int" where
  "ilog2 q =
     (case quotient_of q of (n, d) \<Rightarrow>
        let e = bitlen n - bitlen d in if 2 powi e \<le> q then e else e - 1)"

definition round_half_even :: "rat \<Rightarrow> int" where
  "round_half_even q =
     (let f = \<lfloor>q\<rfloor>; r = q - of_int f
      in if r < 1 / 2 then f else if r > 1 / 2 then f + 1 else if even f then f else f + 1)"

definition ulp :: "rat \<Rightarrow> rat" where
  "ulp q = 2 powi (ilog2 q - 52)"

definition f64 :: "rat \<Rightarrow> rat" where
  "f64 q =
     (if q = 0 then 0
      else sgn q * (of_int (round_half_even (\<bar>q\<bar> / ulp \<bar>q\<bar>)) * ulp \<bar>q\<bar>))"

section \<open>Operations\<close>

definition float64 :: "int \<Rightarrow> rat" where
  "float64 i = f64 (of_int i)"

definition fmul :: "rat \<Rightarrow> rat \<Rightarrow> rat" where
  "fmul x y = f64 (x * y)"

definition fadd :: "rat \<Rightarrow> rat \<Rightarrow> rat" where
  "fadd x y = f64 (x + y)"

text \<open>A division by zero yields an infinity or not a number, here \<^term>\<open>None\<close>.\<close>

definition fdiv :: "rat \<Rightarrow> rat \<Rightarrow> rat option" where
  "fdiv x y = (if y = 0 then None else Some (f64 (x / y)))"

definition int64 :: "rat \<Rightarrow> int" where
  "int64 q = (if 0 \<le> q then \<lfloor>q\<rfloor> else \<lceil>q\<rceil>)"

section \<open>Laws of rounding\<close>

lemma bitlen_powi:
  assumes "0 < n"
  shows "2 powi (bitlen n - 1) \<le> (of_int n :: rat)" and "(of_int n :: rat) < 2 powi bitlen n"
proof -
  have pos: "0 < bitlen n" using assms bitlen_eq_zero_iff [of n] bitlen_nonneg [of n] by linarith
  have "2 ^ nat (bitlen n - 1) \<le> n" "n < 2 ^ nat (bitlen n)" using bitlen_bounds [OF assms] by auto
  then have "(of_int (2 ^ nat (bitlen n - 1)) :: rat) \<le> of_int n" "(of_int n :: rat) < of_int (2 ^ nat (bitlen n))"
    by (simp_all only: of_int_le_iff of_int_less_iff)
  then show "2 powi (bitlen n - 1) \<le> (of_int n :: rat)" "(of_int n :: rat) < 2 powi bitlen n"
    using pos by (simp_all add: power_int_def)
qed

lemma ilog2_bounds:
  assumes "0 < q"
  shows "2 powi ilog2 q \<le> q" and "q < 2 powi (ilog2 q + 1)"
proof -
  obtain n d where nd: "quotient_of q = (n, d)" by force
  from quotient_of_denom_pos [OF nd] have d: "0 < d" .
  from quotient_of_div [OF nd] have q: "q = of_int n / of_int d" .
  with assms d have n: "0 < n" by (simp add: zero_less_divide_iff)
  let ?e = "bitlen n - bitlen d"
  have "q < 2 powi bitlen n / 2 powi (bitlen d - 1)"
    unfolding q using bitlen_powi [OF n] bitlen_powi [OF d] d n by (intro frac_less) auto
  also have "\<dots> = 2 powi (?e + 1)" by (simp add: power_int_diff power_int_add)
  finally have up: "q < 2 powi (?e + 1)" .
  have "2 powi (bitlen n - 1) / 2 powi bitlen d < q"
    unfolding q using bitlen_powi [OF n] bitlen_powi [OF d] d n by (intro frac_less2) auto
  moreover have "2 powi (bitlen n - 1) / 2 powi bitlen d = (2 powi (?e - 1) :: rat)"
    by (simp add: power_int_diff)
  ultimately have low: "2 powi (?e - 1) < q" by simp
  show "2 powi ilog2 q \<le> q" "q < 2 powi (ilog2 q + 1)"
    using up low by (auto simp: ilog2_def nd Let_def)
qed

lemma powi2_mono: "a \<le> b \<Longrightarrow> (2 powi a :: rat) \<le> 2 powi b"
  by (simp add: power_int_increasing)

lemma ilog2_mono: "0 < x \<Longrightarrow> x \<le> y \<Longrightarrow> ilog2 x \<le> ilog2 y"
proof (rule ccontr)
  assume xy: "0 < x" "x \<le> y" and "\<not> ilog2 x \<le> ilog2 y"
  then have "(2 powi (ilog2 y + 1) :: rat) \<le> 2 powi ilog2 x" by (intro powi2_mono) simp
  with ilog2_bounds [of x] ilog2_bounds [of y] xy show False by simp
qed

lemma ulp_pos [simp]: "0 < ulp q"
  by (simp add: ulp_def)

lemma round_half_even_bounds: "\<lfloor>q\<rfloor> \<le> round_half_even q" "round_half_even q \<le> \<lfloor>q\<rfloor> + 1"
  by (simp_all add: round_half_even_def Let_def)

lemma round_half_even_int [simp]: "round_half_even (of_int i) = i"
  by (simp add: round_half_even_def Let_def)

lemma round_half_even_mono:
  assumes "x \<le> y"
  shows "round_half_even x \<le> round_half_even y"
proof (cases "\<lfloor>x\<rfloor> = \<lfloor>y\<rfloor>")
  case True
  with assms show ?thesis by (auto simp: round_half_even_def Let_def)
next
  case False
  with floor_mono [OF assms] have "\<lfloor>x\<rfloor> + 1 \<le> \<lfloor>y\<rfloor>" by linarith
  with round_half_even_bounds [of x] round_half_even_bounds [of y] show ?thesis by linarith
qed

text \<open>A rounded number stays in the binade of the number, whose ends are representable.\<close>

lemma f64_pos: "0 < q \<Longrightarrow> f64 q = of_int (round_half_even (q / ulp q)) * ulp q"
  by (simp add: f64_def)

lemma f64_binade:
  assumes "0 < q"
  shows "2 powi ilog2 q \<le> f64 q" and "f64 q \<le> 2 powi (ilog2 q + 1)"
proof -
  have 1: "(of_int (2 ^ 52) * ulp q :: rat) = 2 powi ilog2 q" "(of_int (2 ^ 53) * ulp q :: rat) = 2 powi (ilog2 q + 1)"
    by (simp_all add: ulp_def power_int_diff power_int_add)
  have "(of_int (2 ^ 52) :: rat) \<le> q / ulp q" "q / ulp q \<le> (of_int (2 ^ 53) :: rat)"
    using ilog2_bounds [OF assms] unfolding 1 [symmetric] by (simp_all add: pos_le_divide_eq pos_divide_le_eq)
  then have "2 ^ 52 \<le> round_half_even (q / ulp q)" "round_half_even (q / ulp q) \<le> 2 ^ 53"
    by (metis round_half_even_mono round_half_even_int)+
  then have "(of_int (2 ^ 52) :: rat) \<le> of_int (round_half_even (q / ulp q))"
      "(of_int (round_half_even (q / ulp q)) :: rat) \<le> of_int (2 ^ 53)"
    by (simp_all only: of_int_le_iff)
  then have "of_int (2 ^ 52) * ulp q \<le> f64 q" "f64 q \<le> of_int (2 ^ 53) * ulp q"
    unfolding f64_pos [OF assms] by (simp_all only: mult_right_mono ulp_pos less_imp_le)
  then show "2 powi ilog2 q \<le> f64 q" "f64 q \<le> 2 powi (ilog2 q + 1)" by (simp_all only: 1)
qed

lemma f64_nonneg: "0 \<le> q \<Longrightarrow> 0 \<le> f64 q"
  using f64_binade(1) [of q] by (cases "q = 0") (auto simp: f64_def order.trans [rotated])

lemma f64_mono:
  assumes "0 \<le> x" and "x \<le> y"
  shows "f64 x \<le> f64 y"
proof (cases "x = 0")
  case True
  with assms show ?thesis using f64_nonneg [of y] by (simp add: f64_def)
next
  case False
  with assms have x: "0 < x" and y: "0 < y" by auto
  show ?thesis
  proof (cases "ilog2 x = ilog2 y")
    case True
    then have u: "ulp x = ulp y" by (simp add: ulp_def)
    have "round_half_even (x / ulp y) \<le> round_half_even (y / ulp y)"
      using assms by (intro round_half_even_mono divide_right_mono) (simp_all add: less_imp_le)
    then show ?thesis by (simp add: f64_pos x y u)
  next
    case False
    with ilog2_mono [OF x assms(2)] have "(2 powi (ilog2 x + 1) :: rat) \<le> 2 powi ilog2 y"
      by (intro powi2_mono) simp
    with f64_binade [OF x] f64_binade [OF y] show ?thesis by linarith
  qed
qed

lemma f64_int:
  assumes "0 \<le> i" and "i \<le> 2 ^ 53"
  shows "f64 (of_int i) = of_int i"
proof (cases "i = 0")
  case False
  let ?q = "of_int i :: rat"
  from assms False have q: "0 < ?q" by simp
  show ?thesis
  proof (cases "ilog2 ?q \<le> 52")
    case True
    then have "?q / ulp ?q = of_int (i * 2 ^ nat (52 - ilog2 ?q))"
      by (simp add: ulp_def power_int_diff power_int_def field_simps flip: power_add)
    then have "of_int (round_half_even (?q / ulp ?q)) = ?q / ulp ?q"
      by (simp only: round_half_even_int)
    then show ?thesis by (simp add: f64_pos [OF q] less_imp_neq [OF ulp_pos, symmetric])
  next
    case False
    then have "(2 powi 53 :: rat) \<le> 2 powi ilog2 ?q" by (intro powi2_mono) simp
    with ilog2_bounds(1) [OF q] have "(of_int (2 ^ 53) :: rat) \<le> ?q" by simp
    then have "2 ^ 53 \<le> i" by (simp only: of_int_le_iff)
    with assms have i: "i = 2 ^ 53" by simp
    show ?thesis unfolding i by code_simp
  qed
qed (simp add: f64_def)

lemma f64_le_int: "0 \<le> x \<Longrightarrow> x \<le> of_int i \<Longrightarrow> 0 \<le> i \<Longrightarrow> i \<le> 2 ^ 53 \<Longrightarrow> f64 x \<le> of_int i"
  using f64_mono [of x "of_int i"] f64_int [of i] by simp

lemma float64_nonneg: "0 \<le> i \<Longrightarrow> 0 \<le> float64 i"
  by (simp add: float64_def f64_nonneg)

lemma float64_mono: "0 \<le> i \<Longrightarrow> i \<le> j \<Longrightarrow> float64 i \<le> float64 j"
  by (simp add: float64_def f64_mono)

lemma float64_pos: "0 < i \<Longrightarrow> 0 < float64 i"
  unfolding float64_def by (rule less_le_trans [OF _ f64_binade(1)]) simp_all

lemma float64_int: "0 \<le> i \<Longrightarrow> i \<le> 2 ^ 53 \<Longrightarrow> float64 i = of_int i"
  by (simp add: float64_def f64_int)

lemma fmul_bounds:
  "0 \<le> x \<Longrightarrow> 0 \<le> y \<Longrightarrow> x * y \<le> of_int i \<Longrightarrow> 0 \<le> i \<Longrightarrow> i \<le> 2 ^ 53 \<Longrightarrow>
   0 \<le> fmul x y \<and> fmul x y \<le> of_int i"
  by (simp add: fmul_def f64_nonneg f64_le_int)

lemma int64_bounds: "0 \<le> x \<Longrightarrow> x \<le> of_int i \<Longrightarrow> 0 \<le> int64 x \<and> int64 x \<le> i"
  by (simp add: int64_def) linarith

section \<open>Percentages\<close>

text \<open>\<open>int64((done / total) * 100)\<close>.\<close>

definition percentage :: "rat \<Rightarrow> rat \<Rightarrow> int option" where
  "percentage n whole = map_option (\<lambda>q. int64 (fmul q 100)) (fdiv n whole)"

lemma percentage_range:
  assumes "0 \<le> n" and "n \<le> whole" and "percentage n whole = Some p"
  shows "0 \<le> p" and "p \<le> 100"
proof -
  from assms(3) have t: "whole \<noteq> 0" and p: "p = int64 (fmul (f64 (n / whole)) 100)"
    by (auto simp: percentage_def fdiv_def split: if_splits)
  with assms have "0 \<le> n / whole" "n / whole \<le> of_int 1" by (auto simp: divide_le_eq_1)
  then have "0 \<le> f64 (n / whole)" "f64 (n / whole) \<le> 1" using f64_le_int [of "n / whole" 1] by (auto simp: f64_nonneg)
  then have "0 \<le> fmul (f64 (n / whole)) 100 \<and> fmul (f64 (n / whole)) 100 \<le> of_int 100"
    by (intro fmul_bounds) auto
  then show "0 \<le> p" "p \<le> 100" using int64_bounds [of "fmul (f64 (n / whole)) 100" 100] p by auto
qed

lemma percentage_complete: "0 < n \<Longrightarrow> percentage n n = Some 100"
proof -
  assume "0 < n"
  moreover have "f64 1 = 1" using f64_int [of 1] by simp
  moreover have "f64 100 = 100" using f64_int [of 100] by simp
  ultimately show ?thesis by (simp add: percentage_def fdiv_def fmul_def int64_def)
qed

end
