(* ===== verification/Host_Manager.thy ===== *)
theory Host_Manager
  imports Host_Binding Float64
begin

text \<open>
  The manager of hosts, \<open>internal/host/host.go\<close>: the operations that other components call. Each loads
  or receives a host, checks its status, writes the store or runs the state machine. Metrics are not
  modelled. The results of the hardware validator, JSON encoding, the table of infra-envs and the parsing
  of CIDRs are parameters.
\<close>

section \<open>The manager\<close>

text \<open>
  \<open>m_GetInfraEnvFromDB\<close> is the error of loading an infra-env, \<open>m_requirements\<close> that of loading the
  hardware requirements of a host of a cluster (or of none), \<open>m_ParseCIDR\<close> that of \<open>net.ParseCIDR\<close>.
\<close>

record manager =
  m_th :: transitionHandler
  m_validator :: validator
  m_kubeApiEnabled :: bool
  m_softTimeoutsEnabled :: bool
  m_GetInfraEnvFromDB :: "uuid \<Rightarrow> go_error option"
  m_requirements :: "cluster option \<Rightarrow> host \<Rightarrow> go_error option"
  m_ParseCIDR :: "string \<Rightarrow> go_error option"
  m_GetHostValidDisks :: "host \<Rightarrow> go_error + disk list"
  m_unmarshalValidations :: "string \<Rightarrow> go_error + validations_status"
  m_marshalValidations :: "validations_status \<Rightarrow> go_error + string"
  m_marshalDisks :: "(string \<rightharpoonup> disk_info) \<Rightarrow> go_error + string"
  m_marshalImages :: "(string \<times> image_status) list \<Rightarrow> go_error + string"

definition hostname_msg :: "manager \<Rightarrow> host \<Rightarrow> string" where
  "hostname_msg m h = GetHostnameForMsg (th_unmarshal (m_th m)) h"

text \<open>\<open>m.sm.Run(t, newStateHost(h), args)\<close>; of the state that it drives only the database outlives it.\<close>

definition run_sm ::
  "manager \<Rightarrow> host_transition_type \<Rightarrow> host_args \<Rightarrow> host \<Rightarrow> world \<Rightarrow> go_error option \<times> world" where
  "run_sm m t args h w =
     (case sm_Run (m_th m) t (newStateHost h w) args of (err, sh) \<Rightarrow> (err, ctx_world sh))"

section \<open>Updates by primary key\<close>

text \<open>
  \<open>db.Model(h).Updates(updates)\<close>: the statement is restricted to the primary keys of \<open>h\<close> that are set,
  and \<open>gorm\<close> assigns the values to \<open>h\<close> as well; the updated \<open>h\<close> is the result. No row need match.
\<close>

definition pk_row :: "host \<Rightarrow> host \<Rightarrow> bool" where
  "pk_row h r \<longleftrightarrow> Host_ID r = Host_ID h \<and> (Host_InfraEnvID h = '''' \<or> Host_InfraEnvID r = Host_InfraEnvID h)"

definition updateHost :: "host \<Rightarrow> (column \<times> iface) list \<Rightarrow> world \<Rightarrow> (go_error + host) \<times> world" where
  "updateHost h updates w =
     (case assign_all updates of
        None \<Rightarrow> (Inl ErrDB, w)
      | Some f \<Rightarrow> if w_dbfault w UpdateHosts then (Inl ErrDB, w)
                 else (Inr (f h), update_rows (pk_row h) f w))"

text \<open>\<open>db.First(&host, "id = ?", hostId)\<close>; of several rows with the identifier the first one listed.\<close>

definition GetHostFromDBbyHostId :: "world \<Rightarrow> uuid \<Rightarrow> go_error + host" where
  "GetHostFromDBbyHostId w hostId =
     (if w_dbfault w SelectHosts then Inl (ErrWrapf ''failed to get host'' ErrDB)
      else (case find (\<lambda>r. Host_ID r = hostId) (w_hosts w) of
              None \<Rightarrow> Inl (ErrWrapf ''failed to get host'' ErrRecordNotFound)
            | Some r \<Rightarrow> Inr r))"

definition updateHostAndNotify :: "host \<Rightarrow> (column \<times> iface) list \<Rightarrow> world \<Rightarrow> (go_error + host) \<times> world" where
  "updateHostAndNotify h updates w =
     (case updateHost h updates w of
        (Inl err, w1) \<Rightarrow> (Inl err, w1)
      | (Inr h1, w1) \<Rightarrow>
          (case GetHostFromDBbyHostId w1 (Host_ID h) of
             Inl _ \<Rightarrow> (Inr h1, w1)
           | Inr r \<Rightarrow> (Inr h1, Notify r w1)))"

text \<open>The error of a result.\<close>

definition error_of :: "go_error + 'a \<Rightarrow> go_error option" where
  "error_of r = (case r of Inl err \<Rightarrow> Some err | Inr _ \<Rightarrow> None)"

definition wrap_result :: "string \<Rightarrow> (go_error + 'a) \<times> world \<Rightarrow> (go_error + 'a) \<times> world" where
  "wrap_result msg rw = (case rw of (Inl err, w) \<Rightarrow> (Inl (ErrWrapf msg err), w) | (Inr x, w) \<Rightarrow> (Inr x, w))"

section \<open>Registration\<close>

definition DeleteSoftDeletedHost :: "uuid \<Rightarrow> uuid \<Rightarrow> world \<Rightarrow> go_error option \<times> world" where
  "DeleteSoftDeletedHost hostId infraEnvId w =
     (if w_dbfault w DeleteHosts
      then (Some (ErrWrapf ''error while trying to delete soft-deleted host'' ErrDB), w)
      else (None, w\<lparr>w_deleted_hosts :=
              filter (\<lambda>(_, r). host_key r \<noteq> (infraEnvId, hostId)) (w_deleted_hosts w)\<rparr>))"

definition RegisterHost :: "manager \<Rightarrow> host \<Rightarrow> world \<Rightarrow> go_error option \<times> world" where
  "RegisterHost m h w =
     (let args = TransitionArgsRegisterHost (Host_DiscoveryAgentVersion h) in
      case GetHostFromDB w (Host_InfraEnvID h) (Host_ID h) of
        Inl err \<Rightarrow>
          if \<not> is_record_not_found err then (Some err, w)
          else (case DeleteSoftDeletedHost (Host_ID h) (Host_InfraEnvID h) w of
                  (Some err1, w1) \<Rightarrow> (Some err1, w1)
                | (None, w1) \<Rightarrow> run_sm m TransitionTypeRegisterHost args h w1)
      | Inr dbHost \<Rightarrow>
          let host = dbHost\<lparr>Host_Kind := Host_Kind h\<rparr> in
          (case updateHostAndNotify
                  (zero_host\<lparr>Host_ID := Host_ID host, Host_InfraEnvID := Host_InfraEnvID host\<rparr>)
                  [(C_registered_at, ITime (w_now w))] w of
             (Inl err, w1) \<Rightarrow> (Some (ErrWrapf ''error while updating registration timestamp of host'' err), w1)
           | (Inr _, w1) \<Rightarrow> run_sm m TransitionTypeRegisterHost args host w1))"

text \<open>A soft delete moves the row behind the filter \<open>deleted_at IS NULL\<close> of all other queries.\<close>

definition DeleteHostFromDB :: "uuid \<Rightarrow> uuid \<Rightarrow> world \<Rightarrow> go_error option \<times> world" where
  "DeleteHostFromDB hostId infraEnvId w =
     (if w_dbfault w DeleteHosts then (Some ErrDB, w)
      else (None, w\<lparr>w_hosts := filter (\<lambda>r. host_key r \<noteq> (infraEnvId, hostId)) (w_hosts w),
                    w_deleted_hosts := w_deleted_hosts w @
                      map (Pair (w_now w)) (filter (\<lambda>r. host_key r = (infraEnvId, hostId)) (w_hosts w))\<rparr>))"

definition UnRegisterHost :: "host \<Rightarrow> world \<Rightarrow> go_error option \<times> world" where
  "UnRegisterHost h w =
     (case DeleteHostFromDB (Host_ID h) (Host_InfraEnvID h) w of
        (Some err, w1) \<Rightarrow> (Some err, w1)
      | (None, w1) \<Rightarrow>
          (case Host_ClusterID h of
             None \<Rightarrow> (None, w1)
           | Some cid \<Rightarrow>
               if w_dbfault w1 UpdateClusters then (Some ErrDB, w1)
               else (None, w1\<lparr>w_clusters := map (\<lambda>c. if Cluster_ID c = cid
                       then c\<lparr>Cluster_TriggerMonitorTimestamp := w_now w1\<rparr> else c) (w_clusters w1)\<rparr>)))"

definition PermanentHostsDeletion :: "time \<Rightarrow> world \<Rightarrow> go_error option \<times> world" where
  "PermanentHostsDeletion olderThan w =
     (if w_dbfault w DeleteHosts then (Some ErrDB, w)
      else (None, w\<lparr>w_deleted_hosts := filter (\<lambda>(t, _). \<not> t < olderThan) (w_deleted_hosts w)\<rparr>))"

section \<open>Operations that run the machine\<close>

definition HandleInstallationFailure :: "manager \<Rightarrow> host \<Rightarrow> world \<Rightarrow> go_error option \<times> world" where
  "HandleInstallationFailure m =
     run_sm m TransitionTypeHostInstallationFailed
       (TransitionArgsHostInstallationFailed ''installation command failed'')"

definition HandlePrepareInstallationFailure :: "manager \<Rightarrow> string \<Rightarrow> host \<Rightarrow> world \<Rightarrow> go_error option \<times> world" where
  "HandlePrepareInstallationFailure m reason =
     run_sm m TransitionTypeHostInstallationFailed (TransitionArgsHostInstallationFailed reason)"

definition HandleMediaDisconnected :: "manager \<Rightarrow> host \<Rightarrow> world \<Rightarrow> go_error option \<times> world" where
  "HandleMediaDisconnected m = run_sm m TransitionTypeMediaDisconnect TransitionArgsMediaDisconnected"

definition HandleReclaimBootArtifactDownload :: "manager \<Rightarrow> host \<Rightarrow> world \<Rightarrow> go_error option \<times> world" where
  "HandleReclaimBootArtifactDownload m = run_sm m TransitionTypeRebootingForReclaim TransitionArgsReclaimHost"

definition HandleReclaimFailure :: "manager \<Rightarrow> host \<Rightarrow> world \<Rightarrow> go_error option \<times> world" where
  "HandleReclaimFailure m = run_sm m TransitionTypeReclaimFailed TransitionArgsUnbindHost"

definition Install :: "manager \<Rightarrow> host \<Rightarrow> world \<Rightarrow> go_error option \<times> world" where
  "Install m = run_sm m TransitionTypeInstallHost TransitionArgsInstallHost"

definition BindHost :: "manager \<Rightarrow> uuid \<Rightarrow> host \<Rightarrow> world \<Rightarrow> go_error option \<times> world" where
  "BindHost m clusterID = run_sm m TransitionTypeBindHost (TransitionArgsBindHost clusterID)"

definition UnbindHost :: "manager \<Rightarrow> bool \<Rightarrow> host \<Rightarrow> world \<Rightarrow> go_error option \<times> world" where
  "UnbindHost m reclaim =
     run_sm m (if reclaim then TransitionTypeReclaimHost else TransitionTypeUnbindHost) TransitionArgsUnbindHost"

text \<open>The deferred events are sent after the run.\<close>

definition CancelInstallation :: "manager \<Rightarrow> string \<Rightarrow> host \<Rightarrow> world \<Rightarrow> go_error option \<times> world" where
  "CancelInstallation m reason h w =
     (case run_sm m TransitionTypeCancelInstallation (TransitionArgsCancelInstallation reason) h w of
        (Some err, w1) \<Rightarrow>
          (Some (ApiError 409 err),
           send_event (HostCancelInstallationFailedEvent (Host_ID h) (Host_InfraEnvID h) (Host_ClusterID h)
             (hostname_msg m h) err) w1)
      | (None, w1) \<Rightarrow>
          (None, send_event (HostInstallationCancelledEvent (Host_ID h) (Host_InfraEnvID h) (Host_ClusterID h)
             (hostname_msg m h)) w1))"

definition ResetHost :: "manager \<Rightarrow> host \<Rightarrow> world \<Rightarrow> go_error option \<times> world" where
  "ResetHost m h w =
     (case run_sm m TransitionTypeResettingPendingUserAction TransitionResettingPendingUserAction h w of
        (Some err, w1) \<Rightarrow>
          (Some (ApiError 409 err),
           send_event (HostInstallationResetFailedEvent (Host_ID h) (Host_InfraEnvID h) (Host_ClusterID h)
             (hostname_msg m h) err) w1)
      | (None, w1) \<Rightarrow>
          (None, send_event (HostInstallationResetEvent (Host_ID h) (Host_InfraEnvID h) (Host_ClusterID h)
             (hostname_msg m h)) w1))"

definition ResetPendingUserAction :: "manager \<Rightarrow> host \<Rightarrow> world \<Rightarrow> go_error option \<times> world" where
  "ResetPendingUserAction m h w =
     (case run_sm m TransitionTypeResettingPendingUserAction TransitionResettingPendingUserAction h w of
        (Some err, w1) \<Rightarrow>
          (Some err,
           send_event (HostSetStatusFailedEvent (Host_ID h) (Host_InfraEnvID h) (Host_ClusterID h)
             (hostname_msg m h) err) w1)
      | (None, w1) \<Rightarrow>
          (None, send_event (UserRequiredCompleteInstallationResetEvent (Host_ID h) (Host_InfraEnvID h)
             (Host_ClusterID h) (hostname_msg m h)) w1))"

definition IsRequireUserActionReset :: "manager \<Rightarrow> host \<Rightarrow> world \<Rightarrow> go_error + bool" where
  "IsRequireUserActionReset m h w =
     (if Host_Status h \<noteq> HostStatusResetting then Inr False
      else if Since (w_now w) (Host_StatusUpdatedAt h) \<ge> ResetTimeout (th_config (m_th m)) then Inr True
      else (case Host_Progress h of
              None \<Rightarrow> Inl nil_deref
            | Some p \<Rightarrow> Inr (List.member manualRebootStages (CurrentStage p))))"

definition IsInstallable :: "host \<Rightarrow> bool" where
  "IsInstallable h \<longleftrightarrow> Host_Status h = HostStatusKnown"

section \<open>Installation progress\<close>

definition GetStagesByRole :: "manager \<Rightarrow> host \<Rightarrow> bool \<Rightarrow> host_stage list" where
  "GetStagesByRole m h isSNO =
     (let stages = FindMatchingStages (Host_Role h) (Host_Bootstrap h) isSNO in
      if Host_Kind h = HostKindAddToExistingClusterHost \<and> stages \<noteq> [] \<and> \<not> m_kubeApiEnabled m
      then take (nat (IndexOfStage HostStageRebooting stages + 1)) stages else stages)"

text \<open>
  \<open>(float64(currentIndex+1) / float64(len(stages))) * 100\<close>, which the database driver truncates for the
  \<open>bigint\<close> column; without stages it is not a number, which the column does not hold.
\<close>

definition installationPercentage :: "int \<Rightarrow> host_stage list \<Rightarrow> iface" where
  "installationPercentage currentIndex stages =
     (case percentage (float64 (currentIndex + 1)) (float64 (int (length stages))) of
        None \<Rightarrow> INil | Some p \<Rightarrow> INum p)"

definition UpdateHostProgress ::
  "manager \<Rightarrow> uuid \<Rightarrow> uuid \<Rightarrow> host_status \<Rightarrow> host_stage \<Rightarrow> host_stage \<Rightarrow> string \<Rightarrow> iface list \<Rightarrow> world \<Rightarrow>
   go_error option \<times> world" where
  "UpdateHostProgress m infraEnvId hostId srcStatus srcStage newStage progressInfo extra w =
     (case UpdateHost infraEnvId hostId srcStatus
             ([IName C_progress_current_stage, IStage newStage,
               IName C_progress_progress_info, IString progressInfo,
               IName C_progress_stage_updated_at, ITime (w_now w)] @ extra @
              (if newStage \<noteq> srcStage
               then [IName C_progress_stage_started_at, ITime (w_now w),
                     IName C_progress_stage_timed_out, IBool False] else [])) w of
        (Inl err, w1) \<Rightarrow> (Some (ErrWrapf ''failed to update host stage'' err), w1)
      | (Inr host, w1) \<Rightarrow>
          run_sm m TransitionTypeHostProgress (TransitionArgsProgressHost (\<not> m_kubeApiEnabled m)) host w1)"

text \<open>The checks of the new stage and the percentage; nothing for a failure.\<close>

definition progress_extra :: "manager \<Rightarrow> host \<Rightarrow> host_stage \<Rightarrow> world \<Rightarrow> go_error + iface list" where
  "progress_extra m h stage w =
     (if stage = HostStageFailed then Inr []
      else
        let stages = GetStagesByRole m h (IsSingleNode w h);
            previousStage = (case Host_Progress h of None \<Rightarrow> HostStageEmpty | Some p \<Rightarrow> CurrentStage p);
            currentIndex = IndexOfStage stage stages
        in if previousStage \<noteq> HostStageEmpty \<and> currentIndex = -1
           then Inl (ApiError 409 (ErrNew ''stage is not available for host role''))
           else if previousStage \<noteq> HostStageEmpty \<and> currentIndex < IndexOfStage previousStage stages
           then Inl (ApiError 409 (ErrNew ''Can't assign lower stage''))
           else Inr [IName C_progress_installation_percentage, installationPercentage currentIndex stages])"

definition progress_switch ::
  "manager \<Rightarrow> host \<Rightarrow> host_stage \<Rightarrow> string \<Rightarrow> iface list \<Rightarrow> world \<Rightarrow> go_error option \<times> world" where
  "progress_switch m h stage info extra w =
     (if stage = HostStageFailed
      then (case UpdateHostStatus (th_unmarshal (m_th m)) (Host_InfraEnvID h) (Host_ID h) (Host_Status h)
              HostStatusError
              (host_stage_string stage @ (if info \<noteq> '''' then '' - '' @ info else '''')) [] w of
              (r, w1) \<Rightarrow> (error_of r, w1))
      else (case Host_Progress h of
              None \<Rightarrow> (Some nil_deref, w)
            | Some p \<Rightarrow>
                UpdateHostProgress m (Host_InfraEnvID h) (Host_ID h) (Host_Status h) (CurrentStage p)
                  (if stage = HostStageRebooting \<and> Host_Kind h = HostKindAddToExistingClusterHost \<and>
                      \<not> m_kubeApiEnabled m
                   then HostStageDone else stage) info extra w))"

definition UpdateInstallProgress ::
  "manager \<Rightarrow> host \<Rightarrow> host_stage \<Rightarrow> string \<Rightarrow> world \<Rightarrow> go_error option \<times> world" where
  "UpdateInstallProgress m h stage info w =
     (if (case Host_Progress h of None \<Rightarrow> False | Some p \<Rightarrow> CurrentStage p = stage)
      then if (case Host_Progress h of None \<Rightarrow> False | Some p \<Rightarrow> ProgressInfo p = info) then (None, w)
           else (case updateHostAndNotify h [(C_progress_progress_info, IString info),
                   (C_progress_stage_updated_at, ITime (w_now w))] w of (r, w1) \<Rightarrow> (error_of r, w1))
      else if \<not> List.member [HostStatusInstalling, HostStatusInstallingInProgress,
                 HostStatusInstallingPendingUserAction] (Host_Status h)
      then (Some (ApiError 409 (ErrNew ''Can't set progress to host in status'')), w)
      else (case progress_extra m h stage w of
              Inl err \<Rightarrow> (Some err, w)
            | Inr extra \<Rightarrow> progress_switch m h stage info extra w))"

section \<open>Setters\<close>

text \<open>The guard of the operations that users call: the host is not yet being installed.\<close>

definition check_before_installation :: "string \<Rightarrow> host \<Rightarrow> go_error option" where
  "check_before_installation msg h =
     (if List.member hostStatusesBeforeInstallationOrUnbound (Host_Status h) then None
      else Some (ApiError 400 (ErrNew msg)))"

definition guarded_setter ::
  "string \<Rightarrow> host \<Rightarrow> (world \<Rightarrow> (go_error + host) \<times> world) \<Rightarrow> world \<Rightarrow> (go_error + host) \<times> world" where
  "guarded_setter msg h update w =
     (case check_before_installation msg h of Some err \<Rightarrow> (Inl err, w) | None \<Rightarrow> update w)"

definition UpdateMachineConfigPoolName :: "host \<Rightarrow> string \<Rightarrow> world \<Rightarrow> (go_error + host) \<times> world" where
  "UpdateMachineConfigPoolName h machineConfigPoolName w =
     guarded_setter ''host machine config pool can be set only before installation'' h
       (updateHostAndNotify h [(C_machine_config_pool_name, IString machineConfigPoolName),
          (C_trigger_monitor_timestamp, ITime (w_now w))]) w"

definition UpdateIgnitionEndpointToken :: "host \<Rightarrow> string \<Rightarrow> world \<Rightarrow> (go_error + host) \<times> world" where
  "UpdateIgnitionEndpointToken h token w =
     (if token \<noteq> '''' \<and> \<not> List.member hostStatusesBeforeInstallationOrUnbound (Host_Status h)
      then (Inl (ApiError 400 (ErrNew ''host ignition endpoint token can be set only before installation'')), w)
      else updateHost h [(C_ignition_endpoint_token, IString token),
             (C_ignition_endpoint_token_set, IBool (token \<noteq> '''')),
             (C_trigger_monitor_timestamp, ITime (w_now w))] w)"

definition UpdateIgnitionEndpointHTTPHeaders :: "host \<Rightarrow> string \<Rightarrow> world \<Rightarrow> (go_error + host) \<times> world" where
  "UpdateIgnitionEndpointHTTPHeaders h headers w =
     guarded_setter ''ignition endpoint HTTP headers can be set only before installation'' h
       (updateHost h [(C_ignition_endpoint_http_headers, IString headers),
          (C_trigger_monitor_timestamp, ITime (w_now w))]) w"

definition UpdateNodeLabels :: "host \<Rightarrow> string \<Rightarrow> world \<Rightarrow> (go_error + host) \<times> world" where
  "UpdateNodeLabels h nodeLabelsStr w =
     guarded_setter ''labels can be set only before installation'' h
       (updateHostAndNotify (h\<lparr>Host_NodeLabels := nodeLabelsStr\<rparr>)
          [(C_node_labels, IString nodeLabelsStr), (C_trigger_monitor_timestamp, ITime (w_now w))]) w"

definition UpdateNodeSkipDiskFormatting :: "host \<Rightarrow> string \<Rightarrow> world \<Rightarrow> (go_error + host) \<times> world" where
  "UpdateNodeSkipDiskFormatting h skipDiskFormatting w =
     guarded_setter ''skip disk formatting can be set only before installation'' h
       (updateHost (h\<lparr>Host_SkipFormattingDisks := skipDiskFormatting\<rparr>)
          [(C_skip_formatting_disks, IString skipDiskFormatting),
           (C_trigger_monitor_timestamp, ITime (w_now w))]) w"

definition UpdateFencing :: "host \<Rightarrow> string \<Rightarrow> world \<Rightarrow> (go_error + host) \<times> world" where
  "UpdateFencing h fencingCredentials w =
     guarded_setter ''fencing credentials can be set only before installation'' h
       (updateHost (h\<lparr>Host_FencingCredentials := fencingCredentials\<rparr>)
          [(C_fencing_credentials, IString fencingCredentials),
           (C_trigger_monitor_timestamp, ITime (w_now w))]) w"

definition UpdateHostname :: "host \<Rightarrow> string \<Rightarrow> world \<Rightarrow> (go_error + host) \<times> world" where
  "UpdateHostname h hostname w =
     guarded_setter ''host name can be set only before installation'' h
       (updateHostAndNotify (h\<lparr>Host_RequestedHostname := hostname\<rparr>)
          [(C_requested_hostname, IString hostname), (C_trigger_monitor_timestamp, ITime (w_now w))]) w"

definition UpdateInstallationDisk :: "manager \<Rightarrow> host \<Rightarrow> string \<Rightarrow> world \<Rightarrow> (go_error + host) \<times> world" where
  "UpdateInstallationDisk m h installationDiskPath w =
     guarded_setter ''installation disk path can be set only before installation'' h
       (\<lambda>w. case m_GetHostValidDisks m h of
          Inl err \<Rightarrow> (Inl err, w)
        | Inr validDisks \<Rightarrow>
            (case GetDiskByInstallationPath validDisks installationDiskPath of
               None \<Rightarrow> (Inl (ApiError 400
                          (ErrNew ''Requested installation disk is not part of the host's valid disks'')), w)
             | Some disk \<Rightarrow>
                 updateHostAndNotify
                   (h\<lparr>Host_InstallationDiskPath := GetDeviceFullName disk,
                      Host_InstallationDiskID := GetDeviceIdentifier disk\<rparr>)
                   [(C_installation_disk_path, IString (GetDeviceFullName disk)),
                    (C_installation_disk_id, IString (GetDeviceIdentifier disk)),
                    (C_trigger_monitor_timestamp, ITime (w_now w))] w)) w"

definition UpdateRole :: "host \<Rightarrow> host_role \<Rightarrow> world \<Rightarrow> go_error option \<times> world" where
  "UpdateRole h role w = updateRole h role role (Host_Role h) w"

definition UpdateMediaConnected :: "host \<Rightarrow> world \<Rightarrow> (go_error + host) \<times> world" where
  "UpdateMediaConnected h w = updateHostAndNotify h [(C_media_status, IMedia HostMediaStatusConnected)] w"

definition SetBootstrap :: "manager \<Rightarrow> host \<Rightarrow> bool \<Rightarrow> world \<Rightarrow> (go_error + host) \<times> world" where
  "SetBootstrap m h isbootstrap w =
     (if Host_Bootstrap h = isbootstrap then (Inr h, w)
      else (case updateHostAndNotify h [(C_bootstrap, IBool isbootstrap)] w of
              (Inl err, w1) \<Rightarrow> (Inl (ErrWrapf ''failed to set bootstrap to host'' err), w1)
            | (Inr h1, w1) \<Rightarrow>
                (Inr h1, send_event (HostBootstrapSetEvent (Host_ID h1) (Host_InfraEnvID h1) (Host_ClusterID h1)
                   (hostname_msg m h1)) w1)))"

definition m_UpdateLogsProgress :: "host \<Rightarrow> logs_state \<Rightarrow> world \<Rightarrow> go_error option \<times> world" where
  "m_UpdateLogsProgress h progress w =
     (case UpdateLogsProgress (Host_InfraEnvID h) (Host_ID h) (Host_Status h) progress [] w of
        (r, w1) \<Rightarrow> (error_of r, w1))"

definition SetUploadLogsAt :: "host \<Rightarrow> world \<Rightarrow> (go_error + host) \<times> world" where
  "SetUploadLogsAt h w =
     wrap_result ''failed to set logs_collected_at to host''
       (updateHost h [(C_logs_collected_at, ITime (w_now w))] w)"

definition UpdateConnectivityReport :: "host \<Rightarrow> string \<Rightarrow> world \<Rightarrow> (go_error + host) \<times> world" where
  "UpdateConnectivityReport h report w =
     (if Host_Connectivity h = report then (Inr h, w)
      else wrap_result ''failed to set connectivity to host''
             (updateHost h [(C_connectivity, IString report)] w))"

definition UpdateApiVipConnectivityReport :: "host \<Rightarrow> string \<Rightarrow> world \<Rightarrow> (go_error + host) \<times> world" where
  "UpdateApiVipConnectivityReport h report w =
     (if Host_APIVipConnectivity h = report then (Inr h, w)
      else wrap_result ''failed to set api_vip_connectivity to host''
             (updateHost h [(C_api_vip_connectivity, IString report)] w))"

definition UpdateTangConnectivityReport :: "host \<Rightarrow> string \<Rightarrow> world \<Rightarrow> (go_error + host) \<times> world" where
  "UpdateTangConnectivityReport h report w =
     (if Host_TangConnectivity h = report then (Inr h, w)
      else wrap_result ''failed to set tang_connectivity to host''
             (updateHost h [(C_tang_connectivity, IString report)] w))"

text \<open>The marshalled reports are arguments of the next two.\<close>

definition UpdateNTP :: "host \<Rightarrow> go_error + string \<Rightarrow> world \<Rightarrow> (go_error + host) \<times> world" where
  "UpdateNTP h ntpSources w =
     (case ntpSources of
        Inl err \<Rightarrow> (Inl (ErrWrapf ''Failed to marshal NTP sources for host'' err), w)
      | Inr s \<Rightarrow> updateHost h [(C_ntp_sources, IString s)] w)"

definition UpdateDomainNameResolution :: "host \<Rightarrow> go_error + string \<Rightarrow> world \<Rightarrow> (go_error + host) \<times> world" where
  "UpdateDomainNameResolution h response w =
     (case response of
        Inl err \<Rightarrow> (Inl (ErrWrapf ''Failed to marshal domain name resolution for host'' err), w)
      | Inr s \<Rightarrow>
          if s = Host_DomainNameResolutions h then (Inr h, w)
          else wrap_result ''failed to update api_domain_name_resolution to host''
                 (updateHostAndNotify h [(C_domain_name_resolutions, IString s),
                    (C_trigger_monitor_timestamp, ITime (w_now w))] w))"

definition UpdateKubeKeyNS :: "uuid \<Rightarrow> string \<Rightarrow> world \<Rightarrow> (go_error + host) \<times> world" where
  "UpdateKubeKeyNS hostID namespace w =
     updateHostAndNotify (zero_host\<lparr>Host_ID := hostID\<rparr>) [(C_kube_key_namespace, IString namespace)] w"

section \<open>Image and disk checks\<close>

definition GetImageStatus :: "(string \<times> image_status) list \<Rightarrow> string \<Rightarrow> image_status option" where
  "GetImageStatus statuses name = map_of statuses name"

definition SetImageStatus ::
  "(string \<times> image_status) list \<Rightarrow> image_status \<Rightarrow> (string \<times> image_status) list" where
  "SetImageStatus statuses status = AList.update (Img_Name status) status statuses"

text \<open>The entry that is found is a pointer into the map: its result changes in place.\<close>

definition UpdateImageStatus :: "manager \<Rightarrow> host \<Rightarrow> image_status \<Rightarrow> world \<Rightarrow> (go_error + host) \<times> world" where
  "UpdateImageStatus m h newImageStatus w =
     (case UnmarshalImageStatuses (m_validator m) (Host_ImagesStatus h) of
        Inl err \<Rightarrow> (Inl (ErrWrapf ''Unmarshal image status for host'' err), w)
      | Inr statuses \<Rightarrow>
          let (statuses', w1) =
            (case GetImageStatus statuses (Img_Name newImageStatus) of
               Some old \<Rightarrow>
                 let old' = old\<lparr>Img_Result := Img_Result newImageStatus\<rparr>
                 in (SetImageStatus (AList.update (Img_Name newImageStatus) old' statuses) old', w)
             | None \<Rightarrow>
                 (SetImageStatus statuses newImageStatus,
                  send_event (ImageStatusUpdatedEvent (Host_ID h) (Host_InfraEnvID h) (Host_ClusterID h)
                    (hostname_msg m h) (Img_Name newImageStatus) (Img_Result newImageStatus)) w))
          in (case m_marshalImages m statuses' of
                Inl err \<Rightarrow> (Inl (ErrWrapf ''Failed to marshal image statuses for host'' err), w1)
              | Inr s \<Rightarrow> updateHostAndNotify h [(C_images_status, IString s)] w1))"

definition common_SetDiskSpeed :: "manager \<Rightarrow> string \<Rightarrow> int \<Rightarrow> int \<Rightarrow> string \<Rightarrow> go_error + string" where
  "common_SetDiskSpeed m path speedMs exitCode disksInfoStr =
     (case UnMarshalDisks (m_validator m) disksInfoStr of
        Inl err \<Rightarrow> Inl err
      | Inr disksInfo \<Rightarrow>
          m_marshalDisks m (disksInfo(path \<mapsto> \<lparr>DI_Path = path,
            DI_DiskSpeed = Some \<lparr>DS_ExitCode = exitCode, DS_SpeedMs = (if exitCode = 0 then speedMs else 0),
              DS_Tested = True\<rparr>\<rparr>)))"

definition ResetDiskSpeed :: "manager \<Rightarrow> string \<Rightarrow> string \<Rightarrow> go_error + string" where
  "ResetDiskSpeed m path disksInfoStr =
     (case UnMarshalDisks (m_validator m) disksInfoStr of
        Inl err \<Rightarrow> Inl err
      | Inr disksInfo \<Rightarrow>
          (case disksInfo path of
             None \<Rightarrow> Inr disksInfoStr
           | Some info \<Rightarrow> m_marshalDisks m (disksInfo(path \<mapsto> info\<lparr>DI_DiskSpeed := None\<rparr>))))"

definition SetDiskSpeed :: "manager \<Rightarrow> host \<Rightarrow> string \<Rightarrow> int \<Rightarrow> int \<Rightarrow> world \<Rightarrow> (go_error + host) \<times> world" where
  "SetDiskSpeed m h path speedMs exitCode w =
     (case common_SetDiskSpeed m path speedMs exitCode (Host_DisksInfo h) of
        Inl err \<Rightarrow> (Inl err, w)
      | Inr disksInfo \<Rightarrow>
          if disksInfo = Host_DisksInfo h then (Inr h, w)
          else (case updateHost h [(C_disks_info, IString disksInfo)] w of
                  (Inl err, w1) \<Rightarrow> (Inl err, w1)
                | (Inr h1, w1) \<Rightarrow>
                    if filter (pk_row h) (w_hosts w) = []
                    then (Inl (ErrNew ''No row updated for disk info''), w1) else (Inr h1, w1)))"

text \<open>
  The two resets build a model with the identifiers of the host and of the cluster only. A zero field of
  the struct \<open>updatedHost\<close> is not written.
\<close>

definition resetDiskSpeedValidation :: "manager \<Rightarrow> host \<Rightarrow> world \<Rightarrow> (go_error + host) \<times> world" where
  "resetDiskSpeedValidation m host w =
     (case GetBootDevice host of
        Inl _ \<Rightarrow> (Inl (ApiError 500 (ErrNew ''Get boot device'')), w)
      | Inr bootDevice \<Rightarrow>
          (case ResetDiskSpeed m bootDevice (Host_DisksInfo host) of
             Inl _ \<Rightarrow> (Inl (ApiError 500 (ErrNew ''Reset disk speed'')), w)
           | Inr disksInfo \<Rightarrow>
               updateHostAndNotify (zero_host\<lparr>Host_ID := Host_ID host, Host_ClusterID := Host_ClusterID host\<rparr>)
                 (if disksInfo = '''' then [] else [(C_disks_info, IString disksInfo)]) w))"

definition resetContainerImagesValidation :: "host \<Rightarrow> world \<Rightarrow> (go_error + host) \<times> world" where
  "resetContainerImagesValidation host w =
     updateHost (zero_host\<lparr>Host_ID := Host_ID host, Host_ClusterID := Host_ClusterID host\<rparr>)
       [(C_images_status, IString '''')] w"

definition ResetHostValidation :: "manager \<Rightarrow> uuid \<Rightarrow> uuid \<Rightarrow> string \<Rightarrow> world \<Rightarrow> go_error option \<times> world" where
  "ResetHostValidation m hostID infraEnvID validationID w =
     (case GetHostFromDB w infraEnvID hostID of
        Inl err \<Rightarrow> (Some (ApiError (if is_record_not_found err then 404 else 500)
                     (ErrWrapf ''Host was not found'' err)), w)
      | Inr h \<Rightarrow>
          if Host_ClusterID h = None
          then (Some (ApiError 500 (ErrNew ''host is not bound to any cluster, reset validation'')), w)
          else if validationID = ''sufficient-installation-disk-speed''
          then (case resetDiskSpeedValidation m h w of (r, w1) \<Rightarrow> (error_of r, w1))
          else if validationID = ''container-images-available''
          then (case resetContainerImagesValidation h w of (r, w1) \<Rightarrow> (error_of r, w1))
          else (Some (ApiError 400 (ErrNew ''Validation cannot be reset or does not exist'')), w))"

section \<open>Counting\<close>

definition GetKnownHostApprovedCounts :: "uuid \<Rightarrow> world \<Rightarrow> go_error + nat \<times> nat" where
  "GetKnownHostApprovedCounts clusterID w =
     (if w_dbfault w SelectHosts then Inl ErrDB
      else
        let known = filter (\<lambda>h. Host_ClusterID h = Some clusterID \<and> Host_Status h = HostStatusKnown) (w_hosts w)
        in Inr (length known, length (filter Host_Approved known)))"

definition HostWithCollectedLogsExists :: "uuid \<Rightarrow> world \<Rightarrow> go_error + bool" where
  "HostWithCollectedLogsExists clusterId w =
     (if w_dbfault w SelectHosts then Inl ErrDB
      else Inr (list_ex (\<lambda>h. Host_ClusterID h = Some clusterId \<and> \<not> IsZero (Host_LogsCollectedAt h)) (w_hosts w)))"

definition GetKnownApprovedHosts :: "uuid \<Rightarrow> world \<Rightarrow> go_error + host list" where
  "GetKnownApprovedHosts clusterId w =
     (if w_dbfault w SelectHosts then Inl ErrDB
      else Inr (filter (\<lambda>h. Host_ClusterID h = Some clusterId \<and> Host_Status h = HostStatusKnown \<and>
                   Host_Approved h) (w_hosts w)))"

section \<open>Refreshing the status\<close>

definition loadInventory :: "manager \<Rightarrow> host \<Rightarrow> go_error + inventory option" where
  "loadInventory m h =
     (if Host_Inventory h = '''' then Inr None
      else (case th_unmarshal (m_th m) (Host_Inventory h) of
              Inl err \<Rightarrow> Inl err
            | Inr inventory \<Rightarrow>
                if \<not> Inv_HasMemory inventory
                then Inl (ErrNew ''Inventory is not valid, Memory not detected'')
                else if \<not> Inv_HasCPU inventory
                then Inl (ErrNew ''Inventory is not valid, CPU not detected'')
                else Inr (Some inventory)))"

definition validateRole :: "host \<Rightarrow> go_error option" where
  "validateRole h =
     (if List.member [HostRoleMaster, HostRoleArbiter, HostRoleWorker, HostRoleAutoAssign] (GetEffectiveRole h)
      then None else Some (ErrNew ''Illegal role defined''))"

fun validateMachineCIDR :: "manager \<Rightarrow> string list \<Rightarrow> go_error option" where
  "validateMachineCIDR m [] = None"
| "validateMachineCIDR m (cidr # cidrs) =
     (case m_ParseCIDR m cidr of Some err \<Rightarrow> Some err | None \<Rightarrow> validateMachineCIDR m cidrs)"

text \<open>\<open>c\<close> and \<open>i\<close> are the cluster and the infra-env that a caller may have loaded already.\<close>

definition newValidationContext ::
  "manager \<Rightarrow> (validationID \<Rightarrow> bool) \<Rightarrow> host \<Rightarrow> cluster option \<Rightarrow> bool \<Rightarrow> world \<Rightarrow> go_error + validation_ctx" where
  "newValidationContext m ctxErr h c i w =
     (let context = (\<lambda>cluster infraEnv inventory.
            \<lparr>vc_host = h, vc_cluster = cluster, vc_infraEnv = infraEnv, vc_inventory = inventory,
             vc_softTimeoutsEnabled = m_softTimeoutsEnabled m, vc_ctx_err = ctxErr\<rparr>) in
      case Host_ClusterID h of
        Some clusterID \<Rightarrow>
          (case (case c of Some cluster \<Rightarrow> Inr cluster | None \<Rightarrow> GetClusterFromDBWithHosts w clusterID) of
             Inl err \<Rightarrow> Inl err
           | Inr cluster \<Rightarrow>
               (case loadInventory m h of
                  Inl err \<Rightarrow> Inl err
                | Inr inventory \<Rightarrow>
                    (case validateRole h of
                       Some err \<Rightarrow> Inl err
                     | None \<Rightarrow>
                         (case validateMachineCIDR m (Cluster_MachineNetworks cluster) of
                            Some err \<Rightarrow> Inl err
                          | None \<Rightarrow>
                              (case m_requirements m (Some cluster) h of
                                 Some err \<Rightarrow> Inl err
                               | None \<Rightarrow> Inr (context (Some cluster) i inventory))))))
      | None \<Rightarrow>
          (case (if i then None else m_GetInfraEnvFromDB m (Host_InfraEnvID h)) of
             Some err \<Rightarrow> Inl err
           | None \<Rightarrow>
               (case loadInventory m h of
                  Inl err \<Rightarrow> Inl err
                | Inr inventory \<Rightarrow>
                    (case validateRole h of
                       Some err \<Rightarrow> Inl err
                     | None \<Rightarrow>
                         (case m_requirements m None h of
                            Some err \<Rightarrow> Inl err
                          | None \<Rightarrow> Inr (context c True inventory))))))"

definition GetValidations :: "manager \<Rightarrow> host \<Rightarrow> go_error + validations_status" where
  "GetValidations m h =
     (if Host_ValidationsInfo h = '''' then Inr []
      else (case m_unmarshalValidations m (Host_ValidationsInfo h) of
              Inl err \<Rightarrow> Inl (ErrWrapf ''Failed to unmarshal validations info from host'' err)
            | Inr vs \<Rightarrow> Inr vs))"

definition results_of :: "validations_status \<Rightarrow> category \<Rightarrow> validation_result list" where
  "results_of vs c = (case map_of vs c of None \<Rightarrow> [] | Some rs \<Rightarrow> rs)"

definition getValidationStatus :: "validations_status \<Rightarrow> category \<Rightarrow> validationID \<Rightarrow> validation_status option" where
  "getValidationStatus vs c vID = map_option VR_Status (find (\<lambda>v. VR_ID v = vID) (results_of vs c))"

text \<open>\<open>reflect.DeepEqual\<close> of the two maps.\<close>

definition didValidationChanged :: "validations_status \<Rightarrow> validations_status \<Rightarrow> bool" where
  "didValidationChanged newValidationRes currentValidationRes \<longleftrightarrow>
     newValidationRes \<noteq> [] \<and>
     \<not> list_all (\<lambda>c. map_of newValidationRes c = map_of currentValidationRes c)
         (map fst newValidationRes @ map fst currentValidationRes)"

definition report_change ::
  "manager \<Rightarrow> host \<Rightarrow> validations_status \<Rightarrow> category \<Rightarrow> validation_result \<Rightarrow> world \<Rightarrow> world" where
  "report_change m h currentValidationRes c v w =
     (case getValidationStatus currentValidationRes c (VR_ID v) of
        None \<Rightarrow> w
      | Some previousStatus \<Rightarrow>
          if VR_Status v = ValidationFailure \<and> previousStatus \<noteq> ValidationFailure
          then send_event (HostValidationFailedEvent (Host_ID h) (Host_InfraEnvID h) (Host_ClusterID h)
                 (hostname_msg m h) (validationID_String (VR_ID v))
                 (if previousStatus = ValidationSuccess then ''that used to succeed is now failing''
                  else ''failed'')) w
          else if VR_Status v = ValidationSuccess \<and> previousStatus = ValidationFailure
          then send_event (HostValidationFixedEvent (Host_ID h) (Host_InfraEnvID h) (Host_ClusterID h)
                 (hostname_msg m h) (validationID_String (VR_ID v))) w
          else if VR_Status v \<noteq> previousStatus
          then send_event (HostValidationChangedInternalEvent (Host_ClusterID h) (Host_ID h)
                 (Host_InfraEnvID h) (validationID_String (VR_ID v))) w
          else w)"

definition reportValidationStatusChanged ::
  "manager \<Rightarrow> host \<Rightarrow> validations_status \<Rightarrow> validations_status \<Rightarrow> world \<Rightarrow> world" where
  "reportValidationStatusChanged m h newValidationRes currentValidationRes w =
     fold (\<lambda>(c, vRes). fold (report_change m h currentValidationRes c) vRes) newValidationRes w"

definition updateValidationsInDB ::
  "manager \<Rightarrow> host \<Rightarrow> validations_status \<Rightarrow> world \<Rightarrow> (go_error + host) \<times> world" where
  "updateValidationsInDB m h newValidationRes w =
     (case m_marshalValidations m newValidationRes of
        Inl err \<Rightarrow> (Inl err, w)
      | Inr b \<Rightarrow> UpdateHost (Host_InfraEnvID h) (Host_ID h) (Host_Status h)
                   [IName C_validations_info, IString b] w)"

definition refreshStatusInternal ::
  "manager \<Rightarrow> (validationID \<Rightarrow> bool) \<Rightarrow> host \<Rightarrow> cluster option \<Rightarrow> bool \<Rightarrow> world \<Rightarrow> go_error option \<times> world" where
  "refreshStatusInternal m ctxErr h c i w =
     (case newValidationContext m ctxErr h c i w of
        Inl err \<Rightarrow> (Some err, w)
      | Inr vc \<Rightarrow>
          (case preprocess (m_validator m) vc of
             Inl err \<Rightarrow> (Some err, w)
           | Inr (conditions, newValidationRes) \<Rightarrow>
               (case GetValidations m h of
                  Inl err \<Rightarrow> (Some err, w)
                | Inr currentValidationRes \<Rightarrow>
                    (case (if didValidationChanged newValidationRes currentValidationRes
                           then (case updateValidationsInDB m h newValidationRes
                                        (reportValidationStatusChanged m h newValidationRes currentValidationRes w)
                                 of (r, w1) \<Rightarrow> (error_of r, w1))
                           else (None, w)) of
                       (Some err, w1) \<Rightarrow> (Some err, w1)
                     | (None, w1) \<Rightarrow>
                         (case run_sm m TransitionTypeRefresh
                                 (TransitionArgsRefreshHost conditions newValidationRes) h w1 of
                            (Some err, w2) \<Rightarrow> (Some (ApiError 409 err), w2)
                          | (None, w2) \<Rightarrow> (None, w2))))))"

definition RefreshStatus ::
  "manager \<Rightarrow> (validationID \<Rightarrow> bool) \<Rightarrow> host \<Rightarrow> world \<Rightarrow> go_error option \<times> world" where
  "RefreshStatus m ctxErr h w = refreshStatusInternal m ctxErr h None False w"

section \<open>Roles\<close>

definition countNumberOfHostsInRoleNotIncludingHost :: "host \<Rightarrow> cluster \<Rightarrow> host_role \<Rightarrow> nat" where
  "countNumberOfHostsInRoleNotIncludingHost h cluster role =
     length (filter (\<lambda>r. Host_ID r \<noteq> Host_ID h \<and> GetEffectiveRole r = role) (Cluster_Hosts cluster))"

definition areRoleConditionsSatisfied :: "conditions \<Rightarrow> bool \<Rightarrow> bool" where
  "areRoleConditionsSatisfied c validateAgainstOperators =
     (let v = (\<lambda>i. condition_value c (VKey i)); satisfied = v HasCPUCoresForRole \<and> v HasMemoryForRole in
      if validateAgainstOperators
      then satisfied \<and> v AreLsoRequirementsSatisfied \<and> v AreOdfRequirementsSatisfied \<and>
           v AreCnvRequirementsSatisfied \<and> v AreLvmRequirementsSatisfied
      else satisfied)"

text \<open>The host with the role is the last entry of the cluster that has its identifier.\<close>

definition IsValidCandidate ::
  "manager \<Rightarrow> host \<Rightarrow> cluster \<Rightarrow> host_role \<Rightarrow> bool \<Rightarrow> world \<Rightarrow> go_error + bool" where
  "IsValidCandidate m h c role validateAgainstOperators w =
     (if Host_Role h \<noteq> HostRoleAutoAssign \<and> Host_Role h \<noteq> role \<and>
         \<not> (role = HostRoleMaster \<and> Host_Role h = HostRoleBootstrap)
      then Inr False
      else (case find (\<lambda>r. Host_ID r = Host_ID h) (rev (Cluster_Hosts c)) of
              None \<Rightarrow> Inl (ErrNew ''host not found in cluster'')
            | Some r \<Rightarrow>
                let h' = r\<lparr>Host_Role := role\<rparr>;
                    cluster = c\<lparr>Cluster_Hosts :=
                      map (\<lambda>x. if x = r then h' else x) (Cluster_Hosts c)\<rparr>
                in (case newValidationContext m (\<lambda>_. False) h' (Some cluster) False w of
                      Inl err \<Rightarrow> Inl err
                    | Inr vc \<Rightarrow>
                        (case preprocess (m_validator m) vc of
                           Inl err \<Rightarrow> Inl err
                         | Inr (conditions, _) \<Rightarrow>
                             Inr (areRoleConditionsSatisfied conditions validateAgainstOperators)))))"

definition selectRole :: "manager \<Rightarrow> host \<Rightarrow> world \<Rightarrow> go_error + host_role" where
  "selectRole m h w =
     (if IsDay2Host h then Inr HostRoleWorker
      else if Host_Inventory h = '''' then Inl (ErrNew ''host does not have hardware info'')
      else (case Host_ClusterID h of
              None \<Rightarrow> Inl (ErrNew ''host is not bound to a cluster'')
            | Some clusterID \<Rightarrow>
                (case GetClusterFromDBWithHosts w clusterID of
                   Inl err \<Rightarrow> Inl (ErrWrapf ''failed fetching cluster'' err)
                 | Inr cluster \<Rightarrow>
                     let masterCount = countNumberOfHostsInRoleNotIncludingHost h cluster HostRoleMaster;
                         expectedMasterCount = Cluster_ControlPlaneCount cluster
                     in (case (if int masterCount < expectedMasterCount
                               then IsValidCandidate m h cluster HostRoleMaster True w else Inr False) of
                           Inl err \<Rightarrow> Inl (ErrWrapf ''checking if host is a valid master candidate'' err)
                         | Inr True \<Rightarrow> Inr HostRoleMaster
                         | Inr False \<Rightarrow>
                             (case (if expectedMasterCount < int MinMasterHostsNeededForInstallationInHaMode \<and>
                                       expectedMasterCount \<ge> int MinMasterHostsNeededForInstallationInHaArbiterMode \<and>
                                       countNumberOfHostsInRoleNotIncludingHost h cluster HostRoleArbiter = 0
                                    then IsValidCandidate m h cluster HostRoleArbiter False w else Inr False) of
                                Inl err \<Rightarrow> Inl (ErrWrapf ''checking if host is a valid arbiter candidate'' err)
                              | Inr True \<Rightarrow> Inr HostRoleArbiter
                              | Inr False \<Rightarrow> Inr HostRoleWorker)))))"

definition refreshRoleInternal ::
  "manager \<Rightarrow> host \<Rightarrow> bool \<Rightarrow> world \<Rightarrow> go_error option \<times> host \<times> world" where
  "refreshRoleInternal m h forceRefresh w =
     (if (EnableAutoAssign (th_config (m_th m)) \<or> forceRefresh) \<and> Host_Role h = HostRoleAutoAssign \<and>
         List.member hostStatusesBeforeInstallation (Host_Status h)
      then (case selectRole m h w of
              Inl err \<Rightarrow> (Some err, h, w)
            | Inr suggestedRole \<Rightarrow>
                if Host_SuggestedRole h = suggestedRole then (None, h, w)
                else (case updateRole h (Host_Role h) suggestedRole (Host_Role h) w of
                        (Some err, w1) \<Rightarrow> (Some err, h, w1)
                      | (None, w1) \<Rightarrow>
                          let h1 = h\<lparr>Host_SuggestedRole := suggestedRole\<rparr>
                          in (None, h1, send_event (HostRoleUpdatedEvent (Host_ClusterID h1) (Host_ID h1)
                                (Host_InfraEnvID h1) (hostname_msg m h1) suggestedRole) w1)))
      else (None, h, w))"

definition RefreshRole :: "manager \<Rightarrow> host \<Rightarrow> world \<Rightarrow> go_error option \<times> host \<times> world" where
  "RefreshRole m h w = refreshRoleInternal m h True w"

definition AutoAssignRole :: "manager \<Rightarrow> host \<Rightarrow> world \<Rightarrow> (bool \<times> go_error option) \<times> host \<times> world" where
  "AutoAssignRole m h w =
     (if Host_Role h \<noteq> HostRoleAutoAssign then ((False, None), h, w)
      else (case RefreshRole m h w of
              (Some err, h1, w1) \<Rightarrow> ((False, Some err), h1, w1)
            | (None, h1, w1) \<Rightarrow>
                (case updateRole h1 (Host_SuggestedRole h1) (Host_SuggestedRole h1) HostRoleAutoAssign w1 of
                   (Some err, w2) \<Rightarrow> ((True, Some err), h1, w2)
                 | (None, w2) \<Rightarrow>
                     if w_dbfault w2 SelectHosts then ((True, Some ErrDB), h1, w2)
                     else (case find_host (host_key h1) w2 of
                             None \<Rightarrow> ((True, Some ErrRecordNotFound), h1, w2)
                           | Some r \<Rightarrow> ((True, None), r, w2)))))"

end
