(* ===== verification/Host_Frame.thy ===== *)
theory Host_Frame
  imports Host_Behaviour
begin

text \<open>
  What a run of the host machine cannot change. The post transitions reach the database only through a
  handful of writes of the row of their host; a property of the database that these writes keep is kept
  by every run, successful or not. The interpretations give well-formedness of the tables, isolation from
  the rows of other hosts and from the clusters, and that events are only added.
\<close>

definition closed_post :: "(key \<Rightarrow> world \<Rightarrow> bool) \<Rightarrow> host_action \<Rightarrow> bool" where
  "closed_post I f \<longleftrightarrow>
     (\<forall>sh args. I (sh_key sh) (ctx_world sh) \<longrightarrow> I (sh_key sh) (ctx_world (snd (f sh args))))"

lemma sh_key_eq: "sh_key sh = (Host_InfraEnvID (sw_host sh), Host_ID (sw_host sh))"
  by (simp add: sh_key_def host_key_def)

locale host_frame =
  fixes I :: "key \<Rightarrow> world \<Rightarrow> bool"
  assumes update: "I (i, j) w \<Longrightarrow> I (i, j) (snd (UpdateHost i j s extra w))"
    and event: "I k w \<Longrightarrow> I k (send_event e w)"
    and notify: "I k w \<Longrightarrow> I k (Notify h w)"
    and create: "I (host_key h) w \<Longrightarrow> I (host_key h) (snd (Create_host h w))"
    and reset: "I k w \<Longrightarrow> I k (snd (reset_preparation c w))"
begin

lemma update_notify: "I (i, j) w \<Longrightarrow> I (i, j) (snd (UpdateHostAndNotify i j s extra w))"
  using update [of i j w s extra] notify
  by (auto simp: UpdateHostAndNotify_def split: prod.splits sum.splits)

lemma update_status: "I (i, j) w \<Longrightarrow> I (i, j) (snd (UpdateHostStatus J i j s d info extra w))"
  using update_notify [of i j w s "status_extra (w_now w) s d info extra"] event
  by (auto simp: UpdateHostStatus_def split: prod.splits sum.splits)

lemma update_stage: "I (i, j) w \<Longrightarrow> I (i, j) (snd (UpdateHostStageTimeout J i j s info n extra w))"
  using update_notify [of i j w s "[IName C_status_info, IString info, IName C_progress_stage_timed_out, IBool True] @ extra"]
    event
  by (auto simp: UpdateHostStageTimeout_def split: prod.splits sum.splits option.splits)

lemma update_logs: "I (i, j) w \<Longrightarrow> I (i, j) (snd (UpdateLogsProgress i j s l extra w))"
  by (simp add: UpdateLogsProgress_def update)

lemma transition:
  assumes "I (sh_key sh) (ctx_world sh)"
  shows "I (sh_key sh) (ctx_world (snd (updateTransitionHost th sh info extra)))"
    and "I (sh_key sh) (ctx_world (snd (update_discarding th sh info extra)))"
  using update_status [of "Host_InfraEnvID (sw_host sh)" "Host_ID (sw_host sh)" "ctx_world sh" "th_unmarshal th"
      "srcState sh" "Host_Status (sw_host sh)" info extra] assms
  by (auto simp: updateTransitionHost_def update_discarding_def sh_key_eq
      split: prod.splits sum.splits option.splits)

lemma refresh: "I (sh_key sh) (ctx_world sh) \<Longrightarrow> I (sh_key sh) (ctx_world (snd (refresh_update th sh info)))"
  by (simp add: refresh_update_def transition)

lemma update_posts:
  "closed_post I (PostRegisterDuringInstallation th)" "closed_post I (PostRegisterAfterInstallation th)"
  "closed_post I (PostRegisterDuringReboot th)" "closed_post I (PostHostProgress th)"
  "closed_post I (PostHostInstallationFailed th)" "closed_post I (PostCancelInstallation th)"
  "closed_post I (PostInstallHost th)" "closed_post I (PostBindHost th)" "closed_post I (PostUnbindHost th)"
  "closed_post I (PostRefreshReclaimTimeout th)" "closed_post I (PostReclaim th)"
  "closed_post I (PostPreparingForInstallationHost th)" "closed_post I (PostResettingPendingUserAction th)"
  by (simp_all add: closed_post_def transition PostRegisterDuringInstallation_def PostRegisterAfterInstallation_def
      PostRegisterDuringReboot_def PostHostProgress_def PostHostInstallationFailed_def PostCancelInstallation_def
      PostInstallHost_def PostBindHost_def PostUnbindHost_def PostRefreshReclaimTimeout_def updateHostForUnbind_def
      PostReclaim_def PostPreparingForInstallationHost_def PostResettingPendingUserAction_def Let_def
      split: host_args.splits sum.splits)

lemma evaluation_posts:
  "closed_post I (PostRefreshHost th info)" "closed_post I (PostHostPreparationTimeout th)"
  "closed_post I (PostRefreshHostDisconnection th info b)"
  by (simp_all add: closed_post_def transition refresh PostRefreshHost_def PostHostPreparationTimeout_def
      PostRefreshHostDisconnection_def Let_def split: host_args.splits sum.splits)

lemma column_posts:
  "closed_post I (PostHostStageTimeout th info)" "closed_post I (PostRefreshLogsProgress th l)"
  "closed_post I (PostRefreshHostRefreshStageUpdateTime th)"
proof -
  show "closed_post I (PostHostStageTimeout th info)"
    unfolding closed_post_def
  proof (intro allI impI)
    fix sh args assume k: "I (sh_key sh) (ctx_world sh)"
    have "I (sh_key sh) w1"
      if "UpdateHostStageTimeout J (Host_InfraEnvID (sw_host sh)) (Host_ID (sw_host sh)) s i n [] (ctx_world sh) = (r, w1)"
      for J s i n r w1
      using update_stage [of "Host_InfraEnvID (sw_host sh)" "Host_ID (sw_host sh)" "ctx_world sh" J s i n "[]"] k that
      by (simp add: sh_key_eq)
    with k show "I (sh_key sh) (ctx_world (snd (PostHostStageTimeout th info sh args)))"
      by (auto simp: PostHostStageTimeout_def split: host_args.splits sum.splits prod.splits option.splits)
  qed
  show "closed_post I (PostRefreshLogsProgress th l)"
    unfolding closed_post_def
  proof (intro allI impI)
    fix sh args assume "I (sh_key sh) (ctx_world sh)"
    with update_logs [of "Host_InfraEnvID (sw_host sh)" "Host_ID (sw_host sh)" "ctx_world sh" "srcState sh" l "[]"]
    show "I (sh_key sh) (ctx_world (snd (PostRefreshLogsProgress th l sh args)))"
      by (auto simp: PostRefreshLogsProgress_def sh_key_eq split: host_args.splits sum.splits prod.splits)
  qed
  show "closed_post I (PostRefreshHostRefreshStageUpdateTime th)"
    unfolding closed_post_def
  proof (intro allI impI)
    fix sh args assume "I (sh_key sh) (ctx_world sh)"
    with update [of "Host_InfraEnvID (sw_host sh)" "Host_ID (sw_host sh)" "ctx_world sh" "srcState sh"
        "[IName C_progress_stage_updated_at, ITime (w_now (ctx_world sh))]"]
    show "I (sh_key sh) (ctx_world (snd (PostRefreshHostRefreshStageUpdateTime th sh args)))"
      by (auto simp: PostRefreshHostRefreshStageUpdateTime_def refreshHostStageUpdateTime_def sh_key_eq
          split: host_args.splits sum.splits prod.splits option.splits)
  qed
qed

lemma media_post: "closed_post I (PostHostMediaDisconnected th)"
  unfolding closed_post_def
proof (intro allI impI)
  fix sh args assume k: "I (sh_key sh) (ctx_world sh)"
  have "I (sh_key sh) (ctx_world (snd (updateTransitionHost th (sh\<lparr>ctx_world := send_event e (ctx_world sh)\<rparr>) info extra)))"
    for e info extra
    using transition(1) [of "sh\<lparr>ctx_world := send_event e (ctx_world sh)\<rparr>" th info extra] event [OF k, of e]
    by (simp add: sh_key_eq)
  with k show "I (sh_key sh) (ctx_world (snd (PostHostMediaDisconnected th sh args)))"
    by (simp add: PostHostMediaDisconnected_def Let_def split: host_args.splits)
qed

lemma create_post: "closed_post I (PostRegisterHost th)"
  unfolding closed_post_def
proof (intro allI impI)
  fix sh args assume k: "I (sh_key sh) (ctx_world sh)"
  have "I (sh_key sh) w1"
    if "Create_host ((sw_host sh)\<lparr>Host_StatusUpdatedAt := t, Host_StatusInfo := i, Host_TriggerMonitorTimestamp := u\<rparr>)
      (ctx_world sh) = (e, w1)" for t i u e w1
    using create [of "(sw_host sh)\<lparr>Host_StatusUpdatedAt := t, Host_StatusInfo := i, Host_TriggerMonitorTimestamp := u\<rparr>"
        "ctx_world sh"] k that by (simp add: sh_key_def host_key_def)
  with k transition(1) [OF k] event
  show "I (sh_key sh) (ctx_world (snd (PostRegisterHost th sh args)))"
    by (auto simp: PostRegisterHost_def Let_def split: host_args.splits sum.splits prod.splits option.splits)
qed

lemma preparing_post: "closed_post I (PostRegisterDuringPreparingForInstallation th)"
  unfolding closed_post_def
proof (intro allI impI)
  fix sh args assume k: "I (sh_key sh) (ctx_world sh)"
  have res: "I (sh_key sh) w1" if "reset_preparation c (ctx_world sh) = (e, w1)" for c e w1
    using reset [OF k, of c] that by simp
  have upd: "I (sh_key sh) w2" if "I (sh_key sh) w1"
    "UpdateHostStatus J (Host_InfraEnvID (sw_host sh)) (Host_ID (sw_host sh)) s d info extra w1 = (r, w2)"
    for w1 w2 J s d info extra r
    using update_status [of "Host_InfraEnvID (sw_host sh)" "Host_ID (sw_host sh)" w1 J s d info extra] that
    by (simp add: sh_key_eq)
  show "I (sh_key sh) (ctx_world (snd (PostRegisterDuringPreparingForInstallation th sh args)))"
    using k
    by (auto simp: PostRegisterDuringPreparingForInstallation_def Let_def
        split: host_args.splits sum.splits prod.splits option.splits dest: res intro: upd)
qed

lemmas all_posts = update_posts evaluation_posts column_posts media_post create_post preparing_post

lemma rule_groups:
  "\<forall>tr \<in> set (all_host_rules th). case PostTransition tr of None \<Rightarrow> True | Some f \<Rightarrow> closed_post I f"
  unfolding all_host_rules_def host_rules_def
  by (simp add: rule_defs all_posts)

text \<open>A run, also one that fails.\<close>

lemma run:
  assumes "I (host_key h) w"
  shows "I (host_key h) (ctx_world (snd (sm_Run th t (newStateHost h w) args)))"
proof -
  let ?sh = "newStateHost h w"
  let ?sel = "select_rule stateHost_State (rules_for th t (stateHost_State ?sh)) ?sh args"
  have "I (host_key h) (ctx_world (snd (fire stateHost_SetState tr ?sh args)))" if "?sel = Inr (Some tr)" for tr
  proof -
    from select_rule_Some [OF that] have tr: "tr \<in> set (all_host_rules th)" by (auto simp: rules_for_def)
    have nt: "Transition tr = None" using host_no_Transition [OF tr] .
    show ?thesis
    proof (cases "PostTransition tr")
      case None
      with nt assms show ?thesis by (simp add: fire_def stateHost_SetState_def newStateHost_def)
    next
      case (Some f)
      with rule_groups tr have "closed_post I f" by fastforce
      moreover let ?sh1 = "?sh\<lparr>sw_host := h\<lparr>Host_Status := DestinationState tr\<rparr>\<rparr>"
      have "sh_key ?sh1 = host_key h" "ctx_world ?sh1 = w"
        by (simp_all add: sh_key_def host_key_def newStateHost_def)
      ultimately have "I (host_key h) (ctx_world (snd (f ?sh1 args)))"
        using assms unfolding closed_post_def by metis
      with nt Some show ?thesis
        by (auto simp: fire_def stateHost_SetState_def newStateHost_def split: prod.splits)
    qed
  qed
  with assms show ?thesis
    by (auto simp: sm_Run_eq [OF rules_exist] newStateHost_def split: sum.splits option.splits)
qed

end

section \<open>Well-formedness\<close>

lemma Create_host_wf: "wf_world w \<Longrightarrow> wf_world (snd (Create_host h w))"
  by (auto simp: Create_host_def wf_world_def host_key_def)

interpretation wf_frame: host_frame "\<lambda>_. wf_world"
  by unfold_locales (simp_all add: UpdateHost_wf Create_host_wf reset_preparation_frame)

section \<open>Isolation\<close>

text \<open>The rows of the other hosts are those of \<open>w0\<close>.\<close>

definition other_rows_of :: "world \<Rightarrow> key \<Rightarrow> world \<Rightarrow> bool" where
  "other_rows_of w0 k w \<longleftrightarrow> filter (\<lambda>h. host_key h \<noteq> k) (w_hosts w) = filter (\<lambda>h. host_key h \<noteq> k) (w_hosts w0)"

text \<open>The clusters are those of \<open>w0\<close> except for the state of their preparation.\<close>

definition cluster_rest :: "cluster \<Rightarrow> cluster" where
  "cluster_rest c = c\<lparr>Cluster_PreparationStatus := LastInstallationPreparationStatusEmpty,
     Cluster_PreparationReason := ''''\<rparr>"

definition clusters_of :: "world \<Rightarrow> key \<Rightarrow> world \<Rightarrow> bool" where
  "clusters_of w0 k w \<longleftrightarrow> map cluster_rest (w_clusters w) = map cluster_rest (w_clusters w0)"

lemma other_rows_update:
  assumes "\<And>h. host_key (f h) = host_key h"
  shows "filter (\<lambda>h. host_key h \<noteq> k) (map (\<lambda>h. if guard_row k s h then f h else h) hs) =
    filter (\<lambda>h. host_key h \<noteq> k) hs"
  by (induction hs) (auto simp: guard_row_def assms)

lemma UpdateHost_other_rows:
  assumes "other_rows_of w0 (i, j) w"
  shows "other_rows_of w0 (i, j) (snd (UpdateHost i j s extra w))"
proof (rule UpdateHost_snd_cases [of i j s extra w])
  fix f assume f: "assignment extra = Some f"
    and "snd (UpdateHost i j s extra w) = update_rows (guard_row (i, j) s) f w"
  then show ?thesis
    using assms other_rows_update [of f "(i, j)" s "w_hosts w"] assignment_key [OF f]
    by (simp add: other_rows_of_def update_rows_def)
qed (use assms in simp)

lemma cluster_rest_reset:
  "map cluster_rest (w_clusters (snd (reset_preparation c w))) = map cluster_rest (w_clusters w)"
  by (auto simp: reset_preparation_def cluster_rest_def)

interpretation isolation: host_frame "other_rows_of w0" for w0
  by unfold_locales (simp_all add: UpdateHost_other_rows, auto simp: other_rows_of_def Create_host_def reset_preparation_frame host_key_def)

interpretation cluster_isolation: host_frame "clusters_of w0" for w0
  by unfold_locales (auto simp: clusters_of_def frame_simps Create_host_def cluster_rest_reset simp del: map_map)

section \<open>Events, deleted rows and the environment\<close>

interpretation event_log: host_frame "\<lambda>_ w. prefix (w_events w0) (w_events w)" for w0
  by unfold_locales (auto simp: frame_simps Create_host_def reset_preparation_def)

interpretation deleted_rows: host_frame "\<lambda>_ w. w_deleted_hosts w = w_deleted_hosts w0" for w0
  by unfold_locales (auto simp: frame_simps Create_host_def reset_preparation_def)

interpretation environment: host_frame "\<lambda>_ w. w_now w = w_now w0 \<and> w_dbfault w = w_dbfault w0" for w0
  by unfold_locales (auto simp: frame_simps Create_host_def reset_preparation_def)

section \<open>The host in memory\<close>

text \<open>No post transition turns its host into another one.\<close>

definition key_post :: "host_action \<Rightarrow> bool" where
  "key_post f \<longleftrightarrow> (\<forall>sh args. sh_key (snd (f sh args)) = sh_key sh)"

lemma UpdateHost_found: "UpdateHost i j s extra w = (Inr h, w1) \<Longrightarrow> host_key h = (i, j) \<and> find_host (i, j) w1 = Some h"
  using find_host_SomeD [of "(i, j)" w1 h]
  by (auto simp: UpdateHost_def GetHostFromDB_def Let_def split: if_splits sum.splits option.splits)

lemma UpdateHostAndNotify_found: "UpdateHostAndNotify i j s extra w = (Inr h, w1) \<Longrightarrow> host_key h = (i, j)"
  by (auto simp: UpdateHostAndNotify_def split: prod.splits sum.splits dest: UpdateHost_found)

lemma UpdateHostStatus_found: "UpdateHostStatus J i j s d info extra w = (Inr (Some h), w1) \<Longrightarrow> host_key h = (i, j)"
  by (auto simp: UpdateHostStatus_def split: prod.splits sum.splits if_splits dest: UpdateHostAndNotify_found)

lemma updateTransitionHost_key:
  "sh_key (snd (updateTransitionHost th sh info extra)) = sh_key sh"
  "sh_key (snd (update_discarding th sh info extra)) = sh_key sh"
  "sh_key (snd (refresh_update th sh info)) = sh_key sh"
  by (auto simp: updateTransitionHost_def update_discarding_def refresh_update_def sh_key_def host_key_def
      split: prod.splits sum.splits option.splits dest: UpdateHostStatus_found [unfolded host_key_def])

lemma key_posts:
  "key_post (PostRegisterDuringInstallation th)" "key_post (PostRegisterAfterInstallation th)"
  "key_post (PostRegisterDuringReboot th)" "key_post (PostHostProgress th)"
  "key_post (PostHostInstallationFailed th)" "key_post (PostCancelInstallation th)"
  "key_post (PostInstallHost th)" "key_post (PostBindHost th)" "key_post (PostUnbindHost th)"
  "key_post (PostRefreshReclaimTimeout th)" "key_post (PostReclaim th)"
  "key_post (PostPreparingForInstallationHost th)" "key_post (PostResettingPendingUserAction th)"
  "key_post (PostRefreshHost th info)" "key_post (PostHostPreparationTimeout th)"
  "key_post (PostRefreshHostDisconnection th info b)"
  by (simp_all add: key_post_def updateTransitionHost_key PostRegisterDuringInstallation_def PostRegisterAfterInstallation_def
      PostRegisterDuringReboot_def PostHostProgress_def PostHostInstallationFailed_def PostCancelInstallation_def
      PostInstallHost_def PostBindHost_def PostUnbindHost_def PostRefreshReclaimTimeout_def updateHostForUnbind_def
      PostReclaim_def PostPreparingForInstallationHost_def PostResettingPendingUserAction_def Let_def
      PostRefreshHost_def PostHostPreparationTimeout_def PostRefreshHostDisconnection_def
      split: host_args.splits sum.splits)

lemma sh_key_updates:
  "sh_key (sh\<lparr>ctx_world := w\<rparr>) = sh_key sh" "sh_key (sh\<lparr>sw_host := h\<rparr>) = host_key h"
  "host_key (h\<lparr>Host_StatusUpdatedAt := t, Host_StatusInfo := i\<rparr>) = host_key h" "host_key (sw_host sh) = sh_key sh"
  by (simp_all add: sh_key_def host_key_def)

lemma UpdateHostStatus_sh_key:
  "UpdateHostStatus J (Host_InfraEnvID (sw_host sh)) (Host_ID (sw_host sh)) s d info extra w = (Inr (Some h), w1) \<Longrightarrow>
   host_key h = sh_key sh"
  by (drule UpdateHostStatus_found) (simp add: sh_key_eq)

lemma key_column_posts:
  "key_post (PostHostStageTimeout th info)" "key_post (PostRefreshLogsProgress th l)"
  "key_post (PostRefreshHostRefreshStageUpdateTime th)" "key_post (PostHostMediaDisconnected th)"
  "key_post (PostRegisterHost th)" "key_post (PostRegisterDuringPreparingForInstallation th)"
  by (auto simp: key_post_def PostHostStageTimeout_def PostRefreshLogsProgress_def
      PostRefreshHostRefreshStageUpdateTime_def PostHostMediaDisconnected_def PostRegisterHost_def
      PostRegisterDuringPreparingForInstallation_def Let_def updateTransitionHost_key sh_key_updates
      split: host_args.splits sum.splits prod.splits option.splits dest: UpdateHostStatus_sh_key)

lemma rules_key: "tr \<in> set (all_host_rules th) \<Longrightarrow> PostTransition tr = Some f \<Longrightarrow> key_post f"
proof -
  have "\<forall>tr \<in> set (all_host_rules th). case PostTransition tr of None \<Rightarrow> True | Some f \<Rightarrow> key_post f"
    unfolding all_host_rules_def host_rules_def by (simp add: rule_defs key_posts key_column_posts)
  then show "tr \<in> set (all_host_rules th) \<Longrightarrow> PostTransition tr = Some f \<Longrightarrow> key_post f" by fastforce
qed

lemma run_key: "sh_key (snd (sm_Run th t (newStateHost h w) args)) = host_key h"
proof -
  let ?sh = "newStateHost h w"
  let ?sel = "select_rule stateHost_State (rules_for th t (stateHost_State ?sh)) ?sh args"
  have sh: "sh_key (?sh\<lparr>sw_host := h\<lparr>Host_Status := d\<rparr>\<rparr>) = host_key h" for d
    by (simp add: sh_key_def host_key_def)
  have "sh_key (snd (fire stateHost_SetState tr ?sh args)) = host_key h" if "?sel = Inr (Some tr)" for tr
  proof -
    from select_rule_Some [OF that] have tr: "tr \<in> set (all_host_rules th)" by (auto simp: rules_for_def)
    have "Transition tr = None" using host_no_Transition [OF tr] .
    then show ?thesis
      using rules_key [OF tr] sh [of "DestinationState tr"]
      by (cases "PostTransition tr")
         (auto simp: fire_def stateHost_SetState_def newStateHost_def key_post_def split: prod.splits)
  qed
  then show ?thesis
    by (auto simp: sm_Run_eq [OF rules_exist] newStateHost_def sh_key_def split: sum.splits option.splits)
qed

end
