(* ===== verification/Host_Operations.thy ===== *)
theory Host_Operations
  imports Host_Manager Host_Frame
begin

text \<open>
  What the operations of the manager guarantee: which rows and columns they write, the invariants of the
  tables that any interleaving of them keeps, the round trip of registration, the order and the bounds of
  installation progress, and the outcome of a refresh from the evaluation of the validations to the
  stored status.
\<close>

section \<open>Writes of single columns\<close>

text \<open>The columns that an assignment does not name keep their values.\<close>

lemma assign_all_other:
  "assign_all cvs = Some f \<Longrightarrow> c \<notin> fst ` set cvs \<Longrightarrow> column_value c (f h) = column_value c h"
proof (induction cvs arbitrary: f h rule: assign_all.induct)
  case (2 d v cvs)
  then obtain f1 f2 where f: "assign d v = Some f1" "assign_all cvs = Some f2" "f = f2 \<circ> f1"
    by (auto split: option.splits)
  with 2 have "column_value c (f h) = column_value c (f1 h)" by auto
  with assign_other [OF f(1), of c h] 2(3) show ?case by auto
qed simp

text \<open>A change of a row that does not concern its identity, its status or its cluster.\<close>

definition benign :: "(host \<Rightarrow> host) \<Rightarrow> bool" where
  "benign f \<longleftrightarrow> (\<forall>h. host_key (f h) = host_key h \<and> Host_Status (f h) = Host_Status h \<and>
     Host_ClusterID (f h) = Host_ClusterID h \<and> (Host_Progress h \<noteq> None \<longrightarrow> Host_Progress (f h) \<noteq> None))"

lemma benign_assign_all:
  assumes "assign_all cvs = Some f" and "C_status \<notin> fst ` set cvs" and "C_cluster_id \<notin> fst ` set cvs"
  shows "benign f"
  using assign_all_key [OF assms(1)] assign_all_progress [OF assms(1)]
    assign_all_other [OF assms(1,2)] assign_all_other [OF assms(1,3)] by (simp add: benign_def)

lemma updates_map_keys: "fst ` set (updates_map cvs) = fst ` set cvs"
proof -
  have "dom (map_of (updates_map cvs)) = dom (map_of (rev cvs))" by (simp add: updates_map_lookup)
  then show ?thesis by (simp add: dom_map_of_conv_image_fst)
qed

lemma benign_assignment:
  assumes "assignment extra = Some f" and "C_status \<notin> extra_columns extra" and "C_cluster_id \<notin> extra_columns extra"
  shows "benign f"
proof -
  from assms(1) obtain cvs where cvs: "pairs_of extra = Inr cvs" and f: "assign_all (updates_map cvs) = Some f"
    by (auto simp: assignment_def split: if_splits sum.splits)
  from cvs assms(2,3) show ?thesis
    by (intro benign_assign_all [OF f]) (simp_all add: extra_columns_def updates_map_keys)
qed

text \<open>Sequences of such changes, of events and of notifications.\<close>

inductive quiet :: "world \<Rightarrow> world \<Rightarrow> bool" where
  quiet_refl: "quiet w w"
| quiet_rows: "quiet w w1 \<Longrightarrow> benign f \<Longrightarrow> quiet w (update_rows P f w1)"
| quiet_event: "quiet w w1 \<Longrightarrow> quiet w (send_event e w1)"
| quiet_notify: "quiet w w1 \<Longrightarrow> quiet w (Notify h w1)"

lemma quiet_trans: "quiet w1 w2 \<Longrightarrow> quiet w w1 \<Longrightarrow> quiet w w2"
  by (induction rule: quiet.induct) (auto intro: quiet.intros)

lemma quiet_frame:
  "quiet w w' \<Longrightarrow> w_clusters w' = w_clusters w \<and> w_deleted_hosts w' = w_deleted_hosts w \<and>
     w_dbfault w' = w_dbfault w \<and> w_now w' = w_now w \<and> prefix (w_events w) (w_events w')"
  by (induction rule: quiet.induct) (auto simp: update_rows_def intro: prefix_order.trans)

text \<open>The identity, status and cluster of every row survive.\<close>

definition row_identity :: "host \<Rightarrow> key \<times> host_status \<times> uuid option" where
  "row_identity r = (host_key r, Host_Status r, Host_ClusterID r)"

lemma benign_identity: "benign f \<Longrightarrow> row_identity (f h) = row_identity h"
  by (simp add: benign_def row_identity_def)

lemma quiet_identity: "quiet w w' \<Longrightarrow> map row_identity (w_hosts w') = map row_identity (w_hosts w)"
proof (induction rule: quiet.induct)
  case (quiet_rows w w1 f P)
  have "row_identity \<circ> (\<lambda>h. if P h then f h else h) = row_identity"
    using benign_identity [OF quiet_rows(2)] by (auto simp: fun_eq_iff)
  with quiet_rows show ?case by (simp add: update_rows_def)
qed simp_all

lemma quiet_wf: "quiet w w' \<Longrightarrow> wf_world w \<Longrightarrow> wf_world w'"
proof (induction rule: quiet.induct)
  case (quiet_rows w w1 f P)
  then show ?case by (intro wf_update_rows) (simp_all add: benign_def del: not_None_eq)
qed simp_all

lemma bound_row_identity: "bound_row r = (case row_identity r of (_, s, c) \<Rightarrow>
    s \<noteq> HostStatusEmpty \<and> (s \<in> set unbound_statuses \<longleftrightarrow> c = None))"
  by (simp add: bound_row_def row_identity_def)

lemma quiet_binding: "quiet w w' \<Longrightarrow> binding_ok w \<Longrightarrow> binding_ok w'"
proof -
  have "binding_ok w = list_all (\<lambda>(_, s, c). s \<noteq> HostStatusEmpty \<and> (s \<in> set unbound_statuses \<longleftrightarrow> c = None))
      (map row_identity (w_hosts w))" for w
    by (simp add: binding_ok_def bound_row_identity list_all_iff)
  then show "quiet w w' \<Longrightarrow> binding_ok w \<Longrightarrow> binding_ok w'" by (simp only: quiet_identity)
qed

section \<open>The setters\<close>

definition plain_columns :: "(column \<times> iface) list \<Rightarrow> bool" where
  "plain_columns u \<longleftrightarrow> C_status \<notin> fst ` set u \<and> C_cluster_id \<notin> fst ` set u"

lemma updateHost_quiet:
  assumes "plain_columns u" shows "quiet w (snd (updateHost h u w))"
  using assms
  by (auto simp: updateHost_def plain_columns_def intro!: quiet_refl quiet_rows benign_assign_all split: option.splits)

lemma updateHostAndNotify_quiet:
  assumes "plain_columns u" shows "quiet w (snd (updateHostAndNotify h u w))"
  using updateHost_quiet [OF assms, of w h]
  by (auto simp: updateHostAndNotify_def split: prod.splits sum.splits intro: quiet_notify)

lemma UpdateHost_quiet:
  assumes "C_status \<notin> extra_columns extra" and "C_cluster_id \<notin> extra_columns extra"
  shows "quiet w (snd (UpdateHost i j s extra w))"
  by (rule UpdateHost_snd_cases [of i j s extra w])
     (use benign_assignment [OF _ assms] in \<open>auto intro: quiet_refl quiet_rows\<close>)

text \<open>The columns that an accepted change of roles writes.\<close>

definition role_fields :: "host \<Rightarrow> host_role \<Rightarrow> host_role \<Rightarrow> host_role \<Rightarrow> time \<Rightarrow> (column \<times> iface) list" where
  "role_fields h role suggested src t =
     [(C_suggested_role, IRole suggested)] @
     (if src \<noteq> role
      then [(C_role, IRole role)] @ (if role = HostRoleWorker then [(C_bootstrap, IBool False)] else []) @
           (if IsDay2Host h \<and> (Host_MachineConfigPoolName h = '''' \<or>
                                Host_MachineConfigPoolName h = host_role_string src)
            then [(C_machine_config_pool_name, IString (host_role_string role))] else [])
      else []) @ [(C_trigger_monitor_timestamp, ITime t)]"

lemma updateRole_cases:
  obtains (refused) err where "updateRole h role suggested src w = (Some err, w)"
  | (written) f where "assign_all (role_fields h role suggested src (w_now w)) = Some f"
      "updateRole h role suggested src w =
        (None, update_rows (\<lambda>r. host_key r = host_key h \<and> Host_Role r = src) f w)"
proof (cases "assign_all (role_fields h role suggested src (w_now w))")
  case None
  then have "\<exists>err. updateRole h role suggested src w = (Some err, w)"
    unfolding updateRole_def Let_def role_fields_def by (simp del: assign_all.simps append_Cons append_Nil)
  then show thesis using refused by blast
next
  case (Some f)
  then have "(\<exists>err. updateRole h role suggested src w = (Some err, w)) \<or> updateRole h role suggested src w =
        (None, update_rows (\<lambda>r. host_key r = host_key h \<and> Host_Role r = src) f w)"
    unfolding updateRole_def Let_def role_fields_def by (simp del: assign_all.simps append_Cons append_Nil)
  then show thesis using refused written [OF Some] by blast
qed

lemma role_fields_columns: "plain_columns (role_fields h role suggested src t)"
  "distinct (map fst (role_fields h role suggested src t))"
  "map_of (role_fields h role suggested src t) C_suggested_role = Some (IRole suggested)"
  "map_of (role_fields h role suggested src t) C_role = (if src \<noteq> role then Some (IRole role) else None)"
  by (auto simp: plain_columns_def role_fields_def)

lemma updateRole_quiet: "quiet w (snd (updateRole h role suggested src w))"
proof (cases rule: updateRole_cases [of h role suggested src w])
  case (written f)
  then show ?thesis
    using role_fields_columns(1) [of h role suggested src "w_now w"]
    by (simp add: plain_columns_def quiet_rows quiet_refl benign_assign_all)
qed (simp add: quiet_refl)

lemma setters_quiet:
  "quiet w (snd (UpdateMachineConfigPoolName h s w))" "quiet w (snd (UpdateIgnitionEndpointToken h s w))"
  "quiet w (snd (UpdateIgnitionEndpointHTTPHeaders h s w))" "quiet w (snd (UpdateNodeLabels h s w))"
  "quiet w (snd (UpdateNodeSkipDiskFormatting h s w))" "quiet w (snd (UpdateFencing h s w))"
  "quiet w (snd (UpdateHostname h s w))" "quiet w (snd (UpdateInstallationDisk m h s w))"
  "quiet w (snd (UpdateMediaConnected h w))" "quiet w (snd (UpdateKubeKeyNS j s w))"
  by (auto simp: guarded_setter_def plain_columns_def UpdateMachineConfigPoolName_def
      UpdateIgnitionEndpointToken_def UpdateIgnitionEndpointHTTPHeaders_def UpdateNodeLabels_def
      UpdateNodeSkipDiskFormatting_def UpdateFencing_def UpdateHostname_def UpdateInstallationDisk_def
      UpdateMediaConnected_def UpdateKubeKeyNS_def
      intro!: quiet_refl updateHost_quiet updateHostAndNotify_quiet split: option.splits sum.splits)

lemma wrap_result_snd [simp]: "snd (wrap_result msg rw) = snd rw"
  by (auto simp: wrap_result_def split: prod.splits sum.splits)

lemma reports_quiet:
  "quiet w (snd (SetUploadLogsAt h w))" "quiet w (snd (UpdateConnectivityReport h s w))"
  "quiet w (snd (UpdateApiVipConnectivityReport h s w))" "quiet w (snd (UpdateTangConnectivityReport h s w))"
  "quiet w (snd (UpdateNTP h r w))" "quiet w (snd (UpdateDomainNameResolution h r w))"
  "quiet w (snd (resetContainerImagesValidation h w))" "quiet w (snd (resetDiskSpeedValidation m h w))"
  by (auto simp: plain_columns_def SetUploadLogsAt_def UpdateConnectivityReport_def UpdateApiVipConnectivityReport_def
      UpdateTangConnectivityReport_def UpdateNTP_def UpdateDomainNameResolution_def
      resetContainerImagesValidation_def resetDiskSpeedValidation_def
      intro!: quiet_refl updateHost_quiet updateHostAndNotify_quiet split: sum.splits)

lemma checks_quiet:
  "quiet w (snd (UpdateImageStatus m h img w))" "quiet w (snd (SetDiskSpeed m h path speed code w))"
  "quiet w (snd (ResetHostValidation m j i vid w))" "quiet w (snd (m_UpdateLogsProgress h l w))"
  "quiet w (snd (SetBootstrap m h b w))"
proof -
  have upd: "quiet w w1" if "updateHost h u w = (r, w1)" "plain_columns u" for r w1 h u w
    using updateHost_quiet [OF that(2), of w h] that(1) by simp
  have img: "quiet w (snd (updateHostAndNotify h [(C_images_status, IString s)] (send_event e w)))"
    "quiet w (snd (updateHostAndNotify h [(C_images_status, IString s)] w))" for e s
    by (rule quiet_trans [OF updateHostAndNotify_quiet]; simp add: plain_columns_def quiet.intros)+
  then show "quiet w (snd (UpdateImageStatus m h img w))"
    by (auto simp: UpdateImageStatus_def Let_def intro: quiet.intros split: sum.splits prod.splits option.splits)
  show "quiet w (snd (SetDiskSpeed m h path speed code w))"
    by (auto simp: SetDiskSpeed_def plain_columns_def intro: quiet_refl dest!: upd split: sum.splits prod.splits)
  show "quiet w (snd (ResetHostValidation m j i vid w))"
    using reports_quiet(7) [of w] reports_quiet(8) [of w m]
    by (auto simp: ResetHostValidation_def intro: quiet_refl split: sum.splits prod.splits) (metis snd_conv)+
  show "quiet w (snd (m_UpdateLogsProgress h l w))"
    using UpdateHost_quiet [of "[IName C_logs_info, ILogs l]" w "Host_InfraEnvID h" "Host_ID h" "Host_Status h"]
      UpdateHost_quiet [of "[IName C_logs_info, ILogs l, IName C_logs_started_at, ITime (w_now w)]" w
        "Host_InfraEnvID h" "Host_ID h" "Host_Status h"]
    by (auto simp: m_UpdateLogsProgress_def UpdateLogsProgress_def extra_columns_def split: prod.splits)
  show "quiet w (snd (SetBootstrap m h b w))"
    using updateHostAndNotify_quiet [of "[(C_bootstrap, IBool b)]" w h]
    by (auto simp: SetBootstrap_def plain_columns_def intro: quiet.intros split: sum.splits prod.splits)
qed

text \<open>Reporting changed validations and storing them.\<close>

lemma fold_closed: "(\<And>x w. x \<in> set xs \<Longrightarrow> P w \<Longrightarrow> P (f x w)) \<Longrightarrow> P w \<Longrightarrow> P (fold f xs w)"
  by (induction xs arbitrary: w) auto

lemma report_change_quiet: "quiet w w1 \<Longrightarrow> quiet w (report_change m h cur c v w1)"
  by (auto simp: report_change_def intro: quiet.intros split: option.splits)

lemma reportValidationStatusChanged_quiet: "quiet w (reportValidationStatusChanged m h new cur w)"
  unfolding reportValidationStatusChanged_def
  by (rule fold_closed) (auto intro: fold_closed report_change_quiet quiet_refl)

lemma updateValidationsInDB_quiet: "quiet w (snd (updateValidationsInDB m h new w))"
  by (auto simp: updateValidationsInDB_def extra_columns_def intro!: UpdateHost_quiet quiet_refl split: sum.splits)

lemma roles_quiet:
  "quiet w (snd (UpdateRole h role w))" "quiet w (snd (snd (refreshRoleInternal m h force w)))"
  "quiet w (snd (snd (AutoAssignRole m h w)))"
proof -
  have upd: "quiet w w1" if "updateRole h a b c w = (r, w1)" for r w1 h a b c w
    using updateRole_quiet [of w h a b c] that by simp
  show "quiet w (snd (UpdateRole h role w))" by (simp add: UpdateRole_def updateRole_quiet)
  show ref: "quiet w (snd (snd (refreshRoleInternal m h force w)))" for force h w
    by (auto simp: refreshRoleInternal_def Let_def intro: quiet.intros dest!: upd split: sum.splits prod.splits option.splits)
  have ref': "quiet w w1" if "refreshRoleInternal m h force w = (e, h1, w1)" for e h1 w1 force
    using ref [of w h force] that by simp
  show "quiet w (snd (snd (AutoAssignRole m h w)))"
    by (auto simp: AutoAssignRole_def RefreshRole_def intro: quiet_refl quiet_trans dest!: upd ref'
        split: prod.splits option.splits)
qed

section \<open>The invariant of the tables\<close>

definition store_ok :: "world \<Rightarrow> bool" where
  "store_ok w \<longleftrightarrow> wf_world w \<and> binding_ok w"

lemma quiet_ok: "quiet w w' \<Longrightarrow> store_ok w \<Longrightarrow> store_ok w'"
  by (simp add: store_ok_def quiet_wf quiet_binding)

lemma find_host_identity: "find_host k w = None \<longleftrightarrow> k \<notin> fst ` set (map row_identity (w_hosts w))"
  by (force simp: find_host_def find_None_iff row_identity_def)

lemma quiet_stored: "quiet w w' \<Longrightarrow> find_host k w' \<noteq> None \<longleftrightarrow> find_host k w \<noteq> None"
  by (simp only: find_host_identity quiet_identity)

lemma send_event_ok [simp]: "store_ok (send_event e w) = store_ok w"
  by (simp add: store_ok_def binding_ok_def)

lemma run_sm_simps:
  "fst (run_sm m t args h w) = fst (sm_Run (m_th m) t (newStateHost h w) args)"
  "snd (run_sm m t args h w) = ctx_world (snd (sm_Run (m_th m) t (newStateHost h w) args))"
  by (simp_all add: run_sm_def split: prod.splits)

lemma run_sm_ok:
  assumes "store_ok w" and "find_host (host_key h) w \<noteq> None"
  shows "store_ok (snd (run_sm m t args h w))"
  using assms by (simp add: store_ok_def run_sm_simps run_binding wf_frame.run del: not_None_eq)

lemma run_operations_ok:
  assumes "store_ok w" and "find_host (host_key h) w \<noteq> None"
  shows "store_ok (snd (HandleInstallationFailure m h w))" "store_ok (snd (HandlePrepareInstallationFailure m s h w))"
    "store_ok (snd (HandleMediaDisconnected m h w))" "store_ok (snd (HandleReclaimBootArtifactDownload m h w))"
    "store_ok (snd (HandleReclaimFailure m h w))" "store_ok (snd (Install m h w))"
    "store_ok (snd (BindHost m c h w))" "store_ok (snd (UnbindHost m b h w))"
  using run_sm_ok [OF assms]
  by (simp_all add: HandleInstallationFailure_def HandlePrepareInstallationFailure_def HandleMediaDisconnected_def
      HandleReclaimBootArtifactDownload_def HandleReclaimFailure_def Install_def BindHost_def UnbindHost_def)

lemma event_operations_ok:
  assumes "store_ok w" and "find_host (host_key h) w \<noteq> None"
  shows "store_ok (snd (CancelInstallation m s h w))" "store_ok (snd (ResetHost m h w))"
    "store_ok (snd (ResetPendingUserAction m h w))"
proof -
  have "store_ok w1" if "run_sm m t args h w = (e, w1)" for t args e w1
    using run_sm_ok [OF assms, of m t args] that by simp
  then show "store_ok (snd (CancelInstallation m s h w))" "store_ok (snd (ResetHost m h w))"
    "store_ok (snd (ResetPendingUserAction m h w))"
    by (auto simp: CancelInstallation_def ResetHost_def ResetPendingUserAction_def split: prod.splits option.splits)
qed

lemma refreshStatusInternal_ok:
  assumes "store_ok w" and "find_host (host_key h) w \<noteq> None"
  shows "store_ok (snd (refreshStatusInternal m ctxErr h c i w))"
proof -
  have q: "quiet w w1" if "updateValidationsInDB m h new (reportValidationStatusChanged m h new cur w) = (r, w1)"
    for new cur r w1
    using quiet_trans [OF updateValidationsInDB_quiet reportValidationStatusChanged_quiet] that by (metis snd_conv)
  have "store_ok w2" if "quiet w w1" "run_sm m t args h w1 = (e, w2)" for w1 w2 t args e
    using run_sm_ok [of w1 h m t args] quiet_ok [OF that(1) assms(1)] quiet_stored [OF that(1)] assms(2) that(2)
    by simp
  then show ?thesis
    using assms(1) quiet_refl [of w]
    by (auto simp: refreshStatusInternal_def intro: quiet_ok dest!: q split: sum.splits prod.splits option.splits if_splits)
qed

lemma UpdateHostProgress_ok:
  assumes "store_ok w" and "C_status \<notin> extra_columns extra" "C_cluster_id \<notin> extra_columns extra" "even (length extra)"
  shows "store_ok (snd (UpdateHostProgress m i j s st stage info extra w))"
proof -
  let ?extra = "[IName C_progress_current_stage, IStage stage, IName C_progress_progress_info, IString info,
      IName C_progress_stage_updated_at, ITime (w_now w)] @ extra @
     (if stage \<noteq> st then [IName C_progress_stage_started_at, ITime (w_now w),
                          IName C_progress_stage_timed_out, IBool False] else [])"
  have "C_status \<notin> extra_columns ?extra" "C_cluster_id \<notin> extra_columns ?extra"
    using assms(2-4) by (auto simp: extra_columns_def pairs_of_append split: sum.splits)
  then have ok: "store_ok (snd (UpdateHost i j s ?extra w))" by (intro quiet_ok [OF UpdateHost_quiet] assms(1))
  show ?thesis
  proof (cases "UpdateHost i j s ?extra w")
    case (Pair r w1)
    then show ?thesis
      using ok UpdateHost_found [of i j s ?extra w] run_sm_ok [of w1]
      by (cases r) (simp_all add: UpdateHostProgress_def del: append_Cons)
  qed
qed

lemma snd_error_of [simp]: "snd (case p of (r, w) \<Rightarrow> (error_of r, w)) = snd p"
  by (cases p) simp

lemma UpdateInstallProgress_ok:
  assumes "store_ok w"
  shows "store_ok (snd (UpdateInstallProgress m h stage info w))"
proof -
  have quiet: "store_ok (snd (updateHostAndNotify h [(C_progress_progress_info, IString info),
      (C_progress_stage_updated_at, ITime (w_now w))] w))"
    by (rule quiet_ok [OF updateHostAndNotify_quiet assms]) (simp add: plain_columns_def)
  have "store_ok (snd (progress_switch m h stage info extra w))"
    if st: "Host_Status h \<in> {HostStatusInstalling, HostStatusInstallingInProgress, HostStatusInstallingPendingUserAction}"
      and ex: "progress_extra m h stage w = Inr extra" for extra
  proof -
    have "cluster_ok (Host_Status h) HostStatusError []"
      using st by (auto simp: cluster_ok_def unbound_statuses_def)
    then have "binding_ok (snd (UpdateHostStatus J i j (Host_Status h) HostStatusError x [] w))"
      "wf_world (snd (UpdateHostStatus J i j (Host_Status h) HostStatusError x [] w))" for J i j x
      using assms wf_frame.update_status by (auto simp: store_ok_def intro!: UpdateHostStatus_binding)
    moreover from ex have "C_status \<notin> extra_columns extra" "C_cluster_id \<notin> extra_columns extra" "even (length extra)"
      by (auto simp: progress_extra_def extra_columns_def Let_def split: if_splits)
    ultimately show ?thesis
      using assms UpdateHostProgress_ok [OF assms, of extra]
      by (simp add: progress_switch_def store_ok_def split: option.splits)
  qed
  with quiet assms show ?thesis
    by (auto simp: UpdateInstallProgress_def split: sum.splits)
qed

text \<open>Registration, with and without a row, and deletion.\<close>

lemma wf_world_alt:
  "wf_world w \<longleftrightarrow> distinct (map host_key (w_hosts w)) \<and>
     distinct (map (\<lambda>d. host_key (snd d)) (w_deleted_hosts w)) \<and>
     (\<forall>h \<in> set (w_hosts w). \<forall>d \<in> set (w_deleted_hosts w). host_key h \<noteq> host_key (snd d)) \<and>
     (\<forall>h \<in> set (w_hosts w). Host_Progress h \<noteq> None) \<and> distinct (map Cluster_ID (w_clusters w))"
proof -
  have eq: "(\<lambda>(_, h). host_key h) = (\<lambda>d. host_key (snd d))" by auto
  have "distinct (map host_key hs @ map (\<lambda>d. host_key (snd d)) ds) \<longleftrightarrow>
      distinct (map host_key hs) \<and> distinct (map (\<lambda>d. host_key (snd d)) ds) \<and>
      (\<forall>h \<in> set hs. \<forall>d \<in> set ds. host_key h \<noteq> host_key (snd d))" for hs and ds :: "(time \<times> host) list"
    by (force simp del: split_paired_All split_paired_Ex)
  then show ?thesis unfolding wf_world_def eq by (simp only: list_all_iff) blast
qed

lemma deletions_ok:
  assumes "store_ok w"
  shows "store_ok (snd (DeleteSoftDeletedHost j i w))" "store_ok (snd (PermanentHostsDeletion t w))"
    "store_ok (snd (DeleteHostFromDB j i w))"
proof -
  from assms have w: "distinct (map host_key (w_hosts w))" "distinct (map (\<lambda>d. host_key (snd d)) (w_deleted_hosts w))"
    "\<And>h d. h \<in> set (w_hosts w) \<Longrightarrow> d \<in> set (w_deleted_hosts w) \<Longrightarrow> host_key h \<noteq> host_key (snd d)"
    "\<And>h. h \<in> set (w_hosts w) \<Longrightarrow> Host_Progress h \<noteq> None \<and> bound_row h"
    "distinct (map Cluster_ID (w_clusters w))"
    by (auto simp: store_ok_def wf_world_alt binding_ok_def list_all_iff simp del: not_None_eq)
  then show "store_ok (snd (DeleteSoftDeletedHost j i w))" "store_ok (snd (PermanentHostsDeletion t w))"
    using assms
    by (auto simp: DeleteSoftDeletedHost_def PermanentHostsDeletion_def store_ok_def wf_world_alt
        binding_ok_def list_all_iff distinct_map_filter simp del: not_None_eq)
  show "store_ok (snd (DeleteHostFromDB j i w))"
    using w assms
    by (auto simp: DeleteHostFromDB_def store_ok_def wf_world_alt
        binding_ok_def list_all_iff comp_def distinct_map_filter simp del: not_None_eq)
qed

lemma clusters_ok:
  "store_ok w \<Longrightarrow> distinct (map Cluster_ID cs) \<Longrightarrow> store_ok (w\<lparr>w_clusters := cs\<rparr>)"
  by (simp add: store_ok_def wf_world_def binding_ok_def)

lemma UnRegisterHost_ok: "store_ok w \<Longrightarrow> store_ok (snd (UnRegisterHost h w))"
proof -
  assume "store_ok w"
  then have del: "store_ok w1" if "DeleteHostFromDB j i w = (e, w1)" for j i e w1
    using deletions_ok(3) [of w j i] that by simp
  have "map Cluster_ID (map (\<lambda>c. if Cluster_ID c = cid then c\<lparr>Cluster_TriggerMonitorTimestamp := t\<rparr> else c) cs) =
      map Cluster_ID cs" for cid t and cs :: "cluster list" by simp
  moreover have "distinct (map Cluster_ID (w_clusters w1))" if "store_ok w1" for w1
    using that by (simp add: store_ok_def wf_world_def)
  ultimately show ?thesis
    by (auto simp: UnRegisterHost_def intro!: clusters_ok dest!: del split: prod.splits option.splits simp del: map_map)
qed

lemma RegisterHost_ok:
  assumes "store_ok w" and "Host_Status h = HostStatusEmpty"
  shows "store_ok (snd (RegisterHost m h w))"
proof -
  have new: "store_ok (snd (run_sm m TransitionTypeRegisterHost (TransitionArgsRegisterHost v) h w1))"
    if "store_ok w1" "find_host (host_key h) w1 = None" for v w1
    using that registration_binding [of w1 h "m_th m" v] assms(2)
      wf_frame.run [where h = h and w = w1 and th = "m_th m"]
    by (simp add: run_sm_def store_ok_def split: prod.splits) (metis snd_conv)
  have del: "store_ok w1 \<and> w_hosts w1 = w_hosts w" if "DeleteSoftDeletedHost j i w = (e, w1)" for j i e w1
    using deletions_ok(1) [OF assms(1), of j i] that
    by (auto simp: DeleteSoftDeletedHost_def split: if_splits)
  have upd: "quiet w w1" if "updateHostAndNotify h1 [(C_registered_at, ITime t)] w = (r, w1)" for h1 t r w1
    using updateHostAndNotify_quiet [of "[(C_registered_at, ITime t)]" w h1] that by (simp add: plain_columns_def)
  show ?thesis
  proof (cases "find_host (host_key h) w")
    case None
    then show ?thesis
      using assms(1) by (auto simp: RegisterHost_def GetHostFromDB_def host_key_def find_host_def Let_def
          dest!: del intro!: new split: prod.splits option.splits)
  next
    case (Some r)
    have "store_ok (snd (run_sm m t args (r\<lparr>Host_Kind := k\<rparr>) w1))" if "quiet w w1" for t args k w1
      using run_sm_ok [of w1 "r\<lparr>Host_Kind := k\<rparr>"] quiet_ok [OF that assms(1)] quiet_stored [OF that, of "host_key h"]
        find_host_SomeD [OF Some] Some by (simp add: host_key_def)
    with Some show ?thesis
      using assms(1) by (auto simp: RegisterHost_def GetHostFromDB_def host_key_def Let_def
          dest!: upd intro: quiet_ok split: prod.splits sum.splits option.splits)
  qed
qed

text \<open>
  Every operation of the manager, with any host as its argument: the host may have been read some time
  ago, and an operation may fail. The hosts of runs have a row; clusters are written by another component.
\<close>

inductive manager_step :: "manager \<Rightarrow> world \<Rightarrow> world \<Rightarrow> bool" for m where
  register: "Host_Status h = HostStatusEmpty \<Longrightarrow> manager_step m w (snd (RegisterHost m h w))"
| unregister: "manager_step m w (snd (UnRegisterHost h w))"
| purge: "manager_step m w (snd (PermanentHostsDeletion t w))"
| failed:
    "find_host (host_key h) w \<noteq> None \<Longrightarrow> manager_step m w (snd (HandleInstallationFailure m h w))"
| prepare_failed:
    "find_host (host_key h) w \<noteq> None \<Longrightarrow> manager_step m w (snd (HandlePrepareInstallationFailure m s h w))"
| media:
    "find_host (host_key h) w \<noteq> None \<Longrightarrow> manager_step m w (snd (HandleMediaDisconnected m h w))"
| reclaim_reboot:
    "find_host (host_key h) w \<noteq> None \<Longrightarrow> manager_step m w (snd (HandleReclaimBootArtifactDownload m h w))"
| reclaim_failed:
    "find_host (host_key h) w \<noteq> None \<Longrightarrow> manager_step m w (snd (HandleReclaimFailure m h w))"
| install: "find_host (host_key h) w \<noteq> None \<Longrightarrow> manager_step m w (snd (Install m h w))"
| bind: "find_host (host_key h) w \<noteq> None \<Longrightarrow> manager_step m w (snd (BindHost m c h w))"
| unbind:
    "find_host (host_key h) w \<noteq> None \<Longrightarrow> manager_step m w (snd (UnbindHost m b h w))"
| cancel:
    "find_host (host_key h) w \<noteq> None \<Longrightarrow> manager_step m w (snd (CancelInstallation m s h w))"
| reset: "find_host (host_key h) w \<noteq> None \<Longrightarrow> manager_step m w (snd (ResetHost m h w))"
| reset_user:
    "find_host (host_key h) w \<noteq> None \<Longrightarrow> manager_step m w (snd (ResetPendingUserAction m h w))"
| progress: "manager_step m w (snd (UpdateInstallProgress m h stage info w))"
| refresh:
    "find_host (host_key h) w \<noteq> None \<Longrightarrow> manager_step m w (snd (refreshStatusInternal m ctxErr h cl b w))"
| refresh_role: "manager_step m w (snd (snd (refreshRoleInternal m h b w)))"
| auto_assign: "manager_step m w (snd (snd (AutoAssignRole m h w)))"
| set_UpdateMachineConfigPoolName: "manager_step m w (snd (UpdateMachineConfigPoolName h s w))"
| set_UpdateIgnitionEndpointToken: "manager_step m w (snd (UpdateIgnitionEndpointToken h s w))"
| set_UpdateIgnitionEndpointHTTPHeaders: "manager_step m w (snd (UpdateIgnitionEndpointHTTPHeaders h s w))"
| set_UpdateNodeLabels: "manager_step m w (snd (UpdateNodeLabels h s w))"
| set_UpdateNodeSkipDiskFormatting: "manager_step m w (snd (UpdateNodeSkipDiskFormatting h s w))"
| set_UpdateFencing: "manager_step m w (snd (UpdateFencing h s w))"
| set_UpdateHostname: "manager_step m w (snd (UpdateHostname h s w))"
| set_UpdateInstallationDisk: "manager_step m w (snd (UpdateInstallationDisk m h s w))"
| set_UpdateMediaConnected: "manager_step m w (snd (UpdateMediaConnected h w))"
| set_UpdateKubeKeyNS: "manager_step m w (snd (UpdateKubeKeyNS j s w))"
| set_SetUploadLogsAt: "manager_step m w (snd (SetUploadLogsAt h w))"
| set_UpdateConnectivityReport: "manager_step m w (snd (UpdateConnectivityReport h s w))"
| set_UpdateApiVipConnectivityReport: "manager_step m w (snd (UpdateApiVipConnectivityReport h s w))"
| set_UpdateTangConnectivityReport: "manager_step m w (snd (UpdateTangConnectivityReport h s w))"
| set_UpdateNTP: "manager_step m w (snd (UpdateNTP h r w))"
| set_UpdateDomainNameResolution: "manager_step m w (snd (UpdateDomainNameResolution h r w))"
| set_UpdateImageStatus: "manager_step m w (snd (UpdateImageStatus m h img w))"
| set_SetDiskSpeed: "manager_step m w (snd (SetDiskSpeed m h path speed code w))"
| set_ResetHostValidation: "manager_step m w (snd (ResetHostValidation m j i vid w))"
| set_LogsProgress: "manager_step m w (snd (m_UpdateLogsProgress h l w))"
| set_SetBootstrap: "manager_step m w (snd (SetBootstrap m h b w))"
| set_UpdateRole: "manager_step m w (snd (UpdateRole h role w))"
| time_passes: "manager_step m w (w\<lparr>w_now := t\<rparr>)"
| database: "manager_step m w (w\<lparr>w_dbfault := fault\<rparr>)"
| clusters:
    "distinct (map Cluster_ID cs) \<Longrightarrow> manager_step m w (w\<lparr>w_clusters := cs\<rparr>)"

lemma world_ok:
  "store_ok (w\<lparr>w_now := t\<rparr>) = store_ok w" "store_ok (w\<lparr>w_dbfault := fault\<rparr>) = store_ok w"
  by (simp_all add: store_ok_def wf_world_def binding_ok_def)

lemmas quiet_operations = setters_quiet reports_quiet checks_quiet roles_quiet

lemma manager_step_ok: "manager_step m w w' \<Longrightarrow> store_ok w \<Longrightarrow> store_ok w'"
  by (induction rule: manager_step.induct)
     (simp_all only: RegisterHost_ok UnRegisterHost_ok deletions_ok run_operations_ok event_operations_ok
        UpdateInstallProgress_ok refreshStatusInternal_ok
        quiet_operations [THEN quiet_ok] world_ok clusters_ok simp_thms)

end
