(* ===== verification/Host_Evaluation.thy ===== *)
theory Host_Evaluation
  imports Host_Preprocess
begin

text \<open>
  What evaluating the validations of a host yields: the preprocessor always comes to a result once the
  host and its cluster are loaded and the operators answer, and the value of every validation follows
  from its function, from the configuration that disables it and from the list of ignored validations.
\<close>

section \<open>Results that are listed\<close>

definition listed :: "validations_status \<Rightarrow> validationID set" where
  "listed out = VR_ID ` set (concat (map snd out))"

lemma set_concat_update:
  assumes "set new = set (case map_of out cat of None \<Rightarrow> [] | Some rs \<Rightarrow> rs) \<union> X"
  shows "set (concat (map snd (AList.update cat new out))) = set (concat (map snd out)) \<union> X"
  using assms by (induction out) auto

lemma listed_append_result: "listed (append_result cat r out) = insert (VR_ID r) (listed out)"
  using set_concat_update [of "(case map_of out cat of None \<Rightarrow> [] | Some rs \<Rightarrow> rs) @ [r]" out cat "{r}"]
  by (simp add: listed_def append_result_def)

lemma listed_sorted:
  "listed (AList.update cat (sortByValidationResultID (case map_of out cat of None \<Rightarrow> [] | Some x \<Rightarrow> x)) out) = listed out"
  using set_concat_update [of "sortByValidationResultID (case map_of out cat of None \<Rightarrow> [] | Some x \<Rightarrow> x)" out cat "{}"]
  by (simp add: listed_def sortByValidationResultID_def)

text \<open>A result is not listed if it asks for that or if the stage of the host skips it.\<close>

definition suppressed :: "validator \<Rightarrow> bool \<Rightarrow> validation_ctx \<Rightarrow> validationID \<Rightarrow> bool" where
  "suppressed v ovr c i \<longleftrightarrow>
     (ovr \<or> i \<notin> set (v_disabled v)) \<and> fst (v_condition v i c) = ValidationSuccessSuppressOutput"

definition shown :: "validator \<Rightarrow> bool \<Rightarrow> validation_ctx \<Rightarrow> validationID \<times> host_stage list \<Rightarrow> bool" where
  "shown v ovr c x \<longleftrightarrow> \<not> suppressed v ovr c (fst x) \<and>
     (case Host_Progress (vc_host c) of None \<Rightarrow> False | Some p \<Rightarrow> CurrentStage p \<notin> set (snd x))"

section \<open>Totality\<close>

lemma eval_validation_total:
  assumes "validation_category (fst x) = Inr cat" and "\<not> vc_ctx_err c (fst x)" and "Host_Progress (vc_host c) = Some p"
  shows "\<exists>out'. eval_validation v ovr c x (m, out) = Inr (m(VKey (fst x) \<mapsto> passes v ovr c (fst x)), out') \<and>
    listed out' = (if shown v ovr c x then {fst x} else {}) \<union> listed out"
  using assms
  by (cases x) (auto simp: eval_validation_def passes_def shown_def suppressed_def Let_def listed_append_result)

lemma eval_validations_total:
  assumes "\<forall>x \<in> set xs. \<exists>cat. validation_category (fst x) = Inr cat" and "\<And>i. \<not> vc_ctx_err c i"
    and "Host_Progress (vc_host c) = Some p"
  shows "\<exists>m' out'. eval_validations v ovr c xs (m, out) = Inr (m', out') \<and>
    listed out' = fst ` {x \<in> set xs. shown v ovr c x} \<union> listed out"
  using assms(1)
proof (induction xs arbitrary: m out)
  case (Cons x xs)
  then obtain cat where "validation_category (fst x) = Inr cat" by auto
  from eval_validation_total [OF this assms(2,3), of v ovr m out] obtain out1 where
    1: "eval_validation v ovr c x (m, out) = Inr (m(VKey (fst x) \<mapsto> passes v ovr c (fst x)), out1)"
    "listed out1 = (if shown v ovr c x then {fst x} else {}) \<union> listed out" by blast
  from Cons.IH [of "m(VKey (fst x) \<mapsto> passes v ovr c (fst x))" out1] Cons.prems obtain m' out' where
    "eval_validations v ovr c xs (m(VKey (fst x) \<mapsto> passes v ovr c (fst x)), out1) = Inr (m', out')"
    "listed out' = fst ` {x \<in> set xs. shown v ovr c x} \<union> listed out1" by (auto simp del: fun_upd_apply)
  with 1 show ?case by (auto split: if_splits)
qed simp

lemma newValidations_category: "\<forall>x \<in> set newValidations. \<exists>cat. validation_category (fst x) = Inr cat"
  by (simp add: newValidations_def validation_category_def network_validations_def hardware_validations_def)

lemma eval_conditions_total:
  "\<forall>(i, fn) \<in> set fs. \<exists>b. fn c = Inr b \<Longrightarrow> \<exists>m'. eval_conditions fs c m = Inr m'"
  by (induction fs c m rule: eval_conditions.induct) auto

lemma newConditions_total:
  assumes "vc_infraEnv c \<or> vc_cluster c \<noteq> None" and "Host_Progress (vc_host c) \<noteq> None"
  shows "\<forall>(i, fn) \<in> set (newConditions v). \<exists>b. fn c = Inr b"
  using assms
  by (auto simp: newConditions_def isClusterPreparingForInstallation_def isClusterInstalling_def isClusterInError_def
      isClusterPendingUserAction_def cluster_in_status_def isStageInWrongBootStages_def)

lemma eval_operators_total:
  "\<forall>r \<in> set rs. \<exists>cat. validation_category (OR_ValidationId r) = Inr cat \<Longrightarrow>
   \<exists>m' out'. eval_operators rs st = Inr (m', out') \<and> listed out' = OR_ValidationId ` set rs \<union> listed (snd st)"
proof (induction rs st rule: eval_operators.induct)
  case (1 st)
  then show ?case by (cases st) simp
next
  case (2 r rs m out)
  then obtain cat where "validation_category (OR_ValidationId r) = Inr cat" by auto
  with 2 show ?case by (fastforce simp: Let_def listed_sorted listed_append_result)
qed

lemma operators_category: "i \<in> set operators_validations \<Longrightarrow> \<exists>cat. validation_category i = Inr cat"
  by (auto simp: validation_category_def)

section \<open>Values\<close>

definition ignored :: "string list \<Rightarrow> validationID \<Rightarrow> bool" where
  "ignored ig i = ShouldIgnoreValidation ig (validationID_String i)
     (map validationID_String NonIgnorableHostValidations)"

lemma force_ignored_value:
  "force_ignored ig out m (VKey i) = (if i \<in> listed out \<and> ignored ig i then Some True else m (VKey i))"
proof -
  have "fold (\<lambda>r m. if ignored ig (VR_ID r) then m(VKey (VR_ID r) \<mapsto> True) else m) rs m (VKey i) =
      (if i \<in> VR_ID ` set rs \<and> ignored ig i then Some True else m (VKey i))" for rs
    by (induction rs arbitrary: m) auto
  then show ?thesis unfolding force_ignored_def listed_def ignored_def by blast
qed

lemma eval_operators_value:
  assumes "eval_operators rs st = Inr (m', out')" and "distinct (map OR_ValidationId rs)" and "r \<in> set rs"
  shows "m' (VKey (OR_ValidationId r)) = Some (OR_Status r = ValidationSuccess)"
  using assms
proof (induction rs arbitrary: st)
  case (Cons r' rs)
  obtain m out where st: "st = (m, out)" by (cases st)
  let ?m = "m(VKey (OR_ValidationId r') \<mapsto> OR_Status r' = ValidationSuccess)"
  from Cons.prems(1) obtain out1 where e: "eval_operators rs (?m, out1) = Inr (m', out')"
    by (auto simp: st Let_def split: sum.splits)
  show ?case
  proof (cases "r \<in> set rs")
    case False
    with Cons.prems(3) have "r = r'" by simp
    with eval_operators_other [OF e, of "VKey (OR_ValidationId r)"] Cons.prems(2) show ?thesis by auto
  qed (use Cons.IH [OF e] Cons.prems(2) in auto)
qed simp

text \<open>The identifiers of the operators are not among those of the host validations.\<close>

lemma operators_disjoint: "i \<in> fst ` set newValidations \<Longrightarrow> i \<notin> set operators_validations"
  by (auto simp: newValidations_def operators_validations_def)

definition override_of :: "cluster \<Rightarrow> bool" where
  "override_of cl \<longleftrightarrow> Cluster_IgnoredHostValidations cl \<noteq> ''''"

lemma fst_filter_iff:
  assumes "distinct (map fst xs)" and "x \<in> set xs"
  shows "fst x \<in> fst ` {y \<in> set xs. P y} \<longleftrightarrow> P x"
proof
  assume "fst x \<in> fst ` {y \<in> set xs. P y}"
  then obtain y where y: "y \<in> set xs" "P y" "fst y = fst x" by auto
  with assms have "y = x" by (simp add: distinct_map inj_on_def)
  with y show "P x" by simp
qed (use assms(2) in auto)

lemma preprocess_values:
  assumes cl: "vc_cluster c = Some cl" "\<not> vc_infraEnv c"
    and ig: "DeserializeJSONList v (Cluster_IgnoredHostValidations cl) = Inr ig"
    and p: "Host_Progress (vc_host c) = Some p" and ctx: "\<And>i. \<not> vc_ctx_err c i"
    and rs: "v_ValidateHost v (Some cl) (vc_host c) = Inr rs" "distinct (map OR_ValidationId rs)"
      "OR_ValidationId ` set rs = set operators_validations"
  shows "\<exists>conds out. preprocess v c = Inr (conds, out) \<and> complete_conditions conds \<and>
    (\<forall>x \<in> set newValidations. conds (VKey (fst x)) =
       Some (passes v (override_of cl) c (fst x) \<or> shown v (override_of cl) c x \<and> ignored ig (fst x))) \<and>
    (\<forall>r \<in> set rs. conds (VKey (OR_ValidationId r)) =
       Some (OR_Status r = ValidationSuccess \<or> ignored ig (OR_ValidationId r)))"
proof -
  let ?ovr = "override_of cl"
  from eval_validations_total [OF newValidations_category ctx p, of v ?ovr Map.empty "[]"] obtain m1 out1 where
    1: "eval_validations v ?ovr c newValidations (Map.empty, []) = Inr (m1, out1)"
    "listed out1 = fst ` {x \<in> set newValidations. shown v ?ovr c x}" by (auto simp: listed_def)
  from eval_conditions_total [OF newConditions_total, of c v m1] cl p obtain m2 where
    2: "eval_conditions (newConditions v) c m1 = Inr m2" by auto
  from eval_operators_total [of rs "(m2, out1)"] operators_category rs(3) obtain m3 out where
    3: "eval_operators rs (m2, out1) = Inr (m3, out)" "listed out = set operators_validations \<union> listed out1"
    by (metis imageI snd_conv)
  have pre: "preprocess v c = Inr (force_ignored ig out m3, out)"
    using cl ig rs(1) 1(1) 2 3(1) by (simp add: preprocess_def override_of_def)
  have "complete_conditions (force_ignored ig out m3)"
    using preprocess_complete [OF pre cl(2), of rs] cl(1) rs by simp
  moreover have "force_ignored ig out m3 (VKey (fst x)) =
      Some (passes v ?ovr c (fst x) \<or> shown v ?ovr c x \<and> ignored ig (fst x))" if x: "x \<in> set newValidations" for x
  proof -
    have no: "fst x \<notin> OR_ValidationId ` set rs" using operators_disjoint [of "fst x"] x rs(3) by auto
    have "VKey (fst x) \<notin> VKey ` OR_ValidationId ` set rs" "VKey (fst x) \<notin> CKey ` fst ` set (newConditions v)"
      using no by auto
    then have "m3 (VKey (fst x)) = Some (passes v ?ovr c (fst x))"
      using eval_operators_other [OF 3(1)] eval_conditions_other [OF 2] x
        eval_validations_conds [OF 1(1), of "VKey (fst x)"] by simp
    moreover have "fst x \<in> listed out \<longleftrightarrow> shown v ?ovr c x"
    proof -
      have "distinct (map fst newValidations)" by (simp add: newValidations_def)
      then have "fst x \<in> fst ` {y \<in> set newValidations. shown v ?ovr c y} \<longleftrightarrow> shown v ?ovr c x"
        using x by (rule fst_filter_iff)
      then show ?thesis using 3(2) 1(2) no rs(3) by simp
    qed
    ultimately show ?thesis by (auto simp: force_ignored_value)
  qed
  moreover have "force_ignored ig out m3 (VKey (OR_ValidationId r)) =
      Some (OR_Status r = ValidationSuccess \<or> ignored ig (OR_ValidationId r))" if r: "r \<in> set rs" for r
    using eval_operators_value [OF 3(1) rs(2) r] 3(2) rs(3) r by (auto simp: force_ignored_value)
  ultimately show ?thesis using pre by blast
qed

text \<open>The conditions have the values of their functions: nothing that is evaluated after them overwrites one.\<close>

lemma eval_conditions_value:
  assumes "eval_conditions fs c m = Inr m'" and "distinct (map fst fs)" and "x \<in> set fs"
  shows "map_option Inr (m' (CKey (fst x))) = Some (snd x c)"
  using assms
proof (induction fs arbitrary: m)
  case (Cons y fs)
  obtain i fn where y: "y = (i, fn)" by (cases y)
  from Cons.prems(1) obtain b where b: "fn c = Inr b" and e: "eval_conditions fs c (m(CKey i \<mapsto> b)) = Inr m'"
    by (auto simp: y split: sum.splits)
  show ?case
  proof (cases "x \<in> set fs")
    case False
    with Cons.prems(3) have "x = y" by simp
    with eval_conditions_other [OF e, of "CKey i"] Cons.prems(2) b y show ?thesis by auto
  qed (use Cons.IH [OF e] Cons.prems(2) in auto)
qed simp

lemma preprocess_conditions:
  assumes "preprocess v c = Inr (conds, out)" and "x \<in> set (newConditions v)"
  shows "map_option Inr (conds (CKey (fst x))) = Some (snd x c)"
proof -
  from preprocess_steps [OF assms(1)] obtain ig ovr m1 out1 m2 m3 where s:
    "eval_conditions (newConditions v) c m1 = Inr m2"
    "(if vc_infraEnv c then Inr (m2, out1)
      else case v_ValidateHost v (vc_cluster c) (vc_host c) of Inl err \<Rightarrow> Inl err
           | Inr rs \<Rightarrow> eval_operators rs (m2, out1)) = Inr (m3, out)"
    "conds = force_ignored ig out m3" by metis
  have "conds (CKey (fst x)) = m3 (CKey (fst x))"
    using force_ignored_cases [of ig out m3 "CKey (fst x)"] s(3) by simp
  also have "\<dots> = m2 (CKey (fst x))"
    using s(2) eval_operators_other [of _ "(m2, out1)" m3 out "CKey (fst x)"]
    by (auto split: if_splits sum.splits)
  finally show ?thesis
    using eval_conditions_value [OF s(1) _ assms(2)] by (simp add: newConditions_def)
qed

end
