(* ===== verification/Host_Guarantees.thy ===== *)
theory Host_Guarantees
  imports Host_Operations Host_Evaluation
begin

text \<open>
  The properties of the host manager: isolation and invariants of its operations, the guarded update as a
  compare-and-swap, registration, progress, refreshing and roles.
\<close>

definition sample_validator :: validator where
  "sample_validator =
     \<lparr>v_condition = (\<lambda>_ _. (ValidationSuccess, '''')), v_DisksInfo = (\<lambda>_. Inr Map.empty),
      v_ImageStatuses = (\<lambda>_. Inr []), v_StringList = (\<lambda>_. Inr []),
      v_ValidateHost = (\<lambda>_ _. Inr (map (\<lambda>i. \<lparr>OR_ValidationId = i, OR_Status = ValidationSuccess,
        OR_Reasons = []\<rparr>) operators_validations)), v_disabled = []\<rparr>"

definition sample_manager :: manager where
  "sample_manager =
     \<lparr>m_th = sample_handler, m_validator = sample_validator, m_kubeApiEnabled = False,
      m_softTimeoutsEnabled = False, m_GetInfraEnvFromDB = (\<lambda>_. None), m_requirements = (\<lambda>_ _. None),
      m_ParseCIDR = (\<lambda>_. None), m_GetHostValidDisks = (\<lambda>_. Inr []),
      m_unmarshalValidations = (\<lambda>_. Inr []), m_marshalValidations = (\<lambda>_. Inr ''{}''),
      m_marshalDisks = (\<lambda>_. Inr ''{}''), m_marshalImages = (\<lambda>_. Inr ''{}'')\<rparr>"

section \<open>Isolation\<close>

text \<open>
  C6. A run of the host machine, whatever the transition, its arguments and its outcome, and however stale
  the host that it is called with: the rows of all other hosts are unchanged, so are the soft-deleted rows
  and the clusters, except for the state of the preparation that a host that registers again resets, and
  events are only added.
\<close>

theorem run_isolation:
  "let w' = snd (run_sm m t args h w) in
   filter (\<lambda>r. host_key r \<noteq> host_key h) (w_hosts w') = filter (\<lambda>r. host_key r \<noteq> host_key h) (w_hosts w) \<and>
   w_deleted_hosts w' = w_deleted_hosts w \<and>
   map cluster_rest (w_clusters w') = map cluster_rest (w_clusters w) \<and>
   prefix (w_events w) (w_events w')"
  using isolation.run [of w h w] cluster_isolation.run [of w h w] event_log.run [of w w] deleted_rows.run [of w w]
  by (simp add: run_sm_simps other_rows_of_def clusters_of_def)

text \<open>
  C2. The invariant of the tables: after any interleaving of operations of the manager (registrations,
  deletions, runs of the machine, progress reports, refreshes, setters), with hosts that may be stale,
  with operations that fail at any statement and with clusters that change at any time, the primary keys
  of the rows are distinct, also from those of soft-deleted rows, every row has its progress, and the
  status of a host is one of the statuses of unbound hosts exactly if it has no cluster.
\<close>

theorem manager_invariant:
  assumes "(manager_step m)\<^sup>*\<^sup>* w w'" and "store_ok w"
  shows "distinct (map host_key (w_hosts w') @ map (\<lambda>(_, h). host_key h) (w_deleted_hosts w')) \<and>
    (\<forall>h \<in> set (w_hosts w'). Host_Progress h \<noteq> None \<and>
       (Host_Status h \<in> set unbound_statuses) = (Host_ClusterID h = None))"
proof -
  from assms have "store_ok w'" by (induction rule: rtranclp_induct) (blast intro: manager_step_ok)+
  then show ?thesis
    by (auto simp: store_ok_def wf_world_def binding_ok_def bound_row_def list_all_iff simp del: not_None_eq)
qed

lemma sample_row: "find_host (host_key h) (sample_world h) = Some h"
  by (simp add: find_host_def sample_world_def)

lemma sample_store_ok: "s \<notin> set (HostStatusEmpty # unbound_statuses) \<Longrightarrow> store_ok (sample_world (sample_host s))"
  using loaded_sample_host [of s]
  by (simp add: store_ok_def loaded_def healthy_def binding_ok_def sample_world_def bound_row_def)

theorem manager_invariant_witness:
  "let h = sample_host HostStatusKnown;
       w' = snd (UpdateHostname h ''node-1'' (snd (UnbindHost sample_manager False h (sample_world h)))) in
   distinct (map host_key (w_hosts w') @ map (\<lambda>(_, h). host_key h) (w_deleted_hosts w')) \<and>
   (\<forall>h \<in> set (w_hosts w'). Host_Progress h \<noteq> None \<and>
      (Host_Status h \<in> set unbound_statuses) = (Host_ClusterID h = None))"
proof -
  let ?h = "sample_host HostStatusKnown"
  let ?w = "sample_world ?h"
  let ?w1 = "snd (UnbindHost sample_manager False ?h ?w)"
  have "manager_step sample_manager ?w ?w1"
    by (rule manager_step.unbind) (simp add: sample_world_def find_host_def)
  moreover have "manager_step sample_manager ?w1 (snd (UpdateHostname ?h ''node-1'' ?w1))"
    by (rule manager_step.set_UpdateHostname)
  ultimately have "(manager_step sample_manager)\<^sup>*\<^sup>* ?w (snd (UpdateHostname ?h ''node-1'' ?w1))"
    by (meson converse_rtranclp_into_rtranclp r_into_rtranclp)
  moreover have "store_ok ?w" by (rule sample_store_ok) (simp add: unbound_statuses_def)
  ultimately show ?thesis unfolding Let_def by (rule manager_invariant)
qed

section \<open>Guarded updates\<close>

text \<open>The abstract table of hosts: a map from keys to rows with a compare-and-swap on the status.\<close>

definition table :: "world \<Rightarrow> key \<Rightarrow> host option" where
  "table w = (\<lambda>k. find_host k w)"

definition cas :: "key \<Rightarrow> host_status \<Rightarrow> (host \<Rightarrow> host) \<Rightarrow> (key \<Rightarrow> host option) \<Rightarrow> key \<Rightarrow> host option" where
  "cas k s f T = (case T k of Some r \<Rightarrow> if Host_Status r = s then T(k \<mapsto> f r) else T | None \<Rightarrow> T)"

definition cas_accepts :: "key \<Rightarrow> host_status \<Rightarrow> (host \<Rightarrow> host) \<Rightarrow> (key \<Rightarrow> host option) \<Rightarrow> bool" where
  "cas_accepts k s f T = (case T k of Some r \<Rightarrow> Host_Status r = s \<or> f r = r | None \<Rightarrow> False)"

lemma update_rows_dbfault: "w_dbfault (update_rows P f w) = w_dbfault w"
  by (simp add: update_rows_def)

lemma table_update_rows:
  assumes "\<And>h. host_key (f h) = host_key h"
  shows "table (update_rows (guard_row k s) f w) = cas k s f (table w)"
proof
  fix k'
  show "table (update_rows (guard_row k s) f w) k' = cas k s f (table w) k'"
    by (cases "find_host k' w"; cases "find_host k w") (auto simp: table_def cas_def find_guarded [OF assms])
qed

text \<open>
  C4. \<open>UpdateHost\<close> refines an atomic compare-and-swap: if its argument list is an assignment and the
  database executes the statement, the table afterwards is the table that the compare-and-swap on the key
  and the source status yields, and the call reports success exactly if the row had the source status or
  already held all values (and it can be read back); otherwise the call reports an error and the table is
  unchanged. A sequence of updates by several components therefore acts on the table as the sequence of
  their compare-and-swaps.
\<close>

theorem UpdateHost_refines_cas:
  assumes "wf_world w" and "UpdateHost i j s extra w = (res, w')"
  shows "(case assignment extra of
      None \<Rightarrow> isl res \<and> table w' = table w
    | Some f \<Rightarrow>
        if w_dbfault w UpdateHosts then isl res \<and> table w' = table w
        else table w' = cas (i, j) s f (table w) \<and>
             (if w_dbfault w SelectHosts then isl res
              else case res of Inl _ \<Rightarrow> \<not> cas_accepts (i, j) s f (table w)
                   | Inr r \<Rightarrow> cas_accepts (i, j) s f (table w) \<and> table w' (i, j) = Some r))"
proof (cases "assignment extra")
  case None
  with UpdateHost_fails [of extra w i j s] assms(2) show ?thesis by auto
next
  case (Some f)
  note key = assignment_key [OF Some]
  show ?thesis
  proof (cases "w_dbfault w UpdateHosts")
    case True
    with UpdateHost_fails [of extra w i j s] assms(2) Some show ?thesis by auto
  next
    case False
    have w': "w' = update_rows (guard_row (i, j) s) f w" using UpdateHost_runs [OF Some False, of i j s] assms(2) by simp
    have t: "table w' = cas (i, j) s f (table w)" by (simp add: w' table_update_rows key)
    have acc: "cas_accepts (i, j) s f (table w) \<longleftrightarrow>
        length (filter (guard_row (i, j) s) (w_hosts w)) \<noteq> 0 \<or> (\<exists>r. find_host (i, j) w = Some r \<and> f r = r)"
      unfolding guarded_rows_None [OF assms(1)] by (auto simp: cas_accepts_def table_def split: option.splits)
    have ex: "hostExistsInDB w' (i, j) f \<longleftrightarrow> \<not> w_dbfault w SelectHosts \<and> (\<exists>r. find_host (i, j) w = Some r \<and> f r = r)"
      if "length (filter (guard_row (i, j) s) (w_hosts w)) = 0"
      using that guarded_rows_None [OF assms(1), of "(i, j)" s]
      by (auto simp: hostExistsInDB_def w' find_guarded [OF key] update_rows_dbfault split: option.splits)
    have found: "find_host (i, j) w \<noteq> None" if "cas_accepts (i, j) s f (table w)"
      using that by (auto simp: cas_accepts_def table_def split: option.splits)
    have "if w_dbfault w SelectHosts then isl res
        else case res of Inl _ \<Rightarrow> \<not> cas_accepts (i, j) s f (table w)
             | Inr r \<Rightarrow> cas_accepts (i, j) s f (table w) \<and> find_host (i, j) w' = Some r"
      using assms(2) Some False acc ex found
      by (auto simp: UpdateHost_def assignment_def Let_def GetHostFromDB_def w' update_rows_dbfault
          find_guarded [OF key] split: if_splits sum.splits option.splits)
    moreover have "find_host (i, j) w' = cas (i, j) s f (table w) (i, j)"
      using fun_cong [OF t, of "(i, j)"] by (simp add: table_def)
    ultimately show ?thesis using Some False t by (auto split: sum.splits)
  qed
qed

theorem UpdateHost_refines_cas_witness:
  "let h = sample_host HostStatusKnown; w = sample_world h;
       extra = [IName C_requested_hostname, IString ''node-1''];
       f = Host_RequestedHostname_update (\<lambda>_. ''node-1'') in
   table (snd (UpdateHost ''e'' ''h'' HostStatusKnown extra w)) = cas (''e'', ''h'') HostStatusKnown f (table w) \<and>
   fst (UpdateHost ''e'' ''h'' HostStatusKnown extra w) = Inr (f h)"
proof -
  let ?h = "sample_host HostStatusKnown" let ?w = "sample_world ?h"
  let ?extra = "[IName C_requested_hostname, IString ''node-1'']"
  let ?f = "Host_RequestedHostname_update (\<lambda>_. ''node-1'')"
  have "wf_world ?w" using loaded_facts(2) [OF loaded_sample_host] .
  moreover have "assignment ?extra = Some ?f" by (simp add: assignment_def updates_map_def comp_def id_def)
  moreover have "\<not> w_dbfault ?w op" for op by (simp add: sample_world_def)
  moreover have "find_host (''e'', ''h'') ?w = Some ?h"
    by (simp add: find_host_def sample_world_def host_key_def sample_host_def)
  ultimately show ?thesis
    using UpdateHost_refines_cas [of ?w "''e''" "''h''" HostStatusKnown ?extra]
    by (cases "UpdateHost ''e'' ''h'' HostStatusKnown ?extra ?w")
       (auto simp: Let_def cas_accepts_def table_def cas_def split: sum.splits dest: fun_cong [of _ _ "(''e'', ''h'')"])
qed

text \<open>
  C5. Two components that read a host in the same status and both try to move it, with any additional
  columns that leave the status alone: once the first one has moved the row to another status, the second one
  changes no row at all. It gets an error and sends no event, with one exception: its destination is the one
  of the first, and the row already has every value that it wanted to write; then it is given that row as if
  it had moved it.
\<close>

theorem concurrent_transitions:
  assumes "wf_world w" and "extra_ok extra1" and "extra_ok extra2"
    and "UpdateHostStatus J i j s t1 info1 extra1 w = (Inr r1, w1)" and "t1 \<noteq> s"
    and "UpdateHostStatus J i j s t2 info2 extra2 w1 = (res, w2)"
  shows "w_hosts w2 = w_hosts w1 \<and> (\<exists>r. find_host (i, j) w2 = Some r \<and> Host_Status r = t1 \<and>
    (isl res \<and> w_events w2 = w_events w1 \<or>
     t2 = t1 \<and> res = Inr (Some r) \<and>
       (\<exists>f. assignment (status_extra (w_now w1) s t2 info2 extra2) = Some f \<and> f r = r)))"
proof -
  from assms(2,3) obtain cvs1 cvs2 where cvs: "even (length extra1)" "pairs_of extra1 = Inr cvs1" "C_status \<notin> fst ` set cvs1"
    "even (length extra2)" "pairs_of extra2 = Inr cvs2" "C_status \<notin> fst ` set cvs2"
    by (auto simp: extra_ok_def split: sum.splits)
  from UpdateHostStatus_Inr [OF assms(1) cvs(1-3) assms(4)] obtain r where
    r: "Host_Status r = t1" "find_host (i, j) w1 = Some r" by auto
  have wf: "wf_world w1" using UpdateHostStatus_wf [OF assms(1), of J i j s t1 info1 extra1] assms(4) by simp
  let ?extra = "status_extra (w_now w1) s t2 info2 extra2"
  obtain res1 w1' where u: "UpdateHost i j s ?extra w1 = (res1, w1')" by force
  have none: "filter (guard_row (i, j) s) (w_hosts w1) = []"
    using guarded_rows_None [OF wf, of "(i, j)" s] r assms(5) by auto
  then have "map (\<lambda>h. if guard_row (i, j) s h then f h else h) (w_hosts w1) = w_hosts w1" for f
    by (auto simp: filter_empty_conv intro: map_idI)
  then have same: "w1' = w1"
    using UpdateHost_snd_cases [of i j s ?extra w1] u by (auto simp: update_rows_def)
  have hosts: "w_hosts w2 = w_hosts w1"
    using UpdateHostStatus_frame(1) [of J i j s t2 info2 extra2 w1] assms(6) u same by simp
  then have r2: "find_host (i, j) w2 = Some r" using r(2) by (simp add: find_host_def)
  show ?thesis
  proof (cases res)
    case (Inl err)
    then have "w_events w2 = w_events w1"
      using assms(6) u same by (auto simp: UpdateHostStatus_def UpdateHostAndNotify_def split: sum.splits if_splits)
    with Inl hosts r2 r(1) show ?thesis by auto
  next
    case (Inr x)
    with UpdateHostStatus_Inr [OF wf cvs(4-6)] assms(6) r2 have x: "x = Some r" "Host_Status r = t2" by fastforce+
    from Inr assms(6) u obtain r' where "res1 = Inr r'"
      by (cases res1) (auto simp: UpdateHostStatus_def UpdateHostAndNotify_def)
    with UpdateHost_Inr [OF wf] u r(2) obtain f where "assignment ?extra = Some f" "Host_Status r \<noteq> s \<longrightarrow> f r = r"
      by fastforce
    with Inr x r(1) r2 hosts assms(5) show ?thesis by auto
  qed
qed

theorem concurrent_transitions_witness:
  "let h = sample_host HostStatusKnown; w = sample_world h;
       w1 = snd (UpdateHostStatus (th_unmarshal sample_handler) ''e'' ''h'' HostStatusKnown HostStatusDisconnected '''' [] w);
       (res, w2) = UpdateHostStatus (th_unmarshal sample_handler) ''e'' ''h'' HostStatusKnown HostStatusInsufficient '''' [] w1
   in isl res \<and> w_hosts w2 = w_hosts w1 \<and> w_events w2 = w_events w1 \<and>
      (\<exists>r. find_host (''e'', ''h'') w2 = Some r \<and> Host_Status r = HostStatusDisconnected)"
proof -
  let ?h = "sample_host HostStatusKnown" let ?w = "sample_world ?h" let ?J = "th_unmarshal sample_handler"
  have hw: "healthy ?w" "wf_world ?w" using loaded_facts(1,2) [OF loaded_sample_host] .
  have ok: "extra_ok []" by (simp add: extra_ok_def)
  have "find_host (''e'', ''h'') ?w = Some ?h"
    by (simp add: find_host_def sample_world_def host_key_def sample_host_def)
  from UpdateHostStatus_succeeds [OF hw(1) this, of HostStatusKnown "[]" "''''" ?J HostStatusDisconnected]
  obtain r1 where 1: "UpdateHostStatus ?J ''e'' ''h'' HostStatusKnown HostStatusDisconnected '''' [] ?w =
      (Inr r1, snd (UpdateHostStatus ?J ''e'' ''h'' HostStatusKnown HostStatusDisconnected '''' [] ?w))"
    by (cases "UpdateHostStatus ?J ''e'' ''h'' HostStatusKnown HostStatusDisconnected '''' [] ?w") (auto simp: ok)
  obtain res w2 where 2: "UpdateHostStatus ?J ''e'' ''h'' HostStatusKnown HostStatusInsufficient '''' []
      (snd (UpdateHostStatus ?J ''e'' ''h'' HostStatusKnown HostStatusDisconnected '''' [] ?w)) = (res, w2)" by force
  from concurrent_transitions [OF hw(2) ok ok 1 _ 2] show ?thesis by (auto simp: Let_def 2)
qed

section \<open>Registration\<close>

definition new_row :: "host \<Rightarrow> world \<Rightarrow> host" where
  "new_row h w = h\<lparr>Host_Status := if IsUnboundHost h then HostStatusDiscoveringUnbound else HostStatusDiscovering,
     Host_StatusUpdatedAt := w_now w, Host_StatusInfo := Some statusInfoDiscovering,
     Host_TriggerMonitorTimestamp := w_now w, Host_Progress := Some (progress_of h)\<rparr>"

lemma RegisterHost_new:
  assumes "\<And>op. \<not> w_dbfault w op" and "find_host (host_key h) w = None" and "Host_Status h = HostStatusEmpty"
  shows "\<exists>e. RegisterHost m h w =
    (None, w\<lparr>w_deleted_hosts := filter (\<lambda>(_, r). host_key r \<noteq> host_key h) (w_deleted_hosts w),
             w_hosts := w_hosts w @ [new_row h w], w_events := w_events w @ [e]\<rparr>)"
proof -
  let ?w1 = "w\<lparr>w_deleted_hosts := filter (\<lambda>(_, r). host_key r \<noteq> host_key h) (w_deleted_hosts w)\<rparr>"
  let ?d = "if IsUnboundHost h then HostStatusDiscoveringUnbound else HostStatusDiscovering"
  have get: "GetHostFromDB w (Host_InfraEnvID h) (Host_ID h) = Inl (ErrWrapf ''failed to get host'' ErrRecordNotFound)"
    and get1: "GetHostFromDB ?w1 (Host_InfraEnvID h) (Host_ID h) = Inl (ErrWrapf ''failed to get host'' ErrRecordNotFound)"
    using assms(1,2) by (simp_all add: GetHostFromDB_def host_key_def find_host_def)
  have "(Host_InfraEnvID h, Host_ID h) \<notin> host_key ` set (w_hosts w)"
    using assms(2) by (auto simp: find_host_def find_None_iff host_key_def)
  then have "Create_host (h\<lparr>Host_Status := ?d, Host_StatusUpdatedAt := w_now w, Host_StatusInfo := Some statusInfoDiscovering,
      Host_TriggerMonitorTimestamp := w_now w\<rparr>) ?w1 = (None, ?w1\<lparr>w_hosts := w_hosts w @ [new_row h w]\<rparr>)"
    using assms(1) by (auto simp: Create_host_def new_row_def host_key_def progress_of_def)
  then have "\<exists>e. run_sm m TransitionTypeRegisterHost (TransitionArgsRegisterHost v) h ?w1 =
      (None, ?w1\<lparr>w_hosts := w_hosts w @ [new_row h w], w_events := w_events w @ [e]\<rparr>)" for v
    unfolding run_sm_def registration_run [OF assms(3)]
    using get1 by (simp add: PostRegisterHost_def newStateHost_def Let_def send_event_def) blast
  moreover have "DeleteSoftDeletedHost (Host_ID h) (Host_InfraEnvID h) w = (None, ?w1)"
    using assms(1) by (simp add: DeleteSoftDeletedHost_def host_key_def)
  ultimately show ?thesis using get by (simp add: RegisterHost_def Let_def)
qed

text \<open>
  C9. Registration and deregistration of a host that has no row, in a store whose statements succeed:
  registering creates exactly one row, which is discovering (unbound, if the host has no cluster);
  unregistering removes it from the table again and keeps it as a soft-deleted row; registering the host
  once more removes the soft-deleted row and creates the same row as the first time.
\<close>

theorem registration_roundtrip:
  assumes "\<And>op. \<not> w_dbfault w op" and "find_host (host_key h) w = None" and "Host_Status h = HostStatusEmpty"
  shows "let (e1, w1) = RegisterHost m h w; (e2, w2) = UnRegisterHost (new_row h w) w1; (e3, w3) = RegisterHost m h w2 in
    e1 = None \<and> w_hosts w1 = w_hosts w @ [new_row h w] \<and>
    e2 = None \<and> w_hosts w2 = w_hosts w \<and> (w_now w, new_row h w) \<in> set (w_deleted_hosts w2) \<and>
    e3 = None \<and> w_hosts w3 = w_hosts w1 \<and> (\<forall>(_, r) \<in> set (w_deleted_hosts w3). host_key r \<noteq> host_key h)"
proof -
  from RegisterHost_new [OF assms] obtain e where 1: "RegisterHost m h w =
      (None, w\<lparr>w_deleted_hosts := filter (\<lambda>(_, r). host_key r \<noteq> host_key h) (w_deleted_hosts w),
               w_hosts := w_hosts w @ [new_row h w], w_events := w_events w @ [e]\<rparr>)" by blast
  let ?w1 = "snd (RegisterHost m h w)"
  have k: "(Host_InfraEnvID (new_row h w), Host_ID (new_row h w)) = host_key h" "host_key (new_row h w) = host_key h"
    by (simp_all add: new_row_def host_key_def)
  have keep: "filter (\<lambda>r. host_key r \<noteq> host_key h) (w_hosts w) = w_hosts w"
    "filter (\<lambda>r. host_key r = host_key h) (w_hosts w) = []"
    using assms(2) by (auto simp: find_host_def find_None_iff intro: filter_True)
  obtain w2 where 2: "UnRegisterHost (new_row h w) ?w1 = (None, w2)" "w_hosts w2 = w_hosts w" "w_now w2 = w_now w"
    "w_dbfault w2 = w_dbfault w" "w_deleted_hosts w2 = filter (\<lambda>(_, r). host_key r \<noteq> host_key h) (w_deleted_hosts w) @
      [(w_now w, new_row h w)]"
    using assms(1) keep by (cases "Host_ClusterID (new_row h w)")
      (auto simp: UnRegisterHost_def DeleteHostFromDB_def 1 k)
  have "new_row h w2 = new_row h w" using 2 by (simp add: new_row_def)
  moreover from RegisterHost_new [of w2 h m] assms 2 obtain e' where "RegisterHost m h w2 =
      (None, w2\<lparr>w_deleted_hosts := filter (\<lambda>(_, r). host_key r \<noteq> host_key h) (w_deleted_hosts w2),
                w_hosts := w_hosts w2 @ [new_row h w2], w_events := w_events w2 @ [e']\<rparr>)"
    by (auto simp: find_host_def)
  ultimately show ?thesis using 1 2 by (auto simp: Let_def)
qed

theorem registration_roundtrip_witness:
  "let h = (sample_host HostStatusEmpty)\<lparr>Host_ID := ''i''\<rparr>; w = sample_world (sample_host HostStatusKnown);
       (e1, w1) = RegisterHost sample_manager h w; (e2, w2) = UnRegisterHost (new_row h w) w1;
       (e3, w3) = RegisterHost sample_manager h w2 in
    e1 = None \<and> w_hosts w1 = w_hosts w @ [new_row h w] \<and>
    e2 = None \<and> w_hosts w2 = w_hosts w \<and> (w_now w, new_row h w) \<in> set (w_deleted_hosts w2) \<and>
    e3 = None \<and> w_hosts w3 = w_hosts w1 \<and> (\<forall>(_, r) \<in> set (w_deleted_hosts w3). host_key r \<noteq> host_key h)"
proof -
  let ?h = "(sample_host HostStatusEmpty)\<lparr>Host_ID := ''i''\<rparr>" let ?w = "sample_world (sample_host HostStatusKnown)"
  have "\<not> w_dbfault ?w op" "find_host (host_key ?h) ?w = None" "Host_Status ?h = HostStatusEmpty" for op
    by (simp_all add: sample_world_def find_host_def host_key_def sample_host_def)
  from registration_roundtrip [OF this, of sample_manager] show ?thesis by (simp add: Let_def)
qed

section \<open>Installation progress\<close>

lemma UpdateHost_column_frame:
  assumes "c \<notin> extra_columns extra"
  shows "map_option (column_value c) (find_host k (snd (UpdateHost i j s extra w))) = map_option (column_value c) (find_host k w)"
proof (rule UpdateHost_snd_cases [of i j s extra w])
  fix f assume f: "assignment extra = Some f"
    and w': "snd (UpdateHost i j s extra w) = update_rows (guard_row (i, j) s) f w"
  from f obtain cvs where cvs: "pairs_of extra = Inr cvs"
    by (auto simp: assignment_def split: if_splits sum.splits)
  with assms have "map_of (rev cvs) c = None" by (simp add: extra_columns_def map_of_rev_notin)
  then have "column_value c (f r) = column_value c r" for r using assignment_column [OF f cvs, of c r] by simp
  then show ?thesis
    by (cases "find_host k w") (simp_all add: w' find_guarded [OF assignment_key [OF f]])
qed simp

definition status_columns :: "column set" where
  "status_columns = {C_status, C_status_info, C_status_updated_at, C_trigger_monitor_timestamp}"

lemma UpdateHostStatus_column_frame:
  assumes "c \<notin> status_columns"
  shows "map_option (column_value c) (find_host k (snd (UpdateHostStatus J i j s t info [] w))) =
    map_option (column_value c) (find_host k w)"
proof -
  have "c \<notin> extra_columns (status_extra (w_now w) s t info [])"
    using assms by (auto simp: extra_columns_def status_extra_def status_columns_def)
  from UpdateHost_column_frame [OF this, of k i j s w] show ?thesis
    by (simp add: find_host_def UpdateHostStatus_frame)
qed

text \<open>The run of a progress report writes the status and nothing else.\<close>

lemma progress_run_frame:
  assumes "c \<notin> status_columns"
  shows "map_option (column_value c) (find_host k (snd (run_sm m TransitionTypeHostProgress args h w))) =
    map_option (column_value c) (find_host k w)"
proof -
  let ?th = "m_th m" and ?sh = "newStateHost h w"
  let ?sel = "select_rule stateHost_State (rules_for ?th TransitionTypeHostProgress (stateHost_State ?sh)) ?sh args"
  let ?same = "\<lambda>w'. map_option (column_value c) (find_host k w') = map_option (column_value c) (find_host k w)"
  have upd: "?same (ctx_world (snd (updateTransitionHost th (?sh\<lparr>sw_host := h'\<rparr>) info [])))" for th h' info
    using UpdateHostStatus_column_frame [OF assms, of k "th_unmarshal th" "Host_InfraEnvID h'" "Host_ID h'"
        "Host_Status h" "Host_Status h'" info w]
    by (auto simp: updateTransitionHost_def newStateHost_def split: prod.splits sum.splits option.splits)
  have post: "?same (ctx_world (snd (PostHostProgress ?th (?sh\<lparr>sw_host := h'\<rparr>) args)))" for h'
    using upd by (simp add: PostHostProgress_def newStateHost_def Let_def split: host_args.splits sum.splits)
  have "?same (ctx_world (snd (fire stateHost_SetState tr ?sh args)))" if "?sel = Inr (Some tr)" for tr
  proof -
    from select_rule_Some [OF that] have tr: "tr \<in> set (all_host_rules ?th)" "TransitionType tr = TransitionTypeHostProgress"
      by (auto simp: rules_for_def)
    have "Transition tr = None" using host_no_Transition [OF tr(1)] .
    moreover have "PostTransition tr = None \<or> PostTransition tr = Some (PostHostProgress ?th)"
      using typical_posts [OF tr(1)] tr(2) by (auto simp: typical_post_def)
    ultimately show ?thesis
      using post [of "h\<lparr>Host_Status := DestinationState tr\<rparr>"]
      by (auto simp: fire_def stateHost_SetState_def newStateHost_def split: prod.splits)
  qed
  then show ?thesis
    by (auto simp: run_sm_def sm_Run_eq [OF rules_exist] newStateHost_def split: sum.splits option.splits prod.splits)
qed

lemma IndexOfStage_bounds: "- 1 \<le> IndexOfStage stage stages \<and> IndexOfStage stage stages < int (length stages) \<or> stages = []"
proof -
  have "- 1 \<le> IndexOfStage_from k stage stages \<and> IndexOfStage_from k stage stages < max 0 k + int (length stages)"
    if "0 \<le> k" "stages \<noteq> [] \<or> 0 < k" for k
    using that by (induction k stage stages rule: IndexOfStage_from.induct) auto
  from this [of 0] show ?thesis by (auto simp: IndexOfStage_def)
qed

lemma installationPercentage_bounds:
  assumes "stages \<noteq> []"
  obtains n where "installationPercentage (IndexOfStage stage stages) stages = INum n" "n \<in> {0..100}"
proof -
  have b: "0 \<le> IndexOfStage stage stages + 1" "IndexOfStage stage stages + 1 \<le> int (length stages)"
    using IndexOfStage_bounds [of stage stages] assms by auto
  have "0 < float64 (int (length stages))" using assms by (simp add: float64_pos)
  then obtain n where n: "percentage (float64 (IndexOfStage stage stages + 1)) (float64 (int (length stages))) = Some n"
    by (simp add: percentage_def fdiv_def)
  moreover have "n \<in> {0..100}"
    using percentage_range [OF _ _ n] float64_nonneg [OF b(1)] float64_mono [OF b] by simp
  ultimately show ?thesis using that [of n] by (simp add: installationPercentage_def)
qed

text \<open>The stage that a report stores: rebooting is the last stage of a day-2 host that is not managed by kube-api.\<close>

definition stored_stage :: "manager \<Rightarrow> host \<Rightarrow> host_stage \<Rightarrow> host_stage" where
  "stored_stage m h stage =
     (if stage = HostStageRebooting \<and> Host_Kind h = HostKindAddToExistingClusterHost \<and> \<not> m_kubeApiEnabled m
      then HostStageDone else stage)"

lemma UpdateHostProgress_total:
  assumes l: "loaded h w" and row: "find_host (host_key h) w = Some h" and st: "Host_Status h \<in> {HostStatusInstalling, HostStatusInstallingInProgress,
      HostStatusInstallingPendingUserAction}" and len: "length info \<le> varchar_max"
  shows "\<exists>w' r. UpdateHostProgress m (Host_InfraEnvID h) (Host_ID h) (Host_Status h) src stage info
      [IName C_progress_installation_percentage, INum n] w = (None, w') \<and> find_host (host_key h) w' = Some r \<and>
    Some (Host_Status r) = progress_spec h stage \<and> CurrentStage (progress_of r) = stage \<and>
    InstallationPercentage (progress_of r) = n \<and> ProgressInfo (progress_of r) = info"
proof -
  define extra where "extra = [IName C_progress_current_stage, IStage stage, IName C_progress_progress_info, IString info,
      IName C_progress_stage_updated_at, ITime (w_now w)] @
      [IName C_progress_installation_percentage, INum n] @
      (if stage \<noteq> src then [IName C_progress_stage_started_at, ITime (w_now w),
         IName C_progress_stage_timed_out, IBool False] else [])"
  have k: "(Host_InfraEnvID h, Host_ID h) = host_key h" by (simp add: host_key_def)
  have hw: "healthy w" "wf_world w" using loaded_facts [OF l] by simp_all
  have "fits extra" using len unfolding extra_def by (auto intro!: fits_append fits_pair)
  from UpdateHost_succeeds [OF hw(1) row [folded k] refl this] obtain h1 w1 where
    u: "UpdateHost (Host_InfraEnvID h) (Host_ID h) (Host_Status h) extra w = (Inr h1, w1)" by blast
  from UpdateHost_Inr [OF hw(2) u] row k obtain f where f: "assignment extra = Some f" "h1 = f h"
    "find_host (host_key h) w1 = Some h1" by auto
  obtain cvs where cvs: "pairs_of extra = Inr cvs" "cvs = [(C_progress_current_stage, IStage stage),
      (C_progress_progress_info, IString info), (C_progress_stage_updated_at, ITime (w_now w)),
      (C_progress_installation_percentage, INum n)] @
      (if stage \<noteq> src then [(C_progress_stage_started_at, ITime (w_now w)), (C_progress_stage_timed_out, IBool False)]
       else [])" by (simp add: extra_def)
  note col = assignment_column [OF f(1) cvs(1), of _ h]
  have h1: "Host_Status h1 = Host_Status h" "Host_Kind h1 = Host_Kind h" "CurrentStage (progress_of h1) = stage"
    "InstallationPercentage (progress_of h1) = n" "ProgressInfo (progress_of h1) = info"
    using col [of C_status] col [of C_kind] col [of C_progress_current_stage]
      col [of C_progress_installation_percentage] col [of C_progress_progress_info] f(2) cvs(2)
    by (cases "stage = src"; simp)+
  have key: "host_key h1 = host_key h" using f(2) assignment_key [OF f(1)] by simp
  have l1: "loaded h1 w1"
    using UpdateHost_wf [OF hw(2), of "Host_InfraEnvID h" "Host_ID h" "Host_Status h" extra] hw(1) f(3)
      UpdateHost_frame(7) [of "Host_InfraEnvID h" "Host_ID h" "Host_Status h" extra w]
    by (simp add: loaded_def healthy_def key u find_host_progress del: not_None_eq)
  then obtain p1 where p1: "Host_Progress h1 = Some p1" "progress_of h1 = p1"
    using loaded_facts(3) [OF l1] by (auto simp: progress_of_def)
  let ?run = "run_sm m TransitionTypeHostProgress (TransitionArgsProgressHost (\<not> m_kubeApiEnabled m)) h1 w1"
  have spec: "progress_spec h1 stage = progress_spec h stage" "\<exists>s. progress_spec h stage = Some s"
    using st by (auto simp: progress_spec_def h1 IsDay2Host_def Let_def)
  from progress_run [OF l1 p1(1), of "m_th m" "\<not> m_kubeApiEnabled m"] spec h1(3) p1(2) obtain r where
    r: "fst ?run = None" "find_host (host_key h) (snd ?run) = Some r" "Some (Host_Status r) = progress_spec h stage"
    by (auto simp: outcome_def run_sm_simps stored_status_def stored_row_def run_key key)
  have "column_value c r = column_value c h1" if "c \<notin> status_columns" for c
    using progress_run_frame [OF that, of "host_key h" m "TransitionArgsProgressHost (\<not> m_kubeApiEnabled m)" h1 w1]
      r(2) f(3) by simp
  from this [of C_progress_current_stage] this [of C_progress_installation_percentage]
    this [of C_progress_progress_info] h1 have "CurrentStage (progress_of r) = stage"
    "InstallationPercentage (progress_of r) = n" "ProgressInfo (progress_of r) = info"
    by (simp_all add: status_columns_def)
  with r u show ?thesis by (cases ?run) (simp add: UpdateHostProgress_def extra_def)
qed

text \<open>The checks of a new stage that is not a failure.\<close>

definition stage_accepted :: "host_stage list \<Rightarrow> host_stage \<Rightarrow> host_stage \<Rightarrow> bool" where
  "stage_accepted stages current stage \<longleftrightarrow> current = HostStageEmpty \<or>
     (IndexOfStage stage stages \<noteq> -1 \<and> IndexOfStage current stages \<le> IndexOfStage stage stages)"

lemma new_stage:
  assumes "loaded h w" and "find_host (host_key h) w = Some h"
    and "Host_Status h \<in> {HostStatusInstalling, HostStatusInstallingInProgress,
      HostStatusInstallingPendingUserAction}" and "length info \<le> varchar_max"
    and "Host_Progress h = Some p" and "stage \<notin> {HostStageFailed, CurrentStage p}"
    and "stages = GetStagesByRole m h (IsSingleNode w h)" and "stages \<noteq> []"
  shows "if stage_accepted stages (CurrentStage p) stage
    then \<exists>w' r. UpdateInstallProgress m h stage info w = (None, w') \<and> find_host (host_key h) w' = Some r \<and>
      Some (Host_Status r) = progress_spec h (stored_stage m h stage) \<and>
      CurrentStage (progress_of r) = stored_stage m h stage \<and> ProgressInfo (progress_of r) = info \<and>
      installationPercentage (IndexOfStage stage stages) stages = INum (InstallationPercentage (progress_of r)) \<and>
      InstallationPercentage (progress_of r) \<in> {0..100}
    else \<exists>msg. UpdateInstallProgress m h stage info w = (Some (ApiError 409 msg), w)"
proof -
  obtain n where n: "installationPercentage (IndexOfStage stage stages) stages = INum n" "n \<in> {0..100}"
    using installationPercentage_bounds [OF assms(8)] .
  have reach: "UpdateInstallProgress m h stage info w = (case progress_extra m h stage w of
      Inl err \<Rightarrow> (Some err, w) | Inr extra \<Rightarrow> progress_switch m h stage info extra w)"
    using assms(3,5,6) by (auto simp: UpdateInstallProgress_def)
  show ?thesis
  proof (cases "stage_accepted stages (CurrentStage p) stage")
    case True
    then have "progress_extra m h stage w = Inr [IName C_progress_installation_percentage, INum n]"
      using n(1) assms(5-8) by (auto simp: progress_extra_def stage_accepted_def Let_def)
    with reach assms(5,6) have "UpdateInstallProgress m h stage info w = UpdateHostProgress m (Host_InfraEnvID h)
        (Host_ID h) (Host_Status h) (CurrentStage p) (stored_stage m h stage) info
        [IName C_progress_installation_percentage, INum n] w"
      by (simp add: progress_switch_def stored_stage_def)
    with True UpdateHostProgress_total [OF assms(1-4), of m "CurrentStage p" "stored_stage m h stage" n]
      n show ?thesis by auto
  next
    case False
    then show ?thesis
      using reach assms(5-7) by (auto simp: progress_extra_def stage_accepted_def Let_def)
  qed
qed

lemma updateHostAndNotify_simps:
  "w_hosts (snd (updateHostAndNotify h u w)) = w_hosts (snd (updateHost h u w))"
  "fst (updateHostAndNotify h u w) = fst (updateHost h u w)"
  by (auto simp: updateHostAndNotify_def split: prod.splits sum.splits)

text \<open>A repeated stage only replaces the text of the progress.\<close>

lemma repeated_stage:
  assumes "loaded h w" and "find_host (host_key h) w = Some h" and "Host_Progress h = Some p"
    and "length info \<le> varchar_max"
  shows "\<exists>w' r. UpdateInstallProgress m h (CurrentStage p) info w = (None, w') \<and> find_host (host_key h) w' = Some r \<and>
    Host_Status r = Host_Status h \<and> CurrentStage (progress_of r) = CurrentStage p \<and>
    InstallationPercentage (progress_of r) = InstallationPercentage p \<and> ProgressInfo (progress_of r) = info"
proof (cases "ProgressInfo p = info")
  case True
  with assms(2,3) show ?thesis by (simp add: UpdateInstallProgress_def progress_of_def)
next
  case False
  define u where "u = [(C_progress_progress_info, IString info), (C_progress_stage_updated_at, ITime (w_now w))]"
  define f where "f = upd_progress (StageUpdatedAt_update (\<lambda>_. w_now w)) \<circ> upd_progress (ProgressInfo_update (\<lambda>_. info))"
  have f: "assign_all u = Some f" using assms(4) by (simp add: u_def f_def comp_def)
  have key: "host_key (f r) = host_key r" for r by (simp add: f_def host_key_def upd_progress_def)
  have "\<not> w_dbfault w UpdateHosts" using assms(1) by (simp add: loaded_def healthy_def)
  with f have upd: "fst (updateHost h u w) = Inr (f h)" "w_hosts (snd (updateHost h u w)) = w_hosts (update_rows (pk_row h) f w)"
    by (simp_all add: updateHost_def)
  have "find_host (host_key h) (snd (updateHostAndNotify h u w)) = Some (f h)"
    using find_update_rows [OF key, of "host_key h" "pk_row h" w] assms(2) upd(2)
    by (simp add: find_host_def updateHostAndNotify_simps pk_row_def)
  moreover have "UpdateInstallProgress m h (CurrentStage p) info w = (None, snd (updateHostAndNotify h u w))"
    using False assms(3) upd(1) by (simp add: UpdateInstallProgress_def updateHostAndNotify_simps error_of_def
        flip: u_def split: prod.split) (simp add: prod_eq_iff updateHostAndNotify_simps)
  ultimately show ?thesis using assms(3) by (simp add: f_def progress_of_def upd_progress_def)
qed

text \<open>The status text of a failure that the agent reports.\<close>

definition failure_text :: "string \<Rightarrow> string" where
  "failure_text info = host_stage_string HostStageFailed @ (if info \<noteq> '''' then '' - '' @ info else '''')"

text \<open>A reported failure puts the host into error, unless its text is too long for the column.\<close>

lemma failed_stage:
  assumes l: "loaded h w" and row: "find_host (host_key h) w = Some h"
    and st: "Host_Status h \<in> {HostStatusInstalling, HostStatusInstallingInProgress,
      HostStatusInstallingPendingUserAction}"
    and p: "Host_Progress h = Some p" "CurrentStage p \<noteq> HostStageFailed"
  shows "if length (failure_text info) \<le> varchar_max
    then \<exists>w' r. UpdateInstallProgress m h HostStageFailed info w = (None, w') \<and> find_host (host_key h) w' = Some r \<and>
      Host_Status r = HostStatusError \<and> Host_StatusInfo r = Some (failure_text info) \<and>
      CurrentStage (progress_of r) = CurrentStage p \<and>
      InstallationPercentage (progress_of r) = InstallationPercentage p \<and> ProgressInfo (progress_of r) = ProgressInfo p
    else \<exists>err. UpdateInstallProgress m h HostStageFailed info w = (Some err, w)"
proof -
  let ?upd = "UpdateHostStatus (th_unmarshal (m_th m)) (Host_InfraEnvID h) (Host_ID h) (Host_Status h)
      HostStatusError (failure_text info) [] w"
  let ?ex = "status_extra (w_now w) (Host_Status h) HostStatusError (failure_text info) []"
  have k: "(Host_InfraEnvID h, Host_ID h) = host_key h" by (simp add: host_key_def)
  have run: "UpdateInstallProgress m h HostStageFailed info w = (error_of (fst ?upd), snd ?upd)"
    using st p by (auto simp: UpdateInstallProgress_def progress_extra_def progress_switch_def failure_text_def
        split: prod.splits)
  have pairs: "pairs_of ?ex = Inr ([(C_status, IStatus HostStatusError), (C_status_info, IString (failure_text info)),
      (C_status_updated_at, ITime (w_now w)), (C_trigger_monitor_timestamp, ITime (w_now w))])"
    using st by (auto simp: status_extra_def)
  show ?thesis
  proof (cases "length (failure_text info) \<le> varchar_max")
    case True
    have hw: "healthy w" "wf_world w" using loaded_facts [OF l] by simp_all
    from UpdateHostStatus_succeeds [OF hw(1) row [folded k] refl fits_Nil _ True,
        of "th_unmarshal (m_th m)" HostStatusError] obtain r w' where
      u: "?upd = (Inr (Some r), w')" by (auto simp: extra_ok_def)
    from UpdateHostStatus_Inr [OF hw(2) _ _ _ u] have r: "find_host (host_key h) w' = Some r" "Host_Status r = HostStatusError"
      by (auto simp: k)
    have keep: "column_value c r = column_value c h" if "c \<notin> status_columns" for c
      using UpdateHostStatus_column_frame [OF that, of "host_key h" "th_unmarshal (m_th m)" "Host_InfraEnvID h" "Host_ID h"
          "Host_Status h" HostStatusError "failure_text info" w] u r(1) row by simp
    have info: "Host_StatusInfo r = Some (failure_text info)"
    proof -
      from u have "UpdateHost (Host_InfraEnvID h) (Host_ID h) (Host_Status h) ?ex w =
          (Inr r, snd (UpdateHost (Host_InfraEnvID h) (Host_ID h) (Host_Status h) ?ex w))"
        by (auto simp: UpdateHostStatus_def UpdateHostAndNotify_def split: sum.splits prod.splits if_splits)
      from UpdateHost_column [OF hw(2) this pairs, of C_status_info] show ?thesis by (simp split: option.splits)
    qed
    from keep [of C_progress_current_stage] keep [of C_progress_installation_percentage]
      keep [of C_progress_progress_info] have "CurrentStage (progress_of r) = CurrentStage p"
      "InstallationPercentage (progress_of r) = InstallationPercentage p" "ProgressInfo (progress_of r) = ProgressInfo p"
      using p by (simp_all add: status_columns_def progress_of_def)
    with True r info run u show ?thesis by (simp add: error_of_def)
  next
    case False
    have "assignment ?ex = None"
    proof (rule ccontr)
      assume "assignment ?ex \<noteq> None"
      then obtain f where "assignment ?ex = Some f" by blast
      with pairs False show False
        by (auto simp: assignment_def assign_all_defined updates_map_def split: if_splits)
    qed
    with UpdateHost_fails [of ?ex w "Host_InfraEnvID h" "Host_ID h" "Host_Status h"] False run show ?thesis
      by (auto simp: UpdateHostStatus_def UpdateHostAndNotify_def error_of_def)
  qed
qed



section \<open>Setters\<close>

definition before_installation :: "host \<Rightarrow> bool" where
  "before_installation h = List.member hostStatusesBeforeInstallationOrUnbound (Host_Status h)"

text \<open>The result of a setter without the host that it returns.\<close>

definition setter_result :: "(go_error + 'a) \<times> world \<Rightarrow> go_error option \<times> world" where
  "setter_result res = (error_of (fst res), snd res)"

text \<open>
  What a setter does in a world: it is refused with the code 400 and has no effect, or it is allowed; then it
  fails only with the database, and otherwise the selected rows get the change and no other row changes.
\<close>

definition setter_outcome ::
  "world \<Rightarrow> bool \<Rightarrow> (host \<Rightarrow> bool) \<Rightarrow> (host \<Rightarrow> host) \<Rightarrow> go_error option \<times> world \<Rightarrow> bool" where
  "setter_outcome w allowed rows change res \<longleftrightarrow>
     (if allowed
      then res = (Some ErrDB, w) \<and> w_dbfault w UpdateHosts \<or>
           fst res = None \<and> \<not> w_dbfault w UpdateHosts \<and>
           w_hosts (snd res) = map (\<lambda>r. if rows r then change r else r) (w_hosts w)
      else \<exists>msg. res = (Some (ApiError 400 msg), w))"

text \<open>The setters with one text, each with the change of a row that it stands for at time \<open>t\<close>.\<close>

definition text_setters ::
  "host \<Rightarrow> string \<Rightarrow> time \<Rightarrow> ((world \<Rightarrow> (go_error + host) \<times> world) \<times> (host \<Rightarrow> host)) list" where
  "text_setters h s t =
     [(UpdateHostname h s, \<lambda>r. r\<lparr>Host_RequestedHostname := s, Host_TriggerMonitorTimestamp := t\<rparr>),
      (UpdateMachineConfigPoolName h s, \<lambda>r. r\<lparr>Host_MachineConfigPoolName := s, Host_TriggerMonitorTimestamp := t\<rparr>),
      (UpdateIgnitionEndpointHTTPHeaders h s,
         \<lambda>r. r\<lparr>Host_IgnitionEndpointHTTPHeaders := s, Host_TriggerMonitorTimestamp := t\<rparr>),
      (UpdateNodeLabels h s, \<lambda>r. r\<lparr>Host_NodeLabels := s, Host_TriggerMonitorTimestamp := t\<rparr>),
      (UpdateNodeSkipDiskFormatting h s, \<lambda>r. r\<lparr>Host_SkipFormattingDisks := s, Host_TriggerMonitorTimestamp := t\<rparr>),
      (UpdateFencing h s, \<lambda>r. r\<lparr>Host_FencingCredentials := s, Host_TriggerMonitorTimestamp := t\<rparr>)]"

text \<open>A new role: the suggestion follows it, a worker is no bootstrap host, and the pool of a day-2 host follows its role.\<close>

definition role_change :: "host \<Rightarrow> host_role \<Rightarrow> time \<Rightarrow> host \<Rightarrow> host" where
  "role_change h role t r =
     (let r1 = r\<lparr>Host_SuggestedRole := role, Host_TriggerMonitorTimestamp := t\<rparr>;
          r2 = (if role = HostRoleWorker then r1\<lparr>Host_Bootstrap := False\<rparr> else r1);
          r3 = (if IsDay2Host h \<and> Host_MachineConfigPoolName h \<in> {'''', host_role_string (Host_Role h)}
                then r2\<lparr>Host_MachineConfigPoolName := host_role_string role\<rparr> else r2)
      in if Host_Role h = role then r1 else r3\<lparr>Host_Role := role\<rparr>)"

lemma pk_row_fields [simp]:
  "pk_row (h\<lparr>Host_RequestedHostname := s\<rparr>) = pk_row h" "pk_row (h\<lparr>Host_NodeLabels := s\<rparr>) = pk_row h"
  "pk_row (h\<lparr>Host_SkipFormattingDisks := s\<rparr>) = pk_row h" "pk_row (h\<lparr>Host_FencingCredentials := s\<rparr>) = pk_row h"
  "pk_row (h\<lparr>Host_InstallationDiskPath := s, Host_InstallationDiskID := s'\<rparr>) = pk_row h"
  by (simp_all add: pk_row_def fun_eq_iff)

text \<open>A change of the rows with the primary key of a host, with or without a notification.\<close>

lemma updateHost_outcome:
  assumes "pk_row h = rows" and "assign_all u = Some f" and "\<And>r. f r = change r"
  shows "setter_outcome w True rows change (setter_result (updateHost h u w))"
    and "setter_outcome w True rows change (setter_result (updateHostAndNotify h u w))"
  using assms by (auto simp: setter_outcome_def setter_result_def error_of_def updateHost_def update_rows_def
      updateHostAndNotify_def split: sum.splits)

lemma guarded_setter_outcome:
  assumes "setter_outcome w True rows change (setter_result (upd w))"
  shows "setter_outcome w (before_installation h) rows change (setter_result (guarded_setter msg h upd w))"
  using assms
  by (auto simp: guarded_setter_def check_before_installation_def before_installation_def setter_outcome_def
      setter_result_def error_of_def)

lemma text_setters_outcome:
  "list_all (\<lambda>(op, change). setter_outcome w (before_installation h) (pk_row h) change (setter_result (op w)))
   (text_setters h s (w_now w))"
  unfolding text_setters_def UpdateHostname_def UpdateMachineConfigPoolName_def
    UpdateIgnitionEndpointHTTPHeaders_def UpdateNodeLabels_def UpdateNodeSkipDiskFormatting_def UpdateFencing_def
  by (simp only: list.pred_inject prod.case, intro conjI TrueI guarded_setter_outcome updateHost_outcome)
     (simp_all add: fun_eq_iff)

lemma UpdateIgnitionEndpointToken_outcome:
  "setter_outcome w (s = '''' \<or> before_installation h) (pk_row h)
     (\<lambda>r. r\<lparr>Host_IgnitionEndpointToken := s, Host_IgnitionEndpointTokenSet := s \<noteq> '''',
        Host_TriggerMonitorTimestamp := w_now w\<rparr>) (setter_result (UpdateIgnitionEndpointToken h s w))"
  by (simp add: UpdateIgnitionEndpointToken_def setter_outcome_def setter_result_def error_of_def updateHost_def update_rows_def
      before_installation_def)

lemma UpdateInstallationDisk_outcome:
  "(case m_GetHostValidDisks m h of
      Inl err \<Rightarrow> if before_installation h
                 then setter_result (UpdateInstallationDisk m h s w) = (Some err, w)
                 else setter_outcome w False (pk_row h) id (setter_result (UpdateInstallationDisk m h s w))
    | Inr disks \<Rightarrow>
        setter_outcome w (before_installation h \<and>
            GetDiskByInstallationPath disks s \<noteq> None) (pk_row h)
          (\<lambda>r. r\<lparr>Host_InstallationDiskPath := GetDeviceFullName (the (GetDiskByInstallationPath disks s)),
             Host_InstallationDiskID := GetDeviceIdentifier (the (GetDiskByInstallationPath disks s)),
             Host_TriggerMonitorTimestamp := w_now w\<rparr>) (setter_result (UpdateInstallationDisk m h s w)))"
proof (cases "m_GetHostValidDisks m h")
  case (Inl err)
  then show ?thesis
    by (simp add: UpdateInstallationDisk_def guarded_setter_def check_before_installation_def before_installation_def
        setter_outcome_def setter_result_def error_of_def)
next
  case (Inr disks)
  show ?thesis
  proof (cases "GetDiskByInstallationPath disks s")
    case None
    with Inr show ?thesis
      by (simp add: UpdateInstallationDisk_def guarded_setter_def check_before_installation_def before_installation_def
          setter_outcome_def setter_result_def error_of_def)
  next
    case (Some d)
    with Inr show ?thesis
      unfolding UpdateInstallationDisk_def
      by simp (intro guarded_setter_outcome updateHost_outcome; simp add: fun_eq_iff)
  qed
qed

lemma assign_role_fields:
  "\<exists>f. assign_all (role_fields h role role (Host_Role h) t) = Some f \<and> (\<forall>r. f r = role_change h role t r)"
  by (simp add: role_fields_def role_change_def Let_def) blast

lemma UpdateRole_outcome:
  "setter_outcome w (before_installation h \<and> (Host_Role h = role \<or> IsRoleValid role (IsDay2Host h)))
     (\<lambda>r. host_key r = host_key h \<and> Host_Role r = Host_Role h) (role_change h role (w_now w)) (UpdateRole h role w)"
proof -
  obtain f where f: "assign_all (role_fields h role role (Host_Role h) (w_now w)) = Some f"
    "f = role_change h role (w_now w)" using assign_role_fields [of h role "w_now w"] by blast
  have "updateRole h role role (Host_Role h) w =
      (if \<not> before_installation h then (Some (ApiError 400 (ErrNew ''host role can be set only before installation'')), w)
       else if Host_Role h \<noteq> role \<and> \<not> IsRoleValid role (IsDay2Host h)
       then (Some (ApiError 400 (ErrNew ''Requested role is invalid for host'')), w)
       else if w_dbfault w UpdateHosts then (Some ErrDB, w)
       else (None, update_rows (\<lambda>r. host_key r = host_key h \<and> Host_Role r = Host_Role h) f w))"
    using f(1) unfolding updateRole_def before_installation_def role_fields_def Let_def by (simp only: option.case)
  then show ?thesis by (simp add: UpdateRole_def setter_outcome_def update_rows_def f(2))
qed

text \<open>
  C8. The setters that users call. Once the installation of a host has begun (its status is not one of those
  before the installation or without a cluster), every setter but one is refused with the code 400 and changes
  nothing at all; the exception is the token of the ignition endpoint, which can be cleared at any time but
  not set. Before, a setter succeeds unless the database fails, and then the rows with the primary key of the
  host have the new value in the setter's columns (one, but two for the token and for the disk, and for a role
  those that follow from it) and a new time stamp for the monitor; no other column and no other row changes.
  A disk that is not among the valid ones and a role that the host cannot have are refused with the code 400
  too, and a role is written only while the row still has the role that the caller saw.
\<close>

theorem user_setters_guarded:
  "list_all (\<lambda>(op, change). setter_outcome w (before_installation h) (pk_row h) change (setter_result (op w))) (text_setters h s (w_now w)) \<and>
    setter_outcome w (s = '''' \<or> before_installation h) (pk_row h)
      (\<lambda>r. r\<lparr>Host_IgnitionEndpointToken := s, Host_IgnitionEndpointTokenSet := s \<noteq> '''', Host_TriggerMonitorTimestamp := w_now w\<rparr>)
      (setter_result (UpdateIgnitionEndpointToken h s w)) \<and>
    (case m_GetHostValidDisks m h of
       Inl err \<Rightarrow> if before_installation h then setter_result (UpdateInstallationDisk m h s w) = (Some err, w)
                  else setter_outcome w False (pk_row h) id (setter_result (UpdateInstallationDisk m h s w))
     | Inr disks \<Rightarrow> setter_outcome w (before_installation h \<and> GetDiskByInstallationPath disks s \<noteq> None) (pk_row h)
          (\<lambda>r. r\<lparr>Host_InstallationDiskPath := GetDeviceFullName (the (GetDiskByInstallationPath disks s)),
             Host_InstallationDiskID := GetDeviceIdentifier (the (GetDiskByInstallationPath disks s)),
             Host_TriggerMonitorTimestamp := w_now w\<rparr>) (setter_result (UpdateInstallationDisk m h s w))) \<and>
    setter_outcome w (before_installation h \<and> (Host_Role h = role \<or> IsRoleValid role (IsDay2Host h)))
      (\<lambda>r. host_key r = host_key h \<and> Host_Role r = Host_Role h) (role_change h role (w_now w)) (UpdateRole h role w)"
  using text_setters_outcome [where w=w and h=h and s=s] UpdateIgnitionEndpointToken_outcome [where w=w and h=h and s=s]
    UpdateInstallationDisk_outcome [where m=m and h=h and s=s and w=w] UpdateRole_outcome [where w=w and h=h and role=role]
  by simp

section \<open>Refreshing the status\<close>

lemma status_identity:
  "map_option Host_Status (find_host k w) =
   map_option (\<lambda>(_, s, _). s) (find (\<lambda>(k', _, _). k' = k) (map row_identity (w_hosts w)))"
proof -
  have "map_option Host_Status (find (\<lambda>r. host_key r = k) rs) =
      map_option (\<lambda>(_, s, _). s) (find (\<lambda>(k', _, _). k' = k) (map row_identity rs))" for rs
    by (induction rs) (simp_all add: row_identity_def)
  then show ?thesis by (simp add: find_host_def)
qed

lemma quiet_status:
  "quiet w w' \<Longrightarrow> map_option Host_Status (find_host k w') = map_option Host_Status (find_host k w)"
  by (simp only: status_identity quiet_identity)

lemma quiet_loaded: "quiet w w' \<Longrightarrow> loaded h w \<Longrightarrow> loaded h w'"
  using quiet_frame [of w w'] quiet_wf [of w w'] quiet_status [of w w' "host_key h"]
  by (simp add: loaded_def healthy_def)

text \<open>The outcome of a run as the callers of the machine see it.\<close>

lemma run_sm_outcome:
  assumes "outcome d (newStateHost h w) (sm_Run (m_th m) t (newStateHost h w) args)"
  shows "case d of
      None \<Rightarrow> run_sm m t args h w = (Some NoConditionPassedToRunTransaction, w)
    | Some s \<Rightarrow> fst (run_sm m t args h w) = None \<and>
        map_option Host_Status (find_host (host_key h) (snd (run_sm m t args h w))) = Some s"
proof (cases d)
  case None
  with assms show ?thesis by (simp add: outcome_def run_sm_def newStateHost_def)
next
  case (Some s)
  with assms show ?thesis
    by (simp add: outcome_def run_sm_simps stored_status_def stored_row_def run_key)
qed

lemma updateValidationsInDB_succeeds:
  assumes "loaded h w" and "m_marshalValidations m new = Inr b"
  shows "\<exists>r w'. updateValidationsInDB m h new w = (Inr r, w') \<and> quiet w w'"
proof -
  from assms(1) obtain r where "healthy w" "find_host (Host_InfraEnvID h, Host_ID h) w = Some r" "Host_Status r = Host_Status h"
    by (auto simp: loaded_def host_key_def)
  from UpdateHost_succeeds [OF this fits_pair [OF _ fits_Nil], of C_validations_info "IString b"] obtain r' w'
    where "updateValidationsInDB m h new w = (Inr r', w')"
    by (auto simp: updateValidationsInDB_def assms(2))
  with updateValidationsInDB_quiet [of w m h new] show ?thesis by auto
qed

lemma refreshStatusInternal_run:
  assumes "loaded h w" and "newValidationContext m ctxErr h cl i w = Inr vc"
    and "preprocess (m_validator m) vc = Inr (c, new)" and "GetValidations m h = Inr cur"
    and "m_marshalValidations m new = Inr b"
  shows "\<exists>w1. quiet w w1 \<and> refreshStatusInternal m ctxErr h cl i w =
    (case run_sm m TransitionTypeRefresh (TransitionArgsRefreshHost c new) h w1 of
       (Some err, w2) \<Rightarrow> (Some (ApiError 409 err), w2) | (None, w2) \<Rightarrow> (None, w2))"
proof (cases "didValidationChanged new cur")
  case True
  let ?w0 = "reportValidationStatusChanged m h new cur w"
  have q: "quiet w ?w0" by (rule reportValidationStatusChanged_quiet)
  from updateValidationsInDB_succeeds [OF quiet_loaded [OF q assms(1)] assms(5)] obtain r w1
    where "updateValidationsInDB m h new ?w0 = (Inr r, w1)" "quiet ?w0 w1" by blast
  with True assms q quiet_trans show ?thesis
    by (auto simp: refreshStatusInternal_def error_of_def)
next
  case False
  with assms quiet_refl show ?thesis by (auto simp: refreshStatusInternal_def)
qed

text \<open>
  The values of the validations of a host of a cluster, of those of its operators and of the conditions:
  the function of each condition, applied to the context of the refresh, gives the value.
\<close>

definition evaluated ::
  "validator \<Rightarrow> validation_ctx \<Rightarrow> bool \<Rightarrow> string list \<Rightarrow> operator_result list \<Rightarrow> conditions \<Rightarrow> bool" where
  "evaluated v vc ovr ig rs c \<longleftrightarrow>
     list_all (\<lambda>x. c (VKey (fst x)) =
       Some (passes v ovr vc (fst x) \<or> shown v ovr vc x \<and> ignored ig (fst x))) newValidations \<and>
     list_all (\<lambda>r. c (VKey (OR_ValidationId r)) =
       Some (OR_Status r = ValidationSuccess \<or> ignored ig (OR_ValidationId r))) rs \<and>
     list_all (\<lambda>(i, fn). map_option Inr (c (CKey i)) = Some (fn vc)) (newConditions v)"

lemma newValidationContext_cluster:
  assumes "newValidationContext m ctxErr h None False w = Inr vc" and "Host_ClusterID h = Some cid"
  shows "\<exists>cl. vc_cluster vc = Some cl \<and> GetClusterFromDBWithHosts w cid = Inr cl"
    and "\<not> vc_infraEnv vc" and "vc_host vc = h" and "vc_ctx_err vc = ctxErr"
  using assms by (auto simp: newValidationContext_def Let_def split: sum.splits option.splits)

lemma refresh_status_outcome:
  assumes l: "loaded h w" and st: "Host_Status h \<in> set preinstall_statuses" and cid: "Host_ClusterID h = Some cid"
    and vc: "newValidationContext m (\<lambda>_. False) h None False w = Inr vc" and cl: "vc_cluster vc = Some cl"
    and ig: "DeserializeJSONList (m_validator m) (Cluster_IgnoredHostValidations cl) = Inr ig"
    and rs: "v_ValidateHost (m_validator m) (Some cl) h = Inr rs" "distinct (map OR_ValidationId rs)"
      "OR_ValidationId ` set rs = set operators_validations"
    and cur: "GetValidations m h = Inr cur" and marshal: "\<And>new. \<exists>b. m_marshalValidations m new = Inr b"
  shows "\<exists>c. evaluated (m_validator m) vc (override_of cl) ig rs c \<and>
    (case preinstall_spec c (Host_Status h) of
       None \<Rightarrow> fst (RefreshStatus m (\<lambda>_. False) h w) = Some (ApiError 409 NoConditionPassedToRunTransaction) \<and>
         map_option Host_Status (find_host (host_key h) (snd (RefreshStatus m (\<lambda>_. False) h w))) = Some (Host_Status h)
     | Some s \<Rightarrow> fst (RefreshStatus m (\<lambda>_. False) h w) = None \<and>
         map_option Host_Status (find_host (host_key h) (snd (RefreshStatus m (\<lambda>_. False) h w))) = Some s)"
proof -
  note ctx = newValidationContext_cluster [OF vc cid]
  from loaded_facts(3) [OF l] obtain p where p: "Host_Progress h = Some p" by auto
  from preprocess_values [of vc cl "m_validator m" ig p rs] ctx cl ig p rs obtain c new where
    pre: "preprocess (m_validator m) vc = Inr (c, new)" and complete: "complete_conditions c"
    and ev: "evaluated (m_validator m) vc (override_of cl) ig rs c"
    using preprocess_conditions by (fastforce simp: evaluated_def list_all_iff)
  from marshal [of new] obtain b where b: "m_marshalValidations m new = Inr b" ..
  from refreshStatusInternal_run [OF l vc pre cur b] obtain w1 where q: "quiet w w1"
    and run: "RefreshStatus m (\<lambda>_. False) h w =
      (case run_sm m TransitionTypeRefresh (TransitionArgsRefreshHost c new) h w1 of
       (Some err, w2) \<Rightarrow> (Some (ApiError 409 err), w2) | (None, w2) \<Rightarrow> (None, w2))"
    by (auto simp: RefreshStatus_def)
  have l1: "loaded h w1" by (rule quiet_loaded [OF q l])
  from run_sm_outcome [OF preinstall_run [OF l1 complete st], of m new] l1 run ev
  show ?thesis by (intro exI [of _ c]) (auto simp: loaded_def split: option.splits prod.splits)
qed

text \<open>
  C1. Refreshing the status of a stored host of a cluster from end to end, for a host in one of the statuses
  of \<open>preinstall_statuses\<close> (discovering, known, disconnected, insufficient, pending for input), in a store
  whose statements succeed and with operators that report a result for each of their validations. Every
  validation gets the value that its function, the configuration and the list of ignored validations of
  the cluster give it, every condition (whether the cluster is preparing for installation among them) the
  value of its function, and the status that is stored is the one that \<open>preinstall_spec\<close> prescribes for
  these values; where it prescribes none, the call returns a conflict and the status is unchanged.
\<close>

theorem refresh_status_total:
  assumes "loaded h w" and "Host_Status h \<in> set preinstall_statuses" and "Host_ClusterID h = Some cid"
    and "newValidationContext m (\<lambda>_. False) h None False w = Inr vc" and "vc_cluster vc = Some cl"
    and "DeserializeJSONList (m_validator m) (Cluster_IgnoredHostValidations cl) = Inr ig"
    and "v_ValidateHost (m_validator m) (Some cl) h = Inr rs" and "distinct (map OR_ValidationId rs)"
    and "OR_ValidationId ` set rs = set operators_validations"
    and "GetValidations m h = Inr cur" and "\<And>new. \<exists>b. m_marshalValidations m new = Inr b"
  shows "\<exists>c. evaluated (m_validator m) vc (override_of cl) ig rs c \<and>
    (case preinstall_spec c (Host_Status h) of
       None \<Rightarrow> fst (RefreshStatus m (\<lambda>_. False) h w) = Some (ApiError 409 NoConditionPassedToRunTransaction) \<and>
         map_option Host_Status (find_host (host_key h) (snd (RefreshStatus m (\<lambda>_. False) h w))) = Some (Host_Status h)
     | Some s \<Rightarrow> fst (RefreshStatus m (\<lambda>_. False) h w) = None \<and>
         map_option Host_Status (find_host (host_key h) (snd (RefreshStatus m (\<lambda>_. False) h w))) = Some s)"
  by (rule refresh_status_outcome [OF assms])

definition sample_results :: "operator_result list" where
  "sample_results = map (\<lambda>i. \<lparr>OR_ValidationId = i, OR_Status = ValidationSuccess, OR_Reasons = []\<rparr>) operators_validations"

lemma sample_operators:
  "v_ValidateHost sample_validator cl h = Inr sample_results" "distinct (map OR_ValidationId sample_results)"
  "OR_ValidationId ` set sample_results = set operators_validations"
  by (simp_all add: sample_validator_def sample_results_def comp_def image_image)
     (simp add: operators_validations_def)

lemma sample_evaluated:
  assumes "evaluated sample_validator vc ovr ig sample_results c"
  shows "preinstall_spec c HostStatusDiscovering = Some HostStatusKnown"
proof -
  have cv: "condition_value c (VKey i)" if "i \<in> fst ` set newValidations \<union> set operators_validations" for i
    using assms that by (auto simp: evaluated_def list_all_iff passes_def sample_validator_def condition_value_def
        sample_results_def)
  have "set minRequiredHardwareIds \<union> set requiredInputIds \<union> set sufficientForInstallIds \<union>
      {IsConnected, IsMediaConnected, HasInventory, InventoryNotFullyTruncated, VSphereHostUUIDEnabled} \<subseteq>
      fst ` set newValidations \<union> set operators_validations"
    by (simp add: minRequiredHardwareIds_def requiredInputIds_def sufficientForInstallIds_def newValidations_def
        operators_validations_def)
  with cv have "all_pass c minRequiredHardwareIds" "all_pass c requiredInputIds" "all_pass c sufficientForInstallIds"
    "condition_value c (VKey IsConnected)" "condition_value c (VKey IsMediaConnected)" "condition_value c (VKey HasInventory)"
    "condition_value c (VKey InventoryNotFullyTruncated)" "condition_value c (VKey VSphereHostUUIDEnabled)"
    unfolding all_pass_def list_all_iff by blast+
  then show ?thesis by (simp add: preinstall_spec_def Let_def)
qed

definition sample_ctx :: validation_ctx where
  "sample_ctx =
     (let h = sample_host HostStatusDiscovering in
      \<lparr>vc_host = h, vc_cluster = Some (load_hosts (sample_world h) sample_cluster), vc_infraEnv = False,
       vc_inventory = None, vc_softTimeoutsEnabled = False, vc_ctx_err = (\<lambda>_. False)\<rparr>)"

lemma sample_context:
  "newValidationContext sample_manager (\<lambda>_. False) (sample_host HostStatusDiscovering) None False
     (sample_world (sample_host HostStatusDiscovering)) = Inr sample_ctx"
  by (simp add: newValidationContext_def GetClusterFromDBWithHosts_def take_cluster_def find_cluster_def
      sample_world_def sample_cluster_def loadInventory_def validateRole_def GetEffectiveRole_def
      sample_manager_def sample_host_def zero_host_def zero_cluster_def load_hosts_def sample_ctx_def Let_def)

lemma sample_refresh:
  fixes h w cl
  defines "h \<equiv> sample_host HostStatusDiscovering" and "w \<equiv> sample_world h" and "cl \<equiv> load_hosts w sample_cluster"
  shows "loaded h w" "Host_Status h \<in> set preinstall_statuses" "Host_ClusterID h = Some ''c''"
    "newValidationContext sample_manager (\<lambda>_. False) h None False w = Inr sample_ctx" "vc_cluster sample_ctx = Some cl"
    "DeserializeJSONList (m_validator sample_manager) (Cluster_IgnoredHostValidations cl) = Inr []"
    "v_ValidateHost (m_validator sample_manager) (Some cl) h = Inr sample_results"
    "distinct (map OR_ValidationId sample_results)" "OR_ValidationId ` set sample_results = set operators_validations"
    "GetValidations sample_manager h = Inr []" "\<And>new. \<exists>b. m_marshalValidations sample_manager new = Inr b"
proof -
  have v: "m_validator sample_manager = sample_validator" by (simp add: sample_manager_def)
  show "loaded h w" "Host_Status h \<in> set preinstall_statuses" "Host_ClusterID h = Some ''c''"
    "newValidationContext sample_manager (\<lambda>_. False) h None False w = Inr sample_ctx"
    "v_ValidateHost (m_validator sample_manager) (Some cl) h = Inr sample_results"
    "distinct (map OR_ValidationId sample_results)" "OR_ValidationId ` set sample_results = set operators_validations"
    by (simp_all add: h_def w_def loaded_sample_host sample_context v sample_operators preinstall_statuses_def)
  show "vc_cluster sample_ctx = Some cl" by (simp add: sample_ctx_def cl_def w_def h_def Let_def)
  show "DeserializeJSONList (m_validator sample_manager) (Cluster_IgnoredHostValidations cl) = Inr []"
    by (simp add: DeserializeJSONList_def cl_def load_hosts_def sample_cluster_def zero_cluster_def)
  show "GetValidations sample_manager h = Inr []" by (simp add: GetValidations_def h_def sample_host_def zero_host_def)
  show "\<exists>b. m_marshalValidations sample_manager new = Inr b" for new by (simp add: sample_manager_def)
qed

lemmas sample_outcome = refresh_status_outcome [OF sample_refresh]

theorem refresh_status_total_witness:
  "let h = sample_host HostStatusDiscovering; w = sample_world h; res = RefreshStatus sample_manager (\<lambda>_. False) h w in
   fst res = None \<and> map_option Host_Status (find_host (host_key h) (snd res)) = Some HostStatusKnown"
  using refresh_status_total [OF sample_refresh] sample_evaluated [of sample_ctx]
  by (auto simp: Let_def sample_manager_def)

lemma preinstall_known:
  assumes "preinstall_spec c s = Some HostStatusKnown"
  shows "condition_value c (VKey IsConnected)" "condition_value c (VKey HasInventory)"
    "condition_value c (VKey InventoryNotFullyTruncated)" "all_pass c requiredInputIds"
    "all_pass c sufficientForInstallIds"
  using assms by (simp_all add: preinstall_spec_def Let_def split: if_splits)

text \<open>
  C7. A host before the installation is not known to be ready on the strength of the list of ignored
  validations alone: when a refresh of a stored host of a cluster that is discovering, known, disconnected,
  insufficient or pending for input succeeds and leaves it known, then each of the validations that must
  not be ignored (it is connected, has an inventory that is not truncated, the machine network is defined,
  its hostname is valid and unique) has passed by its own function, or is disabled by the configuration of
  the service, whatever the cluster lists as ignored. (A host that was preparing for installation is put
  back to known when its cluster stops preparing, without a look at these validations; the statement does
  not speak of it.)
\<close>

theorem known_on_merit:
  assumes "loaded h w" and "Host_Status h \<in> set preinstall_statuses" and "Host_ClusterID h = Some cid"
    and "newValidationContext m (\<lambda>_. False) h None False w = Inr vc" and "vc_cluster vc = Some cl"
    and "DeserializeJSONList (m_validator m) (Cluster_IgnoredHostValidations cl) = Inr ig"
    and "v_ValidateHost (m_validator m) (Some cl) h = Inr rs" and "distinct (map OR_ValidationId rs)"
    and "OR_ValidationId ` set rs = set operators_validations"
    and "GetValidations m h = Inr cur" and "\<And>new. \<exists>b. m_marshalValidations m new = Inr b"
    and "RefreshStatus m (\<lambda>_. False) h w = (None, w')"
    and "map_option Host_Status (find_host (host_key h) w') = Some HostStatusKnown"
  shows "list_all (passes (m_validator m) (override_of cl) vc) NonIgnorableHostValidations"
proof -
  from refresh_status_outcome [OF assms(1-11)] assms(12,13) obtain c where
    ev: "evaluated (m_validator m) vc (override_of cl) ig rs c"
    and known: "preinstall_spec c (Host_Status h) = Some HostStatusKnown" by (auto split: option.splits)
  have cv: "condition_value c (VKey i)" if "i \<in> set NonIgnorableHostValidations" for i
  proof -
    have "i \<in> {IsConnected, HasInventory, InventoryNotFullyTruncated, IsMachineCidrDefined, IsHostnameUnique,
        IsHostnameValid}" using that by (simp add: NonIgnorableHostValidations_def)
    moreover have "IsMachineCidrDefined \<in> set requiredInputIds" "IsHostnameUnique \<in> set sufficientForInstallIds"
      "IsHostnameValid \<in> set sufficientForInstallIds"
      by (simp_all add: requiredInputIds_def sufficientForInstallIds_def)
    ultimately show ?thesis using preinstall_known [OF known] by (auto simp: all_pass_def list_all_iff)
  qed
  have "passes (m_validator m) (override_of cl) vc i" if i: "i \<in> set NonIgnorableHostValidations" for i
  proof -
    have "set NonIgnorableHostValidations \<subseteq> fst ` set newValidations"
      by (simp add: NonIgnorableHostValidations_def newValidations_def)
    with i obtain x where x: "x \<in> set newValidations" "fst x = i" by blast
    with ev cv [OF i] not_ignored [OF i, of ig] show ?thesis
      by (auto simp: evaluated_def list_all_iff condition_value_def ignored_def)
  qed
  then show ?thesis by (simp add: list_all_iff)
qed

theorem known_on_merit_witness:
  "list_all (passes sample_validator (override_of (load_hosts (sample_world (sample_host HostStatusDiscovering))
     sample_cluster)) sample_ctx) NonIgnorableHostValidations"
proof -
  let ?h = "sample_host HostStatusDiscovering"
  let ?res = "RefreshStatus sample_manager (\<lambda>_. False) ?h (sample_world ?h)"
  have "fst ?res = None" "map_option Host_Status (find_host (host_key ?h) (snd ?res)) = Some HostStatusKnown"
    using refresh_status_outcome [OF sample_refresh] sample_evaluated [of sample_ctx]
    by (auto simp: sample_manager_def)
  then have "?res = (None, snd ?res)" by (simp add: prod_eq_iff)
  from known_on_merit [OF sample_refresh this] show ?thesis
    using \<open>map_option Host_Status (find_host (host_key ?h) (snd ?res)) = Some HostStatusKnown\<close>
    by (simp add: sample_manager_def)
qed

section \<open>Roles\<close>

definition master_of :: "uuid \<Rightarrow> host \<Rightarrow> bool" where
  "master_of cid r \<longleftrightarrow> Host_ClusterID r = Some cid \<and> GetEffectiveRole r = HostRoleMaster"

definition masters :: "uuid \<Rightarrow> world \<Rightarrow> nat" where
  "masters cid w = length (filter (master_of cid) (w_hosts w))"

text \<open>The masters of a cluster other than the host with key \<open>k\<close>.\<close>

definition other_masters :: "key \<Rightarrow> uuid \<Rightarrow> world \<Rightarrow> nat" where
  "other_masters k cid w = length (filter (master_of cid) (filter (\<lambda>r. host_key r \<noteq> k) (w_hosts w)))"

lemma masters_split:
  assumes "wf_world w" and "find_host k w = Some r"
  shows "masters cid w = other_masters k cid w + (if master_of cid r then 1 else 0)"
proof -
  have "length (filter P rs) = length (filter P (filter (\<lambda>x. host_key x \<noteq> k) rs)) + (if P r then 1 else 0)"
    if "distinct (map host_key rs)" "r \<in> set rs" "host_key r = k" for rs P
    using that
  proof (induction rs)
    case (Cons x rs)
    show ?case
    proof (cases "x = r")
      case True
      with Cons.prems have "filter (\<lambda>x. host_key x \<noteq> k) rs = rs" by (intro filter_True) (force simp: image_iff)
      with True Cons.prems(3) show ?thesis by simp
    next
      case False
      with Cons.prems have "r \<in> set rs" "host_key x \<noteq> k" by (auto simp: image_iff)
      with Cons show ?thesis by simp
    qed
  qed simp
  from this [of "w_hosts w" "master_of cid"] assms find_host_SomeD [OF assms(2)] show ?thesis
    by (simp add: masters_def other_masters_def wf_world_def)
qed

text \<open>An accepted change of roles gives the row both roles and leaves the other rows alone.\<close>

lemma updateRole_Some:
  assumes "updateRole h role suggested src w = (None, w')"
  shows "\<exists>f. w' = update_rows (\<lambda>r. host_key r = host_key h \<and> Host_Role r = src) f w \<and> benign f \<and>
    (\<forall>r. Host_Role r = src \<longrightarrow> Host_Role (f r) = role \<and> Host_SuggestedRole (f r) = suggested)"
proof (cases rule: updateRole_cases [of h role suggested src w])
  case (written f)
  note fields = role_fields_columns [of h role suggested src "w_now w"]
  have "Host_Role (f r) = role \<and> Host_SuggestedRole (f r) = suggested" if "Host_Role r = src" for r
    using assign_all_column [OF written(1) fields(2), of C_role r]
      assign_all_column [OF written(1) fields(2), of C_suggested_role r] that fields(3,4) by (auto split: if_splits)
  moreover have "benign f" using benign_assign_all [OF written(1)] fields(1) by (simp add: plain_columns_def)
  ultimately show ?thesis using written(2) assms by (intro exI [of _ f]) simp
qed (use assms in simp)

lemma updateRole_masters:
  assumes "updateRole h role suggested src w = (None, w')" and "wf_world w"
    and "find_host (host_key h) w = Some r" and "Host_Role r = src"
  shows "wf_world w'" and "other_masters (host_key h) cid w' = other_masters (host_key h) cid w"
    and "\<exists>r'. find_host (host_key h) w' = Some r' \<and> Host_Role r' = role \<and> Host_SuggestedRole r' = suggested \<and>
      Host_ClusterID r' = Host_ClusterID r"
proof -
  from updateRole_Some [OF assms(1)] obtain f where f: "w' = update_rows (\<lambda>r. host_key r = host_key h \<and> Host_Role r = src) f w"
    "benign f" "\<And>r. Host_Role r = src \<Longrightarrow> Host_Role (f r) = role \<and> Host_SuggestedRole (f r) = suggested" by blast
  have key: "\<And>r. host_key (f r) = host_key r" using f(2) by (simp add: benign_def)
  show "wf_world w'" using quiet_wf [OF quiet_rows [OF quiet_refl f(2)] assms(2)] by (simp add: f(1))
  have "filter (\<lambda>r. host_key r \<noteq> host_key h) (map (\<lambda>r. if host_key r = host_key h \<and> Host_Role r = src then f r else r) rs) =
      filter (\<lambda>r. host_key r \<noteq> host_key h) rs" for rs
    by (induction rs) (auto simp: key)
  then show "other_masters (host_key h) cid w' = other_masters (host_key h) cid w"
    by (simp add: other_masters_def f(1) update_rows_def del: filter_filter)
  show "\<exists>r'. find_host (host_key h) w' = Some r' \<and> Host_Role r' = role \<and> Host_SuggestedRole r' = suggested \<and>
      Host_ClusterID r' = Host_ClusterID r"
    using f(2,3) assms(3,4) find_host_SomeD [OF assms(3)]
    by (simp add: f(1) find_update_rows [OF key] benign_def)
qed

lemma selectRole_master:
  assumes "selectRole m h w = Inr HostRoleMaster" and "Host_ClusterID h = Some cid" and "find_cluster cid w = Some cl"
    and "\<And>r. r \<in> set (w_hosts w) \<Longrightarrow> Host_ClusterID r = Some cid \<Longrightarrow> Host_ID r = Host_ID h \<Longrightarrow> host_key r = host_key h"
  shows "int (other_masters (host_key h) cid w) < Cluster_ControlPlaneCount cl"
proof -
  from assms(3) have id: "Cluster_ID cl = cid" by (auto simp: find_cluster_def dest: find_SomeD)
  from assms(1-3) have "int (countNumberOfHostsInRoleNotIncludingHost h (load_hosts w cl) HostRoleMaster) <
      Cluster_ControlPlaneCount (load_hosts w cl)"
    by (auto simp: selectRole_def GetClusterFromDBWithHosts_def take_cluster_def Let_def
        split: if_splits sum.splits bool.splits)
  moreover have "countNumberOfHostsInRoleNotIncludingHost h (load_hosts w cl) HostRoleMaster = other_masters (host_key h) cid w"
    unfolding countNumberOfHostsInRoleNotIncludingHost_def other_masters_def load_hosts_def
    using assms(4) by (auto simp: id master_of_def host_key_def intro!: arg_cong [of _ _ length] filter_cong)
  ultimately show ?thesis by (simp add: load_hosts_def)
qed

lemma refreshRoleInternal_cases:
  assumes "refreshRoleInternal m h force w = (None, h1, w1)"
  obtains (same) "h1 = h" "w1 = w"
  | (suggested) sg w0 e where "selectRole m h w = Inr sg" "updateRole h (Host_Role h) sg (Host_Role h) w = (None, w0)"
      "h1 = h\<lparr>Host_SuggestedRole := sg\<rparr>" "w1 = send_event e w0"
proof -
  have "h1 = h \<and> w1 = w \<or> (\<exists>sg w0 e. selectRole m h w = Inr sg \<and> updateRole h (Host_Role h) sg (Host_Role h) w = (None, w0) \<and>
      h1 = h\<lparr>Host_SuggestedRole := sg\<rparr> \<and> w1 = send_event e w0)"
    using assms unfolding refreshRoleInternal_def Let_def
    by (simp split: if_splits sum.splits prod.splits option.splits) blast+
  then show thesis using same suggested by blast
qed

text \<open>
  C10. Automatic role assignment respects the size of the control plane, provided that no other host of the
  cluster has the host identifier of the host (the count leaves out every row with this identifier, so it
  would overlook such a host): when it assigns a role to a stored host of a cluster, the number of hosts of
  the cluster that are or are going to be masters is afterwards at most the number of control plane nodes
  of the cluster, or not larger than it was before (hosts that users made masters are not touched); the host
  is no longer auto-assigned unless its suggestion was that.
\<close>

theorem auto_assign_bound:
  assumes wf: "wf_world w" and row: "find_host (host_key h) w = Some h" and cid: "Host_ClusterID h = Some cid"
    and cl: "find_cluster cid w = Some cl"
    and uniq: "\<And>r. r \<in> set (w_hosts w) \<Longrightarrow> Host_ClusterID r = Some cid \<Longrightarrow> Host_ID r = Host_ID h \<Longrightarrow> host_key r = host_key h"
    and res: "AutoAssignRole m h w = ((True, None), h', w')"
  shows "int (masters cid w') \<le> max (int (masters cid w)) (Cluster_ControlPlaneCount cl) \<and>
    find_host (host_key h) w' = Some h' \<and> Host_Role h' = Host_SuggestedRole h'"
proof -
  from res obtain h1 w1 where r1: "refreshRoleInternal m h True w = (None, h1, w1)" and auto: "Host_Role h = HostRoleAutoAssign"
    and u2: "updateRole h1 (Host_SuggestedRole h1) (Host_SuggestedRole h1) HostRoleAutoAssign w1 = (None, w')"
    and found: "find_host (host_key h1) w' = Some h'"
    by (auto simp: AutoAssignRole_def RefreshRole_def split: if_splits prod.splits option.splits)
  have key: "host_key h1 = host_key h"
    using r1 by (auto simp: refreshRoleInternal_def Let_def host_key_def split: if_splits sum.splits prod.splits option.splits)
  let ?M = "\<lambda>w. other_masters (host_key h) cid w"
  have before: "masters cid w = ?M w + (if master_of cid h then 1 else 0)" by (rule masters_split [OF wf row])
  have step: "wf_world w1 \<and> ?M w1 = ?M w \<and> (\<exists>r. find_host (host_key h) w1 = Some r \<and> Host_Role r = HostRoleAutoAssign \<and>
      Host_ClusterID r = Some cid) \<and>
      (Host_SuggestedRole h1 = HostRoleMaster \<longrightarrow> master_of cid h \<or> int (?M w) < Cluster_ControlPlaneCount cl)"
    using r1
  proof (cases rule: refreshRoleInternal_cases)
    case same
    with wf row auto cid show ?thesis by (auto simp: master_of_def GetEffectiveRole_def)
  next
    case s: (suggested sg w0 e)
    have "?M w1 = ?M w0" by (simp add: s(4) other_masters_def)
    moreover have "sg = HostRoleMaster \<Longrightarrow> int (?M w) < Cluster_ControlPlaneCount cl"
      using selectRole_master [OF _ cid cl uniq] s(1) by blast
    ultimately show ?thesis using updateRole_masters [OF s(2) [unfolded auto] wf row auto] cid by (simp add: s(3,4)) blast
  qed
  then obtain r where r: "find_host (host_key h) w1 = Some r" "Host_Role r = HostRoleAutoAssign" "Host_ClusterID r = Some cid"
    by blast
  from updateRole_masters [OF u2 _ _ r(2), unfolded key] step r found key have
    after: "wf_world w'" "?M w' = ?M w" "Host_Role h' = Host_SuggestedRole h1" "Host_SuggestedRole h' = Host_SuggestedRole h1"
    "Host_ClusterID h' = Some cid" by auto
  have "masters cid w' = ?M w' + (if master_of cid h' then 1 else 0)"
    by (rule masters_split [OF after(1)]) (use found key in simp)
  with before step after show ?thesis
    using found key by (auto simp: master_of_def GetEffectiveRole_def split: if_splits)
qed

theorem auto_assign_bound_witness:
  "let h = (sample_host HostStatusKnown)\<lparr>Host_Role := HostRoleAutoAssign, Host_Kind := HostKindAddToExistingClusterHost\<rparr>;
       w = sample_world h; h' = fst (snd (AutoAssignRole sample_manager h w)); w' = snd (snd (AutoAssignRole sample_manager h w)) in
   int (masters ''c'' w') \<le> max (int (masters ''c'' w)) 1 \<and> find_host (host_key h) w' = Some h' \<and>
   Host_Role h' = Host_SuggestedRole h'"
proof -
  let ?h = "(sample_host HostStatusKnown)\<lparr>Host_Role := HostRoleAutoAssign, Host_Kind := HostKindAddToExistingClusterHost\<rparr>"
  let ?w = "sample_world ?h"
  have "wf_world ?w" using loaded_facts(2) [OF loaded_sample [of ?h]] by simp
  moreover have "find_cluster ''c'' ?w = Some sample_cluster" "Cluster_ControlPlaneCount sample_cluster = 1"
    by (simp_all add: find_cluster_def sample_world_def sample_cluster_def)
  moreover have "fst (AutoAssignRole sample_manager ?h ?w) = (True, None)"
    by (simp add: AutoAssignRole_def RefreshRole_def refreshRoleInternal_def selectRole_def IsDay2Host_def updateRole_def
        hostStatusesBeforeInstallation_def hostStatusesBeforeInstallationOrUnbound_def sample_manager_def sample_handler_def
        sample_host_def zero_host_def sample_world_def Let_def find_host_def host_key_def IsRoleValid_def update_rows_def
        send_event_def)
  ultimately show ?thesis
    using auto_assign_bound [OF _ sample_row, of ?h "''c''" sample_cluster sample_manager]
    by (cases "AutoAssignRole sample_manager ?h ?w") (auto simp: Let_def sample_world_def [of ?h])
qed

end
