(* ===== verification/Host_Control.thy ===== *)
theory Host_Control
  imports Host_Guarantees
begin

text \<open>
  The operations of the manager that control an installation, the convergence of repeated refreshes, soft
  timeouts and the reset of single validations.
\<close>

section \<open>Control operations\<close>

text \<open>The operations that only run the machine, with the transition that each of them runs.\<close>

definition control_operations ::
  "manager \<Rightarrow> uuid \<Rightarrow> string \<Rightarrow> ((host \<Rightarrow> world \<Rightarrow> go_error option \<times> world) \<times> host_transition_type) list" where
  "control_operations m clusterID reason =
     [(HandleInstallationFailure m, TransitionTypeHostInstallationFailed),
      (HandlePrepareInstallationFailure m reason, TransitionTypeHostInstallationFailed),
      (HandleReclaimBootArtifactDownload m, TransitionTypeRebootingForReclaim),
      (HandleReclaimFailure m, TransitionTypeReclaimFailed),
      (Install m, TransitionTypeInstallHost),
      (BindHost m clusterID, TransitionTypeBindHost),
      (UnbindHost m False, TransitionTypeUnbindHost),
      (UnbindHost m True, TransitionTypeReclaimHost)]"

lemma run_sm_control:
  assumes "loaded h w" and "control_args t args"
  shows "case control_spec t h of
      None \<Rightarrow> run_sm m t args h w = (Some NoConditionPassedToRunTransaction, w)
    | Some s \<Rightarrow> fst (run_sm m t args h w) = None \<and>
        map_option Host_Status (find_host (host_key h) (snd (run_sm m t args h w))) = Some s"
  by (rule run_sm_outcome [OF control_run [OF assms]])

text \<open>
  C17. The operations that control an installation (installation failure, reclaim, install, bind, unbind),
  on a stored host in a store whose statements succeed and with a reason that fits its column: if the
  table \<open>control_spec\<close> has no entry for the status of the host, the operation returns an error and nothing
  changes; otherwise it succeeds and the row has the status of the table.
\<close>

theorem control_operations_total:
  assumes "loaded h w" and "length reason \<le> varchar_max"
  shows "list_all (\<lambda>(op, t). case control_spec t h of
      None \<Rightarrow> op h w = (Some NoConditionPassedToRunTransaction, w)
    | Some s \<Rightarrow> fst (op h w) = None \<and> map_option Host_Status (find_host (host_key h) (snd (op h w))) = Some s)
    (control_operations m clusterID reason)"
proof -
  note run = run_sm_control [OF assms(1)]
  have "length ''installation command failed'' \<le> varchar_max" by (simp add: varchar_max_def)
  then have args: "control_args TransitionTypeHostInstallationFailed (TransitionArgsHostInstallationFailed reason)"
    "control_args TransitionTypeHostInstallationFailed (TransitionArgsHostInstallationFailed ''installation command failed'')"
    "control_args TransitionTypeRebootingForReclaim TransitionArgsReclaimHost"
    "control_args TransitionTypeReclaimFailed TransitionArgsUnbindHost"
    "control_args TransitionTypeInstallHost TransitionArgsInstallHost"
    "control_args TransitionTypeBindHost (TransitionArgsBindHost clusterID)"
    "control_args TransitionTypeUnbindHost TransitionArgsUnbindHost"
    "control_args TransitionTypeReclaimHost TransitionArgsUnbindHost"
    using assms(2) by (simp_all add: control_args_def)
  show ?thesis
    using run [OF args(1), of m] run [OF args(2), of m] run [OF args(3), of m] run [OF args(4), of m]
      run [OF args(5), of m] run [OF args(6), of m] run [OF args(7), of m] run [OF args(8), of m]
    by (simp add: control_operations_def HandleInstallationFailure_def HandlePrepareInstallationFailure_def
        HandleReclaimBootArtifactDownload_def HandleReclaimFailure_def Install_def BindHost_def UnbindHost_def)
qed

theorem control_operations_total_witness:
  "let h = (sample_host HostStatusKnownUnbound)\<lparr>Host_ClusterID := None\<rparr>; w = sample_world h in
   fst (BindHost sample_manager ''c'' h w) = None \<and>
   map_option Host_Status (find_host (host_key h) (snd (BindHost sample_manager ''c'' h w))) = Some HostStatusBinding \<and>
   UnbindHost sample_manager False h w = (Some NoConditionPassedToRunTransaction, w)"
proof -
  let ?h = "(sample_host HostStatusKnownUnbound)\<lparr>Host_ClusterID := None\<rparr>"
  have "loaded ?h (sample_world ?h)" by (rule loaded_sample) simp
  from control_operations_total [OF this, of "''''" sample_manager "''c''"] show ?thesis
    by (simp add: control_operations_def control_spec_def Let_def varchar_max_def)
qed

text \<open>
  C18. Cancelling and resetting an installation report what happened. On a stored host, in a store whose
  statements succeed, the operation succeeds exactly if the table has an entry for the status; the row
  then has the status of the table and the last event says so. Otherwise the call returns a conflict, the
  rows are unchanged and the only new event is the one of the failure.
\<close>

theorem cancel_reset_total:
  assumes "loaded h w" and "length reason \<le> varchar_max"
  shows "(case control_spec TransitionTypeCancelInstallation h of
      None \<Rightarrow> CancelInstallation m reason h w = (Some (ApiError 409 NoConditionPassedToRunTransaction),
        send_event (HostCancelInstallationFailedEvent (Host_ID h) (Host_InfraEnvID h) (Host_ClusterID h)
          (hostname_msg m h) NoConditionPassedToRunTransaction) w)
    | Some s \<Rightarrow> fst (CancelInstallation m reason h w) = None \<and>
        map_option Host_Status (find_host (host_key h) (snd (CancelInstallation m reason h w))) = Some s \<and>
        last (w_events (snd (CancelInstallation m reason h w))) = HostInstallationCancelledEvent (Host_ID h)
          (Host_InfraEnvID h) (Host_ClusterID h) (hostname_msg m h)) \<and>
   (case control_spec TransitionTypeResettingPendingUserAction h of
      None \<Rightarrow> ResetHost m h w = (Some (ApiError 409 NoConditionPassedToRunTransaction),
        send_event (HostInstallationResetFailedEvent (Host_ID h) (Host_InfraEnvID h) (Host_ClusterID h)
          (hostname_msg m h) NoConditionPassedToRunTransaction) w)
    | Some s \<Rightarrow> fst (ResetHost m h w) = None \<and>
        map_option Host_Status (find_host (host_key h) (snd (ResetHost m h w))) = Some s \<and>
        last (w_events (snd (ResetHost m h w))) = HostInstallationResetEvent (Host_ID h)
          (Host_InfraEnvID h) (Host_ClusterID h) (hostname_msg m h))"
proof -
  have "control_args TransitionTypeCancelInstallation (TransitionArgsCancelInstallation reason)"
    "control_args TransitionTypeResettingPendingUserAction TransitionResettingPendingUserAction"
    using assms(2) by (simp_all add: control_args_def)
  from this [THEN run_sm_control [OF assms(1)], of m] show ?thesis
    by (auto simp: CancelInstallation_def ResetHost_def split: option.splits prod.splits)
qed

theorem cancel_reset_total_witness:
  "let h = sample_host HostStatusInstallingInProgress; w = sample_world h;
       w1 = snd (CancelInstallation sample_manager ''by user'' h w) in
   fst (CancelInstallation sample_manager ''by user'' h w) = None \<and>
   map_option Host_Status (find_host (host_key h) w1) = Some HostStatusCancelled \<and>
   last (w_events w1) = HostInstallationCancelledEvent (Host_ID h) (Host_InfraEnvID h) (Host_ClusterID h)
     (hostname_msg sample_manager h)"
  using cancel_reset_total [OF loaded_sample_host [of HostStatusInstallingInProgress], of "''by user''" sample_manager]
  by (simp add: control_spec_def Let_def varchar_max_def)

section \<open>Repeated refreshes\<close>

text \<open>The monitor reads the host again before each refresh; here with evaluations that do not change.\<close>

primrec refresh_n :: "manager \<Rightarrow> conditions \<Rightarrow> validations_status \<Rightarrow> key \<Rightarrow> nat \<Rightarrow> world \<Rightarrow> world" where
  "refresh_n m c r k 0 w = w"
| "refresh_n m c r k (Suc n) w =
     (case find_host k w of
        None \<Rightarrow> w
      | Some h \<Rightarrow> refresh_n m c r k n
          (snd (run_sm m TransitionTypeRefresh (TransitionArgsRefreshHost c r) h w)))"

text \<open>One refresh as a function of the status.\<close>

definition next_status :: "conditions \<Rightarrow> host_status \<Rightarrow> host_status" where
  "next_status c s = (case preinstall_spec c s of None \<Rightarrow> s | Some t \<Rightarrow> t)"

lemma disk_speed_sufficient:
  "all_pass c sufficientForInstallIds \<Longrightarrow> condition_value c (VKey SufficientOrUnknownInstallationDiskSpeed)"
  by (simp add: all_pass_def sufficientForInstallIds_def)

lemma preinstall_cases: "s \<in> set preinstall_statuses \<Longrightarrow>
    s = HostStatusDisconnected \<or> s = HostStatusDiscovering \<or> s = HostStatusInsufficient \<or> s = HostStatusKnown \<or>
    s = HostStatusPendingForInput"
  by (simp add: preinstall_statuses_def)

lemma next_status_preinstall:
  assumes "\<not> condition_value c (CKey ClusterPreparingForInstallation)" and "s \<in> set preinstall_statuses"
  shows "next_status c s \<in> set preinstall_statuses"
  using preinstall_cases [OF assms(2)] assms(1)
  by (elim disjE) (simp_all add: next_status_def preinstall_spec_def preinstall_statuses_def Let_def)

text \<open>The statuses other than known have the same table, up to a missing inventory.\<close>

lemma next_status_stable:
  assumes "\<not> condition_value c (CKey ClusterPreparingForInstallation)" and "s \<in> set preinstall_statuses"
  shows "next_status c (next_status c (next_status c s)) = next_status c (next_status c s)"
  using preinstall_cases [OF assms(2)] assms(1) disk_speed_sufficient [of c]
  by (elim disjE) (simp_all add: next_status_def preinstall_spec_def Let_def)

lemma refresh_step:
  fixes m :: manager and r :: validations_status
  assumes "healthy w" and "find_host k w = Some h" and "Host_Status h \<in> set preinstall_statuses"
    and "complete_conditions c"
  defines "w' \<equiv> snd (run_sm m TransitionTypeRefresh (TransitionArgsRefreshHost c r) h w)"
  shows "healthy w' \<and> (\<exists>h'. find_host k w' = Some h' \<and> Host_Status h' = next_status c (Host_Status h))"
proof -
  have k: "host_key h = k" using find_host_SomeD [OF assms(2)] by simp
  have l: "loaded h w"
    using assms(1,2) k find_host_progress [of w k h] by (simp add: loaded_def healthy_def del: not_None_eq)
  have "healthy w'"
    using assms(1) environment.run [of w w] by (simp add: healthy_def w'_def run_sm_simps wf_frame.run)
  moreover have "\<exists>h'. find_host k w' = Some h' \<and> Host_Status h' = next_status c (Host_Status h)"
    using run_sm_outcome [OF preinstall_run [OF l assms(4,3)], of m r] k assms(2)
    by (auto simp: w'_def next_status_def split: option.splits)
  ultimately show ?thesis ..
qed

definition ready :: "conditions \<Rightarrow> bool" where
  "ready c \<longleftrightarrow> list_all (\<lambda>i. condition_value c (VKey i))
     [IsConnected, IsMediaConnected, HasInventory, InventoryNotFullyTruncated, VSphereHostUUIDEnabled] \<and>
     all_pass c minRequiredHardwareIds \<and> all_pass c requiredInputIds \<and> all_pass c sufficientForInstallIds"

lemma ready_known: "ready c \<Longrightarrow> \<not> condition_value c (CKey ClusterPreparingForInstallation) \<Longrightarrow>
    s \<in> set preinstall_statuses \<Longrightarrow> next_status c s = HostStatusKnown"
  using disk_speed_sufficient [of c] by (simp add: ready_def next_status_def preinstall_spec_def Let_def)

text \<open>
  C15. Repeated refreshes settle. With evaluations that do not change, in which the cluster is not preparing
  for the installation, and in a store whose statements succeed, a stored host that is discovering, known,
  disconnected, insufficient or pending for input reaches after two refreshes a status that no further
  refresh changes; there is no cycle. If all its validations pass, that status is known.
\<close>

theorem refresh_converges:
  assumes "healthy w" and "find_host k w = Some h" and "Host_Status h \<in> set preinstall_statuses"
    and "complete_conditions c" and "\<not> condition_value c (CKey ClusterPreparingForInstallation)"
  shows "\<exists>s. (\<forall>n\<ge>2. map_option Host_Status (find_host k (refresh_n m c r k n w)) = Some s) \<and>
    (ready c \<longrightarrow> s = HostStatusKnown)"
proof -
  have iterate: "map_option Host_Status (find_host k (refresh_n m c r k n w)) = Some ((next_status c ^^ n) (Host_Status h))"
    for n
    using assms(1-3)
  proof (induction n arbitrary: w h)
    case (Suc n)
    let ?w = "snd (run_sm m TransitionTypeRefresh (TransitionArgsRefreshHost c r) h w)"
    from refresh_step [OF Suc.prems assms(4), of m r] obtain h' where h': "healthy ?w" "find_host k ?w = Some h'"
      "Host_Status h' = next_status c (Host_Status h)" by blast
    with Suc.IH [OF h'(1,2)] next_status_preinstall [OF assms(5) Suc.prems(3)] Suc.prems(2) show ?case
      by (simp add: funpow_swap1)
  qed simp
  let ?s = "(next_status c ^^ 2) (Host_Status h)"
  have two: "?s = next_status c (next_status c (Host_Status h))" by (simp add: numeral_2_eq_2)
  have settled: "(next_status c ^^ n) (Host_Status h) = ?s" if "2 \<le> n" for n
    using that
  proof (induction n rule: dec_induct)
    case (step n)
    then have "(next_status c ^^ Suc n) (Host_Status h) = next_status c ?s" by simp
    then show ?case unfolding two next_status_stable [OF assms(5,3)] .
  qed simp
  have known: "?s = HostStatusKnown" if "ready c"
    unfolding two by (rule ready_known [OF that assms(5) next_status_preinstall [OF assms(5,3)]])
  have "map_option Host_Status (find_host k (refresh_n m c r k n w)) = Some ?s" if "2 \<le> n" for n
    unfolding iterate settled [OF that] ..
  with known show ?thesis by blast
qed

theorem refresh_converges_witness:
  "let h = sample_host HostStatusDiscovering; w = sample_world h; c = all_true(CKey ClusterPreparingForInstallation := Some False) in
   \<forall>n\<ge>2. map_option Host_Status (find_host (host_key h) (refresh_n sample_manager c [] (host_key h) n w)) =
     Some HostStatusKnown"
proof -
  let ?h = "sample_host HostStatusDiscovering"
  let ?c = "all_true(CKey ClusterPreparingForInstallation := Some False)"
  have "ready ?c" by (simp add: ready_def all_pass_def list_all_iff)
  with refresh_converges [OF loaded_facts(1) [OF loaded_sample_host] sample_row, of HostStatusDiscovering ?c sample_manager "[]"]
  show ?thesis by (simp add: Let_def preinstall_statuses_def)
qed

section \<open>Soft timeouts\<close>

text \<open>
  C16. With soft timeouts an installation does not fail because a host or one of its stages is late. After a
  refresh of a stored host that is installing or installing-in-progress, in a store whose statements succeed
  and with messages that fit their column, the stored row is in the error status exactly if the cluster of
  the host has failed (and the host is not a day-2 host), or if the host is still installing and its status
  is older than the installation timeout; otherwise it keeps its status or waits for the user. (A host that
  waits for the user already has other rules: it still times out into the error status.)
\<close>

theorem soft_timeouts_no_error:
  assumes "loaded h w" and "base_conditions c" and "Host_Progress h = Some p"
    and "Host_Status h \<in> {HostStatusInstalling, HostStatusInstallingInProgress}"
    and "reasons_fit th (newStateHost h w) r" and "condition_value c (CKey SoftTimeoutsEnabled)"
  shows "let after = stored_status (snd (sm_Run th TransitionTypeRefresh (newStateHost h w) (TransitionArgsRefreshHost c r)))
    in if condition_value c (CKey ClusterInError) \<and> \<not> IsDay2Host h \<or>
          Host_Status h = HostStatusInstalling \<and> status_age (newStateHost h w) > InstallationTimeout
       then after = Some HostStatusError
       else after \<in> {Some (Host_Status h), Some HostStatusInstallingPendingUserAction}"
proof -
  let ?sh = "newStateHost h w" let ?err = "condition_value c (CKey ClusterInError) \<and> \<not> IsDay2Host h \<or>
      Host_Status h = HostStatusInstalling \<and> status_age ?sh > InstallationTimeout"
  let ?d = "installing_spec th ?sh p c"
  have h: "sw_host ?sh = h" by (simp add: newStateHost_def)
  have d: "?d = Some HostStatusError" if ?err
    using that by (elim disjE) (simp_all only: installing_spec_def Let_def h if_True if_cancel simp_thms)
  have d': "?d \<in> {None, Some (Host_Status h), Some HostStatusInstallingPendingUserAction}" if "\<not> ?err"
    using that assms(6) unfolding installing_spec_def Let_def h by (simp only: de_Morgan_disj if_False simp_thms split: if_split) blast
  have now: "stored_status ?sh = Some (Host_Status h)"
    using assms(1) by (simp add: stored_status_def stored_row_def loaded_def newStateHost_def sh_key_def)
  have out: "outcome ?d ?sh (sm_Run th TransitionTypeRefresh ?sh (TransitionArgsRefreshHost c r))"
    by (rule installing_outcome [OF assms(1-5)])
  show ?thesis
  proof (cases ?err)
    case True
    with d out show ?thesis by (simp add: outcome_def)
  next
    case False
    with d' out now show ?thesis by (auto simp: outcome_def)
  qed
qed

theorem soft_timeouts_no_error_witness:
  "let h = sample_host HostStatusInstallingInProgress; c = all_true(CKey ClusterInError := Some False) in
   stored_status (snd (sm_Run sample_handler TransitionTypeRefresh (newStateHost h (sample_world h))
     (TransitionArgsRefreshHost c []))) \<in> {Some HostStatusInstallingInProgress, Some HostStatusInstallingPendingUserAction}"
  using soft_timeouts_no_error [OF loaded_sample_host _ _ _ sample_reasons_fit,
      of "all_true(CKey ClusterInError := Some False)" HostStatusInstallingInProgress zero_progress]
  by (simp add: Let_def)

section \<open>Resetting validations\<close>

text \<open>
  C19. Resetting a validation. Only the checks of the disk speed and of the container images can be reset,
  any other identifier is refused and changes nothing. Resetting the images of a stored host of a cluster
  clears the result in every row with the identifier of the host: the statement names the host but not the
  infra-env, although the request names both.
\<close>

theorem reset_images_rows:
  assumes "GetHostFromDB w infraEnvID hostID = Inr h" and "Host_ClusterID h \<noteq> None" and "\<not> w_dbfault w UpdateHosts"
  shows "ResetHostValidation m hostID infraEnvID ''container-images-available'' w =
      (None, w\<lparr>w_hosts := map (\<lambda>r. if Host_ID r = Host_ID h then r\<lparr>Host_ImagesStatus := ''''\<rparr> else r) (w_hosts w)\<rparr>) \<and>
    (vid \<notin> {''container-images-available'', ''sufficient-installation-disk-speed''} \<longrightarrow>
      (\<exists>msg. ResetHostValidation m hostID infraEnvID vid w = (Some (ApiError 400 msg), w)))"
  using assms
  by (auto simp: ResetHostValidation_def resetContainerImagesValidation_def updateHost_def error_of_def update_rows_def
      pk_row_def zero_host_def fun_eq_iff)

theorem reset_images_rows_witness:
  "let h = sample_host HostStatusKnown; other = (sample_host HostStatusKnown)\<lparr>Host_InfraEnvID := ''f'', Host_ImagesStatus := ''{}''\<rparr>;
       w = (sample_world h)\<lparr>w_hosts := [h, other]\<rparr> in
   w_hosts (snd (ResetHostValidation sample_manager ''h'' ''e'' ''container-images-available'' w)) =
     [h, other\<lparr>Host_ImagesStatus := ''''\<rparr>]"
proof -
  let ?h = "sample_host HostStatusKnown"
  let ?w = "(sample_world ?h)\<lparr>w_hosts := [?h, ?h\<lparr>Host_InfraEnvID := ''f'', Host_ImagesStatus := ''{}''\<rparr>]\<rparr>"
  have "GetHostFromDB ?w ''e'' ''h'' = Inr ?h"
    by (simp add: GetHostFromDB_def find_host_def sample_world_def host_key_def sample_host_def)
  moreover have "\<not> w_dbfault ?w UpdateHosts" by (simp add: sample_world_def)
  ultimately show ?thesis
    using reset_images_rows [of ?w "''e''" "''h''" ?h sample_manager] by (simp add: Let_def sample_host_def zero_host_def)
qed

end
