(* ===== verification/Row_Update.thy ===== *)
theory Row_Update
  imports Prelude
begin

text \<open>
  Updates of a row by a list of columns and values, as the variadic arguments of the service's update
  functions describe them: a Go map in which a later entry for a column replaces an earlier one, and
  the assignment of each of its columns. The locale collects the laws of a single assignment that a
  table has to provide; what a whole update does to a row follows from them.
\<close>

fun assign_each ::
  "('c \<Rightarrow> 'v \<Rightarrow> ('r \<Rightarrow> 'r) option) \<Rightarrow> ('c \<times> 'v) list \<Rightarrow> ('r \<Rightarrow> 'r) option" where
  "assign_each assign [] = Some id"
| "assign_each assign ((c, v) # cvs) =
     (case assign c v of
        None \<Rightarrow> None
      | Some f \<Rightarrow> (case assign_each assign cvs of None \<Rightarrow> None | Some g \<Rightarrow> Some (g \<circ> f)))"

definition last_entries :: "('c \<times> 'v) list \<Rightarrow> ('c \<times> 'v) list" where
  "last_entries cvs = fold (\<lambda>(c, v) m. AList.update c v m) cvs []"

definition change_rows :: "('r \<Rightarrow> bool) \<Rightarrow> ('r \<Rightarrow> 'r) \<Rightarrow> 'r list \<Rightarrow> 'r list" where
  "change_rows P f rows = map (\<lambda>r. if P r then f r else r) rows"

section \<open>The map of updates\<close>

lemma last_entries_invariant:
  "distinct (map fst m) \<Longrightarrow>
   distinct (map fst (fold (\<lambda>(c, v) m. AList.update c v m) cvs m)) \<and>
   map_of (fold (\<lambda>(c, v) m. AList.update c v m) cvs m) = map_of m ++ map_of (rev cvs)"
proof (induction cvs arbitrary: m)
  case (Cons cv cvs)
  obtain c v where cv: "cv = (c, v)" by (cases cv)
  have "distinct (map fst (AList.update c v m))" using Cons.prems by (rule distinct_update)
  moreover have "map_of m ++ ([c \<mapsto> v] ++ map_of (rev cvs)) = (map_of m)(c \<mapsto> v) ++ map_of (rev cvs)"
    by simp
  ultimately show ?case using Cons.IH [of "AList.update c v m"] by (simp add: cv update_conv' fun_upd_def)
qed simp

lemma last_entries_distinct: "distinct (map fst (last_entries cvs))"
  using last_entries_invariant [of "[]" cvs] by (simp add: last_entries_def)

lemma last_entries_lookup: "map_of (last_entries cvs) = map_of (rev cvs)"
  using last_entries_invariant [of "[]" cvs] by (simp add: last_entries_def)

lemma last_entries_subset: "set (last_entries cvs) \<subseteq> set cvs"
proof
  fix x assume "x \<in> set (last_entries cvs)"
  then have "map_of (rev cvs) (fst x) = Some (snd x)"
    using last_entries_distinct [of cvs] by (simp flip: last_entries_lookup)
  then show "x \<in> set cvs" by (auto dest: map_of_SomeD)
qed

lemma assign_each_defined:
  "assign_each assign cvs \<noteq> None \<longleftrightarrow> (\<forall>(c, v) \<in> set cvs. assign c v \<noteq> None)"
  by (induction assign cvs rule: assign_each.induct) (auto split: option.splits)

section \<open>Rows\<close>

lemma find_change_rows:
  assumes "\<And>r. key (f r) = key r"
  shows "find (\<lambda>r. key r = k) (change_rows P f rows) =
         map_option (\<lambda>r. if P r then f r else r) (find (\<lambda>r. key r = k) rows)"
  unfolding change_rows_def by (rule find_map_update) (simp add: assms)

lemma find_unique:
  "distinct (map key rows) \<Longrightarrow> r \<in> set rows \<Longrightarrow> find (\<lambda>x. key x = key r) rows = Some r"
  by (induction rows) (auto simp: image_iff)

lemma map_change_rows: "(\<And>r. key (f r) = key r) \<Longrightarrow> map key (change_rows P f rows) = map key rows"
  by (simp add: change_rows_def)

section \<open>Laws of assignments\<close>

locale column_assignment =
  fixes assign :: "'c \<Rightarrow> 'v \<Rightarrow> ('r \<Rightarrow> 'r) option"
    and column :: "'c \<Rightarrow> 'r \<Rightarrow> 'v"
    and key :: "'r \<Rightarrow> 'k"
  assumes same: "assign c v = Some f \<Longrightarrow> column c (f r) = v"
    and other: "assign c v = Some f \<Longrightarrow> c \<noteq> d \<Longrightarrow> column d (f r) = column d r"
    and keeps_key: "assign c v = Some f \<Longrightarrow> key (f r) = key r"
begin

lemma each_column:
  "assign_each assign cvs = Some f \<Longrightarrow> distinct (map fst cvs) \<Longrightarrow>
   column c (f r) = (case map_of cvs c of None \<Rightarrow> column c r | Some v \<Rightarrow> v)"
proof (induction cvs arbitrary: f r)
  case (Cons dv cvs)
  obtain d v where dv: "dv = (d, v)" by (cases dv)
  with Cons.prems obtain f1 f2 where 1: "assign d v = Some f1" "assign_each assign cvs = Some f2" "f = f2 \<circ> f1"
    by (auto split: option.splits)
  with Cons.IH [OF 1(2)] Cons.prems(2) have step: "column c (f r) = (case map_of cvs c of None \<Rightarrow> column c (f1 r) | Some v \<Rightarrow> v)" by auto
  show ?case
  proof (cases "d = c")
    case True
    with Cons.prems(2) have "map_of cvs c = None" by (simp add: dv map_of_eq_None_iff)
    with step True 1(1) show ?thesis by (simp add: dv same)
  next
    case False
    with step show ?thesis using other [OF 1(1) False, of r] by (cases "map_of cvs c") (simp_all add: dv)
  qed
qed simp

lemma each_key: "assign_each assign cvs = Some f \<Longrightarrow> key (f r) = key r"
  by (induction cvs arbitrary: f r) (auto simp: keeps_key split: option.splits)

lemma update_column:
  "assign_each assign (last_entries cvs) = Some f \<Longrightarrow>
   column c (f r) = (case map_of (rev cvs) c of None \<Rightarrow> column c r | Some v \<Rightarrow> v)"
  using each_column [OF _ last_entries_distinct] by (simp add: last_entries_lookup)

lemma update_key: "assign_each assign (last_entries cvs) = Some f \<Longrightarrow> key (f r) = key r"
  by (rule each_key)

end

end
