(* ===== verification/Cluster_Store.thy ===== *)
theory Cluster_Store
  imports Host_Store Row_Update
begin

text \<open>
  The table of clusters and its guarded update, \<open>internal/cluster/common.go\<close>: \<open>UpdateCluster\<close> names the
  row and the status that the caller saw, like \<open>UpdateHost\<close> does for hosts, and the functions that move
  a cluster to a new status, note a timeout or record the progress of log collection call it. The theory
  interprets the contracts of column assignments and of guarded stores.
\<close>

section \<open>Columns\<close>

datatype cluster_column =
    CC_status | CC_status_info | CC_status_updated_at | CC_install_started_at
  | CC_install_completed_at | CC_trigger_monitor_timestamp | CC_logs_info
  | CC_controller_logs_started_at | CC_controller_logs_collected_at
  | CC_openshift_cluster_id | CC_last_installation_preparation_status
  | CC_last_installation_preparation_reason | CC_is_ams_subscription_console_url_set
  | CC_ams_subscription_id | CC_validations_info | CC_kind | CC_api_vip_dns_name
  | CC_api_vip_lease | CC_ingress_vip_lease | CC_machine_network_cidr_updated_at
  | CC_schedulable_masters_forced_true | CC_progress_finalizing_stage
  | CC_progress_finalizing_stage_percentage | CC_progress_finalizing_stage_started_at
  | CC_progress_finalizing_stage_timed_out | CC_progress_installing_stage_percentage
  | CC_progress_preparing_for_installation_stage_percentage | CC_progress_total_percentage

datatype cluster_value =
    CName cluster_column | CString string | CBool bool | CTime time | CNum int
  | CStatus cluster_status | CKind cluster_kind | CLogs logs_state | CStage finalizing_stage
  | CPreparation preparation_status | CNil

definition the_string :: "cluster_value \<Rightarrow> string option" where
  "the_string v = (case v of CString x \<Rightarrow> Some x | _ \<Rightarrow> None)"

definition the_varchar :: "cluster_value \<Rightarrow> string option" where
  "the_varchar v = (case v of CString x \<Rightarrow> if length x \<le> varchar_max then Some x else None | _ \<Rightarrow> None)"

definition the_bool :: "cluster_value \<Rightarrow> bool option" where
  "the_bool v = (case v of CBool x \<Rightarrow> Some x | _ \<Rightarrow> None)"

definition the_time :: "cluster_value \<Rightarrow> time option" where
  "the_time v = (case v of CTime x \<Rightarrow> Some x | _ \<Rightarrow> None)"

definition the_num :: "cluster_value \<Rightarrow> int option" where
  "the_num v = (case v of CNum x \<Rightarrow> Some x | _ \<Rightarrow> None)"

definition the_status :: "cluster_value \<Rightarrow> cluster_status option" where
  "the_status v = (case v of CStatus x \<Rightarrow> Some x | _ \<Rightarrow> None)"

definition the_kind :: "cluster_value \<Rightarrow> cluster_kind option" where
  "the_kind v = (case v of CKind x \<Rightarrow> Some x | _ \<Rightarrow> None)"

definition the_logs :: "cluster_value \<Rightarrow> logs_state option" where
  "the_logs v = (case v of CLogs x \<Rightarrow> Some x | _ \<Rightarrow> None)"

definition the_stage :: "cluster_value \<Rightarrow> finalizing_stage option" where
  "the_stage v = (case v of CStage x \<Rightarrow> Some x | _ \<Rightarrow> None)"

definition the_preparation :: "cluster_value \<Rightarrow> preparation_status option" where
  "the_preparation v = (case v of CPreparation x \<Rightarrow> Some x | _ \<Rightarrow> None)"

lemmas the_defs [simp] =
  the_string_def the_varchar_def the_bool_def the_time_def the_num_def the_status_def the_kind_def
  the_logs_def the_stage_def the_preparation_def

definition cluster_progress_of :: "cluster \<Rightarrow> cluster_progress" where
  "cluster_progress_of c =
     (case Cluster_Progress c of None \<Rightarrow> zero_cluster_progress | Some p \<Rightarrow> p)"

definition upd_cluster_progress :: "(cluster_progress \<Rightarrow> cluster_progress) \<Rightarrow> cluster \<Rightarrow> cluster" where
  "upd_cluster_progress f c = c\<lparr>Cluster_Progress := Some (f (cluster_progress_of c))\<rparr>"

text \<open>The assignment \<open>SET column = value\<close>; \<^term>\<open>None\<close> when the value does not fit the column.\<close>

fun cluster_assign :: "cluster_column \<Rightarrow> cluster_value \<Rightarrow> (cluster \<Rightarrow> cluster) option" where
  "cluster_assign CC_status v =
     map_option (\<lambda>x. Cluster_Status_update (\<lambda>_. x)) (the_status v)"
| "cluster_assign CC_status_info v =
     map_option (\<lambda>x. Cluster_StatusInfo_update (\<lambda>_. x)) (the_varchar v)"
| "cluster_assign CC_status_updated_at v =
     map_option (\<lambda>x. Cluster_StatusUpdatedAt_update (\<lambda>_. x)) (the_time v)"
| "cluster_assign CC_install_started_at v =
     map_option (\<lambda>x. Cluster_InstallStartedAt_update (\<lambda>_. x)) (the_time v)"
| "cluster_assign CC_install_completed_at v =
     map_option (\<lambda>x. Cluster_InstallCompletedAt_update (\<lambda>_. x)) (the_time v)"
| "cluster_assign CC_trigger_monitor_timestamp v =
     map_option (\<lambda>x. Cluster_TriggerMonitorTimestamp_update (\<lambda>_. x)) (the_time v)"
| "cluster_assign CC_logs_info v =
     map_option (\<lambda>x. Cluster_LogsInfo_update (\<lambda>_. x)) (the_logs v)"
| "cluster_assign CC_controller_logs_started_at v =
     map_option (\<lambda>x. Cluster_ControllerLogsStartedAt_update (\<lambda>_. x)) (the_time v)"
| "cluster_assign CC_controller_logs_collected_at v =
     map_option (\<lambda>x. Cluster_ControllerLogsCollectedAt_update (\<lambda>_. x)) (the_time v)"
| "cluster_assign CC_openshift_cluster_id v =
     map_option (\<lambda>x. Cluster_OpenshiftClusterID_update (\<lambda>_. x)) (the_string v)"
| "cluster_assign CC_last_installation_preparation_status v =
     map_option (\<lambda>x. Cluster_PreparationStatus_update (\<lambda>_. x)) (the_preparation v)"
| "cluster_assign CC_last_installation_preparation_reason v =
     map_option (\<lambda>x. Cluster_PreparationReason_update (\<lambda>_. x)) (the_string v)"
| "cluster_assign CC_is_ams_subscription_console_url_set v =
     map_option (\<lambda>x. Cluster_IsAmsSubscriptionConsoleUrlSet_update (\<lambda>_. x)) (the_bool v)"
| "cluster_assign CC_ams_subscription_id v =
     map_option (\<lambda>x. Cluster_AmsSubscriptionID_update (\<lambda>_. x)) (the_string v)"
| "cluster_assign CC_validations_info v =
     map_option (\<lambda>x. Cluster_ValidationsInfo_update (\<lambda>_. x)) (the_string v)"
| "cluster_assign CC_kind v =
     map_option (\<lambda>x. Cluster_Kind_update (\<lambda>_. x)) (the_kind v)"
| "cluster_assign CC_api_vip_dns_name v =
     map_option (\<lambda>x. Cluster_APIVipDNSName_update (\<lambda>_. x)) (the_string v)"
| "cluster_assign CC_api_vip_lease v =
     map_option (\<lambda>x. Cluster_ApiVipLease_update (\<lambda>_. x)) (the_string v)"
| "cluster_assign CC_ingress_vip_lease v =
     map_option (\<lambda>x. Cluster_IngressVipLease_update (\<lambda>_. x)) (the_string v)"
| "cluster_assign CC_machine_network_cidr_updated_at v =
     map_option (\<lambda>x. Cluster_MachineNetworkCidrUpdatedAt_update (\<lambda>_. x)) (the_time v)"
| "cluster_assign CC_schedulable_masters_forced_true v =
     map_option (\<lambda>x. Cluster_SchedulableMastersForcedTrue_update (\<lambda>_. Some x)) (the_bool v)"
| "cluster_assign CC_progress_finalizing_stage v =
     map_option (\<lambda>x. upd_cluster_progress (FinalizingStage_update (\<lambda>_. x))) (the_stage v)"
| "cluster_assign CC_progress_finalizing_stage_percentage v =
     map_option (\<lambda>x. upd_cluster_progress (FinalizingStagePercentage_update (\<lambda>_. x))) (the_num v)"
| "cluster_assign CC_progress_finalizing_stage_started_at v =
     map_option (\<lambda>x. upd_cluster_progress (FinalizingStageStartedAt_update (\<lambda>_. x))) (the_time v)"
| "cluster_assign CC_progress_finalizing_stage_timed_out v =
     map_option (\<lambda>x. upd_cluster_progress (FinalizingStageTimedOut_update (\<lambda>_. x))) (the_bool v)"
| "cluster_assign CC_progress_installing_stage_percentage v =
     map_option (\<lambda>x. upd_cluster_progress (InstallingStagePercentage_update (\<lambda>_. x))) (the_num v)"
| "cluster_assign CC_progress_preparing_for_installation_stage_percentage v =
     map_option (\<lambda>x. upd_cluster_progress (PreparingForInstallationStagePercentage_update (\<lambda>_. x))) (the_num v)"
| "cluster_assign CC_progress_total_percentage v =
     map_option (\<lambda>x. upd_cluster_progress (TotalPercentage_update (\<lambda>_. x))) (the_num v)"

text \<open>The value that a column of a row holds.\<close>

fun cluster_column_value :: "cluster_column \<Rightarrow> cluster \<Rightarrow> cluster_value" where
  "cluster_column_value CC_status c = CStatus (Cluster_Status c)"
| "cluster_column_value CC_status_info c = CString (Cluster_StatusInfo c)"
| "cluster_column_value CC_status_updated_at c = CTime (Cluster_StatusUpdatedAt c)"
| "cluster_column_value CC_install_started_at c = CTime (Cluster_InstallStartedAt c)"
| "cluster_column_value CC_install_completed_at c = CTime (Cluster_InstallCompletedAt c)"
| "cluster_column_value CC_trigger_monitor_timestamp c = CTime (Cluster_TriggerMonitorTimestamp c)"
| "cluster_column_value CC_logs_info c = CLogs (Cluster_LogsInfo c)"
| "cluster_column_value CC_controller_logs_started_at c = CTime (Cluster_ControllerLogsStartedAt c)"
| "cluster_column_value CC_controller_logs_collected_at c = CTime (Cluster_ControllerLogsCollectedAt c)"
| "cluster_column_value CC_openshift_cluster_id c = CString (Cluster_OpenshiftClusterID c)"
| "cluster_column_value CC_last_installation_preparation_status c = CPreparation (Cluster_PreparationStatus c)"
| "cluster_column_value CC_last_installation_preparation_reason c = CString (Cluster_PreparationReason c)"
| "cluster_column_value CC_is_ams_subscription_console_url_set c = CBool (Cluster_IsAmsSubscriptionConsoleUrlSet c)"
| "cluster_column_value CC_ams_subscription_id c = CString (Cluster_AmsSubscriptionID c)"
| "cluster_column_value CC_validations_info c = CString (Cluster_ValidationsInfo c)"
| "cluster_column_value CC_kind c = CKind (Cluster_Kind c)"
| "cluster_column_value CC_api_vip_dns_name c = CString (Cluster_APIVipDNSName c)"
| "cluster_column_value CC_api_vip_lease c = CString (Cluster_ApiVipLease c)"
| "cluster_column_value CC_ingress_vip_lease c = CString (Cluster_IngressVipLease c)"
| "cluster_column_value CC_machine_network_cidr_updated_at c = CTime (Cluster_MachineNetworkCidrUpdatedAt c)"
| "cluster_column_value CC_schedulable_masters_forced_true c =
     (case Cluster_SchedulableMastersForcedTrue c of None \<Rightarrow> CNil | Some b \<Rightarrow> CBool b)"
| "cluster_column_value CC_progress_finalizing_stage c =
     CStage (FinalizingStage (cluster_progress_of c))"
| "cluster_column_value CC_progress_finalizing_stage_percentage c =
     CNum (FinalizingStagePercentage (cluster_progress_of c))"
| "cluster_column_value CC_progress_finalizing_stage_started_at c =
     CTime (FinalizingStageStartedAt (cluster_progress_of c))"
| "cluster_column_value CC_progress_finalizing_stage_timed_out c =
     CBool (FinalizingStageTimedOut (cluster_progress_of c))"
| "cluster_column_value CC_progress_installing_stage_percentage c =
     CNum (InstallingStagePercentage (cluster_progress_of c))"
| "cluster_column_value CC_progress_preparing_for_installation_stage_percentage c =
     CNum (PreparingForInstallationStagePercentage (cluster_progress_of c))"
| "cluster_column_value CC_progress_total_percentage c =
     CNum (TotalPercentage (cluster_progress_of c))"

lemma cluster_progress_of_update [simp]:
  "cluster_progress_of (c\<lparr>Cluster_Progress := p\<rparr>) = (case p of None \<Rightarrow> zero_cluster_progress | Some q \<Rightarrow> q)"
  by (simp add: cluster_progress_of_def)

lemma cluster_assign_key: "cluster_assign c v = Some f \<Longrightarrow> Cluster_ID (f r) = Cluster_ID r"
  by (cases c) (auto simp: upd_cluster_progress_def)

lemma cluster_assign_same: "cluster_assign c v = Some f \<Longrightarrow> cluster_column_value c (f r) = v"
  by (cases c) (auto simp: upd_cluster_progress_def split: cluster_value.splits if_splits)

lemma cluster_assign_other:
  "cluster_assign c v = Some f \<Longrightarrow> c \<noteq> d \<Longrightarrow> cluster_column_value d (f r) = cluster_column_value d r"
  by (cases c; cases d; clarsimp simp: upd_cluster_progress_def cluster_progress_of_def)

interpretation cluster_row: column_assignment cluster_assign cluster_column_value Cluster_ID
  by unfold_locales (rule cluster_assign_same cluster_assign_other cluster_assign_key; assumption)+

section \<open>Guarded updates of a cluster\<close>

text \<open>The alternating argument list, read two by two; \<open>extra[i].(string)\<close> panics on a non-string.\<close>

fun cluster_pairs_of :: "cluster_value list \<Rightarrow> go_error + (cluster_column \<times> cluster_value) list" where
  "cluster_pairs_of (x # v # rest) =
     (case x of
        CName c \<Rightarrow> (case cluster_pairs_of rest of Inl err \<Rightarrow> Inl err | Inr cvs \<Rightarrow> Inr ((c, v) # cvs))
      | CString _ \<Rightarrow> Inl (ErrWrapf ''failed to update cluster'' ErrDB)
      | _ \<Rightarrow> Inl (Panic ''interface conversion''))"
| "cluster_pairs_of _ = Inr []"

definition update_clusters :: "(cluster \<Rightarrow> bool) \<Rightarrow> (cluster \<Rightarrow> cluster) \<Rightarrow> world \<Rightarrow> world" where
  "update_clusters P f w = w\<lparr>w_clusters := change_rows P f (w_clusters w)\<rparr>"

definition NotifyCluster :: "cluster \<Rightarrow> world \<Rightarrow> world" where
  "NotifyCluster c w = w\<lparr>w_notified_clusters := w_notified_clusters w @ [c]\<rparr>"

text \<open>\<open>clusterExistsInDB\<close>: the row has every updated column at its new value already.\<close>

definition clusterExistsInDB :: "world \<Rightarrow> uuid \<Rightarrow> (cluster \<Rightarrow> cluster) \<Rightarrow> bool" where
  "clusterExistsInDB w clusterId f =
     (\<not> w_dbfault w SelectClusters \<and>
      (case find_cluster clusterId w of None \<Rightarrow> False | Some c \<Rightarrow> f c = c))"

definition ClusterExists :: "world \<Rightarrow> uuid \<Rightarrow> bool" where
  "ClusterExists w clusterId = clusterExistsInDB w clusterId id"

text \<open>\<open>GetClusterFromDB\<close>; the eager variant, which loads the hosts, is \<^const>\<open>GetClusterFromDBWithHosts\<close>.\<close>

definition GetClusterFromDB :: "world \<Rightarrow> uuid \<Rightarrow> go_error + cluster" where
  "GetClusterFromDB w clusterId =
     (case take_cluster w (Some clusterId) of
        Inl err \<Rightarrow> Inl (ErrWrapf ''Failed to get cluster'' err) | Inr c \<Rightarrow> Inr c)"

definition cluster_guard :: "uuid \<Rightarrow> cluster_status \<Rightarrow> cluster \<Rightarrow> bool" where
  "cluster_guard clusterId srcStatus c \<longleftrightarrow> Cluster_ID c = clusterId \<and> Cluster_Status c = srcStatus"

definition UpdateCluster ::
  "uuid \<Rightarrow> cluster_status \<Rightarrow> cluster_value list \<Rightarrow> world \<Rightarrow> (go_error + cluster) \<times> world" where
  "UpdateCluster clusterId srcStatus extra w =
     (if length extra mod 2 \<noteq> 0 then (Inl (ErrNew ''invalid update extra parameters''), w)
      else (case cluster_pairs_of extra of
        Inl err \<Rightarrow> (Inl err, w)
      | Inr cvs \<Rightarrow>
         (case assign_each cluster_assign (last_entries cvs) of
            None \<Rightarrow> (Inl (ErrWrapf ''failed to update cluster'' ErrDB), w)
          | Some f \<Rightarrow>
             if w_dbfault w UpdateClusters then (Inl (ErrWrapf ''failed to update cluster'' ErrDB), w)
             else
               let rowsAffected = length (filter (cluster_guard clusterId srcStatus) (w_clusters w));
                   w1 = update_clusters (cluster_guard clusterId srcStatus) f w
               in if rowsAffected = 0 \<and> \<not> clusterExistsInDB w1 clusterId f
                  then (Inl (ErrNew ''failed to update cluster. nothing has changed''), w1)
                  else (case GetClusterFromDBWithHosts w1 clusterId of
                          Inl err \<Rightarrow> (Inl err, w1)
                        | Inr c \<Rightarrow> (Inr c, NotifyCluster c w1)))))"

text \<open>
  \<open>updateClusterStatus\<close> returns a nil cluster with a nil error, here \<open>Inr None\<close>, when the row that it reads
  back does not have the new status, since \<open>errors.Wrapf\<close> of a nil error is nil.
\<close>

definition installationCompletedStatuses :: "cluster_status list" where
  "installationCompletedStatuses = [ClusterStatusInstalled, ClusterStatusError, ClusterStatusCancelled]"

definition cluster_status_extra ::
  "time \<Rightarrow> cluster_status \<Rightarrow> cluster_status \<Rightarrow> string \<Rightarrow> cluster_value list \<Rightarrow> cluster_value list" where
  "cluster_status_extra now srcStatus newStatus statusInfo extra =
     [CName CC_status, CStatus newStatus, CName CC_status_info, CString statusInfo] @ extra @
     (if newStatus \<noteq> srcStatus
      then [CName CC_status_updated_at, CTime now] @
           (if List.member installationCompletedStatuses newStatus
            then [CName CC_install_completed_at, CTime now] else [])
      else []) @
     (if newStatus \<noteq> srcStatus then [CName CC_trigger_monitor_timestamp, CTime now] else [])"

definition updateClusterStatus ::
  "uuid \<Rightarrow> cluster_status \<Rightarrow> cluster_status \<Rightarrow> string \<Rightarrow> cluster_value list \<Rightarrow> world \<Rightarrow>
   (go_error + cluster option) \<times> world" where
  "updateClusterStatus clusterId srcStatus newStatus statusInfo extra w =
     (case UpdateCluster clusterId srcStatus
             (cluster_status_extra (w_now w) srcStatus newStatus statusInfo extra) w of
        (Inl err, w1) \<Rightarrow> (Inl (ErrWrapf ''failed to update cluster state'' err), w1)
      | (Inr c, w1) \<Rightarrow>
          if Cluster_Status c \<noteq> newStatus then (Inr None, w1)
          else if newStatus \<noteq> srcStatus
          then (Inr (Some c), send_event (ClusterStatusUpdatedEvent clusterId (Cluster_Status c) statusInfo) w1)
          else (Inr (Some c), w1))"

definition notifyFinalizingStageTimeout ::
  "uuid \<Rightarrow> cluster_status \<Rightarrow> string \<Rightarrow> finalizing_stage \<Rightarrow> int \<Rightarrow> cluster_value list \<Rightarrow> world \<Rightarrow>
   (go_error + cluster) \<times> world" where
  "notifyFinalizingStageTimeout clusterId srcStatus statusInfo finalizingStage minutes extra w =
     (case UpdateCluster clusterId srcStatus
             ([CName CC_status_info, CString statusInfo,
               CName CC_progress_finalizing_stage_timed_out, CBool True] @ extra) w of
        (Inl err, w1) \<Rightarrow> (Inl (ErrWrapf ''failed to update cluster finalizing stage timeout'' err), w1)
      | (Inr c, w1) \<Rightarrow>
          (Inr c, send_event (FinalizingStageTimedOutEvent clusterId finalizingStage minutes) w1))"

text \<open>
  An update by identifier only, \<open>db.Model(&common.Cluster{}).Where("id = ?", id).Updates(updates)\<close>, with the
  number of rows it affects.
\<close>

definition update_by_id ::
  "uuid \<Rightarrow> (cluster_column \<times> cluster_value) list \<Rightarrow> world \<Rightarrow> (go_error + nat) \<times> world" where
  "update_by_id clusterId updates w =
     (case assign_each cluster_assign updates of
        None \<Rightarrow> (Inl ErrDB, w)
      | Some f \<Rightarrow>
          if w_dbfault w UpdateClusters then (Inl ErrDB, w)
          else (Inr (length (filter (\<lambda>c. Cluster_ID c = clusterId) (w_clusters w))),
                update_clusters (\<lambda>c. Cluster_ID c = clusterId) f w))"

text \<open>The cluster that the caller holds is replaced by the row that is read back.\<close>

definition updateLogsProgress ::
  "cluster \<Rightarrow> logs_state \<Rightarrow> world \<Rightarrow> go_error option \<times> cluster \<times> world" where
  "updateLogsProgress c progress w =
     (case update_by_id (Cluster_ID c)
             (if progress = LogsStateRequested
              then [(CC_logs_info, CLogs progress), (CC_controller_logs_started_at, CTime (w_now w))]
              else [(CC_logs_info, CLogs progress)]) w of
        (Inl err, w1) \<Rightarrow> (Some err, c, w1)
      | (Inr n, w1) \<Rightarrow>
          if n = 1
          then (case GetClusterFromDBWithHosts w1 (Cluster_ID c) of
                  Inl err \<Rightarrow> (Some err, c, w1) | Inr c1 \<Rightarrow> (None, c1, w1))
          else (None, c, w1))"

definition getKnownMastersNodesIds :: "cluster \<Rightarrow> world \<Rightarrow> go_error + uuid list" where
  "getKnownMastersNodesIds c w =
     (case GetClusterFromDBWithHosts w (Cluster_ID c) of
        Inl _ \<Rightarrow> Inl (ErrNew ''cluster not found'')
      | Inr cluster \<Rightarrow>
          Inr (map Host_ID (filter (\<lambda>h. GetEffectiveRole h = HostRoleMaster \<and>
                 List.member [HostStatusKnown, HostStatusPreparingForInstallation] (Host_Status h))
               (Cluster_Hosts cluster))))"

section \<open>What an update does to the table\<close>

definition cluster_assignment :: "cluster_value list \<Rightarrow> (cluster \<Rightarrow> cluster) option" where
  "cluster_assignment extra =
     (if length extra mod 2 \<noteq> 0 then None
      else case cluster_pairs_of extra of
             Inl _ \<Rightarrow> None | Inr cvs \<Rightarrow> assign_each cluster_assign (last_entries cvs))"

lemma cluster_assignment_key: "cluster_assignment extra = Some f \<Longrightarrow> Cluster_ID (f c) = Cluster_ID c"
  by (auto simp: cluster_assignment_def cluster_row.update_key split: if_splits sum.splits)

lemma cluster_assignment_column:
  "cluster_assignment extra = Some f \<Longrightarrow> cluster_pairs_of extra = Inr cvs \<Longrightarrow>
   cluster_column_value d (f c) =
     (case map_of (rev cvs) d of None \<Rightarrow> cluster_column_value d c | Some v \<Rightarrow> v)"
  by (auto simp: cluster_assignment_def cluster_row.update_column split: if_splits)

lemma find_cluster_SomeD: "find_cluster k w = Some c \<Longrightarrow> Cluster_ID c = k \<and> c \<in> set (w_clusters w)"
  by (auto simp: find_cluster_def dest: find_SomeD)

lemma find_cluster_unique:
  "wf_world w \<Longrightarrow> c \<in> set (w_clusters w) \<Longrightarrow> find_cluster (Cluster_ID c) w = Some c"
  by (simp add: find_cluster_def wf_world_def find_unique)

lemma find_update_clusters:
  "(\<And>c. Cluster_ID (f c) = Cluster_ID c) \<Longrightarrow>
   find_cluster k (update_clusters P f w) = map_option (\<lambda>c. if P c then f c else c) (find_cluster k w)"
  by (simp add: find_cluster_def update_clusters_def find_change_rows)

lemma find_guarded_cluster:
  assumes "\<And>c. Cluster_ID (f c) = Cluster_ID c"
  shows "find_cluster k' (update_clusters (cluster_guard k s) f w) =
         map_option (\<lambda>c. if k' = k \<and> Cluster_Status c = s then f c else c) (find_cluster k' w)"
  using find_cluster_SomeD [of k' w]
  by (cases "find_cluster k' w") (auto simp: find_update_clusters [OF assms] cluster_guard_def)

lemma guarded_clusters_None:
  assumes "wf_world w"
  shows "length (filter (cluster_guard k s) (w_clusters w)) = 0 \<longleftrightarrow>
         (\<forall>c. find_cluster k w = Some c \<longrightarrow> Cluster_Status c \<noteq> s)"
  using find_cluster_unique [OF assms] find_cluster_SomeD [of k w]
  by (auto simp: filter_empty_conv cluster_guard_def)

lemma wf_update_clusters:
  "(\<And>c. Cluster_ID (f c) = Cluster_ID c) \<Longrightarrow> wf_world w \<Longrightarrow> wf_world (update_clusters P f w)"
  by (simp add: wf_world_def update_clusters_def map_change_rows)

lemma update_clusters_frame [simp]:
  "w_hosts (update_clusters P f w) = w_hosts w" "w_now (update_clusters P f w) = w_now w"
  "w_deleted_hosts (update_clusters P f w) = w_deleted_hosts w"
  "w_deleted_clusters (update_clusters P f w) = w_deleted_clusters w"
  "w_events (update_clusters P f w) = w_events w" "w_dbfault (update_clusters P f w) = w_dbfault w"
  "w_notified_clusters (update_clusters P f w) = w_notified_clusters w"
  by (simp_all add: update_clusters_def)

lemma NotifyCluster_frame [simp]:
  "w_hosts (NotifyCluster c w) = w_hosts w" "w_now (NotifyCluster c w) = w_now w"
  "w_clusters (NotifyCluster c w) = w_clusters w" "w_dbfault (NotifyCluster c w) = w_dbfault w"
  "w_deleted_hosts (NotifyCluster c w) = w_deleted_hosts w"
  "w_deleted_clusters (NotifyCluster c w) = w_deleted_clusters w"
  "w_events (NotifyCluster c w) = w_events w"
  by (simp_all add: NotifyCluster_def)

lemma find_cluster_frame [simp]:
  "find_cluster k (send_event e w) = find_cluster k w" "find_cluster k (NotifyCluster c w) = find_cluster k w"
  by (simp_all add: find_cluster_def)

lemma wf_world_NotifyCluster [simp]: "wf_world (NotifyCluster c w) = wf_world w"
  by (simp add: wf_world_def)

lemma load_hosts_simps [simp]:
  "Cluster_ID (load_hosts w c) = Cluster_ID c" "Cluster_Status (load_hosts w c) = Cluster_Status c"
  by (simp_all add: load_hosts_def)

lemma GetClusterFromDBWithHosts_Inr:
  "GetClusterFromDBWithHosts w k = Inr c \<longleftrightarrow>
   \<not> w_dbfault w SelectClusters \<and> \<not> w_dbfault w SelectHosts \<and>
   (\<exists>r. find_cluster k w = Some r \<and> c = load_hosts w r)"
  by (auto simp: GetClusterFromDBWithHosts_def take_cluster_def split: option.splits)

lemma UpdateCluster_fails:
  "cluster_assignment extra = None \<or> w_dbfault w UpdateClusters \<Longrightarrow>
   \<exists>err. UpdateCluster k s extra w = (Inl err, w)"
  by (auto simp: UpdateCluster_def cluster_assignment_def split: sum.splits option.splits)

lemma UpdateCluster_runs:
  assumes "cluster_assignment extra = Some f" and "\<not> w_dbfault w UpdateClusters"
  shows "snd (UpdateCluster k s extra w) = update_clusters (cluster_guard k s) f w \<or>
    (\<exists>c. snd (UpdateCluster k s extra w) = NotifyCluster c (update_clusters (cluster_guard k s) f w))"
  using assms
  by (auto simp: UpdateCluster_def cluster_assignment_def Let_def split: if_splits sum.splits)

lemma UpdateCluster_snd_cases:
  obtains (unchanged) "snd (UpdateCluster k s extra w) = w"
  | (changed) f where "cluster_assignment extra = Some f" "\<not> w_dbfault w UpdateClusters"
      "w_clusters (snd (UpdateCluster k s extra w)) = w_clusters (update_clusters (cluster_guard k s) f w)"
      "w_hosts (snd (UpdateCluster k s extra w)) = w_hosts w" "w_events (snd (UpdateCluster k s extra w)) = w_events w"
      "w_now (snd (UpdateCluster k s extra w)) = w_now w" "w_dbfault (snd (UpdateCluster k s extra w)) = w_dbfault w"
      "w_deleted_hosts (snd (UpdateCluster k s extra w)) = w_deleted_hosts w"
      "w_deleted_clusters (snd (UpdateCluster k s extra w)) = w_deleted_clusters w"
proof (cases "cluster_assignment extra = None \<or> w_dbfault w UpdateClusters")
  case True
  from UpdateCluster_fails [OF this, of k s] show ?thesis using unchanged by auto
next
  case False
  then obtain f where f: "cluster_assignment extra = Some f" "\<not> w_dbfault w UpdateClusters" by auto
  from UpdateCluster_runs [OF f, of k s] show ?thesis by (elim disjE exE) (use f changed in simp_all)
qed

lemma UpdateCluster_frame [frame_simps]:
  "w_hosts (snd (UpdateCluster k s extra w)) = w_hosts w" "w_now (snd (UpdateCluster k s extra w)) = w_now w"
  "w_events (snd (UpdateCluster k s extra w)) = w_events w"
  "w_dbfault (snd (UpdateCluster k s extra w)) = w_dbfault w"
  "w_deleted_hosts (snd (UpdateCluster k s extra w)) = w_deleted_hosts w"
  "w_deleted_clusters (snd (UpdateCluster k s extra w)) = w_deleted_clusters w"
  by (rule UpdateCluster_snd_cases [of k s extra w]; simp)+

lemma find_cluster_clusters: "w_clusters w = w_clusters w' \<Longrightarrow> find_cluster k w = find_cluster k w'"
  by (simp add: find_cluster_def)

lemma wf_world_tables:
  "w_hosts w = w_hosts w' \<Longrightarrow> w_deleted_hosts w = w_deleted_hosts w' \<Longrightarrow> w_clusters w = w_clusters w' \<Longrightarrow>
   wf_world w = wf_world w'"
  by (simp add: wf_world_def)

lemma UpdateCluster_wf: "wf_world w \<Longrightarrow> wf_world (snd (UpdateCluster k s extra w))"
proof (cases rule: UpdateCluster_snd_cases [of k s extra w])
  case (changed f)
  assume "wf_world w"
  then have "wf_world (update_clusters (cluster_guard k s) f w)"
    using cluster_assignment_key [OF changed(1)] by (intro wf_update_clusters)
  then show ?thesis
    using wf_world_tables [of "snd (UpdateCluster k s extra w)" "update_clusters (cluster_guard k s) f w"]
    changed by simp
qed simp

lemma UpdateCluster_Inr:
  assumes "wf_world w" and "UpdateCluster k s extra w = (Inr r', w')"
  shows "\<exists>f r. cluster_assignment extra = Some f \<and>
    w' = NotifyCluster r' (update_clusters (cluster_guard k s) f w) \<and>
    find_cluster k w = Some r \<and> r' = load_hosts w (if Cluster_Status r = s then f r else r) \<and>
    find_cluster k w' = Some (if Cluster_Status r = s then f r else r) \<and> (Cluster_Status r \<noteq> s \<longrightarrow> f r = r)"
proof -
  from assms(2) UpdateCluster_fails [of extra w k s] obtain f
    where f: "cluster_assignment extra = Some f" and nf: "\<not> w_dbfault w UpdateClusters" by fastforce
  let ?w = "update_clusters (cluster_guard k s) f w"
  have got: "GetClusterFromDBWithHosts ?w k = Inr r'" and w': "w' = NotifyCluster r' ?w"
    and ex: "length (filter (cluster_guard k s) (w_clusters w)) \<noteq> 0 \<or> clusterExistsInDB ?w k f"
    using assms(2) f nf
    by (auto simp: UpdateCluster_def cluster_assignment_def Let_def split: if_splits sum.splits)
  from got obtain r where r: "find_cluster k w = Some r"
    and row: "find_cluster k ?w = Some (if Cluster_Status r = s then f r else r)"
    and r': "r' = load_hosts w (if Cluster_Status r = s then f r else r)"
    by (auto simp: GetClusterFromDBWithHosts_Inr find_guarded_cluster [OF cluster_assignment_key [OF f]] load_hosts_def)
  have "f r = r" if "Cluster_Status r \<noteq> s"
    using ex row r that guarded_clusters_None [OF assms(1), of k s] by (auto simp: clusterExistsInDB_def)
  with f w' r r' row show ?thesis by (intro exI [of _ f] exI [of _ r]) simp
qed

text \<open>
  The row without its hosts: the function that reads a row back adds them. The cluster table fulfils the
  contract of a guarded store up to the loaded hosts.
\<close>

definition cluster_row :: "uuid \<Rightarrow> world \<Rightarrow> cluster option" where
  "cluster_row k w = map_option (\<lambda>c. c\<lparr>Cluster_Hosts := []\<rparr>) (find_cluster k w)"

lemma cluster_assign_hosts:
  "cluster_assign c v = Some f \<Longrightarrow> f (r\<lparr>Cluster_Hosts := hs\<rparr>) = (f r)\<lparr>Cluster_Hosts := hs\<rparr>"
  by (cases c) (auto simp: upd_cluster_progress_def cluster_progress_of_def)

lemma assign_each_hosts:
  "assign_each cluster_assign cvs = Some f \<Longrightarrow> f (r\<lparr>Cluster_Hosts := hs\<rparr>) = (f r)\<lparr>Cluster_Hosts := hs\<rparr>"
  by (induction cvs arbitrary: f r) (auto simp: cluster_assign_hosts split: option.splits)

lemma cluster_assignment_hosts:
  "cluster_assignment extra = Some f \<Longrightarrow> f (r\<lparr>Cluster_Hosts := hs\<rparr>) = (f r)\<lparr>Cluster_Hosts := hs\<rparr>"
  by (auto simp: cluster_assignment_def assign_each_hosts split: if_splits sum.splits)

definition update_row ::
  "uuid \<Rightarrow> cluster_status \<Rightarrow> cluster_value list \<Rightarrow> world \<Rightarrow> (go_error + cluster) \<times> world" where
  "update_row k s extra w =
     (case UpdateCluster k s extra w of (res, w1) \<Rightarrow> (map_sum id (\<lambda>c. c\<lparr>Cluster_Hosts := []\<rparr>) res, w1))"

lemma snd_update_row [simp]: "snd (update_row k s extra w) = snd (UpdateCluster k s extra w)"
  by (simp add: update_row_def split: prod.split)

lemma cluster_row_update:
  "cluster_row k' (snd (UpdateCluster k s extra w)) = cluster_row k' w \<or>
   (\<exists>f r. cluster_assignment extra = Some f \<and> cluster_row k w = Some r \<and> Cluster_Status r = s \<and> k' = k \<and>
          cluster_row k (snd (UpdateCluster k s extra w)) = Some (f r))"
proof (cases rule: UpdateCluster_snd_cases [of k s extra w])
  case (changed f)
  note row = find_guarded_cluster [OF cluster_assignment_key [OF changed(1)], of k' k s w]
    find_cluster_clusters [OF changed(3), of k']
  show ?thesis
  proof (cases "find_cluster k' w")
    case (Some r)
    then show ?thesis
      using row changed(1) cluster_assignment_hosts [OF changed(1), of "[]" r] by (auto simp: cluster_row_def)
  qed (use row in \<open>simp add: cluster_row_def\<close>)
qed simp

interpretation clusters: guarded_store cluster_row Cluster_Status wf_world cluster_assignment update_row
proof
  fix w k s u
  show "wf_world w \<Longrightarrow> wf_world (snd (update_row k s u w))" by (simp add: UpdateCluster_wf)
next
  fix k' k s u w
  assume "k' \<noteq> (k :: uuid)"
  then show "cluster_row k' (snd (update_row k s u w)) = cluster_row k' w"
    using cluster_row_update [of k' k s u w] by auto
next
  fix k s u w
  show "cluster_row k (snd (update_row k s u w)) = cluster_row k w \<or>
      (\<exists>f r. cluster_assignment u = Some f \<and> cluster_row k w = Some r \<and> Cluster_Status r = s \<and>
             cluster_row k (snd (update_row k s u w)) = Some (f r))"
    using cluster_row_update [of k k s u w] by auto
next
  fix w k s u r' w'
  assume wf: "wf_world w" and u: "update_row k s u w = (Inr r', w')"
  from u obtain c where c: "UpdateCluster k s u w = (Inr c, w')" and r': "r' = c\<lparr>Cluster_Hosts := []\<rparr>"
    by (auto simp: update_row_def split: prod.splits sum.splits) (metis Inl_Inr_False map_sum.simps obj_sumE sum.inject(2))
  from UpdateCluster_Inr [OF wf c] obtain f r where f: "cluster_assignment u = Some f"
    and r: "find_cluster k w = Some r" "c = load_hosts w (if Cluster_Status r = s then f r else r)"
      "find_cluster k w' = Some (if Cluster_Status r = s then f r else r)" "Cluster_Status r \<noteq> s \<longrightarrow> f r = r" by auto
  then show "\<exists>f r. cluster_assignment u = Some f \<and> cluster_row k w = Some r \<and> cluster_row k w' = Some r' \<and>
      r' = (if Cluster_Status r = s then f r else r) \<and> (Cluster_Status r \<noteq> s \<longrightarrow> f r = r)"
    using cluster_assignment_hosts [OF f, of "[]" r]
    by (intro exI [of _ f] exI [of _ "r\<lparr>Cluster_Hosts := []\<rparr>"]) (auto simp: cluster_row_def r' load_hosts_def)
qed

section \<open>Status updates\<close>

lemma cluster_pairs_of_append:
  "even (length xs) \<Longrightarrow> cluster_pairs_of (xs @ ys) =
     (case cluster_pairs_of xs of Inl e \<Rightarrow> Inl e
      | Inr a \<Rightarrow> (case cluster_pairs_of ys of Inl e \<Rightarrow> Inl e | Inr b \<Rightarrow> Inr (a @ b)))"
  by (induction xs rule: cluster_pairs_of.induct) (auto split: sum.splits cluster_value.splits)

text \<open>Argument lists that are pairs of columns, other than the status, and values that fit them.\<close>

definition cluster_extra_ok :: "cluster_value list \<Rightarrow> bool" where
  "cluster_extra_ok extra \<longleftrightarrow> even (length extra) \<and>
     (\<exists>cvs. cluster_pairs_of extra = Inr cvs \<and> CC_status \<notin> fst ` set cvs \<and>
        (\<forall>(c, v) \<in> set cvs. cluster_assign c v \<noteq> None))"

lemma cluster_extra_ok_Nil [simp]: "cluster_extra_ok []"
  by (simp add: cluster_extra_ok_def)

lemma cluster_extra_ok_pair [simp]:
  "cluster_extra_ok (CName c # v # rest) \<longleftrightarrow> c \<noteq> CC_status \<and> cluster_assign c v \<noteq> None \<and> cluster_extra_ok rest"
  by (auto simp: cluster_extra_ok_def split: sum.splits)

lemma cluster_extra_ok_append: "cluster_extra_ok xs \<Longrightarrow> cluster_extra_ok ys \<Longrightarrow> cluster_extra_ok (xs @ ys)"
  by (auto simp: cluster_extra_ok_def cluster_pairs_of_append)

lemma cluster_status_extra_pairs:
  assumes "cluster_extra_ok extra"
  obtains cvs where "cluster_pairs_of (cluster_status_extra now s t info extra) = Inr ((CC_status, CStatus t) # cvs)"
    "CC_status \<notin> fst ` set cvs" "even (length (cluster_status_extra now s t info extra))"
    "length info \<le> varchar_max \<Longrightarrow> \<forall>(c, v) \<in> set cvs. cluster_assign c v \<noteq> None"
proof -
  from assms obtain cvs where "even (length extra)" "cluster_pairs_of extra = Inr cvs" "CC_status \<notin> fst ` set cvs"
    "\<forall>(c, v) \<in> set cvs. cluster_assign c v \<noteq> None" by (auto simp: cluster_extra_ok_def)
  then show ?thesis
    by (intro that [of "(CC_status_info, CString info) # cvs @
         (if t \<noteq> s then (CC_status_updated_at, CTime now) #
            (if List.member installationCompletedStatuses t then [(CC_install_completed_at, CTime now)] else []) @
            [(CC_trigger_monitor_timestamp, CTime now)] else [])"])
       (auto simp: cluster_status_extra_def cluster_pairs_of_append)
qed

text \<open>
  In a well-formed store a status update that reports no error returns the stored row with its hosts, and
  the row has the requested status.
\<close>

lemma updateClusterStatus_Inr:
  assumes "wf_world w" and "cluster_extra_ok extra"
    and "updateClusterStatus k s t info extra w = (Inr res, w')"
  shows "\<exists>r. res = Some (load_hosts w r) \<and> Cluster_Status r = t \<and> find_cluster k w' = Some r"
proof -
  let ?ex = "cluster_status_extra (w_now w) s t info extra"
  from assms(3) obtain c w1 where u: "UpdateCluster k s ?ex w = (Inr c, w1)"
    by (auto simp: updateClusterStatus_def split: sum.splits prod.splits)
  from UpdateCluster_Inr [OF assms(1) u] obtain f r where f: "cluster_assignment ?ex = Some f"
    and row: "find_cluster k w1 = Some (f r)" and c: "c = load_hosts w (f r)" by (metis (full_types))
  obtain cvs where cvs: "cluster_pairs_of ?ex = Inr ((CC_status, CStatus t) # cvs)" "CC_status \<notin> fst ` set cvs"
    using cluster_status_extra_pairs [OF assms(2)] by metis
  then have "map_of (rev cvs) CC_status = None" by (simp add: map_of_eq_None_iff)
  then have "Cluster_Status (f r) = t" using cluster_assignment_column [OF f cvs(1), of CC_status r] by (simp add: map_add_def)
  with row c u assms(3) show ?thesis
    by (intro exI [of _ "f r"]) (auto simp: updateClusterStatus_def split: if_splits)
qed

lemma updateClusterStatus_frame [frame_simps]:
  "w_hosts (snd (updateClusterStatus k s t info extra w)) = w_hosts w"
  "w_now (snd (updateClusterStatus k s t info extra w)) = w_now w"
  "w_dbfault (snd (updateClusterStatus k s t info extra w)) = w_dbfault w"
  "w_deleted_hosts (snd (updateClusterStatus k s t info extra w)) = w_deleted_hosts w"
  "w_clusters (snd (updateClusterStatus k s t info extra w)) =
     w_clusters (snd (UpdateCluster k s (cluster_status_extra (w_now w) s t info extra) w))"
  using UpdateCluster_frame [of k s "cluster_status_extra (w_now w) s t info extra" w]
  by (auto simp: updateClusterStatus_def split: prod.splits sum.splits)

lemma updateClusterStatus_wf: "wf_world w \<Longrightarrow> wf_world (snd (updateClusterStatus k s t info extra w))"
  using UpdateCluster_wf [of w k s "cluster_status_extra (w_now w) s t info extra"]
    UpdateCluster_frame [of k s "cluster_status_extra (w_now w) s t info extra" w]
  by (subst wf_world_tables [of _ "snd (UpdateCluster k s (cluster_status_extra (w_now w) s t info extra) w)"])
     (simp_all add: updateClusterStatus_frame)

text \<open>When a status update succeeds.\<close>

lemma cluster_assignment_ok:
  assumes "even (length extra)" and "cluster_pairs_of extra = Inr cvs"
    and "\<forall>(c, v) \<in> set cvs. cluster_assign c v \<noteq> None"
  shows "\<exists>f. cluster_assignment extra = Some f"
proof -
  have "\<forall>(c, v) \<in> set (last_entries cvs). cluster_assign c v \<noteq> None"
    using assms(3) last_entries_subset [of cvs] by blast
  then have "assign_each cluster_assign (last_entries cvs) \<noteq> None" by (simp only: assign_each_defined)
  with assms(1,2) show ?thesis by (auto simp: cluster_assignment_def)
qed

definition cluster_healthy :: "world \<Rightarrow> bool" where
  "cluster_healthy w \<longleftrightarrow> \<not> w_dbfault w UpdateClusters \<and> \<not> w_dbfault w SelectClusters \<and> \<not> w_dbfault w SelectHosts"

lemma UpdateCluster_succeeds:
  assumes "cluster_healthy w" and "cluster_assignment extra = Some f" and "find_cluster k w = Some r"
    and "Cluster_Status r = s"
  shows "\<exists>w'. UpdateCluster k s extra w = (Inr (load_hosts w (f r)), w') \<and> find_cluster k w' = Some (f r)"
proof -
  have "r \<in> set (filter (cluster_guard k s) (w_clusters w))"
    using find_cluster_SomeD [OF assms(3)] assms(4) by (simp add: cluster_guard_def)
  then have "filter (cluster_guard k s) (w_clusters w) \<noteq> []" by (metis empty_iff empty_set)
  moreover have row: "find_cluster k (update_clusters (cluster_guard k s) f w) = Some (f r)"
    using assms(3,4) by (simp add: find_guarded_cluster [OF cluster_assignment_key [OF assms(2)]])
  moreover have "GetClusterFromDBWithHosts (update_clusters (cluster_guard k s) f w) k = Inr (load_hosts w (f r))"
    using row assms(1) by (simp add: GetClusterFromDBWithHosts_Inr cluster_healthy_def load_hosts_def)
  ultimately show ?thesis
    using assms(1,2)
    by (auto simp: UpdateCluster_def cluster_assignment_def cluster_healthy_def Let_def split: if_splits sum.splits)
qed

lemma updateClusterStatus_succeeds:
  assumes "cluster_healthy w" and "wf_world w" and "cluster_extra_ok extra" and "length info \<le> varchar_max"
    and "find_cluster k w = Some r" and "Cluster_Status r = s"
  shows "\<exists>f w'. cluster_assignment (cluster_status_extra (w_now w) s t info extra) = Some f \<and>
    updateClusterStatus k s t info extra w = (Inr (Some (load_hosts w (f r))), w') \<and>
    find_cluster k w' = Some (f r) \<and> Cluster_Status (f r) = t"
proof -
  let ?ex = "cluster_status_extra (w_now w) s t info extra"
  obtain cvs where cvs: "cluster_pairs_of ?ex = Inr ((CC_status, CStatus t) # cvs)" "CC_status \<notin> fst ` set cvs"
    "even (length ?ex)" "\<forall>(c, v) \<in> set cvs. cluster_assign c v \<noteq> None"
    using cluster_status_extra_pairs [OF assms(3)] assms(4) by metis
  then obtain f where f: "cluster_assignment ?ex = Some f" using cluster_assignment_ok [OF cvs(3,1)] by auto
  from cvs(2) have "map_of (rev cvs) CC_status = None" by (simp add: map_of_eq_None_iff)
  then have st: "Cluster_Status (f r) = t"
    using cluster_assignment_column [OF f cvs(1), of CC_status r] by (simp add: map_add_def)
  from UpdateCluster_succeeds [OF assms(1) f assms(5,6)] obtain w1 where
    "UpdateCluster k s ?ex w = (Inr (load_hosts w (f r)), w1)" "find_cluster k w1 = Some (f r)" by auto
  with st f show ?thesis by (auto simp: updateClusterStatus_def)
qed

end
