(* ===== verification/Monitor_Query.thy ===== *)
theory Monitor_Query
  imports Cluster_Store "HOL-Library.Multiset"
begin

text \<open>
  The queries by which the monitors of clusters and of hosts walk over the table of clusters,
  \<open>internal/common/monitor_query_generator.go\<close>: a full scan in batches that are ordered by identifier, a timed
  query over the clusters that were triggered recently, and the generator that chooses between them. A loop
  that might not return is a partial function to \<open>option\<close>. One call of \<open>Next\<close> reads one state of the store;
  between two calls the store may change. The columns of identifiers are compared as strings; the zone of the
  clock is UTC. The queries over infra-envs are not modelled.
\<close>

section \<open>Queries\<close>

text \<open>What \<open>buildInitialQuery\<close> adds to a query: a condition on the rows of clusters.\<close>

type_synonym initial_query = "world \<Rightarrow> cluster \<Rightarrow> bool"

definition DefaultBatchSize :: int where
  "DefaultBatchSize = 100"

definition IdsQuerySize :: nat where
  "IdsQuerySize = 10000"

text \<open>\<open>buildInitialQuery(db).Where(q).Find(&clusters)\<close>, with the hosts of the clusters.\<close>

definition Find_clusters :: "initial_query \<Rightarrow> (cluster \<Rightarrow> bool) \<Rightarrow> world \<Rightarrow> go_error + cluster list" where
  "Find_clusters P q w =
     (if w_dbfault w SelectClusters \<or> w_dbfault w SelectHosts then Inl ErrDB
      else Inr (map (load_hosts w) (filter (\<lambda>c. P w c \<and> q c) (w_clusters w))))"

subsection \<open>The full scan\<close>

record full_query =
  fq_lastId :: string
  fq_eof :: bool
  fq_batchSize :: nat

definition fullQuery_Next :: "initial_query \<Rightarrow> world \<Rightarrow> full_query \<Rightarrow> (go_error + cluster list) \<times> full_query" where
  "fullQuery_Next P w f =
     (if fq_eof f then (Inr [], f)
      else (case Find_clusters P (\<lambda>c. fq_lastId f < Cluster_ID c) w of
              Inl err \<Rightarrow> (Inl err, f)
            | Inr cs \<Rightarrow>
                let clusters = take (fq_batchSize f) (sort_key Cluster_ID cs);
                    f1 = (if length clusters < fq_batchSize f then f\<lparr>fq_eof := True\<rparr> else f);
                    f2 = (if clusters \<noteq> [] then f1\<lparr>fq_lastId := Cluster_ID (last clusters)\<rparr> else f1)
                in (Inr clusters, f2)))"

subsection \<open>The timed query\<close>

record timed_query =
  tq_lastId :: string
  tq_timeToCompare :: time
  tq_ids :: "string list"
  tq_eof :: bool
  tq_offset :: nat
  tq_batchSize :: nat

text \<open>
  The raw statement over the identifiers: it also sees rows that are soft-deleted, and a host counts for the
  cluster that it belongs to.
\<close>

definition cluster_triggers :: "time \<Rightarrow> world \<Rightarrow> string list" where
  "cluster_triggers t w =
     map Cluster_ID (filter (\<lambda>c. t < Cluster_TriggerMonitorTimestamp c) (w_clusters w @ w_deleted_clusters w))"

definition host_triggers :: "time \<Rightarrow> world \<Rightarrow> string list" where
  "host_triggers t w =
     List.map_filter Host_ClusterID
       (filter (\<lambda>h. t < Host_TriggerMonitorTimestamp h) (w_hosts w @ map snd (w_deleted_hosts w)))"

definition triggered_ids :: "time \<Rightarrow> string \<Rightarrow> world \<Rightarrow> string list" where
  "triggered_ids t lastId w =
     sort (remdups (filter (\<lambda>i. lastId < i) (cluster_triggers t w @ host_triggers t w)))"

definition next_page :: "world \<Rightarrow> timed_query \<Rightarrow> timed_query" where
  "next_page w t =
     (let ids = take IdsQuerySize (triggered_ids (tq_timeToCompare t) (tq_lastId t) w)
      in t\<lparr>tq_ids := ids, tq_eof := tq_eof t \<or> length ids < IdsQuerySize,
           tq_lastId := (if ids \<noteq> [] then last ids else tq_lastId t), tq_offset := 0\<rparr>)"

text \<open>The inner loop, over ranges of the identifiers, until one range has clusters.\<close>

partial_function (option) timed_batch ::
  "initial_query \<Rightarrow> world \<Rightarrow> timed_query \<Rightarrow> ((go_error + cluster list) \<times> timed_query) option" where
  "timed_batch P w t =
     (if \<not> tq_offset t < length (tq_ids t) then Some (Inr [], t)
      else let nextOffset = min (tq_offset t + tq_batchSize t) (length (tq_ids t));
               slice = take (nextOffset - tq_offset t) (drop (tq_offset t) (tq_ids t))
           in case Find_clusters P (\<lambda>c. List.member slice (Cluster_ID c)) w of
                Inl err \<Rightarrow> Some (Inl err, t)
              | Inr clusters \<Rightarrow>
                  if clusters = [] then timed_batch P w (t\<lparr>tq_offset := nextOffset\<rparr>)
                  else Some (Inr clusters, t\<lparr>tq_offset := nextOffset\<rparr>))"

text \<open>The outer loop, over pages of identifiers.\<close>

partial_function (option) timed_loop ::
  "initial_query \<Rightarrow> world \<Rightarrow> timed_query \<Rightarrow> ((go_error + cluster list) \<times> timed_query) option" where
  "timed_loop P w t =
     (if tq_eof t \<and> \<not> tq_offset t < length (tq_ids t) then Some (Inr [], t)
      else if tq_offset t = length (tq_ids t) \<and> w_dbfault w SelectClusters
      then Some (Inl ErrDB, t\<lparr>tq_ids := []\<rparr>)
      else Option.bind (timed_batch P w (if tq_offset t = length (tq_ids t) then next_page w t else t))
             (\<lambda>(r, t1). case r of
                Inl err \<Rightarrow> Some (Inl err, t1)
              | Inr clusters \<Rightarrow> if clusters = [] then timed_loop P w t1 else Some (Inr clusters, t1)))"

definition timedQuery_Next ::
  "initial_query \<Rightarrow> world \<Rightarrow> timed_query \<Rightarrow> ((go_error + cluster list) \<times> timed_query) option" where
  "timedQuery_Next P w t =
     (if tq_eof t \<and> tq_offset t = length (tq_ids t) then Some (Inr [], t) else timed_loop P w t)"

subsection \<open>The generator\<close>

datatype monitor_query = FullQuery full_query | TimedQuery timed_query

definition MonitorQuery_Next ::
  "initial_query \<Rightarrow> world \<Rightarrow> monitor_query \<Rightarrow> ((go_error + cluster list) \<times> monitor_query) option" where
  "MonitorQuery_Next P w q =
     (case q of
        FullQuery f \<Rightarrow> Some (map_prod id FullQuery (fullQuery_Next P w f))
      | TimedQuery t \<Rightarrow> map_option (map_prod id TimedQuery) (timedQuery_Next P w t))"

definition IsFullScan :: "monitor_query \<Rightarrow> bool" where
  "IsFullScan q = (case q of FullQuery _ \<Rightarrow> True | TimedQuery _ \<Rightarrow> False)"

record query_generator =
  lastInvokeTime :: time
  calls :: nat
  batchSize :: nat

definition NewMonitorQueryGenerator :: "int \<Rightarrow> query_generator" where
  "NewMonitorQueryGenerator n =
     \<lparr>lastInvokeTime = 0, calls = 0, batchSize = nat (if n < 1 then DefaultBatchSize else n)\<rparr>"

definition timeForDuration :: "time \<Rightarrow> duration \<Rightarrow> time" where
  "timeForDuration now d = now - d"

text \<open>\<open>t.Minute()\<close>, the minute within the hour.\<close>

definition Minute_of :: "time \<Rightarrow> int" where
  "Minute_of t = (t div Minute) mod 60"

definition new_timed :: "time \<Rightarrow> nat \<Rightarrow> timed_query" where
  "new_timed t n =
     \<lparr>tq_lastId = '''', tq_timeToCompare = t, tq_ids = [], tq_eof = False, tq_offset = 0, tq_batchSize = n\<rparr>"

definition new_full :: "nat \<Rightarrow> full_query" where
  "new_full n = \<lparr>fq_lastId = '''', fq_eof = False, fq_batchSize = n\<rparr>"

definition NewClusterQuery :: "time \<Rightarrow> query_generator \<Rightarrow> monitor_query \<times> query_generator" where
  "NewClusterQuery newInvokeTime g =
     (if calls g = 0 \<or> Minute_of (lastInvokeTime g) div 5 \<noteq> Minute_of newInvokeTime div 5
      then FullQuery (new_full (batchSize g))
      else if Minute_of (lastInvokeTime g) \<noteq> Minute_of newInvokeTime
      then TimedQuery (new_timed (timeForDuration newInvokeTime (15 * Minute)) (batchSize g))
      else TimedQuery (new_timed (timeForDuration newInvokeTime (5 * Minute)) (batchSize g)),
      g\<lparr>lastInvokeTime := newInvokeTime, calls := calls g + 1\<rparr>)"

section \<open>Scanning\<close>

text \<open>What a loop over \<open>Next\<close> sees until it gets an empty batch or an error.\<close>

partial_function (option) scan ::
  "('q \<Rightarrow> ((go_error + 'c list) \<times> 'q) option) \<Rightarrow> 'q \<Rightarrow> (go_error + 'c list) option" where
  "scan Next q = Option.bind (Next q) (\<lambda>(r, q1). case r of
       Inl err \<Rightarrow> Some (Inl err)
     | Inr cs \<Rightarrow> if cs = [] then Some (Inr [])
         else Option.bind (scan Next q1) (\<lambda>rest. case rest of
                Inl err \<Rightarrow> Some (Inl err) | Inr ds \<Rightarrow> Some (Inr (cs @ ds))))"

text \<open>
  The contract of a query on a store that does not change: \<open>todo\<close> is what it still has to return. A batch is
  taken from it, and an empty batch is returned only when nothing is left.
\<close>

locale batched_query =
  fixes Next :: "'q \<Rightarrow> ((go_error + 'c list) \<times> 'q) option"
    and todo :: "'q \<Rightarrow> 'c multiset"
    and ready :: "'q \<Rightarrow> bool"
  assumes next_batch: "ready q \<Longrightarrow> \<exists>cs q1. Next q = Some (Inr cs, q1) \<and> ready q1 \<and>
    todo q = mset cs + todo q1 \<and> (cs = [] \<longrightarrow> todo q = {#})"
begin

lemma scan_todo: "ready q \<Longrightarrow> \<exists>cs. scan Next q = Some (Inr cs) \<and> mset cs = todo q"
proof (induction "size (todo q)" arbitrary: q rule: less_induct)
  case less
  from next_batch [OF less.prems] obtain cs q1 where
    n: "Next q = Some (Inr cs, q1)" "ready q1" "todo q = mset cs + todo q1" "cs = [] \<longrightarrow> todo q = {#}" by blast
  show ?case
  proof (cases "cs = []")
    case True
    with n show ?thesis by (simp add: scan.simps [of Next q])
  next
    case False
    with n(3) have "size (todo q1) < size (todo q)" by (cases cs) auto
    from less.hyps [OF this n(2)] obtain ds where "scan Next q1 = Some (Inr ds)" "mset ds = todo q1" by blast
    with n False show ?thesis by (simp add: scan.simps [of Next q])
  qed
qed

end

text \<open>A query that returns its batches in the order of a key.\<close>

locale ordered_query = batched_query Next todo ready
  for Next :: "'q \<Rightarrow> ((go_error + 'c list) \<times> 'q) option" and todo :: "'q \<Rightarrow> 'c multiset" and ready :: "'q \<Rightarrow> bool" +
  fixes key :: "'c \<Rightarrow> 'k::linorder"
  assumes batch_order: "ready q \<Longrightarrow> Next q = Some (Inr cs, q1) \<Longrightarrow>
    sorted (map key cs) \<and> (\<forall>c \<in> set cs. \<forall>d \<in># todo q1. key c \<le> key d)"
begin

lemma scan_order: "ready q \<Longrightarrow> scan Next q = Some (Inr cs) \<Longrightarrow> sorted (map key cs)"
proof (induction "size (todo q)" arbitrary: q cs rule: less_induct)
  case less
  from next_batch [OF less.prems(1)] obtain bs q1 where
    n: "Next q = Some (Inr bs, q1)" "ready q1" "todo q = mset bs + todo q1" by blast
  show ?case
  proof (cases "bs = []")
    case True
    with n(1) less.prems(2) show ?thesis by (simp add: scan.simps [of Next q])
  next
    case False
    with n(3) have smaller: "size (todo q1) < size (todo q)" by (cases bs) auto
    from scan_todo [OF n(2)] obtain ds where ds: "scan Next q1 = Some (Inr ds)" "mset ds = todo q1" by blast
    with n(1) less.prems(2) False have "cs = bs @ ds" by (simp add: scan.simps [of Next q])
    moreover have "set_mset (todo q1) = set ds" using ds(2) [symmetric] by simp
    ultimately show ?thesis
      using batch_order [OF less.prems(1) n(1)] less.hyps [OF smaller n(2) ds(1)] by (auto simp: sorted_append)
  qed
qed

end

section \<open>The full scan\<close>

definition query_healthy :: "world \<Rightarrow> bool" where
  "query_healthy w \<longleftrightarrow> \<not> w_dbfault w SelectClusters \<and> \<not> w_dbfault w SelectHosts \<and> distinct (map Cluster_ID (w_clusters w))"

definition matching :: "initial_query \<Rightarrow> (cluster \<Rightarrow> bool) \<Rightarrow> world \<Rightarrow> cluster list" where
  "matching P q w = map (load_hosts w) (filter (\<lambda>c. P w c \<and> q c) (w_clusters w))"

definition full_todo :: "initial_query \<Rightarrow> world \<Rightarrow> full_query \<Rightarrow> cluster multiset" where
  "full_todo P w f = (if fq_eof f then {#} else mset (matching P (\<lambda>c. fq_lastId f < Cluster_ID c) w))"

definition full_ready :: "world \<Rightarrow> full_query \<Rightarrow> bool" where
  "full_ready w f \<longleftrightarrow> query_healthy w \<and> 0 < fq_batchSize f"

lemma Find_healthy: "query_healthy w \<Longrightarrow> Find_clusters P q w = Inr (matching P q w)"
  by (simp add: Find_clusters_def query_healthy_def matching_def)

lemma matching_ids: "set (map Cluster_ID (matching P q w)) = Cluster_ID ` {c \<in> set (w_clusters w). P w c \<and> q c}"
  by (auto simp: matching_def)

lemma matching_distinct:
  assumes "query_healthy w"
  shows "distinct (map Cluster_ID (matching P q w))"
proof -
  have "map Cluster_ID (matching P q w) = map Cluster_ID (filter (\<lambda>c. P w c \<and> q c) (w_clusters w))"
    by (simp add: matching_def)
  then show ?thesis using assms by (simp add: query_healthy_def distinct_map_filter)
qed

lemma sorted_last:
  fixes key :: "'c \<Rightarrow> 'k::linorder"
  shows "sorted (map key ys) \<Longrightarrow> c \<in> set ys \<Longrightarrow> key c \<le> key (last ys)"
  by (induction ys rule: rev_induct) (auto simp: sorted_append)

text \<open>The rows above a bound that are not among the first in the order are those above the last of these.\<close>

lemma take_sorted_split:
  fixes key :: "'c \<Rightarrow> 'k::linorder"
  assumes "distinct (map key xs)" and "take n (sort_key key xs) \<noteq> []"
  shows "mset (drop n (sort_key key xs)) = mset (filter (\<lambda>c. key (last (take n (sort_key key xs))) < key c) xs)"
proof -
  let ?s = "sort_key key xs" and ?l = "key (last (take n (sort_key key xs)))"
  have "mset (map key ?s) = mset (map key xs)" by simp
  from mset_eq_imp_distinct_iff [OF this] assms(1) have d: "distinct (map key ?s)" by simp
  have so: "sorted (map key (take n ?s @ drop n ?s))" by simp
  have strict: "sorted_wrt (<) (map key (take n ?s @ drop n ?s))"
    using d so by (simp add: strict_sorted_iff)
  have "sorted (map key (take n ?s))" by (simp add: sorted_wrt_take flip: take_map)
  then have "\<forall>c \<in> set (take n ?s). \<not> ?l < key c" using sorted_last by (auto simp: not_less)
  moreover have "\<forall>c \<in> set (drop n ?s). ?l < key c"
    using strict last_in_set [OF assms(2)] unfolding map_append sorted_wrt_append set_map by blast
  ultimately have "filter (\<lambda>c. ?l < key c) ?s = drop n ?s"
    by (subst append_take_drop_id [of n ?s, symmetric], subst filter_append) (simp add: filter_id_conv)
  then show ?thesis by (metis mset_filter mset_sort)
qed

lemma sort_key_Nil_iff [simp]: "sort_key key xs = [] \<longleftrightarrow> xs = []"
  by (metis length_0_conv length_sort)

lemma Nil_less_iff: "[] < (s :: string) \<longleftrightarrow> s \<noteq> []"
  by (cases s) simp_all

lemma matching_above:
  "filter (\<lambda>c. l < Cluster_ID c) (matching P q w) = matching P (\<lambda>c. q c \<and> l < Cluster_ID c) w"
  by (simp add: matching_def filter_map comp_def conj_ac)

lemma matching_tail:
  "k < l \<Longrightarrow> matching P (\<lambda>c. k < Cluster_ID c \<and> l < Cluster_ID c) w = matching P (\<lambda>c. l < Cluster_ID c) w"
  unfolding matching_def by (rule arg_cong [where f = "map _"], rule filter_cong) auto

text \<open>One batch: the first rows above the last identifier, and the rest stays to do.\<close>

lemma full_step:
  assumes "full_ready w f"
  shows "\<exists>cs f1. fullQuery_Next P w f = (Inr cs, f1) \<and> full_ready w f1 \<and>
    full_todo P w f = mset cs + full_todo P w f1 \<and> (cs = [] \<longrightarrow> full_todo P w f = {#}) \<and>
    sorted (map Cluster_ID cs) \<and> (\<forall>c \<in> set cs. \<forall>d \<in># full_todo P w f1. Cluster_ID c \<le> Cluster_ID d)"
proof (cases "fq_eof f")
  case True
  with assms show ?thesis by (simp add: fullQuery_Next_def full_todo_def)
next
  case False
  let ?xs = "matching P (\<lambda>c. fq_lastId f < Cluster_ID c) w" and ?b = "fq_batchSize f"
  let ?cs = "take ?b (sort_key Cluster_ID ?xs)"
  define f1 where "f1 = (let g = (if length ?cs < ?b then f\<lparr>fq_eof := True\<rparr> else f)
      in if ?cs \<noteq> [] then g\<lparr>fq_lastId := Cluster_ID (last ?cs)\<rparr> else g)"
  have healthy: "query_healthy w" and b: "0 < ?b" using assms by (simp_all add: full_ready_def)
  have f1: "fullQuery_Next P w f = (Inr ?cs, f1)"
    unfolding fullQuery_Next_def Find_healthy [OF healthy] f1_def Let_def by (simp only: False if_False sum.case)
  have ready: "full_ready w f1" using assms unfolding f1_def by (auto simp: full_ready_def Let_def)
  have parts: "mset ?xs = mset ?cs + mset (drop ?b (sort_key Cluster_ID ?xs))"
    by (metis append_take_drop_id mset_append mset_sort)
  have rest: "full_todo P w f1 = mset (drop ?b (sort_key Cluster_ID ?xs))"
  proof (cases "length ?cs < ?b")
    case True
    then have "drop ?b (sort_key Cluster_ID ?xs) = []" by simp
    moreover have "fq_eof f1" unfolding f1_def Let_def by (simp only: True if_True) simp
    ultimately show ?thesis by (simp add: full_todo_def)
  next
    case full: False
    with b have "0 < length ?cs" by linarith
    then have ne: "?cs \<noteq> []" by (simp only: length_greater_0_conv not_False_eq_True)
    from full have f1': "f1 = f\<lparr>fq_lastId := Cluster_ID (last ?cs)\<rparr>"
      unfolding f1_def Let_def by (simp only: ne if_False if_True not_False_eq_True)
    have "last ?cs \<in> set ?xs" using last_in_set [OF ne] in_set_takeD by fastforce
    then have "fq_lastId f < Cluster_ID (last ?cs)" by (auto simp: matching_def)
    from matching_tail [OF this, of P w] take_sorted_split [OF matching_distinct [OF healthy] ne]
    show ?thesis by (simp add: f1' full_todo_def matching_above False)
  qed
  have "\<forall>c \<in> set ?cs. \<forall>d \<in> set (drop ?b (sort_key Cluster_ID ?xs)). Cluster_ID c \<le> Cluster_ID d"
    using sorted_sort_key [of Cluster_ID ?xs]
    by (subst (asm) append_take_drop_id [of ?b, symmetric]) (auto simp only: map_append sorted_append set_map)
  moreover have "sorted (map Cluster_ID ?cs)" by (simp add: sorted_wrt_take flip: take_map)
  moreover have "?cs = [] \<longrightarrow> mset ?xs = {#}" using b by auto
  ultimately show ?thesis
    using f1 ready parts rest False by (intro exI [of _ ?cs] exI [of _ f1]) (simp add: full_todo_def)
qed

interpretation full: ordered_query "\<lambda>f. Some (fullQuery_Next P w f)" "full_todo P w" "full_ready w" Cluster_ID
proof
  fix q assume "full_ready w q"
  from full_step [OF this, of P] show "\<exists>cs q1. Some (fullQuery_Next P w q) = Some (Inr cs, q1) \<and> full_ready w q1 \<and>
    full_todo P w q = mset cs + full_todo P w q1 \<and> (cs = [] \<longrightarrow> full_todo P w q = {#})" by auto
next
  fix q cs q1 assume "full_ready w q" "Some (fullQuery_Next P w q) = Some (Inr cs, q1)"
  with full_step [OF this(1), of P] show "sorted (map Cluster_ID cs) \<and> (\<forall>c \<in> set cs. \<forall>d \<in># full_todo P w q1. Cluster_ID c \<le> Cluster_ID d)"
    by auto
qed

text \<open>A list is the sorted one when it is sorted, has the same elements and the keys are distinct.\<close>

lemma sort_key_unique:
  fixes key :: "'c \<Rightarrow> 'k::linorder"
  assumes "mset cs = mset xs" and "sorted (map key cs)" and "distinct (map key xs)"
  shows "cs = sort_key key xs"
  using assms by (intro sort_key_inj_key_eq [symmetric]) (simp_all add: distinct_map)

text \<open>
  C37. A full scan enumerates the clusters: with a batch size of at least one, the loop over \<open>Next\<close> returns,
  without error, and has seen exactly the clusters that match the initial query, each once and in the
  order of their identifiers, however the batches fall. A cluster with an empty identifier is never seen.
\<close>

theorem full_scan_enumerates:
  assumes "query_healthy w" and "0 < n"
  shows "scan (\<lambda>f. Some (fullQuery_Next P w f)) (new_full n) =
    Some (Inr (sort_key Cluster_ID (matching P (\<lambda>c. Cluster_ID c \<noteq> '''') w)))"
proof -
  have ready: "full_ready w (new_full n)" using assms by (simp add: full_ready_def new_full_def)
  from full.scan_todo [OF this] obtain cs where
    cs: "scan (\<lambda>f. Some (fullQuery_Next P w f)) (new_full n) = Some (Inr cs)" "mset cs = full_todo P w (new_full n)" by blast
  moreover have "full_todo P w (new_full n) = mset (matching P (\<lambda>c. Cluster_ID c \<noteq> '''') w)"
    by (simp add: full_todo_def new_full_def Nil_less_iff)
  ultimately have "cs = sort_key Cluster_ID (matching P (\<lambda>c. Cluster_ID c \<noteq> '''') w)"
    using full.scan_order [OF ready cs(1)] matching_distinct [OF assms(1)] by (intro sort_key_unique) simp_all
  with cs(1) show ?thesis by simp
qed

text \<open>A store with three clusters, of which one is installed, and the query of the monitor of clusters.\<close>

definition sample_row :: "string \<Rightarrow> cluster_status \<Rightarrow> time \<Rightarrow> cluster" where
  "sample_row i s t = zero_cluster\<lparr>Cluster_ID := i, Cluster_Status := s, Cluster_TriggerMonitorTimestamp := t\<rparr>"

definition sample_query_world :: world where
  "sample_query_world =
     \<lparr>w_now = 20 * Minute, w_hosts = [], w_deleted_hosts = [],
      w_clusters = [sample_row ''b'' ClusterStatusReady (19 * Minute), sample_row ''c'' ClusterStatusInstalled 0,
        sample_row ''a'' ClusterStatusInsufficient (18 * Minute)],
      w_deleted_clusters = [], w_events = [], w_notified = [], w_notified_clusters = [], w_dbfault = (\<lambda>_. False)\<rparr>"

abbreviation sample_initial :: initial_query where
  "sample_initial \<equiv> \<lambda>w c. Cluster_Status c \<noteq> ClusterStatusInstalled"

lemma sample_query_healthy: "query_healthy sample_query_world"
  by (simp add: query_healthy_def sample_query_world_def sample_row_def)

theorem full_scan_enumerates_witness:
  "\<exists>cs. scan (\<lambda>f. Some (fullQuery_Next sample_initial sample_query_world f)) (new_full 1) = Some (Inr cs) \<and>
     map Cluster_ID cs = [''a'', ''b'']"
  using full_scan_enumerates [OF sample_query_healthy, of 1 sample_initial]
  by (simp add: matching_def sample_query_world_def sample_row_def insort_key.simps)

subsection \<open>Interleaving\<close>

text \<open>The batches of a loop whose calls see the stores \<open>ws\<close>, one after the other.\<close>

fun full_calls :: "initial_query \<Rightarrow> world list \<Rightarrow> full_query \<Rightarrow> cluster list \<times> full_query" where
  "full_calls P [] f = ([], f)"
| "full_calls P (w # ws) f =
     (case fullQuery_Next P w f of
        (Inl _, f1) \<Rightarrow> ([], f1)
      | (Inr cs, f1) \<Rightarrow> (case full_calls P ws f1 of (ds, f2) \<Rightarrow> (cs @ ds, f2)))"

text \<open>A row with this identifier that the query selects.\<close>

definition selected :: "initial_query \<Rightarrow> string \<Rightarrow> world \<Rightarrow> bool" where
  "selected P i w \<longleftrightarrow> (\<exists>c \<in> set (w_clusters w). Cluster_ID c = i \<and> P w c)"

lemma full_lastId:
  "fullQuery_Next P w f = (Inr cs, f1) \<Longrightarrow> fq_lastId f1 = (if cs = [] then fq_lastId f else Cluster_ID (last cs))"
  by (auto simp: fullQuery_Next_def Let_def split: if_splits sum.splits)

lemma full_call:
  assumes "query_healthy w" and "0 < fq_batchSize f"
  obtains cs f1 where "fullQuery_Next P w f = (Inr cs, f1)" and "fq_batchSize f1 = fq_batchSize f"
    and "sorted_wrt (<) (map Cluster_ID cs)" and "\<forall>i \<in> Cluster_ID ` set cs. fq_lastId f < i \<and> i \<le> fq_lastId f1"
    and "fq_lastId f \<le> fq_lastId f1" and "fq_eof f \<Longrightarrow> cs = [] \<and> fq_eof f1"
    and "\<And>i. selected P i w \<Longrightarrow> fq_lastId f < i \<Longrightarrow> \<not> fq_eof f \<Longrightarrow>
      i \<in> Cluster_ID ` set cs \<or> \<not> fq_eof f1 \<and> fq_lastId f1 < i"
proof -
  from full_step [of w f P] assms obtain cs f1 where s: "fullQuery_Next P w f = (Inr cs, f1)"
    "full_todo P w f = mset cs + full_todo P w f1" "sorted (map Cluster_ID cs)" by (auto simp: full_ready_def)
  have b: "fq_batchSize f1 = fq_batchSize f"
    using s(1) by (auto simp: fullQuery_Next_def Let_def split: if_splits sum.splits)
  have eof: "cs = [] \<and> fq_eof f1" if "fq_eof f" using s(1) that by (simp add: fullQuery_Next_def)
  have sub: "mset cs \<subseteq># mset (matching P (\<lambda>c. fq_lastId f < Cluster_ID c) w)"
    using s(2) eof by (cases "fq_eof f") (simp_all add: full_todo_def)
  obtain ds where ds: "mset ds = mset (matching P (\<lambda>c. fq_lastId f < Cluster_ID c) w) - mset cs" by (metis ex_mset)
  with sub have "mset (cs @ ds) = mset (matching P (\<lambda>c. fq_lastId f < Cluster_ID c) w)" by simp
  then have "mset (map Cluster_ID (cs @ ds)) = mset (map Cluster_ID (matching P (\<lambda>c. fq_lastId f < Cluster_ID c) w))"
    by (metis mset_map)
  from mset_eq_imp_distinct_iff [OF this] matching_distinct [OF assms(1)] have "distinct (map Cluster_ID cs)" by simp
  with s(3) have strict: "sorted_wrt (<) (map Cluster_ID cs)" by (simp add: strict_sorted_iff)
  have above: "fq_lastId f < Cluster_ID c" if "c \<in> set cs" for c
    using mset_subset_eqD [OF sub, of c] that by (auto simp: matching_def)
  have last: "fq_lastId f1 = (if cs = [] then fq_lastId f else Cluster_ID (last cs))" by (rule full_lastId [OF s(1)])
  have "i \<in> Cluster_ID ` set cs \<or> \<not> fq_eof f1 \<and> fq_lastId f1 < i" if i: "selected P i w" "fq_lastId f < i" "\<not> fq_eof f" for i
  proof -
    from i(1) obtain r where r: "r \<in> set (w_clusters w)" "Cluster_ID r = i" "P w r" by (auto simp: selected_def)
    define c where "c = load_hosts w r"
    from r i(2,3) have c: "c \<in># full_todo P w f" "Cluster_ID c = i" by (auto simp: c_def full_todo_def matching_def)
    then have "c \<in> set cs \<or> c \<in># full_todo P w f1" using s(2) by auto
    with c(2) show ?thesis by (auto simp: full_todo_def matching_def split: if_splits)
  qed
  moreover have "\<forall>i \<in> Cluster_ID ` set cs. fq_lastId f < i \<and> i \<le> fq_lastId f1"
    using above sorted_last [OF s(3)] by (auto simp: last)
  moreover have "fq_lastId f \<le> fq_lastId f1" using above [OF last_in_set] by (auto simp: last less_imp_le)
  ultimately show thesis using that [OF s(1) b strict] eof by blast
qed

lemma full_calls_eof:
  "fq_eof f \<Longrightarrow> full_calls P ws f = ([], f)"
  by (induction ws) (simp_all add: fullQuery_Next_def)

lemma full_calls_spec:
  assumes "list_all query_healthy ws" and "0 < fq_batchSize f" and "full_calls P ws f = (cs, f1)" and "\<not> fq_eof f"
  shows "sorted_wrt (<) (map Cluster_ID cs) \<and> (\<forall>i \<in> Cluster_ID ` set cs. fq_lastId f < i) \<and>
    (fq_eof f1 \<longrightarrow> (\<forall>i. fq_lastId f < i \<and> list_all (selected P i) ws \<longrightarrow> i \<in> Cluster_ID ` set cs))"
  using assms
proof (induction ws arbitrary: f cs)
  case Nil
  then show ?case by simp
next
  case (Cons w ws)
  from Cons.prems obtain bs f2 where b: "fullQuery_Next P w f = (Inr bs, f2)" "fq_batchSize f2 = fq_batchSize f"
    "sorted_wrt (<) (map Cluster_ID bs)" "\<forall>i \<in> Cluster_ID ` set bs. fq_lastId f < i \<and> i \<le> fq_lastId f2"
    "fq_lastId f \<le> fq_lastId f2"
    "\<And>i. selected P i w \<Longrightarrow> fq_lastId f < i \<Longrightarrow> i \<in> Cluster_ID ` set bs \<or> \<not> fq_eof f2 \<and> fq_lastId f2 < i"
    by (auto elim!: full_call [of w f P])
  from b(1) Cons.prems(3) obtain ds where ds: "full_calls P ws f2 = (ds, f1)" "cs = bs @ ds"
    by (auto split: prod.splits)
  show ?case
  proof (cases "fq_eof f2")
    case True
    with ds b show ?thesis by (auto simp: full_calls_eof)
  next
    case False
    from Cons.IH [OF _ _ ds(1) False] Cons.prems(1,2) b(2) have ih:
      "sorted_wrt (<) (map Cluster_ID ds)" "\<forall>i \<in> Cluster_ID ` set ds. fq_lastId f2 < i"
      "fq_eof f1 \<longrightarrow> (\<forall>i. fq_lastId f2 < i \<and> list_all (selected P i) ws \<longrightarrow> i \<in> Cluster_ID ` set ds)" by simp_all
    have "sorted_wrt (<) (map Cluster_ID cs)"
      using b(3,4) ih(1,2) by (force simp: ds(2) sorted_wrt_append)
    moreover have "\<forall>i \<in> Cluster_ID ` set cs. fq_lastId f < i"
      using b(4,5) ih(2) by (auto simp: ds(2) dest: le_less_trans)
    moreover have "i \<in> Cluster_ID ` set cs" if "fq_eof f1" "fq_lastId f < i" "list_all (selected P i) (w # ws)" for i
      using b(6) [of i] ih(3) that by (auto simp: ds(2))
    ultimately show ?thesis by blast
  qed
qed

text \<open>
  C38. A full scan is robust against changes of the store between its batches: the identifiers that the loop
  sees are strictly ascending, so no cluster is monitored twice in a cycle, and when the scan has reached the
  end it has seen every identifier that was selected in the store of each of its calls.
\<close>

theorem full_scan_interleaved:
  assumes "list_all query_healthy ws" and "0 < n" and "full_calls P ws (new_full n) = (cs, f)"
  shows "sorted_wrt (<) (map Cluster_ID cs) \<and>
    (fq_eof f \<longrightarrow> (\<forall>i. i \<noteq> '''' \<and> list_all (selected P i) ws \<longrightarrow> i \<in> Cluster_ID ` set cs))"
  using full_calls_spec [OF assms(1) _ assms(3)] assms(2) by (simp add: new_full_def Nil_less_iff)

text \<open>Between its two calls the cluster b is installed and a cluster d appears.\<close>

theorem full_scan_interleaved_witness:
  "let w1 = sample_query_world; w2 = w1\<lparr>w_clusters := [sample_row ''a'' ClusterStatusReady 0, sample_row ''d'' ClusterStatusReady 0]\<rparr>;
       (cs, f) = full_calls sample_initial [w1, w2, w2] (new_full 1)
   in map Cluster_ID cs = [''a'', ''d''] \<and> sorted_wrt (<) (map Cluster_ID cs) \<and>
      (fq_eof f \<longrightarrow> ''a'' \<in> Cluster_ID ` set cs)"
proof -
  let ?w1 = sample_query_world
  let ?w2 = "?w1\<lparr>w_clusters := [sample_row ''a'' ClusterStatusReady 0, sample_row ''d'' ClusterStatusReady 0]\<rparr>"
  obtain cs f where run: "full_calls sample_initial [?w1, ?w2, ?w2] (new_full 1) = (cs, f)" by force
  have "list_all query_healthy [?w1, ?w2, ?w2]"
    using sample_query_healthy by (simp add: query_healthy_def sample_row_def)
  from full_scan_interleaved [OF this _ run] have "sorted_wrt (<) (map Cluster_ID cs)"
    "fq_eof f \<longrightarrow> list_all (selected sample_initial ''a'') [?w1, ?w2, ?w2] \<longrightarrow> ''a'' \<in> Cluster_ID ` set cs" by auto
  moreover have "list_all (selected sample_initial ''a'') [?w1, ?w2, ?w2]"
    by (simp add: selected_def sample_query_world_def sample_row_def)
  moreover have "map Cluster_ID cs = [''a'', ''d'']"
  proof -
    have "map Cluster_ID (fst (full_calls sample_initial [?w1, ?w2, ?w2] (new_full 1))) = [''a'', ''d'']"
      by (simp add: fullQuery_Next_def Find_clusters_def sample_query_world_def new_full_def sample_row_def insort_key.simps Let_def)
    then show ?thesis unfolding run by simp
  qed
  ultimately show ?thesis unfolding Let_def run by simp
qed

section \<open>The timed query\<close>

definition page_ids :: "world \<Rightarrow> timed_query \<Rightarrow> string set" where
  "page_ids w t = (if tq_eof t then {} else set (triggered_ids (tq_timeToCompare t) (tq_lastId t) w))"

definition timed_todo :: "initial_query \<Rightarrow> world \<Rightarrow> timed_query \<Rightarrow> cluster multiset" where
  "timed_todo P w t =
     mset (matching P (\<lambda>c. Cluster_ID c \<in> set (drop (tq_offset t) (tq_ids t)) \<union> page_ids w t) w)"

definition timed_ready :: "world \<Rightarrow> timed_query \<Rightarrow> bool" where
  "timed_ready w t \<longleftrightarrow> query_healthy w \<and> 0 < tq_batchSize t \<and> distinct (tq_ids t) \<and>
     (\<forall>i \<in> set (tq_ids t). i \<le> tq_lastId t) \<and> tq_offset t \<le> length (tq_ids t)"

lemma matching_Un:
  assumes "A \<inter> B = {}"
  shows "mset (matching P (\<lambda>c. Cluster_ID c \<in> A \<union> B) w) =
    mset (matching P (\<lambda>c. Cluster_ID c \<in> A) w) + mset (matching P (\<lambda>c. Cluster_ID c \<in> B) w)"
proof -
  have "mset (filter (\<lambda>c. P w c \<and> (Cluster_ID c \<in> A \<or> Cluster_ID c \<in> B)) cs) =
    mset (filter (\<lambda>c. P w c \<and> Cluster_ID c \<in> A) cs) + mset (filter (\<lambda>c. P w c \<and> Cluster_ID c \<in> B) cs)" for cs
    using assms by (induction cs) auto
  then show ?thesis by (simp add: matching_def)
qed

lemma matching_empty [simp]: "matching P (\<lambda>c. False) w = []"
  by (simp add: matching_def)

lemma set_triggered: "set (triggered_ids t l w) = {i \<in> set (cluster_triggers t w) \<union> set (host_triggers t w). l < i}"
  by (auto simp: triggered_ids_def)

lemma page_above: "i \<in> page_ids w t \<Longrightarrow> tq_lastId t < i"
  by (auto simp: page_ids_def set_triggered split: if_splits)

text \<open>The identifiers that a query may still return, whatever happens to the store.\<close>

definition timed_open :: "timed_query \<Rightarrow> string \<Rightarrow> bool" where
  "timed_open t i \<longleftrightarrow> tq_lastId t < i \<or> i \<in> set (drop (tq_offset t) (tq_ids t))"

text \<open>The inner loop returns, at the latest when the identifiers of the page are used up.\<close>

lemma timed_batch_total:
  "timed_ready w t \<Longrightarrow> \<exists>cs t1. timed_batch P w t = Some (Inr cs, t1) \<and> timed_ready w t1 \<and>
     timed_todo P w t = mset cs + timed_todo P w t1 \<and> tq_eof t1 = tq_eof t \<and> tq_lastId t1 = tq_lastId t \<and>
     tq_timeToCompare t1 = tq_timeToCompare t \<and> (cs = [] \<longrightarrow> tq_offset t1 = length (tq_ids t1)) \<and>
     (\<forall>c \<in> set cs. timed_open t (Cluster_ID c) \<and> \<not> timed_open t1 (Cluster_ID c)) \<and> (\<forall>i. timed_open t1 i \<longrightarrow> timed_open t i)"
proof (induction "length (tq_ids t) - tq_offset t" arbitrary: t rule: less_induct)
  case less
  show ?case
  proof (cases "tq_offset t < length (tq_ids t)")
    case False
    with less.prems show ?thesis by (simp add: timed_batch.simps [of P w t] timed_ready_def)
  next
    case True
    let ?n = "min (tq_offset t + tq_batchSize t) (length (tq_ids t))"
    let ?slice = "take (?n - tq_offset t) (drop (tq_offset t) (tq_ids t))" and ?t = "t\<lparr>tq_offset := ?n\<rparr>"
    have healthy: "query_healthy w" and d: "distinct (tq_ids t)" and n: "tq_offset t < ?n" "?n \<le> length (tq_ids t)"
      using less.prems True by (simp_all add: timed_ready_def)
    let ?bs = "matching P (\<lambda>c. List.member ?slice (Cluster_ID c)) w"
    have ready: "timed_ready w ?t" using less.prems by (simp add: timed_ready_def)
    have drop: "drop (tq_offset t) (tq_ids t) = ?slice @ drop ?n (tq_ids t)"
      using n by (metis append_take_drop_id drop_drop le_add_diff_inverse2 less_imp_le)
    have sets: "set (drop (tq_offset t) (tq_ids t)) = set ?slice \<union> set (drop ?n (tq_ids t))"
      using arg_cong [OF drop, of set] by (simp only: set_append)
    have disj: "set ?slice \<inter> (set (drop ?n (tq_ids t)) \<union> page_ids w t) = {}"
    proof -
      have "distinct (?slice @ drop ?n (tq_ids t))" using d unfolding drop [symmetric] by simp
      moreover have "set ?slice \<subseteq> set (tq_ids t)" using drop by (metis Un_subset_iff set_append set_drop_subset)
      ultimately show ?thesis
        using less.prems page_above [of _ w t] by (fastforce simp: timed_ready_def)
    qed
    have "page_ids w ?t = page_ids w t" by (simp add: page_ids_def)
    then have todo: "timed_todo P w t = mset ?bs + timed_todo P w ?t"
      unfolding timed_todo_def sets Un_assoc matching_Un [OF disj] by simp
    have mono: "\<forall>i. timed_open ?t i \<longrightarrow> timed_open t i" using sets by (auto simp: timed_open_def)
    have once: "\<forall>c \<in> set ?bs. timed_open t (Cluster_ID c) \<and> \<not> timed_open ?t (Cluster_ID c)"
    proof
      fix c assume "c \<in> set ?bs"
      then have i: "Cluster_ID c \<in> set ?slice" by (auto simp: matching_def)
      with disj have "Cluster_ID c \<notin> set (drop ?n (tq_ids t))" by blast
      moreover from i sets have "Cluster_ID c \<in> set (drop (tq_offset t) (tq_ids t))" by blast
      moreover from in_set_dropD [OF this] less.prems have "\<not> tq_lastId t < Cluster_ID c" by (auto simp: timed_ready_def not_less)
      ultimately show "timed_open t (Cluster_ID c) \<and> \<not> timed_open ?t (Cluster_ID c)" by (simp add: timed_open_def)
    qed
    have step: "timed_batch P w t = (if ?bs = [] then timed_batch P w ?t else Some (Inr ?bs, ?t))"
      using True by (simp add: timed_batch.simps [of P w t] Let_def Find_healthy [OF healthy])
    show ?thesis
    proof (cases "?bs = []")
      case empty: True
      have "length (tq_ids ?t) - tq_offset ?t < length (tq_ids t) - tq_offset t" using n True by simp
      from less.hyps [OF this ready] step empty todo mono show ?thesis by auto
    next
      case False
      then show ?thesis using step ready todo mono once by (intro exI [of _ ?bs] exI [of _ ?t]) simp
    qed
  qed
qed

lemma triggered_sorted: "sorted (triggered_ids t l w)" "distinct (triggered_ids t l w)"
  by (simp_all add: triggered_ids_def)

lemma next_page_simps [simp]:
  "tq_timeToCompare (next_page w t) = tq_timeToCompare t" "tq_batchSize (next_page w t) = tq_batchSize t"
  "tq_offset (next_page w t) = 0"
  "tq_ids (next_page w t) = take IdsQuerySize (triggered_ids (tq_timeToCompare t) (tq_lastId t) w)"
  by (simp_all add: next_page_def Let_def)

lemma next_page_ready: "timed_ready w t \<Longrightarrow> timed_ready w (next_page w t)"
proof -
  let ?ids = "take IdsQuerySize (triggered_ids (tq_timeToCompare t) (tq_lastId t) w)"
  assume "timed_ready w t"
  moreover have "i \<le> tq_lastId (next_page w t)" if "i \<in> set ?ids" for i
  proof -
    have "sorted (map (\<lambda>i. i) ?ids)" by (simp add: triggered_sorted sorted_wrt_take)
    from sorted_last [OF this that] have "i \<le> last ?ids" .
    moreover have "?ids \<noteq> []" using that by force
    ultimately show ?thesis by (simp add: next_page_def Let_def)
  qed
  ultimately show ?thesis by (simp add: timed_ready_def triggered_sorted)
qed

text \<open>Reading a page moves its identifiers from those to come to those of the page.\<close>

lemma next_page_ids:
  assumes "\<not> tq_eof t"
  shows "set (tq_ids (next_page w t)) \<union> page_ids w (next_page w t) = page_ids w t"
proof -
  let ?T = "triggered_ids (tq_timeToCompare t) (tq_lastId t) w"
  show ?thesis
  proof (cases "length (take IdsQuerySize ?T) < IdsQuerySize")
    case True
    then have "take IdsQuerySize ?T = ?T" by simp
    moreover have "tq_eof (next_page w t)" using True unfolding next_page_def Let_def by (simp only: True) simp
    ultimately show ?thesis using assms by (simp add: page_ids_def)
  next
    case False
    then have ne: "take IdsQuerySize ?T \<noteq> []" by (auto simp: IdsQuerySize_def)
    have eof: "\<not> tq_eof (next_page w t)" "tq_lastId (next_page w t) = last (take IdsQuerySize ?T)"
      unfolding next_page_def Let_def using False ne assms by (simp_all only: if_True timed_query.simps) simp_all
    have "distinct (map (\<lambda>i. i) ?T)" by (simp add: triggered_sorted)
    from take_sorted_split [OF this, of IdsQuerySize] ne
    have "mset (drop IdsQuerySize ?T) = mset (filter (\<lambda>i. last (take IdsQuerySize ?T) < i) ?T)"
      by (simp add: sorted_sort_id triggered_sorted)
    from mset_eq_setD [OF this] have d: "set (drop IdsQuerySize ?T) = {i \<in> set ?T. last (take IdsQuerySize ?T) < i}" by simp
    have "last (take IdsQuerySize ?T) \<in> set ?T" using in_set_takeD [OF last_in_set [OF ne]] .
    then have "tq_lastId t < last (take IdsQuerySize ?T)" by (simp add: set_triggered)
    then have "set (triggered_ids (tq_timeToCompare t) (last (take IdsQuerySize ?T)) w) = set (drop IdsQuerySize ?T)"
      unfolding d by (auto simp: set_triggered)
    then show ?thesis using eof assms
      by (simp add: page_ids_def) (metis append_take_drop_id set_append)
  qed
qed

lemma next_page_open: "timed_open (next_page w t) i \<longrightarrow> timed_open t i"
proof -
  let ?T = "take IdsQuerySize (triggered_ids (tq_timeToCompare t) (tq_lastId t) w)"
  have above: "tq_lastId t < i" if "i \<in> set ?T" for i using in_set_takeD [OF that] by (simp add: set_triggered)
  then have "tq_lastId t \<le> tq_lastId (next_page w t)"
    using above [OF last_in_set] by (auto simp: next_page_def Let_def less_imp_le)
  with above show ?thesis by (auto simp: timed_open_def)
qed

definition pages_left :: "world \<Rightarrow> timed_query \<Rightarrow> nat" where
  "pages_left w t = (if tq_eof t then 0 else Suc (card (page_ids w t)))"

lemma next_page_decreases:
  assumes "\<not> tq_eof t"
  shows "pages_left w (next_page w t) < pages_left w t"
proof (cases "tq_eof (next_page w t)")
  case True
  with assms show ?thesis by (simp add: pages_left_def)
next
  case False
  let ?ids = "tq_ids (next_page w t)"
  have fin: "finite (page_ids w t)" by (simp add: page_ids_def)
  from False have "\<not> length ?ids < IdsQuerySize" by (simp add: next_page_def Let_def)
  then have "?ids \<noteq> []" by (auto simp: IdsQuerySize_def)
  then have l: "last ?ids \<in> set ?ids" "tq_lastId (next_page w t) = last ?ids"
    by (simp_all add: next_page_def Let_def split: if_splits)
  then have "last ?ids \<in> page_ids w t" "last ?ids \<notin> page_ids w (next_page w t)"
    using next_page_ids [OF assms, of w] page_above [of "last ?ids" w "next_page w t"] by auto
  moreover have "page_ids w (next_page w t) \<subseteq> page_ids w t" using next_page_ids [OF assms, of w] by blast
  ultimately have "card (page_ids w (next_page w t)) < card (page_ids w t)"
    by (intro psubset_card_mono fin) blast
  with assms False show ?thesis by (simp add: pages_left_def)
qed

lemma timed_loop_total:
  "timed_ready w t \<Longrightarrow> \<exists>cs t1. timed_loop P w t = Some (Inr cs, t1) \<and> timed_ready w t1 \<and>
     timed_todo P w t = mset cs + timed_todo P w t1 \<and> (cs = [] \<longrightarrow> timed_todo P w t = {#}) \<and>
     (\<forall>c \<in> set cs. timed_open t (Cluster_ID c) \<and> \<not> timed_open t1 (Cluster_ID c)) \<and> (\<forall>i. timed_open t1 i \<longrightarrow> timed_open t i)"
proof (induction "2 * pages_left w t + (if tq_offset t < length (tq_ids t) then 1 else 0)" arbitrary: t rule: less_induct)
  case less
  have healthy: "query_healthy w" using less.prems by (simp add: timed_ready_def)
  let ?new = "tq_offset t = length (tq_ids t)"
  define t0 where "t0 = (if ?new then next_page w t else t)"
  show ?case
  proof (cases "tq_eof t \<and> ?new")
    case True
    then show ?thesis using less.prems
      by (simp add: timed_loop.simps [of P w t] timed_todo_def page_ids_def)
  next
    case False
    with less.prems have run: "\<not> (tq_eof t \<and> \<not> tq_offset t < length (tq_ids t))" by (auto simp: timed_ready_def)
    have ready: "timed_ready w t0" using less.prems next_page_ready by (simp add: t0_def)
    have todo: "timed_todo P w t0 = timed_todo P w t"
    proof (cases ?new)
      case True
      have s: "set (drop (tq_offset (next_page w t)) (tq_ids (next_page w t))) \<union> page_ids w (next_page w t) =
          set (drop (tq_offset t) (tq_ids t)) \<union> page_ids w t"
        using next_page_ids [of t w] False True by simp
      have "t0 = next_page w t" using True by (simp add: t0_def)
      then show ?thesis unfolding timed_todo_def by (simp only: s)
    qed (simp add: t0_def)
    from timed_batch_total [OF ready, of P] obtain cs t1 where b: "timed_batch P w t0 = Some (Inr cs, t1)"
      "timed_ready w t1" "timed_todo P w t0 = mset cs + timed_todo P w t1" "tq_eof t1 = tq_eof t0"
      "tq_lastId t1 = tq_lastId t0" "tq_timeToCompare t1 = tq_timeToCompare t0"
      "cs = [] \<longrightarrow> tq_offset t1 = length (tq_ids t1)"
      "\<forall>c \<in> set cs. timed_open t0 (Cluster_ID c) \<and> \<not> timed_open t1 (Cluster_ID c)" "\<forall>i. timed_open t1 i \<longrightarrow> timed_open t0 i" by blast
    have mono: "\<forall>i. timed_open t0 i \<longrightarrow> timed_open t i" using next_page_open [of w t] by (simp add: t0_def)
    have step: "timed_loop P w t = (if cs = [] then timed_loop P w t1 else Some (Inr cs, t1))"
      using run healthy b(1) unfolding timed_loop.simps [of P w t] t0_def [symmetric] query_healthy_def by auto
    show ?thesis
    proof (cases "cs = []")
      case empty: True
      have "pages_left w t1 = pages_left w t0" using b(4-6) by (simp add: pages_left_def page_ids_def)
      moreover have "pages_left w t0 < pages_left w t \<or> t0 = t \<and> tq_offset t < length (tq_ids t)"
        using next_page_decreases [of t w] False less.prems by (auto simp: t0_def timed_ready_def)
      ultimately have "2 * pages_left w t1 + (if tq_offset t1 < length (tq_ids t1) then 1 else 0)
          < 2 * pages_left w t + (if tq_offset t < length (tq_ids t) then 1 else 0)"
        using b(7) empty by auto
      from less.hyps [OF this b(2)] step empty b(3,9) todo mono show ?thesis by auto
    next
      case False
      then show ?thesis using step b(2,3,8,9) todo mono by simp
    qed
  qed
qed

lemma timed_step:
  assumes "timed_ready w t"
  shows "\<exists>cs t1. timedQuery_Next P w t = Some (Inr cs, t1) \<and> timed_ready w t1 \<and>
     timed_todo P w t = mset cs + timed_todo P w t1 \<and> (cs = [] \<longrightarrow> timed_todo P w t = {#}) \<and>
     (\<forall>c \<in> set cs. timed_open t (Cluster_ID c) \<and> \<not> timed_open t1 (Cluster_ID c)) \<and> (\<forall>i. timed_open t1 i \<longrightarrow> timed_open t i)"
  using timed_loop_total [OF assms, of P] assms by (simp add: timedQuery_Next_def timed_todo_def page_ids_def)

interpretation timed: batched_query "timedQuery_Next P w" "timed_todo P w" "timed_ready w"
proof
  fix q assume "timed_ready w q"
  then show "\<exists>cs q1. timedQuery_Next P w q = Some (Inr cs, q1) \<and> timed_ready w q1 \<and>
    timed_todo P w q = mset cs + timed_todo P w q1 \<and> (cs = [] \<longrightarrow> timed_todo P w q = {#})"
    using timed_step [of w q P] by auto
qed

lemma new_timed_ready: "query_healthy w \<Longrightarrow> 0 < n \<Longrightarrow> timed_ready w (new_timed t n)"
  by (simp add: timed_ready_def new_timed_def)

text \<open>An identifier that was triggered after a time: a row of the cluster, or of one of its hosts, says so.\<close>

definition triggered :: "time \<Rightarrow> world \<Rightarrow> string \<Rightarrow> bool" where
  "triggered t w i \<longleftrightarrow>
     (\<exists>c \<in> set (w_clusters w @ w_deleted_clusters w). Cluster_ID c = i \<and> t < Cluster_TriggerMonitorTimestamp c) \<or>
     (\<exists>h \<in> set (w_hosts w @ map snd (w_deleted_hosts w)). Host_ClusterID h = Some i \<and> t < Host_TriggerMonitorTimestamp h)"

lemma set_map_filter: "y \<in> set (List.map_filter f xs) \<longleftrightarrow> (\<exists>x \<in> set xs. f x = Some y)"
  by (force simp: map_filter_def)

lemma triggered_iff: "i \<in> set (cluster_triggers t w) \<union> set (host_triggers t w) \<longleftrightarrow> triggered t w i"
  unfolding cluster_triggers_def host_triggers_def triggered_def
  by (auto simp: set_map_filter simp del: set_append map_append filter_append)

text \<open>
  C36. The timed query returns and finds what was triggered: with a batch size of at least one no call of
  \<open>Next\<close> runs forever, although both of its loops skip empty ranges and pages; the loop over it ends without
  error and sees, each once, exactly the selected clusters of which the row or the row of a host was
  triggered after the time of the query.
\<close>

theorem timed_scan_enumerates:
  assumes "query_healthy w" and "0 < n"
  shows "\<exists>cs. scan (timedQuery_Next P w) (new_timed t n) = Some (Inr cs) \<and>
    mset cs = mset (matching P (\<lambda>c. Cluster_ID c \<noteq> '''' \<and> triggered t w (Cluster_ID c)) w)"
proof -
  have "timed_todo P w (new_timed t n) =
      mset (matching P (\<lambda>c. Cluster_ID c \<noteq> '''' \<and> triggered t w (Cluster_ID c)) w)"
    unfolding triggered_iff [symmetric]
    by (simp add: timed_todo_def page_ids_def new_timed_def set_triggered Nil_less_iff conj_commute)
  with timed.scan_todo [OF new_timed_ready [OF assms], of P t] show ?thesis by simp
qed

theorem timed_scan_enumerates_witness:
  "\<exists>cs. scan (timedQuery_Next sample_initial sample_query_world) (new_timed (18 * Minute) 1) = Some (Inr cs) \<and>
     map Cluster_ID cs = [''b'']"
proof -
  have "matching sample_initial (\<lambda>c. Cluster_ID c \<noteq> '''' \<and> triggered (18 * Minute) sample_query_world (Cluster_ID c)) sample_query_world =
      [load_hosts sample_query_world (sample_row ''b'' ClusterStatusReady (19 * Minute))]"
    by (simp add: matching_def triggered_def sample_query_world_def sample_row_def Minute_def Second_def)
  with timed_scan_enumerates [OF sample_query_healthy, of 1 sample_initial "18 * Minute"] show ?thesis
    by (auto simp: sample_row_def)
qed

section \<open>The generator\<close>

definition query_todo :: "initial_query \<Rightarrow> world \<Rightarrow> monitor_query \<Rightarrow> cluster multiset" where
  "query_todo P w q = (case q of FullQuery f \<Rightarrow> full_todo P w f | TimedQuery t \<Rightarrow> timed_todo P w t)"

definition query_ready :: "world \<Rightarrow> monitor_query \<Rightarrow> bool" where
  "query_ready w q = (case q of FullQuery f \<Rightarrow> full_ready w f | TimedQuery t \<Rightarrow> timed_ready w t)"

definition query_open :: "monitor_query \<Rightarrow> string \<Rightarrow> bool" where
  "query_open q i = (case q of FullQuery f \<Rightarrow> fq_lastId f < i | TimedQuery t \<Rightarrow> timed_open t i)"

interpretation query: batched_query "MonitorQuery_Next P w" "query_todo P w" "query_ready w"
proof
  fix q assume "query_ready w q"
  then show "\<exists>cs q1. MonitorQuery_Next P w q = Some (Inr cs, q1) \<and> query_ready w q1 \<and>
    query_todo P w q = mset cs + query_todo P w q1 \<and> (cs = [] \<longrightarrow> query_todo P w q = {#})"
    using full_step [of w _ P] timed_step [of w _ P]
    by (cases q) (fastforce simp: MonitorQuery_Next_def query_todo_def query_ready_def)+
qed

text \<open>A batch has distinct identifiers, which the query may still return before it and never again after it.\<close>

lemma query_once:
  assumes "query_ready w q" and "MonitorQuery_Next P w q = Some (Inr cs, q1)"
  shows "query_ready w q1 \<and> distinct (map Cluster_ID cs) \<and> (\<forall>i. query_open q1 i \<longrightarrow> query_open q i) \<and>
    (\<forall>c \<in> set cs. query_open q (Cluster_ID c) \<and> \<not> query_open q1 (Cluster_ID c))"
proof (cases q)
  case (FullQuery f)
  with assms(1) have f: "query_healthy w" "0 < fq_batchSize f" by (simp_all add: query_ready_def full_ready_def)
  from full_call [OF f, of P] obtain ds f1 where "fullQuery_Next P w f = (Inr ds, f1)" "fq_batchSize f1 = fq_batchSize f"
    "sorted_wrt (<) (map Cluster_ID ds)" "\<forall>i \<in> Cluster_ID ` set ds. fq_lastId f < i \<and> i \<le> fq_lastId f1"
    "fq_lastId f \<le> fq_lastId f1" by metis
  with assms(2) f FullQuery show ?thesis
    by (auto simp: MonitorQuery_Next_def query_ready_def full_ready_def query_open_def strict_sorted_iff)
next
  case (TimedQuery t)
  with assms(1) have t: "timed_ready w t" by (simp add: query_ready_def)
  from timed_step [OF t, of P] assms(2) obtain t1 where q1: "q1 = TimedQuery t1" "timedQuery_Next P w t = Some (Inr cs, t1)"
    "timed_ready w t1" "timed_todo P w t = mset cs + timed_todo P w t1"
    "\<forall>c \<in> set cs. timed_open t (Cluster_ID c) \<and> \<not> timed_open t1 (Cluster_ID c)" "\<forall>i. timed_open t1 i \<longrightarrow> timed_open t i"
    by (auto simp: MonitorQuery_Next_def TimedQuery)
  obtain ds where "mset ds = timed_todo P w t1" by (metis ex_mset)
  with q1(4) have "mset (map Cluster_ID (cs @ ds)) =
      mset (map Cluster_ID (matching P (\<lambda>c. Cluster_ID c \<in> set (drop (tq_offset t) (tq_ids t)) \<union> page_ids w t) w))"
    by (simp only: timed_todo_def mset_map mset_append)
  from mset_eq_imp_distinct_iff [OF this] matching_distinct t have "distinct (map Cluster_ID cs)" by (simp add: timed_ready_def)
  with q1 show ?thesis by (simp add: TimedQuery query_ready_def query_open_def)
qed

text \<open>
  C39. No trigger is missed: when the previous query was generated less than five minutes ago, the loop over
  the query that is generated now, be it full or timed, returns and sees every selected cluster that was
  triggered, or a host of which was triggered, since the previous query was generated, and it sees no
  cluster twice. The generator remembers the time of this query.
\<close>

theorem no_trigger_missed:
  assumes "query_healthy w" and "0 < batchSize g" and "NewClusterQuery now g = (q, g')"
    and "now - lastInvokeTime g < 5 * Minute"
    and "c \<in> set (w_clusters w)" and "P w c" and "Cluster_ID c \<noteq> ''''"
    and "triggered (lastInvokeTime g) w (Cluster_ID c)"
  shows "\<exists>cs. scan (MonitorQuery_Next P w) q = Some (Inr cs) \<and> load_hosts w c \<in> set cs \<and>
    distinct (map Cluster_ID cs) \<and> lastInvokeTime g' = now"
proof -
  let ?n = "batchSize g" and ?m = "\<lambda>Q. matching P Q w"
  have mem: "load_hosts w c \<in> set (?m Q)" if "Q c" for Q using assms(5,6) that by (simp add: matching_def)
  have g': "lastInvokeTime g' = now" using assms(3) by (auto simp: NewClusterQuery_def)
  have dist: "distinct (map Cluster_ID cs)" if "mset cs = mset (?m Q)" for cs Q
    using mset_eq_imp_distinct_iff [of "map Cluster_ID cs" "map Cluster_ID (?m Q)"] that matching_distinct [OF assms(1)]
    by simp
  from assms(3) have "q = FullQuery (new_full ?n) \<or> (\<exists>d \<in> {5 * Minute, 15 * Minute}. q = TimedQuery (new_timed (now - d) ?n))"
    by (auto simp: NewClusterQuery_def timeForDuration_def split: if_splits)
  moreover have "now - d < lastInvokeTime g" if "d \<in> {5 * Minute, 15 * Minute}" for d
    using that assms(4) by (auto simp: Minute_def Second_def)
  ultimately consider "q = FullQuery (new_full ?n)" | t where "q = TimedQuery (new_timed t ?n)" "t < lastInvokeTime g" by blast
  then show ?thesis
  proof cases
    case 1
    have "query_ready w q" using assms(1,2) by (simp add: 1 query_ready_def full_ready_def new_full_def)
    from query.scan_todo [OF this, of P] obtain cs where
      cs: "scan (MonitorQuery_Next P w) q = Some (Inr cs)" "mset cs = full_todo P w (new_full ?n)" by (auto simp: 1 query_todo_def)
    then have m: "mset cs = mset (?m (\<lambda>c. '''' < Cluster_ID c))" by (simp add: full_todo_def new_full_def)
    have "load_hosts w c \<in> set cs"
      using mem [of "\<lambda>c. '''' < Cluster_ID c"] assms(7) by (simp add: mset_eq_setD [OF m] Nil_less_iff)
    with cs(1) dist [OF m] g' show ?thesis by blast
  next
    case (2 t)
    have "query_ready w q" using new_timed_ready [OF assms(1,2)] by (simp add: 2 query_ready_def)
    from query.scan_todo [OF this, of P] obtain cs where
      cs: "scan (MonitorQuery_Next P w) q = Some (Inr cs)" "mset cs = timed_todo P w (new_timed t ?n)" by (auto simp: 2 query_todo_def)
    let ?Q = "\<lambda>c. Cluster_ID c \<in> set (drop 0 []) \<union> page_ids w (new_timed t ?n)"
    from cs(2) have m: "mset cs = mset (?m ?Q)" by (simp add: timed_todo_def new_timed_def)
    from assms(8) 2(2) have "triggered t w (Cluster_ID c)" unfolding triggered_def by (meson less_trans)
    then have "?Q c" using assms(7) triggered_iff [of "Cluster_ID c" t w]
      by (simp add: page_ids_def new_timed_def set_triggered Nil_less_iff)
    from mem [of ?Q, OF this] have "load_hosts w c \<in> set cs" by (simp only: mset_eq_setD [OF m])
    with cs(1) dist [OF m] g' show ?thesis by blast
  qed
qed

theorem no_trigger_missed_witness:
  "let g = snd (NewClusterQuery (18 * Minute) (NewMonitorQueryGenerator 0)); (q, g') = NewClusterQuery (19 * Minute + Second) g
   in \<not> IsFullScan q \<and> (\<exists>cs. scan (MonitorQuery_Next sample_initial sample_query_world) q = Some (Inr cs) \<and>
        ''b'' \<in> Cluster_ID ` set cs \<and> distinct (map Cluster_ID cs))"
proof -
  let ?g = "snd (NewClusterQuery (18 * Minute) (NewMonitorQueryGenerator 0))" and ?now = "19 * Minute + Second"
  let ?c = "sample_row ''b'' ClusterStatusReady (19 * Minute)" and ?w = sample_query_world
  obtain q g' where q: "NewClusterQuery ?now ?g = (q, g')" by force
  have g: "0 < batchSize ?g" "lastInvokeTime ?g = 18 * Minute" "calls ?g = 1"
    by (simp_all add: NewClusterQuery_def NewMonitorQueryGenerator_def DefaultBatchSize_def)
  have "fst (NewClusterQuery ?now ?g) = TimedQuery (new_timed (?now - 15 * Minute) (batchSize ?g))"
    unfolding NewClusterQuery_def [of ?now] g by (simp add: Minute_of_def timeForDuration_def Minute_def Second_def)
  then have timed: "\<not> IsFullScan q" by (simp only: q fst_conv IsFullScan_def monitor_query.case not_False_eq_True)
  have "?now - lastInvokeTime ?g < 5 * Minute" unfolding g by (simp add: Minute_def Second_def)
  moreover have "?c \<in> set (w_clusters ?w)" "sample_initial ?w ?c" "Cluster_ID ?c = ''b''"
    by (simp_all add: sample_query_world_def sample_row_def)
  moreover have "triggered (lastInvokeTime ?g) ?w (Cluster_ID ?c)"
    unfolding g by (simp add: triggered_def sample_query_world_def sample_row_def Minute_def Second_def)
  ultimately obtain cs where "scan (MonitorQuery_Next sample_initial ?w) q = Some (Inr cs)"
      "load_hosts ?w ?c \<in> set cs" "distinct (map Cluster_ID cs)"
    using no_trigger_missed [OF sample_query_healthy g(1) q, of ?c sample_initial] by auto
  moreover from this(2) have "''b'' \<in> Cluster_ID ` set cs" by (rule rev_image_eqI) (simp add: sample_row_def)
  ultimately show ?thesis using timed unfolding Let_def q by blast
qed

section \<open>Loops over a query\<close>

text \<open>The faults and the identifiers of the clusters, but neither the clock nor the other columns, are the same.\<close>

definition same_table :: "world \<Rightarrow> world \<Rightarrow> bool" where
  "same_table w0 w \<longleftrightarrow> w_dbfault w = w_dbfault w0 \<and> map Cluster_ID (w_clusters w) = map Cluster_ID (w_clusters w0)"

lemma same_table_simps [simp]: "same_table w w" "same_table a b \<Longrightarrow> same_table b c \<Longrightarrow> same_table a c"
  by (simp_all add: same_table_def)

lemma query_ready_table: "query_ready w q \<Longrightarrow> same_table w w1 \<Longrightarrow> query_ready w1 q"
  by (auto simp: query_ready_def full_ready_def timed_ready_def query_healthy_def same_table_def split: monitor_query.splits)

lemma query_todo_rows: "c \<in># query_todo P w q \<Longrightarrow> c \<in> load_hosts w ` set (w_clusters w)"
  by (auto simp: query_todo_def full_todo_def timed_todo_def matching_def split: monitor_query.splits if_splits)

text \<open>
  A monitor is a loop over \<open>Next\<close> whose body works on a batch, writes the store and may end the loop.
  \<open>seen\<close> lists what it has worked on, each for a cluster. When the body keeps the identifiers of the
  clusters and works on each cluster of its batch once, the loop returns and works on no cluster twice.
\<close>

locale monitor_walk =
  fixes P :: initial_query and world_of :: "'s \<Rightarrow> world" and loop :: "monitor_query \<Rightarrow> 's \<Rightarrow> 's option"
    and body :: "cluster list \<Rightarrow> 's \<Rightarrow> bool \<times> 's" and finish :: "'s \<Rightarrow> 's" and Inv :: "'s \<Rightarrow> bool"
    and seen :: "'s \<Rightarrow> 'x list" and cluster_of :: "'x \<Rightarrow> string"
  assumes loop_step: "loop q s = Option.bind (MonitorQuery_Next P (world_of s) q) (\<lambda>(r, q1). case r of
         Inl err \<Rightarrow> Some s
       | Inr cs \<Rightarrow> if cs = [] then Some (finish s)
           else (case body cs s of (ended, s1) \<Rightarrow> if ended then Some s1 else loop q1 s1))"
    and body_keeps: "Inv s \<Longrightarrow> body cs s = (ended, s1) \<Longrightarrow> set cs \<subseteq> load_hosts (world_of s) ` set (w_clusters (world_of s)) \<Longrightarrow>
      distinct (map Cluster_ID cs) \<Longrightarrow> Inv s1 \<and> same_table (world_of s) (world_of s1) \<and>
      (\<exists>xs. seen s1 = seen s @ xs \<and> cluster_of ` set xs \<subseteq> Cluster_ID ` set cs \<and> distinct xs)"
    and finish_keeps: "Inv s \<Longrightarrow> Inv (finish s) \<and> world_of (finish s) = world_of s \<and> seen (finish s) = seen s"
begin

lemma walk_total:
  "Inv s \<Longrightarrow> query_ready (world_of s) q \<Longrightarrow> distinct (seen s) \<Longrightarrow>
   \<forall>x \<in> set (seen s). \<not> query_open q (cluster_of x) \<and> cluster_of x \<in> set (map Cluster_ID (w_clusters (world_of s))) \<Longrightarrow>
   \<exists>s1. loop q s = Some s1 \<and> Inv s1 \<and> distinct (seen s1) \<and> same_table (world_of s) (world_of s1) \<and>
     cluster_of ` set (seen s1) \<subseteq> set (map Cluster_ID (w_clusters (world_of s)))"
proof (induction "card {i \<in> set (map Cluster_ID (w_clusters (world_of s))). query_open q i}" arbitrary: q s rule: less_induct)
  case less
  let ?w = "world_of s" and ?ids = "\<lambda>w. set (map Cluster_ID (w_clusters w))"
  from query.next_batch [OF less.prems(2), of P] obtain cs q1 where
    n: "MonitorQuery_Next P ?w q = Some (Inr cs, q1)" and todo: "query_todo P ?w q = mset cs + query_todo P ?w q1"
    by blast
  note once = query_once [OF less.prems(2) n]
  show ?case
  proof (cases "cs = []")
    case True
    with n less.prems finish_keeps show ?thesis by (auto simp: loop_step [of q s])
  next
    case False
    obtain ended s1 where b: "body cs s = (ended, s1)" by force
    have rows: "set cs \<subseteq> load_hosts ?w ` set (w_clusters ?w)"
      using query_todo_rows [of _ P ?w q] todo by auto
    then have cs: "Cluster_ID ` set cs \<subseteq> ?ids ?w" by auto
    from body_keeps [OF less.prems(1) b rows] once obtain xs where xs: "seen s1 = seen s @ xs"
      "cluster_of ` set xs \<subseteq> Cluster_ID ` set cs" "distinct xs" and inv: "Inv s1" and tab: "same_table ?w (world_of s1)" by auto
    then have ids: "?ids (world_of s1) = ?ids ?w" by (simp only: same_table_def)
    have "query_open q (cluster_of x)" if "x \<in> set xs" for x using that xs(2) once by auto
    with less.prems(4) have apart: "set (seen s) \<inter> set xs = {}" by auto
    have dist: "distinct (seen s1)" using xs(1,3) less.prems(3) apart by simp
    have "cluster_of ` set xs \<subseteq> ?ids ?w" using xs(2) cs by (rule subset_trans)
    then have sub: "cluster_of ` set (seen s1) \<subseteq> ?ids ?w" using xs(1) less.prems(4) by auto
    show ?thesis
    proof (cases ended)
      case True
      with n False b dist sub tab inv show ?thesis by (simp add: loop_step [of q s])
    next
      case go: False
      have "{i \<in> ?ids (world_of s1). query_open q1 i} \<subset> {i \<in> ?ids ?w. query_open q i}"
        using once False cs unfolding ids by (cases cs) auto
      then have smaller: "card {i \<in> ?ids (world_of s1). query_open q1 i} < card {i \<in> ?ids ?w. query_open q i}"
        by (intro psubset_card_mono) auto
      have over: "\<forall>x \<in> set (seen s1). \<not> query_open q1 (cluster_of x) \<and> cluster_of x \<in> ?ids (world_of s1)"
        using xs(1,2) less.prems(4) once sub unfolding ids by auto
      from less.hyps [OF smaller inv query_ready_table [OF conjunct1 [OF once] tab] dist over] tab n False b go ids
      show ?thesis by (auto simp: loop_step [of q s])
    qed
  qed
qed

end

end
