(* ===== verification/Host_Monitor.thy ===== *)
theory Host_Monitor
  imports Monitor_Query Host_Guarantees "HOL-Library.Product_Lexorder"
begin

text \<open>
  The monitor of hosts, \<open>internal/host/monitor.go\<close>: the order in which the hosts of a cluster are refreshed,
  the reset of suggested roles, and the loop over the clusters of a query. Leader election, the decoder of
  inventories and the duration of a refresh are parameters; an inventory has here also its processors, memory
  and graphics cards. The hosts that are not bound to a cluster are reached through queries over infra-envs,
  which are not modelled.
\<close>

section \<open>The order of hosts\<close>

record weighed_inventory = inventory +
  Inv_CPUCount :: int
  Inv_UsableBytes :: int
  Inv_GpuCount :: nat

type_synonym weighed_unmarshal = "string \<Rightarrow> weighed_inventory option"

definition HostWeightMinimumCpuCores :: rat where "HostWeightMinimumCpuCores = 4"

definition HostWeightMinimumMemGib :: rat where "HostWeightMinimumMemGib = 16"

definition HostWeightMinimumDiskCapacityGib :: rat where "HostWeightMinimumDiskCapacityGib = 100"

definition HostWeightMemWeight :: rat where "HostWeightMemWeight = f64 (1 / 10)"

definition HostWeightDiskWeight :: rat where "HostWeightDiskWeight = f64 (4 / 1000)"

definition BytesToGib :: "int \<Rightarrow> int" where
  "BytesToGib bytes = go_div bytes (2 ^ 30)"

definition diskCapacityGiB :: "disk list \<Rightarrow> int" where
  "diskCapacityGiB disks =
     fold (\<lambda>d acc. if Disk_Eligible d then acc + BytesToGib (Disk_SizeBytes d) else acc) disks 0"

definition cpuCount :: "weighed_inventory \<Rightarrow> int" where
  "cpuCount inventory = (if Inv_HasCPU inventory then Inv_CPUCount inventory else 0)"

definition memInGib :: "weighed_inventory \<Rightarrow> int" where
  "memInGib inventory = (if Inv_HasMemory inventory then BytesToGib (Inv_UsableBytes inventory) else 0)"

text \<open>The weight \<open>wi\<close> of \<open>sortByWeight\<close>.\<close>

definition host_weight :: "weighed_inventory \<Rightarrow> rat" where
  "host_weight inventory =
     fadd (fadd (fmul 1 (fadd (float64 (cpuCount inventory)) (- HostWeightMinimumCpuCores)))
            (fmul HostWeightMemWeight (fadd (float64 (memInGib inventory)) (- HostWeightMinimumMemGib))))
       (fmul HostWeightDiskWeight
         (fadd (float64 (diskCapacityGiB (Inv_Disks inventory))) (- HostWeightMinimumDiskCapacityGib)))"

text \<open>The function \<open>less\<close> that \<open>sortByWeight\<close> gives to \<open>sort.SliceStable\<close>.\<close>

definition weight_less :: "weighed_unmarshal \<Rightarrow> host \<Rightarrow> host \<Rightarrow> bool" where
  "weight_less um hi hj =
     (case um (Host_Inventory hi) of
        None \<Rightarrow> False
      | Some inventory_i \<Rightarrow>
          (case um (Host_Inventory hj) of
             None \<Rightarrow> True
           | Some inventory_j \<Rightarrow> host_weight inventory_i < host_weight inventory_j))"

text \<open>\<open>sort.SliceStable\<close>: a stable sort, here by insertion from the end.\<close>

fun insert_stable :: "('a \<Rightarrow> 'a \<Rightarrow> bool) \<Rightarrow> 'a \<Rightarrow> 'a list \<Rightarrow> 'a list" where
  "insert_stable lt x [] = [x]"
| "insert_stable lt x (y # ys) = (if lt y x then y # insert_stable lt x ys else x # y # ys)"

definition SliceStable :: "('a \<Rightarrow> 'a \<Rightarrow> bool) \<Rightarrow> 'a list \<Rightarrow> 'a list" where
  "SliceStable lt xs = foldr (insert_stable lt) xs []"

text \<open>The first loop of \<open>SortHosts\<close>: hosts without and with graphics cards, and whether all have an inventory.\<close>

definition separate_host :: "weighed_unmarshal \<Rightarrow> host \<Rightarrow> host list \<times> host list \<times> bool \<Rightarrow> host list \<times> host list \<times> bool" where
  "separate_host um h = (\<lambda>(hostsWithoutGPU, hostsWithGPU, allHostsHasInventory).
     (case um (Host_Inventory h) of
        None \<Rightarrow> (hostsWithoutGPU @ [h], hostsWithGPU, False)
      | Some inventory \<Rightarrow>
          if Inv_GpuCount inventory > 0 then (hostsWithoutGPU, hostsWithGPU @ [h], allHostsHasInventory)
          else (hostsWithoutGPU @ [h], hostsWithGPU, allHostsHasInventory)))"

definition SortHosts :: "weighed_unmarshal \<Rightarrow> host list \<Rightarrow> host list \<times> bool" where
  "SortHosts um hosts =
     (case fold (separate_host um) hosts ([], [], True) of
        (hostsWithoutGPU, hostsWithGPU, allHostsHasInventory) \<Rightarrow>
          (SliceStable (weight_less um) hostsWithoutGPU @ SliceStable (weight_less um) hostsWithGPU,
           allHostsHasInventory))"

section \<open>The cycle\<close>

record host_monitor_env =
  hm_IsLeader :: "world \<Rightarrow> bool"
  hm_UnmarshalInventory :: weighed_unmarshal
  hm_ctxErr :: "host \<Rightarrow> world \<Rightarrow> validationID \<Rightarrow> bool"
  hm_refreshDuration :: "host \<Rightarrow> world \<Rightarrow> duration"

text \<open>
  The store, the internal events about deadlines and, for the statements below, the hosts that were refreshed
  with the clusters for which they were.
\<close>

record host_cycle =
  hc_world :: world
  hc_deadline_events :: "(uuid \<times> uuid) list"
  hc_refreshed :: "(uuid \<times> key) list"

definition monitorStates :: "host_status list" where
  "monitorStates =
     [HostStatusDiscovering, HostStatusKnown, HostStatusDisconnected, HostStatusInsufficient,
      HostStatusPendingForInput, HostStatusPreparingForInstallation, HostStatusPreparingFailed,
      HostStatusPreparingSuccessful, HostStatusInstalling, HostStatusInstallingInProgress,
      HostStatusInstallingPendingUserAction, HostStatusResettingPendingUserAction]"

text \<open>The condition of \<open>initMonitoringQueryGenerator\<close> on the clusters.\<close>

definition hosts_monitored :: initial_query where
  "hosts_monitored w c \<longleftrightarrow>
     list_ex (\<lambda>h. Host_ClusterID h = Some (Cluster_ID c) \<and>
       (List.member monitorStates (Host_Status h) \<or>
        List.member [HostStatusCancelled, HostStatusError] (Host_Status h) \<and>
          \<not> List.member [LogsStateCompleted, LogsStateTimeout, LogsStateEmpty] (Host_LogsInfo h) \<or>
        Host_Status h = HostStatusInstalled \<and> Cluster_Status c \<noteq> ClusterStatusInstalled)) (w_hosts w)"

definition initMonitoringQueryGenerator :: "int \<Rightarrow> query_generator option \<Rightarrow> query_generator" where
  "initMonitoringQueryGenerator batch_size g =
     (case g of None \<Rightarrow> NewMonitorQueryGenerator batch_size | Some g1 \<Rightarrow> g1)"

definition ResetAutoAssignRoles :: "uuid list \<Rightarrow> world \<Rightarrow> (go_error + nat) \<times> world" where
  "ResetAutoAssignRoles onClusters w =
     (let P = (\<lambda>h. Host_Role h = HostRoleAutoAssign \<and>
                 (case Host_ClusterID h of None \<Rightarrow> False | Some i \<Rightarrow> List.member onClusters i)) in
      if w_dbfault w UpdateHosts then (Inl ErrDB, w)
      else (Inr (length (filter P (w_hosts w))),
            update_rows P (\<lambda>h. h\<lparr>Host_SuggestedRole := HostRoleAutoAssign\<rparr>) w))"

text \<open>The subquery for the clusters in which an active host has no suggested role.\<close>

definition missing_role_clusters :: "world \<Rightarrow> uuid list" where
  "missing_role_clusters w =
     remdups (filter (\<lambda>i. list_ex (\<lambda>c. Cluster_ID c = i) (w_clusters w))
       (List.map_filter Host_ClusterID
         (filter (\<lambda>h. Host_Role h = HostRoleAutoAssign \<and>
              (Host_SuggestedRole h = HostRoleAutoAssign \<or> Host_SuggestedRole h = HostRoleEmpty) \<and>
              \<not> List.member [HostStatusDisconnected, HostStatusDisabled] (Host_Status h) \<and>
              Host_Kind h \<noteq> HostKindAddToExistingClusterHost) (w_hosts w))))"

definition resetRoleAssignmentIfNotAllRolesAreSet :: "host_monitor_env \<Rightarrow> world \<Rightarrow> world" where
  "resetRoleAssignmentIfNotAllRolesAreSet env w =
     (if hm_IsLeader env w then snd (ResetAutoAssignRoles (missing_role_clusters w) w) else w)"

text \<open>
  What \<open>refreshStatusInternal\<close> leaves in the host that its caller passes by reference: the state machine sets
  the status of this host.
\<close>

definition host_after_refresh ::
  "manager \<Rightarrow> (validationID \<Rightarrow> bool) \<Rightarrow> host \<Rightarrow> cluster option \<Rightarrow> bool \<Rightarrow> world \<Rightarrow> host" where
  "host_after_refresh m ctxErr h c i w =
     (case newValidationContext m ctxErr h c i w of
        Inl err \<Rightarrow> h
      | Inr vc \<Rightarrow>
          (case preprocess (m_validator m) vc of
             Inl err \<Rightarrow> h
           | Inr (conditions, newValidationRes) \<Rightarrow>
               (case GetValidations m h of
                  Inl err \<Rightarrow> h
                | Inr currentValidationRes \<Rightarrow>
                    (case (if didValidationChanged newValidationRes currentValidationRes
                           then (case updateValidationsInDB m h newValidationRes
                                        (reportValidationStatusChanged m h newValidationRes currentValidationRes w)
                                 of (r, w1) \<Rightarrow> (error_of r, w1))
                           else (None, w)) of
                       (Some err, w1) \<Rightarrow> h
                     | (None, w1) \<Rightarrow>
                         (case sm_Run (m_th m) TransitionTypeRefresh (newStateHost h w1)
                                 (TransitionArgsRefreshHost conditions newValidationRes) of
                            (_, sh) \<Rightarrow> h\<lparr>Host_Status := Host_Status (sw_host sh)\<rparr>)))))"

text \<open>One host. The clusters of a query share their hosts with the list that the loop walks over.\<close>

definition monitor_host ::
  "host_monitor_env \<Rightarrow> manager \<Rightarrow> bool \<Rightarrow> cluster \<Rightarrow> host \<Rightarrow> host_cycle \<Rightarrow> host \<times> host_cycle" where
  "monitor_host env m canRefreshRoles c h cy =
     (let w = hc_world cy;
          deadline = w_now w + MaxHostDisconnectionTime (th_config (m_th m));
          (_, w1) = refreshStatusInternal m (hm_ctxErr env h w) h (Some c) False w;
          h1 = host_after_refresh m (hm_ctxErr env h w) h (Some c) False w;
          w2 = w1\<lparr>w_now := w_now w + hm_refreshDuration env h w\<rparr>;
          cy1 = cy\<lparr>hc_world := w2, hc_refreshed := hc_refreshed cy @ [(Cluster_ID c, host_key h)]\<rparr>
      in if w_now w2 \<ge> deadline
         then (h1, cy1\<lparr>hc_deadline_events := hc_deadline_events cy @ [(Cluster_ID c, Host_ID h)]\<rparr>)
         else if canRefreshRoles
         then (case refreshRoleInternal m h1 False w2 of (_, h2, w3) \<Rightarrow> (h2, cy1\<lparr>hc_world := w3\<rparr>))
         else (h1, cy1))"

definition set_host :: "host \<Rightarrow> cluster \<Rightarrow> cluster" where
  "set_host h c = c\<lparr>Cluster_Hosts := map (\<lambda>x. if host_key x = host_key h then h else x) (Cluster_Hosts c)\<rparr>"

fun monitor_hosts ::
  "host_monitor_env \<Rightarrow> manager \<Rightarrow> bool \<Rightarrow> cluster \<Rightarrow> host list \<Rightarrow> host_cycle \<Rightarrow> bool \<times> host_cycle" where
  "monitor_hosts env m canRefreshRoles c [] cy = (False, cy)"
| "monitor_hosts env m canRefreshRoles c (h # hs) cy =
     (if \<not> hm_IsLeader env (hc_world cy) then (True, cy)
      else (case monitor_host env m canRefreshRoles c h cy of
              (h1, cy1) \<Rightarrow> monitor_hosts env m canRefreshRoles (set_host h1 c) hs cy1))"

fun monitor_clusters ::
  "host_monitor_env \<Rightarrow> manager \<Rightarrow> cluster list \<Rightarrow> host_cycle \<Rightarrow> bool \<times> host_cycle" where
  "monitor_clusters env m [] cy = (False, cy)"
| "monitor_clusters env m (c # cs) cy =
     (case SortHosts (hm_UnmarshalInventory env) (Cluster_Hosts c) of
        (sortedHosts, canRefreshRoles) \<Rightarrow>
          (case monitor_hosts env m canRefreshRoles c sortedHosts cy of
             (True, cy1) \<Rightarrow> (True, cy1)
           | (False, cy1) \<Rightarrow> monitor_clusters env m cs cy1))"

partial_function (option) host_monitor_loop ::
  "host_monitor_env \<Rightarrow> manager \<Rightarrow> monitor_query \<Rightarrow> host_cycle \<Rightarrow> host_cycle option" where
  "host_monitor_loop env m q cy =
     Option.bind (MonitorQuery_Next hosts_monitored (hc_world cy) q) (\<lambda>(r, q1). case r of
         Inl err \<Rightarrow> Some cy
       | Inr clusters \<Rightarrow>
           if clusters = [] then Some cy
           else (case monitor_clusters env m clusters cy of
                   (ended, cy1) \<Rightarrow> if ended then Some cy1 else host_monitor_loop env m q1 cy1))"

definition clusterHostMonitoring ::
  "host_monitor_env \<Rightarrow> manager \<Rightarrow> query_generator \<Rightarrow> world \<Rightarrow> (query_generator \<times> host_cycle) option" where
  "clusterHostMonitoring env m g w =
     (let w1 = resetRoleAssignmentIfNotAllRolesAreSet env w;
          (query, g1) = NewClusterQuery (w_now w1) g
      in map_option (Pair g1)
           (host_monitor_loop env m query \<lparr>hc_world = w1, hc_deadline_events = [], hc_refreshed = []\<rparr>))"

section \<open>Sorting\<close>

text \<open>
  The order as one key: hosts with graphics cards last, then hosts without inventory last, then by weight.
\<close>

definition weight_rank :: "weighed_unmarshal \<Rightarrow> host \<Rightarrow> bool \<times> rat" where
  "weight_rank um h = (case um (Host_Inventory h) of None \<Rightarrow> (True, 0) | Some inventory \<Rightarrow> (False, host_weight inventory))"

definition has_gpu :: "weighed_unmarshal \<Rightarrow> host \<Rightarrow> bool" where
  "has_gpu um h = (case um (Host_Inventory h) of None \<Rightarrow> False | Some inventory \<Rightarrow> Inv_GpuCount inventory > 0)"

definition host_rank :: "weighed_unmarshal \<Rightarrow> host \<Rightarrow> bool \<times> bool \<times> rat" where
  "host_rank um h = (has_gpu um h, weight_rank um h)"

lemma weight_less_rank: "weight_less um a b \<longleftrightarrow> weight_rank um a < weight_rank um b"
  by (simp add: weight_less_def weight_rank_def split: option.splits)

lemma SliceStable_sort_key:
  assumes "\<And>a b. lt a b \<longleftrightarrow> key a < key b"
  shows "SliceStable lt xs = sort_key key xs"
proof -
  have "insert_stable lt x ys = insort_key key x ys" for x ys
    by (induction ys) (auto simp: assms)
  then have "insert_stable lt = insort_key key" by (intro ext)
  then show ?thesis by (simp add: SliceStable_def sort_key_def)
qed

lemma separate_hosts:
  "fold (separate_host um) hs (a, b, t) =
     (a @ filter (\<lambda>h. \<not> has_gpu um h) hs, b @ filter (has_gpu um) hs,
      t \<and> list_all (\<lambda>h. um (Host_Inventory h) \<noteq> None) hs)"
  by (induction hs arbitrary: a b t) (auto simp: separate_host_def has_gpu_def split: option.splits)

lemma sort_key_flag:
  fixes key :: "'a \<Rightarrow> 'k::linorder"
  shows "sort_key key (filter (\<lambda>x. \<not> p x) xs) @ sort_key key (filter p xs) = sort_key (\<lambda>x. (p x, key x)) xs"
proof (rule properties_for_sort_key [symmetric])
  let ?a = "sort_key key (filter (\<lambda>x. \<not> p x) xs)" and ?b = "sort_key key (filter p xs)"
  show "mset (?a @ ?b) = mset xs"
    using multiset_partition [of "mset xs" p] by (simp add: add.commute)
  have stable: "filter (\<lambda>y. key y = k) (sort_key key ys) = filter (\<lambda>y. key y = k) ys" for k ys
    by (rule sort_key_stable)
  show "filter (\<lambda>x. (p k, key k) = (p x, key x)) (?a @ ?b) = filter (\<lambda>x. (p k, key k) = (p x, key x)) xs" for k
  proof (cases "p k")
    case True
    have "filter (\<lambda>x. p x \<and> key x = key k) ?a = []" by (simp add: filter_empty_conv)
    moreover have "filter (\<lambda>x. p x \<and> key x = key k) ?b = filter (\<lambda>x. key x = key k) ?b" by (rule filter_cong) auto
    moreover have "filter (\<lambda>x. key x = key k) (filter p xs) = filter (\<lambda>x. p x \<and> key x = key k) xs"
      by (simp add: filter_filter)
    ultimately show ?thesis using True stable [of "key k" "filter p xs"] by (simp add: eq_commute [of "key k"])
  next
    case False
    have "filter (\<lambda>x. \<not> p x \<and> key x = key k) ?b = []" by (simp add: filter_empty_conv)
    moreover have "filter (\<lambda>x. \<not> p x \<and> key x = key k) ?a = filter (\<lambda>x. key x = key k) ?a" by (rule filter_cong) auto
    ultimately show ?thesis
      using False stable [of "key k" "filter (\<lambda>x. \<not> p x) xs"] by (simp add: eq_commute [of "key k"] filter_filter conj_commute)
  qed
  have "sorted (map (\<lambda>x. (q, key x)) ys) \<longleftrightarrow> sorted (map key ys)" for q :: bool and ys :: "'a list"
    by (induction ys) auto
  moreover have "map (\<lambda>x. (p x, key x)) ?a = map (\<lambda>x. (False, key x)) ?a" "map (\<lambda>x. (p x, key x)) ?b = map (\<lambda>x. (True, key x)) ?b"
    by auto
  ultimately have "sorted (map (\<lambda>x. (p x, key x)) ?a)" "sorted (map (\<lambda>x. (p x, key x)) ?b)"
    by (simp_all only: sorted_sort_key)
  then show "sorted (map (\<lambda>x. (p x, key x)) (?a @ ?b))" by (auto simp: sorted_append)
qed

text \<open>
  C35. The order in which the hosts of a cluster get their roles: \<open>SortHosts\<close>, which separates the hosts with
  graphics cards and sorts two lists, is one stable sort of all hosts, by whether they have graphics cards,
  whether their inventory is missing, and their weight; hosts of equal rank keep their order, and no host is
  lost. Roles may be refreshed exactly if every host has an inventory.
\<close>

theorem SortHosts_stable_sort:
  "SortHosts um hosts = (sort_key (host_rank um) hosts, list_all (\<lambda>h. um (Host_Inventory h) \<noteq> None) hosts)"
  using sort_key_flag [of "weight_rank um" "has_gpu um" hosts]
  by (simp add: SortHosts_def separate_hosts SliceStable_sort_key [of _ "weight_rank um"] weight_less_rank
      host_rank_def [abs_def])

section \<open>What the cycle keeps\<close>

text \<open>Faults and clusters are those of another store, and no host is lost.\<close>

definition table_kept :: "world \<Rightarrow> world \<Rightarrow> bool" where
  "table_kept w0 w \<longleftrightarrow> same_table w0 w \<and> host_key ` set (w_hosts w0) \<subseteq> host_key ` set (w_hosts w)"

lemma table_kept_simps [simp]:
  "table_kept w w" "table_kept w0 (w\<lparr>w_now := t\<rparr>) = table_kept w0 w"
  by (simp_all add: table_kept_def same_table_def)

lemma table_kept_trans: "table_kept a b \<Longrightarrow> table_kept b c \<Longrightarrow> table_kept a c"
  by (auto simp: table_kept_def)

lemma update_rows_keys:
  assumes "\<And>h. host_key (f h) = host_key h"
  shows "host_key ` set (w_hosts (update_rows P f w)) = host_key ` set (w_hosts w)"
proof -
  have "map host_key (w_hosts (update_rows P f w)) = map host_key (w_hosts w)" by (simp add: update_rows_def assms)
  then show ?thesis by (metis set_map)
qed

interpretation kept: host_frame "\<lambda>_. table_kept w0" for w0
proof
  fix i j s extra w assume w: "table_kept w0 w"
  show "table_kept w0 (snd (UpdateHost i j s extra w))"
  proof (rule UpdateHost_snd_cases [of i j s extra w])
    fix f assume "assignment extra = Some f" "snd (UpdateHost i j s extra w) = update_rows (guard_row (i, j) s) f w"
    with w show ?thesis
      using update_rows_keys [of f "guard_row (i, j) s" w] assignment_key by (simp add: table_kept_def same_table_def update_rows_def)
  qed (use w in simp)
next
  fix k c w assume w: "table_kept w0 w"
  have "map Cluster_ID (map cluster_rest cs) = map Cluster_ID cs" for cs by (simp add: cluster_rest_def)
  with w cluster_rest_reset [of c w] have "map Cluster_ID (w_clusters (snd (reset_preparation c w))) = map Cluster_ID (w_clusters w)"
    by metis
  with w show "table_kept w0 (snd (reset_preparation c w))"
    by (simp add: table_kept_def same_table_def reset_preparation_frame)
qed (auto simp: table_kept_def same_table_def Create_host_def)

lemma quiet_kept:
  assumes "quiet w w1"
  shows "table_kept w w1"
proof -
  have "map host_key (w_hosts w1) = map host_key (w_hosts w)"
    using arg_cong [OF quiet_identity [OF assms], of "map fst"] by (simp add: row_identity_def comp_def)
  then have "host_key ` set (w_hosts w1) = host_key ` set (w_hosts w)" by (metis set_map)
  with quiet_frame [OF assms] show ?thesis by (simp add: table_kept_def same_table_def)
qed

lemma refresh_kept: "table_kept w (snd (refreshStatusInternal m ctxErr h c i w))"
proof -
  have q: "quiet w w1" if "updateValidationsInDB m h new (reportValidationStatusChanged m h new cur w) = (r, w1)" for new cur r w1
    using quiet_trans [OF updateValidationsInDB_quiet reportValidationStatusChanged_quiet] that by (metis snd_conv)
  have r: "table_kept w w2" if "quiet w w1" "run_sm m t args h w1 = (e, w2)" for w1 w2 t args e
    using kept.run [where ?w0.0 = w and h = h and w = w1 and th = "m_th m" and t = t and args = args] quiet_kept [OF that(1)] that(2) run_sm_simps(2) [of m t args h w1] by simp
  show ?thesis
    using quiet_refl [of w]
    by (auto simp: refreshStatusInternal_def intro: quiet_kept r dest!: q split: sum.splits prod.splits option.splits if_splits)
qed

lemma after_refresh_key [simp]: "host_key (host_after_refresh m ctxErr h c i w) = host_key h"
  by (simp add: host_after_refresh_def host_key_def split: sum.splits prod.splits option.splits)

lemma refreshRole_key: "refreshRoleInternal m h b w = (e, h1, w1) \<Longrightarrow> host_key h1 = host_key h"
  by (auto simp: refreshRoleInternal_def host_key_def Let_def split: if_splits sum.splits prod.splits option.splits)

lemma stored_key: "find_host k w \<noteq> None \<longleftrightarrow> k \<in> host_key ` set (w_hosts w)"
  by (auto simp: find_host_def find_None_iff)

lemma monitor_host_keeps:
  assumes "store_ok (hc_world cy)" and "host_key h \<in> host_key ` set (w_hosts (hc_world cy))"
    and "monitor_host env m b c h cy = (h1, cy1)"
  shows "store_ok (hc_world cy1) \<and> table_kept (hc_world cy) (hc_world cy1) \<and> host_key h1 = host_key h \<and>
    hc_refreshed cy1 = hc_refreshed cy @ [(Cluster_ID c, host_key h)]"
proof -
  let ?w = "hc_world cy" and ?ctx = "hm_ctxErr env h (hc_world cy)"
  obtain e w1 where r: "refreshStatusInternal m ?ctx h (Some c) False ?w = (e, w1)" by force
  let ?w2 = "w1\<lparr>w_now := w_now ?w + hm_refreshDuration env h ?w\<rparr>" and ?h1 = "host_after_refresh m ?ctx h (Some c) False ?w"
  have "store_ok w1" "table_kept ?w w1"
    using refreshStatusInternal_ok [OF assms(1), of h m ?ctx "Some c" False] refresh_kept [of ?w m ?ctx h "Some c" False]
      assms(2) stored_key [of "host_key h" ?w] by (simp_all add: r)
  then have w2: "store_ok ?w2" "table_kept ?w ?w2" by (simp_all add: world_ok)
  obtain e2 h2 w3 where role: "refreshRoleInternal m ?h1 False ?w2 = (e2, h2, w3)" by (metis prod_cases3)
  have q: "quiet ?w2 w3" using roles_quiet(2) [of ?w2 m ?h1 False] role by simp
  have w3: "store_ok w3" "table_kept ?w w3" "host_key h2 = host_key h"
    using quiet_ok [OF q w2(1)] table_kept_trans [OF w2(2) quiet_kept [OF q]] refreshRole_key [OF role] by simp_all
  show ?thesis using assms(3) w2 w3 by (auto simp: monitor_host_def Let_def r role split: if_splits)
qed

lemma set_host_id [simp]: "Cluster_ID (set_host h c) = Cluster_ID c"
  by (simp add: set_host_def)

lemma monitor_hosts_keeps:
  assumes "monitor_hosts env m b c hs cy = (ended, cy1)" and "store_ok (hc_world cy)"
    and "host_key ` set hs \<subseteq> host_key ` set (w_hosts (hc_world cy))"
  shows "store_ok (hc_world cy1) \<and> table_kept (hc_world cy) (hc_world cy1) \<and>
    (\<exists>ks. hc_refreshed cy1 = hc_refreshed cy @ map (Pair (Cluster_ID c)) ks \<and> prefix ks (map host_key hs) \<and>
       (\<not> ended \<longrightarrow> ks = map host_key hs) \<and> ((\<forall>w. hm_IsLeader env w) \<longrightarrow> \<not> ended))"
  using assms
proof (induction hs arbitrary: c cy)
  case (Cons h hs)
  show ?case
  proof (cases "hm_IsLeader env (hc_world cy)")
    case False
    with Cons.prems show ?thesis by (auto intro!: exI [of _ "[]"])
  next
    case True
    obtain h1 cy2 where s: "monitor_host env m b c h cy = (h1, cy2)" by force
    from Cons.prems(3) have "host_key h \<in> host_key ` set (w_hosts (hc_world cy))" by simp
    note k = monitor_host_keeps [OF Cons.prems(2) this s]
    have "host_key ` set hs \<subseteq> host_key ` set (w_hosts (hc_world cy2))"
      using Cons.prems(3) k by (auto simp: table_kept_def)
    with Cons.IH [of "set_host h1 c" cy2] Cons.prems(1) k True s obtain ks where ks:
      "store_ok (hc_world cy1)" "table_kept (hc_world cy2) (hc_world cy1)"
      "hc_refreshed cy1 = hc_refreshed cy2 @ map (Pair (Cluster_ID c)) ks" "prefix ks (map host_key hs)"
      "\<not> ended \<longrightarrow> ks = map host_key hs" "(\<forall>w. hm_IsLeader env w) \<longrightarrow> \<not> ended" by auto
    with k table_kept_trans show ?thesis by (intro conjI exI [of _ "host_key h # ks"]) auto
  qed
qed simp

lemma SortHosts_keys: "set (fst (SortHosts um hs)) = set hs" "distinct (map host_key hs) \<Longrightarrow> distinct (map host_key (fst (SortHosts um hs)))"
proof -
  have "mset (fst (SortHosts um hs)) = mset hs"
    using multiset_partition [of "mset hs" "has_gpu um"]
    by (simp add: SortHosts_def separate_hosts SliceStable_sort_key [of _ "weight_rank um"] weight_less_rank add.commute)
  from mset_eq_setD [OF this] this show "set (fst (SortHosts um hs)) = set hs"
    "distinct (map host_key hs) \<Longrightarrow> distinct (map host_key (fst (SortHosts um hs)))"
    using mset_eq_imp_distinct_iff [of "map host_key (fst (SortHosts um hs))" "map host_key hs"] by simp_all
qed

text \<open>The hosts of clusters in the order of a batch.\<close>

definition hosts_in_order :: "weighed_unmarshal \<Rightarrow> cluster list \<Rightarrow> (uuid \<times> key) list" where
  "hosts_in_order um cs = concat (map (\<lambda>c. map (\<lambda>h. (Cluster_ID c, host_key h)) (fst (SortHosts um (Cluster_Hosts c)))) cs)"

lemma monitor_clusters_keeps:
  assumes "monitor_clusters env m cs cy = (ended, cy1)" and "store_ok (hc_world cy)"
    and "\<forall>c \<in> set cs. host_key ` set (Cluster_Hosts c) \<subseteq> host_key ` set (w_hosts (hc_world cy))"
  shows "store_ok (hc_world cy1) \<and> table_kept (hc_world cy) (hc_world cy1) \<and>
    (\<exists>xs. hc_refreshed cy1 = hc_refreshed cy @ xs \<and> prefix xs (hosts_in_order (hm_UnmarshalInventory env) cs) \<and>
       ((\<forall>w. hm_IsLeader env w) \<longrightarrow> \<not> ended \<and> xs = hosts_in_order (hm_UnmarshalInventory env) cs))"
  using assms
proof (induction cs arbitrary: cy)
  case (Cons c cs)
  let ?um = "hm_UnmarshalInventory env"
  obtain hs b where s: "SortHosts ?um (Cluster_Hosts c) = (hs, b)" by force
  obtain stop cy2 where h: "monitor_hosts env m b c hs cy = (stop, cy2)" by force
  have "set hs = set (Cluster_Hosts c)" using SortHosts_keys(1) [of ?um "Cluster_Hosts c"] by (simp add: s)
  with Cons.prems(3) have "host_key ` set hs \<subseteq> host_key ` set (w_hosts (hc_world cy))" by simp
  from monitor_hosts_keeps [OF h Cons.prems(2) this] obtain ks where ks: "store_ok (hc_world cy2)" "table_kept (hc_world cy) (hc_world cy2)"
    "hc_refreshed cy2 = hc_refreshed cy @ map (Pair (Cluster_ID c)) ks" "prefix ks (map host_key hs)"
    "\<not> stop \<longrightarrow> ks = map host_key hs" "(\<forall>w. hm_IsLeader env w) \<longrightarrow> \<not> stop" by blast
  have order: "hosts_in_order ?um (c # cs) = map (Pair (Cluster_ID c)) (map host_key hs) @ hosts_in_order ?um cs"
    by (simp add: hosts_in_order_def s)
  have pre: "prefix (map (Pair (Cluster_ID c)) ks) (map (Pair (Cluster_ID c)) (map host_key hs))" using ks(4) by (rule map_mono_prefix)
  show ?case
  proof (cases stop)
    case True
    with Cons.prems(1) s h ks pre show ?thesis by (auto simp: order)
  next
    case False
    have "\<forall>c \<in> set cs. host_key ` set (Cluster_Hosts c) \<subseteq> host_key ` set (w_hosts (hc_world cy2))"
      using Cons.prems(3) ks(2) by (fastforce simp: table_kept_def)
    with Cons.IH [of cy2] Cons.prems(1) s h False ks(1) obtain xs where xs: "store_ok (hc_world cy1)" "table_kept (hc_world cy2) (hc_world cy1)"
      "hc_refreshed cy1 = hc_refreshed cy2 @ xs" "prefix xs (hosts_in_order ?um cs)"
      "(\<forall>w. hm_IsLeader env w) \<longrightarrow> \<not> ended \<and> xs = hosts_in_order ?um cs" by auto
    from False ks(5) have "ks = map host_key hs" by simp
    with xs ks table_kept_trans show ?thesis
      by (intro conjI exI [of _ "map (Pair (Cluster_ID c)) ks @ xs"]) (auto simp: order)
  qed
qed (simp add: hosts_in_order_def)

lemma loaded_keys:
  assumes "wf_world w" and "c \<in> load_hosts w ` C"
  shows "host_key ` set (Cluster_Hosts c) \<subseteq> host_key ` set (w_hosts w)" "distinct (map host_key (Cluster_Hosts c))"
  using assms by (auto simp: load_hosts_def wf_world_def distinct_map_filter)

lemma hosts_in_order_once:
  assumes "distinct (map Cluster_ID cs)" and "\<forall>c \<in> set cs. distinct (map host_key (Cluster_Hosts c))"
  shows "distinct (hosts_in_order um cs) \<and> fst ` set (hosts_in_order um cs) \<subseteq> Cluster_ID ` set cs"
  using assms
proof (induction cs)
  case (Cons c cs)
  let ?one = "map (\<lambda>h. (Cluster_ID c, host_key h)) (fst (SortHosts um (Cluster_Hosts c)))"
  have "distinct (map snd ?one)" using SortHosts_keys(2) [of "Cluster_Hosts c" um] Cons.prems(2) by (simp add: comp_def)
  then have "distinct ?one" by (simp only: distinct_map)
  moreover have "fst ` set ?one \<subseteq> {Cluster_ID c}" by auto
  ultimately show ?case using Cons by (auto simp: hosts_in_order_def)
qed (simp add: hosts_in_order_def)

interpretation host_cycles: monitor_walk hosts_monitored hc_world "host_monitor_loop env m" "monitor_clusters env m" "\<lambda>cy. cy"
  "\<lambda>cy. store_ok (hc_world cy)" hc_refreshed fst
proof
  fix s cs ended s1
  assume inv: "store_ok (hc_world s)" and b: "monitor_clusters env m cs s = (ended, s1)"
    and rows: "set cs \<subseteq> load_hosts (hc_world s) ` set (w_clusters (hc_world s))" and ids: "distinct (map Cluster_ID cs)"
  from inv have wf: "wf_world (hc_world s)" by (simp add: store_ok_def)
  note loaded = loaded_keys [OF wf subsetD [OF rows]]
  from monitor_clusters_keeps [OF b inv] loaded(1) obtain xs where xs: "store_ok (hc_world s1)" "table_kept (hc_world s) (hc_world s1)"
    "hc_refreshed s1 = hc_refreshed s @ xs" "prefix xs (hosts_in_order (hm_UnmarshalInventory env) cs)" by blast
  from xs(4) obtain zs where zs: "hosts_in_order (hm_UnmarshalInventory env) cs = xs @ zs" by (auto simp: prefix_def)
  from hosts_in_order_once [OF ids, of "hm_UnmarshalInventory env"] loaded(2)
  have "distinct (xs @ zs)" "fst ` set (xs @ zs) \<subseteq> Cluster_ID ` set cs" by (simp_all add: zs)
  with xs(1-3) show "store_ok (hc_world s1) \<and> same_table (hc_world s) (hc_world s1) \<and>
      (\<exists>xs. hc_refreshed s1 = hc_refreshed s @ xs \<and> fst ` set xs \<subseteq> Cluster_ID ` set cs \<and> distinct xs)"
    by (intro conjI exI [of _ xs]) (simp_all add: table_kept_def image_Un)
qed (rule host_monitor_loop.simps | simp)+

lemma reset_roles_keeps:
  "quiet w (resetRoleAssignmentIfNotAllRolesAreSet env w)"
  by (auto simp: resetRoleAssignmentIfNotAllRolesAreSet_def ResetAutoAssignRoles_def Let_def benign_def host_key_def
      intro!: quiet_rows quiet_refl)

lemma full_scan_at_once:
  assumes "query_healthy w" and "length (w_clusters w) < n"
  shows "fullQuery_Next P w (new_full n) =
     (Inr (sort_key Cluster_ID (matching P (\<lambda>c. Cluster_ID c \<noteq> '''') w)),
      snd (fullQuery_Next P w (new_full n))) \<and> fq_eof (snd (fullQuery_Next P w (new_full n)))"
proof -
  let ?cs = "matching P (\<lambda>c. Cluster_ID c \<noteq> '''') w"
  have "length ?cs \<le> length (w_clusters w)" by (simp add: matching_def)
  with assms(2) have "length ?cs < n" by simp
  moreover have "Find_clusters P (\<lambda>c. '''' < Cluster_ID c) w = Inr ?cs"
    using Find_healthy [OF assms(1)] by (simp add: Nil_less_iff)
  ultimately show ?thesis by (simp add: fullQuery_Next_def new_full_def Let_def)
qed

text \<open>
  C34. A cycle of the monitor of hosts returns, on a store whose queries do not fail and whatever the refreshes
  do to it, and keeps the invariant of the tables and of the bindings; no pair of a cluster and a host is
  refreshed twice. If the service stays the leader, the cycle is a full scan and the clusters are fewer than
  the size of a batch, it refreshes exactly the hosts of the clusters that have a host to monitor, cluster
  by cluster in the order of the identifiers and in the order of \<open>SortHosts\<close>.
\<close>

theorem host_monitor_cycle_returns:
  assumes "store_ok w" and "query_healthy w" and "0 < batchSize g"
    and "w1 = resetRoleAssignmentIfNotAllRolesAreSet env w"
  shows "\<exists>g1 cy. clusterHostMonitoring env m g w = Some (g1, cy) \<and> store_ok (hc_world cy) \<and> distinct (hc_refreshed cy) \<and>
    map Cluster_ID (w_clusters (hc_world cy)) = map Cluster_ID (w_clusters w) \<and>
    ((\<forall>w. hm_IsLeader env w) \<and> IsFullScan (fst (NewClusterQuery (w_now w) g)) \<and> length (w_clusters w) < batchSize g \<longrightarrow>
       hc_refreshed cy = hosts_in_order (hm_UnmarshalInventory env)
         (sort_key Cluster_ID (matching hosts_monitored (\<lambda>c. Cluster_ID c \<noteq> '''') w1)))"
proof -
  note q = reset_roles_keeps [of w env, folded assms(4)]
  have w1: "store_ok w1" "w_now w1 = w_now w" "w_clusters w1 = w_clusters w" "same_table w w1"
    using quiet_ok [OF q assms(1)] quiet_frame [OF q] by (simp_all add: same_table_def)
  have healthy: "query_healthy w1" using assms(2) w1(4) by (simp add: query_healthy_def same_table_def)
  obtain query g1 where g: "NewClusterQuery (w_now w) g = (query, g1)" by force
  let ?cy = "\<lparr>hc_world = w1, hc_deadline_events = [], hc_refreshed = []\<rparr>" and ?um = "hm_UnmarshalInventory env"
  let ?cs = "sort_key Cluster_ID (matching hosts_monitored (\<lambda>c. Cluster_ID c \<noteq> '''') w1)"
  from g healthy assms(3) have ready: "query_ready (hc_world ?cy) query"
    by (auto simp: NewClusterQuery_def query_ready_def full_ready_def timed_ready_def new_full_def new_timed_def split: if_splits)
  from host_cycles.walk_total [OF _ ready, of env m] w1(1) obtain cy where cy: "host_monitor_loop env m query ?cy = Some cy"
    "store_ok (hc_world cy)" "distinct (hc_refreshed cy)" "same_table w1 (hc_world cy)" by auto
  have "hc_refreshed cy = hosts_in_order ?um ?cs"
    if lead: "\<forall>w. hm_IsLeader env w" and full: "IsFullScan query" and fits: "length (w_clusters w) < batchSize g"
  proof -
    from full g have query: "query = FullQuery (new_full (batchSize g))" by (auto simp: NewClusterQuery_def IsFullScan_def split: if_splits)
    define cs where "cs = ?cs"
    have "set ?cs \<subseteq> load_hosts w1 ` set (w_clusters w1)" by (auto simp: matching_def)
    then have rows: "set cs \<subseteq> load_hosts w1 ` set (w_clusters w1)" by (simp only: cs_def)
    obtain f where f: "fullQuery_Next hosts_monitored w1 (new_full (batchSize g)) = (Inr cs, f)" "fq_eof f"
      using full_scan_at_once [OF healthy, of "batchSize g" hosts_monitored] fits w1(3) unfolding cs_def by metis
    have next1: "MonitorQuery_Next hosts_monitored w1 query = Some (Inr cs, FullQuery f)"
      by (simp add: MonitorQuery_Next_def query f(1))
    have next2: "MonitorQuery_Next hosts_monitored w' (FullQuery f) = Some (Inr [], FullQuery f)" for w'
      by (simp add: MonitorQuery_Next_def fullQuery_Next_def f(2))
    obtain ended cy1 where b: "monitor_clusters env m cs ?cy = (ended, cy1)" by force
    have "\<forall>c \<in> set cs. host_key ` set (Cluster_Hosts c) \<subseteq> host_key ` set (w_hosts (hc_world ?cy))"
      using loaded_keys(1) [OF _ subsetD [OF rows]] w1(1) by (simp add: store_ok_def)
    from monitor_clusters_keeps [OF b _ this] w1(1) lead have r: "\<not> ended" "hc_refreshed cy1 = hosts_in_order ?um cs" by auto
    have over: "host_monitor_loop env m (FullQuery f) cy1 = Some cy1" by (subst host_monitor_loop.simps) (simp add: next2)
    have "host_monitor_loop env m query ?cy = Some (if cs = [] then ?cy else cy1)"
      by (subst host_monitor_loop.simps) (simp add: next1 b r(1) over)
    with cy(1) r(2) have "hc_refreshed cy = hosts_in_order ?um cs" by (auto simp: hosts_in_order_def split: if_splits)
    then show ?thesis by (simp only: cs_def)
  qed
  with cy g w1 show ?thesis by (simp add: clusterHostMonitoring_def assms(4) [symmetric] same_table_def)
qed

text \<open>A known host without inventory in a cluster that is being installed.\<close>

theorem host_monitor_cycle_returns_witness:
  "let env = \<lparr>hm_IsLeader = (\<lambda>_. True), hm_UnmarshalInventory = (\<lambda>_. None), hm_ctxErr = (\<lambda>_ _ _. False),
         hm_refreshDuration = (\<lambda>_ _. Second)\<rparr>;
       w = sample_world (sample_host HostStatusKnown)
   in \<exists>g1 cy. clusterHostMonitoring env sample_manager (NewMonitorQueryGenerator 10) w = Some (g1, cy) \<and>
        hc_refreshed cy = [(''c'', (''e'', ''h''))]"
proof -
  let ?env = "\<lparr>hm_IsLeader = (\<lambda>_. True), hm_UnmarshalInventory = (\<lambda>_. None), hm_ctxErr = (\<lambda>_ _ _. False),
         hm_refreshDuration = (\<lambda>_ _. Second)\<rparr>"
  let ?h = "sample_host HostStatusKnown" and ?g = "NewMonitorQueryGenerator 10"
  let ?w = "sample_world ?h"
  have ok: "store_ok ?w" "query_healthy ?w" "0 < batchSize ?g" "batchSize ?g = 10" "calls ?g = 0"
    by (simp_all add: store_ok_def wf_world_def binding_ok_def bound_row_def unbound_statuses_def query_healthy_def
        NewMonitorQueryGenerator_def sample_world_def sample_host_def)
  have reset: "resetRoleAssignmentIfNotAllRolesAreSet ?env ?w = ?w"
    by (simp add: resetRoleAssignmentIfNotAllRolesAreSet_def ResetAutoAssignRoles_def Let_def update_rows_def
        sample_world_def sample_host_def)
  have full: "IsFullScan (fst (NewClusterQuery t ?g))" for t by (simp add: NewClusterQuery_def ok(5) IsFullScan_def)
  have "hosts_monitored ?w sample_cluster"
    by (simp add: hosts_monitored_def monitorStates_def sample_world_def sample_host_def sample_cluster_def)
  then have "matching hosts_monitored (\<lambda>c. Cluster_ID c \<noteq> '''') ?w = [sample_cluster\<lparr>Cluster_Hosts := [?h]\<rparr>]"
    by (simp add: matching_def load_hosts_def sample_world_def sample_host_def sample_cluster_def)
  then have "hosts_in_order (\<lambda>_. None) (sort_key Cluster_ID (matching hosts_monitored (\<lambda>c. Cluster_ID c \<noteq> '''') ?w)) =
      [(''c'', (''e'', ''h''))]"
    by (simp add: hosts_in_order_def SortHosts_def separate_host_def SliceStable_def sample_host_def sample_cluster_def host_key_def)
  with host_monitor_cycle_returns [OF ok(1-3) refl, of ?env sample_manager, unfolded reset] full ok(4)
  show ?thesis by (fastforce simp: sample_world_def)
qed

end
