(* ===== verification/Cluster_Common.thy ===== *)
theory Cluster_Common
  imports Cluster_Store Host_Common Float64
begin

text \<open>
  Constants and small helpers of the cluster package: status texts (\<open>internal/cluster/common.go\<close>), the
  identifiers of validations and conditions (\<open>validation_id.go\<close>, \<open>conditions.go\<close>), the stages of
  finalizing and their timeouts (\<open>finalizing_stages.go\<close>) and the state switch (\<open>statecluster.go\<close>).
  A name that the host package has as well carries the prefix \<open>cluster_\<close> or the suffix \<open>_c\<close>.
\<close>

section \<open>Status messages\<close>

definition cluster_StatusInfoReady :: string where
  "cluster_StatusInfoReady =
     ''Cluster ready to be installed''"

definition cluster_StatusInfoInsufficient :: string where
  "cluster_StatusInfoInsufficient =
     ''Cluster is not ready for install''"

definition cluster_statusInfoInstalling :: string where
  "cluster_statusInfoInstalling =
     ''Installation in progress''"

definition cluster_statusInfoFinalizing :: string where
  "cluster_statusInfoFinalizing =
     ''Finalizing cluster installation''"

definition cluster_statusInfoInstalled :: string where
  "cluster_statusInfoInstalled =
     ''Cluster is installed''"

definition cluster_StatusInfoDegraded :: string where
  "cluster_StatusInfoDegraded =
     ''Cluster is installed but degraded''"

definition cluster_StatusInfoNotAllWorkersInstalled :: string where
  "cluster_StatusInfoNotAllWorkersInstalled =
     ''Cluster is installed but some workers did not join''"

definition cluster_statusInfoPreparingForInstallation :: string where
  "cluster_statusInfoPreparingForInstallation =
     ''Preparing cluster for installation''"

definition cluster_statusInfoPreparingForInstallationTimeout :: string where
  "cluster_statusInfoPreparingForInstallationTimeout =
     ''Preparing cluster for installation timeout''"

definition cluster_statusInfoFinalizingTimeout :: string where
  "cluster_statusInfoFinalizingTimeout =
     ''Cluster installation timeout while finalizing''"

definition cluster_statusInfoFinalizingStageTimeout :: string where
  "cluster_statusInfoFinalizingStageTimeout =
     ''Cluster finalizing stage '%s' has been timed out after timeout duration of %d '' @
     ''minutes''"

definition cluster_statusInfoFinalizingStageSoftTimeout :: string where
  "cluster_statusInfoFinalizingStageSoftTimeout =
     ''Cluster finalizing stage '%s' is taking longer than the expected duration (%d '' @
     ''minutes). To troubleshoot use kubeconfig or connect to any node using ssh''"

definition cluster_statusInfoPendingForInput :: string where
  "cluster_statusInfoPendingForInput =
     ''User input required''"

definition cluster_statusInfoError :: string where
  "cluster_statusInfoError =
     ''cluster has hosts in error''"

definition cluster_statusInfoTimeout :: string where
  "cluster_statusInfoTimeout =
     ''cluster installation timed out while pending user action (a manual booting from '' @
     ''installation disk)''"

definition cluster_statusInfoInstallationTimeout :: string where
  "cluster_statusInfoInstallationTimeout =
     ''cluster installation timeout (%d minutes) has expired''"

definition cluster_statusInfoAddingHosts :: string where
  "cluster_statusInfoAddingHosts =
     ''cluster is adding hosts to existing OCP cluster''"

definition cluster_statusInfoDisconnected :: string where
  "cluster_statusInfoDisconnected =
     ''Cluster created for offline installation''"

definition cluster_statusInfoInstallingPendingUserAction :: string where
  "cluster_statusInfoInstallingPendingUserAction =
     ''Cluster has hosts pending user action''"

definition cluster_statusInfoUnpreparingHostExists :: string where
  "cluster_statusInfoUnpreparingHostExists =
     ''At least one host has stopped preparing for installation''"

definition cluster_statusInfoClusterFailedToPrepare :: string where
  "cluster_statusInfoClusterFailedToPrepare =
     ''Cluster failed to prepare for installation''"

lemmas cluster_status_texts =
  cluster_StatusInfoReady_def cluster_StatusInfoInsufficient_def
  cluster_statusInfoInstalling_def cluster_statusInfoFinalizing_def
  cluster_statusInfoInstalled_def cluster_StatusInfoDegraded_def
  cluster_StatusInfoNotAllWorkersInstalled_def cluster_statusInfoPreparingForInstallation_def
  cluster_statusInfoPreparingForInstallationTimeout_def cluster_statusInfoFinalizingTimeout_def
  cluster_statusInfoFinalizingStageTimeout_def cluster_statusInfoFinalizingStageSoftTimeout_def
  cluster_statusInfoPendingForInput_def cluster_statusInfoError_def
  cluster_statusInfoTimeout_def cluster_statusInfoInstallationTimeout_def
  cluster_statusInfoAddingHosts_def cluster_statusInfoDisconnected_def
  cluster_statusInfoInstallingPendingUserAction_def cluster_statusInfoUnpreparingHostExists_def
  cluster_statusInfoClusterFailedToPrepare_def

section \<open>Validations and conditions\<close>

text \<open>\<open>OtherClusterValidationID\<close> is any other string, as an operator may report it.\<close>

datatype cluster_validationID =
    isClusterCidrDefined | isServiceCidrDefined | noCidrOverlapping | networkPrefixValid
  | IsMachineCidrDefined_c | IsMachineCidrEqualsToCalculatedCidr | NetworksSameAddressFamilies
  | AreApiVipsDefined | AreApiVipsValid | isNetworkTypeValid
  | IsCustomManifestsRequirementsSatisfied | AreIngressVipsDefined | AreIngressVipsValid
  | AllHostsAreReadyToInstall | SufficientMastersCount | IsDNSDomainDefined | IsPullSecretSet
  | IsNtpServerConfigured | IsOdfRequirementsSatisfied | IsLsoRequirementsSatisfied
  | IsCnvRequirementsSatisfied | IsLvmRequirementsSatisfied | IsMceRequirementsSatisfied
  | IsMtvRequirementsSatisfied | IsOscRequirementsSatisfied | PlatformRequirementsSatisfied
  | IsNodeFeatureDiscoveryRequirementsSatisfied | IsNvidiaGPURequirementsSatisfied
  | IsPipelinesRequirementsSatisfied | IsServiceMeshRequirementsSatisfied
  | IsServerLessRequirementsSatisfied | IsOpenShiftAIRequirementsSatisfied
  | IsOpenshiftAIGpuRequirementsSatisfied | IsAuthorinoRequirementsSatisfied
  | IsNmstateRequirementsSatisfied | IsAMDGPURequirementsSatisfied | IsKMMRequirementsSatisfied
  | AreNodeHealthcheckRequirementsSatisfied_c | AreSelfNodeRemediationRequirementsSatisfied_c
  | AreFenceAgentsRemediationRequirementsSatisfied_c | AreNodeMaintenanceRequirementsSatisfied_c
  | AreKubeDeschedulerRequirementsSatisfied_c | AreClusterObservabilityRequirementsSatisfied_c
  | AreNUMAResourcesRequirementsSatisfied_c | AreOADPRequirementsSatisfied_c
  | AreMetallbRequirementsSatisfied | IsLokiRequirementsSatisfied
  | IsOpenShiftLoggingRequirementsSatisfied | OtherClusterValidationID string

primrec cluster_validationID_String :: "cluster_validationID \<Rightarrow> string" where
  "cluster_validationID_String isClusterCidrDefined = ''cluster-cidr-defined''"
| "cluster_validationID_String isServiceCidrDefined = ''service-cidr-defined''"
| "cluster_validationID_String noCidrOverlapping = ''no-cidrs-overlapping''"
| "cluster_validationID_String networkPrefixValid = ''network-prefix-valid''"
| "cluster_validationID_String IsMachineCidrDefined_c = ''machine-cidr-defined''"
| "cluster_validationID_String IsMachineCidrEqualsToCalculatedCidr = ''machine-cidr-equals-to-calculated-cidr''"
| "cluster_validationID_String NetworksSameAddressFamilies = ''networks-same-address-families''"
| "cluster_validationID_String AreApiVipsDefined = ''api-vips-defined''"
| "cluster_validationID_String AreApiVipsValid = ''api-vips-valid''"
| "cluster_validationID_String isNetworkTypeValid = ''network-type-valid''"
| "cluster_validationID_String IsCustomManifestsRequirementsSatisfied = ''custom-manifests-requirements-satisfied''"
| "cluster_validationID_String AreIngressVipsDefined = ''ingress-vips-defined''"
| "cluster_validationID_String AreIngressVipsValid = ''ingress-vips-valid''"
| "cluster_validationID_String AllHostsAreReadyToInstall = ''all-hosts-are-ready-to-install''"
| "cluster_validationID_String SufficientMastersCount = ''sufficient-masters-count''"
| "cluster_validationID_String IsDNSDomainDefined = ''dns-domain-defined''"
| "cluster_validationID_String IsPullSecretSet = ''pull-secret-set''"
| "cluster_validationID_String IsNtpServerConfigured = ''ntp-server-configured''"
| "cluster_validationID_String IsOdfRequirementsSatisfied = ''odf-requirements-satisfied''"
| "cluster_validationID_String IsLsoRequirementsSatisfied = ''lso-requirements-satisfied''"
| "cluster_validationID_String IsCnvRequirementsSatisfied = ''cnv-requirements-satisfied''"
| "cluster_validationID_String IsLvmRequirementsSatisfied = ''lvm-requirements-satisfied''"
| "cluster_validationID_String IsMceRequirementsSatisfied = ''mce-requirements-satisfied''"
| "cluster_validationID_String IsMtvRequirementsSatisfied = ''mtv-requirements-satisfied''"
| "cluster_validationID_String IsOscRequirementsSatisfied = ''osc-requirements-satisfied''"
| "cluster_validationID_String PlatformRequirementsSatisfied = ''platform-requirements-satisfied''"
| "cluster_validationID_String IsNodeFeatureDiscoveryRequirementsSatisfied = ''node-feature-discovery-requirements-satisfied''"
| "cluster_validationID_String IsNvidiaGPURequirementsSatisfied = ''nvidia-gpu-requirements-satisfied''"
| "cluster_validationID_String IsPipelinesRequirementsSatisfied = ''pipelines-requirements-satisfied''"
| "cluster_validationID_String IsServiceMeshRequirementsSatisfied = ''servicemesh-requirements-satisfied''"
| "cluster_validationID_String IsServerLessRequirementsSatisfied = ''serverless-requirements-satisfied''"
| "cluster_validationID_String IsOpenShiftAIRequirementsSatisfied = ''openshift-ai-requirements-satisfied''"
| "cluster_validationID_String IsOpenshiftAIGpuRequirementsSatisfied = ''openshift-ai-gpu-requirements-satisfied''"
| "cluster_validationID_String IsAuthorinoRequirementsSatisfied = ''authorino-requirements-satisfied''"
| "cluster_validationID_String IsNmstateRequirementsSatisfied = ''nmstate-requirements-satisfied''"
| "cluster_validationID_String IsAMDGPURequirementsSatisfied = ''amd-gpu-requirements-satisfied''"
| "cluster_validationID_String IsKMMRequirementsSatisfied = ''kmm-requirements-satisfied''"
| "cluster_validationID_String AreNodeHealthcheckRequirementsSatisfied_c = ''node-healthcheck-requirements-satisfied''"
| "cluster_validationID_String AreSelfNodeRemediationRequirementsSatisfied_c = ''self-node-remediation-requirements-satisfied''"
| "cluster_validationID_String AreFenceAgentsRemediationRequirementsSatisfied_c = ''fence-agents-remediation-requirements-satisfied''"
| "cluster_validationID_String AreNodeMaintenanceRequirementsSatisfied_c = ''node-maintenance-requirements-satisfied''"
| "cluster_validationID_String AreKubeDeschedulerRequirementsSatisfied_c = ''kube-descheduler-requirements-satisfied''"
| "cluster_validationID_String AreClusterObservabilityRequirementsSatisfied_c = ''cluster-observability-requirements-satisfied''"
| "cluster_validationID_String AreNUMAResourcesRequirementsSatisfied_c = ''numa-resources-requirements-satisfied''"
| "cluster_validationID_String AreOADPRequirementsSatisfied_c = ''oadp-requirements-satisfied''"
| "cluster_validationID_String AreMetallbRequirementsSatisfied = ''metallb-requirements-satisfied''"
| "cluster_validationID_String IsLokiRequirementsSatisfied = ''loki-requirements-satisfied''"
| "cluster_validationID_String IsOpenShiftLoggingRequirementsSatisfied = ''openshift-logging-requirements-satisfied''"
| "cluster_validationID_String (OtherClusterValidationID s) = s"

datatype cluster_conditionId =
    VipDhcpAllocationSet | AllHostsPreparedSuccessfully | UnPreparingtHostsExist
  | FailedPreparingtHostsExist | ClusterPreparationSucceeded | ClusterPreparationFailed

primrec cluster_conditionId_String :: "cluster_conditionId \<Rightarrow> string" where
  "cluster_conditionId_String VipDhcpAllocationSet = ''vip-dhcp-allocation-set''"
| "cluster_conditionId_String AllHostsPreparedSuccessfully = ''all-hosts-prepared-successfully''"
| "cluster_conditionId_String UnPreparingtHostsExist = ''unpreparing-hosts-exist''"
| "cluster_conditionId_String FailedPreparingtHostsExist = ''failed-preparing-hosts-exist''"
| "cluster_conditionId_String ClusterPreparationSucceeded = ''cluster-preparation-succeeded''"
| "cluster_conditionId_String ClusterPreparationFailed = ''cluster-preparation-failed''"

text \<open>The key of the map of conditions: the string of a validation or of a condition.\<close>

datatype cluster_cond_key = CVKey cluster_validationID | CCKey cluster_conditionId

datatype cluster_category =
    ClusterNetworkCategory | ClusterHostsDataCategory | ClusterConfigurationCategory
  | ClusterOperatorsCategory

definition cluster_network_validations :: "cluster_validationID list" where
  "cluster_network_validations =
     [IsMachineCidrDefined_c, IsMachineCidrEqualsToCalculatedCidr, AreApiVipsDefined, AreApiVipsValid,
      AreIngressVipsDefined, AreIngressVipsValid, isClusterCidrDefined, isServiceCidrDefined,
      noCidrOverlapping, networkPrefixValid, IsDNSDomainDefined, IsNtpServerConfigured,
      isNetworkTypeValid, NetworksSameAddressFamilies, IsCustomManifestsRequirementsSatisfied]"

definition cluster_hosts_data_validations :: "cluster_validationID list" where
  "cluster_hosts_data_validations =
     [AllHostsAreReadyToInstall, SufficientMastersCount]"

definition cluster_configuration_validations :: "cluster_validationID list" where
  "cluster_configuration_validations =
     [IsPullSecretSet, PlatformRequirementsSatisfied]"

definition cluster_operators_validations :: "cluster_validationID list" where
  "cluster_operators_validations =
     [IsOdfRequirementsSatisfied, IsLsoRequirementsSatisfied, IsCnvRequirementsSatisfied,
      IsLvmRequirementsSatisfied, IsMceRequirementsSatisfied, IsMtvRequirementsSatisfied,
      IsOscRequirementsSatisfied, IsNodeFeatureDiscoveryRequirementsSatisfied,
      IsNvidiaGPURequirementsSatisfied, IsPipelinesRequirementsSatisfied,
      IsServiceMeshRequirementsSatisfied, IsServerLessRequirementsSatisfied,
      IsOpenShiftAIRequirementsSatisfied, IsOpenshiftAIGpuRequirementsSatisfied,
      IsAuthorinoRequirementsSatisfied, IsNmstateRequirementsSatisfied, IsAMDGPURequirementsSatisfied,
      IsKMMRequirementsSatisfied, AreNodeHealthcheckRequirementsSatisfied_c,
      AreSelfNodeRemediationRequirementsSatisfied_c, AreFenceAgentsRemediationRequirementsSatisfied_c,
      AreNodeMaintenanceRequirementsSatisfied_c, AreKubeDeschedulerRequirementsSatisfied_c,
      AreClusterObservabilityRequirementsSatisfied_c, AreNUMAResourcesRequirementsSatisfied_c,
      AreOADPRequirementsSatisfied_c, AreMetallbRequirementsSatisfied, IsLokiRequirementsSatisfied,
      IsOpenShiftLoggingRequirementsSatisfied]"

definition Category :: "cluster_validationID \<Rightarrow> go_error + cluster_category" where
  "Category v =
     (if List.member cluster_network_validations v then Inr ClusterNetworkCategory
      else if List.member cluster_hosts_data_validations v then Inr ClusterHostsDataCategory
      else if List.member cluster_configuration_validations v then Inr ClusterConfigurationCategory
      else if List.member cluster_operators_validations v then Inr ClusterOperatorsCategory
      else Inl (ApiError 500 (ErrNew ''Unexpected cluster validation id'')))"

record cluster_validation_result =
  CVR_ID :: cluster_validationID
  CVR_Status :: validation_status
  CVR_Message :: string

text \<open>\<open>ValidationsStatus\<close>, a Go map, as the list of its entries in the order a loop visits them.\<close>

type_synonym cluster_validations_status = "(cluster_category \<times> cluster_validation_result list) list"

text \<open>Every validation that the code names has a category.\<close>

lemma Category_known: "(\<nexists>s. v = OtherClusterValidationID s) \<Longrightarrow> \<exists>cat. Category v = Inr cat"
  by (cases v) (simp_all add: Category_def cluster_network_validations_def cluster_hosts_data_validations_def
      cluster_configuration_validations_def cluster_operators_validations_def)

section \<open>Finalizing stages\<close>

fun finalizing_stage_string :: "finalizing_stage \<Rightarrow> string" where
  "finalizing_stage_string FinalizingStageEmpty = ''''"
| "finalizing_stage_string FinalizingStageWaitingForClusterOperators = ''Waiting for cluster operators''"
| "finalizing_stage_string FinalizingStageAddingRouterCa = ''Adding router ca''"
| "finalizing_stage_string FinalizingStageApplyingOlmManifests = ''Applying olm manifests''"
| "finalizing_stage_string FinalizingStageWaitingForOlmOperatorsCsvInitialization =
     ''Waiting for olm operators csv initialization''"
| "finalizing_stage_string FinalizingStageWaitingForOlmOperatorsCsv = ''Waiting for olm operators csv''"
| "finalizing_stage_string FinalizingStageWaitingForOLMOperatorSetupJobs =
     ''Waiting for OLM operator setup jobs''"
| "finalizing_stage_string FinalizingStageDone = ''Done''"

definition generalWaitTimeout :: duration where
  "generalWaitTimeout = 70 * Minute"

definition longWaitTimeout :: duration where
  "longWaitTimeout = 10 * Hour"

definition shortWaitTimeout :: duration where
  "shortWaitTimeout = 10 * Minute"

definition finalizingStagesTimeoutsDefaultsHardTimeous :: "(finalizing_stage \<times> duration) list" where
  "finalizingStagesTimeoutsDefaultsHardTimeous =
     [(FinalizingStageWaitingForClusterOperators, longWaitTimeout),
      (FinalizingStageAddingRouterCa, generalWaitTimeout),
      (FinalizingStageApplyingOlmManifests, shortWaitTimeout),
      (FinalizingStageWaitingForOlmOperatorsCsv, generalWaitTimeout),
      (FinalizingStageWaitingForOlmOperatorsCsvInitialization, generalWaitTimeout),
      (FinalizingStageWaitingForOLMOperatorSetupJobs, shortWaitTimeout),
      (FinalizingStageDone, generalWaitTimeout)]"

definition finalizingStagesTimeoutsDefaultsSoftTimeouts :: "(finalizing_stage \<times> duration) list" where
  "finalizingStagesTimeoutsDefaultsSoftTimeouts =
     [(FinalizingStageWaitingForClusterOperators, generalWaitTimeout),
      (FinalizingStageAddingRouterCa, generalWaitTimeout),
      (FinalizingStageApplyingOlmManifests, shortWaitTimeout),
      (FinalizingStageWaitingForOlmOperatorsCsv, generalWaitTimeout),
      (FinalizingStageWaitingForOlmOperatorsCsvInitialization, generalWaitTimeout),
      (FinalizingStageWaitingForOLMOperatorSetupJobs, shortWaitTimeout),
      (FinalizingStageDone, generalWaitTimeout)]"

definition finalizingStages :: "finalizing_stage list" where
  "finalizingStages =
     [FinalizingStageWaitingForClusterOperators, FinalizingStageAddingRouterCa,
      FinalizingStageApplyingOlmManifests, FinalizingStageWaitingForOlmOperatorsCsvInitialization,
      FinalizingStageWaitingForOlmOperatorsCsv, FinalizingStageWaitingForOLMOperatorSetupJobs,
      FinalizingStageDone]"

definition nonFailingFinalizingStages :: "finalizing_stage list" where
  "nonFailingFinalizingStages =
     [FinalizingStageApplyingOlmManifests, FinalizingStageWaitingForOlmOperatorsCsvInitialization,
      FinalizingStageWaitingForOlmOperatorsCsv]"

definition olmOperatorFinalizingStages :: "finalizing_stage list" where
  "olmOperatorFinalizingStages =
     [FinalizingStageWaitingForOlmOperatorsCsvInitialization, FinalizingStageWaitingForOlmOperatorsCsv,
      FinalizingStageWaitingForOLMOperatorSetupJobs]"

definition convertStageToEnvVar :: "finalizing_stage \<Rightarrow> string" where
  "convertStageToEnvVar stage =
     ''FINALIZING_STAGE_'' @
     map (\<lambda>c. if c = CHR '' '' then CHR ''_'' else c) (map upper_char (finalizing_stage_string stage)) @
     ''_TIMEOUT''"

text \<open>
  The environment of the process: \<open>os.Getenv\<close> and \<open>time.ParseDuration\<close>. A value that cannot be parsed is
  logged and the default is used.
\<close>

record stage_env =
  Getenv :: "string \<Rightarrow> string"
  ParseDuration :: "string \<Rightarrow> go_error + duration"

definition finalizingStageDefaultTimeout :: "stage_env \<Rightarrow> finalizing_stage \<Rightarrow> bool \<Rightarrow> duration" where
  "finalizingStageDefaultTimeout env stage softTimeoutEnabled =
     (let val = Getenv env (convertStageToEnvVar stage);
          dflt = (case map_of (if softTimeoutEnabled then finalizingStagesTimeoutsDefaultsSoftTimeouts
                               else finalizingStagesTimeoutsDefaultsHardTimeous) stage of
                    None \<Rightarrow> generalWaitTimeout | Some d \<Rightarrow> d)
      in if val \<noteq> '''' then (case ParseDuration env val of Inr d \<Rightarrow> d | Inl _ \<Rightarrow> dflt) else dflt)"

text \<open>
  \<open>Duration.Seconds\<close>: the whole seconds plus the remaining nanoseconds divided by 1e9, in \<open>float64\<close>. The
  product with \<open>time.Second\<close> is computed in \<open>int64\<close>.
\<close>

definition Seconds :: "duration \<Rightarrow> rat" where
  "Seconds d = fadd (float64 (go_div d Second)) (f64 (float64 (d - go_div d Second * Second) / 1000000000))"

definition wrap64 :: "int \<Rightarrow> int" where
  "wrap64 i = (i + 2 ^ 63) mod 2 ^ 64 - 2 ^ 63"

definition finalizingStageTimeout ::
  "stage_env \<Rightarrow> finalizing_stage \<Rightarrow> monitored_operator list \<Rightarrow> bool \<Rightarrow> duration" where
  "finalizingStageTimeout env stage operators softTimeoutEnabled =
     (let timeout = finalizingStageDefaultTimeout env stage softTimeoutEnabled
      in if List.member olmOperatorFinalizingStages stage
         then wrap64 (int64 (fold (\<lambda>m timeoutSeconds.
                if MO_OperatorType m = OperatorTypeOlm
                then max timeoutSeconds (float64 (MO_TimeoutSeconds m)) else timeoutSeconds)
              operators (Seconds timeout)) * Second)
         else timeout)"

section \<open>The state switch of a cluster\<close>

text \<open>
  \<open>stateCluster\<close>: the status that the cluster had when the transition began and the cluster itself,
  here together with the world that the callbacks read and change, and with \<open>updatedCluster\<close>, the field of
  the arguments of a refresh in which post transitions return the cluster that they have written.
\<close>

record cluster_ctx =
  sc_world :: world
  sc_srcState :: cluster_status
  sc_cluster :: cluster
  updatedCluster :: "cluster option"

definition newStateCluster :: "cluster \<Rightarrow> world \<Rightarrow> cluster_ctx" where
  "newStateCluster c w =
     \<lparr>sc_world = w, sc_srcState = Cluster_Status c, sc_cluster = c, updatedCluster = None\<rparr>"

definition stateCluster_State :: "cluster_ctx \<Rightarrow> cluster_status" where
  "stateCluster_State sc = Cluster_Status (sc_cluster sc)"

definition stateCluster_SetState :: "cluster_status \<Rightarrow> cluster_ctx \<Rightarrow> go_error option \<times> cluster_ctx" where
  "stateCluster_SetState state sc = (None, sc\<lparr>sc_cluster := (sc_cluster sc)\<lparr>Cluster_Status := state\<rparr>\<rparr>)"

end
