(* ===== verification/Cluster_Preprocess.thy ===== *)
theory Cluster_Preprocess
  imports Cluster_Common Host_Manager
begin

text \<open>
  The preprocessor of a cluster's refresh, \<open>internal/cluster/refresh_status_preprocessor.go\<close>, with the
  conditions of \<open>conditions.go\<close> and the validations of \<open>validator.go\<close> that decide on the hosts, the roles
  and the input of the user. The validations that compute with addresses and those of the platform and
  of custom manifests are the parameter \<open>cv_condition\<close>; the operators are the parameter
  \<open>cv_ValidateCluster\<close>.
\<close>

section \<open>Context and parameters\<close>

record cluster_preprocess_ctx =
  cp_cluster :: cluster
  cp_db :: world
  cp_hasHostsWithInventories :: bool

record cluster_operator_result =
  COR_ValidationId :: cluster_validationID
  COR_Status :: validation_status
  COR_Reasons :: "string list"

record cluster_validator =
  cv_hostAPI :: manager
  cv_condition :: "cluster_validationID \<Rightarrow> cluster_preprocess_ctx \<Rightarrow> validation_status \<times> string"
  cv_ValidateCluster :: "cluster \<Rightarrow> go_error + cluster_operator_result list"
  cv_disabled :: "cluster_validationID list"

definition hasHostsWithInventories :: "cluster \<Rightarrow> bool" where
  "hasHostsWithInventories c = list_ex (\<lambda>h. Host_Inventory h \<noteq> '''') (Cluster_Hosts c)"

definition newClusterValidationContext :: "cluster \<Rightarrow> world \<Rightarrow> cluster_preprocess_ctx" where
  "newClusterValidationContext c db =
     \<lparr>cp_cluster = c, cp_db = db, cp_hasHostsWithInventories = hasHostsWithInventories c\<rparr>"

section \<open>Conditions\<close>

definition isVipDhcpAllocationSet :: "cluster_preprocess_ctx \<Rightarrow> bool" where
  "isVipDhcpAllocationSet c = Cluster_VipDhcpAllocation (cp_cluster c)"

definition areAllHostsPreparedSuccessfully :: "cluster_preprocess_ctx \<Rightarrow> bool" where
  "areAllHostsPreparedSuccessfully c =
     list_all (\<lambda>h. Host_Status h = HostStatusPreparingSuccessful) (Cluster_Hosts (cp_cluster c))"

definition isUnPreparingHostsExist :: "cluster_preprocess_ctx \<Rightarrow> bool" where
  "isUnPreparingHostsExist c =
     list_ex (\<lambda>h. \<not> List.member [HostStatusPreparingForInstallation, HostStatusPreparingSuccessful,
                                 HostStatusPreparingFailed, HostStatusKnown] (Host_Status h))
       (Cluster_Hosts (cp_cluster c))"

definition isFailedPreparingHostExist :: "cluster_preprocess_ctx \<Rightarrow> bool" where
  "isFailedPreparingHostExist c =
     list_ex (\<lambda>h. Host_Status h = HostStatusPreparingFailed) (Cluster_Hosts (cp_cluster c))"

definition isClusterPreparationSucceeded :: "cluster_preprocess_ctx \<Rightarrow> bool" where
  "isClusterPreparationSucceeded c \<longleftrightarrow>
     Cluster_PreparationStatus (cp_cluster c) = LastInstallationPreparationStatusSuccess"

definition isClusterPreparationFailed :: "cluster_preprocess_ctx \<Rightarrow> bool" where
  "isClusterPreparationFailed c \<longleftrightarrow>
     Cluster_PreparationStatus (cp_cluster c) = LastInstallationPreparationStatusFailed"

definition newClusterConditions :: "(cluster_conditionId \<times> (cluster_preprocess_ctx \<Rightarrow> bool)) list" where
  "newClusterConditions =
     [(VipDhcpAllocationSet, isVipDhcpAllocationSet),
      (AllHostsPreparedSuccessfully, areAllHostsPreparedSuccessfully),
      (UnPreparingtHostsExist, isUnPreparingHostsExist),
      (ClusterPreparationSucceeded, isClusterPreparationSucceeded),
      (ClusterPreparationFailed, isClusterPreparationFailed),
      (FailedPreparingtHostsExist, isFailedPreparingHostExist)]"

section \<open>Validations\<close>

definition DhcpLeaseTimeoutMinutes :: int where
  "DhcpLeaseTimeoutMinutes = 2"

text \<open>The printed form of a \<open>time.Time\<close> is never empty, so only the duration decides.\<close>

definition isDhcpLeaseAllocationTimedOut :: "cluster_preprocess_ctx \<Rightarrow> bool" where
  "isDhcpLeaseAllocationTimedOut c \<longleftrightarrow>
     Since (w_now (cp_db c)) (Cluster_MachineNetworkCidrUpdatedAt (cp_cluster c)) >
       DhcpLeaseTimeoutMinutes * Minute"

definition IsMachineCidrAvailable :: "cluster \<Rightarrow> bool" where
  "IsMachineCidrAvailable c \<longleftrightarrow> Cluster_MachineNetworks c \<noteq> []"

definition isMachineCidrDefined :: "cluster_preprocess_ctx \<Rightarrow> validation_status \<times> string" where
  "isMachineCidrDefined c =
     (let cl = cp_cluster c in
      if Cluster_UserManagedNetworking cl \<and> \<not> IsSingleNodeCluster cl
      then (ValidationSuccess, ''No Machine Network CIDR needed: User Managed Networking'')
      else if IsMachineCidrAvailable cl
      then (ValidationSuccess, ''The Machine Network CIDR is defined.'')
      else if \<not> cp_hasHostsWithInventories c
      then (ValidationPending, ''Hosts have not been discovered yet'')
      else if Cluster_VipDhcpAllocation cl
      then (ValidationFailure, ''The Machine Network CIDR is undefined; setting the Machine Network CIDR '' @
              ''initiates the VIPs DHCP lease allocation.'')
      else if IsSingleNodeCluster cl
      then (ValidationFailure, ''The Machine Network CIDR is undefined; Setting Machine Network CIDR is '' @
              ''required for single node cluster'')
      else (ValidationFailure, ''The Machine Network CIDR is undefined; the Machine Network CIDR can be '' @
              ''defined by setting either the API or Ingress virtual IPs.''))"

definition isClusterCidrDefined_fn :: "cluster_preprocess_ctx \<Rightarrow> validation_status \<times> string" where
  "isClusterCidrDefined_fn c =
     (if Cluster_ClusterNetworks (cp_cluster c) \<noteq> []
      then (ValidationSuccess, ''The Cluster Network CIDR is defined.'')
      else (ValidationFailure, ''The Cluster Network CIDR is undefined.''))"

definition isServiceCidrDefined_fn :: "cluster_preprocess_ctx \<Rightarrow> validation_status \<times> string" where
  "isServiceCidrDefined_fn c =
     (if Cluster_ServiceNetworks (cp_cluster c) \<noteq> []
      then (ValidationSuccess, ''The Service Network CIDR is defined.'')
      else (ValidationFailure, ''The Service Network CIDR is undefined.''))"

text \<open>\<open>VipsWrapper\<close>: the name of the kind of VIPs and the VIPs.\<close>

definition areVipsDefined :: "cluster_preprocess_ctx \<Rightarrow> string \<Rightarrow> string list \<Rightarrow> validation_status \<times> string" where
  "areVipsDefined c name vips =
     (let cl = cp_cluster c in
      if Cluster_UserManagedNetworking cl
      then (ValidationSuccess, name @ '' virtual IPs are not required: User Managed Networking'')
      else if Cluster_ControlPlaneCount cl = 1
      then (ValidationSuccess, name @ '' virtual IPs are not required: SNO'')
      else if length vips > 0 then (ValidationSuccess, name @ '' virtual IPs are defined.'')
      else if Cluster_VipDhcpAllocation cl
      then (if fst (isMachineCidrDefined c) \<noteq> ValidationSuccess
            then (ValidationPending, ''The Machine Network CIDR is undefined'')
            else if isDhcpLeaseAllocationTimedOut c
            then (ValidationFailure, name @ '' virtual IPs are undefined; IP allocation from the DHCP '' @
                    ''server timed out.'')
            else (ValidationFailure, name @ '' virtual IPs are undefined; after the Machine Network CIDR has '' @
                    ''been defined, '' @ name @ '' virtual IPs are received from a DHCP lease allocation task '' @
                    ''which may take up to 2 minutes.''))
      else (ValidationFailure, name @ '' virtual IPs are undefined and must be provided.''))"

definition areApiVipsDefined_fn :: "cluster_preprocess_ctx \<Rightarrow> validation_status \<times> string" where
  "areApiVipsDefined_fn c = areVipsDefined c ''API'' (Cluster_APIVips (cp_cluster c))"

definition areIngressVipsDefined_fn :: "cluster_preprocess_ctx \<Rightarrow> validation_status \<times> string" where
  "areIngressVipsDefined_fn c = areVipsDefined c ''Ingress'' (Cluster_IngressVips (cp_cluster c))"

text \<open>
  The loop of \<open>SufficientMastersCount\<close> over the hosts without a role: the first eligible ones complete the
  control plane, then an arbiter is looked for when the cluster may need one, the rest are workers. Only
  the numbers of masters, arbiters and workers are kept. A candidate whose check fails is not eligible.
\<close>

definition valid_candidate :: "manager \<Rightarrow> cluster_preprocess_ctx \<Rightarrow> host_role \<Rightarrow> host \<Rightarrow> bool" where
  "valid_candidate m c role h \<longleftrightarrow> IsValidCandidate m h (cp_cluster c) role False (cp_db c) = Inr True"

definition arbiter_count :: "int \<Rightarrow> bool" where
  "arbiter_count n \<longleftrightarrow> n < int MinMasterHostsNeededForInstallationInHaMode \<and>
     n \<ge> int MinMasterHostsNeededForInstallationInHaArbiterMode"

fun count_candidates ::
  "manager \<Rightarrow> cluster_preprocess_ctx \<Rightarrow> host list \<Rightarrow> nat \<times> nat \<times> nat \<Rightarrow> nat \<times> nat \<times> nat" where
  "count_candidates m c [] n = n"
| "count_candidates m c (h # hs) (masters, arbiters, workers) =
     (let n = Cluster_ControlPlaneCount (cp_cluster c) in
      if int masters < n \<and> valid_candidate m c HostRoleMaster h
      then count_candidates m c hs (masters + 1, arbiters, workers)
      else if arbiter_count n \<and> arbiters = 0 \<and> valid_candidate m c HostRoleArbiter h
      then count_candidates m c hs (masters, arbiters + 1, workers)
      else count_candidates m c hs (masters, arbiters, workers + 1))"

definition count_roles :: "manager \<Rightarrow> cluster_preprocess_ctx \<Rightarrow> nat \<times> nat \<times> nat" where
  "count_roles m c =
     (case GetHostsByEachRole (cp_cluster c) True of (masters, arbiters, workers, autoAssignHosts) \<Rightarrow>
        count_candidates m c autoAssignHosts (length masters, length arbiters, length workers))"

definition SufficientMastersCount_fn :: "manager \<Rightarrow> cluster_preprocess_ctx \<Rightarrow> validation_status \<times> string" where
  "SufficientMastersCount_fn m c =
     (let cl = cp_cluster c; n = Cluster_ControlPlaneCount cl in
      case count_roles m c of (numMasters, numArbiters, numWorkers) \<Rightarrow>
        let needsArbiter = arbiter_count n \<and> numArbiters = 0 \<and>
              \<not> IsClusterTopologyTwoNodesWithFencing (Some cl);
            suffix = (if needsArbiter
              then '' and at least 1 arbiter node or the control plane nodes must have fencing credentials''
              else '''')
        in if int numMasters \<noteq> n \<or> needsArbiter \<or>
              (n = 1 \<and> numWorkers \<noteq> AllowedNumberOfWorkersInNoneHaMode)
           then (ValidationFailure,
                 if n = 1 then ''Single-node clusters must have a single control plane node and no workers.''
                 else ''The cluster must have exactly '' @ int_digits n @ '' dedicated control plane nodes'' @
                      suffix @ ''. Add or remove hosts, or change their roles configurations to meet the '' @
                      ''requirement.'')
           else (ValidationSuccess, ''The cluster has the exact amount of dedicated control plane nodes.''))"

definition isReadyToInstall :: "host_status \<Rightarrow> bool" where
  "isReadyToInstall status =
     List.member [HostStatusKnown, HostStatusPreparingForInstallation, HostStatusPreparingSuccessful] status"

definition allHostsAreReadyToInstall_fn :: "cluster_preprocess_ctx \<Rightarrow> validation_status \<times> string" where
  "allHostsAreReadyToInstall_fn c =
     (if list_all (\<lambda>h. isReadyToInstall (Host_Status h)) (Cluster_Hosts (cp_cluster c))
      then (ValidationSuccess, ''All hosts in the cluster are ready to install.'')
      else (ValidationFailure, ''The cluster has hosts that are not ready to install.''))"

definition isDNSDomainDefined_fn :: "cluster_preprocess_ctx \<Rightarrow> validation_status \<times> string" where
  "isDNSDomainDefined_fn c =
     (if Cluster_BaseDNSDomain (cp_cluster c) \<noteq> ''''
      then (ValidationSuccess, ''The base domain is defined.'')
      else (ValidationFailure, ''The base domain is undefined and must be provided.''))"

definition isPullSecretSet_fn :: "cluster_preprocess_ctx \<Rightarrow> validation_status \<times> string" where
  "isPullSecretSet_fn c =
     (if Cluster_PullSecretSet (cp_cluster c) then (ValidationSuccess, ''The pull secret is set.'')
      else (ValidationFailure, ''The pull secret is not set.''))"

definition isNtpServerConfigured_fn :: "cluster_preprocess_ctx \<Rightarrow> validation_status \<times> string" where
  "isNtpServerConfigured_fn c =
     (if IsNtpSynced (cp_cluster c) then (ValidationSuccess, ''No ntp problems found'')
      else (ValidationFailure, ''Hosts'' @ [CHR 0x27] @ '' clocks are not synchronized (there'' @ [CHR 0x27] @
              ''s more than a '' @ int_digits MaximumAllowedTimeDiffMinutes @
              '' minutes gap between clocks), please configure an NTP server via DHCP or set clocks manually.''))"

definition newClusterValidations ::
  "cluster_validator \<Rightarrow> (cluster_validationID \<times> (cluster_preprocess_ctx \<Rightarrow> validation_status \<times> string)) list" where
  "newClusterValidations v =
     [(IsMachineCidrDefined_c, isMachineCidrDefined),
      (IsMachineCidrEqualsToCalculatedCidr, cv_condition v IsMachineCidrEqualsToCalculatedCidr),
      (AreApiVipsDefined, areApiVipsDefined_fn),
      (AreApiVipsValid, cv_condition v AreApiVipsValid),
      (isNetworkTypeValid, cv_condition v isNetworkTypeValid),
      (IsCustomManifestsRequirementsSatisfied, cv_condition v IsCustomManifestsRequirementsSatisfied),
      (AreIngressVipsDefined, areIngressVipsDefined_fn),
      (AreIngressVipsValid, cv_condition v AreIngressVipsValid),
      (AllHostsAreReadyToInstall, allHostsAreReadyToInstall_fn),
      (SufficientMastersCount, SufficientMastersCount_fn (cv_hostAPI v)),
      (IsDNSDomainDefined, isDNSDomainDefined_fn),
      (IsPullSecretSet, isPullSecretSet_fn),
      (isClusterCidrDefined, isClusterCidrDefined_fn),
      (isServiceCidrDefined, isServiceCidrDefined_fn),
      (noCidrOverlapping, cv_condition v noCidrOverlapping),
      (networkPrefixValid, cv_condition v networkPrefixValid),
      (IsNtpServerConfigured, isNtpServerConfigured_fn),
      (NetworksSameAddressFamilies, cv_condition v NetworksSameAddressFamilies),
      (PlatformRequirementsSatisfied, cv_condition v PlatformRequirementsSatisfied)]"

section \<open>Preprocessing\<close>

type_synonym cluster_conditions = "cluster_cond_key \<rightharpoonup> bool"

definition NonIgnorableClusterValidations :: "cluster_validationID list" where
  "NonIgnorableClusterValidations =
     [AreApiVipsDefined, AreIngressVipsDefined, AllHostsAreReadyToInstall, SufficientMastersCount,
      IsPullSecretSet]"

definition checkValidationsInStatuses :: "cluster_status list" where
  "checkValidationsInStatuses =
     [ClusterStatusInsufficient, ClusterStatusReady, ClusterStatusPendingForInput,
      ClusterStatusPreparingForInstallation]"

text \<open>\<open>validationsOutput[category] = append(validationsOutput[category], result)\<close>.\<close>

definition cluster_append_result ::
  "cluster_category \<Rightarrow> cluster_validation_result \<Rightarrow> cluster_validations_status \<Rightarrow> cluster_validations_status" where
  "cluster_append_result cat r out =
     AList.update cat ((case map_of out cat of None \<Rightarrow> [] | Some rs \<Rightarrow> rs) @ [r]) out"

definition cluster_eval_validation ::
  "cluster_validator \<Rightarrow> bool \<Rightarrow> cluster_preprocess_ctx \<Rightarrow>
   cluster_validationID \<times> (cluster_preprocess_ctx \<Rightarrow> validation_status \<times> string) \<Rightarrow>
   cluster_conditions \<times> cluster_validations_status \<Rightarrow> go_error + cluster_conditions \<times> cluster_validations_status" where
  "cluster_eval_validation v hasPerClusterOverride c x st =
     (case (x, st) of ((i, condition), (conds, out)) \<Rightarrow>
        (let disabled = \<not> hasPerClusterOverride \<and> List.member (cv_disabled v) i;
             res = (if disabled then (ValidationDisabled, validationDisabledByConfiguration) else condition c);
             conds1 = conds(CVKey i \<mapsto> disabled \<or> fst res = ValidationSuccess)
         in case Category i of
              Inl err \<Rightarrow> Inl err
            | Inr cat \<Rightarrow> Inr (conds1, cluster_append_result cat
                           \<lparr>CVR_ID = i, CVR_Status = fst res, CVR_Message = snd res\<rparr> out)))"

fun cluster_eval_validations ::
  "cluster_validator \<Rightarrow> bool \<Rightarrow> cluster_preprocess_ctx \<Rightarrow>
   (cluster_validationID \<times> (cluster_preprocess_ctx \<Rightarrow> validation_status \<times> string)) list \<Rightarrow>
   cluster_conditions \<times> cluster_validations_status \<Rightarrow> go_error + cluster_conditions \<times> cluster_validations_status" where
  "cluster_eval_validations v ovr c [] st = Inr st"
| "cluster_eval_validations v ovr c (x # xs) st =
     (case cluster_eval_validation v ovr c x st of
        Inl err \<Rightarrow> Inl err | Inr st1 \<Rightarrow> cluster_eval_validations v ovr c xs st1)"

fun cluster_eval_operators ::
  "cluster_operator_result list \<Rightarrow> cluster_conditions \<times> cluster_validations_status \<Rightarrow>
   go_error + cluster_conditions \<times> cluster_validations_status" where
  "cluster_eval_operators [] st = Inr st"
| "cluster_eval_operators (r # rs) (conds, out) =
     (let i = COR_ValidationId r in
      case Category i of
        Inl err \<Rightarrow> Inl err
      | Inr cat \<Rightarrow>
          cluster_eval_operators rs
            (conds(CVKey i \<mapsto> COR_Status r = ValidationSuccess),
             cluster_append_result cat
               \<lparr>CVR_ID = i, CVR_Status = COR_Status r, CVR_Message = Join (COR_Reasons r) [CHR 10]\<rparr> out))"

definition cluster_eval_conditions :: "cluster_preprocess_ctx \<Rightarrow> cluster_conditions \<Rightarrow> cluster_conditions" where
  "cluster_eval_conditions c conds =
     fold (\<lambda>(i, fn) conds. conds(CCKey i \<mapsto> fn c)) newClusterConditions conds"

definition cluster_sortByValidationResultID ::
  "cluster_validation_result list \<Rightarrow> cluster_validation_result list" where
  "cluster_sortByValidationResultID rs = sort_key (\<lambda>r. cluster_validationID_String (CVR_ID r)) rs"

definition should_ignore :: "string list \<Rightarrow> cluster_validationID \<Rightarrow> bool" where
  "should_ignore ignored i =
     ShouldIgnoreValidation ignored (cluster_validationID_String i)
       (map cluster_validationID_String NonIgnorableClusterValidations)"

definition cluster_force_ignored ::
  "string list \<Rightarrow> cluster_validations_status \<Rightarrow> cluster_conditions \<Rightarrow> cluster_conditions" where
  "cluster_force_ignored ignored out conds =
     fold (\<lambda>r conds. if should_ignore ignored (CVR_ID r) then conds(CVKey (CVR_ID r) \<mapsto> True) else conds)
       (concat (map snd out)) conds"

definition cluster_preprocess ::
  "cluster_validator \<Rightarrow> cluster_preprocess_ctx \<Rightarrow> go_error + cluster_conditions \<times> cluster_validations_status" where
  "cluster_preprocess v c =
     (let cl = cp_cluster c;
          hasPerClusterOverride = (Cluster_IgnoredClusterValidations cl \<noteq> '''')
      in case (if hasPerClusterOverride
               then DeserializeJSONList (m_validator (cv_hostAPI v)) (Cluster_IgnoredClusterValidations cl)
               else Inr []) of
           Inl err \<Rightarrow> Inl (ErrWrapf ''unable to deserialize ignored cluster validations'' err)
         | Inr ignoredValidations \<Rightarrow>
             if \<not> List.member checkValidationsInStatuses (Cluster_Status cl) then Inr (Map.empty, [])
             else (case cluster_eval_validations v hasPerClusterOverride c (newClusterValidations v) (Map.empty, []) of
                     Inl err \<Rightarrow> Inl err
                   | Inr st1 \<Rightarrow>
                       (case cv_ValidateCluster v cl of
                          Inl err \<Rightarrow> Inl err
                        | Inr results \<Rightarrow>
                            (case cluster_eval_operators results st1 of
                               Inl err \<Rightarrow> Inl err
                             | Inr (conds2, out2) \<Rightarrow>
                                 let out3 = map (\<lambda>(cat, rs). (cat, cluster_sortByValidationResultID rs)) out2
                                 in Inr (cluster_force_ignored ignoredValidations out3
                                           (cluster_eval_conditions c conds2), out3)))))"

section \<open>What preprocessing computes\<close>

definition cluster_passes ::
  "cluster_validator \<Rightarrow> bool \<Rightarrow> cluster_preprocess_ctx \<Rightarrow> cluster_validationID \<Rightarrow> bool" where
  "cluster_passes v ovr c i \<longleftrightarrow> (\<not> ovr \<and> i \<in> set (cv_disabled v)) \<or>
     (\<exists>fn. map_of (newClusterValidations v) i = Some fn \<and> fst (fn c) = ValidationSuccess)"

lemma newClusterValidations_ids:
  "map fst (newClusterValidations v) =
     [IsMachineCidrDefined_c, IsMachineCidrEqualsToCalculatedCidr, AreApiVipsDefined, AreApiVipsValid,
      isNetworkTypeValid, IsCustomManifestsRequirementsSatisfied, AreIngressVipsDefined,
      AreIngressVipsValid, AllHostsAreReadyToInstall, SufficientMastersCount, IsDNSDomainDefined,
      IsPullSecretSet, isClusterCidrDefined, isServiceCidrDefined, noCidrOverlapping,
      networkPrefixValid, IsNtpServerConfigured, NetworksSameAddressFamilies,
      PlatformRequirementsSatisfied]"
  by (simp add: newClusterValidations_def)

lemma distinct_validation_ids: "distinct (map fst (newClusterValidations v))"
  unfolding newClusterValidations_ids by simp

lemma cluster_eval_validation_conds:
  assumes "cluster_eval_validation v ovr c x (m, out) = Inr (m', out')" and "x \<in> set (newClusterValidations v)"
  shows "m' = m(CVKey (fst x) \<mapsto> cluster_passes v ovr c (fst x))"
proof -
  obtain i fn where x: "x = (i, fn)" by (cases x)
  then have "map_of (newClusterValidations v) i = Some fn"
    using assms(2) distinct_validation_ids [of v] by (simp add: map_of_is_SomeI)
  with assms(1) show ?thesis
    by (auto simp: x cluster_eval_validation_def cluster_passes_def Let_def split: sum.splits if_splits)
qed

lemma cluster_eval_validations_conds:
  assumes "cluster_eval_validations v ovr c xs (m, out) = Inr (m', out')"
    and "set xs \<subseteq> set (newClusterValidations v)"
  shows "m' k = (case k of CVKey i \<Rightarrow> if i \<in> fst ` set xs then Some (cluster_passes v ovr c i) else m k
                 | CCKey _ \<Rightarrow> m k)"
  using assms
proof (induction xs arbitrary: m out)
  case (Cons x xs)
  then obtain m1 out1 where step: "cluster_eval_validation v ovr c x (m, out) = Inr (m1, out1)"
    "cluster_eval_validations v ovr c xs (m1, out1) = Inr (m', out')"
    by (auto split: sum.splits)
  from Cons.IH [OF step(2)] cluster_eval_validation_conds [OF step(1)] Cons.prems(2) show ?case
    by (auto split: cluster_cond_key.splits)
qed (auto split: cluster_cond_key.splits)

lemma cluster_eval_operators_value:
  "cluster_eval_operators rs st = Inr (m', out') \<Longrightarrow>
   m' k = (case find (\<lambda>r. CVKey (COR_ValidationId r) = k) (rev rs) of
             None \<Rightarrow> fst st k | Some r \<Rightarrow> Some (COR_Status r = ValidationSuccess))"
proof (induction rs st rule: cluster_eval_operators.induct)
  case (2 r rs conds out)
  have find_snoc: "find P (xs @ [r]) = (case find P xs of None \<Rightarrow> (if P r then Some r else None) | Some y \<Rightarrow> Some y)"
    for P and xs :: "cluster_operator_result list" by (induction xs) auto
  from 2 show ?case by (auto simp: Let_def find_snoc split: sum.splits option.splits)
qed simp

lemma cluster_eval_conditions_eq:
  "cluster_eval_conditions c m =
     m(CCKey VipDhcpAllocationSet \<mapsto> isVipDhcpAllocationSet c,
       CCKey AllHostsPreparedSuccessfully \<mapsto> areAllHostsPreparedSuccessfully c,
       CCKey UnPreparingtHostsExist \<mapsto> isUnPreparingHostsExist c,
       CCKey ClusterPreparationSucceeded \<mapsto> isClusterPreparationSucceeded c,
       CCKey ClusterPreparationFailed \<mapsto> isClusterPreparationFailed c,
       CCKey FailedPreparingtHostsExist \<mapsto> isFailedPreparingHostExist c)"
  by (simp add: cluster_eval_conditions_def newClusterConditions_def)

lemma cluster_force_ignored_cases:
  "cluster_force_ignored ig out m k = m k \<or>
   (cluster_force_ignored ig out m k = Some True \<and> (\<exists>i. k = CVKey i \<and> should_ignore ig i))"
proof -
  let ?f = "\<lambda>r m. if should_ignore ig (CVR_ID r) then m(CVKey (CVR_ID r) \<mapsto> True) else m"
  have "fold ?f rs m k = m k \<or> (fold ?f rs m k = Some True \<and> (\<exists>i. k = CVKey i \<and> should_ignore ig i))"
    for rs :: "cluster_validation_result list"
  proof (induction rs arbitrary: m)
    case (Cons r rs)
    from Cons.IH [of "?f r m"] show ?case by (auto split: if_splits)
  qed simp
  then show ?thesis unfolding cluster_force_ignored_def by blast
qed

text \<open>The value of every condition that a run of the preprocessor computes.\<close>

definition cluster_overridden :: "cluster_preprocess_ctx \<Rightarrow> bool" where
  "cluster_overridden c \<longleftrightarrow> Cluster_IgnoredClusterValidations (cp_cluster c) \<noteq> ''''"

definition checked_status :: "cluster_status \<Rightarrow> bool" where
  "checked_status s \<longleftrightarrow> s \<in> set checkValidationsInStatuses"

lemma cluster_preprocess_steps:
  assumes "cluster_preprocess v c = Inr (conds, out)" and "checked_status (Cluster_Status (cp_cluster c))"
  obtains ig m1 out1 rs m2 out2 where
    "cluster_eval_validations v (cluster_overridden c) c (newClusterValidations v) (Map.empty, []) = Inr (m1, out1)"
    "cv_ValidateCluster v (cp_cluster c) = Inr rs"
    "cluster_eval_operators rs (m1, out1) = Inr (m2, out2)"
    "conds = cluster_force_ignored ig out (cluster_eval_conditions c m2)"
    "\<not> cluster_overridden c \<Longrightarrow> ig = []"
  using assms
  by (auto simp: cluster_preprocess_def checked_status_def cluster_overridden_def Let_def
      split: sum.splits prod.splits if_splits)

lemma cluster_preprocess_unchecked:
  "\<not> checked_status (Cluster_Status (cp_cluster c)) \<Longrightarrow> cluster_preprocess v c = Inr (conds, out) \<Longrightarrow>
   conds = Map.empty \<and> out = []"
  by (auto simp: cluster_preprocess_def checked_status_def Let_def split: sum.splits if_splits)

lemma preprocess_condition:
  assumes "cluster_preprocess v c = Inr (conds, out)" and "checked_status (Cluster_Status (cp_cluster c))"
  shows "conds (CCKey i) = Some (case i of
      VipDhcpAllocationSet \<Rightarrow> isVipDhcpAllocationSet c
    | AllHostsPreparedSuccessfully \<Rightarrow> areAllHostsPreparedSuccessfully c
    | UnPreparingtHostsExist \<Rightarrow> isUnPreparingHostsExist c
    | FailedPreparingtHostsExist \<Rightarrow> isFailedPreparingHostExist c
    | ClusterPreparationSucceeded \<Rightarrow> isClusterPreparationSucceeded c
    | ClusterPreparationFailed \<Rightarrow> isClusterPreparationFailed c)"
proof -
  from cluster_preprocess_steps [OF assms] obtain ig m2 where
    "conds = cluster_force_ignored ig out (cluster_eval_conditions c m2)" by metis
  then have "conds (CCKey i) = cluster_eval_conditions c m2 (CCKey i)"
    using cluster_force_ignored_cases [of ig out _ "CCKey i"] by blast
  then show ?thesis by (cases i) (simp_all add: cluster_eval_conditions_eq)
qed

text \<open>Every validation of the code has a value, and so has every one that an operator reports.\<close>

lemma preprocess_validation_defined:
  assumes "cluster_preprocess v c = Inr (conds, out)" and "checked_status (Cluster_Status (cp_cluster c))"
    and "i \<in> fst ` set (newClusterValidations v) \<or>
         (\<exists>rs. cv_ValidateCluster v (cp_cluster c) = Inr rs \<and> i \<in> COR_ValidationId ` set rs)"
  shows "conds (CVKey i) \<noteq> None"
proof -
  from cluster_preprocess_steps [OF assms(1,2)] obtain ig m1 out1 rs m2 out2 where s:
    "cluster_eval_validations v (cluster_overridden c) c (newClusterValidations v) (Map.empty, []) = Inr (m1, out1)"
    "cv_ValidateCluster v (cp_cluster c) = Inr rs"
    "cluster_eval_operators rs (m1, out1) = Inr (m2, out2)"
    "conds = cluster_force_ignored ig out (cluster_eval_conditions c m2)" by metis
  have "m2 (CVKey i) \<noteq> None"
    using cluster_eval_validations_conds [OF s(1) subset_refl, of "CVKey i"] assms(3) s(2)
      cluster_eval_operators_value [OF s(3), of "CVKey i"]
    by (auto simp: find_None_iff split: option.splits)
  then show ?thesis
    using cluster_force_ignored_cases [of ig out "cluster_eval_conditions c m2" "CVKey i"] s(4)
    by (auto simp: cluster_eval_conditions_eq)
qed

text \<open>A validation that may not be ignored passes only on its merits, or when it is disabled.\<close>

lemma cluster_not_ignored: "i \<in> set NonIgnorableClusterValidations \<Longrightarrow> \<not> should_ignore ig i"
  by (auto simp: should_ignore_def ShouldIgnoreValidation_def MayIgnoreValidation_def
      NonIgnorableClusterValidations_def)

lemma preprocess_validation_merit:
  assumes "cluster_preprocess v c = Inr (conds, out)" and "checked_status (Cluster_Status (cp_cluster c))"
    and "i \<in> set NonIgnorableClusterValidations"
    and "\<And>rs. cv_ValidateCluster v (cp_cluster c) = Inr rs \<Longrightarrow> i \<notin> COR_ValidationId ` set rs"
  shows "conds (CVKey i) = Some (cluster_passes v (cluster_overridden c) c i)"
proof -
  from cluster_preprocess_steps [OF assms(1,2)] obtain ig m1 out1 rs m2 out2 where s:
    "cluster_eval_validations v (cluster_overridden c) c (newClusterValidations v) (Map.empty, []) = Inr (m1, out1)"
    "cv_ValidateCluster v (cp_cluster c) = Inr rs"
    "cluster_eval_operators rs (m1, out1) = Inr (m2, out2)"
    "conds = cluster_force_ignored ig out (cluster_eval_conditions c m2)" by metis
  have mem: "i \<in> fst ` set (newClusterValidations v)"
    using assms(3) unfolding set_map [symmetric] newClusterValidations_ids
    by (auto simp: NonIgnorableClusterValidations_def)
  have "find (\<lambda>r. CVKey (COR_ValidationId r) = CVKey i) (rev rs) = None"
    using assms(4) [OF s(2)] by (auto simp: find_None_iff)
  then have "m2 (CVKey i) = Some (cluster_passes v (cluster_overridden c) c i)"
    using cluster_eval_validations_conds [OF s(1) subset_refl, of "CVKey i"] mem
      cluster_eval_operators_value [OF s(3), of "CVKey i"] by simp
  then show ?thesis
    using cluster_force_ignored_cases [of ig out "cluster_eval_conditions c m2" "CVKey i"]
      cluster_not_ignored [OF assms(3), of ig] s(4)
    by (auto simp: cluster_eval_conditions_eq)
qed

text \<open>Preprocessing fails only when a list cannot be decoded or an operator reports an unknown validation.\<close>

lemma cluster_eval_validation_total:
  "x \<in> set (newClusterValidations v) \<Longrightarrow> \<exists>st'. cluster_eval_validation v ovr c x st = Inr st'"
proof -
  assume "x \<in> set (newClusterValidations v)"
  then have "fst x \<in> set (map fst (newClusterValidations v))" by simp
  then have "\<exists>cat. Category (fst x) = Inr cat"
    unfolding newClusterValidations_ids by (intro Category_known) auto
  then show ?thesis
    by (cases x; cases st) (auto simp: cluster_eval_validation_def Let_def)
qed

lemma cluster_eval_validations_total:
  "set xs \<subseteq> set (newClusterValidations v) \<Longrightarrow> \<exists>st'. cluster_eval_validations v ovr c xs st = Inr st'"
proof (induction xs arbitrary: st)
  case (Cons x xs)
  obtain st1 where "cluster_eval_validation v ovr c x st = Inr st1"
    using cluster_eval_validation_total [of x v ovr c st] Cons.prems by auto
  then show ?case using Cons.IH [of st1] Cons.prems by simp
qed simp

lemma cluster_eval_operators_total:
  "list_all (\<lambda>r. \<exists>cat. Category (COR_ValidationId r) = Inr cat) rs \<Longrightarrow> \<exists>st'. cluster_eval_operators rs st = Inr st'"
  by (induction rs st rule: cluster_eval_operators.induct) (auto simp: Let_def)

lemma cluster_preprocess_total:
  assumes "\<not> cluster_overridden c \<or> (\<exists>l. DeserializeJSONList (m_validator (cv_hostAPI v))
             (Cluster_IgnoredClusterValidations (cp_cluster c)) = Inr l)"
    and "cv_ValidateCluster v (cp_cluster c) = Inr rs"
    and "list_all (\<lambda>r. \<exists>cat. Category (COR_ValidationId r) = Inr cat) rs"
  shows "\<exists>conds out. cluster_preprocess v c = Inr (conds, out)"
proof -
  obtain st1 where "cluster_eval_validations v (cluster_overridden c) c (newClusterValidations v) (Map.empty, []) = Inr st1"
    using cluster_eval_validations_total [OF subset_refl] by blast
  moreover obtain m2 out2 where "cluster_eval_operators rs st1 = Inr (m2, out2)"
    using cluster_eval_operators_total [OF assms(3), of st1] by auto
  ultimately show ?thesis
    using assms(1,2) by (auto simp: cluster_preprocess_def cluster_overridden_def Let_def)
qed

end
