(* ===== verification/Cluster_Transition.thy ===== *)
theory Cluster_Transition
  imports Cluster_Preprocess
begin

text \<open>
  The transition handler of the cluster state machine, \<open>internal/cluster/transition.go\<close>: the conditions,
  the transition and the post transitions that the rules of the machine refer to, with
  \<open>CompleteInstallation\<close> and \<open>IsOperatorAvailable\<close> of \<open>cluster.go\<close> that they call and the update of the
  tables of VIPs in \<open>internal/network/utils.go\<close>. The account management service, DNS, the object store
  and the choice of a single node's address are parameters. Metrics are not modelled.
\<close>

section \<open>Handler and arguments\<close>

record ocm_client =
  UpdateSubscriptionConsoleUrl :: "string \<Rightarrow> string \<Rightarrow> go_error option"
  UpdateSubscriptionStatusActive :: "string \<Rightarrow> go_error option"

text \<open>
  \<open>transitionHandler\<close> with the interfaces that \<open>refreshStatusInternal\<close> passes in the arguments of a refresh
  (\<open>hostApi\<close>, \<open>objectHandler\<close>, \<open>ocmClient\<close>, \<open>dnsApi\<close>).
\<close>

record cluster_handler =
  PrepareForInstallationTimeout :: duration
  LogCollectionTimeout :: duration
  LogPendingTimeout :: duration
  installationTimeout :: duration
  finalizingTimeout :: duration
  softTimeoutsEnabled_c :: bool
  stageEnv :: stage_env
  hostApi :: manager
  DoesObjectExist :: "string \<Rightarrow> go_error + bool"
  ocmClient :: "ocm_client option"
  CreateDNSRecordSets :: "cluster \<Rightarrow> go_error option"
  GetIpForSingleNodeInstallation :: "cluster \<Rightarrow> go_error + string"

datatype cluster_args =
    ArgsCancelInstallation string
  | ArgsResetCluster string
  | ArgsPrepareForInstallation
  | ArgsRefreshCluster cluster_conditions cluster_validations_status

type_synonym cluster_condition = "(cluster_ctx, cluster_args) condition"
type_synonym cluster_action = "(cluster_ctx, cluster_args) action"

definition cluster_resetLogsField :: "cluster_value list" where
  "cluster_resetLogsField =
     [CName CC_logs_info, CLogs LogsStateEmpty, CName CC_controller_logs_started_at, CTime 0,
      CName CC_controller_logs_collected_at, CTime 0]"

definition cluster_resetProgressFields :: "cluster_value list" where
  "cluster_resetProgressFields =
     [CName CC_progress_finalizing_stage_percentage, CNum 0,
      CName CC_progress_installing_stage_percentage, CNum 0,
      CName CC_progress_preparing_for_installation_stage_percentage, CNum 0,
      CName CC_progress_total_percentage, CNum 0,
      CName CC_progress_finalizing_stage_timed_out, CBool False,
      CName CC_progress_finalizing_stage, CStage FinalizingStageEmpty,
      CName CC_progress_finalizing_stage_started_at, CTime 0]"

definition cluster_resetFields :: "cluster_value list" where
  "cluster_resetFields =
     cluster_resetProgressFields @ cluster_resetLogsField @ [CName CC_openshift_cluster_id, CString '''']"

definition resetInstallationPreparationStatusFields :: "cluster_value list" where
  "resetInstallationPreparationStatusFields =
     [CName CC_last_installation_preparation_status, CPreparation LastInstallationPreparationStatusNotStarted,
      CName CC_last_installation_preparation_reason, CString InstallationPreparationReasonNotPerformed]"

section \<open>VIPs\<close>

text \<open>
  \<open>UpdateVipsTables\<close> with both flags set. The statements are executed through \<open>db\<close> and not through the
  transaction \<open>tx\<close> around them, so each one takes effect at once. \<open>Save\<close> inserts a row unless one with
  its key exists.
\<close>

definition delete_vips :: "((string list \<Rightarrow> string list) \<Rightarrow> cluster \<Rightarrow> cluster) \<Rightarrow> uuid \<Rightarrow> world \<Rightarrow> go_error option \<times> world" where
  "delete_vips set_vips clusterId w =
     (if w_dbfault w DeleteVips then (Some (ApiError 500 (ErrWrapf ''failed to delete vips'' ErrDB)), w)
      else (None, update_clusters (\<lambda>c. Cluster_ID c = clusterId) (set_vips (\<lambda>_. [])) w))"

fun save_vips ::
  "((string list \<Rightarrow> string list) \<Rightarrow> cluster \<Rightarrow> cluster) \<Rightarrow> uuid \<Rightarrow> string list \<Rightarrow> world \<Rightarrow> go_error option \<times> world" where
  "save_vips set_vips clusterId [] w = (None, w)"
| "save_vips set_vips clusterId (vip # vips) w =
     (if w_dbfault w SaveVips then (Some (ApiError 500 (ErrWrapf ''failed to update cluster vip'' ErrDB)), w)
      else save_vips set_vips clusterId vips
             (update_clusters (\<lambda>c. Cluster_ID c = clusterId)
                (set_vips (\<lambda>old. if List.member old vip then old else old @ [vip])) w))"

definition replace_vips ::
  "((string list \<Rightarrow> string list) \<Rightarrow> cluster \<Rightarrow> cluster) \<Rightarrow> uuid \<Rightarrow> string list \<Rightarrow> world \<Rightarrow> go_error option \<times> world" where
  "replace_vips set_vips clusterId vips w =
     (case delete_vips set_vips clusterId w of
        (Some err, w1) \<Rightarrow> (Some err, w1)
      | (None, w1) \<Rightarrow> save_vips set_vips clusterId vips w1)"

definition UpdateVipsTables :: "uuid \<Rightarrow> string list \<Rightarrow> string list \<Rightarrow> world \<Rightarrow> go_error option \<times> world" where
  "UpdateVipsTables clusterId apiVips ingressVips w =
     (case replace_vips Cluster_APIVips_update clusterId apiVips w of
        (Some err, w1) \<Rightarrow> (Some err, w1)
      | (None, w1) \<Rightarrow> replace_vips Cluster_IngressVips_update clusterId ingressVips w1)"

section \<open>Reasons\<close>

text \<open>\<open>fmt.Sprintf\<close> for templates whose verbs are \<open>%s\<close> and \<open>%d\<close>, with the printed arguments.\<close>

fun Sprintf :: "string \<Rightarrow> string list \<Rightarrow> string" where
  "Sprintf [] vs = []"
| "Sprintf [c] vs = [c]"
| "Sprintf (c # d # cs) vs =
     (if c = CHR ''%'' \<and> (d = CHR ''s'' \<or> d = CHR ''d'') \<and> vs \<noteq> []
      then hd vs @ Sprintf cs (tl vs) else c # Sprintf (d # cs) vs)"

datatype formatFunction = FinalizingStage_fn | FinalizingStageTimeoutMinutes | InstallationTimeoutMinutes

definition isSoftTimeoutsEnabled :: "cluster_handler \<Rightarrow> cluster \<Rightarrow> bool" where
  "isSoftTimeoutsEnabled th c \<longleftrightarrow> softTimeoutsEnabled_c th \<and> Cluster_OrgSoftTimeoutsEnabled c"

definition finalizingStageTimeoutMinutes :: "cluster_handler \<Rightarrow> cluster \<Rightarrow> cluster_progress \<Rightarrow> int" where
  "finalizingStageTimeoutMinutes th c p =
     whole_minutes (finalizingStageTimeout (stageEnv th) (FinalizingStage p) (Cluster_MonitoredOperators c)
       (isSoftTimeoutsEnabled th c))"

definition format_value :: "cluster_handler \<Rightarrow> cluster \<Rightarrow> formatFunction \<Rightarrow> go_error + string" where
  "format_value th c f =
     (case f of
        InstallationTimeoutMinutes \<Rightarrow> Inr (int_digits (whole_minutes (installationTimeout th)))
      | FinalizingStage_fn \<Rightarrow>
          (case Cluster_Progress c of
             None \<Rightarrow> Inl nil_deref | Some p \<Rightarrow> Inr (finalizing_stage_string (FinalizingStage p)))
      | FinalizingStageTimeoutMinutes \<Rightarrow>
          (case Cluster_Progress c of
             None \<Rightarrow> Inl nil_deref | Some p \<Rightarrow> Inr (int_digits (finalizingStageTimeoutMinutes th c p))))"

fun format_values :: "cluster_handler \<Rightarrow> cluster \<Rightarrow> formatFunction list \<Rightarrow> go_error + string list" where
  "format_values th c [] = Inr []"
| "format_values th c (f # fs) =
     (case format_value th c f of
        Inl err \<Rightarrow> Inl err
      | Inr v \<Rightarrow> (case format_values th c fs of Inl err \<Rightarrow> Inl err | Inr vs \<Rightarrow> Inr (v # vs)))"

definition computeReason :: "cluster_handler \<Rightarrow> cluster \<Rightarrow> string \<Rightarrow> formatFunction list \<Rightarrow> go_error + string" where
  "computeReason th c template formatFuncs =
     (case format_values th c formatFuncs of Inl err \<Rightarrow> Inl err | Inr vs \<Rightarrow> Inr (Sprintf template vs))"

definition SendClusterInstallationFailedEvent ::
  "cluster_handler \<Rightarrow> string \<Rightarrow> formatFunction list \<Rightarrow> cluster_action" where
  "SendClusterInstallationFailedEvent th template formatFuncs sc args =
     (if stateCluster_State sc \<noteq> ClusterStatusError then (None, sc)
      else (case args of
              ArgsRefreshCluster _ _ \<Rightarrow>
                (case computeReason th (sc_cluster sc) template formatFuncs of
                   Inl err \<Rightarrow> (Some err, sc)
                 | Inr reason \<Rightarrow>
                     (None, sc\<lparr>sc_world := send_event
                        (ClusterInstallationFailedEvent (Cluster_ID (sc_cluster sc)) reason) (sc_world sc)\<rparr>))
            | _ \<Rightarrow> (Some (ErrNew ''SendErrorEvent incompatible type of args''), sc)))"

section \<open>Cancel, reset and prepare\<close>

text \<open>
  \<open>updateClusterStatus\<close> may return a nil cluster without an error; the state switch then holds nil, which
  nothing reads any more. Here it keeps its cluster.
\<close>

definition updateTransitionCluster ::
  "cluster_ctx \<Rightarrow> string \<Rightarrow> cluster_value list \<Rightarrow> go_error option \<times> cluster_ctx" where
  "updateTransitionCluster state statusInfo extra =
     (case updateClusterStatus (Cluster_ID (sc_cluster state)) (sc_srcState state)
             (Cluster_Status (sc_cluster state)) statusInfo extra (sc_world state) of
        (Inl err, w) \<Rightarrow> (Some err, state\<lparr>sc_world := w\<rparr>)
      | (Inr None, w) \<Rightarrow> (None, state\<lparr>sc_world := w\<rparr>)
      | (Inr (Some c), w) \<Rightarrow> (None, state\<lparr>sc_world := w, sc_cluster := c\<rparr>))"

definition cluster_PostCancelInstallation :: cluster_action where
  "cluster_PostCancelInstallation sc args =
     (case args of
        ArgsCancelInstallation reason \<Rightarrow> updateTransitionCluster sc reason []
      | _ \<Rightarrow> (Some (ErrNew ''PostCancelInstallation invalid argument''), sc))"

definition PostResetCluster :: cluster_action where
  "PostResetCluster sc args =
     (case args of
        ArgsResetCluster reason \<Rightarrow>
          (case (if IsSingleNodeCluster (sc_cluster sc)
                 then UpdateVipsTables (Cluster_ID (sc_cluster sc)) [] [] (sc_world sc)
                 else (None, sc_world sc)) of
             (Some err, w) \<Rightarrow> (Some err, sc\<lparr>sc_world := w\<rparr>)
           | (None, w) \<Rightarrow>
               updateTransitionCluster (sc\<lparr>sc_world := w\<rparr>) reason
                 (cluster_resetFields @ resetInstallationPreparationStatusFields))
      | _ \<Rightarrow> (Some (ErrNew ''PostResetCluster invalid argument''), sc))"

definition PostPrepareForInstallation :: cluster_action where
  "PostPrepareForInstallation sc args =
     (case args of
        ArgsPrepareForInstallation \<Rightarrow>
          updateTransitionCluster sc cluster_statusInfoPreparingForInstallation
            ([CName CC_install_started_at, CTime (w_now (sc_world sc))] @ cluster_resetLogsField @
             resetInstallationPreparationStatusFields)
      | _ \<Rightarrow> (Some (ErrNew ''PostPrepareForInstallation invalid argument''), sc))"

section \<open>Completing the installation\<close>

text \<open>
  \<open>getClusterMonitoringOperatorsStatus\<close>: the operators of a type, by their status. The map has an entry for
  every status that occurs.
\<close>

definition operators_in :: "cluster \<Rightarrow> operator_type \<Rightarrow> operator_status \<Rightarrow> string list" where
  "operators_in c t s =
     map MO_Name (filter (\<lambda>m. MO_OperatorType m = t \<and> MO_Status m = s) (Cluster_MonitoredOperators c))"

definition countOperatorsInAllStatuses :: "cluster \<Rightarrow> operator_type \<Rightarrow> nat" where
  "countOperatorsInAllStatuses c t =
     sum_list (map (\<lambda>s. length (operators_in c t s))
       [OperatorStatusEmpty, OperatorStatusFailed, OperatorStatusProgressing, OperatorStatusAvailable])"

definition haveBuiltinOperatorsComplete :: "cluster \<Rightarrow> bool" where
  "haveBuiltinOperatorsComplete c \<longleftrightarrow>
     length (operators_in c OperatorTypeBuiltin OperatorStatusAvailable) =
     countOperatorsInAllStatuses c OperatorTypeBuiltin"

definition haveOLMOperatorsComplete :: "cluster \<Rightarrow> bool" where
  "haveOLMOperatorsComplete c \<longleftrightarrow>
     length (operators_in c OperatorTypeOlm OperatorStatusAvailable) +
     length (operators_in c OperatorTypeOlm OperatorStatusFailed) =
     countOperatorsInAllStatuses c OperatorTypeOlm"

definition getClusterMonitoringOperatorsStatus :: "cluster \<Rightarrow> bool" where
  "getClusterMonitoringOperatorsStatus c \<longleftrightarrow> haveBuiltinOperatorsComplete c \<and> haveOLMOperatorsComplete c"

definition createClusterCompletionStatusInfo :: "cluster \<Rightarrow> world \<Rightarrow> string \<times> world" where
  "createClusterCompletionStatusInfo c w =
     (let failed = operators_in c OperatorTypeOlm OperatorStatusFailed;
          failedOperators = ''. Failed OLM operators: '' @ Join failed '', ''
      in if \<not> (countOperatorsInAllStatuses c OperatorTypeOlm = 0 \<or> length failed = 0)
         then (cluster_StatusInfoDegraded @ failedOperators,
               send_event (ClusterDegradedOLMOperatorsFailedEvent (Cluster_ID c) failedOperators) w)
         else (case HostsInStatus (Cluster_Hosts c) [HostStatusInstalled] of (_, _, installedWorkers) \<Rightarrow>
                 (if installedWorkers < NumberOfWorkers c then cluster_StatusInfoNotAllWorkersInstalled
                  else cluster_statusInfoInstalled, w)))"

definition CompleteInstallation ::
  "cluster_handler \<Rightarrow> cluster \<Rightarrow> string \<Rightarrow> world \<Rightarrow> (go_error + cluster option) \<times> world" where
  "CompleteInstallation th c reason w =
     (case (case ocmClient th of None \<Rightarrow> None
            | Some ocm \<Rightarrow> UpdateSubscriptionStatusActive ocm (Cluster_AmsSubscriptionID c)) of
        Some err \<Rightarrow> (Inl (ErrWrapf ''Failed to update AMS subscription for cluster with status Active'' err), w)
      | None \<Rightarrow>
          (case updateClusterStatus (Cluster_ID c) ClusterStatusFinalizing ClusterStatusInstalled reason
                  [CName CC_progress_finalizing_stage_percentage, CNum 100,
                   CName CC_progress_total_percentage, CNum 100] w of
             (Inl err, w1) \<Rightarrow> (Inl (ErrWrapf ''Failed to update cluster completion in db'' err), w1)
           | (Inr r, w1) \<Rightarrow> (Inr r, send_event (ClusterInstallationCompletedEvent (Cluster_ID c)) w1)))"

definition PostCompleteInstallation :: "cluster_handler \<Rightarrow> cluster_action" where
  "PostCompleteInstallation th sc args =
     (case args of
        ArgsRefreshCluster _ _ \<Rightarrow>
          (case createClusterCompletionStatusInfo (sc_cluster sc) (sc_world sc) of (reason, w) \<Rightarrow>
             (case CompleteInstallation th (sc_cluster sc) reason w of
                (Inl err, w1) \<Rightarrow> (Some err, sc\<lparr>sc_world := w1\<rparr>)
              | (Inr r, w1) \<Rightarrow> (None, sc\<lparr>sc_world := w1, updatedCluster := r,
                    sc_cluster := (case r of None \<Rightarrow> sc_cluster sc | Some c \<Rightarrow> c)\<rparr>)))
      | _ \<Rightarrow> (Some (ErrNew ''PostCompleteInstallation invalid argument''), sc))"

definition hasClusterCompleteInstallation :: "cluster_handler \<Rightarrow> cluster_condition" where
  "hasClusterCompleteInstallation th sc args =
     (case args of
        ArgsRefreshCluster _ _ \<Rightarrow>
          (case DoesObjectExist th (Cluster_ID (sc_cluster sc) @ ''/kubeconfig'') of
             Inl err \<Rightarrow> Inl err
           | Inr exists \<Rightarrow>
               if \<not> exists then Inr False
               else if Cluster_MonitoredOperators (sc_cluster sc) = [] then Inr True
               else Inr (getClusterMonitoringOperatorsStatus (sc_cluster sc)))
      | _ \<Rightarrow> Inl (ErrNew ''hasClusterCompleteInstallation invalid argument''))"

section \<open>Conditions of a refresh\<close>

definition cluster_If :: "cluster_cond_key \<Rightarrow> cluster_condition" where
  "cluster_If k sc args =
     (case args of
        ArgsRefreshCluster conds _ \<Rightarrow>
          (case conds k of None \<Rightarrow> Inl (ErrNew ''If no such condition'') | Some b \<Rightarrow> Inr b)
      | _ \<Rightarrow> Inl (ErrNew ''If invalid argument''))"

definition IsFinalizing :: cluster_condition where
  "IsFinalizing sc args = Inr (HasEnoughMastersAndWorkers (sc_cluster sc) [HostStatusInstalled])"

definition installingStatuses :: "host_status list" where
  "installingStatuses =
     [HostStatusInstalling, HostStatusInstallingInProgress, HostStatusInstalled,
      HostStatusInstallingPendingUserAction, HostStatusPreparingSuccessful]"

definition IsInstalling :: cluster_condition where
  "IsInstalling sc args = Inr (HasEnoughMastersAndWorkers (sc_cluster sc) installingStatuses)"

definition areAllHostsDone :: cluster_condition where
  "areAllHostsDone sc args =
     Inr (list_all (\<lambda>h. List.member [HostStatusInstalled, HostStatusError] (Host_Status h))
            (Cluster_Hosts (sc_cluster sc)))"

definition IsInstallingPendingUserAction :: cluster_condition where
  "IsInstallingPendingUserAction sc args =
     Inr (list_ex (\<lambda>h. Host_Status h = HostStatusInstallingPendingUserAction) (Cluster_Hosts (sc_cluster sc)))"

definition IsOperatorAvailable :: "cluster \<Rightarrow> string \<Rightarrow> bool" where
  "IsOperatorAvailable c operatorName =
     (if Cluster_MonitoredOperators c = []
      then List.member [ClusterStatusInstalling, ClusterStatusFinalizing, ClusterStatusInstalled] (Cluster_Status c)
      else (case find (\<lambda>m. MO_Name m = operatorName) (Cluster_MonitoredOperators c) of
              None \<Rightarrow> False | Some m \<Rightarrow> MO_Status m = OperatorStatusAvailable))"

definition OperatorConsoleName :: string where
  "OperatorConsoleName = ''console''"

definition WithAMSSubscriptions :: "cluster_handler \<Rightarrow> cluster_condition" where
  "WithAMSSubscriptions th sc args =
     (case args of
        ArgsRefreshCluster _ _ \<Rightarrow>
          Inr (ocmClient th \<noteq> None \<and> \<not> Cluster_IsAmsSubscriptionConsoleUrlSet (sc_cluster sc) \<and>
               IsOperatorAvailable (sc_cluster sc) OperatorConsoleName)
      | _ \<Rightarrow> Inl (ErrNew ''WithAMSSubscriptions invalid argument''))"

definition GetConsoleUrl :: "string \<Rightarrow> string \<Rightarrow> string" where
  "GetConsoleUrl clusterName baseDomain =
     ''https://console-openshift-console.apps.'' @ clusterName @ ''.'' @ baseDomain"

definition PostUpdateFinalizingAMSConsoleUrl :: "cluster_handler \<Rightarrow> cluster_action" where
  "PostUpdateFinalizingAMSConsoleUrl th sc args =
     (case args of
        ArgsRefreshCluster _ _ \<Rightarrow>
          let c = sc_cluster sc in
          (case ocmClient th of
             None \<Rightarrow> (Some nil_deref, sc)
           | Some ocm \<Rightarrow>
               (case UpdateSubscriptionConsoleUrl ocm (Cluster_AmsSubscriptionID c)
                       (GetConsoleUrl (Cluster_Name c) (Cluster_BaseDNSDomain c)) of
                  Some err \<Rightarrow> (Some err, sc)
                | None \<Rightarrow>
                    (case UpdateCluster (Cluster_ID c) (sc_srcState sc)
                            [CName CC_is_ams_subscription_console_url_set, CBool True] (sc_world sc) of
                       (Inl err, w) \<Rightarrow> (Some err, sc\<lparr>sc_world := w\<rparr>)
                     | (Inr r, w) \<Rightarrow> (None, sc\<lparr>sc_world := w, updatedCluster := Some r\<rparr>))))
      | _ \<Rightarrow> (Some (ErrNew ''PostUpdateFinalizingAMSConsoleUrl invalid argument''), sc))"

definition since :: "cluster_ctx \<Rightarrow> time \<Rightarrow> duration" where
  "since sc t = Since (w_now (sc_world sc)) t"

definition IsInstallationTimedOut :: "cluster_handler \<Rightarrow> cluster_condition" where
  "IsInstallationTimedOut th sc args =
     Inr (since sc (Cluster_InstallStartedAt (sc_cluster sc)) > installationTimeout th)"

definition IsFinalizingTimedOut :: "cluster_handler \<Rightarrow> cluster_condition" where
  "IsFinalizingTimedOut th sc args =
     Inr (since sc (Cluster_StatusUpdatedAt (sc_cluster sc)) > finalizingTimeout th)"

definition cluster_IsPreparingTimedOut :: "cluster_handler \<Rightarrow> cluster_condition" where
  "cluster_IsPreparingTimedOut th sc args =
     Inr (since sc (Cluster_StatusUpdatedAt (sc_cluster sc)) > PrepareForInstallationTimeout th)"

definition IsFinalizingStageTimedOut :: "cluster_handler \<Rightarrow> cluster_condition" where
  "IsFinalizingStageTimedOut th sc args =
     (let c = sc_cluster sc in
      case Cluster_Progress c of
        None \<Rightarrow> Inr False
      | Some p \<Rightarrow>
          if FinalizingStage p = FinalizingStageEmpty then Inr False
          else Inr (since sc (FinalizingStageStartedAt p) >
                    finalizingStageTimeout (stageEnv th) (FinalizingStage p) (Cluster_MonitoredOperators c)
                      (isSoftTimeoutsEnabled th c)))"

definition finalizingStageTimeoutTriggered :: cluster_condition where
  "finalizingStageTimeoutTriggered sc args =
     Inr (case Cluster_Progress (sc_cluster sc) of None \<Rightarrow> False | Some p \<Rightarrow> FinalizingStageTimedOut p)"

definition cluster_SoftTimeoutsEnabled :: "cluster_handler \<Rightarrow> cluster_condition" where
  "cluster_SoftTimeoutsEnabled th sc args = Inr (isSoftTimeoutsEnabled th (sc_cluster sc))"

definition cluster_IsLogCollectionTimedOut :: "cluster_handler \<Rightarrow> cluster_condition" where
  "cluster_IsLogCollectionTimedOut th sc args =
     (let c = sc_cluster sc in
      if Cluster_LogsInfo c = LogsStateEmpty \<and> IsZero (Cluster_ControllerLogsStartedAt c)
      then Inr (since sc (Cluster_StatusUpdatedAt c) > LogPendingTimeout th)
      else if Cluster_LogsInfo c = LogsStateRequested \<and> IsZero (Cluster_ControllerLogsCollectedAt c)
      then Inr (since sc (Cluster_ControllerLogsStartedAt c) > LogCollectionTimeout th)
      else if Cluster_LogsInfo c = LogsStateRequested \<and> \<not> IsZero (Cluster_ControllerLogsCollectedAt c)
      then Inr (since sc (Cluster_ControllerLogsCollectedAt c) > LogCollectionTimeout th)
      else if Cluster_LogsInfo c = LogsStateCollecting
      then Inr (since sc (Cluster_ControllerLogsCollectedAt c) > LogCollectionTimeout th)
      else Inr False)"

definition isInFinalizingStages :: "finalizing_stage list \<Rightarrow> cluster_condition" where
  "isInFinalizingStages stages sc args =
     Inr (case Cluster_Progress (sc_cluster sc) of None \<Rightarrow> False | Some p \<Rightarrow> List.member stages (FinalizingStage p))"

section \<open>Post transitions of a refresh\<close>

definition PostRefreshFinalizingStageSoftTimedOut :: "cluster_handler \<Rightarrow> cluster_action" where
  "PostRefreshFinalizingStageSoftTimedOut th sc args =
     (case args of
        ArgsRefreshCluster _ _ \<Rightarrow>
          let c = sc_cluster sc in
          (case Cluster_Progress c of
             None \<Rightarrow> (Some nil_deref, sc)
           | Some p \<Rightarrow>
               let minutes = finalizingStageTimeoutMinutes th c p;
                   statusInfo = Sprintf cluster_statusInfoFinalizingStageSoftTimeout
                     [finalizing_stage_string (FinalizingStage p), int_digits minutes]
               in (case notifyFinalizingStageTimeout (Cluster_ID c) (sc_srcState sc) statusInfo
                          (FinalizingStage p) minutes [] (sc_world sc) of
                     (Inl err, w) \<Rightarrow> (Some err, sc\<lparr>sc_world := w\<rparr>)
                   | (Inr r, w) \<Rightarrow> (None, sc\<lparr>sc_world := w, updatedCluster := Some r\<rparr>)))
      | _ \<Rightarrow> (Some (ErrNew ''PostRefreshFinalizingStageSoftTimedOut invalid argument''), sc))"

definition InstallCluster :: "cluster_handler \<Rightarrow> cluster_action" where
  "InstallCluster th sc args =
     (case args of
        ArgsRefreshCluster _ _ \<Rightarrow> (CreateDNSRecordSets th (sc_cluster sc), sc)
      | _ \<Rightarrow> (Some (ErrNew ''InstallCluster invalid argument''), sc))"

definition cluster_PostRefreshLogsProgress :: "logs_state \<Rightarrow> cluster_action" where
  "cluster_PostRefreshLogsProgress progress sc args =
     (case updateLogsProgress (sc_cluster sc) progress (sc_world sc) of
        (err, c, w) \<Rightarrow> (err, sc\<lparr>sc_world := w, sc_cluster := c\<rparr>))"

text \<open>A failing transaction leaves the tables as they were; events and notifications have been sent.\<close>

definition rollback :: "world \<Rightarrow> world \<Rightarrow> world" where
  "rollback w w1 = w1\<lparr>w_hosts := w_hosts w, w_deleted_hosts := w_deleted_hosts w,
     w_clusters := w_clusters w, w_deleted_clusters := w_deleted_clusters w\<rparr>"

fun isPendingUserResetRequired :: "manager \<Rightarrow> host list \<Rightarrow> world \<Rightarrow> go_error + bool" where
  "isPendingUserResetRequired m [] w = Inr False"
| "isPendingUserResetRequired m (h # hs) w =
     (case IsRequireUserActionReset m h w of
        Inl err \<Rightarrow> Inl err
      | Inr b \<Rightarrow> if b then Inr True else isPendingUserResetRequired m hs w)"

fun reset_each :: "manager \<Rightarrow> host list \<Rightarrow> world \<Rightarrow> go_error option \<times> world" where
  "reset_each m [] w = (None, w)"
| "reset_each m (h # hs) w =
     (case ResetPendingUserAction m h w of
        (Some err, w1) \<Rightarrow> (Some err, w1) | (None, w1) \<Rightarrow> reset_each m hs w1)"

definition setPendingUserReset :: "manager \<Rightarrow> cluster \<Rightarrow> world \<Rightarrow> go_error option \<times> world" where
  "setPendingUserReset m c w =
     (case reset_each m (Cluster_Hosts c) w of
        (Some err, w1) \<Rightarrow> (Some err, rollback w w1) | (None, w1) \<Rightarrow> (None, w1))"

text \<open>An error of the transaction is only logged; the error that is returned here is a panic.\<close>

definition setPendingUserResetIfNeeded :: "manager \<Rightarrow> cluster \<Rightarrow> world \<Rightarrow> go_error option \<times> world" where
  "setPendingUserResetIfNeeded m c w =
     (if Cluster_Status c = ClusterStatusInsufficient
      then (case isPendingUserResetRequired m (Cluster_Hosts c) w of
              Inl err \<Rightarrow> (Some err, w)
            | Inr b \<Rightarrow> if b then (None, snd (setPendingUserReset m c w)) else (None, w))
      else (None, w))"

text \<open>The weight is the \<open>float64\<close> nearest to a tenth.\<close>

definition ProgressWeightPreparingForInstallationStage :: rat where
  "ProgressWeightPreparingForInstallationStage = f64 (1 / 10)"

definition initProgressParamsInstallingStage :: "cluster_value list" where
  "initProgressParamsInstallingStage =
     [CName CC_progress_preparing_for_installation_stage_percentage, CNum 100,
      CName CC_progress_total_percentage,
      CNum (int64 (fmul ProgressWeightPreparingForInstallationStage (float64 100)))]"

definition updateSNOClusterVips :: "cluster_handler \<Rightarrow> cluster \<Rightarrow> world \<Rightarrow> go_error option \<times> world" where
  "updateSNOClusterVips th c w =
     (if Cluster_Status c = ClusterStatusInstalling
      then (case GetIpForSingleNodeInstallation th c of
              Inl err \<Rightarrow> (Some err, w)
            | Inr hostIP \<Rightarrow> UpdateVipsTables (Cluster_ID c) [hostIP] [hostIP] w)
      else (None, w))"

definition addExtraParams :: "cluster_status \<Rightarrow> cluster_status \<Rightarrow> time \<Rightarrow> cluster_value list" where
  "addExtraParams status src now =
     (if status = ClusterStatusInstalling \<and> src = ClusterStatusPreparingForInstallation
      then initProgressParamsInstallingStage
      else if status = ClusterStatusFinalizing \<and> src = ClusterStatusInstallingPendingUserAction
      then [CName CC_progress_finalizing_stage_started_at, CTime now,
            CName CC_progress_finalizing_stage_timed_out, CBool False]
      else [])"

text \<open>The end of the post transitions below: the hosts of the written cluster may have to be reset.\<close>

definition finish_refresh ::
  "cluster_handler \<Rightarrow> cluster_ctx \<Rightarrow> cluster option \<Rightarrow> world \<Rightarrow> go_error option \<times> cluster_ctx" where
  "finish_refresh th sc r w =
     (let cluster = (case r of None \<Rightarrow> sc_cluster sc | Some c \<Rightarrow> c);
          upd = (case r of None \<Rightarrow> updatedCluster sc | Some c \<Rightarrow> Some c)
      in case setPendingUserResetIfNeeded (hostApi th) cluster w of
           (err, w1) \<Rightarrow> (err, sc\<lparr>sc_world := w1, updatedCluster := upd\<rparr>))"

definition PostRefreshCluster :: "cluster_handler \<Rightarrow> string \<Rightarrow> formatFunction list \<Rightarrow> cluster_action" where
  "PostRefreshCluster th template formatFuncs sc args =
     (case args of
        ArgsRefreshCluster _ _ \<Rightarrow>
          let c = sc_cluster sc in
          (case computeReason th c template formatFuncs of
             Inl err \<Rightarrow> (Some err, sc)
           | Inr reason \<Rightarrow>
               if sc_srcState sc \<noteq> Cluster_Status c \<or> reason \<noteq> Cluster_StatusInfo c
               then (case (if IsSingleNodeCluster c then updateSNOClusterVips th c (sc_world sc)
                           else (None, sc_world sc)) of
                       (Some err, w) \<Rightarrow> (Some err, sc\<lparr>sc_world := w\<rparr>)
                     | (None, w) \<Rightarrow>
                         (case updateClusterStatus (Cluster_ID c) (sc_srcState sc) (Cluster_Status c) reason
                                 (addExtraParams (Cluster_Status c) (sc_srcState sc) (w_now w)) w of
                            (Inl err, w1) \<Rightarrow> (Some err, sc\<lparr>sc_world := w1\<rparr>)
                          | (Inr r, w1) \<Rightarrow> finish_refresh th sc r w1))
               else finish_refresh th sc None (sc_world sc))
      | _ \<Rightarrow> (Some (ErrNew ''PostRefreshCluster invalid argument''), sc))"

definition preparing_timeout_cause :: string where
  "preparing_timeout_cause =
     ''Installation failed. Try again, and contact support if the issue persists.''"

text \<open>An error of the last update is only logged.\<close>

definition PostPreparingTimedOut :: "cluster_handler \<Rightarrow> cluster_action" where
  "PostPreparingTimedOut th sc args =
     (case args of
        ArgsRefreshCluster _ _ \<Rightarrow>
          let c = sc_cluster sc; reason = cluster_statusInfoPreparingForInstallationTimeout in
          (case (if sc_srcState sc \<noteq> Cluster_Status c \<or> reason \<noteq> Cluster_StatusInfo c
                 then updateClusterStatus (Cluster_ID c) (sc_srcState sc) (Cluster_Status c) reason [] (sc_world sc)
                 else (Inr None, sc_world sc)) of
             (res, w) \<Rightarrow>
               (case finish_refresh th sc (case res of Inl _ \<Rightarrow> None | Inr r \<Rightarrow> r) w of
                  (Some err, sc1) \<Rightarrow> (Some err, sc1)
                | (None, sc1) \<Rightarrow>
                    (case res of
                       Inl err \<Rightarrow> (Some err, sc1)
                     | Inr _ \<Rightarrow>
                         (None, sc1\<lparr>sc_world :=
                            send_event (InstallationPreparingTimedOutEvent (Cluster_ID c) preparing_timeout_cause)
                              (snd (update_by_id (Cluster_ID c)
                                 [(CC_last_installation_preparation_status,
                                     CPreparation LastInstallationPreparationStatusFailed),
                                  (CC_last_installation_preparation_reason, CString preparing_timeout_cause)]
                                 (sc_world sc1)))\<rparr>))))
      | _ \<Rightarrow> (Some (ErrNew ''PostRefreshCluster invalid argument''), sc))"

end
