(* ===== verification/Cluster_Statemachine.thy ===== *)
theory Cluster_Statemachine
  imports Cluster_Transition
begin

text \<open>
  The rules of the cluster state machine, \<open>NewClusterStateMachine\<close> of \<open>internal/cluster/statemachine.go\<close>, in
  the order in which they are added, and the machine that they build.
\<close>

datatype cluster_transition_type =
    TransitionTypeCancelInstallation_c
  | TransitionTypeResetCluster
  | TransitionTypePrepareForInstallation
  | TransitionTypeRefreshStatus

type_synonym cluster_rule =
  "(cluster_transition_type, cluster_status, cluster_ctx, cluster_args) transition_rule"

section \<open>Composed conditions\<close>

text \<open>Every callback runs; the errors are joined.\<close>

definition SequentialPostTransitions :: "cluster_action list \<Rightarrow> cluster_action" where
  "SequentialPostTransitions posts sc args =
     fold (\<lambda>post (ret, sc). case post sc args of
             (None, sc1) \<Rightarrow> (ret, sc1) | (Some err, sc1) \<Rightarrow> (Join_errors ret err, sc1)) posts (None, sc)"

abbreviation IfCV :: "cluster_validationID \<Rightarrow> cluster_condition" where
  "IfCV i \<equiv> cluster_If (CVKey i)"

abbreviation IfCC :: "cluster_conditionId \<Rightarrow> cluster_condition" where
  "IfCC i \<equiv> cluster_If (CCKey i)"

definition pendingIds :: "cluster_validationID list" where
  "pendingIds =
     [IsMachineCidrDefined_c, isClusterCidrDefined, isServiceCidrDefined, IsDNSDomainDefined, IsPullSecretSet]"

definition vipsDefinedIds :: "cluster_validationID list" where
  "vipsDefinedIds = [AreIngressVipsDefined, AreApiVipsDefined]"

definition requiredForInstallIds :: "cluster_validationID list" where
  "requiredForInstallIds =
     [IsMachineCidrEqualsToCalculatedCidr, AreApiVipsValid, AreIngressVipsValid, AllHostsAreReadyToInstall,
      SufficientMastersCount, networkPrefixValid, noCidrOverlapping, IsNtpServerConfigured,
      IsOdfRequirementsSatisfied, IsLsoRequirementsSatisfied, IsCnvRequirementsSatisfied,
      IsLvmRequirementsSatisfied, IsMceRequirementsSatisfied, IsMtvRequirementsSatisfied,
      IsOscRequirementsSatisfied, isNetworkTypeValid, IsCustomManifestsRequirementsSatisfied,
      NetworksSameAddressFamilies, IsNodeFeatureDiscoveryRequirementsSatisfied,
      IsNvidiaGPURequirementsSatisfied, IsPipelinesRequirementsSatisfied,
      IsServiceMeshRequirementsSatisfied, IsServerLessRequirementsSatisfied,
      IsOpenShiftAIRequirementsSatisfied, IsAuthorinoRequirementsSatisfied, IsNmstateRequirementsSatisfied,
      IsAMDGPURequirementsSatisfied, IsKMMRequirementsSatisfied, AreNodeHealthcheckRequirementsSatisfied_c,
      AreSelfNodeRemediationRequirementsSatisfied_c, AreFenceAgentsRemediationRequirementsSatisfied_c,
      AreNodeMaintenanceRequirementsSatisfied_c, AreKubeDeschedulerRequirementsSatisfied_c,
      AreClusterObservabilityRequirementsSatisfied_c, AreNUMAResourcesRequirementsSatisfied_c,
      AreOADPRequirementsSatisfied_c, AreMetallbRequirementsSatisfied, IsLokiRequirementsSatisfied,
      IsOpenShiftLoggingRequirementsSatisfied]"

definition pendingConditions :: cluster_condition where
  "pendingConditions = And (map IfCV pendingIds)"

definition vipsDefinedConditions :: cluster_condition where
  "vipsDefinedConditions = And (map IfCV vipsDefinedIds)"

definition requiredForInstall :: cluster_condition where
  "requiredForInstall = And (map IfCV requiredForInstallIds)"

definition requiredInputFieldsExistNonDhcp :: cluster_condition where
  "requiredInputFieldsExistNonDhcp = And [vipsDefinedConditions, pendingConditions]"

definition isSufficientForInstallDhcp :: cluster_condition where
  "isSufficientForInstallDhcp = And [requiredForInstall, vipsDefinedConditions]"

definition allRefreshStatusConditions :: cluster_condition where
  "allRefreshStatusConditions = And [pendingConditions, vipsDefinedConditions, requiredForInstall]"

section \<open>Rules\<close>

text \<open>Cancel, reset and the start of an installation.\<close>

definition cluster_control_rules :: "cluster_rule list" where
  "cluster_control_rules =
     [\<lparr>TransitionType = TransitionTypeCancelInstallation_c,
       SourceStates = [ClusterStatusInstalling, ClusterStatusInstallingPendingUserAction,
         ClusterStatusError, ClusterStatusFinalizing],
       DestinationState = ClusterStatusCancelled,
       Condition = None,
       Transition = None,
       PostTransition = Some (cluster_PostCancelInstallation)\<rparr>,
      \<lparr>TransitionType = TransitionTypeCancelInstallation_c,
       SourceStates = [ClusterStatusPreparingForInstallation],
       DestinationState = ClusterStatusReady,
       Condition = None,
       Transition = None,
       PostTransition = Some (cluster_PostCancelInstallation)\<rparr>,
      \<lparr>TransitionType = TransitionTypeResetCluster,
       SourceStates = [ClusterStatusPreparingForInstallation, ClusterStatusInstalling,
         ClusterStatusInstallingPendingUserAction, ClusterStatusError,
         ClusterStatusCancelled, ClusterStatusFinalizing],
       DestinationState = ClusterStatusInsufficient,
       Condition = None,
       Transition = None,
       PostTransition = Some (PostResetCluster)\<rparr>,
      \<lparr>TransitionType = TransitionTypePrepareForInstallation,
       SourceStates = [ClusterStatusReady],
       DestinationState = ClusterStatusPreparingForInstallation,
       Condition = None,
       Transition = None,
       PostTransition = Some (PostPrepareForInstallation)\<rparr>]"

text \<open>Refresh of a cluster before its installation.\<close>

definition cluster_discovery_rules :: "cluster_handler \<Rightarrow> cluster_rule list" where
  "cluster_discovery_rules th =
     [\<lparr>TransitionType = TransitionTypeRefreshStatus,
       SourceStates = [ClusterStatusPendingForInput, ClusterStatusReady, ClusterStatusInsufficient],
       DestinationState = ClusterStatusPendingForInput,
       Condition = Some (And [Not (IfCC VipDhcpAllocationSet), Not requiredInputFieldsExistNonDhcp]),
       Transition = None,
       PostTransition = Some (PostRefreshCluster th cluster_statusInfoPendingForInput [])\<rparr>,
      \<lparr>TransitionType = TransitionTypeRefreshStatus,
       SourceStates = [ClusterStatusPendingForInput, ClusterStatusReady, ClusterStatusInsufficient],
       DestinationState = ClusterStatusInsufficient,
       Condition = Some (And [Not (IfCC VipDhcpAllocationSet), requiredInputFieldsExistNonDhcp,
         Not requiredForInstall]),
       Transition = None,
       PostTransition = Some (PostRefreshCluster th cluster_StatusInfoInsufficient [])\<rparr>,
      \<lparr>TransitionType = TransitionTypeRefreshStatus,
       SourceStates = [ClusterStatusPendingForInput, ClusterStatusReady, ClusterStatusInsufficient],
       DestinationState = ClusterStatusPendingForInput,
       Condition = Some (And [IfCC VipDhcpAllocationSet, Not pendingConditions]),
       Transition = None,
       PostTransition = Some (PostRefreshCluster th cluster_statusInfoPendingForInput [])\<rparr>,
      \<lparr>TransitionType = TransitionTypeRefreshStatus,
       SourceStates = [ClusterStatusPendingForInput, ClusterStatusReady, ClusterStatusInsufficient],
       DestinationState = ClusterStatusInsufficient,
       Condition = Some (And [IfCC VipDhcpAllocationSet, pendingConditions, Not isSufficientForInstallDhcp]),
       Transition = None,
       PostTransition = Some (PostRefreshCluster th cluster_StatusInfoInsufficient [])\<rparr>,
      \<lparr>TransitionType = TransitionTypeRefreshStatus,
       SourceStates = [ClusterStatusPendingForInput, ClusterStatusReady, ClusterStatusInsufficient],
       DestinationState = ClusterStatusReady,
       Condition = Some (allRefreshStatusConditions),
       Transition = None,
       PostTransition = Some (PostRefreshCluster th cluster_StatusInfoReady [])\<rparr>]"

text \<open>Refresh of a cluster that prepares for its installation.\<close>

definition cluster_preparing_rules :: "cluster_handler \<Rightarrow> cluster_rule list" where
  "cluster_preparing_rules th =
     [\<lparr>TransitionType = TransitionTypeRefreshStatus,
       SourceStates = [ClusterStatusPreparingForInstallation],
       DestinationState = ClusterStatusReady,
       Condition = Some (And [cluster_IsPreparingTimedOut th, Not (IfCC FailedPreparingtHostsExist)]),
       Transition = None,
       PostTransition = Some (PostPreparingTimedOut th)\<rparr>,
      \<lparr>TransitionType = TransitionTypeRefreshStatus,
       SourceStates = [ClusterStatusPreparingForInstallation],
       DestinationState = ClusterStatusInstalling,
       Condition = Some (And [IfCC AllHostsPreparedSuccessfully, IfCC ClusterPreparationSucceeded]),
       Transition = Some (InstallCluster th),
       PostTransition = Some (PostRefreshCluster th cluster_statusInfoInstalling [])\<rparr>,
      \<lparr>TransitionType = TransitionTypeRefreshStatus,
       SourceStates = [ClusterStatusPreparingForInstallation],
       DestinationState = ClusterStatusInsufficient,
       Condition = Some (IfCC UnPreparingtHostsExist),
       Transition = None,
       PostTransition = Some (PostRefreshCluster th cluster_statusInfoUnpreparingHostExists [])\<rparr>,
      \<lparr>TransitionType = TransitionTypeRefreshStatus,
       SourceStates = [ClusterStatusPreparingForInstallation],
       DestinationState = ClusterStatusReady,
       Condition = Some (Or [IfCC FailedPreparingtHostsExist,
         And [Not (IfCC UnPreparingtHostsExist), IfCC ClusterPreparationFailed]]),
       Transition = None,
       PostTransition = Some (PostRefreshCluster th cluster_statusInfoClusterFailedToPrepare [])\<rparr>]"

text \<open>Failures and timeouts of an installation.\<close>

definition cluster_timeout_rules :: "cluster_handler \<Rightarrow> cluster_rule list" where
  "cluster_timeout_rules th =
     [\<lparr>TransitionType = TransitionTypeRefreshStatus,
       SourceStates = [ClusterStatusInstallingPendingUserAction],
       DestinationState = ClusterStatusError,
       Condition = Some (Not (Or [IsInstalling, IsFinalizing])),
       Transition = None,
       PostTransition = Some (SequentialPostTransitions [PostRefreshCluster th cluster_statusInfoError [],
         SendClusterInstallationFailedEvent th cluster_statusInfoError []])\<rparr>,
      \<lparr>TransitionType = TransitionTypeRefreshStatus,
       SourceStates = [ClusterStatusInstallingPendingUserAction],
       DestinationState = ClusterStatusError,
       Condition = Some (IsInstallationTimedOut th),
       Transition = None,
       PostTransition = Some (SequentialPostTransitions [PostRefreshCluster th cluster_statusInfoTimeout [],
         SendClusterInstallationFailedEvent th cluster_statusInfoTimeout []])\<rparr>,
      \<lparr>TransitionType = TransitionTypeRefreshStatus,
       SourceStates = [ClusterStatusInstalling, ClusterStatusFinalizing],
       DestinationState = ClusterStatusError,
       Condition = Some (And [IsInstallationTimedOut th, cluster_SoftTimeoutsEnabled th]),
       Transition = None,
       PostTransition = Some (SequentialPostTransitions [PostRefreshCluster th cluster_statusInfoInstallationTimeout [InstallationTimeoutMinutes],
         SendClusterInstallationFailedEvent th cluster_statusInfoInstallationTimeout [InstallationTimeoutMinutes]])\<rparr>,
      \<lparr>TransitionType = TransitionTypeRefreshStatus,
       SourceStates = [ClusterStatusFinalizing],
       DestinationState = ClusterStatusError,
       Condition = Some (And [IsFinalizingTimedOut th, Not (cluster_SoftTimeoutsEnabled th)]),
       Transition = None,
       PostTransition = Some (SequentialPostTransitions [PostRefreshCluster th cluster_statusInfoFinalizingTimeout [],
         SendClusterInstallationFailedEvent th cluster_statusInfoFinalizingTimeout []])\<rparr>,
      \<lparr>TransitionType = TransitionTypeRefreshStatus,
       SourceStates = [ClusterStatusFinalizing],
       DestinationState = ClusterStatusError,
       Condition = Some (And [Not (cluster_SoftTimeoutsEnabled th), IsFinalizingStageTimedOut th,
         Not (isInFinalizingStages nonFailingFinalizingStages)]),
       Transition = None,
       PostTransition = Some (SequentialPostTransitions [PostRefreshCluster th cluster_statusInfoFinalizingStageTimeout 
           [FinalizingStage_fn, FinalizingStageTimeoutMinutes],
         SendClusterInstallationFailedEvent th cluster_statusInfoFinalizingStageTimeout 
           [FinalizingStage_fn, FinalizingStageTimeoutMinutes]])\<rparr>,
      \<lparr>TransitionType = TransitionTypeRefreshStatus,
       SourceStates = [ClusterStatusFinalizing],
       DestinationState = ClusterStatusFinalizing,
       Condition = Some (And [Not finalizingStageTimeoutTriggered,
         Or [cluster_SoftTimeoutsEnabled th, isInFinalizingStages nonFailingFinalizingStages],
         IsFinalizingStageTimedOut th]),
       Transition = None,
       PostTransition = Some (PostRefreshFinalizingStageSoftTimedOut th)\<rparr>]"

text \<open>Progress of an installation.\<close>

definition cluster_installing_rules :: "cluster_handler \<Rightarrow> cluster_rule list" where
  "cluster_installing_rules th =
     [\<lparr>TransitionType = TransitionTypeRefreshStatus,
       SourceStates = [ClusterStatusInstallingPendingUserAction],
       DestinationState = ClusterStatusInstallingPendingUserAction,
       Condition = Some (And [IsInstallingPendingUserAction, Or [IsInstalling, IsFinalizing]]),
       Transition = None,
       PostTransition = None\<rparr>,
      \<lparr>TransitionType = TransitionTypeRefreshStatus,
       SourceStates = [ClusterStatusInstallingPendingUserAction],
       DestinationState = ClusterStatusInstalling,
       Condition = Some (And [Not IsInstallingPendingUserAction, IsInstalling, Not IsFinalizing]),
       Transition = None,
       PostTransition = Some (PostRefreshCluster th cluster_statusInfoInstalling [])\<rparr>,
      \<lparr>TransitionType = TransitionTypeRefreshStatus,
       SourceStates = [ClusterStatusInstallingPendingUserAction],
       DestinationState = ClusterStatusFinalizing,
       Condition = Some (And [Not IsInstallingPendingUserAction, IsFinalizing]),
       Transition = None,
       PostTransition = Some (PostRefreshCluster th cluster_statusInfoFinalizing [])\<rparr>,
      \<lparr>TransitionType = TransitionTypeRefreshStatus,
       SourceStates = [ClusterStatusInstalling, ClusterStatusFinalizing],
       DestinationState = ClusterStatusInstallingPendingUserAction,
       Condition = Some (And [Or [IsInstalling, IsFinalizing], IsInstallingPendingUserAction]),
       Transition = None,
       PostTransition = Some (PostRefreshCluster th cluster_statusInfoInstallingPendingUserAction [])\<rparr>,
      \<lparr>TransitionType = TransitionTypeRefreshStatus,
       SourceStates = [ClusterStatusInstalling],
       DestinationState = ClusterStatusFinalizing,
       Condition = Some (And [IsFinalizing, Not IsInstallingPendingUserAction]),
       Transition = None,
       PostTransition = Some (PostRefreshCluster th cluster_statusInfoFinalizing [])\<rparr>,
      \<lparr>TransitionType = TransitionTypeRefreshStatus,
       SourceStates = [ClusterStatusInstalling],
       DestinationState = ClusterStatusInstalling,
       Condition = Some (And [Not IsFinalizing, Not IsInstallingPendingUserAction, IsInstalling]),
       Transition = None,
       PostTransition = Some (PostRefreshCluster th cluster_statusInfoInstalling [])\<rparr>,
      \<lparr>TransitionType = TransitionTypeRefreshStatus,
       SourceStates = [ClusterStatusFinalizing],
       DestinationState = ClusterStatusFinalizing,
       Condition = Some (WithAMSSubscriptions th),
       Transition = None,
       PostTransition = Some (PostUpdateFinalizingAMSConsoleUrl th)\<rparr>,
      \<lparr>TransitionType = TransitionTypeRefreshStatus,
       SourceStates = [ClusterStatusFinalizing],
       DestinationState = ClusterStatusInstalled,
       Condition = Some (And [areAllHostsDone, hasClusterCompleteInstallation th]),
       Transition = None,
       PostTransition = Some (PostCompleteInstallation th)\<rparr>,
      \<lparr>TransitionType = TransitionTypeRefreshStatus,
       SourceStates = [ClusterStatusInstalling],
       DestinationState = ClusterStatusError,
       Condition = Some (And [Not IsFinalizing, Not IsInstalling]),
       Transition = None,
       PostTransition = Some (SequentialPostTransitions [PostRefreshCluster th cluster_statusInfoError [],
         SendClusterInstallationFailedEvent th cluster_statusInfoError []])\<rparr>]"

text \<open>The timeout of log collection, and the states that a refresh maintains.\<close>

definition cluster_final_rules :: "cluster_handler \<Rightarrow> cluster_rule list" where
  "cluster_final_rules th =
     map (\<lambda>state.
      \<lparr>TransitionType = TransitionTypeRefreshStatus,
       SourceStates = [state],
       DestinationState = state,
       Condition = Some (cluster_IsLogCollectionTimedOut th),
       Transition = None,
       PostTransition = Some (cluster_PostRefreshLogsProgress LogsStateTimeout)\<rparr>)
       [ClusterStatusError, ClusterStatusCancelled] @
     map (\<lambda>state.
      \<lparr>TransitionType = TransitionTypeRefreshStatus,
       SourceStates = [state],
       DestinationState = state,
       Condition = None,
       Transition = None,
       PostTransition = None\<rparr>)
       [ClusterStatusPreparingForInstallation, ClusterStatusFinalizing, ClusterStatusInstalled,
        ClusterStatusError, ClusterStatusCancelled, ClusterStatusAddingHosts, ClusterStatusUnmonitored]"

definition cluster_rules :: "cluster_handler \<Rightarrow> cluster_rule list" where
  "cluster_rules th =
     cluster_control_rules @ cluster_discovery_rules th @ cluster_preparing_rules th @
     cluster_timeout_rules th @ cluster_installing_rules th @ cluster_final_rules th"

definition NewClusterStateMachine ::
  "cluster_handler \<Rightarrow> (cluster_transition_type, cluster_status, cluster_ctx, cluster_args) state_machine" where
  "NewClusterStateMachine th = build_machine (cluster_rules th)"

definition cluster_Run ::
  "cluster_handler \<Rightarrow> cluster_transition_type \<Rightarrow> cluster_ctx \<Rightarrow> cluster_args \<Rightarrow> go_error option \<times> cluster_ctx" where
  "cluster_Run th = Run stateCluster_State stateCluster_SetState (NewClusterStateMachine th)"

lemmas cluster_rule_defs =
  cluster_control_rules_def cluster_discovery_rules_def cluster_preparing_rules_def
  cluster_timeout_rules_def cluster_installing_rules_def cluster_final_rules_def

lemma cluster_rules_exhaust: "\<exists>tr \<in> set (cluster_rules th). TransitionType tr = t"
  by (cases t) (auto simp: cluster_rules_def cluster_control_rules_def cluster_preparing_rules_def)

text \<open>A run tries the rules of its type in their order.\<close>

lemma cluster_Run_rules:
  "cluster_Run th t sc args =
     run_rules stateCluster_State stateCluster_SetState
       (filter (\<lambda>r. TransitionType r = t) (cluster_rules th)) sc args"
  unfolding cluster_Run_def NewClusterStateMachine_def
  by (rule Run_build_machine) (rule cluster_rules_exhaust)

end
