(* ===== verification/Cluster_Frame.thy ===== *)
theory Cluster_Frame
  imports Cluster_Statemachine Host_Frame
begin

text \<open>
  What a run of the cluster machine cannot change. Its callbacks write the database through the guarded
  update of a cluster, the update by identifier, the tables of VIPs and the reset of the cluster's hosts.
  A property of the database that these writes keep is kept by every run, successful or not. The
  interpretations give well-formedness, isolation from the other clusters, the events, the environment and
  what a run may do to hosts.
\<close>

definition cluster_closed :: "(uuid \<Rightarrow> world \<Rightarrow> bool) \<Rightarrow> cluster_action \<Rightarrow> bool" where
  "cluster_closed I f \<longleftrightarrow>
     (\<forall>sc args. I (Cluster_ID (sc_cluster sc)) (sc_world sc) \<longrightarrow>
        I (Cluster_ID (sc_cluster sc)) (sc_world (snd (f sc args))))"

lemma cluster_closedI:
  "(\<And>sc args. I (Cluster_ID (sc_cluster sc)) (sc_world sc) \<Longrightarrow>
      I (Cluster_ID (sc_cluster sc)) (sc_world (snd (f sc args)))) \<Longrightarrow> cluster_closed I f"
  by (simp add: cluster_closed_def)

lemma finish_refresh_world:
  "sc_world (snd (finish_refresh th sc r w)) =
     snd (setPendingUserResetIfNeeded (hostApi th) (case r of None \<Rightarrow> sc_cluster sc | Some c \<Rightarrow> c) w)"
  by (simp add: finish_refresh_def split: prod.splits)

locale cluster_frame =
  fixes I :: "uuid \<Rightarrow> world \<Rightarrow> bool"
  assumes update: "I k w \<Longrightarrow> I k (snd (UpdateCluster k s extra w))"
    and by_id: "I k w \<Longrightarrow> I k (snd (update_by_id k ups w))"
    and api_vips: "I k w \<Longrightarrow> I k (update_clusters (\<lambda>c. Cluster_ID c = k) (Cluster_APIVips_update g) w)"
    and ingress_vips: "I k w \<Longrightarrow> I k (update_clusters (\<lambda>c. Cluster_ID c = k) (Cluster_IngressVips_update g) w)"
    and event: "I k w \<Longrightarrow> I k (send_event e w)"
    and reset_host: "I k w \<Longrightarrow> I k (snd (ResetPendingUserAction m h w))"
    and rolled_back: "I k w \<Longrightarrow> I k w1 \<Longrightarrow> I k (rollback w w1)"
begin

lemma status: "I k w \<Longrightarrow> I k (snd (updateClusterStatus k s t info extra w))"
  using update [of k w s "cluster_status_extra (w_now w) s t info extra"] event
  by (auto simp: updateClusterStatus_def split: prod.splits sum.splits)

lemma stage_timeout: "I k w \<Longrightarrow> I k (snd (notifyFinalizingStageTimeout k s info st n extra w))"
  using update [of k w s "[CName CC_status_info, CString info, CName CC_progress_finalizing_stage_timed_out, CBool True] @ extra"]
    event
  by (auto simp: notifyFinalizingStageTimeout_def split: prod.splits sum.splits)

lemma logs: "I (Cluster_ID c) w \<Longrightarrow> I (Cluster_ID c) (snd (snd (updateLogsProgress c l w)))"
  using by_id [of "Cluster_ID c" w "if l = LogsStateRequested
      then [(CC_logs_info, CLogs l), (CC_controller_logs_started_at, CTime (w_now w))] else [(CC_logs_info, CLogs l)]"]
  by (auto simp: updateLogsProgress_def split: prod.splits sum.splits)

lemma save:
  assumes "\<And>g w. I k w \<Longrightarrow> I k (update_clusters (\<lambda>c. Cluster_ID c = k) (set_vips g) w)" and "I k w"
  shows "I k (snd (save_vips set_vips k vips w))"
  using assms(2) by (induction vips arbitrary: w) (auto simp: assms(1))

lemma replace:
  assumes "\<And>g w. I k w \<Longrightarrow> I k (update_clusters (\<lambda>c. Cluster_ID c = k) (set_vips g) w)" and "I k w"
  shows "I k (snd (replace_vips set_vips k vips w))"
  using save [of k set_vips, OF assms(1)] assms
  by (auto simp: replace_vips_def delete_vips_def split: prod.splits)

lemma vips: "I k w \<Longrightarrow> I k (snd (UpdateVipsTables k api ingress w))"
  using replace [of k Cluster_APIVips_update, OF api_vips, of w api]
    replace [of k Cluster_IngressVips_update, OF ingress_vips]
  by (auto simp: UpdateVipsTables_def split: prod.splits option.splits)

lemma sno_vips: "I (Cluster_ID c) w \<Longrightarrow> I (Cluster_ID c) (snd (updateSNOClusterVips th c w))"
  by (auto simp: updateSNOClusterVips_def vips split: sum.splits)

lemma reset_hosts: "I k w \<Longrightarrow> I k (snd (reset_each m hs w))"
  by (induction hs arbitrary: w) (auto split: prod.splits option.splits, (metis reset_host snd_conv)+)

lemma pending_reset: "I k w \<Longrightarrow> I k (snd (setPendingUserResetIfNeeded m c w))"
  using reset_hosts [of k w m "Cluster_Hosts c"]
  by (auto simp: setPendingUserResetIfNeeded_def setPendingUserReset_def rolled_back
      split: sum.splits prod.splits option.splits)

lemma finish: "I k w \<Longrightarrow> I k (sc_world (snd (finish_refresh th sc r w)))"
  by (simp add: finish_refresh_world pending_reset)

lemma transition:
  "I (Cluster_ID (sc_cluster sc)) (sc_world sc) \<Longrightarrow>
   I (Cluster_ID (sc_cluster sc)) (sc_world (snd (updateTransitionCluster sc info extra)))"
  using status [of "Cluster_ID (sc_cluster sc)" "sc_world sc" "sc_srcState sc" "Cluster_Status (sc_cluster sc)" info extra]
  by (auto simp: updateTransitionCluster_def split: prod.splits sum.splits option.splits)

lemma cluster_control_posts:
  "cluster_closed I cluster_PostCancelInstallation" "cluster_closed I PostPrepareForInstallation"
  by (auto intro!: cluster_closedI
      simp: cluster_PostCancelInstallation_def PostPrepareForInstallation_def transition split: cluster_args.splits)

text \<open>The same laws for a result that is at hand.\<close>

lemma after:
  "I k w \<Longrightarrow> UpdateCluster k s extra w = (r, w1) \<Longrightarrow> I k w1"
  "I k w \<Longrightarrow> updateClusterStatus k s t info extra w = (r2, w1) \<Longrightarrow> I k w1"
  "I k w \<Longrightarrow> notifyFinalizingStageTimeout k s info st n extra w = (r3, w1) \<Longrightarrow> I k w1"
  "I k w \<Longrightarrow> UpdateVipsTables k api ingress w = (e, w1) \<Longrightarrow> I k w1"
  using update [of k w s extra] status [of k w s t info extra] stage_timeout [of k w s info st n extra]
    vips [of k w api ingress] by auto

lemma after_logs: "I (Cluster_ID c) w \<Longrightarrow> updateLogsProgress c l w = (e, c1, w1) \<Longrightarrow> I (Cluster_ID c) w1"
  using logs [of c w l] by simp

lemma after_sno: "I (Cluster_ID c) w \<Longrightarrow> updateSNOClusterVips th c w = (e, w1) \<Longrightarrow> I (Cluster_ID c) w1"
  using sno_vips [of c w th] by simp

lemma reset_post: "cluster_closed I PostResetCluster"
proof (rule cluster_closedI)
  fix sc :: cluster_ctx and args
  let ?k = "Cluster_ID (sc_cluster sc)"
  assume I: "I ?k (sc_world sc)"
  obtain e w where v: "(if IsSingleNodeCluster (sc_cluster sc) then UpdateVipsTables ?k [] [] (sc_world sc)
      else (None, sc_world sc)) = (e, w)" by force
  then have "I ?k w" using I after(4) by (auto split: if_splits)
  then have "I ?k (sc_world (snd (updateTransitionCluster (sc\<lparr>sc_world := w\<rparr>) info extra)))" for info extra
    using transition [of "sc\<lparr>sc_world := w\<rparr>"] by simp
  with I \<open>I ?k w\<close> show "I ?k (sc_world (snd (PostResetCluster sc args)))"
    by (cases args; cases e) (simp_all add: PostResetCluster_def v)
qed

lemma write_posts:
  "cluster_closed I (PostUpdateFinalizingAMSConsoleUrl th)"
  "cluster_closed I (PostRefreshFinalizingStageSoftTimedOut th)"
  "cluster_closed I (cluster_PostRefreshLogsProgress l)" "cluster_closed I (InstallCluster th)"
  "cluster_closed I (SendClusterInstallationFailedEvent th tmpl fs)"
  by (auto intro!: cluster_closedI simp: PostUpdateFinalizingAMSConsoleUrl_def
      PostRefreshFinalizingStageSoftTimedOut_def cluster_PostRefreshLogsProgress_def InstallCluster_def
      SendClusterInstallationFailedEvent_def event Let_def
      split: cluster_args.splits option.splits prod.splits sum.splits dest: after after_logs)

lemma complete_post: "cluster_closed I (PostCompleteInstallation th)"
proof (rule cluster_closedI)
  fix sc :: cluster_ctx and args
  let ?c = "sc_cluster sc"
  assume I: "I (Cluster_ID ?c) (sc_world sc)"
  obtain reason w where cr: "createClusterCompletionStatusInfo ?c (sc_world sc) = (reason, w)" by force
  then have w: "I (Cluster_ID ?c) w"
    using I event by (auto simp: createClusterCompletionStatusInfo_def Let_def split: if_splits prod.splits)
  have "I (Cluster_ID ?c) (snd (CompleteInstallation th ?c reason w))"
    using status [OF w, of ClusterStatusFinalizing ClusterStatusInstalled reason] w event
    by (auto simp: CompleteInstallation_def split: option.splits prod.splits sum.splits) (metis snd_conv)+
  with I show "I (Cluster_ID ?c) (sc_world (snd (PostCompleteInstallation th sc args)))"
    by (auto simp: PostCompleteInstallation_def cr split: cluster_args.splits prod.splits sum.splits)
qed

lemma refresh_post: "cluster_closed I (PostRefreshCluster th tmpl fs)"
proof (rule cluster_closedI)
  fix sc :: cluster_ctx and args
  let ?c = "sc_cluster sc"
  let ?k = "Cluster_ID ?c"
  assume I: "I ?k (sc_world sc)"
  obtain e w where v: "(if IsSingleNodeCluster ?c then updateSNOClusterVips th ?c (sc_world sc)
      else (None, sc_world sc)) = (e, w)" by force
  then have w: "I ?k w" using I after_sno by (auto split: if_splits)
  have u: "I ?k (sc_world (snd (case updateClusterStatus ?k s t info extra w of
      (Inl err, w1) \<Rightarrow> (Some err, sc\<lparr>sc_world := w1\<rparr>) | (Inr r, w1) \<Rightarrow> finish_refresh th sc r w1)))"
    for s t info extra using after(2) [OF w] by (auto simp: finish split: prod.splits sum.splits)
  show "I ?k (sc_world (snd (PostRefreshCluster th tmpl fs sc args)))"
    using I w u v
    by (cases args; cases e; cases "IsSingleNodeCluster ?c")
       (auto simp: PostRefreshCluster_def Let_def finish split: sum.splits)
qed

lemma timeout_post: "cluster_closed I (PostPreparingTimedOut th)"
proof (rule cluster_closedI)
  fix sc :: cluster_ctx and args
  let ?c = "sc_cluster sc"
  let ?k = "Cluster_ID ?c"
  let ?upd = "if sc_srcState sc \<noteq> Cluster_Status ?c \<or>
      cluster_statusInfoPreparingForInstallationTimeout \<noteq> Cluster_StatusInfo ?c
    then updateClusterStatus ?k (sc_srcState sc) (Cluster_Status ?c)
      cluster_statusInfoPreparingForInstallationTimeout [] (sc_world sc)
    else (Inr None, sc_world sc)"
  assume I: "I ?k (sc_world sc)"
  obtain res w where upd: "?upd = (res, w)" by force
  have "I ?k (snd ?upd)" using I status by simp
  with upd have "I ?k w" by simp
  then have f: "I ?k (sc_world (snd (finish_refresh th sc r w)))" for r by (rule finish)
  show "I ?k (sc_world (snd (PostPreparingTimedOut th sc args)))"
  proof (cases "\<exists>x y. args = ArgsRefreshCluster x y")
    case True
    obtain e sc1 where fin: "finish_refresh th sc (case res of Inl _ \<Rightarrow> None | Inr r \<Rightarrow> r) w = (e, sc1)" by force
    with f [of "case res of Inl _ \<Rightarrow> None | Inr r \<Rightarrow> r"] have "I ?k (sc_world sc1)" by simp
    then show ?thesis
      using True upd fin by (auto simp: PostPreparingTimedOut_def Let_def by_id event split: option.splits sum.splits)
  qed (use I in \<open>auto simp: PostPreparingTimedOut_def split: cluster_args.splits\<close>)
qed

lemma failed_post:
  "cluster_closed I (SequentialPostTransitions [PostRefreshCluster th tmpl fs, SendClusterInstallationFailedEvent th tmpl fs])"
proof (rule cluster_closedI)
  fix sc :: cluster_ctx and args
  let ?k = "Cluster_ID (sc_cluster sc)"
  let ?sc1 = "snd (PostRefreshCluster th tmpl fs sc args)"
  assume "I ?k (sc_world sc)"
  then have "I ?k (sc_world ?sc1)" using refresh_post [of th tmpl fs] by (simp add: cluster_closed_def)
  moreover have "sc_cluster ?sc1 = sc_cluster sc"
    by (auto simp: PostRefreshCluster_def finish_refresh_def Let_def split: cluster_args.splits sum.splits prod.splits option.splits)
  ultimately have "I ?k (sc_world (snd (SendClusterInstallationFailedEvent th tmpl fs ?sc1 args)))"
    using write_posts(5) [of th tmpl fs] unfolding cluster_closed_def by metis
  then show "I ?k (sc_world (snd (SequentialPostTransitions
      [PostRefreshCluster th tmpl fs, SendClusterInstallationFailedEvent th tmpl fs] sc args)))"
    by (auto simp: SequentialPostTransitions_def split: prod.splits option.splits)
qed

lemmas all_posts = cluster_control_posts reset_post write_posts complete_post refresh_post timeout_post failed_post

lemma rule_groups:
  "\<forall>tr \<in> set (cluster_rules th).
     (case Transition tr of None \<Rightarrow> True | Some f \<Rightarrow> cluster_closed I f \<and> (\<forall>sc args. snd (f sc args) = sc)) \<and>
     (case PostTransition tr of None \<Rightarrow> True | Some f \<Rightarrow> cluster_closed I f)"
  unfolding cluster_rules_def
  by (simp add: cluster_rule_defs all_posts) (simp add: InstallCluster_def split: cluster_args.splits)

text \<open>A run, also one that fails.\<close>

lemma fire:
  assumes "tr \<in> set (cluster_rules th)" and "I (Cluster_ID (sc_cluster sc)) (sc_world sc)"
  shows "I (Cluster_ID (sc_cluster sc)) (sc_world (snd (fire stateCluster_SetState tr sc args)))"
proof -
  let ?sc1 = "sc\<lparr>sc_cluster := (sc_cluster sc)\<lparr>Cluster_Status := DestinationState tr\<rparr>\<rparr>"
  note g = bspec [OF rule_groups assms(1)]
  have tr: "snd (case Transition tr of None \<Rightarrow> (None, sc) | Some f \<Rightarrow> f sc args) = sc"
    using g by (auto split: option.splits)
  have "I (Cluster_ID (sc_cluster sc)) (sc_world (snd (f ?sc1 args)))" if "PostTransition tr = Some f" for f
  proof -
    from g that have "cluster_closed I f" by simp
    then have "I (Cluster_ID (sc_cluster ?sc1)) (sc_world ?sc1) \<Longrightarrow>
        I (Cluster_ID (sc_cluster ?sc1)) (sc_world (snd (f ?sc1 args)))" unfolding cluster_closed_def by blast
    with assms(2) show ?thesis by simp
  qed
  with assms(2) tr show ?thesis
    by (auto simp: fire_def stateCluster_SetState_def split: option.splits prod.splits)
qed

lemma run:
  assumes "I (Cluster_ID c) w"
  shows "I (Cluster_ID c) (sc_world (snd (cluster_Run th t (newStateCluster c w) args)))"
proof -
  let ?sc = "newStateCluster c w"
  let ?rs = "filter (\<lambda>r. TransitionType r = t) (cluster_rules th)"
  have "I (Cluster_ID c) (sc_world (snd (fire stateCluster_SetState tr ?sc args)))"
    if "select_rule stateCluster_State ?rs ?sc args = Inr (Some tr)" for tr
    using fire [of tr th ?sc args] select_rule_Some [OF that] assms by (simp add: newStateCluster_def)
  with assms show ?thesis
    by (auto simp: cluster_Run_rules run_rules_select newStateCluster_def split: sum.splits option.splits)
qed

end

section \<open>The writes\<close>

lemma update_by_id_cases:
  obtains (unchanged) "snd (update_by_id k ups w) = w"
  | (changed) f where "assign_each cluster_assign ups = Some f"
      "snd (update_by_id k ups w) = update_clusters (\<lambda>c. Cluster_ID c = k) f w"
proof (cases "assign_each cluster_assign ups")
  case (Some f)
  then show ?thesis using that by (cases "w_dbfault w UpdateClusters") (simp_all add: update_by_id_def)
qed (simp add: update_by_id_def that)

lemma assign_each_id: "assign_each cluster_assign ups = Some f \<Longrightarrow> Cluster_ID (f c) = Cluster_ID c"
  by (rule cluster_row.each_key)

lemma reset_rules:
  "\<forall>tr \<in> set (all_host_rules th). TransitionType tr = TransitionTypeResettingPendingUserAction \<longrightarrow>
     PostTransition tr = Some (PostResettingPendingUserAction th)"
  by (simp add: all_host_rules_def host_rules_def rule_defs)

lemma updateTransitionHost_clusters:
  "w_clusters (ctx_world (snd (updateTransitionHost th sh info extra))) = w_clusters (ctx_world sh)"
  using UpdateHostStatus_frame(3) [of "th_unmarshal th" "Host_InfraEnvID (sw_host sh)" "Host_ID (sw_host sh)"
      "srcState sh" "Host_Status (sw_host sh)" info extra "ctx_world sh"]
  by (auto simp: updateTransitionHost_def split: prod.splits sum.splits option.splits)

text \<open>The reset of a host does not write the table of clusters.\<close>

lemma ResetPendingUserAction_clusters: "w_clusters (snd (ResetPendingUserAction m h w)) = w_clusters w"
proof -
  let ?t = TransitionTypeResettingPendingUserAction
  let ?sh = "newStateHost h w"
  let ?a = TransitionResettingPendingUserAction
  let ?sel = "select_rule stateHost_State (rules_for (m_th m) ?t (stateHost_State ?sh)) ?sh ?a"
  have "w_clusters (ctx_world (snd (fire stateHost_SetState tr ?sh ?a))) = w_clusters w" if "?sel = Inr (Some tr)" for tr
  proof -
    from select_rule_Some [OF that] have tr: "tr \<in> set (all_host_rules (m_th m))" "TransitionType tr = ?t"
      by (auto simp: rules_for_def)
    then have "PostTransition tr = Some (PostResettingPendingUserAction (m_th m))" using reset_rules by blast
    with host_no_Transition [OF tr(1)] show ?thesis
      by (simp add: fire_def stateHost_SetState_def newStateHost_def PostResettingPendingUserAction_def
          updateTransitionHost_clusters)
  qed
  then have "w_clusters (snd (run_sm m ?t ?a h w)) = w_clusters w"
    by (auto simp: run_sm_def sm_Run_eq [OF rules_exist] newStateHost_def split: sum.splits option.splits prod.splits)
  then show ?thesis by (auto simp: ResetPendingUserAction_def split: prod.splits option.splits)
qed

lemma run_sm_world: "snd (run_sm m t a h w) = ctx_world (snd (sm_Run (m_th m) t (newStateHost h w) a))"
  by (simp add: run_sm_def split: prod.splits)

lemma ResetPendingUserAction_world:
  "\<exists>e. snd (ResetPendingUserAction m h w) =
     send_event e (snd (run_sm m TransitionTypeResettingPendingUserAction TransitionResettingPendingUserAction h w))"
  by (auto simp: ResetPendingUserAction_def split: prod.splits option.splits)

lemma ResetPendingUserAction_env:
  "w_now (snd (ResetPendingUserAction m h w)) = w_now w"
  "w_dbfault (snd (ResetPendingUserAction m h w)) = w_dbfault w"
  "w_deleted_hosts (snd (ResetPendingUserAction m h w)) = w_deleted_hosts w"
  "wf_world w \<Longrightarrow> wf_world (snd (ResetPendingUserAction m h w))"
  using ResetPendingUserAction_world [of m h w] environment.run [of w w] deleted_rows.run [of w w]
    wf_frame.run [of w]
  by (auto simp: run_sm_world)

lemma ResetPendingUserAction_events: "prefix (w_events w) (w_events (snd (ResetPendingUserAction m h w)))"
proof -
  obtain e where "snd (ResetPendingUserAction m h w) =
     send_event e (snd (run_sm m TransitionTypeResettingPendingUserAction TransitionResettingPendingUserAction h w))"
    using ResetPendingUserAction_world by blast
  then show ?thesis
    using event_log.run [OF prefix_order.refl, of w] by (simp add: run_sm_world prefix_prefix)
qed

section \<open>Interpretations\<close>

lemma rollback_tables [simp]:
  "w_hosts (rollback w w1) = w_hosts w" "w_clusters (rollback w w1) = w_clusters w"
  "w_deleted_hosts (rollback w w1) = w_deleted_hosts w" "w_events (rollback w w1) = w_events w1"
  "w_now (rollback w w1) = w_now w1" "w_dbfault (rollback w w1) = w_dbfault w1"
  by (simp_all add: rollback_def)

interpretation cluster_wf: cluster_frame "\<lambda>_. wf_world"
proof unfold_locales
  show "wf_world w \<Longrightarrow> wf_world (snd (update_by_id k ups w))" for k ups w
    by (rule update_by_id_cases [of k ups w]) (auto simp: wf_update_clusters assign_each_id)
  show "wf_world (rollback w w1)" if "wf_world w" "wf_world w1" for w w1
    using that wf_world_tables [of "rollback w w1" w] by simp
qed (simp_all add: UpdateCluster_wf wf_update_clusters ResetPendingUserAction_env)

interpretation cluster_env: cluster_frame "\<lambda>_ w. w_now w = w_now w0 \<and> w_dbfault w = w_dbfault w0" for w0
proof unfold_locales
  fix k ups and w :: world assume "w_now w = w_now w0 \<and> w_dbfault w = w_dbfault w0"
  then show "w_now (snd (update_by_id k ups w)) = w_now w0 \<and> w_dbfault (snd (update_by_id k ups w)) = w_dbfault w0"
    by (rule_tac update_by_id_cases [of k ups w]) auto
qed (simp_all add: frame_simps ResetPendingUserAction_env)

interpretation cluster_events: cluster_frame "\<lambda>_ w. prefix (w_events w0) (w_events w)" for w0
proof unfold_locales
  fix k ups and w :: world assume "prefix (w_events w0) (w_events w)"
  then show "prefix (w_events w0) (w_events (snd (update_by_id k ups w)))"
    by (rule_tac update_by_id_cases [of k ups w]) auto
next
  fix w :: world and m h assume "prefix (w_events w0) (w_events w)"
  then show "prefix (w_events w0) (w_events (snd (ResetPendingUserAction m h w)))"
    using ResetPendingUserAction_events prefix_order.trans by blast
qed (auto simp: frame_simps prefix_def)

text \<open>The rows of the other clusters are those of \<open>w0\<close>.\<close>

definition other_clusters_of :: "world \<Rightarrow> uuid \<Rightarrow> world \<Rightarrow> bool" where
  "other_clusters_of w0 k w \<longleftrightarrow>
     filter (\<lambda>c. Cluster_ID c \<noteq> k) (w_clusters w) = filter (\<lambda>c. Cluster_ID c \<noteq> k) (w_clusters w0)"

lemma other_clusters_update:
  assumes "\<And>c. Cluster_ID (f c) = Cluster_ID c" and "\<And>c. P c \<Longrightarrow> Cluster_ID c = k"
    and "other_clusters_of w0 k w"
  shows "other_clusters_of w0 k (update_clusters P f w)"
proof -
  have "filter (\<lambda>c. Cluster_ID c \<noteq> k) (change_rows P f cs) = filter (\<lambda>c. Cluster_ID c \<noteq> k) cs" for cs
    by (induction cs) (auto simp: change_rows_def assms(1,2))
  with assms(3) show ?thesis by (simp add: other_clusters_of_def update_clusters_def)
qed

lemma other_clusters_tables: "w_clusters w = w_clusters w' \<Longrightarrow> other_clusters_of w0 k w = other_clusters_of w0 k w'"
  by (simp add: other_clusters_of_def)

interpretation other_clusters: cluster_frame "other_clusters_of w0" for w0
proof unfold_locales
  fix k s extra w assume o: "other_clusters_of w0 k w"
  show "other_clusters_of w0 k (snd (UpdateCluster k s extra w))"
  proof (rule UpdateCluster_snd_cases [of k s extra w])
    fix f assume f: "cluster_assignment extra = Some f"
      and "w_clusters (snd (UpdateCluster k s extra w)) = w_clusters (update_clusters (cluster_guard k s) f w)"
    then have "other_clusters_of w0 k (snd (UpdateCluster k s extra w)) =
        other_clusters_of w0 k (update_clusters (cluster_guard k s) f w)" by (rule_tac other_clusters_tables)
    then show ?thesis
      using other_clusters_update [OF cluster_assignment_key [OF f] _ o, of "cluster_guard k s"]
      by (simp add: cluster_guard_def)
  qed (use o in simp)
next
  fix k ups w assume o: "other_clusters_of w0 k w"
  show "other_clusters_of w0 k (snd (update_by_id k ups w))"
    by (rule update_by_id_cases [of k ups w]) (use o other_clusters_update assign_each_id in auto)
next
  show "other_clusters_of w0 k (send_event e w)" if "other_clusters_of w0 k w" for k w e
    using that other_clusters_tables [of "send_event e w" w] by simp
  show "other_clusters_of w0 k (snd (ResetPendingUserAction m h w))" if "other_clusters_of w0 k w" for k w m h
    using that other_clusters_tables [OF ResetPendingUserAction_clusters] by simp
  show "other_clusters_of w0 k (rollback w w1)" if "other_clusters_of w0 k w" for k w w1
    using that other_clusters_tables [of "rollback w w1" w] by simp
  show "other_clusters_of w0 k (update_clusters (\<lambda>c. Cluster_ID c = k) (Cluster_APIVips_update g) w)"
    "other_clusters_of w0 k (update_clusters (\<lambda>c. Cluster_ID c = k) (Cluster_IngressVips_update g) w)"
    if "other_clusters_of w0 k w" for k w g
    by (rule other_clusters_update [OF _ _ that]; simp)+
qed

text \<open>
  The only host rows that a run writes are those that it resets: they get the status that waits for the user
  and keep their key and their cluster.
\<close>

definition reset_or_same :: "host \<Rightarrow> host \<Rightarrow> bool" where
  "reset_or_same r r' \<longleftrightarrow> r' = r \<or>
     Host_Status r' = HostStatusResettingPendingUserAction \<and> host_key r' = host_key r \<and> Host_ClusterID r' = Host_ClusterID r"

definition hosts_reset_only :: "world \<Rightarrow> world \<Rightarrow> bool" where
  "hosts_reset_only w0 w \<longleftrightarrow> list_all2 reset_or_same (w_hosts w0) (w_hosts w)"

lemma hosts_reset_only_refl [simp]: "hosts_reset_only w w"
  by (simp add: hosts_reset_only_def reset_or_same_def list.rel_refl)

lemma hosts_reset_only_trans: "hosts_reset_only w0 w1 \<Longrightarrow> hosts_reset_only w1 w2 \<Longrightarrow> hosts_reset_only w0 w2"
  unfolding hosts_reset_only_def by (rule list_all2_trans) (auto simp: reset_or_same_def)

lemma hosts_reset_only_tables: "w_hosts w = w_hosts w' \<Longrightarrow> hosts_reset_only w0 w = hosts_reset_only w0 w'"
  by (simp add: hosts_reset_only_def)

lemma status_write_resets:
  "hosts_reset_only w (snd (UpdateHostStatus J i j s HostStatusResettingPendingUserAction info [] w))"
proof -
  let ?t = HostStatusResettingPendingUserAction
  let ?extra = "status_extra (w_now w) s ?t info []" let ?u = "UpdateHost i j s ?extra w"
  have "hosts_reset_only w (snd ?u)"
  proof (rule UpdateHost_snd_cases [of i j s ?extra w])
    fix f assume f: "assignment ?extra = Some f" and u: "snd ?u = update_rows (guard_row (i, j) s) f w"
    note col = assignment_column [OF f pairs_of_status_extra [of "[]" "[]"]]
    have "reset_or_same r (f r)" for r
      using col [of C_status r] col [of C_cluster_id r] assignment_key [OF f, of r]
      by (cases "s = HostStatusResettingPendingUserAction") (auto simp: reset_or_same_def)
    moreover have "reset_or_same r r" for r by (simp add: reset_or_same_def)
    ultimately have "list_all2 reset_or_same rs (map (\<lambda>h. if guard_row (i, j) s h then f h else h) rs)" for rs
      by (induction rs) simp_all
    then show ?thesis by (simp add: hosts_reset_only_def u update_rows_def)
  qed simp
  then show ?thesis by (simp add: hosts_reset_only_def UpdateHostStatus_frame)
qed

lemma ResetPendingUserAction_hosts: "hosts_reset_only w (snd (ResetPendingUserAction m h w))"
proof -
  let ?t = TransitionTypeResettingPendingUserAction
  let ?sh = "newStateHost h w"
  let ?a = TransitionResettingPendingUserAction
  let ?sel = "select_rule stateHost_State (rules_for (m_th m) ?t (stateHost_State ?sh)) ?sh ?a"
  have dest: "\<forall>tr \<in> set (all_host_rules (m_th m)). TransitionType tr = ?t \<longrightarrow>
      DestinationState tr = HostStatusResettingPendingUserAction"
    by (simp add: all_host_rules_def host_rules_def rule_defs)
  have "hosts_reset_only w (ctx_world (snd (fire stateHost_SetState tr ?sh ?a)))" if "?sel = Inr (Some tr)" for tr
  proof -
    from select_rule_Some [OF that] have tr: "tr \<in> set (all_host_rules (m_th m))" "TransitionType tr = ?t"
      by (auto simp: rules_for_def)
    then have "PostTransition tr = Some (PostResettingPendingUserAction (m_th m))"
      "DestinationState tr = HostStatusResettingPendingUserAction" using reset_rules dest by blast+
    with host_no_Transition [OF tr(1)] show ?thesis
      using status_write_resets [of w "th_unmarshal (m_th m)" "Host_InfraEnvID h" "Host_ID h" "Host_Status h"]
      by (auto simp: fire_def stateHost_SetState_def newStateHost_def PostResettingPendingUserAction_def
          updateTransitionHost_def hosts_reset_only_def split: prod.splits sum.splits option.splits) (metis snd_conv)+
  qed
  then have "hosts_reset_only w (snd (run_sm m ?t ?a h w))"
    by (auto simp: run_sm_def sm_Run_eq [OF rules_exist] newStateHost_def split: sum.splits option.splits prod.splits)
  then show ?thesis using ResetPendingUserAction_world [of m h w] by (auto simp: hosts_reset_only_def)
qed

interpretation reset_hosts_only: cluster_frame "\<lambda>_. hosts_reset_only w0" for w0
proof unfold_locales
  show "hosts_reset_only w0 (snd (update_by_id k ups w))" if "hosts_reset_only w0 w" for k ups w
    by (rule update_by_id_cases [of k ups w]) (use that in \<open>auto simp: hosts_reset_only_def\<close>)
  show "hosts_reset_only w0 (snd (ResetPendingUserAction m h w))" if "hosts_reset_only w0 w" for m h w
    by (rule hosts_reset_only_trans [OF that ResetPendingUserAction_hosts])
qed (simp_all add: hosts_reset_only_def frame_simps)

end
