(* ===== verification/Cluster_Contract.thy ===== *)
theory Cluster_Contract
  imports Cluster_Frame
begin

text \<open>
  The contract between the engine and the cluster machine: a post transition that succeeds on a stored
  cluster has stored the destination and keeps it in the state switch. The theory interprets the locale of
  switches whose state is stored, and states when the post transitions of a refresh succeed.
\<close>

section \<open>What a successful post transition has stored\<close>

definition cluster_stored :: "cluster_ctx \<Rightarrow> cluster_status option" where
  "cluster_stored sc = map_option Cluster_Status (find_cluster (Cluster_ID (sc_cluster sc)) (sc_world sc))"

definition cluster_post_ok :: "cluster_status list \<Rightarrow> cluster_status \<Rightarrow> cluster_action \<Rightarrow> bool" where
  "cluster_post_ok srcs d f \<longleftrightarrow>
     (\<forall>sc args sc'. wf_world (sc_world sc) \<longrightarrow> cluster_stored sc = Some (sc_srcState sc) \<longrightarrow>
        sc_srcState sc \<in> set srcs \<longrightarrow> Cluster_Status (sc_cluster sc) = d \<longrightarrow> f sc args = (None, sc') \<longrightarrow>
        Cluster_Status (sc_cluster sc') = d \<and> cluster_stored sc' = Some d)"

lemma cluster_post_okI:
  "(\<And>sc args sc'. wf_world (sc_world sc) \<Longrightarrow> cluster_stored sc = Some (sc_srcState sc) \<Longrightarrow>
      sc_srcState sc \<in> set srcs \<Longrightarrow> Cluster_Status (sc_cluster sc) = d \<Longrightarrow> f sc args = (None, sc') \<Longrightarrow>
      Cluster_Status (sc_cluster sc') = d \<and> cluster_stored sc' = Some d) \<Longrightarrow> cluster_post_ok srcs d f"
  by (simp add: cluster_post_ok_def)

lemma cluster_reset_extra [simp]:
  "cluster_extra_ok cluster_resetLogsField" "cluster_extra_ok cluster_resetProgressFields"
  "cluster_extra_ok cluster_resetFields" "cluster_extra_ok resetInstallationPreparationStatusFields"
  "cluster_extra_ok initProgressParamsInstallingStage" "cluster_extra_ok (addExtraParams s t now)"
  unfolding cluster_resetFields_def addExtraParams_def
  by (auto intro!: cluster_extra_ok_append simp: cluster_resetLogsField_def cluster_resetProgressFields_def
      resetInstallationPreparationStatusFields_def initProgressParamsInstallingStage_def)

lemma setPending_clusters: "w_clusters (snd (setPendingUserResetIfNeeded m c w)) = w_clusters w"
proof -
  have "w_clusters (snd (reset_each m hs w)) = w_clusters w" for hs w
    by (induction hs arbitrary: w)
       (auto split: prod.splits option.splits, (metis ResetPendingUserAction_clusters snd_conv)+)
  then show ?thesis
    by (auto simp: setPendingUserResetIfNeeded_def setPendingUserReset_def split: sum.splits prod.splits option.splits)
       (metis snd_conv)
qed

lemma updateTransitionCluster_stored:
  assumes "wf_world (sc_world sc)" and "cluster_extra_ok extra"
    and "updateTransitionCluster sc info extra = (None, sc')"
  shows "Cluster_Status (sc_cluster sc') = Cluster_Status (sc_cluster sc) \<and>
    cluster_stored sc' = Some (Cluster_Status (sc_cluster sc))"
proof -
  obtain res w where u: "updateClusterStatus (Cluster_ID (sc_cluster sc)) (sc_srcState sc)
      (Cluster_Status (sc_cluster sc)) info extra (sc_world sc) = (res, w)" by force
  with assms(3) obtain r where "res = Inr r"
    by (auto simp: updateTransitionCluster_def split: sum.splits option.splits)
  with updateClusterStatus_Inr [OF assms(1,2)] u obtain row where
    "res = Inr (Some (load_hosts (sc_world sc) row))" "Cluster_Status row = Cluster_Status (sc_cluster sc)"
    "find_cluster (Cluster_ID (sc_cluster sc)) w = Some row" by blast
  moreover from this have "Cluster_ID row = Cluster_ID (sc_cluster sc)" using find_cluster_SomeD by blast
  ultimately show ?thesis
    using assms(3) u by (auto simp: updateTransitionCluster_def cluster_stored_def)
qed

lemma control_posts_ok:
  "cluster_post_ok srcs d cluster_PostCancelInstallation" "cluster_post_ok srcs d PostPrepareForInstallation"
  by (rule cluster_post_okI,
      auto simp: cluster_PostCancelInstallation_def PostPrepareForInstallation_def
        split: cluster_args.splits dest!: updateTransitionCluster_stored [rotated 2]
        intro!: cluster_extra_ok_append)+

lemma PostResetCluster_ok: "cluster_post_ok srcs d PostResetCluster"
proof (rule cluster_post_okI)
  fix sc :: cluster_ctx and args sc'
  assume wf: "wf_world (sc_world sc)" and d: "Cluster_Status (sc_cluster sc) = d"
    and run: "PostResetCluster sc args = (None, sc')"
  let ?vips = "if IsSingleNodeCluster (sc_cluster sc)
      then UpdateVipsTables (Cluster_ID (sc_cluster sc)) [] [] (sc_world sc) else (None, sc_world sc)"
  obtain e w where v: "?vips = (e, w)" by force
  have "wf_world (snd ?vips)" using wf cluster_wf.vips by simp
  with v have w: "wf_world (sc_world (sc\<lparr>sc_world := w\<rparr>))" by simp
  from run v obtain reason where "updateTransitionCluster (sc\<lparr>sc_world := w\<rparr>) reason
      (cluster_resetFields @ resetInstallationPreparationStatusFields) = (None, sc')"
    by (cases args; cases e; cases "IsSingleNodeCluster (sc_cluster sc)") (auto simp: PostResetCluster_def)
  from updateTransitionCluster_stored [OF w _ this] d
  show "Cluster_Status (sc_cluster sc') = d \<and> cluster_stored sc' = Some d"
    by (simp add: cluster_extra_ok_append)
qed

lemma finish_refresh_frame:
  assumes "finish_refresh th sc r w = (e, sc')"
  shows "sc_cluster sc' = sc_cluster sc" "sc_srcState sc' = sc_srcState sc"
    "w_clusters (sc_world sc') = w_clusters w"
    "updatedCluster sc' = (case r of None \<Rightarrow> updatedCluster sc | Some c \<Rightarrow> Some c)"
  using assms setPending_clusters [of "hostApi th" "case r of None \<Rightarrow> sc_cluster sc | Some c \<Rightarrow> c" w]
  by (auto simp: finish_refresh_def Let_def split: prod.splits)

text \<open>The VIPs of a cluster are no part of its status.\<close>

definition same_statuses :: "world \<Rightarrow> world \<Rightarrow> bool" where
  "same_statuses w w1 \<longleftrightarrow> (\<forall>k. map_option Cluster_Status (find_cluster k w1) = map_option Cluster_Status (find_cluster k w))"

lemma same_statuses_vips:
  assumes "\<And>g c. Cluster_ID (set_vips g c) = Cluster_ID c" and "\<And>g c. Cluster_Status (set_vips g c) = Cluster_Status c"
  shows "same_statuses w (snd (replace_vips set_vips k vips w))"
proof -
  have u: "same_statuses w0 w \<Longrightarrow> same_statuses w0 (update_clusters P (set_vips g) w)" for w0 w P g
    by (auto simp: same_statuses_def find_update_clusters assms option.map_comp comp_def if_distrib [of Cluster_Status]
        cong: if_cong)
  have "same_statuses w0 w \<Longrightarrow> same_statuses w0 (snd (save_vips set_vips k vips w))" for w0 w
    by (induction vips arbitrary: w) (auto simp: u)
  with u show ?thesis by (auto simp: replace_vips_def delete_vips_def same_statuses_def split: prod.splits)
qed

lemma same_statuses_trans: "same_statuses a b \<Longrightarrow> same_statuses b c \<Longrightarrow> same_statuses a c"
  by (simp add: same_statuses_def)

lemma UpdateVipsTables_statuses: "same_statuses w (snd (UpdateVipsTables k api ingress w))"
  using same_statuses_vips [of Cluster_APIVips_update w k api] same_statuses_vips [of Cluster_IngressVips_update _ k ingress]
  by (auto simp: UpdateVipsTables_def split: prod.splits option.splits intro: same_statuses_trans)

lemma updateSNOClusterVips_statuses: "same_statuses w (snd (updateSNOClusterVips th c w))"
  using UpdateVipsTables_statuses by (auto simp: updateSNOClusterVips_def same_statuses_def split: sum.splits)

text \<open>An update by identifier that does not name the status keeps it.\<close>

lemma update_by_id_statuses:
  assumes "CC_status \<notin> fst ` set ups" and "distinct (map fst ups)"
  shows "same_statuses w (snd (update_by_id k ups w))"
proof (rule update_by_id_cases [of k ups w])
  fix f assume f: "assign_each cluster_assign ups = Some f"
    and w: "snd (update_by_id k ups w) = update_clusters (\<lambda>c. Cluster_ID c = k) f w"
  have "Cluster_Status (f c) = Cluster_Status c" for c
    using cluster_row.each_column [OF f assms(2), of CC_status c] assms(1)
      map_of_eq_None_iff [of ups CC_status] by simp
  then show ?thesis
    unfolding same_statuses_def w find_update_clusters [OF assign_each_id [OF f]]
    by (auto simp: option.map_comp comp_def intro!: option.map_cong)
qed (simp add: same_statuses_def)

lemma PostRefreshCluster_ok: "cluster_post_ok srcs d (PostRefreshCluster th tmpl fs)"
proof (rule cluster_post_okI)
  fix sc :: cluster_ctx and args sc'
  let ?c = "sc_cluster sc"
  assume wf: "wf_world (sc_world sc)" and st: "cluster_stored sc = Some (sc_srcState sc)"
    and d: "Cluster_Status ?c = d" and run: "PostRefreshCluster th tmpl fs sc args = (None, sc')"
  obtain conds res where args: "args = ArgsRefreshCluster conds res"
    using run by (cases args) (simp_all add: PostRefreshCluster_def)
  obtain reason where reason: "computeReason th ?c tmpl fs = Inr reason"
    using run by (auto simp: PostRefreshCluster_def args Let_def split: sum.splits)
  show "Cluster_Status (sc_cluster sc') = d \<and> cluster_stored sc' = Some d"
  proof (cases "sc_srcState sc \<noteq> Cluster_Status ?c \<or> reason \<noteq> Cluster_StatusInfo ?c")
    case False
    with run have "finish_refresh th sc None (sc_world sc) = (None, sc')"
      by (simp add: PostRefreshCluster_def args reason)
    from finish_refresh_frame [OF this] False d st show ?thesis
      by (simp add: cluster_stored_def find_cluster_def)
  next
    case True
    let ?vips = "if IsSingleNodeCluster ?c then updateSNOClusterVips th ?c (sc_world sc) else (None, sc_world sc)"
    obtain e w where v: "?vips = (e, w)" by force
    have "wf_world (snd ?vips)" using wf cluster_wf.sno_vips by simp
    with v have w: "wf_world w" by simp
    obtain r w1 where u: "updateClusterStatus (Cluster_ID ?c) (sc_srcState sc) (Cluster_Status ?c) reason
        (addExtraParams (Cluster_Status ?c) (sc_srcState sc) (w_now w)) w = (Inr r, w1)"
      and fin: "finish_refresh th sc r w1 = (None, sc')"
      using run v True
      by (cases e; cases "IsSingleNodeCluster ?c")
         (auto simp: PostRefreshCluster_def args reason Let_def split: prod.splits sum.splits)
    from updateClusterStatus_Inr [OF w _ u] finish_refresh_frame [OF fin] d show ?thesis
      by (auto simp: cluster_stored_def find_cluster_def)
  qed
qed

lemma PostPreparingTimedOut_ok: "cluster_post_ok srcs d (PostPreparingTimedOut th)"
proof (rule cluster_post_okI)
  fix sc :: cluster_ctx and args sc'
  let ?c = "sc_cluster sc"
  let ?info = cluster_statusInfoPreparingForInstallationTimeout
  let ?ups = "[(CC_last_installation_preparation_status, CPreparation LastInstallationPreparationStatusFailed),
      (CC_last_installation_preparation_reason, CString preparing_timeout_cause)]"
  assume wf: "wf_world (sc_world sc)" and st: "cluster_stored sc = Some (sc_srcState sc)"
    and d: "Cluster_Status ?c = d" and run: "PostPreparingTimedOut th sc args = (None, sc')"
  obtain conds res where args: "args = ArgsRefreshCluster conds res"
    using run by (cases args) (simp_all add: PostPreparingTimedOut_def)
  let ?upd = "if sc_srcState sc \<noteq> Cluster_Status ?c \<or> ?info \<noteq> Cluster_StatusInfo ?c
    then updateClusterStatus (Cluster_ID ?c) (sc_srcState sc) (Cluster_Status ?c) ?info [] (sc_world sc)
    else (Inr None, sc_world sc)"
  obtain x w where upd: "?upd = (x, w)" by force
  obtain e sc1 where fin: "finish_refresh th sc (case x of Inl _ \<Rightarrow> None | Inr r \<Rightarrow> r) w = (e, sc1)" by force
  from run upd fin obtain r where x: "x = Inr r" and sc': "sc_cluster sc' = sc_cluster sc1"
    "w_clusters (sc_world sc') = w_clusters (snd (update_by_id (Cluster_ID ?c) ?ups (sc_world sc1)))"
    by (cases e; cases x) (auto simp: PostPreparingTimedOut_def args Let_def)
  have "map_option Cluster_Status (find_cluster k (snd (update_by_id (Cluster_ID ?c) ?ups (sc_world sc1)))) =
      map_option Cluster_Status (find_cluster k (sc_world sc1))" for k
    using update_by_id_statuses [of ?ups "sc_world sc1" "Cluster_ID ?c"] by (simp add: same_statuses_def)
  moreover have "map_option Cluster_Status (find_cluster (Cluster_ID ?c) w) = Some d"
  proof (cases "sc_srcState sc \<noteq> Cluster_Status ?c \<or> ?info \<noteq> Cluster_StatusInfo ?c")
    case True
    with upd x have "updateClusterStatus (Cluster_ID ?c) (sc_srcState sc) (Cluster_Status ?c) ?info [] (sc_world sc) = (Inr r, w)"
      by simp
    from updateClusterStatus_Inr [OF wf _ this] d show ?thesis by auto
  qed (use upd st d in \<open>auto simp: cluster_stored_def\<close>)
  ultimately show "Cluster_Status (sc_cluster sc') = d \<and> cluster_stored sc' = Some d"
    using sc' finish_refresh_frame [OF fin] d by (simp add: cluster_stored_def find_cluster_def)
qed

text \<open>The post transitions that keep the status: their updates do not name its column.\<close>

lemma cluster_extra_status:
  assumes "cluster_extra_ok extra" and "cluster_assignment extra = Some f"
  shows "Cluster_Status (f c) = Cluster_Status c"
proof -
  from assms(1) obtain cvs where cvs: "cluster_pairs_of extra = Inr cvs" "CC_status \<notin> fst ` set cvs"
    by (auto simp: cluster_extra_ok_def)
  then have "map_of (rev cvs) CC_status = None" by (simp add: map_of_eq_None_iff)
  with cluster_assignment_column [OF assms(2) cvs(1), of CC_status c] show ?thesis by simp
qed

lemma UpdateCluster_status:
  assumes "wf_world w" and "cluster_extra_ok extra" and "UpdateCluster k s extra w = (Inr r, w')"
  shows "map_option Cluster_Status (find_cluster k w') = map_option Cluster_Status (find_cluster k w)"
  using UpdateCluster_Inr [OF assms(1,3)] cluster_extra_status [OF assms(2)] by auto

lemma stage_posts_ok:
  "cluster_post_ok [d] d (PostUpdateFinalizingAMSConsoleUrl th)"
  "cluster_post_ok [d] d (PostRefreshFinalizingStageSoftTimedOut th)"
proof -
  have *: "sc_cluster sc' = sc_cluster sc \<and> cluster_stored sc' = cluster_stored sc"
    if "wf_world (sc_world sc)" "cluster_extra_ok extra"
      "UpdateCluster (Cluster_ID (sc_cluster sc)) s extra (sc_world sc) = (Inr r, w)"
      "w_clusters w1 = w_clusters w" "sc' = sc\<lparr>sc_world := w1, updatedCluster := Some r\<rparr>"
    for sc sc' :: cluster_ctx and extra s r w w1
    using UpdateCluster_status [OF that(1-3)] that(4,5) by (simp add: cluster_stored_def find_cluster_def)
  show "cluster_post_ok [d] d (PostUpdateFinalizingAMSConsoleUrl th)"
  proof (rule cluster_post_okI)
    fix sc :: cluster_ctx and args sc'
    assume a: "wf_world (sc_world sc)" "cluster_stored sc = Some (sc_srcState sc)" "sc_srcState sc \<in> set [d]"
      "Cluster_Status (sc_cluster sc) = d" "PostUpdateFinalizingAMSConsoleUrl th sc args = (None, sc')"
    then obtain r w where "UpdateCluster (Cluster_ID (sc_cluster sc)) (sc_srcState sc)
        [CName CC_is_ams_subscription_console_url_set, CBool True] (sc_world sc) = (Inr r, w)"
      "sc' = sc\<lparr>sc_world := w, updatedCluster := Some r\<rparr>"
      by (auto simp: PostUpdateFinalizingAMSConsoleUrl_def Let_def
          split: cluster_args.splits option.splits prod.splits sum.splits)
    from * [OF a(1) _ this(1) refl this(2)] a show "Cluster_Status (sc_cluster sc') = d \<and> cluster_stored sc' = Some d"
      by simp
  qed
  show "cluster_post_ok [d] d (PostRefreshFinalizingStageSoftTimedOut th)"
  proof (rule cluster_post_okI)
    fix sc :: cluster_ctx and args sc'
    assume a: "wf_world (sc_world sc)" "cluster_stored sc = Some (sc_srcState sc)" "sc_srcState sc \<in> set [d]"
      "Cluster_Status (sc_cluster sc) = d" "PostRefreshFinalizingStageSoftTimedOut th sc args = (None, sc')"
    then obtain info r w e where u: "UpdateCluster (Cluster_ID (sc_cluster sc)) (sc_srcState sc)
        [CName CC_status_info, CString info, CName CC_progress_finalizing_stage_timed_out, CBool True]
        (sc_world sc) = (Inr r, w)"
      "sc' = sc\<lparr>sc_world := send_event e w, updatedCluster := Some r\<rparr>"
      by (auto simp: PostRefreshFinalizingStageSoftTimedOut_def notifyFinalizingStageTimeout_def Let_def
          split: cluster_args.splits option.splits prod.splits sum.splits)
    have "length info \<le> varchar_max"
    proof (rule ccontr)
      assume "\<not> length info \<le> varchar_max"
      then have "cluster_assignment [CName CC_status_info, CString info,
          CName CC_progress_finalizing_stage_timed_out, CBool True] = None"
        by (simp add: cluster_assignment_def last_entries_def)
      with u(1) UpdateCluster_fails [of _ "sc_world sc" "Cluster_ID (sc_cluster sc)" "sc_srcState sc"] show False
        by force
    qed
    with * [OF a(1) _ u(1) _ u(2)] a show "Cluster_Status (sc_cluster sc') = d \<and> cluster_stored sc' = Some d"
      by simp
  qed
qed

lemma logs_post_ok: "cluster_post_ok [d] d (cluster_PostRefreshLogsProgress l)"
proof (rule cluster_post_okI)
  fix sc :: cluster_ctx and args sc'
  let ?k = "Cluster_ID (sc_cluster sc)"
  let ?ups = "if l = LogsStateRequested
      then [(CC_logs_info, CLogs l), (CC_controller_logs_started_at, CTime (w_now (sc_world sc)))]
      else [(CC_logs_info, CLogs l)]"
  assume st: "cluster_stored sc = Some (sc_srcState sc)" "sc_srcState sc \<in> set [d]"
    and d: "Cluster_Status (sc_cluster sc) = d" and run: "cluster_PostRefreshLogsProgress l sc args = (None, sc')"
  obtain x w1 where u: "update_by_id ?k ?ups (sc_world sc) = (x, w1)" by force
  from run u have sc': "sc_world sc' = w1" "sc_cluster sc' = sc_cluster sc \<or>
      (\<exists>row. find_cluster ?k w1 = Some row \<and> sc_cluster sc' = load_hosts w1 row)"
    by (auto simp: cluster_PostRefreshLogsProgress_def updateLogsProgress_def GetClusterFromDBWithHosts_Inr
        split: sum.splits if_splits)
  have "map_option Cluster_Status (find_cluster ?k w1) = map_option Cluster_Status (find_cluster ?k (sc_world sc))"
    using update_by_id_statuses [of ?ups "sc_world sc" ?k] u by (simp add: same_statuses_def)
  with st have w1: "map_option Cluster_Status (find_cluster ?k w1) = Some d" by (simp add: cluster_stored_def)
  from sc'(2) show "Cluster_Status (sc_cluster sc') = d \<and> cluster_stored sc' = Some d"
  proof (elim disjE exE conjE)
    fix row assume row: "find_cluster ?k w1 = Some row" "sc_cluster sc' = load_hosts w1 row"
    with w1 show ?thesis using find_cluster_SomeD [OF row(1)] by (simp add: cluster_stored_def sc'(1))
  qed (use w1 d in \<open>simp add: cluster_stored_def sc'(1)\<close>)
qed

lemma PostCompleteInstallation_ok: "cluster_post_ok srcs ClusterStatusInstalled (PostCompleteInstallation th)"
proof (rule cluster_post_okI)
  fix sc :: cluster_ctx and args sc'
  let ?c = "sc_cluster sc"
  assume wf: "wf_world (sc_world sc)" and d: "Cluster_Status ?c = ClusterStatusInstalled"
    and run: "PostCompleteInstallation th sc args = (None, sc')"
  obtain reason w where cr: "createClusterCompletionStatusInfo ?c (sc_world sc) = (reason, w)" by force
  then have w: "wf_world w"
    using wf by (auto simp: createClusterCompletionStatusInfo_def Let_def split: if_splits prod.splits)
  from run obtain r w1 w2 where u: "updateClusterStatus (Cluster_ID ?c) ClusterStatusFinalizing ClusterStatusInstalled reason
      [CName CC_progress_finalizing_stage_percentage, CNum 100, CName CC_progress_total_percentage, CNum 100] w = (Inr r, w1)"
    and sc': "w_clusters (sc_world sc') = w_clusters w1" "sc_cluster sc' = (case r of None \<Rightarrow> ?c | Some c \<Rightarrow> c)"
    by (auto simp: PostCompleteInstallation_def cr CompleteInstallation_def
        split: cluster_args.splits prod.splits sum.splits option.splits)
  from updateClusterStatus_Inr [OF w _ u] obtain row where "r = Some (load_hosts w row)"
    "Cluster_Status row = ClusterStatusInstalled" "find_cluster (Cluster_ID ?c) w1 = Some row" by auto
  with sc' find_cluster_SomeD [OF this(3)] show "Cluster_Status (sc_cluster sc') = ClusterStatusInstalled \<and>
      cluster_stored sc' = Some ClusterStatusInstalled"
    by (simp add: cluster_stored_def find_cluster_def)
qed

text \<open>The installation-failed event only adds to the log.\<close>

lemma failed_event_frame:
  "sc_cluster (snd (SendClusterInstallationFailedEvent th tmpl fs sc args)) = sc_cluster sc"
  "w_clusters (sc_world (snd (SendClusterInstallationFailedEvent th tmpl fs sc args))) = w_clusters (sc_world sc)"
  "updatedCluster (snd (SendClusterInstallationFailedEvent th tmpl fs sc args)) = updatedCluster sc"
  by (auto simp: SendClusterInstallationFailedEvent_def split: cluster_args.splits sum.splits)

lemma failed_post_eq:
  "SequentialPostTransitions [PostRefreshCluster th tmpl fs, SendClusterInstallationFailedEvent th tmpl fs] sc args =
     (case PostRefreshCluster th tmpl fs sc args of (e1, sc1) \<Rightarrow>
        (case SendClusterInstallationFailedEvent th tmpl fs sc1 args of (e2, sc2) \<Rightarrow>
           ((case e1 of None \<Rightarrow> (case e2 of None \<Rightarrow> None | Some err \<Rightarrow> Join_errors None err)
             | Some err1 \<Rightarrow> (case e2 of None \<Rightarrow> Join_errors None err1
                             | Some err2 \<Rightarrow> Join_errors (Join_errors None err1) err2)), sc2)))"
  by (auto simp: SequentialPostTransitions_def split: prod.splits option.splits)

lemma failed_post_ok:
  "cluster_post_ok srcs d
     (SequentialPostTransitions [PostRefreshCluster th tmpl fs, SendClusterInstallationFailedEvent th tmpl fs])"
proof (rule cluster_post_okI)
  fix sc :: cluster_ctx and args sc'
  assume a: "wf_world (sc_world sc)" "cluster_stored sc = Some (sc_srcState sc)" "sc_srcState sc \<in> set srcs"
    "Cluster_Status (sc_cluster sc) = d"
    "SequentialPostTransitions [PostRefreshCluster th tmpl fs, SendClusterInstallationFailedEvent th tmpl fs] sc args =
     (None, sc')"
  obtain e1 sc1 where p: "PostRefreshCluster th tmpl fs sc args = (e1, sc1)" by force
  with a(5) have e1: "e1 = None" and sc': "sc' = snd (SendClusterInstallationFailedEvent th tmpl fs sc1 args)"
    by (auto simp: failed_post_eq Join_errors_def split: prod.splits option.splits)
  from PostRefreshCluster_ok [of srcs d th tmpl fs] a p e1
  have "Cluster_Status (sc_cluster sc1) = d \<and> cluster_stored sc1 = Some d" by (simp add: cluster_post_ok_def)
  then show "Cluster_Status (sc_cluster sc') = d \<and> cluster_stored sc' = Some d"
    by (simp add: sc' failed_event_frame cluster_stored_def find_cluster_def)
qed

section \<open>The machine fulfils the contract of the engine\<close>

definition cluster_rule_ok :: "cluster_rule \<Rightarrow> bool" where
  "cluster_rule_ok tr \<longleftrightarrow>
     (case Transition tr of None \<Rightarrow> True | Some f \<Rightarrow> \<forall>sc args. snd (f sc args) = sc) \<and>
     (case PostTransition tr of
        None \<Rightarrow> SourceStates tr = [DestinationState tr]
      | Some f \<Rightarrow> cluster_post_ok (SourceStates tr) (DestinationState tr) f)"

lemma cluster_rule_post:
  assumes "cluster_rule_ok tr" and "PostTransition tr = Some f" and "wf_world (sc_world sc)"
    and "cluster_stored sc = Some (sc_srcState sc)" and "sc_srcState sc \<in> set (SourceStates tr)"
    and "Cluster_Status (sc_cluster sc) = DestinationState tr" and "f sc args = (None, sc')"
  shows "Cluster_Status (sc_cluster sc') = DestinationState tr" and "cluster_stored sc' = Some (DestinationState tr)"
proof -
  from assms(1,2) have "cluster_post_ok (SourceStates tr) (DestinationState tr) f"
    by (simp add: cluster_rule_ok_def)
  with assms(3-7) show "Cluster_Status (sc_cluster sc') = DestinationState tr"
    "cluster_stored sc' = Some (DestinationState tr)" unfolding cluster_post_ok_def by blast+
qed

lemma InstallCluster_same: "snd (InstallCluster th sc args) = sc"
  by (simp add: InstallCluster_def split: cluster_args.splits)

lemma cluster_rules_ok: "tr \<in> set (cluster_rules th) \<Longrightarrow> cluster_rule_ok tr"
proof -
  have "list_all cluster_rule_ok (cluster_rules th)"
    unfolding cluster_rules_def
    by (simp add: cluster_rule_defs cluster_rule_ok_def control_posts_ok PostResetCluster_ok PostRefreshCluster_ok
        PostPreparingTimedOut_ok stage_posts_ok logs_post_ok PostCompleteInstallation_ok failed_post_ok InstallCluster_same)
  then show "tr \<in> set (cluster_rules th) \<Longrightarrow> cluster_rule_ok tr" by (simp add: list_all_iff)
qed

interpretation cluster_switch: persistent_switch stateCluster_State stateCluster_SetState "cluster_rules th"
  cluster_stored sc_srcState "\<lambda>sc. wf_world (sc_world sc)" "{}" for th
proof
  show "\<exists>sw'. stateCluster_SetState s sw = (None, sw') \<and> stateCluster_State sw' = s" for s sw
    by (simp add: stateCluster_SetState_def stateCluster_State_def)
next
  fix s sw sw' and tr :: cluster_rule
  assume set: "stateCluster_SetState s sw = (None, sw')"
  then show "cluster_stored sw' = cluster_stored sw \<and> sc_srcState sw' = sc_srcState sw \<and>
      wf_world (sc_world sw') = wf_world (sc_world sw)"
    by (auto simp: stateCluster_SetState_def cluster_stored_def)
  show "(wf_world (sc_world sw') \<and> cluster_stored sw' = Some (sc_srcState sw') \<and> sc_srcState sw' \<in> set (SourceStates tr)) \<longleftrightarrow>
      (wf_world (sc_world sw) \<and> cluster_stored sw = Some (sc_srcState sw) \<and> sc_srcState sw \<in> set (SourceStates tr))"
    using set by (auto simp: stateCluster_SetState_def cluster_stored_def)
next
  fix tr f sw args sw'
  assume tr: "tr \<in> set (cluster_rules th)"
  note ok = cluster_rules_ok [OF tr]
  have same: "sw' = sw" if "Transition tr = Some f" "f sw args = (None, sw')"
    using ok that by (simp add: cluster_rule_ok_def) (metis snd_conv)
  show "Transition tr = Some f \<Longrightarrow> f sw args = (None, sw') \<Longrightarrow> cluster_stored sw' = cluster_stored sw \<and>
      sc_srcState sw' = sc_srcState sw \<and> wf_world (sc_world sw') = wf_world (sc_world sw)"
    using same by simp
  show "Transition tr = Some f \<Longrightarrow> f sw args = (None, sw') \<Longrightarrow> stateCluster_State sw' = stateCluster_State sw \<and>
      ((wf_world (sc_world sw') \<and> cluster_stored sw' = Some (sc_srcState sw') \<and> sc_srcState sw' \<in> set (SourceStates tr)) \<longleftrightarrow>
       (wf_world (sc_world sw) \<and> cluster_stored sw = Some (sc_srcState sw) \<and> sc_srcState sw \<in> set (SourceStates tr)))"
    using same by simp
  show "PostTransition tr = None \<Longrightarrow> SourceStates tr = [DestinationState tr]"
    using ok by (simp add: cluster_rule_ok_def)
  show "PostTransition tr = Some f \<Longrightarrow> f sw args = (None, sw') \<Longrightarrow>
      wf_world (sc_world sw) \<and> cluster_stored sw = Some (sc_srcState sw) \<and> sc_srcState sw \<in> set (SourceStates tr) \<Longrightarrow>
      stateCluster_State sw = DestinationState tr \<Longrightarrow> stateCluster_State sw' = stateCluster_State sw"
    using cluster_rule_post(1) [OF ok, of f sw args sw'] by (simp add: stateCluster_State_def)
  show "TransitionType tr \<notin> {} \<Longrightarrow> PostTransition tr = Some f \<Longrightarrow> wf_world (sc_world sw) \<Longrightarrow>
      cluster_stored sw = Some (sc_srcState sw) \<Longrightarrow> sc_srcState sw \<in> set (SourceStates tr) \<Longrightarrow>
      stateCluster_State sw = DestinationState tr \<Longrightarrow> f sw args = (None, sw') \<Longrightarrow>
      cluster_stored sw' = Some (DestinationState tr)"
    using cluster_rule_post(2) [OF ok, of f sw args sw'] by (simp add: stateCluster_State_def)
qed

end
