(* ===== verification/Cluster_Refresh.thy ===== *)
theory Cluster_Refresh
  imports Cluster_Contract
begin

text \<open>
  Where a refresh takes a cluster. The rules of the machine are evaluated in their order; this theory gives
  the result as decision tables, one for clusters before installation, one for clusters that prepare for
  it, one for clusters in installation and one for the settled ones. In every state exactly one outcome
  applies, so that a refresh never lacks a rule.
\<close>

section \<open>Selecting a rule\<close>

definition cluster_destination ::
  "cluster_handler \<Rightarrow> cluster_transition_type \<Rightarrow> cluster_ctx \<Rightarrow> cluster_args \<Rightarrow> go_error + cluster_status option" where
  "cluster_destination th t sc args =
     map_sum id (map_option DestinationState)
       (select_rule stateCluster_State (filter (\<lambda>tr. TransitionType tr = t) (cluster_rules th)) sc args)"

lemma cluster_Run_select:
  "cluster_Run th t sc args =
     (case select_rule stateCluster_State (filter (\<lambda>tr. TransitionType tr = t) (cluster_rules th)) sc args of
        Inl err \<Rightarrow> (Some err, sc)
      | Inr None \<Rightarrow> (Some NoConditionPassedToRunTransaction, sc)
      | Inr (Some tr) \<Rightarrow> fire stateCluster_SetState tr sc args)"
  by (simp add: cluster_Run_rules run_rules_select)

definition holds :: "cluster_conditions \<Rightarrow> cluster_cond_key \<Rightarrow> bool" where
  "holds conds k \<longleftrightarrow> conds k = Some True"

definition all_hold :: "cluster_conditions \<Rightarrow> cluster_validationID list \<Rightarrow> bool" where
  "all_hold conds ids \<longleftrightarrow> (\<forall>i \<in> set ids. holds conds (CVKey i))"

text \<open>Every validation that the rules ask for has a value, and so has every condition.\<close>

definition cluster_complete :: "cluster_conditions \<Rightarrow> bool" where
  "cluster_complete conds \<longleftrightarrow>
     (\<forall>i \<in> set (pendingIds @ vipsDefinedIds @ requiredForInstallIds). conds (CVKey i) \<noteq> None) \<and>
     (\<forall>i. conds (CCKey i) \<noteq> None)"

lemma cluster_If_defined:
  "conds k \<noteq> None \<Longrightarrow> cluster_If k sc (ArgsRefreshCluster conds res) = Inr (holds conds k)"
  by (auto simp: cluster_If_def holds_def)

lemma And_IfCV:
  "\<forall>i \<in> set ids. conds (CVKey i) \<noteq> None \<Longrightarrow>
   And (map IfCV ids) sc (ArgsRefreshCluster conds res) = Inr (all_hold conds ids)"
  unfolding all_hold_def by (rule And_map_total) (simp add: cluster_If_defined)

lemma cluster_composed_conditions:
  assumes "cluster_complete conds"
  shows "pendingConditions sc (ArgsRefreshCluster conds res) = Inr (all_hold conds pendingIds)"
    "vipsDefinedConditions sc (ArgsRefreshCluster conds res) = Inr (all_hold conds vipsDefinedIds)"
    "requiredForInstall sc (ArgsRefreshCluster conds res) = Inr (all_hold conds requiredForInstallIds)"
    "IfCC i sc (ArgsRefreshCluster conds res) = Inr (holds conds (CCKey i))"
proof -
  note c = assms [unfolded cluster_complete_def]
  show "pendingConditions sc (ArgsRefreshCluster conds res) = Inr (all_hold conds pendingIds)"
    "vipsDefinedConditions sc (ArgsRefreshCluster conds res) = Inr (all_hold conds vipsDefinedIds)"
    "requiredForInstall sc (ArgsRefreshCluster conds res) = Inr (all_hold conds requiredForInstallIds)"
    unfolding pendingConditions_def vipsDefinedConditions_def requiredForInstall_def
    by (rule And_IfCV; use c in auto)+
  show "IfCC i sc (ArgsRefreshCluster conds res) = Inr (holds conds (CCKey i))"
    by (rule cluster_If_defined) (use c in auto)
qed

lemmas cluster_selection_defs =
  cluster_destination_def cluster_rules_def cluster_rule_defs stateCluster_State_def IsAllowedToRun_def

section \<open>Before installation\<close>

definition cluster_preinstall_statuses :: "cluster_status list" where
  "cluster_preinstall_statuses = [ClusterStatusPendingForInput, ClusterStatusReady, ClusterStatusInsufficient]"

definition cluster_preinstall_spec :: "cluster_conditions \<Rightarrow> cluster_status" where
  "cluster_preinstall_spec conds =
     (if \<not> all_hold conds pendingIds \<or>
         (\<not> holds conds (CCKey VipDhcpAllocationSet) \<and> \<not> all_hold conds vipsDefinedIds)
      then ClusterStatusPendingForInput
      else if \<not> all_hold conds requiredForInstallIds \<or> \<not> all_hold conds vipsDefinedIds
      then ClusterStatusInsufficient
      else ClusterStatusReady)"

theorem cluster_preinstall_refresh:
  assumes "cluster_complete conds" and "Cluster_Status (sc_cluster sc) \<in> set cluster_preinstall_statuses"
  shows "cluster_destination th TransitionTypeRefreshStatus sc (ArgsRefreshCluster conds res) =
    Inr (Some (cluster_preinstall_spec conds))"
proof -
  note c = cluster_composed_conditions [OF assms(1)]
  have s: "requiredInputFieldsExistNonDhcp sc (ArgsRefreshCluster conds res) =
      Inr (all_hold conds vipsDefinedIds \<and> all_hold conds pendingIds)"
    "isSufficientForInstallDhcp sc (ArgsRefreshCluster conds res) =
      Inr (all_hold conds requiredForInstallIds \<and> all_hold conds vipsDefinedIds)"
    "allRefreshStatusConditions sc (ArgsRefreshCluster conds res) =
      Inr (all_hold conds pendingIds \<and> all_hold conds vipsDefinedIds \<and> all_hold conds requiredForInstallIds)"
    by (auto simp: requiredInputFieldsExistNonDhcp_def isSufficientForInstallDhcp_def allRefreshStatusConditions_def c)
  from assms(2) show ?thesis
    by (auto simp: cluster_preinstall_statuses_def cluster_selection_defs cluster_preinstall_spec_def c s Not_def
        split: if_splits)
qed

section \<open>Preparing for installation\<close>

definition cluster_preparing_spec :: "cluster_handler \<Rightarrow> cluster_ctx \<Rightarrow> cluster_conditions \<Rightarrow> cluster_status" where
  "cluster_preparing_spec th sc conds =
     (if since sc (Cluster_StatusUpdatedAt (sc_cluster sc)) > PrepareForInstallationTimeout th \<and>
         \<not> holds conds (CCKey FailedPreparingtHostsExist)
      then ClusterStatusReady
      else if holds conds (CCKey AllHostsPreparedSuccessfully) \<and> holds conds (CCKey ClusterPreparationSucceeded)
      then ClusterStatusInstalling
      else if holds conds (CCKey UnPreparingtHostsExist) then ClusterStatusInsufficient
      else if holds conds (CCKey FailedPreparingtHostsExist) \<or> holds conds (CCKey ClusterPreparationFailed)
      then ClusterStatusReady
      else ClusterStatusPreparingForInstallation)"

theorem cluster_preparing_refresh:
  assumes "cluster_complete conds" and "Cluster_Status (sc_cluster sc) = ClusterStatusPreparingForInstallation"
  shows "cluster_destination th TransitionTypeRefreshStatus sc (ArgsRefreshCluster conds res) =
    Inr (Some (cluster_preparing_spec th sc conds))"
proof -
  note c = cluster_composed_conditions(4) [OF assms(1)]
  from assms(2) show ?thesis
    by (simp add: cluster_selection_defs cluster_preparing_spec_def c Not_def cluster_IsPreparingTimedOut_def)
qed

section \<open>During installation\<close>

definition enough_installed :: "cluster \<Rightarrow> bool" where
  "enough_installed c = HasEnoughMastersAndWorkers c [HostStatusInstalled]"

definition enough_installing :: "cluster \<Rightarrow> bool" where
  "enough_installing c = HasEnoughMastersAndWorkers c installingStatuses"

definition host_pending_user :: "cluster \<Rightarrow> bool" where
  "host_pending_user c = list_ex (\<lambda>h. Host_Status h = HostStatusInstallingPendingUserAction) (Cluster_Hosts c)"

definition installation_expired :: "cluster_handler \<Rightarrow> cluster_ctx \<Rightarrow> bool" where
  "installation_expired th sc \<longleftrightarrow> since sc (Cluster_InstallStartedAt (sc_cluster sc)) > installationTimeout th"

definition cluster_installing_spec :: "cluster_handler \<Rightarrow> cluster_ctx \<Rightarrow> cluster_status" where
  "cluster_installing_spec th sc =
     (let c = sc_cluster sc in
      if installation_expired th sc \<and> isSoftTimeoutsEnabled th c then ClusterStatusError
      else if \<not> enough_installing c \<and> \<not> enough_installed c then ClusterStatusError
      else if host_pending_user c then ClusterStatusInstallingPendingUserAction
      else if enough_installed c then ClusterStatusFinalizing
      else ClusterStatusInstalling)"

lemmas installing_conditions =
  IsFinalizing_def IsInstalling_def IsInstallingPendingUserAction_def IsInstallationTimedOut_def
  cluster_SoftTimeoutsEnabled_def enough_installed_def [symmetric] enough_installing_def [symmetric]
  host_pending_user_def [symmetric] installation_expired_def [symmetric]

theorem cluster_installing_refresh:
  assumes "Cluster_Status (sc_cluster sc) = ClusterStatusInstalling"
  shows "cluster_destination th TransitionTypeRefreshStatus sc (ArgsRefreshCluster conds res) =
    Inr (Some (cluster_installing_spec th sc))"
  using assms
  by (simp add: cluster_selection_defs cluster_installing_spec_def installing_conditions Not_def Let_def)

definition cluster_pending_user_spec :: "cluster_handler \<Rightarrow> cluster_ctx \<Rightarrow> cluster_status" where
  "cluster_pending_user_spec th sc =
     (let c = sc_cluster sc in
      if (\<not> enough_installing c \<and> \<not> enough_installed c) \<or> installation_expired th sc then ClusterStatusError
      else if host_pending_user c then ClusterStatusInstallingPendingUserAction
      else if enough_installed c then ClusterStatusFinalizing
      else ClusterStatusInstalling)"

theorem cluster_pending_user_refresh:
  assumes "Cluster_Status (sc_cluster sc) = ClusterStatusInstallingPendingUserAction"
  shows "cluster_destination th TransitionTypeRefreshStatus sc (ArgsRefreshCluster conds res) =
    Inr (Some (cluster_pending_user_spec th sc))"
  using assms
  by (simp add: cluster_selection_defs cluster_pending_user_spec_def installing_conditions Not_def Let_def)

definition stage_expired :: "cluster_handler \<Rightarrow> cluster_ctx \<Rightarrow> bool" where
  "stage_expired th sc \<longleftrightarrow>
     (case Cluster_Progress (sc_cluster sc) of
        None \<Rightarrow> False
      | Some p \<Rightarrow> FinalizingStage p \<noteq> FinalizingStageEmpty \<and>
          since sc (FinalizingStageStartedAt p) >
          finalizingStageTimeout (stageEnv th) (FinalizingStage p) (Cluster_MonitoredOperators (sc_cluster sc))
            (isSoftTimeoutsEnabled th (sc_cluster sc)))"

definition in_stages :: "finalizing_stage list \<Rightarrow> cluster \<Rightarrow> bool" where
  "in_stages stages c \<longleftrightarrow>
     (case Cluster_Progress c of None \<Rightarrow> False | Some p \<Rightarrow> FinalizingStage p \<in> set stages)"

definition hosts_done :: "cluster \<Rightarrow> bool" where
  "hosts_done c \<longleftrightarrow> (\<forall>h \<in> set (Cluster_Hosts c). Host_Status h \<in> {HostStatusInstalled, HostStatusError})"

definition operators_done :: "cluster \<Rightarrow> bool" where
  "operators_done c \<longleftrightarrow> Cluster_MonitoredOperators c = [] \<or> getClusterMonitoringOperatorsStatus c"

text \<open>\<open>kubeconfig\<close> says whether the object store has the cluster's kubeconfig.\<close>

definition cluster_finalizing_spec :: "cluster_handler \<Rightarrow> cluster_ctx \<Rightarrow> bool \<Rightarrow> cluster_status" where
  "cluster_finalizing_spec th sc kubeconfig =
     (let c = sc_cluster sc; soft = isSoftTimeoutsEnabled th c in
      if (soft \<and> installation_expired th sc) \<or>
         (\<not> soft \<and> since sc (Cluster_StatusUpdatedAt c) > finalizingTimeout th) \<or>
         (\<not> soft \<and> stage_expired th sc \<and> \<not> in_stages nonFailingFinalizingStages c)
      then ClusterStatusError
      else if stage_expired th sc \<and> finalizingStageTimeoutTriggered sc ArgsPrepareForInstallation = Inr False
      then ClusterStatusFinalizing
      else if (enough_installing c \<or> enough_installed c) \<and> host_pending_user c
      then ClusterStatusInstallingPendingUserAction
      else if ocmClient th \<noteq> None \<and> \<not> Cluster_IsAmsSubscriptionConsoleUrlSet c \<and>
              IsOperatorAvailable c OperatorConsoleName
      then ClusterStatusFinalizing
      else if hosts_done c \<and> kubeconfig \<and> operators_done c then ClusterStatusInstalled
      else ClusterStatusFinalizing)"

theorem cluster_finalizing_refresh:
  assumes "Cluster_Status (sc_cluster sc) = ClusterStatusFinalizing"
    and "DoesObjectExist th (Cluster_ID (sc_cluster sc) @ ''/kubeconfig'') = Inr kubeconfig"
  shows "cluster_destination th TransitionTypeRefreshStatus sc (ArgsRefreshCluster conds res) =
    Inr (Some (cluster_finalizing_spec th sc kubeconfig))"
proof -
  let ?a = "ArgsRefreshCluster conds res"
  have c: "IsFinalizingStageTimedOut th sc ?a = Inr (stage_expired th sc)"
    "isInFinalizingStages stages sc ?a = Inr (in_stages stages (sc_cluster sc))"
    "areAllHostsDone sc ?a = Inr (hosts_done (sc_cluster sc))"
    "hasClusterCompleteInstallation th sc ?a = Inr (kubeconfig \<and> operators_done (sc_cluster sc))"
    "finalizingStageTimeoutTriggered sc ?a = finalizingStageTimeoutTriggered sc ArgsPrepareForInstallation"
    for stages
    by (auto simp: IsFinalizingStageTimedOut_def stage_expired_def isInFinalizingStages_def in_stages_def
        areAllHostsDone_def hosts_done_def list_all_iff hasClusterCompleteInstallation_def operators_done_def
        finalizingStageTimeoutTriggered_def assms(2) Let_def split: option.splits)
  obtain b where b: "finalizingStageTimeoutTriggered sc ArgsPrepareForInstallation = Inr b"
    unfolding finalizingStageTimeoutTriggered_def by blast
  from assms(1) show ?thesis
    by (simp add: cluster_selection_defs cluster_finalizing_spec_def installing_conditions c b Not_def Let_def
        IsFinalizingTimedOut_def WithAMSSubscriptions_def)
qed

section \<open>Settled clusters\<close>

definition cluster_settled_statuses :: "cluster_status list" where
  "cluster_settled_statuses =
     [ClusterStatusInstalled, ClusterStatusError, ClusterStatusCancelled, ClusterStatusAddingHosts,
      ClusterStatusUnmonitored]"

theorem cluster_settled_refresh:
  assumes "Cluster_Status (sc_cluster sc) \<in> set cluster_settled_statuses"
  shows "cluster_destination th TransitionTypeRefreshStatus sc (ArgsRefreshCluster conds res) =
    Inr (Some (Cluster_Status (sc_cluster sc)))"
proof -
  have "\<exists>b. cluster_IsLogCollectionTimedOut th sc (ArgsRefreshCluster conds res) = Inr b"
    by (auto simp: cluster_IsLogCollectionTimedOut_def Let_def)
  then obtain b where b: "cluster_IsLogCollectionTimedOut th sc (ArgsRefreshCluster conds res) = Inr b" ..
  show ?thesis
    by (cases "Cluster_Status (sc_cluster sc)")
       (use assms in \<open>simp_all add: cluster_settled_statuses_def cluster_selection_defs b\<close>)
qed

end
