(* ===== verification/Cluster_Manager.thy ===== *)
theory Cluster_Manager
  imports Cluster_Statemachine
begin

text \<open>
  The manager of clusters, \<open>internal/cluster/cluster.go\<close>, and the registrar, \<open>registrar.go\<close>: the operations
  that the REST handlers and the monitor call. Each loads or receives a cluster, checks its status, writes
  the store or runs the state machine. Metrics are not modelled. JSON encoding, the kind of authentication,
  the normal form of addresses and the table of infra-envs are parameters.
\<close>

section \<open>The manager\<close>

text \<open>
  \<open>cm_nan\<close> is the \<open>int64\<close> that the platform yields for a \<open>float64\<close> that is not a number, which the
  language leaves open. \<open>cm_DeleteInfraEnv\<close> is the error of deleting the infra-env with the identifier of
  the cluster, if there is one.
\<close>

record cluster_manager =
  cm_th :: cluster_handler
  cm_validator :: cluster_validator
  cm_unmarshalValidations :: "string \<Rightarrow> go_error + cluster_validations_status"
  cm_marshalValidations :: "cluster_validations_status \<Rightarrow> go_error + string"
  cm_nan :: int
  cm_AuthTypeRHSSO :: bool
  cm_Normalize :: "string \<Rightarrow> go_error + string"
  cm_ToValidUTF8 :: "string \<Rightarrow> string"
  cm_error_string :: "go_error \<Rightarrow> string"
  cm_DeleteInfraEnv :: "uuid \<Rightarrow> go_error option"

text \<open>\<open>m.sm.Run(t, newStateCluster(c), args)\<close>; of the state only the database and \<open>updatedCluster\<close> outlive it.\<close>

definition run_cluster_sm ::
  "cluster_manager \<Rightarrow> cluster_transition_type \<Rightarrow> cluster_args \<Rightarrow> cluster \<Rightarrow> world \<Rightarrow>
   go_error option \<times> cluster option \<times> world" where
  "run_cluster_sm m t args c w =
     (case cluster_Run (cm_th m) t (newStateCluster c w) args of
        (err, sc) \<Rightarrow> (err, updatedCluster sc, sc_world sc))"

section \<open>Registration\<close>

definition getStatusByClusterKind :: "cluster_kind \<Rightarrow> cluster_status \<times> string" where
  "getStatusByClusterKind kind =
     (case kind of
        ClusterKindCluster \<Rightarrow> (ClusterStatusInsufficient, cluster_StatusInfoInsufficient)
      | ClusterKindAddHostsCluster \<Rightarrow> (ClusterStatusAddingHosts, cluster_statusInfoAddingHosts)
      | ClusterKindDisconnectedCluster \<Rightarrow> (ClusterStatusUnmonitored, cluster_statusInfoDisconnected))"

text \<open>
  \<open>tx.Create(cluster)\<close>: the row and its associations, in tables without foreign keys. VIPs of an earlier
  cluster with the identifier, which no deletion removes, are the new cluster's as well.
\<close>

definition leftover :: "(cluster \<Rightarrow> string list) \<Rightarrow> uuid \<Rightarrow> world \<Rightarrow> string list" where
  "leftover vips clusterId w =
     (case find (\<lambda>c. Cluster_ID c = clusterId) (w_deleted_clusters w) of None \<Rightarrow> [] | Some c \<Rightarrow> vips c)"

definition create_row :: "world \<Rightarrow> cluster \<Rightarrow> cluster" where
  "create_row w c =
     (let join = (\<lambda>old new. old @ filter (\<lambda>v. \<not> List.member old v) new) in
      c\<lparr>Cluster_Hosts := [],
        Cluster_APIVips := join (leftover Cluster_APIVips (Cluster_ID c) w) (Cluster_APIVips c),
        Cluster_IngressVips := join (leftover Cluster_IngressVips (Cluster_ID c) w) (Cluster_IngressVips c)\<rparr>)"

text \<open>
  \<open>kind\<close> is the kind of the cluster, nil when it is not set. The transaction leaves no trace when a
  statement fails; the fields that were set on the cluster stay.
\<close>

definition registered_fields :: "cluster_kind option \<Rightarrow> time \<Rightarrow> cluster \<Rightarrow> cluster" where
  "registered_fields kind now c =
     (let k = (case kind of None \<Rightarrow> ClusterKindCluster | Some k \<Rightarrow> k);
          (status, statusInfo) = getStatusByClusterKind k
      in c\<lparr>Cluster_Kind := k, Cluster_Status := status, Cluster_StatusInfo := statusInfo,
           Cluster_StatusUpdatedAt := now\<rparr>)"

definition registerCluster ::
  "cluster_kind option \<Rightarrow> cluster \<Rightarrow> world \<Rightarrow> go_error option \<times> cluster \<times> world" where
  "registerCluster kind cl w =
     (let c = registered_fields kind (w_now w) cl in
      case (case GetClusterFromDB w (Cluster_ID c) of
              Inl err \<Rightarrow>
                if \<not> is_record_not_found err then Inl err
                else if w_dbfault w DeleteClusters
                then Inl (ErrWrapf ''error while trying to delete previews record from db'' ErrDB)
                else Inr (w\<lparr>w_deleted_clusters :=
                            filter (\<lambda>d. Cluster_ID d \<noteq> Cluster_ID c) (w_deleted_clusters w)\<rparr>)
            | Inr _ \<Rightarrow> Inr w) of
        Inl err \<Rightarrow> (Some err, c, w)
      | Inr w1 \<Rightarrow>
          if w_dbfault w1 CreateClusters \<or>
             List.member (map Cluster_ID (w_clusters w1 @ w_deleted_clusters w1)) (Cluster_ID c)
          then (Some ErrDB, c, w)
          else (None, c, w1\<lparr>w_clusters := w_clusters w1 @ [create_row w c]\<rparr>))"

definition cluster_RegisterCluster ::
  "cluster_kind option \<Rightarrow> cluster \<Rightarrow> world \<Rightarrow> go_error option \<times> cluster \<times> world" where
  "cluster_RegisterCluster kind cl w =
     (case registerCluster kind cl w of
        (Some err, c, w1) \<Rightarrow> (Some err, c, w1)
      | (None, c, w1) \<Rightarrow>
          (None, c,
           if Cluster_Kind c = ClusterKindAddHostsCluster
           then send_event (ClusterRegistrationSucceededEvent (Cluster_ID c) ClusterKindAddHostsCluster) w1
           else w1))"

text \<open>
  \<open>registrar.DeregisterCluster\<close>: operators and networks are removed, the row is marked as deleted, and an
  infra-env with its identifier is removed.
\<close>

definition without_records :: "cluster \<Rightarrow> cluster" where
  "without_records c = c\<lparr>Cluster_MonitoredOperators := [], Cluster_ClusterNetworks := [],
     Cluster_ServiceNetworks := [], Cluster_MachineNetworks := []\<rparr>"

definition soft_delete_cluster :: "uuid \<Rightarrow> world \<Rightarrow> world" where
  "soft_delete_cluster clusterId w =
     w\<lparr>w_clusters := filter (\<lambda>c. Cluster_ID c \<noteq> clusterId) (w_clusters w),
       w_deleted_clusters := w_deleted_clusters w @
         map without_records (filter (\<lambda>c. Cluster_ID c = clusterId) (w_clusters w))\<rparr>"

definition registrar_DeregisterCluster ::
  "cluster_manager \<Rightarrow> cluster \<Rightarrow> world \<Rightarrow> go_error option \<times> world" where
  "registrar_DeregisterCluster m c w =
     (if Cluster_Status c = ClusterStatusInstalling
      then (Some (ErrNew ''cluster can not be removed while being installed''), w)
      else if w_dbfault w DeleteNetworks
      then (Some (ErrWrapf ''failed to deregister cluster'' (ErrNew ''failed to delete cluster records'')), w)
      else if w_dbfault w DeleteClusters
      then (Some (ErrWrapf ''failed to deregister cluster'' (ErrNew ''failed to delete cluster'')), w)
      else (case cm_DeleteInfraEnv m (Cluster_ID c) of
              Some _ \<Rightarrow> (Some (ErrWrapf ''failed to deregister cluster'' (ErrNew ''failed to delete infra-env'')), w)
            | None \<Rightarrow> (None, soft_delete_cluster (Cluster_ID c) w)))"

definition ReportValidationFailedMetrics :: "manager \<Rightarrow> host \<Rightarrow> go_error option" where
  "ReportValidationFailedMetrics m h =
     (if Host_ValidationsInfo h = '''' then None
      else error_of (m_unmarshalValidations m (Host_ValidationsInfo h)))"

definition reportValidationFailedMetrics :: "cluster_manager \<Rightarrow> cluster \<Rightarrow> go_error option" where
  "reportValidationFailedMetrics m c =
     (if Cluster_ValidationsInfo c = '''' then None
      else error_of (cm_unmarshalValidations m (Cluster_ValidationsInfo c)))"

text \<open>Every error of the metrics is collected before the first one stops the deregistration.\<close>

definition metrics_errors :: "cluster_manager \<Rightarrow> cluster \<Rightarrow> go_error list" where
  "metrics_errors m c =
     List.map_filter (ReportValidationFailedMetrics (hostApi (cm_th m))) (Cluster_Hosts c) @
     (case reportValidationFailedMetrics m c of None \<Rightarrow> [] | Some err \<Rightarrow> [err])"

definition cluster_DeregisterCluster :: "cluster_manager \<Rightarrow> cluster \<Rightarrow> world \<Rightarrow> go_error option \<times> world" where
  "cluster_DeregisterCluster m c w =
     (if metrics_errors m c \<noteq> [] then (Some (ErrJoin (metrics_errors m c)), w)
      else (case registrar_DeregisterCluster m c w of
              (Some err, w1) \<Rightarrow> (Some err, send_event (ClusterDeregisterFailedEvent (Cluster_ID c) err) w1)
            | (None, w1) \<Rightarrow> (None, send_event (ClusterDeregisteredEvent (Cluster_ID c)) w1)))"

section \<open>Refreshing a cluster\<close>

definition cluster_results_of ::
  "cluster_validations_status \<Rightarrow> cluster_category \<Rightarrow> cluster_validation_result list" where
  "cluster_results_of vs cat = (case map_of vs cat of None \<Rightarrow> [] | Some rs \<Rightarrow> rs)"

definition cluster_getValidationStatus ::
  "cluster_validations_status \<Rightarrow> cluster_category \<Rightarrow> cluster_validationID \<Rightarrow> validation_status option" where
  "cluster_getValidationStatus vs cat vID =
     map_option CVR_Status (find (\<lambda>v. CVR_ID v = vID) (cluster_results_of vs cat))"

definition cluster_GetValidations :: "cluster_manager \<Rightarrow> cluster \<Rightarrow> go_error + cluster_validations_status" where
  "cluster_GetValidations m c =
     (if Cluster_ValidationsInfo c = '''' then Inr []
      else (case cm_unmarshalValidations m (Cluster_ValidationsInfo c) of
              Inl err \<Rightarrow> Inl (ErrWrapf ''Failed to unmarshal validations info from cluster'' err)
            | Inr vs \<Rightarrow> Inr vs))"

text \<open>\<open>reflect.DeepEqual\<close> of the two maps.\<close>

definition cluster_didValidationChanged ::
  "cluster_validations_status \<Rightarrow> cluster_validations_status \<Rightarrow> bool" where
  "cluster_didValidationChanged newValidationRes currentValidationRes \<longleftrightarrow>
     newValidationRes \<noteq> [] \<and>
     \<not> list_all (\<lambda>cat. map_of newValidationRes cat = map_of currentValidationRes cat)
         (map fst newValidationRes @ map fst currentValidationRes)"

definition cluster_report_change ::
  "cluster \<Rightarrow> cluster_validations_status \<Rightarrow> cluster_category \<Rightarrow> cluster_validation_result \<Rightarrow> world \<Rightarrow> world" where
  "cluster_report_change c currentValidationRes cat v w =
     (let name = cluster_validationID_String (CVR_ID v) in
      case cluster_getValidationStatus currentValidationRes cat (CVR_ID v) of
        None \<Rightarrow> w
      | Some previousStatus \<Rightarrow>
          if CVR_Status v = ValidationFailure \<and> previousStatus \<noteq> ValidationFailure
          then send_event (ClusterValidationFailedEvent (Cluster_ID c) name (CVR_Message v)
                 (if previousStatus = ValidationSuccess then ''that used to succeed is now failing''
                  else ''failed'')) w
          else if CVR_Status v = ValidationSuccess \<and> previousStatus = ValidationFailure
          then send_event (ClusterValidationFixedEvent (Cluster_ID c) name (CVR_Message v)) w
          else if CVR_Status v \<noteq> previousStatus
          then send_event (ClusterValidationChangedInternalEvent (Cluster_ID c) name) w
          else w)"

definition cluster_reportValidationStatusChanged ::
  "cluster \<Rightarrow> cluster_validations_status \<Rightarrow> cluster_validations_status \<Rightarrow> world \<Rightarrow> world" where
  "cluster_reportValidationStatusChanged c newValidationRes currentValidationRes w =
     fold (\<lambda>(cat, vRes). fold (cluster_report_change c currentValidationRes cat) vRes) newValidationRes w"

definition cluster_updateValidationsInDB ::
  "cluster_manager \<Rightarrow> cluster \<Rightarrow> cluster_validations_status \<Rightarrow> world \<Rightarrow> (go_error + cluster) \<times> world" where
  "cluster_updateValidationsInDB m c newValidationRes w =
     (case cm_marshalValidations m newValidationRes of
        Inl err \<Rightarrow> (Inl err, w)
      | Inr b \<Rightarrow> UpdateCluster (Cluster_ID c) (Cluster_Status c) [CName CC_validations_info, CString b] w)"

text \<open>
  On success the result is the cluster that a post transition has written, or the one that was given. An
  error comes with a nil cluster, except that of the preprocessor.
\<close>

definition cluster_refreshStatusInternal ::
  "cluster_manager \<Rightarrow> cluster \<Rightarrow> world \<Rightarrow> (go_error + cluster) \<times> world" where
  "cluster_refreshStatusInternal m c w =
     (case cluster_preprocess (cm_validator m) (newClusterValidationContext c w) of
        Inl err \<Rightarrow> (Inl err, w)
      | Inr (conditions, newValidationRes) \<Rightarrow>
          (case cluster_GetValidations m c of
             Inl err \<Rightarrow> (Inl err, w)
           | Inr currentValidationRes \<Rightarrow>
               (case (if cluster_didValidationChanged newValidationRes currentValidationRes
                      then (case cluster_updateValidationsInDB m c newValidationRes
                                   (cluster_reportValidationStatusChanged c newValidationRes currentValidationRes w)
                            of (r, w1) \<Rightarrow> (error_of r, w1))
                      else (None, w)) of
                  (Some err, w1) \<Rightarrow> (Inl err, w1)
                | (None, w1) \<Rightarrow>
                    (case run_cluster_sm m TransitionTypeRefreshStatus
                            (ArgsRefreshCluster conditions newValidationRes) c w1 of
                       (Some err, _, w2) \<Rightarrow> (Inl (ApiError 409 err), w2)
                     | (None, upd, w2) \<Rightarrow> (Inr (case upd of None \<Rightarrow> c | Some r \<Rightarrow> r), w2)))))"

definition cluster_RefreshStatus ::
  "cluster_manager \<Rightarrow> cluster \<Rightarrow> world \<Rightarrow> (go_error + cluster) \<times> world" where
  "cluster_RefreshStatus m c w =
     (case GetClusterFromDBWithHosts w (Cluster_ID c) of
        Inl err \<Rightarrow> (Inl err, w)
      | Inr cluster \<Rightarrow> cluster_refreshStatusInternal m cluster w)"

section \<open>Control of an installation\<close>

definition cluster_CancelInstallation ::
  "cluster_manager \<Rightarrow> cluster \<Rightarrow> string \<Rightarrow> world \<Rightarrow> go_error option \<times> world" where
  "cluster_CancelInstallation m c reason w =
     (case run_cluster_sm m TransitionTypeCancelInstallation_c (ArgsCancelInstallation reason) c w of
        (Some err, _, w1) \<Rightarrow>
          (Some (ApiError 409 err), send_event (CancelInstallationFailedEvent (Cluster_ID c) err) w1)
      | (None, _, w1) \<Rightarrow> (None, send_event (ClusterInstallationCanceledEvent (Cluster_ID c)) w1))"

definition ResetCluster :: "cluster_manager \<Rightarrow> cluster \<Rightarrow> string \<Rightarrow> world \<Rightarrow> go_error option \<times> world" where
  "ResetCluster m c reason w =
     (case run_cluster_sm m TransitionTypeResetCluster (ArgsResetCluster reason) c w of
        (Some err, _, w1) \<Rightarrow>
          (Some (ApiError 409 err), send_event (ResetInstallationFailedEvent (Cluster_ID c) err) w1)
      | (None, _, w1) \<Rightarrow> (None, send_event (ClusterInstallationResetEvent (Cluster_ID c)) w1))"

definition PrepareForInstallation :: "cluster_manager \<Rightarrow> cluster \<Rightarrow> world \<Rightarrow> go_error option \<times> world" where
  "PrepareForInstallation m c w =
     (case run_cluster_sm m TransitionTypePrepareForInstallation ArgsPrepareForInstallation c w of
        (err, _, w1) \<Rightarrow> (err, w1))"

text \<open>An update from a struct skips its zero fields, here an empty reason.\<close>

definition HandlePreInstallError :: "cluster_manager \<Rightarrow> cluster \<Rightarrow> go_error \<Rightarrow> world \<Rightarrow> world" where
  "HandlePreInstallError m c installErr w =
     (let reason = cm_ToValidUTF8 m (cm_error_string m installErr) in
      case update_by_id (Cluster_ID c)
             ((CC_last_installation_preparation_status, CPreparation LastInstallationPreparationStatusFailed) #
              (if reason = '''' then [] else [(CC_last_installation_preparation_reason, CString reason)])) w of
        (Inl _, w1) \<Rightarrow> w1
      | (Inr _, w1) \<Rightarrow> send_event (PrepareInstallationFailedEvent (Cluster_ID c) reason) w1)"

definition InstallationPreparationReasonSuccess :: string where
  "InstallationPreparationReasonSuccess = ''Installation preparation successful''"

definition HandlePreInstallSuccess :: "cluster \<Rightarrow> world \<Rightarrow> world" where
  "HandlePreInstallSuccess c w =
     (case update_by_id (Cluster_ID c)
             [(CC_last_installation_preparation_status, CPreparation LastInstallationPreparationStatusSuccess),
              (CC_last_installation_preparation_reason, CString InstallationPreparationReasonSuccess)] w of
        (Inl _, w1) \<Rightarrow> w1
      | (Inr _, w1) \<Rightarrow> send_event (ClusterPrepareInstallationStartedEvent (Cluster_ID c)) w1)"

text \<open>The error, if any, comes with the cluster that the caller goes on with.\<close>

definition handleReRegisteredHostsDuringPreparation ::
  "cluster_manager \<Rightarrow> cluster \<Rightarrow> world \<Rightarrow> go_error option \<times> cluster \<times> world" where
  "handleReRegisteredHostsDuringPreparation m cl w =
     (if Cluster_Status cl \<noteq> ClusterStatusPreparingForInstallation then (None, cl, w)
      else (case (if Cluster_Hosts cl = [] then GetClusterFromDBWithHosts w (Cluster_ID cl) else Inr cl) of
              Inl err \<Rightarrow> (Some (ErrWrapf ''failed to load cluster with hosts'' err), cl, w)
            | Inr c \<Rightarrow>
                let allHostsPrepared = Cluster_Hosts c \<noteq> [] \<and>
                      list_all (\<lambda>h. Host_Status h = HostStatusPreparingSuccessful) (Cluster_Hosts c)
                in if allHostsPrepared \<and>
                      Cluster_PreparationStatus c = LastInstallationPreparationStatusNotStarted
                   then let w1 = HandlePreInstallSuccess c w in
                     (case GetClusterFromDBWithHosts w1 (Cluster_ID c) of
                        Inl err \<Rightarrow> (Some (ErrWrapf ''failed to reload cluster'' err), c, w1)
                      | Inr c1 \<Rightarrow>
                          (case cluster_refreshStatusInternal m c1 w1 of
                             (Inl err, w2) \<Rightarrow> (Some err, c1, w2) | (Inr c2, w2) \<Rightarrow> (None, c2, w2)))
                   else (None, c, w)))"

section \<open>Progress\<close>

definition ProgressWeightInstallingStage :: rat where
  "ProgressWeightInstallingStage = f64 (7 / 10)"

definition ProgressWeightFinalizingStage :: rat where
  "ProgressWeightFinalizingStage = f64 (15 / 100)"

text \<open>
  The groups of hosts of a cluster by role, bootstrap flag and stage, with their sizes. The query names the
  table and not the model, so that it counts soft-deleted rows too.
\<close>

definition host_group :: "host \<Rightarrow> host_role \<times> bool \<times> host_stage" where
  "host_group h = (Host_Role h, Host_Bootstrap h, CurrentStage (progress_of h))"

definition hosts_count :: "uuid \<Rightarrow> world \<Rightarrow> ((host_role \<times> bool \<times> host_stage) \<times> nat) list" where
  "hosts_count clusterID w =
     (let gs = map host_group (filter (\<lambda>h. Host_ClusterID h = Some clusterID)
                 (w_hosts w @ map snd (w_deleted_hosts w)))
      in map (\<lambda>g. (g, count_list gs g)) (remdups gs))"

text \<open>The stages that the hosts have done, and all their stages, as \<open>float64\<close> sums over the groups.\<close>

definition host_stage_sums ::
  "bool \<Rightarrow> ((host_role \<times> bool \<times> host_stage) \<times> nat) list \<Rightarrow> rat \<times> rat" where
  "host_stage_sums isSno hostsCount =
     fold (\<lambda>((role, bootstrap, stage), n) (done, all).
         let stages = FindMatchingStages role bootstrap isSno; currentIndex = IndexOfStage stage stages
         in (fadd done (float64 ((currentIndex + 1) * int n)), fadd all (float64 (int (length stages) * int n))))
       hostsCount (0, 0)"

definition int64_of :: "cluster_manager \<Rightarrow> int option \<Rightarrow> int" where
  "int64_of m p = (case p of None \<Rightarrow> cm_nan m | Some i \<Rightarrow> i)"

definition cluster_UpdateInstallProgress ::
  "cluster_manager \<Rightarrow> uuid \<Rightarrow> world \<Rightarrow> go_error option \<times> world" where
  "cluster_UpdateInstallProgress m clusterID w =
     (case GetClusterFromDB w clusterID of
        Inl err \<Rightarrow> (Some err, w)
      | Inr c \<Rightarrow>
          if Cluster_Kind c = ClusterKindAddHostsCluster then (None, w)
          else if w_dbfault w SelectHosts then (Some ErrDB, w)
          else (case host_stage_sums (Cluster_ControlPlaneCount c = 1) (hosts_count clusterID w) of
            (totalHostsDoneStages, totalHostsStages) \<Rightarrow>
              let installingStagePercentage = int64_of m (percentage totalHostsDoneStages totalHostsStages);
                  totalPercentage =
                    (if Cluster_Status c = ClusterStatusInstalled then 100
                     else int64 (fmul ProgressWeightInstallingStage (float64 installingStagePercentage)) +
                       (case Cluster_Progress c of
                          None \<Rightarrow> 0
                        | Some p \<Rightarrow>
                            int64 (fadd
                              (fmul ProgressWeightPreparingForInstallationStage
                                (float64 (PreparingForInstallationStagePercentage p)))
                              (fmul ProgressWeightFinalizingStage (float64 (FinalizingStagePercentage p))))))
              in (case update_by_id (Cluster_ID c)
                         [(CC_progress_installing_stage_percentage, CNum installingStagePercentage),
                          (CC_progress_total_percentage, CNum totalPercentage)] w of
                    (r, w1) \<Rightarrow> (error_of r, w1))))"

definition operator_done :: "monitored_operator \<Rightarrow> bool" where
  "operator_done m \<longleftrightarrow>
     (MO_OperatorType m = OperatorTypeBuiltin \<and> MO_Status m = OperatorStatusAvailable) \<or>
     (MO_OperatorType m = OperatorTypeOlm \<and>
        (MO_Status m = OperatorStatusAvailable \<or> MO_Status m = OperatorStatusFailed))"

definition UpdateFinalizingProgress ::
  "cluster_manager \<Rightarrow> uuid \<Rightarrow> world \<Rightarrow> go_error option \<times> world" where
  "UpdateFinalizingProgress m clusterID w =
     (case GetClusterFromDB w clusterID of
        Inl err \<Rightarrow> (Some err, w)
      | Inr c \<Rightarrow>
          let doneOperatorsCount =
                fold (\<lambda>mo n. if operator_done mo then fadd n 1 else n) (Cluster_MonitoredOperators c) 0;
              finalizingStagePercentage =
                int64_of m (percentage doneOperatorsCount (float64 (int (length (Cluster_MonitoredOperators c)))));
              totalPercentage =
                int64 (fmul ProgressWeightFinalizingStage (float64 finalizingStagePercentage)) +
                (case Cluster_Progress c of
                   None \<Rightarrow> 0
                 | Some p \<Rightarrow>
                     int64 (fadd
                       (fmul ProgressWeightPreparingForInstallationStage
                         (float64 (PreparingForInstallationStagePercentage p)))
                       (fmul ProgressWeightInstallingStage (float64 (InstallingStagePercentage p)))))
          in if (case Cluster_Progress c of None \<Rightarrow> False | Some p \<Rightarrow> totalPercentage < TotalPercentage p)
             then (None, w)
             else (case update_by_id (Cluster_ID c)
                          ([(CC_progress_finalizing_stage_percentage, CNum finalizingStagePercentage),
                            (CC_progress_total_percentage, CNum totalPercentage)] @
                           (if finalizingStagePercentage = 100
                            then [(CC_trigger_monitor_timestamp, CTime (w_now w))] else [])) w of
                     (r, w1) \<Rightarrow> (error_of r, w1)))"

definition UpdateFinalizingStage ::
  "uuid \<Rightarrow> finalizing_stage \<Rightarrow> world \<Rightarrow> go_error option \<times> world" where
  "UpdateFinalizingStage clusterID finalizingStage w =
     (if \<not> List.member finalizingStages finalizingStage
      then (Some (ApiError 400 (ErrNew ''invalid finaling stage'')), w)
      else (case GetClusterFromDB w clusterID of
              Inl err \<Rightarrow> (Some (if is_record_not_found err then ApiError 404 err else ApiError 500 err), w)
            | Inr cls \<Rightarrow>
                if \<not> List.member [ClusterStatusInstalling, ClusterStatusFinalizing,
                        ClusterStatusInstallingPendingUserAction] (Cluster_Status cls)
                then (Some (ApiError 400 (ErrNew ''cluster is not in one of allowed statuses'')), w)
                else if (case Cluster_Progress cls of None \<Rightarrow> True | Some p \<Rightarrow> FinalizingStage p \<noteq> finalizingStage)
                then (case update_by_id clusterID
                             [(CC_progress_finalizing_stage, CStage finalizingStage),
                              (CC_progress_finalizing_stage_started_at, CTime (w_now w)),
                              (CC_progress_finalizing_stage_timed_out, CBool False)] w of
                        (Inl err, w1) \<Rightarrow> (Some (ApiError 500 (ErrWrapf ''update finalizing stage'' err)), w1)
                      | (Inr _, w1) \<Rightarrow>
                          (None, send_event (ClusterFinalizingStageUpdatedEvent clusterID finalizingStage) w1))
                else (None, w)))"

section \<open>VIPs and leases\<close>

text \<open>
  \<open>network.FormatLease\<close>: every match of \<open>(\s)(renew|rebind|expire) [^;]*;\<close>, from left to right, is replaced
  by the white space, the keyword and \<open> never;\<close>. \<open>lease_keyword\<close> gives the text after the keyword and its
  blank, \<open>after_semicolon\<close> the text after the next semicolon.
\<close>

definition white_space :: "char \<Rightarrow> bool" where
  "white_space c \<longleftrightarrow> List.member [CHR 0x20, CHR 0x09, CHR 0x0A, CHR 0x0C, CHR 0x0D] c"

definition strip :: "string \<Rightarrow> string \<Rightarrow> string option" where
  "strip ps cs = (if take (length ps) cs = ps then Some (drop (length ps) cs) else None)"

definition lease_keywords :: "string list" where
  "lease_keywords = [''renew'', ''rebind'', ''expire'']"

fun lease_keyword :: "string list \<Rightarrow> string \<Rightarrow> (string \<times> string) option" where
  "lease_keyword [] cs = None"
| "lease_keyword (k # ks) cs =
     (case strip (k @ '' '') cs of None \<Rightarrow> lease_keyword ks cs | Some rest \<Rightarrow> Some (k, rest))"

fun after_semicolon :: "string \<Rightarrow> string option" where
  "after_semicolon [] = None"
| "after_semicolon (c # cs) = (if c = CHR '';'' then Some cs else after_semicolon cs)"

definition lease_match :: "string \<Rightarrow> (string \<times> string) option" where
  "lease_match cs =
     (case cs of
        [] \<Rightarrow> None
      | c # cs' \<Rightarrow>
          if \<not> white_space c then None
          else (case lease_keyword lease_keywords cs' of
                  None \<Rightarrow> None
                | Some (k, rest) \<Rightarrow> map_option (\<lambda>rest'. (c # k, rest')) (after_semicolon rest)))"

lemma strip_Some: "strip ps cs = Some rest \<longleftrightarrow> cs = ps @ rest"
  unfolding strip_def by (metis append_eq_conv_conj option.distinct(1) option.inject)

lemma lease_keyword_length: "lease_keyword ks cs = Some (k, rest) \<Longrightarrow> length rest < length cs"
  by (induction ks) (auto simp: strip_Some split: option.splits)

lemma after_semicolon_length: "after_semicolon cs = Some rest \<Longrightarrow> length rest < length cs"
  by (induction cs) (auto split: if_splits)

lemma lease_match_length: "lease_match cs = Some (kept, rest) \<Longrightarrow> length rest < length cs"
  by (auto simp: lease_match_def dest!: lease_keyword_length after_semicolon_length
      split: list.splits if_splits option.splits)

function FormatLease :: "string \<Rightarrow> string" where
  "FormatLease cs =
     (case cs of
        [] \<Rightarrow> []
      | c # cs' \<Rightarrow>
          (case lease_match (c # cs') of
             None \<Rightarrow> c # FormatLease cs'
           | Some (kept, rest) \<Rightarrow> kept @ '' never;'' @ FormatLease rest))"
  by pat_completeness auto
termination
proof (relation "measure length")
  fix cs c cs' x kept rest
  assume "cs = c # cs'" and "lease_match (c # cs') = Some x" and "(kept, rest) = x"
  then show "(rest, cs) \<in> measure length" using lease_match_length [of cs kept rest] by simp
qed simp_all

declare FormatLease.simps [simp del]

definition vip0 :: "string list \<Rightarrow> string" where
  "vip0 vips = (case vips of [] \<Rightarrow> '''' | v # _ \<Rightarrow> v)"

definition GetApiVipById0 :: "cluster \<Rightarrow> string" where
  "GetApiVipById0 c = vip0 (Cluster_APIVips c)"

definition GetIngressVipById0 :: "cluster \<Rightarrow> string" where
  "GetIngressVipById0 c = vip0 (Cluster_IngressVips c)"

definition normalized :: "cluster_manager \<Rightarrow> string \<Rightarrow> string" where
  "normalized m vip = (case cm_Normalize m vip of Inr v \<Rightarrow> v | Inl _ \<Rightarrow> vip)"

definition SetVipsData ::
  "cluster_manager \<Rightarrow> cluster \<Rightarrow> string \<Rightarrow> string \<Rightarrow> string \<Rightarrow> string \<Rightarrow> world \<Rightarrow> go_error option \<times> world" where
  "SetVipsData m c apiVip0 ingressVip0 apiVipLease ingressVipLease w =
     (let apiVip = normalized m apiVip0; ingressVip = normalized m ingressVip0;
          formattedApiLease = FormatLease apiVipLease; formattedIngressLease = FormatLease ingressVipLease;
          clusterIngressVip = GetIngressVipById0 c; clusterApiVip = GetApiVipById0 c
      in if apiVip = clusterApiVip \<and> ingressVip = clusterIngressVip \<and>
            formattedApiLease = Cluster_ApiVipLease c \<and> formattedIngressLease = Cluster_IngressVipLease c
         then (None, w)
         else if List.member [ClusterStatusPendingForInput, ClusterStatusInsufficient, ClusterStatusReady]
                   (Cluster_Status c)
         then (case UpdateVipsTables (Cluster_ID c) [apiVip] [ingressVip] w of
                 (Some err, w1) \<Rightarrow> (Some err, w1)
               | (None, w1) \<Rightarrow>
                   (case update_by_id (Cluster_ID c)
                           [(CC_api_vip_lease, CString formattedApiLease),
                            (CC_ingress_vip_lease, CString formattedIngressLease)] w1 of
                      (Inl err, w2) \<Rightarrow> (Some err, w2)
                    | (Inr _, w2) \<Rightarrow>
                        (None,
                         if apiVip \<noteq> clusterApiVip \<or> clusterIngressVip \<noteq> ingressVip
                         then send_event (ApiIngressVipUpdatedEvent (Cluster_ID c) apiVip ingressVip) w2
                         else w2)))
         else if List.member [ClusterStatusInstalling, ClusterStatusPreparingForInstallation,
                   ClusterStatusFinalizing] (Cluster_Status c) \<and>
                 (clusterApiVip \<noteq> apiVip \<or> clusterIngressVip \<noteq> ingressVip)
         then (Some (ErrNew ''Got VIPs different than those that are stored in the DB''), w)
         else (None, w))"

section \<open>Other updates\<close>

definition SetUploadControllerLogsAt :: "cluster \<Rightarrow> world \<Rightarrow> go_error option \<times> world" where
  "SetUploadControllerLogsAt c w =
     (case update_by_id (Cluster_ID c) [(CC_controller_logs_collected_at, CTime (w_now w))] w of
        (r, w1) \<Rightarrow> (Wrapf (error_of r) ''failed to set controller_logs_collected_at'', w1))"

definition cluster_UpdateLogsProgress :: "cluster \<Rightarrow> logs_state \<Rightarrow> world \<Rightarrow> go_error option \<times> cluster \<times> world" where
  "cluster_UpdateLogsProgress c progress w = updateLogsProgress c progress w"

definition UpdateAmsSubscriptionID :: "uuid \<Rightarrow> string \<Rightarrow> world \<Rightarrow> go_error option \<times> world" where
  "UpdateAmsSubscriptionID clusterID amsSubscriptionID w =
     (case update_by_id clusterID [(CC_ams_subscription_id, CString amsSubscriptionID)] w of
        (r, w1) \<Rightarrow> (map_option (ApiError 500) (error_of r), w1))"

definition GetConvertedClusterAPIVipDNSName :: "cluster \<Rightarrow> string" where
  "GetConvertedClusterAPIVipDNSName c =
     (if \<not> Cluster_UserManagedNetworking c \<and> vip0 (Cluster_APIVips c) \<noteq> '''' then vip0 (Cluster_APIVips c)
      else ''api.'' @ Cluster_Name c @ ''.'' @ Cluster_BaseDNSDomain c)"

definition TransformClusterToDay2 :: "cluster \<Rightarrow> world \<Rightarrow> go_error option \<times> world" where
  "TransformClusterToDay2 c w =
     (if Cluster_Status c \<noteq> ClusterStatusInstalled
      then (Some (ApiError 400 (ErrNew ''cannot transform cluster to day2. Unexpected cluster status'')), w)
      else if Cluster_Kind c \<noteq> ClusterKindCluster
      then (Some (ApiError 400 (ErrNew ''cannot transform cluster to day2. Unexpected cluster kind'')), w)
      else (case update_by_id (Cluster_ID c)
                   [(CC_status, CStatus ClusterStatusAddingHosts), (CC_kind, CKind ClusterKindAddHostsCluster),
                    (CC_api_vip_dns_name, CString (GetConvertedClusterAPIVipDNSName c))] w of
              (Inl _, w1) \<Rightarrow> (Some (ApiError 500 (ErrNew ''failed to update cluster'')), w1)
            | (Inr _, w1) \<Rightarrow> (None, w1)))"

definition updateSchedulableMastersForcedTrue :: "uuid \<Rightarrow> bool \<Rightarrow> world \<Rightarrow> go_error option \<times> world" where
  "updateSchedulableMastersForcedTrue clusterID b w =
     (case update_by_id clusterID [(CC_schedulable_masters_forced_true, CBool b)] w of
        (r, w1) \<Rightarrow> (map_option (ApiError 500) (error_of r), w1))"

definition RefreshSchedulableMastersForcedTrue :: "cluster \<Rightarrow> world \<Rightarrow> go_error option \<times> world" where
  "RefreshSchedulableMastersForcedTrue c w =
     (let b = ShouldMastersBeSchedulable c in
      if Cluster_SchedulableMastersForcedTrue c \<noteq> Some b
      then updateSchedulableMastersForcedTrue (Cluster_ID c) b w else (None, w))"

definition RefreshSchedulableMastersForcedTrueWithClusterID :: "uuid \<Rightarrow> world \<Rightarrow> go_error option \<times> world" where
  "RefreshSchedulableMastersForcedTrueWithClusterID clusterID w =
     (case GetClusterFromDBWithHosts w clusterID of
        Inl err \<Rightarrow> (Some err, w) | Inr c \<Rightarrow> RefreshSchedulableMastersForcedTrue c w)"

section \<open>Guards on the status\<close>

definition getDownloadFilesAllowedStatuses :: "cluster_status list" where
  "getDownloadFilesAllowedStatuses =
     [ClusterStatusInstalling, ClusterStatusFinalizing, ClusterStatusInstalled, ClusterStatusError,
      ClusterStatusAddingHosts, ClusterStatusCancelled, ClusterStatusInstallingPendingUserAction]"

definition checkDownloadAllowed :: "cluster \<Rightarrow> cluster_status list \<Rightarrow> go_error option" where
  "checkDownloadAllowed c allowed =
     (if \<not> List.member allowed (Cluster_Status c)
      then Some (ErrNew ''can be downloaded only when status is one of the allowed'') else None)"

definition CanDownloadKubeconfig :: "cluster \<Rightarrow> go_error option" where
  "CanDownloadKubeconfig c =
     checkDownloadAllowed c [ClusterStatusFinalizing, ClusterStatusInstalled, ClusterStatusError,
       ClusterStatusAddingHosts, ClusterStatusCancelled, ClusterStatusInstallingPendingUserAction]"

definition CanDownloadFiles :: "cluster \<Rightarrow> go_error option" where
  "CanDownloadFiles c = checkDownloadAllowed c getDownloadFilesAllowedStatuses"

definition CanDownloadKubeconfigFiles :: "cluster \<Rightarrow> string \<Rightarrow> go_error option" where
  "CanDownloadKubeconfigFiles c installerInvoker =
     (if installerInvoker \<noteq> ''agent-installer'' then CanDownloadFiles c
      else checkDownloadAllowed c
             (getDownloadFilesAllowedStatuses @ [ClusterStatusReady, ClusterStatusPreparingForInstallation]))"

definition UploadIngressCert :: "cluster \<Rightarrow> go_error option" where
  "UploadIngressCert c =
     (if \<not> List.member [ClusterStatusFinalizing, ClusterStatusInstalled] (Cluster_Status c)
      then Some (ErrNew ''upload ingress ca can be done only in finalizing or installed state'') else None)"

definition updatable_statuses :: "cluster_status list" where
  "updatable_statuses =
     [ClusterStatusInsufficient, ClusterStatusReady, ClusterStatusPendingForInput, ClusterStatusAddingHosts]"

definition AcceptRegistration :: "cluster_manager \<Rightarrow> cluster \<Rightarrow> go_error option" where
  "AcceptRegistration m c =
     (if List.member updatable_statuses (Cluster_Status c) then None
      else if Cluster_Status c = ClusterStatusInstalled
      then Some (ErrNew (''Cannot add hosts to an existing cluster using the original Discovery ISO.'' @
             (if cm_AuthTypeRHSSO m
              then '' Try to add new hosts by using the Discovery ISO of your cluster.'' else '''')))
      else Some (ErrNew ''Host can register only in one of the allowed states''))"

definition VerifyClusterUpdatability :: "cluster \<Rightarrow> go_error option" where
  "VerifyClusterUpdatability c =
     (if List.member updatable_statuses (Cluster_Status c) then None
      else Some (ErrNew ''cluster can be updated only in one of the allowed statuses''))"

end
