(* ===== verification/Cluster_Behaviour.thy ===== *)
theory Cluster_Behaviour
  imports Cluster_Refresh Cluster_Manager
begin

text \<open>
  When the post transitions of a refresh succeed: in a store whose statements succeed, with services that
  answer and with status texts that fit their column, every rule that a refresh selects is carried out. With
  the decision tables this makes the refresh of a cluster a total function of what it observes.
\<close>

section \<open>Lengths of status texts\<close>

lemma nat_digits_length: "n < 10 ^ Suc k \<Longrightarrow> length (nat_digits n) \<le> Suc k"
proof (induction k arbitrary: n)
  case 0
  then show ?case by (subst nat_digits.simps) simp
next
  case (Suc k)
  show ?case
  proof (cases "n < 10")
    case False
    from Suc.prems have "n div 10 < 10 ^ Suc k" by (simp add: less_mult_imp_div_less mult.commute)
    from Suc.IH [OF this] False show ?thesis by (subst nat_digits.simps) simp
  qed (subst nat_digits.simps, simp)
qed

text \<open>A number of 64 bits prints in at most 20 characters.\<close>

lemma int_digits_length: "\<bar>i\<bar> \<le> 2 ^ 63 \<Longrightarrow> length (int_digits i) \<le> 20"
proof -
  assume "\<bar>i\<bar> \<le> 2 ^ 63"
  then have "nat \<bar>i\<bar> < 10 ^ Suc 18" by (simp add: nat_less_iff)
  from nat_digits_length [OF this] show ?thesis by (auto simp: int_digits_def abs_if)
qed

lemma Sprintf_length: "length (Sprintf t vs) \<le> length t + sum_list (map length vs)"
proof (induction t vs rule: Sprintf.induct)
  case (3 c d cs vs)
  then show ?case by (cases vs) auto
qed auto

definition int64_range :: "int \<Rightarrow> bool" where
  "int64_range i \<longleftrightarrow> \<bar>i\<bar> \<le> 2 ^ 63"

lemma abs_go_div: "\<bar>go_div a b\<bar> \<le> \<bar>a\<bar>"
proof (cases "a = 0 \<or> b = 0")
  case False
  then have "\<bar>go_div a b\<bar> = \<bar>a\<bar> div \<bar>b\<bar>" by (simp add: go_div_def abs_mult abs_sgn_eq div_int_pos_iff)
  also have "\<dots> \<le> \<bar>a\<bar> div 1" using False by (intro zdiv_mono2) auto
  finally show ?thesis by simp
qed (auto simp: go_div_def)

lemma whole_minutes_length: "int64_range d \<Longrightarrow> length (int_digits (whole_minutes d)) \<le> 20"
  using abs_go_div [of d Minute] by (intro int_digits_length) (simp add: int64_range_def whole_minutes_def)

section \<open>Services\<close>

text \<open>
  What a refresh relies on: every statement of the store succeeds, the row has the status that the caller
  saw, hosts have their progress, and the services that a post transition may call answer.
\<close>

definition store_ready :: "cluster_ctx \<Rightarrow> bool" where
  "store_ready sc \<longleftrightarrow>
     wf_world (sc_world sc) \<and> cluster_healthy (sc_world sc) \<and>
     \<not> w_dbfault (sc_world sc) DeleteVips \<and> \<not> w_dbfault (sc_world sc) SaveVips \<and>
     cluster_stored sc = Some (sc_srcState sc) \<and>
     (\<forall>h \<in> set (Cluster_Hosts (sc_cluster sc)). Host_Progress h \<noteq> None)"

definition ocm_ready :: "cluster_handler \<Rightarrow> bool" where
  "ocm_ready th \<longleftrightarrow>
     (\<forall>ocm. ocmClient th = Some ocm \<longrightarrow>
        (\<forall>i url. UpdateSubscriptionConsoleUrl ocm i url = None) \<and>
        (\<forall>i. UpdateSubscriptionStatusActive ocm i = None))"

definition node_address :: "cluster_handler \<Rightarrow> cluster \<Rightarrow> bool" where
  "node_address th c \<longleftrightarrow>
     (IsSingleNodeCluster c \<longrightarrow>
        (\<exists>ip. GetIpForSingleNodeInstallation th (c\<lparr>Cluster_Status := ClusterStatusInstalling\<rparr>) = Inr ip))"

text \<open>The texts that contain numbers or names of operators fit the column of status texts.\<close>

definition texts_fit :: "cluster_handler \<Rightarrow> cluster \<Rightarrow> world \<Rightarrow> bool" where
  "texts_fit th c w \<longleftrightarrow>
     int64_range (installationTimeout th) \<and>
     (\<forall>p. Cluster_Progress c = Some p \<longrightarrow>
        int64_range (finalizingStageTimeout (stageEnv th) (FinalizingStage p) (Cluster_MonitoredOperators c)
          (isSoftTimeoutsEnabled th c))) \<and>
     length (fst (createClusterCompletionStatusInfo c w)) \<le> varchar_max"

definition services_ready :: "cluster_handler \<Rightarrow> cluster_ctx \<Rightarrow> bool" where
  "services_ready th sc \<longleftrightarrow>
     store_ready sc \<and> ocm_ready th \<and> node_address th (sc_cluster sc) \<and>
     CreateDNSRecordSets th (sc_cluster sc) = None \<and> texts_fit th (sc_cluster sc) (sc_world sc)"

text \<open>A post transition that succeeds, and returns a cluster with the status that it has stored.\<close>

definition carried_out :: "cluster_status \<Rightarrow> cluster_ctx \<Rightarrow> go_error option \<times> cluster_ctx \<Rightarrow> bool" where
  "carried_out d sc res \<longleftrightarrow>
     fst res = None \<and>
     (case updatedCluster (snd res) of
        None \<Rightarrow> sc_srcState sc = d
      | Some r \<Rightarrow> Cluster_ID r = Cluster_ID (sc_cluster sc) \<and> Cluster_Status r = d)"

section \<open>Resetting hosts\<close>

lemma isPendingUserResetRequired_total:
  "\<forall>h \<in> set hs. Host_Progress h \<noteq> None \<Longrightarrow> \<exists>b. isPendingUserResetRequired m hs w = Inr b"
  by (induction hs) (auto simp: IsRequireUserActionReset_def split: if_splits)

lemma setPending_succeeds:
  "\<forall>h \<in> set (Cluster_Hosts c). Host_Progress h \<noteq> None \<Longrightarrow> fst (setPendingUserResetIfNeeded m c w) = None"
  using isPendingUserResetRequired_total [of "Cluster_Hosts c" m w]
  by (auto simp: setPendingUserResetIfNeeded_def)

lemma loaded_hosts_progress:
  "wf_world w \<Longrightarrow> \<forall>h \<in> set (Cluster_Hosts (load_hosts w r)). Host_Progress h \<noteq> None"
  by (auto simp: load_hosts_def wf_world_def list_all_iff)

lemma finish_refresh_succeeds:
  assumes "\<forall>h \<in> set (Cluster_Hosts (case r of None \<Rightarrow> sc_cluster sc | Some c \<Rightarrow> c)). Host_Progress h \<noteq> None"
  shows "\<exists>sc'. finish_refresh th sc r w = (None, sc') \<and>
    updatedCluster sc' = (case r of None \<Rightarrow> updatedCluster sc | Some c \<Rightarrow> Some c)"
  using setPending_succeeds [OF assms, of "hostApi th" w]
  by (auto simp: finish_refresh_def Let_def split: prod.splits)

section \<open>VIPs\<close>

lemma save_vips_succeeds: "\<not> w_dbfault w SaveVips \<Longrightarrow> fst (save_vips set_vips k vips w) = None"
  by (induction vips arbitrary: w) simp_all

lemma save_vips_fault: "w_dbfault (snd (save_vips set_vips k vips w)) = w_dbfault w"
  by (induction vips arbitrary: w) simp_all

lemma replace_vips_succeeds:
  "\<not> w_dbfault w DeleteVips \<Longrightarrow> \<not> w_dbfault w SaveVips \<Longrightarrow> fst (replace_vips set_vips k vips w) = None"
  by (auto simp: replace_vips_def delete_vips_def save_vips_succeeds)

lemma replace_vips_fault: "w_dbfault (snd (replace_vips set_vips k vips w)) = w_dbfault w"
  by (auto simp: replace_vips_def delete_vips_def save_vips_fault split: prod.splits option.splits)

lemma UpdateVipsTables_succeeds:
  assumes "\<not> w_dbfault w DeleteVips" and "\<not> w_dbfault w SaveVips"
  shows "fst (UpdateVipsTables k api ingress w) = None"
    and "w_dbfault (snd (UpdateVipsTables k api ingress w)) = w_dbfault w"
proof -
  obtain w1 where w1: "replace_vips Cluster_APIVips_update k api w = (None, w1)"
    using replace_vips_succeeds [OF assms, of Cluster_APIVips_update k api] by (metis prod.collapse)
  then have f: "w_dbfault w1 = w_dbfault w" using replace_vips_fault [of Cluster_APIVips_update k api w] by simp
  with assms replace_vips_succeeds [of w1 Cluster_IngressVips_update k ingress]
    replace_vips_fault [of Cluster_IngressVips_update k ingress w1] w1
  show "fst (UpdateVipsTables k api ingress w) = None"
    "w_dbfault (snd (UpdateVipsTables k api ingress w)) = w_dbfault w"
    by (simp_all add: UpdateVipsTables_def)
qed

lemma sno_vips_succeeds:
  assumes "store_ready sc" and "node_address th (sc_cluster sc)"
  shows "\<exists>w. (if IsSingleNodeCluster (sc_cluster sc) then updateSNOClusterVips th (sc_cluster sc) (sc_world sc)
        else (None, sc_world sc)) = (None, w) \<and>
    cluster_healthy w \<and> wf_world w \<and> same_statuses (sc_world sc) w"
proof (cases "IsSingleNodeCluster (sc_cluster sc) \<and> Cluster_Status (sc_cluster sc) = ClusterStatusInstalling")
  case True
  let ?c = "sc_cluster sc"
  from True have "?c\<lparr>Cluster_Status := ClusterStatusInstalling\<rparr> = ?c" by (cases ?c) simp
  with True assms(2) obtain ip where ip: "GetIpForSingleNodeInstallation th ?c = Inr ip"
    by (auto simp: node_address_def)
  from assms(1) have f: "\<not> w_dbfault (sc_world sc) DeleteVips" "\<not> w_dbfault (sc_world sc) SaveVips"
    and wf: "wf_world (sc_world sc)" by (simp_all add: store_ready_def)
  from True ip have eq: "updateSNOClusterVips th ?c (sc_world sc) = UpdateVipsTables (Cluster_ID ?c) [ip] [ip] (sc_world sc)"
    by (simp add: updateSNOClusterVips_def)
  show ?thesis
    using True eq UpdateVipsTables_succeeds [OF f, of "Cluster_ID ?c" "[ip]" "[ip]"]
      cluster_wf.sno_vips [OF wf, of th ?c] updateSNOClusterVips_statuses [of "sc_world sc" th ?c] assms(1)
    by (intro exI [of _ "snd (UpdateVipsTables (Cluster_ID ?c) [ip] [ip] (sc_world sc))"])
       (auto simp: cluster_healthy_def store_ready_def prod_eq_iff)
next
  case False
  with assms(1) show ?thesis
    by (auto simp: updateSNOClusterVips_def store_ready_def same_statuses_def)
qed

section \<open>Post transitions of a refresh\<close>

lemma stored_status:
  "store_ready sc \<Longrightarrow> same_statuses (sc_world sc) w \<Longrightarrow>
   map_option Cluster_Status (find_cluster (Cluster_ID (sc_cluster sc)) w) = Some (sc_srcState sc)"
  by (simp add: store_ready_def cluster_stored_def same_statuses_def)

text \<open>A status update of a ready store returns the row with the requested status.\<close>

lemma status_update_succeeds:
  assumes "cluster_healthy w" and "wf_world w" and "same_statuses (sc_world sc) w" and "store_ready sc"
    and "cluster_extra_ok extra" and "length info \<le> varchar_max"
  shows "\<exists>r w1. updateClusterStatus (Cluster_ID (sc_cluster sc)) (sc_srcState sc) d info extra w = (Inr (Some r), w1) \<and>
    Cluster_ID r = Cluster_ID (sc_cluster sc) \<and> Cluster_Status r = d \<and>
    (\<forall>h \<in> set (Cluster_Hosts r). Host_Progress h \<noteq> None)"
proof -
  let ?k = "Cluster_ID (sc_cluster sc)"
  from stored_status [OF assms(4,3)] obtain row
    where row: "find_cluster ?k w = Some row" "Cluster_Status row = sc_srcState sc" by auto
  from updateClusterStatus_succeeds [OF assms(1,2,5,6) row, of d] obtain f w1 where
    "cluster_assignment (cluster_status_extra (w_now w) (sc_srcState sc) d info extra) = Some f"
    "updateClusterStatus ?k (sc_srcState sc) d info extra w = (Inr (Some (load_hosts w (f row))), w1)"
    "Cluster_Status (f row) = d" by blast
  with cluster_assignment_key find_cluster_SomeD [OF row(1)] loaded_hosts_progress [OF assms(2), of "f row"]
  show ?thesis by auto
qed

lemma PostRefreshCluster_succeeds:
  assumes "store_ready sc" and "node_address th (sc_cluster sc)" and "updatedCluster sc = None"
    and "computeReason th (sc_cluster sc) tmpl fs = Inr reason" and "length reason \<le> varchar_max"
  shows "carried_out (Cluster_Status (sc_cluster sc)) sc
    (PostRefreshCluster th tmpl fs sc (ArgsRefreshCluster conds res))"
proof (cases "sc_srcState sc \<noteq> Cluster_Status (sc_cluster sc) \<or> reason \<noteq> Cluster_StatusInfo (sc_cluster sc)")
  case True
  let ?c = "sc_cluster sc"
  from sno_vips_succeeds [OF assms(1,2)] obtain w where
    v: "(if IsSingleNodeCluster ?c then updateSNOClusterVips th ?c (sc_world sc) else (None, sc_world sc)) = (None, w)"
    and w: "cluster_healthy w" "wf_world w" "same_statuses (sc_world sc) w" by auto
  from status_update_succeeds [OF w assms(1) _ assms(5)] obtain r w1 where
    u: "updateClusterStatus (Cluster_ID ?c) (sc_srcState sc) (Cluster_Status ?c) reason
      (addExtraParams (Cluster_Status ?c) (sc_srcState sc) (w_now w)) w = (Inr (Some r), w1)"
    and r: "Cluster_ID r = Cluster_ID ?c" "Cluster_Status r = Cluster_Status ?c"
      "\<forall>h \<in> set (Cluster_Hosts r). Host_Progress h \<noteq> None" by (metis cluster_reset_extra(6))
  from finish_refresh_succeeds [of sc "Some r" th w1] r(3) obtain sc' where
    "finish_refresh th sc (Some r) w1 = (None, sc')" "updatedCluster sc' = Some r" by auto
  moreover from this True v u have "PostRefreshCluster th tmpl fs sc (ArgsRefreshCluster conds res) = (None, sc')"
    by (simp add: PostRefreshCluster_def assms(4) Let_def)
  ultimately show ?thesis using r by (simp add: carried_out_def)
next
  case False
  from finish_refresh_succeeds [of sc None th "sc_world sc"] assms(1) obtain sc' where
    "finish_refresh th sc None (sc_world sc) = (None, sc')" "updatedCluster sc' = updatedCluster sc"
    by (auto simp: store_ready_def)
  with False assms(3) show ?thesis
    by (auto simp: PostRefreshCluster_def assms(4) Let_def carried_out_def)
qed

lemma failed_post_succeeds:
  assumes "store_ready sc" and "node_address th (sc_cluster sc)" and "updatedCluster sc = None"
    and "computeReason th (sc_cluster sc) tmpl fs = Inr reason" and "length reason \<le> varchar_max"
  shows "carried_out (Cluster_Status (sc_cluster sc)) sc
    (SequentialPostTransitions [PostRefreshCluster th tmpl fs, SendClusterInstallationFailedEvent th tmpl fs] sc
       (ArgsRefreshCluster conds res))"
proof -
  let ?a = "ArgsRefreshCluster conds res"
  obtain e sc1 where p: "PostRefreshCluster th tmpl fs sc ?a = (e, sc1)" by force
  with PostRefreshCluster_succeeds [OF assms, of conds res] have e: "e = None" by (simp add: carried_out_def)
  have c: "sc_cluster sc1 = sc_cluster sc"
    using p e finish_refresh_frame(1)
    by (auto simp: PostRefreshCluster_def Let_def split: sum.splits if_splits option.splits prod.splits)
  then have "fst (SendClusterInstallationFailedEvent th tmpl fs sc1 ?a) = None"
    by (simp add: SendClusterInstallationFailedEvent_def assms(4))
  moreover note failed_event_frame(3) [of th tmpl fs sc1 ?a]
  ultimately show ?thesis
    using PostRefreshCluster_succeeds [OF assms, of conds res] p e
    by (auto simp: failed_post_eq carried_out_def split: prod.splits option.splits)
qed

lemma PostPreparingTimedOut_succeeds:
  assumes "store_ready sc" and "updatedCluster sc = None"
  shows "carried_out (Cluster_Status (sc_cluster sc)) sc (PostPreparingTimedOut th sc (ArgsRefreshCluster conds res))"
proof -
  let ?c = "sc_cluster sc" and ?info = cluster_statusInfoPreparingForInstallationTimeout
  have info: "length ?info \<le> varchar_max"
    by (simp add: cluster_statusInfoPreparingForInstallationTimeout_def varchar_max_def)
  let ?upd = "if sc_srcState sc \<noteq> Cluster_Status ?c \<or> ?info \<noteq> Cluster_StatusInfo ?c
    then updateClusterStatus (Cluster_ID ?c) (sc_srcState sc) (Cluster_Status ?c) ?info [] (sc_world sc)
    else (Inr None, sc_world sc)"
  have w: "cluster_healthy (sc_world sc)" "wf_world (sc_world sc)" "same_statuses (sc_world sc) (sc_world sc)"
    using assms(1) by (simp_all add: store_ready_def same_statuses_def)
  obtain r w1 where upd: "?upd = (Inr r, w1)"
    and hs: "\<forall>h \<in> set (Cluster_Hosts (case r of None \<Rightarrow> ?c | Some x \<Rightarrow> x)). Host_Progress h \<noteq> None"
    and r: "case r of None \<Rightarrow> sc_srcState sc = Cluster_Status ?c
      | Some x \<Rightarrow> Cluster_ID x = Cluster_ID ?c \<and> Cluster_Status x = Cluster_Status ?c"
  proof (cases "sc_srcState sc \<noteq> Cluster_Status ?c \<or> ?info \<noteq> Cluster_StatusInfo ?c")
    case True
    from status_update_succeeds [OF w assms(1) cluster_extra_ok_Nil info, of "Cluster_Status ?c"] True that show ?thesis
      by auto
  qed (use assms(1) that [of None] in \<open>auto simp: store_ready_def\<close>)
  from finish_refresh_succeeds [OF hs, of th w1] obtain sc1 where
    "finish_refresh th sc r w1 = (None, sc1)" "updatedCluster sc1 = (case r of None \<Rightarrow> updatedCluster sc | Some x \<Rightarrow> Some x)"
    by blast
  with upd r assms(2) show ?thesis
    by (auto simp: PostPreparingTimedOut_def Let_def carried_out_def split: option.splits)
qed

lemma UpdateCluster_ready:
  assumes "store_ready sc" and "cluster_extra_ok extra"
  shows "\<exists>r w. UpdateCluster (Cluster_ID (sc_cluster sc)) (sc_srcState sc) extra (sc_world sc) = (Inr r, w) \<and>
    Cluster_ID r = Cluster_ID (sc_cluster sc) \<and> Cluster_Status r = sc_srcState sc"
proof -
  let ?k = "Cluster_ID (sc_cluster sc)"
  from stored_status [OF assms(1), of "sc_world sc"] obtain row
    where row: "find_cluster ?k (sc_world sc) = Some row" "Cluster_Status row = sc_srcState sc"
    by (auto simp: same_statuses_def)
  from assms(2) obtain f where f: "cluster_assignment extra = Some f"
    using cluster_assignment_ok [of extra] by (auto simp: cluster_extra_ok_def)
  from assms(1) have "cluster_healthy (sc_world sc)" by (simp add: store_ready_def)
  from UpdateCluster_succeeds [OF this f row] show ?thesis
    using cluster_assignment_key [OF f, of row] cluster_extra_status [OF assms(2) f, of row] row find_cluster_SomeD [OF row(1)]
    by auto
qed

lemma PostUpdateFinalizingAMSConsoleUrl_succeeds:
  assumes "store_ready sc" and "ocm_ready th" and "ocmClient th \<noteq> None"
  shows "carried_out (sc_srcState sc) sc (PostUpdateFinalizingAMSConsoleUrl th sc (ArgsRefreshCluster conds res))"
  using UpdateCluster_ready [OF assms(1), of "[CName CC_is_ams_subscription_console_url_set, CBool True]"] assms(2,3)
  by (auto simp: PostUpdateFinalizingAMSConsoleUrl_def ocm_ready_def Let_def carried_out_def)

lemma PostRefreshFinalizingStageSoftTimedOut_succeeds:
  assumes "store_ready sc" and "Cluster_Progress (sc_cluster sc) = Some p"
    and "length (Sprintf cluster_statusInfoFinalizingStageSoftTimeout
      [finalizing_stage_string (FinalizingStage p), int_digits (finalizingStageTimeoutMinutes th (sc_cluster sc) p)])
      \<le> varchar_max"
  shows "carried_out (sc_srcState sc) sc (PostRefreshFinalizingStageSoftTimedOut th sc (ArgsRefreshCluster conds res))"
proof -
  let ?info = "Sprintf cluster_statusInfoFinalizingStageSoftTimeout
      [finalizing_stage_string (FinalizingStage p), int_digits (finalizingStageTimeoutMinutes th (sc_cluster sc) p)]"
  have "cluster_extra_ok [CName CC_status_info, CString ?info, CName CC_progress_finalizing_stage_timed_out, CBool True]"
    using assms(3) by simp
  from UpdateCluster_ready [OF assms(1) this] assms(2) show ?thesis
    by (auto simp: PostRefreshFinalizingStageSoftTimedOut_def notifyFinalizingStageTimeout_def Let_def carried_out_def)
qed

lemma logs_post_succeeds:
  assumes "store_ready sc" and "updatedCluster sc = None"
  shows "carried_out (sc_srcState sc) sc (cluster_PostRefreshLogsProgress l sc args)"
proof -
  let ?k = "Cluster_ID (sc_cluster sc)"
  have h: "cluster_healthy (sc_world sc)" using assms(1) by (simp add: store_ready_def)
  from stored_status [OF assms(1), of "sc_world sc"] obtain row where row: "find_cluster ?k (sc_world sc) = Some row"
    by (auto simp: same_statuses_def)
  let ?ups = "if l = LogsStateRequested
      then [(CC_logs_info, CLogs l), (CC_controller_logs_started_at, CTime (w_now (sc_world sc)))]
      else [(CC_logs_info, CLogs l)]"
  obtain f where f: "assign_each cluster_assign ?ups = Some f" by (cases "l = LogsStateRequested") auto
  let ?w = "update_clusters (\<lambda>c. Cluster_ID c = ?k) f (sc_world sc)"
  have u: "update_by_id ?k ?ups (sc_world sc) =
      (Inr (length (filter (\<lambda>c. Cluster_ID c = ?k) (w_clusters (sc_world sc)))), ?w)"
    using h unfolding update_by_id_def f by (simp add: cluster_healthy_def)
  have "\<exists>c. GetClusterFromDBWithHosts ?w ?k = Inr c"
    using h row find_update_clusters [OF assign_each_id [OF f]]
    by (simp add: GetClusterFromDBWithHosts_Inr cluster_healthy_def)
  with u assms(2) show ?thesis
    by (auto simp: cluster_PostRefreshLogsProgress_def updateLogsProgress_def carried_out_def)
qed

lemma completion_text_world:
  "fst (createClusterCompletionStatusInfo c w) = fst (createClusterCompletionStatusInfo c w')"
  "w_dbfault (snd (createClusterCompletionStatusInfo c w)) = w_dbfault w"
  "wf_world (snd (createClusterCompletionStatusInfo c w)) = wf_world w"
  "w_clusters (snd (createClusterCompletionStatusInfo c w)) = w_clusters w"
  by (simp_all add: createClusterCompletionStatusInfo_def Let_def split: prod.splits)

lemma PostCompleteInstallation_succeeds:
  assumes "store_ready sc" and "ocm_ready th" and "sc_srcState sc = ClusterStatusFinalizing"
    and "length (fst (createClusterCompletionStatusInfo (sc_cluster sc) (sc_world sc))) \<le> varchar_max"
  shows "carried_out ClusterStatusInstalled sc (PostCompleteInstallation th sc (ArgsRefreshCluster conds res))"
proof -
  let ?c = "sc_cluster sc"
  obtain reason w where cr: "createClusterCompletionStatusInfo ?c (sc_world sc) = (reason, w)" by force
  have w: "cluster_healthy w" "wf_world w" "same_statuses (sc_world sc) w"
    using assms(1) completion_text_world(2-4) [of ?c "sc_world sc"] cr
    by (simp_all add: store_ready_def cluster_healthy_def same_statuses_def find_cluster_def)
  have ex: "cluster_extra_ok [CName CC_progress_finalizing_stage_percentage, CNum 100, CName CC_progress_total_percentage, CNum 100]"
    by simp
  from assms(4) cr have reason: "length reason \<le> varchar_max" by simp
  have ocm: "(case ocmClient th of None \<Rightarrow> None
      | Some ocm \<Rightarrow> UpdateSubscriptionStatusActive ocm (Cluster_AmsSubscriptionID ?c)) = None"
    using assms(2) by (simp add: ocm_ready_def split: option.splits)
  from status_update_succeeds [OF w assms(1) ex reason, of ClusterStatusInstalled] assms(3) ocm show ?thesis
    by (auto simp: PostCompleteInstallation_def CompleteInstallation_def cr carried_out_def)
qed

section \<open>Every enabled rule is carried out\<close>

definition at_status :: "cluster_status \<Rightarrow> cluster_ctx \<Rightarrow> cluster_ctx" where
  "at_status d sc = sc\<lparr>sc_cluster := (sc_cluster sc)\<lparr>Cluster_Status := d\<rparr>\<rparr>"

lemma at_status_simps [simp]:
  "sc_world (at_status d sc) = sc_world sc" "sc_srcState (at_status d sc) = sc_srcState sc"
  "updatedCluster (at_status d sc) = updatedCluster sc"
  "sc_cluster (at_status d sc) = (sc_cluster sc)\<lparr>Cluster_Status := d\<rparr>"
  "carried_out s (at_status d sc) res = carried_out s sc res"
  by (simp_all add: at_status_def carried_out_def split: option.splits)

lemma completion_text_status:
  "fst (createClusterCompletionStatusInfo (c\<lparr>Cluster_Status := d\<rparr>) w) = fst (createClusterCompletionStatusInfo c w)"
  by (simp add: createClusterCompletionStatusInfo_def operators_in_def countOperatorsInAllStatuses_def
      NumberOfWorkers_def Let_def split: prod.splits)

lemma services_at_status:
  assumes "services_ready th sc"
  shows "store_ready (at_status d sc)" "ocm_ready th" "node_address th ((sc_cluster sc)\<lparr>Cluster_Status := d\<rparr>)"
    "texts_fit th ((sc_cluster sc)\<lparr>Cluster_Status := d\<rparr>) (sc_world sc)"
  using assms
  by (simp_all add: services_ready_def store_ready_def node_address_def texts_fit_def cluster_stored_def
      isSoftTimeoutsEnabled_def completion_text_status IsSingleNodeCluster_def)

text \<open>The rule is carried out whenever it is enabled and the services are there.\<close>

definition carries :: "cluster_handler \<Rightarrow> cluster_rule \<Rightarrow> bool" where
  "carries th tr \<longleftrightarrow>
     (\<forall>sc conds res. services_ready th sc \<longrightarrow> updatedCluster sc = None \<longrightarrow>
        sc_srcState sc = Cluster_Status (sc_cluster sc) \<longrightarrow>
        IsAllowedToRun stateCluster_State tr sc (ArgsRefreshCluster conds res) = Inr True \<longrightarrow>
        carried_out (DestinationState tr) sc (fire stateCluster_SetState tr sc (ArgsRefreshCluster conds res)))"

lemma fire_post:
  assumes "services_ready th sc" and "Transition tr = None \<or> Transition tr = Some (InstallCluster th)"
    and "PostTransition tr = Some f"
  shows "fire stateCluster_SetState tr sc (ArgsRefreshCluster conds res) =
    f (at_status (DestinationState tr) sc) (ArgsRefreshCluster conds res)"
  using assms
  by (auto simp: fire_def stateCluster_SetState_def InstallCluster_def services_ready_def at_status_def)

lemma enabled_source_status:
  "IsAllowedToRun stateCluster_State tr sc args = Inr True \<Longrightarrow> Cluster_Status (sc_cluster sc) \<in> set (SourceStates tr)"
  by (auto simp: IsAllowedToRun_def stateCluster_State_def split: if_splits)

lemma cluster_enabled_condition:
  "IsAllowedToRun stateCluster_State tr sc args = Inr True \<Longrightarrow> Condition tr = Some g \<Longrightarrow> g sc args = Inr True"
  by (auto simp: IsAllowedToRun_def split: if_splits)

text \<open>Rules whose post transition is that of a refresh, with a text that can be computed and that fits.\<close>

definition text_ok :: "cluster_handler \<Rightarrow> string \<Rightarrow> formatFunction list \<Rightarrow> cluster_rule \<Rightarrow> bool" where
  "text_ok th tmpl fs tr \<longleftrightarrow>
     (\<forall>sc conds res. services_ready th sc \<longrightarrow>
        IsAllowedToRun stateCluster_State tr sc (ArgsRefreshCluster conds res) = Inr True \<longrightarrow>
        (\<exists>reason. computeReason th ((sc_cluster sc)\<lparr>Cluster_Status := DestinationState tr\<rparr>) tmpl fs = Inr reason \<and>
                  length reason \<le> varchar_max))"

lemma Sprintf_Nil [simp]: "Sprintf t [] = t"
  by (induction t "[] :: string list" rule: Sprintf.induct) auto

lemma text_ok_plain: "length tmpl \<le> varchar_max \<Longrightarrow> text_ok th tmpl [] tr"
  by (simp add: text_ok_def computeReason_def)

lemma text_ok_minutes:
  assumes "length tmpl \<le> 2000"
  shows "text_ok th tmpl [InstallationTimeoutMinutes] tr"
proof -
  have "length (Sprintf tmpl [int_digits (whole_minutes (installationTimeout th))]) \<le> varchar_max"
    if "services_ready th sc" for sc
  proof -
    from that have "int64_range (installationTimeout th)" by (simp add: services_ready_def texts_fit_def)
    from whole_minutes_length [OF this] Sprintf_length [of tmpl "[int_digits (whole_minutes (installationTimeout th))]"]
    show ?thesis using assms by (simp add: varchar_max_def)
  qed
  then show ?thesis by (auto simp: text_ok_def computeReason_def format_value_def)
qed

lemma stage_text:
  assumes "texts_fit th c w" and "Cluster_Progress c = Some p" and "length tmpl \<le> 1900"
  shows "length (Sprintf tmpl [finalizing_stage_string (FinalizingStage p),
    int_digits (finalizingStageTimeoutMinutes th c p)]) \<le> varchar_max"
proof -
  from assms have "length (int_digits (finalizingStageTimeoutMinutes th c p)) \<le> 20"
    unfolding finalizingStageTimeoutMinutes_def by (intro whole_minutes_length) (simp add: texts_fit_def)
  moreover have "length (finalizing_stage_string (FinalizingStage p)) \<le> 100"
    by (cases "FinalizingStage p") simp_all
  ultimately show ?thesis
    using Sprintf_length [of tmpl "[finalizing_stage_string (FinalizingStage p),
      int_digits (finalizingStageTimeoutMinutes th c p)]"] assms(3)
    by (simp add: varchar_max_def)
qed

lemma stage_expired_progress:
  "IsFinalizingStageTimedOut th sc args = Inr True \<Longrightarrow> \<exists>p. Cluster_Progress (sc_cluster sc) = Some p"
  by (auto simp: IsFinalizingStageTimedOut_def Let_def split: option.splits)

lemma text_ok_stage:
  assumes "length tmpl \<le> 1900"
    and "\<And>sc args. IsAllowedToRun stateCluster_State tr sc args = Inr True \<Longrightarrow> IsFinalizingStageTimedOut th sc args = Inr True"
  shows "text_ok th tmpl [FinalizingStage_fn, FinalizingStageTimeoutMinutes] tr"
  unfolding text_ok_def
proof (intro allI impI)
  fix sc :: cluster_ctx and conds res
  let ?c = "(sc_cluster sc)\<lparr>Cluster_Status := DestinationState tr\<rparr>"
  assume s: "services_ready th sc" and "IsAllowedToRun stateCluster_State tr sc (ArgsRefreshCluster conds res) = Inr True"
  from stage_expired_progress [OF assms(2) [OF this(2)]] obtain p where p: "Cluster_Progress ?c = Some p" by auto
  with stage_text [OF services_at_status(4) [OF s] p assms(1)]
  show "\<exists>reason. computeReason th ?c tmpl [FinalizingStage_fn, FinalizingStageTimeoutMinutes] = Inr reason \<and>
      length reason \<le> varchar_max"
    by (simp add: computeReason_def format_value_def)
qed

lemma carries_refresh:
  assumes "Transition tr = None \<or> Transition tr = Some (InstallCluster th)" and "text_ok th tmpl fs tr"
    and "PostTransition tr = Some (PostRefreshCluster th tmpl fs) \<or>
         PostTransition tr = Some (SequentialPostTransitions
           [PostRefreshCluster th tmpl fs, SendClusterInstallationFailedEvent th tmpl fs])"
  shows "carries th tr"
  unfolding carries_def
proof (intro allI impI)
  fix sc :: cluster_ctx and conds res
  assume s: "services_ready th sc" "updatedCluster sc = None"
    and en: "IsAllowedToRun stateCluster_State tr sc (ArgsRefreshCluster conds res) = Inr True"
  from assms(2) s(1) en obtain reason where
    "computeReason th ((sc_cluster sc)\<lparr>Cluster_Status := DestinationState tr\<rparr>) tmpl fs = Inr reason"
    "length reason \<le> varchar_max" unfolding text_ok_def by blast
  moreover note services_at_status(1,3) [OF s(1), of "DestinationState tr"]
  ultimately have
    "carried_out (DestinationState tr) sc (PostRefreshCluster th tmpl fs (at_status (DestinationState tr) sc) (ArgsRefreshCluster conds res))"
    "carried_out (DestinationState tr) sc (SequentialPostTransitions
       [PostRefreshCluster th tmpl fs, SendClusterInstallationFailedEvent th tmpl fs]
       (at_status (DestinationState tr) sc) (ArgsRefreshCluster conds res))"
    using PostRefreshCluster_succeeds [of "at_status (DestinationState tr) sc" th tmpl fs reason conds res]
      failed_post_succeeds [of "at_status (DestinationState tr) sc" th tmpl fs reason conds res] s(2)
    by simp_all
  then show "carried_out (DestinationState tr) sc (fire stateCluster_SetState tr sc (ArgsRefreshCluster conds res))"
    using assms(3) fire_post [OF s(1) assms(1)] by auto
qed

lemma carries_stay:
  assumes "Transition tr = None" and "PostTransition tr = None" and "SourceStates tr = [DestinationState tr]"
  shows "carries th tr"
  using assms enabled_source_status [of tr]
  by (fastforce simp: carries_def fire_def stateCluster_SetState_def carried_out_def)

text \<open>The post transitions that keep the status of a cluster, and the one that completes an installation.\<close>

lemma carries_keep:
  assumes "Transition tr = None" and "PostTransition tr = Some f" and "SourceStates tr = [DestinationState tr]"
    and "\<And>sc conds res. services_ready th sc \<Longrightarrow> updatedCluster sc = None \<Longrightarrow>
      IsAllowedToRun stateCluster_State tr sc (ArgsRefreshCluster conds res) = Inr True \<Longrightarrow>
      carried_out (sc_srcState sc) sc (f (at_status (DestinationState tr) sc) (ArgsRefreshCluster conds res))"
  shows "carries th tr"
  unfolding carries_def
proof (intro allI impI)
  fix sc :: cluster_ctx and conds res
  assume s: "services_ready th sc" "updatedCluster sc = None" "sc_srcState sc = Cluster_Status (sc_cluster sc)"
    and en: "IsAllowedToRun stateCluster_State tr sc (ArgsRefreshCluster conds res) = Inr True"
  from enabled_source_status [OF en] s(3) assms(3) have "sc_srcState sc = DestinationState tr" by simp
  with assms(4) [OF s(1,2) en] fire_post [OF s(1) disjI1 [OF assms(1)] assms(2)]
  show "carried_out (DestinationState tr) sc (fire stateCluster_SetState tr sc (ArgsRefreshCluster conds res))"
    by simp
qed

lemma carries_ams:
  assumes "Transition tr = None" and "PostTransition tr = Some (PostUpdateFinalizingAMSConsoleUrl th)"
    and "SourceStates tr = [DestinationState tr]" and "Condition tr = Some (WithAMSSubscriptions th)"
  shows "carries th tr"
proof (rule carries_keep [OF assms(1-3)])
  fix sc :: cluster_ctx and conds res
  assume s: "services_ready th sc"
    and "IsAllowedToRun stateCluster_State tr sc (ArgsRefreshCluster conds res) = Inr True"
  from cluster_enabled_condition [OF this(2) assms(4)] have "ocmClient th \<noteq> None" by (simp add: WithAMSSubscriptions_def)
  from PostUpdateFinalizingAMSConsoleUrl_succeeds [OF services_at_status(1,2) [OF s] this, of "DestinationState tr" conds res]
  show "carried_out (sc_srcState sc) sc
      (PostUpdateFinalizingAMSConsoleUrl th (at_status (DestinationState tr) sc) (ArgsRefreshCluster conds res))" by simp
qed

lemma carries_soft_timeout:
  assumes "Transition tr = None" and "PostTransition tr = Some (PostRefreshFinalizingStageSoftTimedOut th)"
    and "SourceStates tr = [DestinationState tr]"
    and "\<And>sc args. IsAllowedToRun stateCluster_State tr sc args = Inr True \<Longrightarrow> IsFinalizingStageTimedOut th sc args = Inr True"
  shows "carries th tr"
proof (rule carries_keep [OF assms(1-3)])
  fix sc :: cluster_ctx and conds res
  let ?sc = "at_status (DestinationState tr) sc"
  assume s: "services_ready th sc"
    and "IsAllowedToRun stateCluster_State tr sc (ArgsRefreshCluster conds res) = Inr True"
  from stage_expired_progress [OF assms(4) [OF this(2)]] obtain p where p: "Cluster_Progress (sc_cluster ?sc) = Some p"
    by auto
  have "length cluster_statusInfoFinalizingStageSoftTimeout \<le> 1900"
    by (simp add: cluster_statusInfoFinalizingStageSoftTimeout_def)
  from stage_text [OF services_at_status(4) [OF s, of "DestinationState tr"] _ this] p
    PostRefreshFinalizingStageSoftTimedOut_succeeds [OF services_at_status(1) [OF s] p, of th conds res]
  show "carried_out (sc_srcState sc) sc
      (PostRefreshFinalizingStageSoftTimedOut th ?sc (ArgsRefreshCluster conds res))" by simp
qed

lemma carries_logs:
  assumes "Transition tr = None" and "PostTransition tr = Some (cluster_PostRefreshLogsProgress l)"
    and "SourceStates tr = [DestinationState tr]"
  shows "carries th tr"
proof (rule carries_keep [OF assms])
  fix sc :: cluster_ctx and conds res
  assume s: "services_ready th sc" "updatedCluster sc = None"
  from logs_post_succeeds [OF services_at_status(1) [OF s(1)], of "DestinationState tr" l "ArgsRefreshCluster conds res"] s(2)
  show "carried_out (sc_srcState sc) sc
      (cluster_PostRefreshLogsProgress l (at_status (DestinationState tr) sc) (ArgsRefreshCluster conds res))" by simp
qed

lemma carries_preparing_timeout:
  assumes "Transition tr = None" and "PostTransition tr = Some (PostPreparingTimedOut th)"
  shows "carries th tr"
  unfolding carries_def
proof (intro allI impI)
  fix sc :: cluster_ctx and conds res
  assume s: "services_ready th sc" "updatedCluster sc = None"
  from PostPreparingTimedOut_succeeds [OF services_at_status(1) [OF s(1)], of "DestinationState tr" th conds res] s(2)
    fire_post [OF s(1) disjI1 [OF assms(1)] assms(2)]
  show "carried_out (DestinationState tr) sc (fire stateCluster_SetState tr sc (ArgsRefreshCluster conds res))" by simp
qed

lemma carries_complete:
  assumes "Transition tr = None" and "PostTransition tr = Some (PostCompleteInstallation th)"
    and "SourceStates tr = [ClusterStatusFinalizing]" and "DestinationState tr = ClusterStatusInstalled"
  shows "carries th tr"
  unfolding carries_def
proof (intro allI impI)
  fix sc :: cluster_ctx and conds res
  assume s: "services_ready th sc" "sc_srcState sc = Cluster_Status (sc_cluster sc)"
    and en: "IsAllowedToRun stateCluster_State tr sc (ArgsRefreshCluster conds res) = Inr True"
  from enabled_source_status [OF en] assms(3) s(2) have "sc_srcState (at_status (DestinationState tr) sc) = ClusterStatusFinalizing"
    by simp
  from PostCompleteInstallation_succeeds [OF services_at_status(1,2) [OF s(1)] this, of conds res] services_at_status(4) [OF s(1)]
    fire_post [OF s(1) disjI1 [OF assms(1)] assms(2)] assms(4)
  show "carried_out (DestinationState tr) sc (fire stateCluster_SetState tr sc (ArgsRefreshCluster conds res))"
    by (simp add: texts_fit_def)
qed

lemma plain_texts:
  "length cluster_statusInfoPendingForInput \<le> varchar_max" "length cluster_StatusInfoInsufficient \<le> varchar_max"
  "length cluster_StatusInfoReady \<le> varchar_max" "length cluster_statusInfoInstalling \<le> varchar_max"
  "length cluster_statusInfoUnpreparingHostExists \<le> varchar_max"
  "length cluster_statusInfoClusterFailedToPrepare \<le> varchar_max" "length cluster_statusInfoError \<le> varchar_max"
  "length cluster_statusInfoTimeout \<le> varchar_max" "length cluster_statusInfoFinalizingTimeout \<le> varchar_max"
  "length cluster_statusInfoFinalizing \<le> varchar_max"
  "length cluster_statusInfoInstallingPendingUserAction \<le> varchar_max"
  "length cluster_statusInfoInstallationTimeout \<le> 2000" "length cluster_statusInfoFinalizingStageTimeout \<le> 1900"
  by (simp_all add: varchar_max_def cluster_statusInfoPendingForInput_def cluster_StatusInfoInsufficient_def
      cluster_StatusInfoReady_def cluster_statusInfoInstalling_def cluster_statusInfoUnpreparingHostExists_def
      cluster_statusInfoClusterFailedToPrepare_def cluster_statusInfoError_def cluster_statusInfoTimeout_def
      cluster_statusInfoFinalizingTimeout_def cluster_statusInfoFinalizing_def
      cluster_statusInfoInstallingPendingUserAction_def cluster_statusInfoInstallationTimeout_def
      cluster_statusInfoFinalizingStageTimeout_def)

text \<open>The shapes of the rules of a refresh, for the simplifier.\<close>

lemma And_True: "And fs sc args = Inr True \<Longrightarrow> f \<in> set fs \<Longrightarrow> f sc args = Inr True"
  by (induction fs) (auto split: sum.splits if_splits)

lemma carried_refresh_rule:
  assumes "length tmpl \<le> varchar_max"
  shows "carries th \<lparr>TransitionType = t, SourceStates = ss, DestinationState = d, Condition = g, Transition = None,
      PostTransition = Some (PostRefreshCluster th tmpl [])\<rparr>"
    "carries th \<lparr>TransitionType = t, SourceStates = ss, DestinationState = d, Condition = g,
      Transition = Some (InstallCluster th), PostTransition = Some (PostRefreshCluster th tmpl [])\<rparr>"
    "carries th \<lparr>TransitionType = t, SourceStates = ss, DestinationState = d, Condition = g, Transition = None,
      PostTransition = Some (SequentialPostTransitions
        [PostRefreshCluster th tmpl [], SendClusterInstallationFailedEvent th tmpl []])\<rparr>"
  by (rule carries_refresh [OF _ text_ok_plain [OF assms]]; simp)+

lemma carried_minutes_rule:
  assumes "length tmpl \<le> 2000"
  shows "carries th \<lparr>TransitionType = t, SourceStates = ss, DestinationState = d, Condition = g, Transition = None,
      PostTransition = Some (SequentialPostTransitions [PostRefreshCluster th tmpl [InstallationTimeoutMinutes],
        SendClusterInstallationFailedEvent th tmpl [InstallationTimeoutMinutes]])\<rparr>"
  by (rule carries_refresh [OF _ text_ok_minutes [OF assms]]; simp)

lemma carried_stage_rules:
  assumes "IsFinalizingStageTimedOut th \<in> set gs"
  shows "length tmpl \<le> 1900 \<Longrightarrow> carries th \<lparr>TransitionType = t, SourceStates = ss, DestinationState = d,
      Condition = Some (And gs), Transition = None,
      PostTransition = Some (SequentialPostTransitions
        [PostRefreshCluster th tmpl [FinalizingStage_fn, FinalizingStageTimeoutMinutes],
         SendClusterInstallationFailedEvent th tmpl [FinalizingStage_fn, FinalizingStageTimeoutMinutes]])\<rparr>"
    and "carries th \<lparr>TransitionType = t, SourceStates = [d], DestinationState = d,
      Condition = Some (And gs), Transition = None, PostTransition = Some (PostRefreshFinalizingStageSoftTimedOut th)\<rparr>"
proof -
  have *: "IsFinalizingStageTimedOut th sc args = Inr True"
    if "IsAllowedToRun stateCluster_State tr sc args = Inr True" "Condition tr = Some (And gs)" for tr sc args
    using And_True [OF cluster_enabled_condition [OF that] assms] .
  show "length tmpl \<le> 1900 \<Longrightarrow> carries th \<lparr>TransitionType = t, SourceStates = ss, DestinationState = d,
      Condition = Some (And gs), Transition = None,
      PostTransition = Some (SequentialPostTransitions
        [PostRefreshCluster th tmpl [FinalizingStage_fn, FinalizingStageTimeoutMinutes],
         SendClusterInstallationFailedEvent th tmpl [FinalizingStage_fn, FinalizingStageTimeoutMinutes]])\<rparr>"
    by (rule carries_refresh [where tmpl = tmpl and fs = "[FinalizingStage_fn, FinalizingStageTimeoutMinutes]"])
       (simp_all add: text_ok_stage *)
  show "carries th \<lparr>TransitionType = t, SourceStates = [d], DestinationState = d,
      Condition = Some (And gs), Transition = None, PostTransition = Some (PostRefreshFinalizingStageSoftTimedOut th)\<rparr>"
    by (rule carries_soft_timeout; simp add: *)
qed

lemma refresh_carried: "list_all (\<lambda>tr. TransitionType tr = TransitionTypeRefreshStatus \<longrightarrow> carries th tr) (cluster_rules th)"
proof -
  have "list_all (carries th) (cluster_discovery_rules th)" "list_all (carries th) (cluster_preparing_rules th)"
    by (simp_all add: cluster_discovery_rules_def cluster_preparing_rules_def carried_refresh_rule
        carries_preparing_timeout plain_texts)
  moreover have "list_all (carries th) (cluster_timeout_rules th)"
    by (simp add: cluster_timeout_rules_def carried_refresh_rule carried_minutes_rule carried_stage_rules plain_texts)
  moreover have "list_all (carries th) (cluster_installing_rules th)"
    by (simp add: cluster_installing_rules_def carried_refresh_rule carries_stay carries_ams carries_complete plain_texts)
  moreover have "list_all (carries th) (cluster_final_rules th)"
    by (simp add: cluster_final_rules_def carries_stay carries_logs list.pred_map comp_def)
  ultimately show ?thesis
    by (auto simp: cluster_rules_def list_all_iff cluster_control_rules_def)
qed

section \<open>A refresh is total\<close>

text \<open>The decision tables together: where a refresh takes a cluster in each of its statuses.\<close>

definition cluster_refresh_spec ::
  "cluster_handler \<Rightarrow> cluster_ctx \<Rightarrow> cluster_conditions \<Rightarrow> bool \<Rightarrow> cluster_status" where
  "cluster_refresh_spec th sc conds kubeconfig =
     (let s = Cluster_Status (sc_cluster sc) in
      if List.member cluster_preinstall_statuses s then cluster_preinstall_spec conds
      else if s = ClusterStatusPreparingForInstallation then cluster_preparing_spec th sc conds
      else if s = ClusterStatusInstalling then cluster_installing_spec th sc
      else if s = ClusterStatusInstallingPendingUserAction then cluster_pending_user_spec th sc
      else if s = ClusterStatusFinalizing then cluster_finalizing_spec th sc kubeconfig
      else s)"

lemma cluster_refresh_destination:
  assumes "checked_status (Cluster_Status (sc_cluster sc)) \<Longrightarrow> cluster_complete conds"
    and "DoesObjectExist th (Cluster_ID (sc_cluster sc) @ ''/kubeconfig'') = Inr kubeconfig"
  shows "cluster_destination th TransitionTypeRefreshStatus sc (ArgsRefreshCluster conds res) =
    Inr (Some (cluster_refresh_spec th sc conds kubeconfig))"
proof -
  let ?s = "Cluster_Status (sc_cluster sc)"
  consider "?s \<in> set cluster_preinstall_statuses" | "?s = ClusterStatusPreparingForInstallation"
    | "?s = ClusterStatusInstalling" | "?s = ClusterStatusInstallingPendingUserAction"
    | "?s = ClusterStatusFinalizing" | "?s \<in> set cluster_settled_statuses"
    by (cases ?s) (auto simp: cluster_preinstall_statuses_def cluster_settled_statuses_def)
  then show ?thesis
  proof cases
    case 1
    then have "cluster_complete conds"
      by (intro assms(1)) (auto simp: cluster_preinstall_statuses_def checked_status_def checkValidationsInStatuses_def)
    from cluster_preinstall_refresh [OF this 1] 1 show ?thesis by (simp add: cluster_refresh_spec_def)
  next
    case 2
    then have "cluster_complete conds" by (intro assms(1)) (simp add: checked_status_def checkValidationsInStatuses_def)
    from cluster_preparing_refresh [OF this 2] 2 show ?thesis
      by (simp add: cluster_refresh_spec_def cluster_preinstall_statuses_def)
  qed (use assms in \<open>auto simp: cluster_refresh_spec_def cluster_preinstall_statuses_def cluster_settled_statuses_def
         cluster_installing_refresh cluster_pending_user_refresh cluster_finalizing_refresh cluster_settled_refresh\<close>)
qed

lemma selected_rule:
  assumes "cluster_destination th t sc args = Inr (Some d)"
  obtains tr where "tr \<in> set (cluster_rules th)" "TransitionType tr = t"
    "IsAllowedToRun stateCluster_State tr sc args = Inr True" "DestinationState tr = d"
    "cluster_Run th t sc args = fire stateCluster_SetState tr sc args"
proof -
  from assms obtain tr where sel: "select_rule stateCluster_State
      (filter (\<lambda>tr. TransitionType tr = t) (cluster_rules th)) sc args = Inr (Some tr)" and d: "DestinationState tr = d"
    unfolding cluster_destination_def
    by (cases "select_rule stateCluster_State (filter (\<lambda>tr. TransitionType tr = t) (cluster_rules th)) sc args") auto
  with select_rule_Some [OF sel] that show ?thesis by (auto simp: enabled_def cluster_Run_select)
qed

lemma cluster_Run_refresh:
  assumes "services_ready th sc" and "sc_srcState sc = Cluster_Status (sc_cluster sc)" and "updatedCluster sc = None"
    and "cluster_destination th TransitionTypeRefreshStatus sc (ArgsRefreshCluster conds res) = Inr (Some d)"
  shows "carried_out d sc (cluster_Run th TransitionTypeRefreshStatus sc (ArgsRefreshCluster conds res))"
proof -
  let ?a = "ArgsRefreshCluster conds res"
  from selected_rule [OF assms(4)] obtain tr where tr: "tr \<in> set (cluster_rules th)"
    "TransitionType tr = TransitionTypeRefreshStatus" "IsAllowedToRun stateCluster_State tr sc ?a = Inr True"
    "DestinationState tr = d" "cluster_Run th TransitionTypeRefreshStatus sc ?a = fire stateCluster_SetState tr sc ?a"
    by metis
  with refresh_carried [of th] have "carries th tr" by (simp add: list_all_iff)
  with assms(1-3) tr show ?thesis by (auto simp: carries_def)
qed

section \<open>What a run leaves in the store\<close>

text \<open>A run that succeeds stores the status that the tables give.\<close>

lemma cluster_run_stores:
  assumes "cluster_Run th t sc args = (None, sc')" and "wf_world (sc_world sc)"
    and "cluster_stored sc = Some (sc_srcState sc)" and "sc_srcState sc = Cluster_Status (sc_cluster sc)"
    and "cluster_destination th t sc args = Inr (Some d)"
  shows "cluster_stored sc' = Some d"
proof -
  from selected_rule [OF assms(5)] obtain tr where tr: "tr \<in> set (cluster_rules th)"
    "IsAllowedToRun stateCluster_State tr sc args = Inr True" "DestinationState tr = d"
    "cluster_Run th t sc args = fire stateCluster_SetState tr sc args" by metis
  with cluster_switch.fire_stores [OF tr(1) _ assms(2,3) _ assms(1) [unfolded tr(4)]] enabled_source_status [OF tr(2)]
    assms(4) show ?thesis by simp
qed

text \<open>The state switch holds the same cluster throughout.\<close>

definition keeps_id :: "cluster_action \<Rightarrow> bool" where
  "keeps_id f \<longleftrightarrow> (\<forall>sc args. Cluster_ID (sc_cluster (snd (f sc args))) = Cluster_ID (sc_cluster sc))"

lemma UpdateCluster_id: "UpdateCluster k s extra w = (Inr c, w1) \<Longrightarrow> Cluster_ID c = k"
  by (auto simp: UpdateCluster_def GetClusterFromDBWithHosts_Inr Let_def dest: find_cluster_SomeD
      split: if_splits sum.splits option.splits)

lemma updateClusterStatus_id: "updateClusterStatus k s t info extra w = (Inr (Some c), w1) \<Longrightarrow> Cluster_ID c = k"
  by (auto simp: updateClusterStatus_def dest: UpdateCluster_id split: prod.splits sum.splits if_splits)

lemma updateTransitionCluster_id: "Cluster_ID (sc_cluster (snd (updateTransitionCluster sc info extra))) = Cluster_ID (sc_cluster sc)"
  by (auto simp: updateTransitionCluster_def dest: updateClusterStatus_id split: prod.splits sum.splits option.splits)

lemma logs_id: "updateLogsProgress c l w = (e, c1, w1) \<Longrightarrow> Cluster_ID c1 = Cluster_ID c"
  by (auto simp: updateLogsProgress_def GetClusterFromDBWithHosts_Inr dest: find_cluster_SomeD
      split: prod.splits sum.splits if_splits)

lemma finish_refresh_cluster [simp]: "sc_cluster (snd (finish_refresh th sc r w)) = sc_cluster sc"
  by (simp add: finish_refresh_def Let_def split: prod.splits)

lemma posts_keep_id:
  "keeps_id cluster_PostCancelInstallation" "keeps_id PostPrepareForInstallation" "keeps_id PostResetCluster"
  "keeps_id (PostUpdateFinalizingAMSConsoleUrl th)" "keeps_id (PostRefreshFinalizingStageSoftTimedOut th)"
  "keeps_id (cluster_PostRefreshLogsProgress l)" "keeps_id (InstallCluster th)"
  "keeps_id (SendClusterInstallationFailedEvent th tmpl fs)"
  by (auto simp: keeps_id_def cluster_PostCancelInstallation_def PostPrepareForInstallation_def PostResetCluster_def
      PostUpdateFinalizingAMSConsoleUrl_def PostRefreshFinalizingStageSoftTimedOut_def cluster_PostRefreshLogsProgress_def
      InstallCluster_def failed_event_frame updateTransitionCluster_id Let_def
      dest: logs_id split: cluster_args.splits option.splits prod.splits sum.splits if_splits)

lemma PostRefreshCluster_keeps_id: "keeps_id (PostRefreshCluster th tmpl fs)"
proof -
  have "sc_cluster (snd (PostRefreshCluster th tmpl fs sc args)) = sc_cluster sc" for sc args
  proof (cases args)
    case (ArgsRefreshCluster conds res)
    obtain e w where v: "(if IsSingleNodeCluster (sc_cluster sc) then updateSNOClusterVips th (sc_cluster sc) (sc_world sc)
        else (None, sc_world sc)) = (e, w)" by force
    show ?thesis
      by (auto simp: PostRefreshCluster_def ArgsRefreshCluster Let_def v split: option.splits sum.splits prod.splits)
  qed (simp_all add: PostRefreshCluster_def)
  then show ?thesis by (simp add: keeps_id_def)
qed

lemma sequence_keeps_id:
  "keeps_id f \<Longrightarrow> keeps_id g \<Longrightarrow> keeps_id (SequentialPostTransitions [f, g])"
  by (auto simp: keeps_id_def SequentialPostTransitions_def split: prod.splits option.splits) (metis snd_conv)+

lemma other_posts_keep_id: "keeps_id (PostPreparingTimedOut th)" "keeps_id (PostCompleteInstallation th)"
proof -
  show "keeps_id (PostCompleteInstallation th)"
    by (auto simp: keeps_id_def PostCompleteInstallation_def CompleteInstallation_def dest: updateClusterStatus_id
        split: cluster_args.splits prod.splits sum.splits option.splits)
  have "sc_cluster (snd (PostPreparingTimedOut th sc args)) = sc_cluster sc" for sc args
  proof (cases args)
    case (ArgsRefreshCluster conds res)
    let ?c = "sc_cluster sc" and ?info = cluster_statusInfoPreparingForInstallationTimeout
    obtain r w where u: "(if sc_srcState sc \<noteq> Cluster_Status ?c \<or> ?info \<noteq> Cluster_StatusInfo ?c
      then updateClusterStatus (Cluster_ID ?c) (sc_srcState sc) (Cluster_Status ?c) ?info [] (sc_world sc)
      else (Inr None, sc_world sc)) = (r, w)" by force
    obtain e sc1 where f: "finish_refresh th sc (case r of Inl _ \<Rightarrow> None | Inr x \<Rightarrow> x) w = (e, sc1)" by force
    with finish_refresh_frame(1) [OF f] u show ?thesis
      by (auto simp: PostPreparingTimedOut_def ArgsRefreshCluster Let_def split: option.splits sum.splits)
  qed (simp_all add: PostPreparingTimedOut_def)
  then show "keeps_id (PostPreparingTimedOut th)" by (simp add: keeps_id_def)
qed

lemma rules_keep_id:
  "tr \<in> set (cluster_rules th) \<Longrightarrow>
   (case Transition tr of None \<Rightarrow> True | Some f \<Rightarrow> keeps_id f) \<and> (case PostTransition tr of None \<Rightarrow> True | Some f \<Rightarrow> keeps_id f)"
proof -
  have "list_all (\<lambda>tr. (case Transition tr of None \<Rightarrow> True | Some f \<Rightarrow> keeps_id f) \<and>
      (case PostTransition tr of None \<Rightarrow> True | Some f \<Rightarrow> keeps_id f)) (cluster_rules th)"
    unfolding cluster_rules_def
    by (simp add: cluster_rule_defs posts_keep_id PostRefreshCluster_keeps_id sequence_keeps_id other_posts_keep_id)
  then show "tr \<in> set (cluster_rules th) \<Longrightarrow> ?thesis" by (simp add: list_all_iff)
qed

lemma cluster_run_id:
  assumes "cluster_destination th t sc args = Inr (Some d)"
  shows "Cluster_ID (sc_cluster (snd (cluster_Run th t sc args))) = Cluster_ID (sc_cluster sc)"
proof -
  from selected_rule [OF assms] obtain tr where tr: "tr \<in> set (cluster_rules th)"
    "cluster_Run th t sc args = fire stateCluster_SetState tr sc args" by metis
  from rules_keep_id [OF tr(1)] show ?thesis
    unfolding tr(2) keeps_id_def
    by (auto simp: fire_def stateCluster_SetState_def split: option.splits prod.splits) (metis snd_conv)+
qed

end
