(* ===== verification/Cluster_Guarantees.thy ===== *)
theory Cluster_Guarantees
  imports Cluster_Behaviour Host_Guarantees
begin

text \<open>
  The guarantees of the cluster manager: a refresh is total and agrees with the decision tables, what a
  cluster has to fulfil to become ready, to start its installation and to be installed, the bounds of its
  progress, and the round trip of its registration.
\<close>

section \<open>A sample cluster\<close>

definition sample_cluster_handler :: cluster_handler where
  "sample_cluster_handler =
     \<lparr>PrepareForInstallationTimeout = 10 * Minute, LogCollectionTimeout = Hour, LogPendingTimeout = Hour,
      installationTimeout = 24 * Hour, finalizingTimeout = 5 * Hour, softTimeoutsEnabled_c = False,
      stageEnv = \<lparr>Getenv = (\<lambda>_. ''''), ParseDuration = (\<lambda>_. Inl ErrDB)\<rparr>,
      hostApi = sample_manager, DoesObjectExist = (\<lambda>_. Inr True), ocmClient = None,
      CreateDNSRecordSets = (\<lambda>_. None), GetIpForSingleNodeInstallation = (\<lambda>_. Inr ''10.0.0.1'')\<rparr>"

definition sample_operator_results :: "cluster_operator_result list" where
  "sample_operator_results =
     map (\<lambda>i. \<lparr>COR_ValidationId = i, COR_Status = ValidationSuccess, COR_Reasons = []\<rparr>) cluster_operators_validations"

definition sample_cluster_validator :: cluster_validator where
  "sample_cluster_validator =
     \<lparr>cv_hostAPI = sample_manager, cv_condition = (\<lambda>_ _. (ValidationSuccess, '''')),
      cv_ValidateCluster = (\<lambda>_. Inr sample_operator_results), cv_disabled = []\<rparr>"

definition sample_cluster_manager :: cluster_manager where
  "sample_cluster_manager =
     \<lparr>cm_th = sample_cluster_handler, cm_validator = sample_cluster_validator,
      cm_unmarshalValidations = (\<lambda>_. Inr []), cm_marshalValidations = (\<lambda>_. Inr ''{}''), cm_nan = 0,
      cm_AuthTypeRHSSO = False, cm_Normalize = Inr, cm_ToValidUTF8 = id, cm_error_string = (\<lambda>_. ''error''),
      cm_DeleteInfraEnv = (\<lambda>_. None)\<rparr>"

definition demo_cluster :: "cluster_status \<Rightarrow> cluster" where
  "demo_cluster s =
     zero_cluster\<lparr>Cluster_ID := ''c'', Cluster_Status := s, Cluster_ControlPlaneCount := 3,
       Cluster_PreparationStatus := LastInstallationPreparationStatusSuccess, Cluster_PullSecretSet := True\<rparr>"

definition sample_cluster_world :: "cluster \<Rightarrow> host list \<Rightarrow> world" where
  "sample_cluster_world c hs =
     \<lparr>w_now = 0, w_hosts = hs, w_deleted_hosts = [], w_clusters = [c], w_deleted_clusters = [],
      w_events = [], w_notified = [], w_notified_clusters = [], w_dbfault = (\<lambda>_. False)\<rparr>"

section \<open>Reporting validations\<close>

definition quiet_world :: "world \<Rightarrow> world" where
  "quiet_world w = w\<lparr>w_events := []\<rparr>"

lemma report_change_events: "quiet_world (cluster_report_change c cur cat v w) = quiet_world w"
  by (simp add: quiet_world_def cluster_report_change_def send_event_def Let_def split: option.splits)

lemma reportValidationStatusChanged_events:
  "quiet_world (cluster_reportValidationStatusChanged c new cur w) = quiet_world w"
proof -
  have "quiet_world (fold (cluster_report_change c cur cat) rs w) = quiet_world w" for cat rs w
    by (induction rs arbitrary: w) (simp_all add: report_change_events)
  then have "quiet_world (fold (\<lambda>(cat, rs). fold (cluster_report_change c cur cat) rs) new w) = quiet_world w"
    by (induction new arbitrary: w) auto
  then show ?thesis by (simp add: cluster_reportValidationStatusChanged_def)
qed

text \<open>The worlds between which the refresh may not distinguish: clock, hosts, faults and statuses agree.\<close>

definition same_stage :: "world \<Rightarrow> world \<Rightarrow> bool" where
  "same_stage w w1 \<longleftrightarrow>
     w_now w1 = w_now w \<and> w_hosts w1 = w_hosts w \<and> w_dbfault w1 = w_dbfault w \<and> same_statuses w w1 \<and>
     (wf_world w \<longrightarrow> wf_world w1)"

lemma same_stage_events: "quiet_world w1 = quiet_world w \<Longrightarrow> same_stage w w1"
  by (cases w; cases w1) (simp add: quiet_world_def same_stage_def same_statuses_def find_cluster_def wf_world_def)

lemma same_stage_trans: "same_stage a b \<Longrightarrow> same_stage b c \<Longrightarrow> same_stage a c"
  by (auto simp: same_stage_def same_statuses_def)

lemma UpdateCluster_same_stage:
  assumes "wf_world w" and "cluster_extra_ok extra"
  shows "same_stage w (snd (UpdateCluster k s extra w))"
proof -
  have "same_statuses w (snd (UpdateCluster k s extra w))"
  proof (rule UpdateCluster_snd_cases [of k s extra w])
    fix f assume f: "cluster_assignment extra = Some f"
      and w: "w_clusters (snd (UpdateCluster k s extra w)) = w_clusters (update_clusters (cluster_guard k s) f w)"
    show ?thesis
      unfolding same_statuses_def find_cluster_clusters [OF w] find_guarded_cluster [OF cluster_assignment_key [OF f]]
      using cluster_extra_status [OF assms(2) f] by (auto simp: option.map_comp comp_def intro!: option.map_cong)
  qed (simp add: same_statuses_def)
  with assms(1) show ?thesis by (simp add: same_stage_def UpdateCluster_frame UpdateCluster_wf)
qed
section \<open>A refresh of a stored cluster\<close>

text \<open>
  What the preprocessor relies on: the list of ignored validations can be decoded, and the operators answer
  with results for validations that the code knows, among them every one that an installation requires.
\<close>

definition validator_ready :: "cluster_validator \<Rightarrow> cluster \<Rightarrow> bool" where
  "validator_ready v c \<longleftrightarrow>
     (\<exists>l. DeserializeJSONList (m_validator (cv_hostAPI v)) (Cluster_IgnoredClusterValidations c) = Inr l) \<and>
     (\<exists>rs. cv_ValidateCluster v c = Inr rs \<and>
        list_all (\<lambda>r. \<exists>cat. Category (COR_ValidationId r) = Inr cat) rs \<and>
        set requiredForInstallIds \<subseteq> fst ` set (newClusterValidations v) \<union> COR_ValidationId ` set rs)"

definition json_ready :: "cluster_manager \<Rightarrow> cluster \<Rightarrow> bool" where
  "json_ready m c \<longleftrightarrow>
     (\<exists>vs. cluster_GetValidations m c = Inr vs) \<and> (\<forall>vs. \<exists>b. cm_marshalValidations m vs = Inr b)"

lemma cluster_preprocess_complete:
  assumes "validator_ready v (cp_cluster ctx)"
  shows "\<exists>conds out. cluster_preprocess v ctx = Inr (conds, out) \<and>
    (checked_status (Cluster_Status (cp_cluster ctx)) \<longrightarrow> cluster_complete conds)"
proof -
  from assms obtain rs where rs: "cv_ValidateCluster v (cp_cluster ctx) = Inr rs"
    "list_all (\<lambda>r. \<exists>cat. Category (COR_ValidationId r) = Inr cat) rs"
    "set requiredForInstallIds \<subseteq> fst ` set (newClusterValidations v) \<union> COR_ValidationId ` set rs"
    and l: "\<exists>l. DeserializeJSONList (m_validator (cv_hostAPI v))
      (Cluster_IgnoredClusterValidations (cp_cluster ctx)) = Inr l"
    by (auto simp: validator_ready_def)
  from cluster_preprocess_total [OF disjI2 [OF l] rs(1,2)] obtain conds out
    where pre: "cluster_preprocess v ctx = Inr (conds, out)" by blast
  have ids: "set (pendingIds @ vipsDefinedIds) \<subseteq> fst ` set (newClusterValidations v)"
    unfolding set_map [symmetric] newClusterValidations_ids by (simp add: pendingIds_def vipsDefinedIds_def)
  have "cluster_complete conds" if "checked_status (Cluster_Status (cp_cluster ctx))"
  proof -
    have "conds (CVKey i) \<noteq> None" if i: "i \<in> set (pendingIds @ vipsDefinedIds @ requiredForInstallIds)" for i
    proof (rule preprocess_validation_defined [OF pre \<open>checked_status _\<close>])
      show "i \<in> fst ` set (newClusterValidations v) \<or>
          (\<exists>rs. cv_ValidateCluster v (cp_cluster ctx) = Inr rs \<and> i \<in> COR_ValidationId ` set rs)"
        using i ids rs(1,3) by auto
    qed
    with preprocess_condition [OF pre that] show ?thesis by (simp add: cluster_complete_def)
  qed
  with pre show ?thesis by blast
qed

lemma spec_now:
  assumes "w_now w1 = w_now w"
  shows "cluster_refresh_spec th (newStateCluster c w1) conds k = cluster_refresh_spec th (newStateCluster c w) conds k"
proof -
  let ?a = "newStateCluster c w1" and ?b = "newStateCluster c w"
  have c: "sc_cluster ?a = c" "sc_cluster ?b = c" and since: "since ?a = since ?b"
    by (simp_all add: newStateCluster_def since_def fun_eq_iff assms)
  have "cluster_preparing_spec th ?a conds = cluster_preparing_spec th ?b conds"
    "cluster_installing_spec th ?a = cluster_installing_spec th ?b"
    "cluster_pending_user_spec th ?a = cluster_pending_user_spec th ?b"
    by (simp_all add: cluster_preparing_spec_def cluster_installing_spec_def cluster_pending_user_spec_def
        installation_expired_def c since)
  moreover have "cluster_finalizing_spec th ?a k = cluster_finalizing_spec th ?b k"
    unfolding cluster_finalizing_spec_def installation_expired_def stage_expired_def finalizingStageTimeoutTriggered_def
      c since ..
  ultimately show ?thesis by (simp add: cluster_refresh_spec_def c Let_def)
qed

lemma services_same_stage:
  assumes "services_ready th (newStateCluster c w)" and "same_stage w w1"
  shows "services_ready th (newStateCluster c w1)"
  using assms completion_text_world(1) [of c w w1]
  by (auto simp: services_ready_def store_ready_def newStateCluster_def same_stage_def cluster_healthy_def
      cluster_stored_def same_statuses_def texts_fit_def)

lemma updateValidations_succeeds:
  assumes "store_ready (newStateCluster c w)" and "cm_marshalValidations m new = Inr b"
  shows "\<exists>r w1. cluster_updateValidationsInDB m c new w = (Inr r, w1) \<and> same_stage w w1"
proof -
  have ex: "cluster_extra_ok [CName CC_validations_info, CString b]" by simp
  from UpdateCluster_ready [OF assms(1) ex] obtain r w1 where
    "UpdateCluster (Cluster_ID c) (Cluster_Status c) [CName CC_validations_info, CString b] w = (Inr r, w1)"
    by (auto simp: newStateCluster_def)
  moreover have "same_stage w (snd (UpdateCluster (Cluster_ID c) (Cluster_Status c) [CName CC_validations_info, CString b] w))"
    by (rule UpdateCluster_same_stage [OF _ ex]) (use assms(1) in \<open>simp add: store_ready_def newStateCluster_def\<close>)
  ultimately show ?thesis by (simp add: cluster_updateValidationsInDB_def assms(2))
qed

text \<open>The status of the row and of the cluster that is returned.\<close>

definition refreshed :: "cluster \<Rightarrow> cluster_status \<Rightarrow> (go_error + cluster) \<times> world \<Rightarrow> bool" where
  "refreshed c s res \<longleftrightarrow>
     (case res of
        (Inl _, _) \<Rightarrow> False
      | (Inr r, w) \<Rightarrow> Cluster_ID r = Cluster_ID c \<and> Cluster_Status r = s \<and>
          map_option Cluster_Status (find_cluster (Cluster_ID c) w) = Some s)"

lemma run_refresh:
  assumes "services_ready (cm_th m) (newStateCluster c w)"
    and "checked_status (Cluster_Status c) \<Longrightarrow> cluster_complete conds"
    and "DoesObjectExist (cm_th m) (Cluster_ID c @ ''/kubeconfig'') = Inr kubeconfig"
  shows "\<exists>upd w1. run_cluster_sm m TransitionTypeRefreshStatus (ArgsRefreshCluster conds out) c w = (None, upd, w1) \<and>
    refreshed c (cluster_refresh_spec (cm_th m) (newStateCluster c w) conds kubeconfig)
      (Inr (case upd of None \<Rightarrow> c | Some r \<Rightarrow> r), w1)"
proof -
  let ?sc = "newStateCluster c w" and ?a = "ArgsRefreshCluster conds out" and ?th = "cm_th m"
  let ?d = "cluster_refresh_spec ?th ?sc conds kubeconfig"
  have sc: "sc_srcState ?sc = Cluster_Status (sc_cluster ?sc)" "updatedCluster ?sc = None" "sc_cluster ?sc = c"
    by (simp_all add: newStateCluster_def)
  have dest: "cluster_destination ?th TransitionTypeRefreshStatus ?sc ?a = Inr (Some ?d)"
    using cluster_refresh_destination [of ?sc conds ?th kubeconfig out] assms(2,3) sc(3) by simp
  obtain e sc' where run: "cluster_Run ?th TransitionTypeRefreshStatus ?sc ?a = (e, sc')" by force
  have co: "carried_out ?d ?sc (e, sc')" using cluster_Run_refresh [OF assms(1) sc(1,2) dest] run by simp
  then have e: "e = None" by (simp add: carried_out_def)
  have "cluster_stored sc' = Some ?d"
    using cluster_run_stores [OF run [unfolded e] _ _ sc(1) dest] assms(1)
    by (simp add: services_ready_def store_ready_def)
  moreover have "Cluster_ID (sc_cluster sc') = Cluster_ID c" using cluster_run_id [OF dest] run sc(3) by simp
  ultimately show ?thesis
    using run co sc(1,3)
    by (auto simp: e run_cluster_sm_def refreshed_def cluster_stored_def carried_out_def split: option.splits)
qed

lemma refreshInternal_total:
  assumes "services_ready (cm_th m) (newStateCluster c w)" and "validator_ready (cm_validator m) c" and "json_ready m c"
    and "DoesObjectExist (cm_th m) (Cluster_ID c @ ''/kubeconfig'') = Inr kubeconfig"
  shows "\<exists>conds out. cluster_preprocess (cm_validator m) (newClusterValidationContext c w) = Inr (conds, out) \<and>
    refreshed c (cluster_refresh_spec (cm_th m) (newStateCluster c w) conds kubeconfig)
      (cluster_refreshStatusInternal m c w)"
proof -
  let ?ctx = "newClusterValidationContext c w" and ?th = "cm_th m"
  have ctx: "cp_cluster ?ctx = c" by (simp add: newClusterValidationContext_def)
  from cluster_preprocess_complete [of "cm_validator m" ?ctx] assms(2) obtain conds out where
    pre: "cluster_preprocess (cm_validator m) ?ctx = Inr (conds, out)"
    and compl: "checked_status (Cluster_Status c) \<longrightarrow> cluster_complete conds" by (auto simp: ctx)
  from assms(3) obtain cur b where cur: "cluster_GetValidations m c = Inr cur"
    and b: "cm_marshalValidations m out = Inr b" unfolding json_ready_def by blast
  let ?w0 = "cluster_reportValidationStatusChanged c out cur w"
  obtain w1 where w1: "same_stage w w1" and step: "(if cluster_didValidationChanged out cur
      then (case cluster_updateValidationsInDB m c out ?w0 of (r, w1) \<Rightarrow> (error_of r, w1)) else (None, w)) = (None, w1)"
  proof (cases "cluster_didValidationChanged out cur")
    case True
    have s0: "same_stage w ?w0" by (rule same_stage_events [OF reportValidationStatusChanged_events])
    then have "store_ready (newStateCluster c ?w0)"
      using services_same_stage [OF assms(1) s0] by (simp add: services_ready_def)
    from updateValidations_succeeds [OF this b] obtain r w2 where
      "cluster_updateValidationsInDB m c out ?w0 = (Inr r, w2)" "same_stage ?w0 w2" by blast
    with True that same_stage_trans [OF s0] show ?thesis by (auto simp: error_of_def)
  next
    case False
    with that [of w] show ?thesis by (simp add: same_stage_def same_statuses_def)
  qed
  from run_refresh [OF services_same_stage [OF assms(1) w1], of conds kubeconfig out] compl assms(4) obtain upd w2 where
    "run_cluster_sm m TransitionTypeRefreshStatus (ArgsRefreshCluster conds out) c w1 = (None, upd, w2)"
    "refreshed c (cluster_refresh_spec ?th (newStateCluster c w1) conds kubeconfig) (Inr (case upd of None \<Rightarrow> c | Some r \<Rightarrow> r), w2)"
    by blast
  moreover have "cluster_refresh_spec ?th (newStateCluster c w1) conds kubeconfig =
      cluster_refresh_spec ?th (newStateCluster c w) conds kubeconfig"
    by (rule spec_now) (use w1 in \<open>simp add: same_stage_def\<close>)
  ultimately show ?thesis
    using pre cur step by (auto simp: cluster_refreshStatusInternal_def)
qed

text \<open>What a refresh of a stored cluster needs.\<close>

definition refreshable :: "cluster_manager \<Rightarrow> cluster \<Rightarrow> world \<Rightarrow> bool" where
  "refreshable m r w \<longleftrightarrow>
     find_cluster (Cluster_ID r) w = Some r \<and>
     services_ready (cm_th m) (newStateCluster (load_hosts w r) w) \<and>
     validator_ready (cm_validator m) (load_hosts w r) \<and> json_ready m (load_hosts w r)"

text \<open>
  C20. A refresh of a stored cluster is total: when the statements of the store succeed, the services of an
  installation answer, the operators report every validation that an installation requires and the stored
  JSON can be decoded, \<open>RefreshStatus\<close> returns no error; the row, and the cluster that is returned, have the
  status that the decision tables give for the conditions that the preprocessor computes. This holds in
  every status of a cluster.
\<close>

theorem cluster_refresh_total:
  assumes "refreshable m r w" and "Cluster_ID c = Cluster_ID r"
    and "DoesObjectExist (cm_th m) (Cluster_ID r @ ''/kubeconfig'') = Inr kubeconfig"
  shows "\<exists>conds out. cluster_preprocess (cm_validator m) (newClusterValidationContext (load_hosts w r) w) = Inr (conds, out) \<and>
    refreshed c (cluster_refresh_spec (cm_th m) (newStateCluster (load_hosts w r) w) conds kubeconfig)
      (cluster_RefreshStatus m c w)"
proof -
  from assms(1) have "GetClusterFromDBWithHosts w (Cluster_ID r) = Inr (load_hosts w r)"
    by (auto simp: refreshable_def services_ready_def store_ready_def cluster_healthy_def newStateCluster_def
        GetClusterFromDBWithHosts_Inr)
  with assms(2) have eq: "cluster_RefreshStatus m c w = cluster_refreshStatusInternal m (load_hosts w r) w"
    by (simp add: cluster_RefreshStatus_def)
  have "refreshed c s res = refreshed (load_hosts w r) s res" for s res
    unfolding refreshed_def assms(2) load_hosts_simps ..
  with refreshInternal_total [of m "load_hosts w r" w kubeconfig] assms(1,3) show ?thesis
    by (simp only: eq refreshable_def load_hosts_simps)
qed

text \<open>A cluster with one host in a store that works.\<close>

definition sample_member :: "host_status \<Rightarrow> host" where
  "sample_member s =
     zero_host\<lparr>Host_ID := ''h'', Host_InfraEnvID := ''e'', Host_ClusterID := Some ''c'', Host_Kind := HostKindHost,
       Host_Status := s, Host_Role := HostRoleMaster, Host_Progress := Some zero_progress\<rparr>"

definition sample_loaded :: "cluster_status \<Rightarrow> host_status \<Rightarrow> cluster" where
  "sample_loaded s t = (demo_cluster s)\<lparr>Cluster_Hosts := [sample_member t]\<rparr>"

definition sample_store :: "cluster_status \<Rightarrow> host_status \<Rightarrow> world" where
  "sample_store s t = sample_cluster_world (demo_cluster s) [sample_member t]"

lemma sample_load: "load_hosts (sample_store s t) (demo_cluster s) = sample_loaded s t"
  by (simp add: load_hosts_def sample_store_def sample_loaded_def sample_cluster_world_def demo_cluster_def sample_member_def)

lemma sample_manager_fields [simp]:
  "cm_th sample_cluster_manager = sample_cluster_handler" "cm_validator sample_cluster_manager = sample_cluster_validator"
  by (simp_all add: sample_cluster_manager_def)

lemma sample_refreshable:
  "refreshable sample_cluster_manager (demo_cluster s) (sample_store s t)"
proof -
  let ?w = "sample_store s t" and ?c = "sample_loaded s t"
  have "services_ready sample_cluster_handler (newStateCluster ?c ?w)"
    by (simp add: services_ready_def store_ready_def ocm_ready_def node_address_def texts_fit_def newStateCluster_def
        sample_cluster_handler_def cluster_healthy_def sample_cluster_world_def sample_store_def sample_loaded_def wf_world_def cluster_stored_def
        find_cluster_def demo_cluster_def zero_cluster_def sample_member_def zero_host_def int64_range_def Hour_def
        Minute_def Second_def createClusterCompletionStatusInfo_def countOperatorsInAllStatuses_def operators_in_def
        cluster_StatusInfoNotAllWorkersInstalled_def cluster_statusInfoInstalled_def varchar_max_def
        split: prod.splits)
  moreover have "validator_ready sample_cluster_validator ?c"
  proof -
    have "list_all (\<lambda>r. \<exists>cat. Category (COR_ValidationId r) = Inr cat) sample_operator_results"
      unfolding list_all_iff sample_operator_results_def
      by (auto intro!: Category_known simp: cluster_operators_validations_def)
    moreover have "set requiredForInstallIds \<subseteq>
        fst ` set (newClusterValidations sample_cluster_validator) \<union> COR_ValidationId ` set sample_operator_results"
      unfolding set_map [symmetric] newClusterValidations_ids
      by (simp add: requiredForInstallIds_def sample_operator_results_def cluster_operators_validations_def)
    ultimately show ?thesis
      by (simp add: validator_ready_def sample_cluster_validator_def DeserializeJSONList_def demo_cluster_def
          zero_cluster_def sample_manager_def sample_validator_def)
  qed
  moreover have "json_ready sample_cluster_manager ?c"
    by (simp add: json_ready_def cluster_GetValidations_def sample_cluster_manager_def demo_cluster_def zero_cluster_def)
  moreover have "find_cluster (Cluster_ID (demo_cluster s)) ?w = Some (demo_cluster s)"
    by (simp add: find_cluster_def sample_cluster_world_def sample_store_def)
  ultimately show ?thesis by (simp add: refreshable_def sample_load)
qed

lemma sample_finalizing:
  "cluster_refresh_spec sample_cluster_handler (newStateCluster (sample_loaded ClusterStatusFinalizing HostStatusInstalled)
     (sample_store ClusterStatusFinalizing HostStatusInstalled)) conds True = ClusterStatusInstalled"
  by (simp add: cluster_refresh_spec_def newStateCluster_def demo_cluster_def cluster_preinstall_statuses_def
      cluster_finalizing_spec_def isSoftTimeoutsEnabled_def sample_cluster_handler_def since_def zero_cluster_def
      sample_cluster_world_def Since_def min_duration_def max_duration_def Hour_def Minute_def Second_def
      stage_expired_def host_pending_user_def hosts_done_def operators_done_def sample_member_def sample_loaded_def
      sample_store_def)

theorem cluster_refresh_total_witness:
  "refreshed (demo_cluster ClusterStatusFinalizing) ClusterStatusInstalled
     (cluster_RefreshStatus sample_cluster_manager (demo_cluster ClusterStatusFinalizing)
        (sample_store ClusterStatusFinalizing HostStatusInstalled))"
proof -
  let ?r = "demo_cluster ClusterStatusFinalizing"
  have "DoesObjectExist (cm_th sample_cluster_manager) (Cluster_ID ?r @ ''/kubeconfig'') = Inr True"
    by (simp add: sample_cluster_manager_def sample_cluster_handler_def)
  from cluster_refresh_total [OF sample_refreshable [of ClusterStatusFinalizing HostStatusInstalled] refl this]
  show ?thesis by (auto simp: sample_load sample_finalizing)
qed

section \<open>What a refresh has checked\<close>

text \<open>
  A refresh that reports no error has carried out a rule of the machine: its condition held for what the
  preprocessor computed, and the row has its destination. No assumption on the services is made here.
\<close>

lemma refresh_fired:
  assumes "cluster_refreshStatusInternal m c w = (Inr r, w')" and "wf_world w"
    and "map_option Cluster_Status (find_cluster (Cluster_ID c) w) = Some (Cluster_Status c)"
  obtains conds out w1 tr sc' where
    "cluster_preprocess (cm_validator m) (newClusterValidationContext c w) = Inr (conds, out)"
    "same_stage w w1" "tr \<in> set (cluster_rules (cm_th m))" "TransitionType tr = TransitionTypeRefreshStatus"
    "IsAllowedToRun stateCluster_State tr (newStateCluster c w1) (ArgsRefreshCluster conds out) = Inr True"
    "fire stateCluster_SetState tr (newStateCluster c w1) (ArgsRefreshCluster conds out) = (None, sc')"
    "sc_world sc' = w'" "Cluster_ID (sc_cluster sc') = Cluster_ID c" "cluster_stored sc' = Some (DestinationState tr)"
proof -
  let ?th = "cm_th m"
  from assms(1) obtain conds out cur where pre: "cluster_preprocess (cm_validator m) (newClusterValidationContext c w) = Inr (conds, out)"
    and cur: "cluster_GetValidations m c = Inr cur"
    by (auto simp: cluster_refreshStatusInternal_def split: sum.splits)
  let ?upd = "if cluster_didValidationChanged out cur
      then (case cluster_updateValidationsInDB m c out (cluster_reportValidationStatusChanged c out cur w)
            of (r, w1) \<Rightarrow> (error_of r, w1)) else (None, w)"
  obtain e w1 where upd: "?upd = (e, w1)" by force
  have w1: "same_stage w w1"
  proof (cases "cluster_didValidationChanged out cur")
    case True
    let ?w0 = "cluster_reportValidationStatusChanged c out cur w"
    have s0: "same_stage w ?w0" by (rule same_stage_events [OF reportValidationStatusChanged_events])
    have "same_stage ?w0 (snd (cluster_updateValidationsInDB m c out ?w0))"
      using s0 assms(2) UpdateCluster_same_stage [of ?w0 "[CName CC_validations_info, CString b]" for b]
      by (auto simp: cluster_updateValidationsInDB_def same_stage_def same_statuses_def split: sum.splits)
    with True upd s0 same_stage_trans show ?thesis by (auto split: prod.splits)
  qed (use upd in \<open>auto simp: same_stage_def same_statuses_def\<close>)
  obtain e2 sc' where run: "cluster_Run ?th TransitionTypeRefreshStatus (newStateCluster c w1) (ArgsRefreshCluster conds out) = (e2, sc')"
    by force
  from assms(1) pre cur upd have e: "e2 = None" "sc_world sc' = w'"
    by (auto simp: cluster_refreshStatusInternal_def run_cluster_sm_def run split: option.splits)
  from run e(1) obtain tr where sel: "select_rule stateCluster_State
      (filter (\<lambda>tr. TransitionType tr = TransitionTypeRefreshStatus) (cluster_rules ?th)) (newStateCluster c w1)
      (ArgsRefreshCluster conds out) = Inr (Some tr)"
    by (auto simp: cluster_Run_select split: sum.splits option.splits)
  then have dest: "cluster_destination ?th TransitionTypeRefreshStatus (newStateCluster c w1) (ArgsRefreshCluster conds out)
      = Inr (Some (DestinationState tr))" by (simp add: cluster_destination_def)
  have "cluster_stored (newStateCluster c w1) = Some (Cluster_Status c)" "wf_world w1"
    using w1 assms(2,3) by (simp_all add: same_stage_def same_statuses_def cluster_stored_def newStateCluster_def)
  with cluster_run_stores [OF run [unfolded e(1)] _ _ _ dest] cluster_run_id [OF dest] run sel select_rule_Some [OF sel]
  show ?thesis
    by (intro that [OF pre w1, of tr sc']) (auto simp: enabled_def cluster_Run_select e newStateCluster_def)
qed

lemma And_IfCV_holds:
  assumes "And (map IfCV ids) sc (ArgsRefreshCluster conds out) = Inr True" and "i \<in> set ids"
  shows "conds (CVKey i) = Some True"
  using And_True [OF assms(1), of "IfCV i"] assms(2) by (auto simp: cluster_If_def split: option.splits)

text \<open>The one rule that makes a cluster ready before its installation, and the one that starts an installation.\<close>

lemma ready_rule:
  assumes "tr \<in> set (cluster_rules th)" and "TransitionType tr = TransitionTypeRefreshStatus"
    and "s \<in> set cluster_preinstall_statuses" and "s \<in> set (SourceStates tr)" and "DestinationState tr = ClusterStatusReady"
  shows "Condition tr = Some allRefreshStatusConditions"
  using assms by (auto simp: cluster_preinstall_statuses_def cluster_rules_def cluster_rule_defs)

lemma installing_rule:
  assumes "tr \<in> set (cluster_rules th)" and "TransitionType tr = TransitionTypeRefreshStatus"
    and "ClusterStatusPreparingForInstallation \<in> set (SourceStates tr)" and "DestinationState tr = ClusterStatusInstalling"
  shows "Condition tr = Some (And [IfCC AllHostsPreparedSuccessfully, IfCC ClusterPreparationSucceeded])"
    and "Transition tr = Some (InstallCluster th)"
    and "PostTransition tr = Some (PostRefreshCluster th cluster_statusInfoInstalling [])"
  using assms by (auto simp: cluster_rules_def cluster_rule_defs)

lemma installed_rule:
  assumes "tr \<in> set (cluster_rules th)" and "TransitionType tr = TransitionTypeRefreshStatus"
    and "s \<noteq> ClusterStatusInstalled" and "s \<in> set (SourceStates tr)" and "DestinationState tr = ClusterStatusInstalled"
  shows "s = ClusterStatusFinalizing" and "Condition tr = Some (And [areAllHostsDone, hasClusterCompleteInstallation th])"
    and "Transition tr = None" and "PostTransition tr = Some (PostCompleteInstallation th)"
  using assms by (auto simp: cluster_rules_def cluster_rule_defs)

text \<open>The core validations of a cluster, on their merits.\<close>

definition core_validations_hold :: "cluster_validator \<Rightarrow> cluster_preprocess_ctx \<Rightarrow> bool" where
  "core_validations_hold v ctx \<longleftrightarrow>
     (let c = cp_cluster ctx; n = Cluster_ControlPlaneCount c in
      list_all (\<lambda>h. isReadyToInstall (Host_Status h)) (Cluster_Hosts c) \<and>
      (case count_roles (cv_hostAPI v) ctx of (numMasters, numArbiters, numWorkers) \<Rightarrow>
         int numMasters = n \<and> (n = 1 \<longrightarrow> numWorkers = 0) \<and>
         (arbiter_count n \<longrightarrow> numArbiters > 0 \<or> IsClusterTopologyTwoNodesWithFencing (Some c))) \<and>
      Cluster_PullSecretSet c \<and>
      (Cluster_UserManagedNetworking c \<or> n = 1 \<or> (Cluster_APIVips c \<noteq> [] \<and> Cluster_IngressVips c \<noteq> [])))"

lemma core_validations:
  assumes "\<And>i. i \<in> set NonIgnorableClusterValidations \<Longrightarrow>
      \<exists>fn. map_of (newClusterValidations v) i = Some fn \<and> fst (fn ctx) = ValidationSuccess"
  shows "core_validations_hold v ctx"
proof -
  have v: "fst (allHostsAreReadyToInstall_fn ctx) = ValidationSuccess"
    "fst (SufficientMastersCount_fn (cv_hostAPI v) ctx) = ValidationSuccess"
    "fst (isPullSecretSet_fn ctx) = ValidationSuccess"
    "fst (areApiVipsDefined_fn ctx) = ValidationSuccess" "fst (areIngressVipsDefined_fn ctx) = ValidationSuccess"
    using assms [of AllHostsAreReadyToInstall] assms [of SufficientMastersCount] assms [of IsPullSecretSet]
      assms [of AreApiVipsDefined] assms [of AreIngressVipsDefined]
    by (simp_all add: NonIgnorableClusterValidations_def newClusterValidations_def)
  from v(1) have "list_all (\<lambda>h. isReadyToInstall (Host_Status h)) (Cluster_Hosts (cp_cluster ctx))"
    by (simp add: allHostsAreReadyToInstall_fn_def split: if_splits)
  moreover from v(2) have "case count_roles (cv_hostAPI v) ctx of (numMasters, numArbiters, numWorkers) \<Rightarrow>
      int numMasters = Cluster_ControlPlaneCount (cp_cluster ctx) \<and> (Cluster_ControlPlaneCount (cp_cluster ctx) = 1 \<longrightarrow> numWorkers = 0) \<and>
      (arbiter_count (Cluster_ControlPlaneCount (cp_cluster ctx)) \<longrightarrow>
         numArbiters > 0 \<or> IsClusterTopologyTwoNodesWithFencing (Some (cp_cluster ctx)))"
    by (auto simp: SufficientMastersCount_fn_def Let_def AllowedNumberOfWorkersInNoneHaMode_def split: prod.splits if_splits)
  moreover from v(3) have "Cluster_PullSecretSet (cp_cluster ctx)" by (simp add: isPullSecretSet_fn_def split: if_splits)
  moreover from v(4,5) have "Cluster_UserManagedNetworking (cp_cluster ctx) \<or> Cluster_ControlPlaneCount (cp_cluster ctx) = 1 \<or>
      (Cluster_APIVips (cp_cluster ctx) \<noteq> [] \<and> Cluster_IngressVips (cp_cluster ctx) \<noteq> [])"
    by (auto simp: areApiVipsDefined_fn_def areIngressVipsDefined_fn_def areVipsDefined_def Let_def split: if_splits)
  ultimately show ?thesis by (simp add: core_validations_hold_def Let_def)
qed

text \<open>
  C21. A cluster before its installation becomes ready on its merits: when a refresh of a cluster that is
  pending for input, ready or insufficient reports no error and leaves the row ready, every host of the
  cluster is ready to install, the number of control plane nodes is the requested one, with an arbiter or
  fencing where the cluster needs it, a single node has no workers, the pull secret is set and the VIPs are
  defined where they are required. This holds whatever validations the user has asked to ignore, as long as
  the configuration disables none of these validations and the operators report none of their identifiers.
  (A cluster whose preparation fails or times out is put back to ready without a look at them; the statement
  does not speak of it.)
\<close>

theorem cluster_ready_on_merit:
  assumes "cluster_refreshStatusInternal m c w = (Inr r, w')" and "wf_world w"
    and "map_option Cluster_Status (find_cluster (Cluster_ID c) w) = Some (Cluster_Status c)"
    and "Cluster_Status c \<in> set cluster_preinstall_statuses"
    and "set (cv_disabled (cm_validator m)) \<inter> set NonIgnorableClusterValidations = {}"
    and "\<And>rs. cv_ValidateCluster (cm_validator m) c = Inr rs \<Longrightarrow>
      COR_ValidationId ` set rs \<inter> set NonIgnorableClusterValidations = {}"
    and "map_option Cluster_Status (find_cluster (Cluster_ID c) w') = Some ClusterStatusReady"
  shows "core_validations_hold (cm_validator m) (newClusterValidationContext c w)"
proof (rule core_validations)
  let ?v = "cm_validator m" and ?ctx = "newClusterValidationContext c w"
  fix i assume i: "i \<in> set NonIgnorableClusterValidations"
  from refresh_fired [OF assms(1-3)] obtain conds out w1 tr sc' where f:
    "cluster_preprocess ?v ?ctx = Inr (conds, out)" "tr \<in> set (cluster_rules (cm_th m))"
    "TransitionType tr = TransitionTypeRefreshStatus"
    "IsAllowedToRun stateCluster_State tr (newStateCluster c w1) (ArgsRefreshCluster conds out) = Inr True"
    "sc_world sc' = w'" "Cluster_ID (sc_cluster sc') = Cluster_ID c" "cluster_stored sc' = Some (DestinationState tr)" by metis
  from enabled_source_status [OF f(4)] f(5-7) assms(7) have src: "Cluster_Status c \<in> set (SourceStates tr)"
    and dst: "DestinationState tr = ClusterStatusReady" by (auto simp: newStateCluster_def cluster_stored_def)
  have all: "allRefreshStatusConditions (newStateCluster c w1) (ArgsRefreshCluster conds out) = Inr True"
    using cluster_enabled_condition [OF f(4)] ready_rule [OF f(2,3) assms(4) src dst] by simp
  have "conds (CVKey i) = Some True"
  proof -
    have "i \<in> set pendingIds \<or> i \<in> set vipsDefinedIds \<or> i \<in> set requiredForInstallIds"
      using i by (auto simp: NonIgnorableClusterValidations_def pendingIds_def vipsDefinedIds_def requiredForInstallIds_def)
    then obtain ids where ids: "ids \<in> {pendingIds, vipsDefinedIds, requiredForInstallIds}" "i \<in> set ids" by blast
    have "And (map IfCV ids) (newStateCluster c w1) (ArgsRefreshCluster conds out) = Inr True"
      using ids(1) And_True [OF all [unfolded allRefreshStatusConditions_def]]
      by (auto simp: pendingConditions_def vipsDefinedConditions_def requiredForInstall_def)
    from And_IfCV_holds [OF this ids(2)] show ?thesis .
  qed
  moreover have "checked_status (Cluster_Status (cp_cluster ?ctx))"
    using assms(4) by (auto simp: newClusterValidationContext_def checked_status_def checkValidationsInStatuses_def
        cluster_preinstall_statuses_def)
  moreover have "i \<notin> COR_ValidationId ` set rs" if "cv_ValidateCluster ?v (cp_cluster ?ctx) = Inr rs" for rs
    using assms(6) [of rs] that i by (auto simp: newClusterValidationContext_def)
  ultimately have "cluster_passes ?v (cluster_overridden ?ctx) ?ctx i"
    using preprocess_validation_merit [OF f(1) _ i] by simp
  with assms(5) i show "\<exists>fn. map_of (newClusterValidations ?v) i = Some fn \<and> fst (fn ?ctx) = ValidationSuccess"
    by (auto simp: cluster_passes_def)
qed

section \<open>Starting and completing an installation\<close>

lemma tenth_of_hundred: "int64 (fmul ProgressWeightPreparingForInstallationStage (float64 100)) = 10"
  by code_simp

lemma status_update_row:
  assumes "wf_world w" and "updateClusterStatus k s t info extra w = (Inr (Some r), w1)"
    and "map_option Cluster_Status (find_cluster k w) = Some s"
  obtains f row where "cluster_assignment (cluster_status_extra (w_now w) s t info extra) = Some f"
    "find_cluster k w = Some row" "find_cluster k w1 = Some (f row)" "r = load_hosts w (f row)"
proof -
  let ?ex = "cluster_status_extra (w_now w) s t info extra"
  from assms(2) obtain w2 where u: "UpdateCluster k s ?ex w = (Inr r, w2)" and w1: "w_clusters w1 = w_clusters w2"
    by (auto simp: updateClusterStatus_def split: prod.splits sum.splits if_splits)
  from UpdateCluster_Inr [OF assms(1) u] obtain f row where "cluster_assignment ?ex = Some f" "find_cluster k w = Some row"
    "r = load_hosts w (if Cluster_Status row = s then f row else row)"
    "find_cluster k w2 = Some (if Cluster_Status row = s then f row else row)" by blast
  with that [of f row] assms(3) find_cluster_clusters [OF w1, of k] show ?thesis by simp
qed

text \<open>A single-node cluster that has everything that an installation needs.\<close>

definition sample_ready_cluster :: cluster where
  "sample_ready_cluster =
     (demo_cluster ClusterStatusInsufficient)\<lparr>Cluster_ControlPlaneCount := 1,
       Cluster_MachineNetworks := [''10.0.0.0/24''], Cluster_ClusterNetworks := [(''10.128.0.0/14'', 23)],
       Cluster_ServiceNetworks := [''172.30.0.0/16''], Cluster_BaseDNSDomain := ''example.com''\<rparr>"

definition sample_ready_world :: world where
  "sample_ready_world = sample_cluster_world sample_ready_cluster [sample_member HostStatusKnown]"

lemma ready_sample:
  "case cluster_refreshStatusInternal sample_cluster_manager (load_hosts sample_ready_world sample_ready_cluster) sample_ready_world of
     (Inl _, _) \<Rightarrow> False
   | (Inr _, w1) \<Rightarrow> map_option Cluster_Status (find_cluster ''c'' w1) = Some ClusterStatusReady"
  by code_simp

theorem cluster_ready_on_merit_witness:
  "let w = sample_ready_world; c = load_hosts w sample_ready_cluster in
   map_option Cluster_Status (find_cluster ''c'' (snd (cluster_refreshStatusInternal sample_cluster_manager c w))) =
     Some ClusterStatusReady \<and>
   core_validations_hold sample_cluster_validator (newClusterValidationContext c w)"
proof -
  let ?w = sample_ready_world and ?c = "load_hosts sample_ready_world sample_ready_cluster"
  from ready_sample obtain r w1 where run: "cluster_refreshStatusInternal sample_cluster_manager ?c ?w = (Inr r, w1)"
    and st: "map_option Cluster_Status (find_cluster ''c'' w1) = Some ClusterStatusReady"
    by (auto split: prod.splits sum.splits)
  have id: "Cluster_ID ?c = ''c''" by (simp add: sample_ready_cluster_def demo_cluster_def)
  have "wf_world ?w"
    by (simp add: wf_world_def sample_ready_world_def sample_cluster_world_def sample_member_def zero_host_def)
  moreover have "map_option Cluster_Status (find_cluster (Cluster_ID ?c) ?w) = Some (Cluster_Status ?c)"
    by (simp add: find_cluster_def sample_ready_world_def sample_cluster_world_def)
  moreover have "Cluster_Status ?c \<in> set cluster_preinstall_statuses"
    by (simp add: sample_ready_cluster_def demo_cluster_def cluster_preinstall_statuses_def)
  moreover have "set (cv_disabled (cm_validator sample_cluster_manager)) \<inter> set NonIgnorableClusterValidations = {}"
    by (simp add: sample_cluster_manager_def sample_cluster_validator_def)
  moreover have "COR_ValidationId ` set rs \<inter> set NonIgnorableClusterValidations = {}"
    if "cv_ValidateCluster (cm_validator sample_cluster_manager) ?c = Inr rs" for rs
    using that by (auto simp: sample_cluster_manager_def sample_cluster_validator_def sample_operator_results_def
        cluster_operators_validations_def NonIgnorableClusterValidations_def)
  moreover from st have "map_option Cluster_Status (find_cluster (Cluster_ID ?c) w1) = Some ClusterStatusReady" by (simp only: id)
  ultimately have "core_validations_hold (cm_validator sample_cluster_manager) (newClusterValidationContext ?c ?w)"
    by (rule cluster_ready_on_merit [OF run])
  with run st show ?thesis by (simp add: sample_cluster_manager_def)
qed
text \<open>What the post transition that starts an installation writes.\<close>

lemma installing_post_row:
  assumes "PostRefreshCluster th tmpl [] (at_status ClusterStatusInstalling sc) (ArgsRefreshCluster conds out) = (None, sc')"
    and "sc_srcState sc = ClusterStatusPreparingForInstallation" and "sc_cluster sc = c"
    and "same_stage w (sc_world sc)" and "wf_world w"
    and "map_option Cluster_Status (find_cluster (Cluster_ID c) w) = Some (sc_srcState sc)"
  shows "\<exists>row. find_cluster (Cluster_ID c) (sc_world sc') = Some row \<and>
    PreparingForInstallationStagePercentage (cluster_progress_of row) = 100 \<and> TotalPercentage (cluster_progress_of row) = 10"
proof -
  let ?c = "c\<lparr>Cluster_Status := ClusterStatusInstalling\<rparr>" and ?sc = "at_status ClusterStatusInstalling sc"
  let ?vips = "if IsSingleNodeCluster ?c then updateSNOClusterVips th ?c (sc_world sc) else (None, sc_world sc)"
  obtain e w1 where v: "?vips = (e, w1)" by force
  have wf: "wf_world (sc_world sc)" using assms(4,5) by (simp add: same_stage_def)
  have "wf_world (snd ?vips)" "same_statuses (sc_world sc) (snd ?vips)"
    using cluster_wf.sno_vips [OF wf, of th ?c] wf updateSNOClusterVips_statuses [of "sc_world sc" th ?c]
    by (auto simp: same_statuses_def)
  with v have w1: "wf_world w1" "same_statuses (sc_world sc) w1" by simp_all
  obtain r w2 where u: "updateClusterStatus (Cluster_ID c) (sc_srcState sc) ClusterStatusInstalling tmpl
      initProgressParamsInstallingStage w1 = (Inr r, w2)" and fin: "finish_refresh th ?sc r w2 = (None, sc')"
    using assms(1) v
    by (cases e; cases "IsSingleNodeCluster ?c")
       (auto simp: PostRefreshCluster_def computeReason_def addExtraParams_def assms(2,3) Let_def split: prod.splits sum.splits)
  from updateClusterStatus_Inr [OF w1(1) _ u] obtain r0 where r: "r = Some r0" by auto
  have st: "map_option Cluster_Status (find_cluster (Cluster_ID c) w1) = Some (sc_srcState sc)"
    using assms(4,6) w1(2) by (simp add: same_stage_def same_statuses_def)
  from status_update_row [OF w1(1) u [unfolded r] st] obtain f row where
    f: "cluster_assignment (cluster_status_extra (w_now w1) (sc_srcState sc) ClusterStatusInstalling tmpl
      initProgressParamsInstallingStage) = Some f" and row: "find_cluster (Cluster_ID c) w2 = Some (f row)" by metis
  have cvs: "cluster_pairs_of (cluster_status_extra (w_now w1) (sc_srcState sc) ClusterStatusInstalling tmpl
      initProgressParamsInstallingStage) = Inr [(CC_status, CStatus ClusterStatusInstalling), (CC_status_info, CString tmpl),
        (CC_progress_preparing_for_installation_stage_percentage, CNum 100), (CC_progress_total_percentage, CNum 10),
        (CC_status_updated_at, CTime (w_now w1)), (CC_trigger_monitor_timestamp, CTime (w_now w1))]"
    by (simp add: cluster_status_extra_def initProgressParamsInstallingStage_def assms(2) tenth_of_hundred
        installationCompletedStatuses_def)
  have "cluster_column_value CC_progress_preparing_for_installation_stage_percentage (f row) = CNum 100"
    "cluster_column_value CC_progress_total_percentage (f row) = CNum 10"
    unfolding cluster_assignment_column [OF f cvs] by simp_all
  moreover have "find_cluster (Cluster_ID c) (sc_world sc') = Some (f row)"
    using row find_cluster_clusters [OF finish_refresh_frame(3) [OF fin]] by simp
  ultimately show ?thesis by simp
qed

text \<open>
  C22. An installation starts only when it is prepared: when a refresh of a cluster that prepares for its
  installation reports no error and leaves the row installing, every host is preparing-successful, the
  preparation of the cluster has succeeded and its DNS records have been created; the row then has the
  preparation at 100 percent and the total at 10.
\<close>

theorem cluster_installing_gate:
  assumes "cluster_refreshStatusInternal m c w = (Inr r, w')" and "wf_world w"
    and "map_option Cluster_Status (find_cluster (Cluster_ID c) w) = Some (Cluster_Status c)"
    and "Cluster_Status c = ClusterStatusPreparingForInstallation"
    and "map_option Cluster_Status (find_cluster (Cluster_ID c) w') = Some ClusterStatusInstalling"
  shows "(\<forall>h \<in> set (Cluster_Hosts c). Host_Status h = HostStatusPreparingSuccessful) \<and>
    Cluster_PreparationStatus c = LastInstallationPreparationStatusSuccess \<and>
    CreateDNSRecordSets (cm_th m) c = None \<and>
    (\<exists>row. find_cluster (Cluster_ID c) w' = Some row \<and>
       PreparingForInstallationStagePercentage (cluster_progress_of row) = 100 \<and>
       TotalPercentage (cluster_progress_of row) = 10)"
proof -
  let ?v = "cm_validator m" and ?ctx = "newClusterValidationContext c w" and ?th = "cm_th m"
  from refresh_fired [OF assms(1-3)] obtain conds out w1 tr sc' where f:
    "cluster_preprocess ?v ?ctx = Inr (conds, out)" "same_stage w w1" "tr \<in> set (cluster_rules ?th)"
    "TransitionType tr = TransitionTypeRefreshStatus"
    "IsAllowedToRun stateCluster_State tr (newStateCluster c w1) (ArgsRefreshCluster conds out) = Inr True"
    "fire stateCluster_SetState tr (newStateCluster c w1) (ArgsRefreshCluster conds out) = (None, sc')"
    "sc_world sc' = w'" "Cluster_ID (sc_cluster sc') = Cluster_ID c" "cluster_stored sc' = Some (DestinationState tr)" .
  from enabled_source_status [OF f(5)] f(7-9) assms(4,5) have
    src: "ClusterStatusPreparingForInstallation \<in> set (SourceStates tr)" and dst: "DestinationState tr = ClusterStatusInstalling"
    by (auto simp: newStateCluster_def cluster_stored_def)
  note rule = installing_rule [OF f(3,4) src dst]
  have chk: "checked_status (Cluster_Status (cp_cluster ?ctx))"
    using assms(4) by (simp add: newClusterValidationContext_def checked_status_def checkValidationsInStatuses_def)
  note holds = And_True [OF cluster_enabled_condition [OF f(5) rule(1)]]
  have "conds (CCKey i) = Some True" if "i \<in> {AllHostsPreparedSuccessfully, ClusterPreparationSucceeded}" for i
    using that holds [of "IfCC i"] by (auto simp: cluster_If_def split: option.splits)
  then have "areAllHostsPreparedSuccessfully ?ctx" "isClusterPreparationSucceeded ?ctx"
    using preprocess_condition [OF f(1) chk, of AllHostsPreparedSuccessfully]
      preprocess_condition [OF f(1) chk, of ClusterPreparationSucceeded] by simp_all
  then have hosts: "\<forall>h \<in> set (Cluster_Hosts c). Host_Status h = HostStatusPreparingSuccessful"
    and prep: "Cluster_PreparationStatus c = LastInstallationPreparationStatusSuccess"
    by (auto simp: areAllHostsPreparedSuccessfully_def isClusterPreparationSucceeded_def newClusterValidationContext_def
        list_all_iff)
  from f(6) rule(2) have dns: "CreateDNSRecordSets ?th c = None"
    by (auto simp: fire_def InstallCluster_def newStateCluster_def split: option.splits)
  with f(6) rule(2,3) dst have post: "PostRefreshCluster ?th cluster_statusInfoInstalling []
      (at_status ClusterStatusInstalling (newStateCluster c w1)) (ArgsRefreshCluster conds out) = (None, sc')"
    by (simp add: fire_def InstallCluster_def newStateCluster_def stateCluster_SetState_def at_status_def)
  from installing_post_row [OF post, of c w] assms(2-4) f(2,7) hosts prep dns show ?thesis
    by (simp add: newStateCluster_def)
qed

text \<open>A refresh of the sample cluster gives what the tables say.\<close>

lemma cluster_sample_refresh:
  "\<exists>conds out. cluster_preprocess sample_cluster_validator
      (newClusterValidationContext (sample_loaded s t) (sample_store s t)) = Inr (conds, out) \<and>
    refreshed (sample_loaded s t)
      (cluster_refresh_spec sample_cluster_handler (newStateCluster (sample_loaded s t) (sample_store s t)) conds True)
      (cluster_refreshStatusInternal sample_cluster_manager (sample_loaded s t) (sample_store s t))"
proof -
  have ready: "services_ready (cm_th sample_cluster_manager) (newStateCluster (sample_loaded s t) (sample_store s t))"
    "validator_ready (cm_validator sample_cluster_manager) (sample_loaded s t)" "json_ready sample_cluster_manager (sample_loaded s t)"
    using sample_refreshable [of s t] by (simp_all add: refreshable_def sample_load)
  have "DoesObjectExist (cm_th sample_cluster_manager) (Cluster_ID (sample_loaded s t) @ ''/kubeconfig'') = Inr True"
    by (simp add: sample_cluster_handler_def)
  from refreshInternal_total [OF ready this] show ?thesis by simp
qed

lemma sample_loaded_facts:
  "wf_world (sample_store s t)"
  "map_option Cluster_Status (find_cluster (Cluster_ID (sample_loaded s t)) (sample_store s t)) = Some (Cluster_Status (sample_loaded s t))"
  "Cluster_Status (sample_loaded s t) = s" "w_now (sample_store s t) = 0"
  by (simp_all add: sample_store_def sample_loaded_def wf_world_def sample_cluster_world_def sample_member_def zero_host_def
      find_cluster_def demo_cluster_def)

theorem cluster_installing_gate_witness:
  "let c = sample_loaded ClusterStatusPreparingForInstallation HostStatusPreparingSuccessful;
       w = sample_store ClusterStatusPreparingForInstallation HostStatusPreparingSuccessful;
       w' = snd (cluster_refreshStatusInternal sample_cluster_manager c w)
   in \<exists>row. find_cluster ''c'' w' = Some row \<and> Cluster_Status row = ClusterStatusInstalling \<and>
        TotalPercentage (cluster_progress_of row) = 10"
proof -
  let ?s = ClusterStatusPreparingForInstallation and ?t = HostStatusPreparingSuccessful
  let ?c = "sample_loaded ?s ?t" and ?w = "sample_store ?s ?t"
  let ?ctx = "newClusterValidationContext ?c ?w" and ?sc = "newStateCluster ?c ?w"
  from cluster_sample_refresh [of ?s ?t] obtain conds out where
    pre: "cluster_preprocess sample_cluster_validator ?ctx = Inr (conds, out)"
    and ref: "refreshed ?c (cluster_refresh_spec sample_cluster_handler ?sc conds True)
      (cluster_refreshStatusInternal sample_cluster_manager ?c ?w)" by blast
  have chk: "checked_status (Cluster_Status (cp_cluster ?ctx))"
    by (simp add: newClusterValidationContext_def checked_status_def checkValidationsInStatuses_def sample_loaded_facts)
  have "cluster_refresh_spec sample_cluster_handler ?sc conds True = ClusterStatusInstalling"
    by (simp add: cluster_refresh_spec_def newStateCluster_def sample_loaded_facts cluster_preinstall_statuses_def
        cluster_preparing_spec_def holds_def preprocess_condition [OF pre chk] areAllHostsPreparedSuccessfully_def
        isClusterPreparationSucceeded_def newClusterValidationContext_def sample_loaded_def demo_cluster_def
        sample_member_def since_def Since_def sample_cluster_handler_def zero_cluster_def min_duration_def
        max_duration_def Minute_def Second_def)
  with ref obtain r w1 where run: "cluster_refreshStatusInternal sample_cluster_manager ?c ?w = (Inr r, w1)"
    and st: "map_option Cluster_Status (find_cluster (Cluster_ID ?c) w1) = Some ClusterStatusInstalling"
    by (auto simp: refreshed_def split: prod.splits sum.splits)
  from cluster_installing_gate [OF run sample_loaded_facts(1-3) st] st run show ?thesis
    by (auto simp: sample_loaded_def demo_cluster_def)
qed
lemma complete_post_row:
  assumes "PostCompleteInstallation th sc (ArgsRefreshCluster conds out) = (None, sc')" and "wf_world (sc_world sc)"
    and "map_option Cluster_Status (find_cluster (Cluster_ID (sc_cluster sc)) (sc_world sc)) = Some ClusterStatusFinalizing"
  shows "\<exists>row. find_cluster (Cluster_ID (sc_cluster sc)) (sc_world sc') = Some row \<and>
    FinalizingStagePercentage (cluster_progress_of row) = 100 \<and> TotalPercentage (cluster_progress_of row) = 100 \<and>
    Cluster_InstallCompletedAt row = w_now (sc_world sc)"
    and "\<And>ocm. ocmClient th = Some ocm \<Longrightarrow> UpdateSubscriptionStatusActive ocm (Cluster_AmsSubscriptionID (sc_cluster sc)) = None"
proof -
  let ?c = "sc_cluster sc"
  let ?extra = "[CName CC_progress_finalizing_stage_percentage, CNum 100, CName CC_progress_total_percentage, CNum 100]"
  obtain reason w where cr: "createClusterCompletionStatusInfo ?c (sc_world sc) = (reason, w)" by force
  then have w: "wf_world w" "w_clusters w = w_clusters (sc_world sc)" "w_now w = w_now (sc_world sc)"
    using assms(2) completion_text_world(3,4) [of ?c "sc_world sc"]
    by (auto simp: createClusterCompletionStatusInfo_def Let_def split: if_splits prod.splits)
  have st: "map_option Cluster_Status (find_cluster (Cluster_ID ?c) w) = Some ClusterStatusFinalizing"
    using assms(3) find_cluster_clusters [OF w(2)] by simp
  from assms(1) obtain r w1 where
    u: "updateClusterStatus (Cluster_ID ?c) ClusterStatusFinalizing ClusterStatusInstalled reason ?extra w = (Inr r, w1)"
    and sc': "w_clusters (sc_world sc') = w_clusters w1"
    and ocm: "(case ocmClient th of None \<Rightarrow> None
      | Some ocm \<Rightarrow> UpdateSubscriptionStatusActive ocm (Cluster_AmsSubscriptionID ?c)) = None"
    by (auto simp: PostCompleteInstallation_def cr CompleteInstallation_def split: prod.splits sum.splits option.splits)
  show "ocmClient th = Some ocm \<Longrightarrow> UpdateSubscriptionStatusActive ocm (Cluster_AmsSubscriptionID ?c) = None" for ocm
    using ocm by simp
  from updateClusterStatus_Inr [OF w(1) _ u] obtain r0 where r: "r = Some r0" by auto
  from status_update_row [OF w(1) u [unfolded r] st] obtain f row where
    f: "cluster_assignment (cluster_status_extra (w_now w) ClusterStatusFinalizing ClusterStatusInstalled reason ?extra) = Some f"
    and row: "find_cluster (Cluster_ID ?c) w1 = Some (f row)" by metis
  have cvs: "cluster_pairs_of (cluster_status_extra (w_now w) ClusterStatusFinalizing ClusterStatusInstalled reason ?extra) =
      Inr [(CC_status, CStatus ClusterStatusInstalled), (CC_status_info, CString reason),
        (CC_progress_finalizing_stage_percentage, CNum 100), (CC_progress_total_percentage, CNum 100),
        (CC_status_updated_at, CTime (w_now w)), (CC_install_completed_at, CTime (w_now w)),
        (CC_trigger_monitor_timestamp, CTime (w_now w))]"
    by (simp add: cluster_status_extra_def installationCompletedStatuses_def)
  have "cluster_column_value CC_progress_finalizing_stage_percentage (f row) = CNum 100"
    "cluster_column_value CC_progress_total_percentage (f row) = CNum 100"
    "cluster_column_value CC_install_completed_at (f row) = CTime (w_now w)"
    unfolding cluster_assignment_column [OF f cvs] by simp_all
  then show "\<exists>row. find_cluster (Cluster_ID ?c) (sc_world sc') = Some row \<and>
      FinalizingStagePercentage (cluster_progress_of row) = 100 \<and> TotalPercentage (cluster_progress_of row) = 100 \<and>
      Cluster_InstallCompletedAt row = w_now (sc_world sc)"
    using row find_cluster_clusters [OF sc'] w(3) by simp
qed

text \<open>
  C23. A cluster is installed only when the installation is complete: when a refresh of a cluster that is not
  installed reports no error and leaves the row installed, the cluster was finalizing, all its hosts are
  installed or in error, its kubeconfig is stored, it has no monitored operators or every built-in one is
  available and every OLM one is available or failed, and the account management service, if there is one,
  has marked the subscription as active; the row has its progress at 100 percent and the time of completion.
\<close>

theorem cluster_installed_gate:
  assumes "cluster_refreshStatusInternal m c w = (Inr r, w')" and "wf_world w"
    and "map_option Cluster_Status (find_cluster (Cluster_ID c) w) = Some (Cluster_Status c)"
    and "Cluster_Status c \<noteq> ClusterStatusInstalled"
    and "map_option Cluster_Status (find_cluster (Cluster_ID c) w') = Some ClusterStatusInstalled"
  shows "Cluster_Status c = ClusterStatusFinalizing \<and> hosts_done c \<and>
    DoesObjectExist (cm_th m) (Cluster_ID c @ ''/kubeconfig'') = Inr True \<and> operators_done c \<and>
    (\<forall>ocm. ocmClient (cm_th m) = Some ocm \<longrightarrow> UpdateSubscriptionStatusActive ocm (Cluster_AmsSubscriptionID c) = None) \<and>
    (\<exists>row. find_cluster (Cluster_ID c) w' = Some row \<and> FinalizingStagePercentage (cluster_progress_of row) = 100 \<and>
       TotalPercentage (cluster_progress_of row) = 100 \<and> Cluster_InstallCompletedAt row = w_now w)"
proof -
  let ?th = "cm_th m"
  from refresh_fired [OF assms(1-3)] obtain conds out w1 tr sc' where f:
    "same_stage w w1" "tr \<in> set (cluster_rules ?th)" "TransitionType tr = TransitionTypeRefreshStatus"
    "IsAllowedToRun stateCluster_State tr (newStateCluster c w1) (ArgsRefreshCluster conds out) = Inr True"
    "fire stateCluster_SetState tr (newStateCluster c w1) (ArgsRefreshCluster conds out) = (None, sc')"
    "sc_world sc' = w'" "Cluster_ID (sc_cluster sc') = Cluster_ID c" "cluster_stored sc' = Some (DestinationState tr)" by metis
  let ?sc = "newStateCluster c w1" and ?a = "ArgsRefreshCluster conds out"
  from enabled_source_status [OF f(4)] f(6-8) assms(5) have src: "Cluster_Status c \<in> set (SourceStates tr)"
    and dst: "DestinationState tr = ClusterStatusInstalled" by (auto simp: newStateCluster_def cluster_stored_def)
  note rule = installed_rule [OF f(2,3) assms(4) src dst]
  note holds = And_True [OF cluster_enabled_condition [OF f(4) rule(2)]]
  from holds [of areAllHostsDone] have "hosts_done c"
    by (simp add: areAllHostsDone_def hosts_done_def newStateCluster_def list_all_iff)
  moreover from holds [of "hasClusterCompleteInstallation ?th"]
  have "DoesObjectExist ?th (Cluster_ID c @ ''/kubeconfig'') = Inr True" "operators_done c"
    by (auto simp: hasClusterCompleteInstallation_def operators_done_def newStateCluster_def split: sum.splits if_splits)
  moreover from f(5) rule(3,4) dst have post: "PostCompleteInstallation ?th (at_status ClusterStatusInstalled ?sc) ?a = (None, sc')"
    by (simp add: fire_def stateCluster_SetState_def at_status_def)
  have w1: "wf_world w1" "map_option Cluster_Status (find_cluster (Cluster_ID c) w1) = Some ClusterStatusFinalizing" "w_now w1 = w_now w"
    using f(1) assms(2,3) rule(1) by (simp_all add: same_stage_def same_statuses_def)
  note complete_post_row [OF post]
  ultimately show ?thesis using rule(1) w1 f(6) by (simp add: newStateCluster_def)
qed

theorem cluster_installed_gate_witness:
  "let c = sample_loaded ClusterStatusFinalizing HostStatusInstalled; w = sample_store ClusterStatusFinalizing HostStatusInstalled;
       w' = snd (cluster_refreshStatusInternal sample_cluster_manager c w)
   in \<exists>row. find_cluster ''c'' w' = Some row \<and> Cluster_Status row = ClusterStatusInstalled \<and>
        TotalPercentage (cluster_progress_of row) = 100"
proof -
  let ?s = ClusterStatusFinalizing and ?t = HostStatusInstalled
  let ?c = "sample_loaded ?s ?t" and ?w = "sample_store ?s ?t"
  from cluster_sample_refresh [of ?s ?t] obtain conds where
    ref: "refreshed ?c (cluster_refresh_spec sample_cluster_handler (newStateCluster ?c ?w) conds True)
      (cluster_refreshStatusInternal sample_cluster_manager ?c ?w)" by blast
  with sample_finalizing [of conds] obtain r w1 where run: "cluster_refreshStatusInternal sample_cluster_manager ?c ?w = (Inr r, w1)"
    and st: "map_option Cluster_Status (find_cluster (Cluster_ID ?c) w1) = Some ClusterStatusInstalled"
    by (auto simp: refreshed_def split: prod.splits sum.splits)
  have "Cluster_Status ?c \<noteq> ClusterStatusInstalled" by (simp add: sample_loaded_facts)
  from cluster_installed_gate [OF run sample_loaded_facts(1,2) this st] st run show ?thesis
    by (auto simp: sample_loaded_def demo_cluster_def)
qed

end
