(* ===== verification/Cluster_Progress.thy ===== *)
theory Cluster_Progress
  imports Cluster_Guarantees
begin

text \<open>
  The progress of a cluster: the percentages of its stages and their weighted sum stay within their bounds,
  through every rounding of the \<open>float64\<close> computation, and the finalizing stages follow the reports of the
  controller.
\<close>

section \<open>Sums over the hosts\<close>

lemma fadd_mono: "0 \<le> a \<Longrightarrow> a \<le> b \<Longrightarrow> 0 \<le> x \<Longrightarrow> x \<le> y \<Longrightarrow> 0 \<le> fadd a x \<and> fadd a x \<le> fadd b y"
  by (simp add: fadd_def f64_nonneg f64_mono)

lemma stage_counts:
  "0 \<le> float64 ((IndexOfStage stage stages + 1) * int n) \<and>
   float64 ((IndexOfStage stage stages + 1) * int n) \<le> float64 (int (length stages) * int n)"
proof -
  have b: "0 \<le> IndexOfStage stage stages + 1" "IndexOfStage stage stages + 1 \<le> int (length stages)"
    using IndexOfStage_bounds [of stage stages] by (auto simp: IndexOfStage_def)
  then show ?thesis by (intro conjI float64_nonneg float64_mono mult_nonneg_nonneg mult_right_mono) simp_all
qed

lemma host_stage_sums_step:
  "host_stage_sums sno (gs @ [((role, boot, stage), n)]) =
     (case host_stage_sums sno gs of (d, a) \<Rightarrow>
        (fadd d (float64 ((IndexOfStage stage (FindMatchingStages role boot sno) + 1) * int n)),
         fadd a (float64 (int (length (FindMatchingStages role boot sno)) * int n))))"
  by (simp add: host_stage_sums_def Let_def split: prod.splits)

lemma host_stage_sums_bounds: "host_stage_sums sno gs = (d, a) \<Longrightarrow> 0 \<le> d \<and> d \<le> a"
proof (induction gs arbitrary: d a rule: rev_induct)
  case Nil
  then show ?case by (simp add: host_stage_sums_def)
next
  case (snoc g gs)
  obtain role boot stage n where g: "g = ((role, boot, stage), n)" by (metis prod_cases3 surj_pair)
  obtain d0 a0 where s: "host_stage_sums sno gs = (d0, a0)" by force
  from snoc.IH [OF s] fadd_mono [of d0 a0] stage_counts [of stage "FindMatchingStages role boot sno" n] snoc.prems
  show ?case by (auto simp: g s host_stage_sums_step)
qed

lemma fadd_pos: "0 \<le> a \<Longrightarrow> 0 < a \<or> 0 < x \<Longrightarrow> 0 \<le> x \<Longrightarrow> 0 < fadd a x"
  unfolding fadd_def by (rule less_le_trans [OF _ f64_binade(1)]) auto

lemma host_stage_sums_pos:
  assumes "((role, boot, stage), n) \<in> set gs" and "0 < n" and "FindMatchingStages role boot sno \<noteq> []"
    and "host_stage_sums sno gs = (d, a)"
  shows "0 < a"
  using assms
proof (induction gs arbitrary: d a rule: rev_induct)
  case (snoc g gs)
  obtain role' boot' stage' n' where g: "g = ((role', boot', stage'), n')" by (metis prod_cases3 surj_pair)
  obtain d0 a0 where s: "host_stage_sums sno gs = (d0, a0)" by force
  let ?x = "float64 (int (length (FindMatchingStages role' boot' sno)) * int n')"
  have "0 \<le> a0" "0 \<le> ?x" using host_stage_sums_bounds [OF s] by (auto intro!: float64_nonneg)
  moreover have "0 < a0 \<or> 0 < ?x"
  proof (cases "((role, boot, stage), n) \<in> set gs")
    case True
    from snoc.IH [OF this snoc.prems(2,3) s] show ?thesis ..
  next
    case False
    with snoc.prems(1-3) g show ?thesis by (auto intro!: float64_pos)
  qed
  ultimately have "0 < fadd a0 ?x" by (intro fadd_pos)
  with snoc.prems(4) s show ?case by (simp add: g host_stage_sums_step)
qed simp

text \<open>A host of the cluster that has stages makes the sum of all stages positive.\<close>

lemma hosts_count_member:
  assumes "h \<in> set (w_hosts w)" and "Host_ClusterID h = Some clusterID"
  shows "\<exists>n. (host_group h, n) \<in> set (hosts_count clusterID w) \<and> 0 < n"
proof -
  let ?gs = "map host_group (filter (\<lambda>h. Host_ClusterID h = Some clusterID) (w_hosts w @ map snd (w_deleted_hosts w)))"
  have "host_group h \<in> set ?gs" using assms by auto
  then have "0 < count_list ?gs (host_group h)" by (metis count_list_0_iff gr0I)
  with \<open>host_group h \<in> set ?gs\<close> show ?thesis
    unfolding hosts_count_def Let_def by (intro exI [of _ "count_list ?gs (host_group h)"]) auto
qed

definition has_stages :: "cluster \<Rightarrow> world \<Rightarrow> bool" where
  "has_stages c w \<longleftrightarrow>
     list_ex (\<lambda>h. Host_ClusterID h = Some (Cluster_ID c) \<and>
       FindMatchingStages (Host_Role h) (Host_Bootstrap h) (Cluster_ControlPlaneCount c = 1) \<noteq> []) (w_hosts w)"

lemma installing_percentage:
  assumes "has_stages c w" and "host_stage_sums (Cluster_ControlPlaneCount c = 1) (hosts_count (Cluster_ID c) w) = (d, a)"
  shows "\<exists>p. percentage d a = Some p \<and> 0 \<le> p \<and> p \<le> 100"
proof -
  from assms(1) obtain h where h: "h \<in> set (w_hosts w)" "Host_ClusterID h = Some (Cluster_ID c)"
    "FindMatchingStages (Host_Role h) (Host_Bootstrap h) (Cluster_ControlPlaneCount c = 1) \<noteq> []"
    by (auto simp: has_stages_def list_ex_iff)
  from hosts_count_member [OF h(1,2)] obtain n where "(host_group h, n) \<in> set (hosts_count (Cluster_ID c) w)" "0 < n" by blast
  from host_stage_sums_pos [OF this(1) [unfolded host_group_def] this(2) h(3) assms(2)] have "0 < a" .
  then obtain p where p: "percentage d a = Some p" by (auto simp: percentage_def fdiv_def)
  with percentage_range [OF _ _ p] host_stage_sums_bounds [OF assms(2)] show ?thesis by auto
qed

section \<open>Weighted sums\<close>

text \<open>The weights are rounded; their products with percentages are nevertheless within the exact bounds.\<close>

lemma weights:
  "0 \<le> ProgressWeightPreparingForInstallationStage" "0 \<le> ProgressWeightInstallingStage" "0 \<le> ProgressWeightFinalizingStage"
  "fmul ProgressWeightPreparingForInstallationStage 100 = 10" "fmul ProgressWeightInstallingStage 100 = 70"
  "fmul ProgressWeightFinalizingStage 100 = 15"
  by code_simp+

definition percent :: "int \<Rightarrow> bool" where
  "percent p \<longleftrightarrow> 0 \<le> p \<and> p \<le> 100"

lemma weighted:
  assumes "0 \<le> weight" and "fmul weight 100 = of_int b" and "percent p"
  shows "0 \<le> fmul weight (float64 p)" and "fmul weight (float64 p) \<le> of_int b"
proof -
  have p: "float64 p = of_int p" "0 \<le> p" "(of_int p :: rat) \<le> 100"
    using assms(3) by (auto simp: percent_def float64_int)
  with assms(1) show "0 \<le> fmul weight (float64 p)" by (simp add: fmul_def f64_nonneg)
  from assms(1) p have "fmul weight (float64 p) \<le> fmul weight 100"
    unfolding fmul_def by (intro f64_mono) (auto intro: mult_left_mono)
  with assms(2) show "fmul weight (float64 p) \<le> of_int b" by simp
qed

lemmas weighted_stages =
  weighted [OF weights(1), of 10] weighted [OF weights(2), of 70] weighted [OF weights(3), of 15]

lemma int64_upto: "0 \<le> x \<Longrightarrow> x \<le> of_int b \<Longrightarrow> 0 \<le> int64 x \<and> int64 x \<le> b"
  by (rule int64_bounds)

lemma fadd_upto:
  assumes "0 \<le> x" "x \<le> of_int a" "0 \<le> y" "y \<le> of_int b" "0 \<le> a" "0 \<le> b" "a + b \<le> 100"
  shows "0 \<le> int64 (fadd x y) \<and> int64 (fadd x y) \<le> a + b"
proof (rule int64_bounds)
  show "0 \<le> fadd x y" using assms by (simp add: fadd_def f64_nonneg)
  show "fadd x y \<le> of_int (a + b)" using assms unfolding fadd_def by (intro f64_le_int) auto
qed

text \<open>The total outside of an installed cluster: at most 95.\<close>

lemma total_bounds:
  assumes "percent prep" and "percent inst" and "percent fin"
  shows "let t = int64 (fmul ProgressWeightInstallingStage (float64 inst)) +
      int64 (fadd (fmul ProgressWeightPreparingForInstallationStage (float64 prep))
        (fmul ProgressWeightFinalizingStage (float64 fin))) in 0 \<le> t \<and> t \<le> 95"
    and "let t = int64 (fmul ProgressWeightFinalizingStage (float64 fin)) +
      int64 (fadd (fmul ProgressWeightPreparingForInstallationStage (float64 prep))
        (fmul ProgressWeightInstallingStage (float64 inst))) in 0 \<le> t \<and> t \<le> 95"
proof -
  note w = weighted_stages(1,2) [OF _ assms(1)] weighted_stages(3,4) [OF _ assms(2)] weighted_stages(5,6) [OF _ assms(3)]
  note b = w [simplified weights, simplified]
  show "let t = int64 (fmul ProgressWeightInstallingStage (float64 inst)) +
      int64 (fadd (fmul ProgressWeightPreparingForInstallationStage (float64 prep))
        (fmul ProgressWeightFinalizingStage (float64 fin))) in 0 \<le> t \<and> t \<le> 95"
    using int64_upto [of "fmul ProgressWeightInstallingStage (float64 inst)" 70]
      fadd_upto [of "fmul ProgressWeightPreparingForInstallationStage (float64 prep)" 10
        "fmul ProgressWeightFinalizingStage (float64 fin)" 15] b by (simp add: Let_def)
  show "let t = int64 (fmul ProgressWeightFinalizingStage (float64 fin)) +
      int64 (fadd (fmul ProgressWeightPreparingForInstallationStage (float64 prep))
        (fmul ProgressWeightInstallingStage (float64 inst))) in 0 \<le> t \<and> t \<le> 95"
    using int64_upto [of "fmul ProgressWeightFinalizingStage (float64 fin)" 15]
      fadd_upto [of "fmul ProgressWeightPreparingForInstallationStage (float64 prep)" 10
        "fmul ProgressWeightInstallingStage (float64 inst)" 70] b by (simp add: Let_def)
qed
text \<open>Other rows, hosts, events and faults are as before.\<close>

definition quiet_clusters :: "uuid \<Rightarrow> world \<Rightarrow> world \<Rightarrow> bool" where
  "quiet_clusters k w w' \<longleftrightarrow>
     (\<forall>k'. k' \<noteq> k \<longrightarrow> find_cluster k' w' = find_cluster k' w) \<and> w_hosts w' = w_hosts w \<and> w_events w' = w_events w \<and>
     w_dbfault w' = w_dbfault w"

section \<open>Updates of the progress\<close>

definition progress_ok :: "cluster \<Rightarrow> bool" where
  "progress_ok c \<longleftrightarrow>
     (let p = cluster_progress_of c in
      percent (PreparingForInstallationStagePercentage p) \<and> percent (InstallingStagePercentage p) \<and>
      percent (FinalizingStagePercentage p) \<and> percent (TotalPercentage p))"

text \<open>An update by identifier of a stored cluster.\<close>

lemma update_by_id_row:
  assumes "cluster_healthy w" and "find_cluster k w = Some c" and "distinct (map fst ups)"
    and "assign_each cluster_assign ups \<noteq> None"
  shows "\<exists>n w' c'. update_by_id k ups w = (Inr n, w') \<and> find_cluster k w' = Some c' \<and> quiet_clusters k w w' \<and>
    (\<forall>col. cluster_column_value col c' = (case map_of ups col of None \<Rightarrow> cluster_column_value col c | Some v \<Rightarrow> v))"
proof -
  from assms(4) obtain f where f: "assign_each cluster_assign ups = Some f" by blast
  let ?w = "update_clusters (\<lambda>c. Cluster_ID c = k) f w"
  from assms(1) f have "update_by_id k ups w = (Inr (length (filter (\<lambda>c. Cluster_ID c = k) (w_clusters w))), ?w)"
    by (simp add: update_by_id_def cluster_healthy_def)
  moreover have "find_cluster k ?w = Some (f c)"
    using find_update_clusters [OF assign_each_id [OF f]] assms(2) find_cluster_SomeD [OF assms(2)] by simp
  moreover have "quiet_clusters k w ?w"
  proof -
    have "find_cluster k' ?w = find_cluster k' w" if "k' \<noteq> k" for k'
      using find_update_clusters [OF assign_each_id [OF f], of k' "\<lambda>c. Cluster_ID c = k" w] find_cluster_SomeD [of k' w] that
      by (cases "find_cluster k' w") auto
    then show ?thesis by (simp add: quiet_clusters_def)
  qed
  ultimately show ?thesis
    using cluster_row.each_column [OF f assms(3)] by blast
qed

text \<open>
  C24. Progress of the installing stage: for a stored day-1 cluster with a host that has stages and with
  percentages between 0 and 100, \<open>UpdateInstallProgress\<close> succeeds, changes no other cluster, keeps all
  percentages between 0 and 100, and the total is 100 for an installed cluster and at most 95 otherwise,
  whatever \<open>float64\<close> rounds.
\<close>

theorem install_progress_bounds:
  assumes "find_cluster k w = Some c" and "cluster_healthy w" and "has_stages c w" and "progress_ok c"
    and "Cluster_Kind c \<noteq> ClusterKindAddHostsCluster"
  shows "\<exists>w' c'. cluster_UpdateInstallProgress m k w = (None, w') \<and> quiet_clusters k w w' \<and>
    find_cluster k w' = Some c' \<and> Cluster_Status c' = Cluster_Status c \<and> progress_ok c' \<and>
    (if Cluster_Status c = ClusterStatusInstalled then TotalPercentage (cluster_progress_of c') = 100
     else TotalPercentage (cluster_progress_of c') \<le> 95)"
proof -
  have k: "Cluster_ID c = k" using find_cluster_SomeD [OF assms(1)] by simp
  obtain d a where s: "host_stage_sums (Cluster_ControlPlaneCount c = 1) (hosts_count k w) = (d, a)" by force
  from installing_percentage [OF assms(3), unfolded k, OF s] obtain inst where inst: "percentage d a = Some inst" "percent inst"
    by (auto simp: percent_def)
  let ?p = "cluster_progress_of c"
  let ?rest = "case Cluster_Progress c of None \<Rightarrow> 0 | Some p \<Rightarrow>
      int64 (fadd (fmul ProgressWeightPreparingForInstallationStage (float64 (PreparingForInstallationStagePercentage p)))
        (fmul ProgressWeightFinalizingStage (float64 (FinalizingStagePercentage p))))"
  let ?t = "if Cluster_Status c = ClusterStatusInstalled then 100
    else int64 (fmul ProgressWeightInstallingStage (float64 inst)) + ?rest"
  let ?ups = "[(CC_progress_installing_stage_percentage, CNum inst), (CC_progress_total_percentage, CNum ?t)]"
  from assms(4) have ok: "percent (PreparingForInstallationStagePercentage ?p)" "percent (FinalizingStagePercentage ?p)"
    by (simp_all add: progress_ok_def Let_def)
  have t: "percent ?t" "Cluster_Status c \<noteq> ClusterStatusInstalled \<Longrightarrow> ?t \<le> 95"
    using total_bounds(1) [OF ok(1) inst(2) ok(2)] int64_upto [of "fmul ProgressWeightInstallingStage (float64 inst)" 70]
      weighted [OF weights(2), of 70, OF _ inst(2)] weights(5)
    by (auto simp: percent_def cluster_progress_of_def Let_def split: option.splits)
  have "assign_each cluster_assign ?ups \<noteq> None" by simp
  from update_by_id_row [OF assms(2,1) _ this] obtain n w' c' where u: "update_by_id k ?ups w = (Inr n, w')"
    "find_cluster k w' = Some c'" "quiet_clusters k w w'"
    and col: "\<And>col. cluster_column_value col c' = (case map_of ?ups col of None \<Rightarrow> cluster_column_value col c | Some v \<Rightarrow> v)"
    by auto
  have "cluster_UpdateInstallProgress m k w = (None, w')"
    using assms(1,2,5) s inst(1) u(1)
    by (cases "Cluster_Status c = ClusterStatusInstalled")
       (simp_all add: cluster_UpdateInstallProgress_def GetClusterFromDB_def take_cluster_def cluster_healthy_def k
        int64_of_def error_of_def Let_def)
  moreover have "Cluster_Status c' = Cluster_Status c" "TotalPercentage (cluster_progress_of c') = ?t"
    "InstallingStagePercentage (cluster_progress_of c') = inst"
    "PreparingForInstallationStagePercentage (cluster_progress_of c') = PreparingForInstallationStagePercentage ?p"
    "FinalizingStagePercentage (cluster_progress_of c') = FinalizingStagePercentage ?p"
    using col [of CC_status] col [of CC_progress_total_percentage] col [of CC_progress_installing_stage_percentage]
      col [of CC_progress_preparing_for_installation_stage_percentage] col [of CC_progress_finalizing_stage_percentage]
    by simp_all
  ultimately show ?thesis using u(2,3) ok inst(2) t by (auto simp: progress_ok_def Let_def)
qed

lemma demo_stages: "has_stages (demo_cluster s) (sample_store s t)"
  by (simp add: has_stages_def sample_store_def sample_cluster_world_def sample_member_def demo_cluster_def
      zero_host_def FindMatchingStages_def MasterStages_def)

lemma demo_row: "find_cluster ''c'' (sample_store s t) = Some (demo_cluster s)" "cluster_healthy (sample_store s t)"
  "progress_ok (demo_cluster s)" "Cluster_Kind (demo_cluster s) = ClusterKindCluster"
  by (simp_all add: find_cluster_def sample_store_def sample_cluster_world_def demo_cluster_def cluster_healthy_def
      progress_ok_def percent_def cluster_progress_of_def zero_cluster_progress_def zero_cluster_def Let_def)

theorem install_progress_bounds_witness:
  "\<exists>w' c'. cluster_UpdateInstallProgress sample_cluster_manager ''c'' (sample_store ClusterStatusInstalling HostStatusInstalling) =
      (None, w') \<and> find_cluster ''c'' w' = Some c' \<and> TotalPercentage (cluster_progress_of c') \<le> 95"
proof -
  let ?s = ClusterStatusInstalling and ?t = HostStatusInstalling
  have "Cluster_Kind (demo_cluster ?s) \<noteq> ClusterKindAddHostsCluster" "Cluster_Status (demo_cluster ?s) = ?s"
    using demo_row(4) [of ?s] by (simp_all add: demo_cluster_def)
  from install_progress_bounds [OF demo_row(1,2) [of ?s ?t] demo_stages demo_row(3) this(1), of sample_cluster_manager] this(2)
  show ?thesis by auto
qed

text \<open>The operators that are done, counted in \<open>float64\<close>: exact as long as the count is.\<close>

lemma operators_count:
  assumes "length ops \<le> 2 ^ 53"
  shows "fold (\<lambda>mo n. if operator_done mo then fadd n 1 else n) ops 0 = of_nat (length (filter operator_done ops))"
  using assms
proof (induction ops rule: rev_induct)
  case (snoc x ops)
  let ?n = "length (filter operator_done ops)"
  from snoc.prems have "?n < 2 ^ 53" using length_filter_le [of operator_done ops] by (simp, linarith)
  then have "f64 (of_int (int ?n + 1)) = of_int (int ?n + 1)" by (intro f64_int) auto
  with snoc show ?case by (simp add: fadd_def add.commute)
qed simp

lemma finalizing_percentage:
  assumes "ops \<noteq> []" and "length ops \<le> 2 ^ 53"
  shows "\<exists>p. percentage (fold (\<lambda>mo n. if operator_done mo then fadd n 1 else n) ops 0) (float64 (int (length ops))) = Some p \<and>
    percent p \<and> (list_all operator_done ops \<longrightarrow> p = 100)"
proof -
  let ?d = "fold (\<lambda>mo n. if operator_done mo then fadd n 1 else n) ops 0"
  have len: "float64 (int (length ops)) = of_nat (length ops)" using assms(2) by (subst float64_int) auto
  have "length (filter operator_done ops) \<le> length ops" by simp
  then have b: "0 \<le> ?d" "?d \<le> float64 (int (length ops))" by (simp_all add: operators_count [OF assms(2)] len)
  from assms(1) obtain p where p: "percentage ?d (float64 (int (length ops))) = Some p"
    by (auto simp: percentage_def fdiv_def len)
  moreover have "p = 100" if "list_all operator_done ops"
  proof -
    from that have "filter operator_done ops = ops" by (simp add: list_all_iff)
    with p percentage_complete [of "of_nat (length ops)"] assms(1) show ?thesis by (simp add: operators_count [OF assms(2)] len)
  qed
  ultimately show ?thesis using percentage_range [OF b p] by (auto simp: percent_def)
qed

text \<open>
  C25. Progress of the finalizing stage: for a stored cluster with monitored operators and with percentages
  between 0 and 100, \<open>UpdateFinalizingProgress\<close> succeeds, changes no other cluster, keeps all percentages
  between 0 and 100 and never lowers the total; when the total changes it is at most 95. If every built-in
  operator is available and every OLM operator is available or failed, either the stage is at 100 percent
  and the monitor is triggered, or the total was higher already and nothing changes.
\<close>

theorem finalizing_progress_bounds:
  assumes "find_cluster k w = Some c" and "cluster_healthy w" and "progress_ok c"
    and "Cluster_MonitoredOperators c \<noteq> []" and "length (Cluster_MonitoredOperators c) \<le> 2 ^ 53"
  shows "\<exists>w' c'. UpdateFinalizingProgress m k w = (None, w') \<and> quiet_clusters k w w' \<and>
    find_cluster k w' = Some c' \<and> Cluster_Status c' = Cluster_Status c \<and> progress_ok c' \<and>
    TotalPercentage (cluster_progress_of c) \<le> TotalPercentage (cluster_progress_of c') \<and>
    (c' = c \<or> TotalPercentage (cluster_progress_of c') \<le> 95) \<and>
    (list_all operator_done (Cluster_MonitoredOperators c) \<longrightarrow>
       c' = c \<or> FinalizingStagePercentage (cluster_progress_of c') = 100 \<and> Cluster_TriggerMonitorTimestamp c' = w_now w)"
proof -
  have k: "Cluster_ID c = k" using find_cluster_SomeD [OF assms(1)] by simp
  let ?ops = "Cluster_MonitoredOperators c" and ?p = "cluster_progress_of c"
  from finalizing_percentage [OF assms(4,5)] obtain fin where
    fin: "percentage (fold (\<lambda>mo n. if operator_done mo then fadd n 1 else n) ?ops 0) (float64 (int (length ?ops))) = Some fin"
    "percent fin" "list_all operator_done ?ops \<Longrightarrow> fin = 100" by blast
  let ?rest = "case Cluster_Progress c of None \<Rightarrow> 0 | Some p \<Rightarrow>
      int64 (fadd (fmul ProgressWeightPreparingForInstallationStage (float64 (PreparingForInstallationStagePercentage p)))
        (fmul ProgressWeightInstallingStage (float64 (InstallingStagePercentage p))))"
  let ?t = "int64 (fmul ProgressWeightFinalizingStage (float64 fin)) + ?rest"
  let ?skip = "case Cluster_Progress c of None \<Rightarrow> False | Some p \<Rightarrow> ?t < TotalPercentage p"
  let ?ups = "[(CC_progress_finalizing_stage_percentage, CNum fin), (CC_progress_total_percentage, CNum ?t)] @
    (if fin = 100 then [(CC_trigger_monitor_timestamp, CTime (w_now w))] else [])"
  from assms(3) have ok: "percent (PreparingForInstallationStagePercentage ?p)" "percent (InstallingStagePercentage ?p)"
    by (simp_all add: progress_ok_def Let_def)
  have t: "percent ?t" "?t \<le> 95"
    using total_bounds(2) [OF ok fin(2)] int64_upto [of "fmul ProgressWeightFinalizingStage (float64 fin)" 15]
      weighted [OF weights(3), of 15, OF _ fin(2)] weights(6)
    by (auto simp: percent_def cluster_progress_of_def Let_def split: option.splits)
  have op: "UpdateFinalizingProgress m k w = (if ?skip then (None, w) else case update_by_id k ?ups w of (r, w1) \<Rightarrow> (error_of r, w1))"
  proof -
    have get: "GetClusterFromDB w k = Inr c"
      using assms(1,2) by (simp add: GetClusterFromDB_def take_cluster_def cluster_healthy_def)
    show ?thesis
      by (simp only: UpdateFinalizingProgress_def get sum.case Let_def int64_of_def fin(1) option.case k)
  qed
  show ?thesis
  proof (cases ?skip)
    case True
    with op have "UpdateFinalizingProgress m k w = (None, w)" by simp
    with assms(1,3) show ?thesis by (auto simp: quiet_clusters_def)
  next
    case False
    have "distinct (map fst ?ups)" "assign_each cluster_assign ?ups \<noteq> None" by simp_all
    from update_by_id_row [OF assms(2,1) this] obtain n w' c' where u: "update_by_id k ?ups w = (Inr n, w')"
      "find_cluster k w' = Some c'" "quiet_clusters k w w'"
      and col: "\<And>col. cluster_column_value col c' = (case map_of ?ups col of None \<Rightarrow> cluster_column_value col c | Some v \<Rightarrow> v)"
      by blast
    have "TotalPercentage ?p \<le> ?t"
      using False t(1) by (auto simp: cluster_progress_of_def zero_cluster_progress_def percent_def split: option.splits)
    moreover have "Cluster_Status c' = Cluster_Status c" "TotalPercentage (cluster_progress_of c') = ?t"
      "InstallingStagePercentage (cluster_progress_of c') = InstallingStagePercentage ?p"
      "PreparingForInstallationStagePercentage (cluster_progress_of c') = PreparingForInstallationStagePercentage ?p"
      "FinalizingStagePercentage (cluster_progress_of c') = fin"
      "fin = 100 \<Longrightarrow> Cluster_TriggerMonitorTimestamp c' = w_now w"
      using col [of CC_status] col [of CC_progress_total_percentage] col [of CC_progress_installing_stage_percentage]
        col [of CC_progress_preparing_for_installation_stage_percentage] col [of CC_progress_finalizing_stage_percentage]
        col [of CC_trigger_monitor_timestamp]
      by (simp_all split: if_splits)
    moreover from op False u(1) have "UpdateFinalizingProgress m k w = (None, w')" by (simp add: error_of_def)
    ultimately show ?thesis using u(2,3) ok fin(2,3) t
      by (intro exI [of _ w'] exI [of _ c']) (auto simp: progress_ok_def Let_def)
  qed
qed

theorem finalizing_progress_bounds_witness:
  "let c = (demo_cluster ClusterStatusFinalizing)\<lparr>Cluster_MonitoredOperators :=
         [\<lparr>MO_Name = ''console'', MO_OperatorType = OperatorTypeBuiltin, MO_Status = OperatorStatusAvailable,
           MO_TimeoutSeconds = 0\<rparr>]\<rparr>;
       w = sample_cluster_world c []
   in \<exists>w' c'. UpdateFinalizingProgress sample_cluster_manager ''c'' w = (None, w') \<and> find_cluster ''c'' w' = Some c' \<and>
        (c' = c \<or> FinalizingStagePercentage (cluster_progress_of c') = 100)"
proof -
  let ?c = "(demo_cluster ClusterStatusFinalizing)\<lparr>Cluster_MonitoredOperators :=
      [\<lparr>MO_Name = ''console'', MO_OperatorType = OperatorTypeBuiltin, MO_Status = OperatorStatusAvailable,
        MO_TimeoutSeconds = 0\<rparr>]\<rparr>"
  have "find_cluster ''c'' (sample_cluster_world ?c []) = Some ?c" "cluster_healthy (sample_cluster_world ?c [])"
    by (simp_all add: find_cluster_def sample_cluster_world_def demo_cluster_def cluster_healthy_def)
  moreover have "progress_ok ?c" using demo_row(3) [of ClusterStatusFinalizing] by (simp add: progress_ok_def cluster_progress_of_def)
  moreover have "Cluster_MonitoredOperators ?c \<noteq> []" "length (Cluster_MonitoredOperators ?c) \<le> 2 ^ 53" by simp_all
  ultimately have "\<exists>w' c'. UpdateFinalizingProgress sample_cluster_manager ''c'' (sample_cluster_world ?c []) = (None, w') \<and>
      find_cluster ''c'' w' = Some c' \<and> (list_all operator_done (Cluster_MonitoredOperators ?c) \<longrightarrow>
        c' = ?c \<or> FinalizingStagePercentage (cluster_progress_of c') = 100)"
    using finalizing_progress_bounds by blast
  then show ?thesis by (simp add: operator_done_def Let_def)
qed

end
