(* ===== verification/Cluster_Lifecycle.thy ===== *)
theory Cluster_Lifecycle
  imports Cluster_Progress
begin

text \<open>
  The life of a cluster outside of its refreshes: registration and deregistration, the control of an
  installation, hosts that register again while it is prepared, its finalizing stages and its VIPs.
\<close>

section \<open>Isolation\<close>

text \<open>
  C26. A run of the cluster machine, whatever the transition, its arguments and its outcome, and however
  stale the cluster that it is called with, changes no other cluster and only adds events. It adds and
  removes no host, and the only change it makes to one is a move to resetting-pending-user-action, which
  leaves its key and its cluster as they are.
\<close>

theorem cluster_run_isolation:
  "let w' = snd (snd (run_cluster_sm m t args c w)) in
   filter (\<lambda>r. Cluster_ID r \<noteq> Cluster_ID c) (w_clusters w') = filter (\<lambda>r. Cluster_ID r \<noteq> Cluster_ID c) (w_clusters w) \<and>
   prefix (w_events w) (w_events w') \<and>
   list_all2 (\<lambda>h h'. h' = h \<or> Host_Status h' = HostStatusResettingPendingUserAction \<and> host_key h' = host_key h \<and>
     Host_ClusterID h' = Host_ClusterID h) (w_hosts w) (w_hosts w')"
  using other_clusters.run [where c = c and w = w and th = "cm_th m" and t = t and args = args, of w]
    cluster_events.run [where c = c and w = w and th = "cm_th m" and t = t and args = args, of w]
    reset_hosts_only.run [where c = c and w = w and th = "cm_th m" and t = t and args = args, of w]
  by (auto simp: run_cluster_sm_def other_clusters_of_def hosts_reset_only_def reset_or_same_def [abs_def]
      split: prod.splits)

section \<open>Control of an installation\<close>

text \<open>The operations that control an installation, as a table: the new status of a cluster, if there is one.\<close>

definition cluster_control_spec :: "cluster_transition_type \<Rightarrow> cluster_status \<Rightarrow> cluster_status option" where
  "cluster_control_spec t s =
     (case t of
        TransitionTypeCancelInstallation_c \<Rightarrow>
          if s \<in> {ClusterStatusInstalling, ClusterStatusInstallingPendingUserAction, ClusterStatusError, ClusterStatusFinalizing}
          then Some ClusterStatusCancelled
          else if s = ClusterStatusPreparingForInstallation then Some ClusterStatusReady else None
      | TransitionTypeResetCluster \<Rightarrow>
          if s \<in> {ClusterStatusPreparingForInstallation, ClusterStatusInstalling, ClusterStatusInstallingPendingUserAction,
                  ClusterStatusError, ClusterStatusCancelled, ClusterStatusFinalizing}
          then Some ClusterStatusInsufficient else None
      | TransitionTypePrepareForInstallation \<Rightarrow>
          if s = ClusterStatusReady then Some ClusterStatusPreparingForInstallation else None
      | _ \<Rightarrow> None)"

definition cluster_control_args :: "cluster_transition_type \<Rightarrow> string \<Rightarrow> cluster_args" where
  "cluster_control_args t reason =
     (case t of
        TransitionTypeCancelInstallation_c \<Rightarrow> ArgsCancelInstallation reason
      | TransitionTypeResetCluster \<Rightarrow> ArgsResetCluster reason
      | _ \<Rightarrow> ArgsPrepareForInstallation)"

definition control_types :: "cluster_transition_type list" where
  "control_types = [TransitionTypeCancelInstallation_c, TransitionTypeResetCluster, TransitionTypePrepareForInstallation]"

lemma cluster_control_destination:
  "t \<in> set control_types \<Longrightarrow>
   cluster_destination th t sc args = Inr (cluster_control_spec t (Cluster_Status (sc_cluster sc)))"
  by (auto simp: control_types_def cluster_control_spec_def cluster_selection_defs)

lemma transition_succeeds:
  assumes "store_ready sc" and "cluster_extra_ok extra" and "length info \<le> varchar_max"
    and "cluster_healthy w" and "wf_world w" and "same_statuses (sc_world sc) w"
  shows "fst (updateTransitionCluster (sc\<lparr>sc_world := w\<rparr>) info extra) = None"
  using status_update_succeeds [OF assms(4-6) assms(1-3), of "Cluster_Status (sc_cluster sc)"]
  by (auto simp: updateTransitionCluster_def)

lemma control_post_succeeds:
  assumes "store_ready sc" and "length reason \<le> varchar_max"
  shows "fst (cluster_PostCancelInstallation sc (ArgsCancelInstallation reason)) = None"
    "fst (PostPrepareForInstallation sc ArgsPrepareForInstallation) = None"
    "fst (PostResetCluster sc (ArgsResetCluster reason)) = None"
proof -
  have w: "cluster_healthy (sc_world sc)" "wf_world (sc_world sc)" "same_statuses (sc_world sc) (sc_world sc)"
    using assms(1) by (simp_all add: store_ready_def same_statuses_def)
  show "fst (cluster_PostCancelInstallation sc (ArgsCancelInstallation reason)) = None"
    using transition_succeeds [OF assms(1) cluster_extra_ok_Nil assms(2) w] by (simp add: cluster_PostCancelInstallation_def)
  have "length cluster_statusInfoPreparingForInstallation \<le> varchar_max"
    by (simp add: cluster_statusInfoPreparingForInstallation_def varchar_max_def)
  then show "fst (PostPrepareForInstallation sc ArgsPrepareForInstallation) = None"
    using transition_succeeds [OF assms(1) _ _ w] by (simp add: PostPrepareForInstallation_def cluster_extra_ok_append)
  let ?v = "if IsSingleNodeCluster (sc_cluster sc) then UpdateVipsTables (Cluster_ID (sc_cluster sc)) [] [] (sc_world sc)
      else (None, sc_world sc)"
  have f: "\<not> w_dbfault (sc_world sc) DeleteVips" "\<not> w_dbfault (sc_world sc) SaveVips" using assms(1) by (simp_all add: store_ready_def)
  obtain e w1 where v: "?v = (e, w1)" by force
  have "fst ?v = None \<and> cluster_healthy (snd ?v) \<and> wf_world (snd ?v) \<and> same_statuses (sc_world sc) (snd ?v)"
    using w UpdateVipsTables_succeeds [OF f] UpdateVipsTables_statuses [of "sc_world sc"] cluster_wf.vips [OF w(2)]
    by (auto simp: cluster_healthy_def)
  with v have "e = None" "cluster_healthy w1" "wf_world w1" "same_statuses (sc_world sc) w1" by simp_all
  with transition_succeeds [OF assms(1) _ assms(2), of "cluster_resetFields @ resetInstallationPreparationStatusFields" w1] v
  show "fst (PostResetCluster sc (ArgsResetCluster reason)) = None"
    by (simp add: PostResetCluster_def cluster_extra_ok_append)
qed

lemma cluster_control_run:
  assumes "store_ready (newStateCluster c w)" and "length reason \<le> varchar_max" and "t \<in> set control_types"
  shows "case cluster_control_spec t (Cluster_Status c) of
      None \<Rightarrow> run_cluster_sm m t (cluster_control_args t reason) c w = (Some NoConditionPassedToRunTransaction, None, w)
    | Some s \<Rightarrow> fst (run_cluster_sm m t (cluster_control_args t reason) c w) = None \<and>
        map_option Cluster_Status (find_cluster (Cluster_ID c) (snd (snd (run_cluster_sm m t (cluster_control_args t reason) c w)))) = Some s"
proof (cases "cluster_control_spec t (Cluster_Status c)")
  let ?sc = "newStateCluster c w" and ?a = "cluster_control_args t reason" and ?th = "cm_th m"
  case None
  with cluster_control_destination [OF assms(3), of ?th ?sc ?a] have "select_rule stateCluster_State
      (filter (\<lambda>tr. TransitionType tr = t) (cluster_rules ?th)) ?sc ?a = Inr None"
    unfolding cluster_destination_def
    by (cases "select_rule stateCluster_State (filter (\<lambda>tr. TransitionType tr = t) (cluster_rules ?th)) ?sc ?a")
       (simp_all add: newStateCluster_def)
  with None show ?thesis by (simp add: run_cluster_sm_def cluster_Run_select newStateCluster_def)
next
  let ?sc = "newStateCluster c w" and ?a = "cluster_control_args t reason" and ?th = "cm_th m"
  case (Some s)
  with cluster_control_destination [OF assms(3), of ?th ?sc ?a] have dest: "cluster_destination ?th t ?sc ?a = Inr (Some s)"
    by (simp add: newStateCluster_def)
  from selected_rule [OF dest] obtain tr where tr: "tr \<in> set (cluster_rules ?th)" "TransitionType tr = t"
    "DestinationState tr = s" "cluster_Run ?th t ?sc ?a = fire stateCluster_SetState tr ?sc ?a" by metis
  have post: "Transition tr = None \<and> (t = TransitionTypeCancelInstallation_c \<longrightarrow> PostTransition tr = Some cluster_PostCancelInstallation) \<and>
      (t = TransitionTypeResetCluster \<longrightarrow> PostTransition tr = Some PostResetCluster) \<and>
      (t = TransitionTypePrepareForInstallation \<longrightarrow> PostTransition tr = Some PostPrepareForInstallation)"
    using tr(1,2) assms(3) by (auto simp: control_types_def cluster_rules_def cluster_rule_defs)
  have "store_ready (at_status s ?sc)" using assms(1) by (simp add: store_ready_def cluster_stored_def newStateCluster_def at_status_def)
  from control_post_succeeds [OF this assms(2)] post tr(3,4) assms(3) have ok: "fst (cluster_Run ?th t ?sc ?a) = None"
    by (auto simp: fire_def stateCluster_SetState_def at_status_def control_types_def cluster_control_args_def)
  obtain sc' where run: "cluster_Run ?th t ?sc ?a = (None, sc')" using ok by (metis prod.collapse)
  from cluster_run_stores [OF run _ _ _ dest] assms(1) have "cluster_stored sc' = Some s"
    by (simp add: store_ready_def newStateCluster_def)
  moreover have "Cluster_ID (sc_cluster sc') = Cluster_ID c" using cluster_run_id [OF dest] run by (simp add: newStateCluster_def)
  ultimately show ?thesis using Some run by (simp add: run_cluster_sm_def cluster_stored_def)
qed

text \<open>
  The operations with the transitions that they run and with what they return and record when the machine
  has no rule for the status: cancel and reset wrap the error of the machine into a conflict and add an event,
  the preparation returns it as it is.
\<close>

definition cluster_control_operations ::
  "cluster_manager \<Rightarrow> string \<Rightarrow> ((cluster \<Rightarrow> world \<Rightarrow> go_error option \<times> world) \<times> cluster_transition_type \<times>
     (cluster \<Rightarrow> world \<Rightarrow> go_error option \<times> world)) list" where
  "cluster_control_operations m reason =
     (let err = NoConditionPassedToRunTransaction in
      [(\<lambda>c. cluster_CancelInstallation m c reason, TransitionTypeCancelInstallation_c,
        \<lambda>c w. (Some (ApiError 409 err), send_event (CancelInstallationFailedEvent (Cluster_ID c) err) w)),
       (\<lambda>c. ResetCluster m c reason, TransitionTypeResetCluster,
        \<lambda>c w. (Some (ApiError 409 err), send_event (ResetInstallationFailedEvent (Cluster_ID c) err) w)),
       (PrepareForInstallation m, TransitionTypePrepareForInstallation, \<lambda>c w. (Some err, w))])"

text \<open>
  C27. Cancelling, resetting and preparing an installation, on a stored cluster in a store whose statements
  succeed and with a reason that fits its column. If the table \<open>cluster_control_spec\<close> has no entry for the
  status of the cluster, the operation is refused: cancel and reset return a conflict and add the event of the
  failure, the preparation returns the error of the state machine, and nothing else changes. Otherwise the
  operation succeeds and the row has the status of the table.
\<close>

theorem cluster_control_total:
  assumes "store_ready (newStateCluster c w)" and "length reason \<le> varchar_max"
  shows "list_all (\<lambda>(op, t, refused). case cluster_control_spec t (Cluster_Status c) of
      None \<Rightarrow> op c w = refused c w
    | Some s \<Rightarrow> fst (op c w) = None \<and>
        map_option Cluster_Status (find_cluster (Cluster_ID c) (snd (op c w))) = Some s) (cluster_control_operations m reason)"
proof -
  note run = cluster_control_run [OF assms, of _ m]
  let ?err = NoConditionPassedToRunTransaction
  have "case cluster_control_spec TransitionTypeCancelInstallation_c (Cluster_Status c) of
      None \<Rightarrow> cluster_CancelInstallation m c reason w =
        (Some (ApiError 409 ?err), send_event (CancelInstallationFailedEvent (Cluster_ID c) ?err) w)
    | Some s \<Rightarrow> fst (cluster_CancelInstallation m c reason w) = None \<and>
        map_option Cluster_Status (find_cluster (Cluster_ID c) (snd (cluster_CancelInstallation m c reason w))) = Some s"
    using run [of TransitionTypeCancelInstallation_c]
    by (auto simp: control_types_def cluster_CancelInstallation_def cluster_control_args_def split: option.splits prod.splits)
  moreover have "case cluster_control_spec TransitionTypeResetCluster (Cluster_Status c) of
      None \<Rightarrow> ResetCluster m c reason w =
        (Some (ApiError 409 ?err), send_event (ResetInstallationFailedEvent (Cluster_ID c) ?err) w)
    | Some s \<Rightarrow> fst (ResetCluster m c reason w) = None \<and>
        map_option Cluster_Status (find_cluster (Cluster_ID c) (snd (ResetCluster m c reason w))) = Some s"
    using run [of TransitionTypeResetCluster]
    by (auto simp: control_types_def ResetCluster_def cluster_control_args_def split: option.splits prod.splits)
  moreover have "case cluster_control_spec TransitionTypePrepareForInstallation (Cluster_Status c) of
      None \<Rightarrow> PrepareForInstallation m c w = (Some ?err, w)
    | Some s \<Rightarrow> fst (PrepareForInstallation m c w) = None \<and>
        map_option Cluster_Status (find_cluster (Cluster_ID c) (snd (PrepareForInstallation m c w))) = Some s"
    using run [of TransitionTypePrepareForInstallation]
    by (auto simp: control_types_def PrepareForInstallation_def cluster_control_args_def split: option.splits prod.splits)
  ultimately show ?thesis by (simp add: cluster_control_operations_def)
qed

lemma sample_store_ready: "store_ready (newStateCluster (sample_loaded s t) (sample_store s t))"
  using sample_refreshable [of s t] by (simp add: refreshable_def sample_load services_ready_def)

theorem cluster_control_total_witness:
  "let c = sample_loaded ClusterStatusInstalling HostStatusInstalling; w = sample_store ClusterStatusInstalling HostStatusInstalling in
   fst (cluster_CancelInstallation sample_cluster_manager c ''by user'' w) = None \<and>
   map_option Cluster_Status (find_cluster ''c'' (snd (cluster_CancelInstallation sample_cluster_manager c ''by user'' w))) =
     Some ClusterStatusCancelled \<and>
   PrepareForInstallation sample_cluster_manager c w = (Some NoConditionPassedToRunTransaction, w)"
proof -
  let ?c = "sample_loaded ClusterStatusInstalling HostStatusInstalling"
  have "length ''by user'' \<le> varchar_max" by (simp add: varchar_max_def)
  from cluster_control_total [OF sample_store_ready [of ClusterStatusInstalling HostStatusInstalling] this, of sample_cluster_manager]
  have 1: "fst (cluster_CancelInstallation sample_cluster_manager ?c ''by user'' (sample_store ClusterStatusInstalling HostStatusInstalling)) = None"
    "map_option Cluster_Status (find_cluster (Cluster_ID ?c) (snd (cluster_CancelInstallation sample_cluster_manager ?c ''by user''
       (sample_store ClusterStatusInstalling HostStatusInstalling)))) = Some ClusterStatusCancelled"
    "PrepareForInstallation sample_cluster_manager ?c (sample_store ClusterStatusInstalling HostStatusInstalling) =
       (Some NoConditionPassedToRunTransaction, sample_store ClusterStatusInstalling HostStatusInstalling)"
    by (simp_all add: cluster_control_operations_def cluster_control_spec_def sample_loaded_facts)
  moreover have "Cluster_ID ?c = ''c''" by (simp add: sample_loaded_def demo_cluster_def)
  ultimately show ?thesis by simp
qed

section \<open>Registration\<close>

text \<open>The statements of registration and deregistration succeed.\<close>

definition registry_healthy :: "world \<Rightarrow> bool" where
  "registry_healthy w \<longleftrightarrow>
     \<not> w_dbfault w SelectClusters \<and> \<not> w_dbfault w DeleteClusters \<and> \<not> w_dbfault w CreateClusters \<and> \<not> w_dbfault w DeleteNetworks"

lemma find_append: "find P (xs @ ys) = (case find P xs of None \<Rightarrow> find P ys | Some x \<Rightarrow> Some x)"
  by (induction xs) auto

lemma find_cluster_append:
  "find_cluster k (w\<lparr>w_clusters := w_clusters w @ [c]\<rparr>) =
     (case find_cluster k w of None \<Rightarrow> if Cluster_ID c = k then Some c else None | Some r \<Rightarrow> Some r)"
  by (simp add: find_cluster_def find_append split: option.splits)

lemma find_cluster_None: "find_cluster k w = None \<longleftrightarrow> k \<notin> set (map Cluster_ID (w_clusters w))"
  by (auto simp: find_cluster_def find_None_iff)

lemma create_row_simps [simp]:
  "Cluster_ID (create_row w c) = Cluster_ID c" "Cluster_Status (create_row w c) = Cluster_Status c"
  "Cluster_Kind (create_row w c) = Cluster_Kind c"
  by (simp_all add: create_row_def Let_def)

lemma registered_id [simp]: "Cluster_ID (registered_fields kind now c) = Cluster_ID c"
  by (simp add: registered_fields_def Let_def split: prod.splits)

definition register_event :: "cluster \<Rightarrow> world \<Rightarrow> world" where
  "register_event c w =
     (if Cluster_Kind c = ClusterKindAddHostsCluster
      then send_event (ClusterRegistrationSucceededEvent (Cluster_ID c) ClusterKindAddHostsCluster) w else w)"

lemma register_fresh:
  assumes "registry_healthy w" and "find_cluster (Cluster_ID c) w = None"
  shows "cluster_RegisterCluster kind c w =
    (None, registered_fields kind (w_now w) c,
     register_event (registered_fields kind (w_now w) c)
       (w\<lparr>w_deleted_clusters := filter (\<lambda>d. Cluster_ID d \<noteq> Cluster_ID c) (w_deleted_clusters w),
          w_clusters := w_clusters w @ [create_row w (registered_fields kind (w_now w) c)]\<rparr>))"
proof -
  from assms(2) have "Cluster_ID c \<notin> set (map Cluster_ID (w_clusters w))" by (simp only: find_cluster_None simp_thms)
  with assms show ?thesis
    by (auto simp: cluster_RegisterCluster_def registerCluster_def GetClusterFromDB_def take_cluster_def registry_healthy_def
        register_event_def Let_def)
qed

lemma register_event_frame [simp]:
  "find_cluster k (register_event c w) = find_cluster k w" "w_clusters (register_event c w) = w_clusters w"
  "w_deleted_clusters (register_event c w) = w_deleted_clusters w" "w_dbfault (register_event c w) = w_dbfault w"
  "w_now (register_event c w) = w_now w" "w_hosts (register_event c w) = w_hosts w"
  "w_deleted_hosts (register_event c w) = w_deleted_hosts w" "wf_world (register_event c w) = wf_world w"
  by (simp_all add: register_event_def send_event_def find_cluster_def wf_world_def)

lemma register_twice:
  assumes "registry_healthy w" and "find_cluster (Cluster_ID c) w = Some r"
  shows "cluster_RegisterCluster kind c w = (Some ErrDB, registered_fields kind (w_now w) c, w)"
proof -
  from find_cluster_SomeD [OF assms(2)] have "Cluster_ID c \<in> set (map Cluster_ID (w_clusters w))"
    by (auto intro: rev_image_eqI)
  with assms show ?thesis
    by (simp add: cluster_RegisterCluster_def registerCluster_def GetClusterFromDB_def take_cluster_def registry_healthy_def Let_def)
qed

lemma soft_delete_find:
  "find_cluster k' (soft_delete_cluster k w) = (if k' = k then None else find_cluster k' w)"
proof -
  have "find (\<lambda>c. Cluster_ID c = k') (filter (\<lambda>c. Cluster_ID c \<noteq> k) cs) =
      (if k' = k then None else find (\<lambda>c. Cluster_ID c = k') cs)" for cs
    by (induction cs) auto
  from this [of "w_clusters w"] show ?thesis by (simp add: find_cluster_def soft_delete_cluster_def)
qed

text \<open>
  C28. The round trip of a registration. Registering a cluster under an identifier that is not in use
  succeeds: the cluster can be read back with the status of its kind, the other clusters are unchanged and
  the keys of the table stay distinct. A second registration fails and leaves the world as it is.
  Deregistering the cluster, with metrics and an infra-env service that report no error, succeeds and removes
  it, again without touching another cluster; and a later registration under its identifier succeeds, with a
  row that has inherited all API and ingress VIPs of the first one.
\<close>

theorem cluster_registration_roundtrip:
  assumes "wf_world w" and "registry_healthy w" and "find_cluster (Cluster_ID c) w = None"
    and "cluster_RegisterCluster kind c w = (e, c1, w1)" and "cluster_DeregisterCluster m c1 w1 = (e2, w2)"
    and "metrics_errors m c1 = []" and "cm_DeleteInfraEnv m (Cluster_ID c) = None"
    and "cluster_RegisterCluster kind' c' w2 = (e3, c3, w3)" and "Cluster_ID c' = Cluster_ID c"
    and "\<And>d. d \<in> set (w_deleted_clusters w) \<Longrightarrow> Cluster_ID d \<noteq> Cluster_ID c"
  shows "e = None \<and> e2 = None \<and> e3 = None \<and> wf_world w1 \<and>
    (\<exists>row. find_cluster (Cluster_ID c) w1 = Some row \<and> Cluster_Kind row = (case kind of None \<Rightarrow> ClusterKindCluster | Some k \<Rightarrow> k) \<and>
       Cluster_Status row = fst (getStatusByClusterKind (Cluster_Kind row)) \<and> Cluster_APIVips row = Cluster_APIVips c \<and>
       Cluster_IngressVips row = Cluster_IngressVips c) \<and>
    cluster_RegisterCluster kind c1 w1 = (Some ErrDB, registered_fields kind (w_now w1) c1, w1) \<and>
    find_cluster (Cluster_ID c) w2 = None \<and>
    (\<forall>k. k \<noteq> Cluster_ID c \<longrightarrow> find_cluster k w1 = find_cluster k w \<and> find_cluster k w2 = find_cluster k w) \<and>
    (\<exists>row. find_cluster (Cluster_ID c) w3 = Some row \<and>
       set (Cluster_APIVips row) = set (Cluster_APIVips c) \<union> set (Cluster_APIVips c') \<and>
       set (Cluster_IngressVips row) = set (Cluster_IngressVips c) \<union> set (Cluster_IngressVips c'))"
proof -
  let ?k = "Cluster_ID c" and ?c1 = "registered_fields kind (w_now w) c"
  let ?w0 = "w\<lparr>w_deleted_clusters := filter (\<lambda>d. Cluster_ID d \<noteq> ?k) (w_deleted_clusters w),
      w_clusters := w_clusters w @ [create_row w ?c1]\<rparr>"
  have "(e, c1, w1) = (None, ?c1, register_event ?c1 ?w0)"
    by (rule trans [OF assms(4) [symmetric] register_fresh [OF assms(2,3)]])
  then have r1: "e = None" "c1 = ?c1" "w1 = register_event ?c1 ?w0" by (simp_all only: prod.inject)
  have row1: "find_cluster k w1 = (if k = ?k then Some (create_row w ?c1) else find_cluster k w)" for k
  proof -
    have "find_cluster k ?w0 = find_cluster k (w\<lparr>w_clusters := w_clusters w @ [create_row w ?c1]\<rparr>)" by (simp add: find_cluster_def)
    with find_cluster_append [of k w "create_row w ?c1"] assms(3) show ?thesis by (auto simp: r1 split: option.splits)
  qed
  have wf1: "wf_world w1" using assms(1,3) by (simp add: r1 wf_world_def find_cluster_None)
  have "Cluster_Status ?c1 \<noteq> ClusterStatusInstalling"
    by (cases kind; cases "the kind") (simp_all add: registered_fields_def getStatusByClusterKind_def)
  with assms(2,5-7) have r2: "e2 = None" "w2 = send_event (ClusterDeregisteredEvent ?k) (soft_delete_cluster ?k w1)"
    by (auto simp: cluster_DeregisterCluster_def registrar_DeregisterCluster_def r1 registry_healthy_def)
  have h2: "registry_healthy w2" "find_cluster ?k w2 = None"
    using assms(2) by (simp_all add: r2 r1 soft_delete_find registry_healthy_def) (simp_all add: soft_delete_cluster_def)
  have none: "find (\<lambda>d. Cluster_ID d = ?k) (w_deleted_clusters w) = None"
    using assms(10) by (auto simp: find_None_iff)
  have vips: "Cluster_APIVips (create_row w ?c1) = Cluster_APIVips c" "Cluster_IngressVips (create_row w ?c1) = Cluster_IngressVips c"
    by (simp_all add: create_row_def leftover_def none registered_fields_def Let_def split: prod.splits)
  have del: "leftover Cluster_APIVips ?k w2 = Cluster_APIVips c" "leftover Cluster_IngressVips ?k w2 = Cluster_IngressVips c"
  proof -
    have "filter (\<lambda>d. Cluster_ID d = ?k) (w_clusters w1) = [create_row w ?c1]"
      using assms(3) by (auto simp: r1 find_cluster_None filter_empty_conv image_iff)
    moreover have "find (\<lambda>d. Cluster_ID d = ?k) (w_deleted_clusters w1 @ [without_records (create_row w ?c1)]) =
        Some (without_records (create_row w ?c1))"
      by (auto simp: r1 find_append without_records_def find_None_iff split: option.splits dest!: find_SomeD)
    ultimately show "leftover Cluster_APIVips ?k w2 = Cluster_APIVips c" "leftover Cluster_IngressVips ?k w2 = Cluster_IngressVips c"
      by (simp_all add: leftover_def r2 soft_delete_cluster_def send_event_def) (simp_all add: without_records_def vips)
  qed
  from register_fresh [of w2 c' kind'] h2 assms(8,9) have r3: "e3 = None"
    "find_cluster ?k w3 = Some (create_row w2 (registered_fields kind' (w_now w2) c'))"
    by (auto simp: find_cluster_def find_append split: option.splits)
  have v3: "set (Cluster_APIVips (create_row w2 (registered_fields kind' (w_now w2) c'))) = set (Cluster_APIVips c) \<union> set (Cluster_APIVips c')"
    "set (Cluster_IngressVips (create_row w2 (registered_fields kind' (w_now w2) c'))) =
       set (Cluster_IngressVips c) \<union> set (Cluster_IngressVips c')"
    using assms(9) by (auto simp: create_row_def del registered_fields_def Let_def split: prod.splits)
  have "Cluster_Kind ?c1 = (case kind of None \<Rightarrow> ClusterKindCluster | Some k \<Rightarrow> k)"
    "Cluster_Status ?c1 = fst (getStatusByClusterKind (Cluster_Kind ?c1))"
    by (simp_all add: registered_fields_def Let_def split: prod.splits option.splits)
  moreover have "cluster_RegisterCluster kind c1 w1 = (Some ErrDB, registered_fields kind (w_now w1) c1, w1)"
    by (rule register_twice) (use assms(2) row1 r1 in \<open>simp_all add: registry_healthy_def\<close>)
  ultimately show ?thesis
    using r1(1) r2(1) r3 row1 wf1 h2(2) vips v3 by (auto simp: r2 soft_delete_find)
qed

theorem cluster_registration_roundtrip_witness:
  "let w = (sample_store ClusterStatusReady HostStatusKnown)\<lparr>w_clusters := []\<rparr>;
       c = (demo_cluster ClusterStatusReady)\<lparr>Cluster_APIVips := [''10.0.0.2''], Cluster_IngressVips := [''10.0.0.3'']\<rparr>; c' = demo_cluster ClusterStatusReady;
       (e, c1, w1) = cluster_RegisterCluster (Some ClusterKindCluster) c w;
       (e2, w2) = cluster_DeregisterCluster sample_cluster_manager c1 w1;
       (e3, c3, w3) = cluster_RegisterCluster None c' w2
   in e = None \<and> e2 = None \<and> e3 = None \<and> find_cluster ''c'' w2 = None \<and>
      map_option (set \<circ> Cluster_APIVips) (find_cluster ''c'' w3) = Some {''10.0.0.2''} \<and>
      map_option (set \<circ> Cluster_IngressVips) (find_cluster ''c'' w3) = Some {''10.0.0.3''}"
proof -
  let ?w = "(sample_store ClusterStatusReady HostStatusKnown)\<lparr>w_clusters := []\<rparr>"
  let ?c = "(demo_cluster ClusterStatusReady)\<lparr>Cluster_APIVips := [''10.0.0.2''], Cluster_IngressVips := [''10.0.0.3'']\<rparr>"
  obtain e c1 w1 where r1: "cluster_RegisterCluster (Some ClusterKindCluster) ?c ?w = (e, c1, w1)" by (metis prod_cases3)
  obtain e2 w2 where r2: "cluster_DeregisterCluster sample_cluster_manager c1 w1 = (e2, w2)" by force
  obtain e3 c3 w3 where r3: "cluster_RegisterCluster None (demo_cluster ClusterStatusReady) w2 = (e3, c3, w3)" by (metis prod_cases3)
  have w: "wf_world ?w" "registry_healthy ?w" "find_cluster (Cluster_ID ?c) ?w = None"
    by (simp_all add: wf_world_def sample_store_def sample_cluster_world_def registry_healthy_def find_cluster_def sample_member_def)
  have "(e, c1, w1) = cluster_RegisterCluster (Some ClusterKindCluster) ?c ?w" using r1 by simp
  with register_fresh [OF w(2,3), of "Some ClusterKindCluster"] have "c1 = registered_fields (Some ClusterKindCluster) (w_now ?w) ?c"
    by (metis prod.inject)
  then have "metrics_errors sample_cluster_manager c1 = []"
    by (simp add: metrics_errors_def reportValidationFailedMetrics_def registered_fields_def getStatusByClusterKind_def
        demo_cluster_def zero_cluster_def map_filter_def)
  moreover have "cm_DeleteInfraEnv sample_cluster_manager (Cluster_ID ?c) = None" by (simp add: sample_cluster_manager_def)
  moreover have "Cluster_ID (demo_cluster ClusterStatusReady) = Cluster_ID ?c" by simp
  moreover have "d \<in> set (w_deleted_clusters ?w) \<Longrightarrow> Cluster_ID d \<noteq> Cluster_ID ?c" for d
    by (simp add: sample_store_def sample_cluster_world_def)
  ultimately have "e = None \<and> e2 = None \<and> e3 = None \<and> find_cluster (Cluster_ID ?c) w2 = None \<and>
      (\<exists>row. find_cluster (Cluster_ID ?c) w3 = Some row \<and>
         set (Cluster_APIVips row) = set (Cluster_APIVips ?c) \<union> set (Cluster_APIVips (demo_cluster ClusterStatusReady)) \<and>
         set (Cluster_IngressVips row) = set (Cluster_IngressVips ?c) \<union> set (Cluster_IngressVips (demo_cluster ClusterStatusReady)))"
    using cluster_registration_roundtrip [OF w r1 r2 _ _ r3] by blast
  moreover have "Cluster_ID ?c = ''c''" "Cluster_APIVips (demo_cluster ClusterStatusReady) = []"
    "Cluster_IngressVips (demo_cluster ClusterStatusReady) = []"
    by (simp_all add: demo_cluster_def zero_cluster_def)
  ultimately show ?thesis by (auto simp: r1 r2 r3)
qed

section \<open>Hosts that register again\<close>

text \<open>The row after the preparation has been marked as successful.\<close>

definition prepared :: "cluster \<Rightarrow> cluster" where
  "prepared r = r\<lparr>Cluster_PreparationStatus := LastInstallationPreparationStatusSuccess,
     Cluster_PreparationReason := InstallationPreparationReasonSuccess\<rparr>"

lemma HandlePreInstallSuccess_row:
  assumes "find_cluster (Cluster_ID c) w = Some r" and "cluster_healthy w"
  shows "find_cluster (Cluster_ID c) (HandlePreInstallSuccess c w) = Some (prepared r)"
    "w_hosts (HandlePreInstallSuccess c w) = w_hosts w" "w_now (HandlePreInstallSuccess c w) = w_now w"
    "w_dbfault (HandlePreInstallSuccess c w) = w_dbfault w"
proof -
  let ?f = "Cluster_PreparationReason_update (\<lambda>_. InstallationPreparationReasonSuccess) \<circ>
      Cluster_PreparationStatus_update (\<lambda>_. LastInstallationPreparationStatusSuccess)"
  have *: "HandlePreInstallSuccess c w = send_event (ClusterPrepareInstallationStartedEvent (Cluster_ID c))
      (update_clusters (\<lambda>x. Cluster_ID x = Cluster_ID c) ?f w)"
    using assms(2) by (simp add: HandlePreInstallSuccess_def update_by_id_def cluster_healthy_def comp_def)
  then show "w_hosts (HandlePreInstallSuccess c w) = w_hosts w" "w_now (HandlePreInstallSuccess c w) = w_now w"
    "w_dbfault (HandlePreInstallSuccess c w) = w_dbfault w" by simp_all
  have "find_cluster (Cluster_ID c) (update_clusters (\<lambda>x. Cluster_ID x = Cluster_ID c) ?f w) = Some (prepared r)"
    using find_cluster_SomeD [OF assms(1)] by (subst find_update_clusters) (simp_all add: assms(1) prepared_def)
  with * show "find_cluster (Cluster_ID c) (HandlePreInstallSuccess c w) = Some (prepared r)" by simp
qed

text \<open>
  C29. A cluster does not get stuck when a host registers again while the installation is prepared, which
  resets the state of the preparation: if the cluster has hosts and all of them are preparing-successful
  again, \<open>handleReRegisteredHostsDuringPreparation\<close> marks the preparation as successful and its refresh starts
  the installation, provided that the preparation has not timed out, that the statements of the store
  succeed and that the refresh finds its services ready.
\<close>

theorem reregistered_hosts_install:
  assumes "find_cluster k w = Some r" and "c = load_hosts w r" and "cluster_healthy w"
    and "Cluster_Status r = ClusterStatusPreparingForInstallation"
    and "Cluster_PreparationStatus r = LastInstallationPreparationStatusNotStarted"
    and "Cluster_Hosts c \<noteq> []" and "list_all (\<lambda>h. Host_Status h = HostStatusPreparingSuccessful) (Cluster_Hosts c)"
    and "Since (w_now w) (Cluster_StatusUpdatedAt r) \<le> PrepareForInstallationTimeout (cm_th m)"
    and "refreshable m (prepared r) (HandlePreInstallSuccess c w)"
    and "DoesObjectExist (cm_th m) (k @ ''/kubeconfig'') = Inr kubeconfig"
  shows "\<exists>c' w'. handleReRegisteredHostsDuringPreparation m c w = (None, c', w') \<and>
    map_option Cluster_Status (find_cluster k w') = Some ClusterStatusInstalling"
proof -
  let ?w1 = "HandlePreInstallSuccess c w" and ?c1 = "c\<lparr>Cluster_PreparationStatus := LastInstallationPreparationStatusSuccess,
     Cluster_PreparationReason := InstallationPreparationReasonSuccess\<rparr>"
  have k: "Cluster_ID r = k" "Cluster_ID c = k" using find_cluster_SomeD [OF assms(1)] assms(2) by simp_all
  from assms(1) k have row: "find_cluster (Cluster_ID c) w = Some r" by simp
  note w1 = HandlePreInstallSuccess_row [OF row assms(3)]
  have c1: "load_hosts ?w1 (prepared r) = ?c1"
    unfolding load_hosts_def prepared_def w1(2) by (simp add: assms(2) load_hosts_def)
  have get: "GetClusterFromDBWithHosts ?w1 k = Inr ?c1"
    using w1 assms(3) c1 k(2) by (auto simp: GetClusterFromDBWithHosts_Inr cluster_healthy_def)
  have ready: "services_ready (cm_th m) (newStateCluster ?c1 ?w1)" "validator_ready (cm_validator m) ?c1" "json_ready m ?c1"
    using assms(9) by (simp_all add: refreshable_def c1)
  from refreshInternal_total [OF ready, of kubeconfig] assms(10) k obtain conds out where
    pre: "cluster_preprocess (cm_validator m) (newClusterValidationContext ?c1 ?w1) = Inr (conds, out)"
    and ref: "refreshed ?c1 (cluster_refresh_spec (cm_th m) (newStateCluster ?c1 ?w1) conds kubeconfig)
      (cluster_refreshStatusInternal m ?c1 ?w1)" by auto
  let ?ctx = "newClusterValidationContext ?c1 ?w1"
  have st: "Cluster_Status ?c1 = ClusterStatusPreparingForInstallation" "Cluster_StatusUpdatedAt ?c1 = Cluster_StatusUpdatedAt r"
    using assms(2,4) by (simp_all add: load_hosts_def)
  have chk: "checked_status (Cluster_Status (cp_cluster ?ctx))"
    using st by (simp add: newClusterValidationContext_def checked_status_def checkValidationsInStatuses_def)
  have "cluster_refresh_spec (cm_th m) (newStateCluster ?c1 ?w1) conds kubeconfig = ClusterStatusInstalling"
    using st assms(7,8) w1(3)
    by (simp add: cluster_refresh_spec_def cluster_preinstall_statuses_def cluster_preparing_spec_def newStateCluster_def
        holds_def preprocess_condition [OF pre chk] areAllHostsPreparedSuccessfully_def isClusterPreparationSucceeded_def
        newClusterValidationContext_def since_def)
  with ref obtain c2 w2 where "cluster_refreshStatusInternal m ?c1 ?w1 = (Inr c2, w2)"
    "map_option Cluster_Status (find_cluster k w2) = Some ClusterStatusInstalling"
    using k(2) by (auto simp: refreshed_def split: prod.splits sum.splits)
  moreover have "Cluster_Status c = ClusterStatusPreparingForInstallation"
    "Cluster_PreparationStatus c = LastInstallationPreparationStatusNotStarted"
    using assms(2,4,5) by (simp_all add: load_hosts_def)
  ultimately show ?thesis
    using assms(6,7) get k(2) by (simp add: handleReRegisteredHostsDuringPreparation_def Let_def)
qed

definition sample_interrupted :: cluster where
  "sample_interrupted = (demo_cluster ClusterStatusPreparingForInstallation)\<lparr>
     Cluster_PreparationStatus := LastInstallationPreparationStatusNotStarted\<rparr>"

definition sample_interrupted_world :: world where
  "sample_interrupted_world = sample_cluster_world sample_interrupted [sample_member HostStatusPreparingSuccessful]"

lemma sample_interrupted_load:
  "load_hosts sample_interrupted_world sample_interrupted =
     sample_interrupted\<lparr>Cluster_Hosts := [sample_member HostStatusPreparingSuccessful]\<rparr>"
  by (simp add: load_hosts_def sample_interrupted_world_def sample_cluster_world_def sample_interrupted_def demo_cluster_def sample_member_def)

lemma sample_interrupted_refreshable:
  "refreshable sample_cluster_manager (prepared sample_interrupted)
     (HandlePreInstallSuccess (load_hosts sample_interrupted_world sample_interrupted) sample_interrupted_world)"
proof -
  let ?w = "sample_interrupted_world" and ?r = "prepared sample_interrupted"
  let ?c = "?r\<lparr>Cluster_Hosts := [sample_member HostStatusPreparingSuccessful]\<rparr>"
  let ?w1 = "HandlePreInstallSuccess (load_hosts sample_interrupted_world sample_interrupted) sample_interrupted_world"
  have id: "Cluster_ID sample_interrupted = ''c''" by (simp add: sample_interrupted_def demo_cluster_def)
  have row: "find_cluster (Cluster_ID (load_hosts ?w sample_interrupted)) ?w = Some sample_interrupted" "cluster_healthy ?w"
    by (simp_all add: sample_interrupted_load sample_interrupted_world_def find_cluster_def sample_cluster_world_def cluster_healthy_def)
  note w1 = HandlePreInstallSuccess_row [OF row]
  have wf: "wf_world ?w1" "w_clusters ?w1 = [?r]"
    using row(2) by (simp_all add: HandlePreInstallSuccess_def update_by_id_def wf_world_def sample_interrupted_load cluster_healthy_def
        update_clusters_def change_rows_def id sample_interrupted_world_def sample_cluster_world_def sample_member_def zero_host_def prepared_def)
  have hosts: "w_hosts w' = w_hosts ?w \<Longrightarrow> load_hosts w' ?r = ?c" for w'
    by (simp add: load_hosts_def sample_interrupted_world_def sample_cluster_world_def prepared_def sample_interrupted_def
        demo_cluster_def sample_member_def)
  have load: "load_hosts ?w1 ?r = ?c" by (rule hosts [OF w1(2)])
  have fault: "w_dbfault ?w1 = (\<lambda>_. False)" and found: "find_cluster ''c'' ?w1 = Some ?r"
    using w1 by (simp_all add: sample_interrupted_world_def sample_cluster_world_def sample_interrupted_load id)
  have "services_ready sample_cluster_handler (newStateCluster ?c ?w1)"
    using wf(1) fault found
    by (simp add: services_ready_def store_ready_def ocm_ready_def node_address_def texts_fit_def newStateCluster_def
        sample_cluster_handler_def cluster_healthy_def cluster_stored_def prepared_def sample_interrupted_def
        demo_cluster_def zero_cluster_def sample_member_def zero_host_def int64_range_def Hour_def
        Minute_def Second_def createClusterCompletionStatusInfo_def countOperatorsInAllStatuses_def operators_in_def
        cluster_StatusInfoNotAllWorkersInstalled_def cluster_statusInfoInstalled_def varchar_max_def
        split: prod.splits)
  moreover have "validator_ready sample_cluster_validator ?c"
  proof -
    from sample_refreshable have "validator_ready sample_cluster_validator
        (sample_loaded ClusterStatusPreparingForInstallation HostStatusPreparingSuccessful)"
      by (simp add: refreshable_def sample_load)
    then show ?thesis
      by (simp add: validator_ready_def sample_loaded_def prepared_def sample_interrupted_def sample_cluster_validator_def
          demo_cluster_def)
  qed
  moreover have "json_ready sample_cluster_manager ?c"
    by (simp add: json_ready_def cluster_GetValidations_def sample_cluster_manager_def prepared_def sample_interrupted_def
        demo_cluster_def zero_cluster_def)
  moreover have "Cluster_ID ?r = ''c''" by (simp add: prepared_def id)
  ultimately show ?thesis using found by (simp add: refreshable_def load)
qed

theorem reregistered_hosts_install_witness:
  "\<exists>c w'. handleReRegisteredHostsDuringPreparation sample_cluster_manager
      (load_hosts sample_interrupted_world sample_interrupted) sample_interrupted_world = (None, c, w') \<and>
    map_option Cluster_Status (find_cluster ''c'' w') = Some ClusterStatusInstalling"
proof -
  let ?w = "sample_interrupted_world" and ?r = "sample_interrupted"
  have "find_cluster ''c'' ?w = Some ?r" "cluster_healthy ?w"
    by (simp_all add: sample_interrupted_world_def find_cluster_def sample_cluster_world_def sample_interrupted_def demo_cluster_def
        cluster_healthy_def)
  moreover have "Cluster_Status ?r = ClusterStatusPreparingForInstallation"
    "Cluster_PreparationStatus ?r = LastInstallationPreparationStatusNotStarted"
    by (simp_all add: sample_interrupted_def demo_cluster_def)
  moreover have "Cluster_Hosts (load_hosts ?w ?r) \<noteq> []"
    "list_all (\<lambda>h. Host_Status h = HostStatusPreparingSuccessful) (Cluster_Hosts (load_hosts ?w ?r))"
    by (simp_all add: sample_interrupted_load sample_member_def)
  moreover have "Since (w_now ?w) (Cluster_StatusUpdatedAt ?r) \<le> PrepareForInstallationTimeout (cm_th sample_cluster_manager)"
    by (simp add: sample_interrupted_world_def sample_cluster_world_def sample_interrupted_def demo_cluster_def zero_cluster_def
        sample_cluster_handler_def Since_def min_duration_def max_duration_def Minute_def Second_def)
  moreover have "DoesObjectExist (cm_th sample_cluster_manager) (''c'' @ ''/kubeconfig'') = Inr True"
    by (simp add: sample_cluster_handler_def)
  ultimately show ?thesis
    by (intro reregistered_hosts_install [OF _ refl]) (auto intro: sample_interrupted_refreshable)
qed

end
