(* ===== verification/Cluster_Monitor.thy ===== *)
theory Cluster_Monitor
  imports Monitor_Query Cluster_Lifecycle
begin

text \<open>
  The monitor of clusters, \<open>ClusterMonitoring\<close> of \<open>internal/cluster/cluster.go\<close>: the leader walks over the
  clusters of a query, refreshes each of them under a deadline, puts those that exceed it on a blacklist and
  ends the cycle early, with a cursor for the next one, when the cycle takes too long. Leader election and the
  duration of a refresh are parameters, and so are the assignment of machine networks, the connectivity
  groups and the detection of colliding addresses, which compute with networks. The clock moves while a
  cluster is refreshed; a context that expires is seen where the code asks for it. Internal events are kept
  apart from the events of the store. Metrics are not modelled.
\<close>

section \<open>State\<close>

datatype monitor_event =
    CycleDeadlineExceeded
  | ClusterDeadlineExceeded uuid
  | ApiIngressVipTimedOutEvent uuid int

text \<open>The fields of the manager that only the monitor uses.\<close>

record cluster_monitor =
  blacklistedClusters :: "uuid \<rightharpoonup> time"
  resumeAfterClusterID :: "uuid option"
  prevMonitorInvokedAt :: time
  monitorQueryGenerator :: "query_generator option"
  monitor_events :: "monitor_event list"

record monitor_config =
  MonitorBatchSize :: int
  MonitorPerClusterDeadline :: duration
  MonitorBlacklistDuration :: duration
  MonitorCycleDeadline :: duration

text \<open>\<open>refreshDuration\<close> is the time that the processing of a cluster takes.\<close>

record monitor_env =
  IsLeader :: "world \<Rightarrow> bool"
  autoAssignMachineNetworkCidr :: "cluster \<Rightarrow> world \<Rightarrow> cluster \<times> world"
  setConnectivityMajorityGroups :: "cluster \<Rightarrow> world \<Rightarrow> cluster \<times> world"
  detectAndStoreCollidingIPs :: "cluster \<Rightarrow> world \<Rightarrow> cluster \<times> world"
  refreshDuration :: "cluster \<Rightarrow> world \<Rightarrow> duration"

text \<open>
  \<open>monitoringCycle\<close>, with the monitor and the store. \<open>cy_processed\<close> records, for the statements below, the
  clusters that the cycle has processed.
\<close>

record monitoring_cycle =
  cy_world :: world
  cy_monitor :: cluster_monitor
  cy_startTime :: time
  cy_deadline :: time
  cy_skipUntilAfterCursor :: bool
  cy_lastProcessedClusterID :: "uuid option"
  cy_processed :: "uuid list"

section \<open>The blacklist\<close>

definition isClusterBlacklisted :: "uuid \<Rightarrow> time \<Rightarrow> cluster_monitor \<Rightarrow> bool \<times> cluster_monitor" where
  "isClusterBlacklisted i now mon =
     (case blacklistedClusters mon i of
        None \<Rightarrow> (False, mon)
      | Some expiry \<Rightarrow>
          if now > expiry then (False, mon\<lparr>blacklistedClusters := (blacklistedClusters mon)(i := None)\<rparr>)
          else (True, mon))"

definition blacklistCluster :: "monitor_config \<Rightarrow> uuid \<Rightarrow> time \<Rightarrow> cluster_monitor \<Rightarrow> cluster_monitor" where
  "blacklistCluster cfg i now mon =
     mon\<lparr>blacklistedClusters := (blacklistedClusters mon)(i \<mapsto> now + MonitorBlacklistDuration cfg)\<rparr>"

definition syncBlacklistStateAndMetrics :: "time \<Rightarrow> cluster_monitor \<Rightarrow> cluster_monitor" where
  "syncBlacklistStateAndMetrics now mon =
     mon\<lparr>blacklistedClusters :=
       (\<lambda>i. case blacklistedClusters mon i of None \<Rightarrow> None | Some expiry \<Rightarrow> if now > expiry then None else Some expiry)\<rparr>"

section \<open>One cluster\<close>

definition SkipMonitoring :: "cluster \<Rightarrow> bool" where
  "SkipMonitoring c \<longleftrightarrow>
     (Cluster_Status c = ClusterStatusError \<or> Cluster_Status c = ClusterStatusCancelled) \<and>
     List.member [LogsStateCompleted, LogsStateTimeout] (Cluster_LogsInfo c)"

definition shouldTriggerLeaseTimeoutEvent :: "cluster_monitor \<Rightarrow> cluster \<Rightarrow> time \<Rightarrow> bool" where
  "shouldTriggerLeaseTimeoutEvent mon c curMonitorInvokedAt \<longleftrightarrow>
     \<not> List.member [ClusterStatusInstalled, ClusterStatusError, ClusterStatusCancelled] (Cluster_Status c) \<and>
     (let timeToCompare = Cluster_MachineNetworkCidrUpdatedAt c + DhcpLeaseTimeoutMinutes * Minute in
      Cluster_VipDhcpAllocation c \<and> (GetApiVipById0 c = '''' \<or> GetIngressVipById0 c = '''') \<and>
      IsMachineCidrAvailable c \<and> prevMonitorInvokedAt mon \<le> timeToCompare \<and> curMonitorInvokedAt > timeToCompare)"

definition internal_event :: "monitor_event \<Rightarrow> cluster_monitor \<Rightarrow> cluster_monitor" where
  "internal_event e mon = mon\<lparr>monitor_events := monitor_events mon @ [e]\<rparr>"

definition triggerLeaseTimeoutEvent :: "cluster \<Rightarrow> cluster_monitor \<Rightarrow> cluster_monitor" where
  "triggerLeaseTimeoutEvent c mon = internal_event (ApiIngressVipTimedOutEvent (Cluster_ID c) DhcpLeaseTimeoutMinutes) mon"

text \<open>
  \<open>processClusterMonitoring\<close>; \<open>deadline\<close> is that of the context of the cluster. The refresh leaves the new
  status in the cluster that it was given. Errors after the refresh are logged only.
\<close>

definition processClusterMonitoring ::
  "monitor_env \<Rightarrow> cluster_manager \<Rightarrow> time \<Rightarrow> time \<Rightarrow> cluster \<Rightarrow> cluster_monitor \<Rightarrow> world \<Rightarrow>
   go_error option \<times> cluster_monitor \<times> world" where
  "processClusterMonitoring env m deadline curMonitorInvokedAt c0 mon w0 =
     (if w_now w0 \<ge> deadline then (Some ErrCtx, mon, w0)
      else
        let (c1, w1) = autoAssignMachineNetworkCidr env c0 w0;
            (c2, w2) = setConnectivityMajorityGroups env c1 w1;
            (c3, w3) = detectAndStoreCollidingIPs env c2 w2;
            (r, w4) = cluster_refreshStatusInternal m c3 w3;
            w5 = w4\<lparr>w_now := w_now w4 + refreshDuration env c0 w0\<rparr>
        in if w_now w5 \<ge> deadline then (Some ErrCtx, mon, w5)
           else (case r of
                   Inl err \<Rightarrow> (Some err, mon, w5)
                 | Inr clusterAfterRefresh \<Rightarrow>
                     (case handleReRegisteredHostsDuringPreparation m clusterAfterRefresh w5 of (_, _, w6) \<Rightarrow>
                        let c = c3\<lparr>Cluster_Status := Cluster_Status clusterAfterRefresh\<rparr>;
                            mon1 = (if shouldTriggerLeaseTimeoutEvent mon c curMonitorInvokedAt
                                    then triggerLeaseTimeoutEvent c mon else mon)
                        in (None, mon1, snd (RefreshSchedulableMastersForcedTrue c w6)))))"

section \<open>The cycle\<close>

text \<open>The condition of \<open>initMonitorQueryGenerator\<close>.\<close>

definition monitored :: initial_query where
  "monitored w c \<longleftrightarrow> \<not> List.member [ClusterStatusInstalled, ClusterStatusUnmonitored] (Cluster_Status c)"

definition initMonitorQueryGenerator :: "monitor_config \<Rightarrow> cluster_monitor \<Rightarrow> cluster_monitor" where
  "initMonitorQueryGenerator cfg mon =
     (case monitorQueryGenerator mon of
        None \<Rightarrow> mon\<lparr>monitorQueryGenerator := Some (NewMonitorQueryGenerator (MonitorBatchSize cfg))\<rparr>
      | Some _ \<Rightarrow> mon)"

definition initMonitoringCycle ::
  "monitor_config \<Rightarrow> cluster_monitor \<Rightarrow> world \<Rightarrow> monitor_query \<times> monitoring_cycle" where
  "initMonitoringCycle cfg mon0 w =
     (let mon = initMonitorQueryGenerator cfg (syncBlacklistStateAndMetrics (w_now w) mon0);
          (query, g) = NewClusterQuery (w_now w) (the (monitorQueryGenerator mon))
      in (query,
          \<lparr>cy_world = w, cy_monitor = mon\<lparr>monitorQueryGenerator := Some g\<rparr>, cy_startTime = w_now w,
           cy_deadline = w_now w + MonitorCycleDeadline cfg,
           cy_skipUntilAfterCursor = (resumeAfterClusterID mon \<noteq> None),
           cy_lastProcessedClusterID = None, cy_processed = []\<rparr>))"

text \<open>The two results of \<open>validateClusterForProcessing\<close>, \<open>shouldSkip\<close> and \<open>shouldReturn\<close>.\<close>

definition validateClusterForProcessing ::
  "monitor_env \<Rightarrow> cluster \<Rightarrow> monitoring_cycle \<Rightarrow> (bool \<times> bool) \<times> monitoring_cycle" where
  "validateClusterForProcessing env c cy =
     (let mon = cy_monitor cy; w = cy_world cy in
      if cy_skipUntilAfterCursor cy \<and> resumeAfterClusterID mon \<noteq> None
      then if resumeAfterClusterID mon = Some (Cluster_ID c)
           then ((True, False), cy\<lparr>cy_skipUntilAfterCursor := False\<rparr>)
           else ((True, False), cy)
      else if w_now w \<ge> cy_deadline cy
      then ((True, True), cy\<lparr>cy_monitor := (internal_event CycleDeadlineExceeded mon)\<lparr>
              resumeAfterClusterID := cy_lastProcessedClusterID cy\<rparr>\<rparr>)
      else if \<not> IsLeader env w then ((True, True), cy)
      else (case isClusterBlacklisted (Cluster_ID c) (w_now w) mon of
              (True, mon1) \<Rightarrow> ((True, False), cy\<lparr>cy_monitor := mon1\<rparr>)
            | (False, mon1) \<Rightarrow> ((SkipMonitoring c, False), cy\<lparr>cy_monitor := mon1\<rparr>)))"

text \<open>One turn of the inner loop for a cluster that is processed.\<close>

definition monitor_cluster ::
  "monitor_env \<Rightarrow> monitor_config \<Rightarrow> cluster_manager \<Rightarrow> cluster \<Rightarrow> monitoring_cycle \<Rightarrow> monitoring_cycle" where
  "monitor_cluster env cfg m c cy =
     (let deadline = min (cy_deadline cy) (w_now (cy_world cy) + MonitorPerClusterDeadline cfg);
          (_, mon1, w1) = processClusterMonitoring env m deadline (cy_startTime cy) c (cy_monitor cy) (cy_world cy);
          mon2 = (if w_now w1 \<ge> deadline
                  then internal_event (ClusterDeadlineExceeded (Cluster_ID c))
                         (blacklistCluster cfg (Cluster_ID c) (w_now w1) mon1)
                  else mon1)
      in cy\<lparr>cy_world := w1, cy_monitor := mon2, cy_lastProcessedClusterID := Some (Cluster_ID c),
            cy_processed := cy_processed cy @ [Cluster_ID c]\<rparr>)"

text \<open>The inner loop; the first result says that the cycle ends.\<close>

fun monitor_batch ::
  "monitor_env \<Rightarrow> monitor_config \<Rightarrow> cluster_manager \<Rightarrow> cluster list \<Rightarrow> monitoring_cycle \<Rightarrow> bool \<times> monitoring_cycle" where
  "monitor_batch env cfg m [] cy = (False, cy)"
| "monitor_batch env cfg m (c # cs) cy =
     (case validateClusterForProcessing env c cy of
        ((shouldSkip, shouldReturn), cy1) \<Rightarrow>
          if shouldReturn then (True, cy1)
          else if shouldSkip then monitor_batch env cfg m cs cy1
          else monitor_batch env cfg m cs (monitor_cluster env cfg m c cy1))"

partial_function (option) monitor_loop ::
  "monitor_env \<Rightarrow> monitor_config \<Rightarrow> cluster_manager \<Rightarrow> monitor_query \<Rightarrow> monitoring_cycle \<Rightarrow> monitoring_cycle option" where
  "monitor_loop env cfg m q cy =
     Option.bind (MonitorQuery_Next monitored (cy_world cy) q) (\<lambda>(r, q1). case r of
         Inl err \<Rightarrow> Some cy
       | Inr clusters \<Rightarrow>
           if clusters = [] then Some (cy\<lparr>cy_monitor := (cy_monitor cy)\<lparr>resumeAfterClusterID := None\<rparr>\<rparr>)
           else (case monitor_batch env cfg m clusters cy of
                   (ended, cy1) \<Rightarrow> if ended then Some cy1 else monitor_loop env cfg m q1 cy1))"

definition ClusterMonitoring ::
  "monitor_env \<Rightarrow> monitor_config \<Rightarrow> cluster_manager \<Rightarrow> cluster_monitor \<Rightarrow> world \<Rightarrow>
   (cluster_monitor \<times> world \<times> uuid list) option" where
  "ClusterMonitoring env cfg m mon w =
     (if \<not> IsLeader env w then Some (mon, w, [])
      else case initMonitoringCycle cfg mon w of (query, cy) \<Rightarrow>
        map_option (\<lambda>cy1. ((cy_monitor cy1)\<lparr>prevMonitorInvokedAt := cy_startTime cy\<rparr>, cy_world cy1, cy_processed cy1))
          (monitor_loop env cfg m query cy))"

section \<open>What processing keeps\<close>

context cluster_frame
begin

lemma report_frame: "I k w \<Longrightarrow> I k (cluster_reportValidationStatusChanged c new cur w)"
proof -
  have change: "I k w \<Longrightarrow> I k (cluster_report_change c cur cat r w)" for cat r w
    by (simp add: cluster_report_change_def Let_def event split: option.splits)
  have "I k w \<Longrightarrow> I k (fold (cluster_report_change c cur cat) rs w)" for cat rs w
    by (induction rs arbitrary: w) (simp_all add: change)
  then have "I k w \<Longrightarrow> I k (fold (\<lambda>(cat, rs). fold (cluster_report_change c cur cat) rs) new w)" for w
    by (induction new arbitrary: w) auto
  then show "I k w \<Longrightarrow> I k (cluster_reportValidationStatusChanged c new cur w)"
    by (simp add: cluster_reportValidationStatusChanged_def)
qed

lemma validations_frame: "I (Cluster_ID c) w \<Longrightarrow> I (Cluster_ID c) (snd (cluster_updateValidationsInDB m c new w))"
  by (simp add: cluster_updateValidationsInDB_def update split: sum.splits)

lemma refresh_frame: "I (Cluster_ID c) w \<Longrightarrow> I (Cluster_ID c) (snd (cluster_refreshStatusInternal m c w))"
proof -
  assume w: "I (Cluster_ID c) w"
  have "I (Cluster_ID c) w \<Longrightarrow> I (Cluster_ID c) (snd (snd (run_cluster_sm m t args c w)))" for t args w
    using run [of c w "cm_th m" t args] by (simp add: run_cluster_sm_def split_beta)
  note runs = this
  have "I (Cluster_ID c) (snd (cluster_updateValidationsInDB m c new (cluster_reportValidationStatusChanged c new cur w)))" for new cur
    by (intro validations_frame report_frame w)
  with w runs show ?thesis
    unfolding cluster_refreshStatusInternal_def by (auto split: sum.splits prod.splits option.splits if_splits) (metis snd_conv)+
qed

lemma prepare_frame: "I (Cluster_ID c) w \<Longrightarrow> I (Cluster_ID c) (HandlePreInstallSuccess c w)"
  using by_id [of "Cluster_ID c" w] by (auto simp: HandlePreInstallSuccess_def event split: prod.splits sum.splits) (metis snd_conv event)+

lemma reregistered_frame: "I (Cluster_ID c) w \<Longrightarrow> I (Cluster_ID c) (snd (snd (handleReRegisteredHostsDuringPreparation m c w)))"
proof -
  assume w: "I (Cluster_ID c) w"
  have loaded: "Cluster_ID c1 = k" if "GetClusterFromDBWithHosts w1 k = Inr c1" for k c1 and w1 :: world
    using that find_cluster_SomeD [of k w1] by (auto simp: GetClusterFromDBWithHosts_Inr)
  have "I (Cluster_ID c1) (snd (snd (case GetClusterFromDBWithHosts (HandlePreInstallSuccess c1 w) (Cluster_ID c1) of
        Inl err \<Rightarrow> (Some (ErrWrapf ''failed to reload cluster'' err), c1, HandlePreInstallSuccess c1 w)
      | Inr c2 \<Rightarrow> (case cluster_refreshStatusInternal m c2 (HandlePreInstallSuccess c1 w) of
            (Inl err, w2) \<Rightarrow> (Some err, c2, w2) | (Inr c3, w2) \<Rightarrow> (None, c3, w2)))))"
    if c1: "Cluster_ID c1 = Cluster_ID c" for c1
  proof -
    have w1: "I (Cluster_ID c1) (HandlePreInstallSuccess c1 w)" using prepare_frame [of c1 w] w c1 by simp
    have "I (Cluster_ID c1) (snd (cluster_refreshStatusInternal m c2 (HandlePreInstallSuccess c1 w)))"
      if "GetClusterFromDBWithHosts (HandlePreInstallSuccess c1 w) (Cluster_ID c1) = Inr c2" for c2
      using refresh_frame [of c2 "HandlePreInstallSuccess c1 w" m] w1 loaded [OF that] by simp
    with w1 show ?thesis by (auto split: sum.splits prod.splits)
  qed
  note again = this
  show ?thesis
    unfolding handleReRegisteredHostsDuringPreparation_def Let_def
    using w again loaded by (auto split: sum.splits if_splits simp: split_beta)
qed

lemma schedulable_frame: "I (Cluster_ID c) w \<Longrightarrow> I (Cluster_ID c) (snd (RefreshSchedulableMastersForcedTrue c w))"
  using by_id [of "Cluster_ID c" w]
  by (simp add: RefreshSchedulableMastersForcedTrue_def updateSchedulableMastersForcedTrue_def Let_def split: prod.splits) (metis snd_conv)

end
text \<open>Clock, faults and the identifiers of the table of clusters are those of another store.\<close>

definition steady :: "world \<Rightarrow> world \<Rightarrow> bool" where
  "steady w0 w \<longleftrightarrow> w_now w = w_now w0 \<and> w_dbfault w = w_dbfault w0 \<and>
     map Cluster_ID (w_clusters w) = map Cluster_ID (w_clusters w0)"

lemma steady_update_clusters:
  assumes "\<And>c. Cluster_ID (f c) = Cluster_ID c"
  shows "steady w0 (update_clusters P f w) = steady w0 w"
proof -
  have "map Cluster_ID (change_rows P f cs) = map Cluster_ID cs" for cs
    by (simp add: change_rows_def assms)
  then show ?thesis by (simp add: steady_def update_clusters_def)
qed

interpretation steady: cluster_frame "\<lambda>_. steady w0" for w0
proof unfold_locales
  fix k s extra w assume w: "steady w0 w"
  show "steady w0 (snd (UpdateCluster k s extra w))"
  proof (rule UpdateCluster_snd_cases [of k s extra w])
    fix f assume f: "cluster_assignment extra = Some f"
      and t: "w_clusters (snd (UpdateCluster k s extra w)) = w_clusters (update_clusters (cluster_guard k s) f w)"
        "w_now (snd (UpdateCluster k s extra w)) = w_now w" "w_dbfault (snd (UpdateCluster k s extra w)) = w_dbfault w"
    have "steady w0 (update_clusters (cluster_guard k s) f w)"
      using w steady_update_clusters [of f w0 "cluster_guard k s" w] cluster_assignment_key [OF f] by simp
    with t w show ?thesis by (simp add: steady_def)
  qed (use w in simp)
next
  fix k ups w assume w: "steady w0 w"
  show "steady w0 (snd (update_by_id k ups w))"
    by (rule update_by_id_cases [of k ups w]) (use w steady_update_clusters assign_each_id in auto)
next
  show "steady w0 (snd (ResetPendingUserAction m h w))" if "steady w0 w" for w m h
    using that by (simp add: steady_def ResetPendingUserAction_env ResetPendingUserAction_clusters)
  show "steady w0 (send_event e w)" if "steady w0 w" for e w using that by (simp add: steady_def)
  show "steady w0 (rollback w w1)" if "steady w0 w" "steady w0 w1" for w w1 using that by (simp add: steady_def)
qed (simp_all add: steady_update_clusters)

text \<open>What is assumed of the operations on networks.\<close>

definition env_ok :: "monitor_env \<Rightarrow> bool" where
  "env_ok env \<longleftrightarrow> (\<forall>c w. \<forall>f \<in> {autoAssignMachineNetworkCidr env, setConnectivityMajorityGroups env, detectAndStoreCollidingIPs env}.
     steady w (snd (f c w)))"

definition at_time :: "time \<Rightarrow> world \<Rightarrow> world" where
  "at_time t w = w\<lparr>w_now := t\<rparr>"

lemma steady_at_time: "steady w0 w \<Longrightarrow> steady (at_time t w0) (w\<lparr>w_now := t\<rparr>)"
  by (simp add: steady_def at_time_def)

lemma process_frame:
  assumes "env_ok env" and "processClusterMonitoring env m deadline cur c mon w = (e, mon1, w1)"
  shows "steady (at_time (if w_now w \<ge> deadline then w_now w else w_now w + refreshDuration env c w) w) w1"
    and "blacklistedClusters mon1 = blacklistedClusters mon" and "resumeAfterClusterID mon1 = resumeAfterClusterID mon"
proof -
  obtain c1 wa where a: "autoAssignMachineNetworkCidr env c w = (c1, wa)" by force
  obtain c2 wb where b: "setConnectivityMajorityGroups env c1 wa = (c2, wb)" by force
  obtain c3 wc where c: "detectAndStoreCollidingIPs env c2 wb = (c3, wc)" by force
  obtain r wd where d: "cluster_refreshStatusInternal m c3 wc = (r, wd)" by force
  let ?t = "w_now w + refreshDuration env c w" and ?we = "wd\<lparr>w_now := w_now wd + refreshDuration env c w\<rparr>"
  have keeps: "steady w (snd (f c w))"
    if "f \<in> {autoAssignMachineNetworkCidr env, setConnectivityMajorityGroups env, detectAndStoreCollidingIPs env}" for f c w
    using assms(1) that unfolding env_ok_def by blast
  have "steady w wa" "steady wa wb" "steady wb wc"
    using keeps [of "autoAssignMachineNetworkCidr env" w c] keeps [of "setConnectivityMajorityGroups env" wa c1]
      keeps [of "detectAndStoreCollidingIPs env" wb c2] by (simp_all add: a b c)
  then have "steady w wc" by (simp add: steady_def)
  with d have wd: "steady w wd" using steady.refresh_frame [of w wc m c3] by simp
  then have now: "w_now ?we = ?t" and we: "steady (at_time ?t w) ?we" by (simp_all add: steady_def at_time_def)
  have rest: "steady (at_time ?t w) (snd (RefreshSchedulableMastersForcedTrue y (snd (snd (handleReRegisteredHostsDuringPreparation m x ?we)))))"
    for x y by (intro steady.schedulable_frame steady.reregistered_frame we)
  note parts = assms(2) [unfolded processClusterMonitoring_def a b c d Let_def prod.case]
  show "steady (at_time (if w_now w \<ge> deadline then w_now w else ?t) w) w1"
  proof (cases "w_now w \<ge> deadline")
    case True
    with parts show ?thesis by (simp add: steady_def at_time_def)
  next
    case False
    with parts we rest show ?thesis by (auto simp: split_beta split: if_splits sum.splits)
  qed
  show "blacklistedClusters mon1 = blacklistedClusters mon" "resumeAfterClusterID mon1 = resumeAfterClusterID mon"
    using parts by (auto simp: triggerLeaseTimeoutEvent_def internal_event_def split: if_splits sum.splits prod.splits)
qed

section \<open>Deadlines\<close>

text \<open>
  C32. Deadlines and the blacklist: a cluster whose processing is not over before its own deadline, or before
  the deadline of the cycle, is put on the blacklist from then on for the configured duration, and no other
  entry changes; a later cycle that examines the cluster skips it up to the end of this time and not longer.
  So a cluster that stays within its own deadline is also put on the blacklist when the cycle ends under it.
\<close>

theorem deadline_blacklists:
  assumes "env_ok env" and "w_now (cy_world cy) < cy_deadline cy" and "0 < MonitorPerClusterDeadline cfg"
    and "fin = w_now (cy_world cy) + refreshDuration env c (cy_world cy)"
    and "over \<longleftrightarrow> min (cy_deadline cy) (w_now (cy_world cy) + MonitorPerClusterDeadline cfg) \<le> fin"
    and "cy1 = monitor_cluster env cfg m c cy"
  shows "w_now (cy_world cy1) = fin \<and>
    blacklistedClusters (cy_monitor cy1) = (if over
       then (blacklistedClusters (cy_monitor cy))(Cluster_ID c \<mapsto> fin + MonitorBlacklistDuration cfg)
       else blacklistedClusters (cy_monitor cy)) \<and>
    (\<forall>c' cy2. over \<and> Cluster_ID c' = Cluster_ID c \<and>
       blacklistedClusters (cy_monitor cy2) (Cluster_ID c) = blacklistedClusters (cy_monitor cy1) (Cluster_ID c) \<and>
       \<not> cy_skipUntilAfterCursor cy2 \<and> w_now (cy_world cy2) < cy_deadline cy2 \<and> IsLeader env (cy_world cy2) \<longrightarrow>
       fst (validateClusterForProcessing env c' cy2) =
         (w_now (cy_world cy2) \<le> fin + MonitorBlacklistDuration cfg \<or> SkipMonitoring c', False))"
proof -
  let ?d = "min (cy_deadline cy) (w_now (cy_world cy) + MonitorPerClusterDeadline cfg)"
  obtain e mon1 w1 where p: "processClusterMonitoring env m ?d (cy_startTime cy) c (cy_monitor cy) (cy_world cy) = (e, mon1, w1)"
    by (metis prod_cases3)
  have "\<not> w_now (cy_world cy) \<ge> ?d" using assms(2,3) by simp
  with process_frame(1) [OF assms(1) p] have now: "w_now w1 = fin" by (simp add: steady_def at_time_def assms(4))
  have bl: "blacklistedClusters (cy_monitor cy1) = (if over
       then (blacklistedClusters (cy_monitor cy))(Cluster_ID c \<mapsto> fin + MonitorBlacklistDuration cfg)
       else blacklistedClusters (cy_monitor cy))" and w1: "cy_world cy1 = w1"
    using process_frame(2) [OF assms(1) p] now assms(5,6)
    by (auto simp: monitor_cluster_def p Let_def internal_event_def blacklistCluster_def)
  show ?thesis
    using bl now w1 by (auto simp: validateClusterForProcessing_def isClusterBlacklisted_def Let_def)
qed

definition sample_env :: monitor_env where
  "sample_env = \<lparr>IsLeader = (\<lambda>_. True), autoAssignMachineNetworkCidr = Pair, setConnectivityMajorityGroups = Pair,
     detectAndStoreCollidingIPs = Pair, refreshDuration = (\<lambda>_ _. Minute)\<rparr>"

definition sample_config :: monitor_config where
  "sample_config = \<lparr>MonitorBatchSize = 1, MonitorPerClusterDeadline = 2 * Minute,
     MonitorBlacklistDuration = 15 * Minute, MonitorCycleDeadline = 4 * Minute\<rparr>"

definition sample_monitor :: cluster_monitor where
  "sample_monitor = \<lparr>blacklistedClusters = Map.empty, resumeAfterClusterID = None, prevMonitorInvokedAt = 0,
     monitorQueryGenerator = None, monitor_events = []\<rparr>"

lemma sample_env_ok: "env_ok sample_env"
  by (simp add: env_ok_def sample_env_def steady_def)

text \<open>One minute is within the two minutes of the cluster, but the cycle ends meanwhile.\<close>

theorem deadline_blacklists_witness:
  "let c = sample_loaded ClusterStatusReady HostStatusKnown;
       cy = \<lparr>cy_world = sample_store ClusterStatusReady HostStatusKnown, cy_monitor = sample_monitor, cy_startTime = 0,
             cy_deadline = Minute, cy_skipUntilAfterCursor = False, cy_lastProcessedClusterID = None, cy_processed = []\<rparr>
   in refreshDuration sample_env c (cy_world cy) < MonitorPerClusterDeadline sample_config \<and>
      blacklistedClusters (cy_monitor (monitor_cluster sample_env sample_config sample_cluster_manager c cy)) ''c'' = Some (16 * Minute)"
proof -
  let ?c = "sample_loaded ClusterStatusReady HostStatusKnown"
  let ?cy = "\<lparr>cy_world = sample_store ClusterStatusReady HostStatusKnown, cy_monitor = sample_monitor, cy_startTime = 0,
      cy_deadline = Minute, cy_skipUntilAfterCursor = False, cy_lastProcessedClusterID = None, cy_processed = []\<rparr>"
  have now: "w_now (cy_world ?cy) = 0" "Cluster_ID ?c = ''c''" by (simp_all add: sample_loaded_facts sample_loaded_def demo_cluster_def)
  have m: "0 < Minute" by (simp add: Minute_def Second_def)
  from deadline_blacklists [OF sample_env_ok, of ?cy sample_config _ ?c _ _ sample_cluster_manager, OF _ _ refl refl refl] now m
  have "blacklistedClusters (cy_monitor (monitor_cluster sample_env sample_config sample_cluster_manager ?c ?cy)) ''c'' = Some (16 * Minute)"
    by (simp add: sample_env_def sample_config_def)
  then show ?thesis using m by (simp add: sample_env_def sample_config_def)
qed

section \<open>The cycle\<close>

lemma validate_frame:
  "validateClusterForProcessing env c cy = (r, cy1) \<Longrightarrow> cy_world cy1 = cy_world cy \<and> cy_processed cy1 = cy_processed cy"
  by (auto simp: validateClusterForProcessing_def Let_def split: if_splits prod.splits bool.splits)

lemma monitor_cluster_frame:
  assumes "env_ok env"
  shows "same_table (cy_world cy) (cy_world (monitor_cluster env cfg m c cy))"
    and "cy_processed (monitor_cluster env cfg m c cy) = cy_processed cy @ [Cluster_ID c]"
proof -
  let ?d = "min (cy_deadline cy) (w_now (cy_world cy) + MonitorPerClusterDeadline cfg)"
  obtain e mon1 w1 where p: "processClusterMonitoring env m ?d (cy_startTime cy) c (cy_monitor cy) (cy_world cy) = (e, mon1, w1)"
    by (metis prod_cases3)
  from process_frame(1) [OF assms p] show "same_table (cy_world cy) (cy_world (monitor_cluster env cfg m c cy))"
    by (simp add: monitor_cluster_def p Let_def steady_def at_time_def same_table_def)
  show "cy_processed (monitor_cluster env cfg m c cy) = cy_processed cy @ [Cluster_ID c]"
    by (simp add: monitor_cluster_def p Let_def)
qed

lemma monitor_batch_frame:
  assumes "env_ok env" and "monitor_batch env cfg m cs cy = (ended, cy1)"
  shows "same_table (cy_world cy) (cy_world cy1) \<and> (\<exists>xs. cy_processed cy1 = cy_processed cy @ xs \<and>
    set xs \<subseteq> Cluster_ID ` set cs \<and> (distinct (map Cluster_ID cs) \<longrightarrow> distinct xs))"
  using assms(2)
proof (induction cs arbitrary: cy)
  case (Cons c cs)
  obtain skip ret cy2 where v: "validateClusterForProcessing env c cy = ((skip, ret), cy2)" by (metis prod.exhaust)
  note v' = validate_frame [OF v]
  show ?case
  proof (cases "ret \<or> skip")
    case True
    with Cons.prems v v' Cons.IH [of cy2] show ?thesis by (auto split: if_splits)
  next
    case False
    let ?cy = "monitor_cluster env cfg m c cy2"
    from False Cons.prems v have "monitor_batch env cfg m cs ?cy = (ended, cy1)" by simp
    from Cons.IH [OF this] monitor_cluster_frame [OF assms(1), where cy = cy2 and cfg = cfg and m = m and c = c] obtain xs where xs:
      "cy_processed cy1 = cy_processed cy @ [Cluster_ID c] @ xs" "set xs \<subseteq> Cluster_ID ` set cs"
      "distinct (map Cluster_ID cs) \<longrightarrow> distinct xs" "same_table (cy_world cy) (cy_world cy1)" by (auto simp: v')
    then show ?thesis by (intro conjI exI [of _ "[Cluster_ID c] @ xs"]) auto
  qed
qed simp

interpretation cycle: monitor_walk monitored cy_world "monitor_loop env cfg m" "monitor_batch env cfg m"
  "\<lambda>cy. cy\<lparr>cy_monitor := (cy_monitor cy)\<lparr>resumeAfterClusterID := None\<rparr>\<rparr>" "\<lambda>_. env_ok env" cy_processed id
proof
  show "monitor_loop env cfg m q s = Option.bind (MonitorQuery_Next monitored (cy_world s) q) (\<lambda>(r, q1). case r of
         Inl err \<Rightarrow> Some s
       | Inr cs \<Rightarrow> if cs = [] then Some (s\<lparr>cy_monitor := (cy_monitor s)\<lparr>resumeAfterClusterID := None\<rparr>\<rparr>)
           else (case monitor_batch env cfg m cs s of (ended, s1) \<Rightarrow> if ended then Some s1 else monitor_loop env cfg m q1 s1))"
    for q s by (rule monitor_loop.simps)
qed (use monitor_batch_frame in fastforce)+

lemma init_cycle:
  assumes "query_healthy w" and "\<forall>g. monitorQueryGenerator mon = Some g \<longrightarrow> 0 < batchSize g"
  shows "query_ready w (fst (initMonitoringCycle cfg mon w))"
    and "cy_world (snd (initMonitoringCycle cfg mon w)) = w" "cy_processed (snd (initMonitoringCycle cfg mon w)) = []"
    and "cy_skipUntilAfterCursor (snd (initMonitoringCycle cfg mon w)) \<longleftrightarrow> resumeAfterClusterID mon \<noteq> None"
    and "resumeAfterClusterID (cy_monitor (snd (initMonitoringCycle cfg mon w))) = resumeAfterClusterID mon"
proof -
  have "query_ready w (fst (NewClusterQuery t g))" if "0 < batchSize g" for t g
    using assms(1) that by (simp add: NewClusterQuery_def query_ready_def full_ready_def timed_ready_def new_full_def new_timed_def)
  moreover have "0 < batchSize (the (monitorQueryGenerator (initMonitorQueryGenerator cfg (syncBlacklistStateAndMetrics t mon))))" for t
    using assms(2) by (auto simp: initMonitorQueryGenerator_def syncBlacklistStateAndMetrics_def NewMonitorQueryGenerator_def
        DefaultBatchSize_def split: option.splits)
  ultimately show "query_ready w (fst (initMonitoringCycle cfg mon w))"
    by (simp add: initMonitoringCycle_def Let_def split_beta)
  show "cy_world (snd (initMonitoringCycle cfg mon w)) = w" "cy_processed (snd (initMonitoringCycle cfg mon w)) = []"
    "cy_skipUntilAfterCursor (snd (initMonitoringCycle cfg mon w)) \<longleftrightarrow> resumeAfterClusterID mon \<noteq> None"
    "resumeAfterClusterID (cy_monitor (snd (initMonitoringCycle cfg mon w))) = resumeAfterClusterID mon"
    by (simp_all add: initMonitoringCycle_def initMonitorQueryGenerator_def syncBlacklistStateAndMetrics_def Let_def split_beta
        split: option.splits)
qed

text \<open>
  C30. A cycle of the monitor returns: on a store whose queries do not fail, whatever the refreshes of the
  clusters do to it and however long they take, the loop over the batches comes to its end; no cluster is
  processed twice in the cycle, every cluster that is processed has a row, and the table of clusters keeps
  its identifiers. A service that is not the leader does nothing.
\<close>

theorem monitor_cycle_returns:
  assumes "env_ok env" and "query_healthy w" and "\<forall>g. monitorQueryGenerator mon = Some g \<longrightarrow> 0 < batchSize g"
  shows "\<exists>mon1 w1 processed. ClusterMonitoring env cfg m mon w = Some (mon1, w1, processed) \<and> distinct processed \<and>
    set processed \<subseteq> Cluster_ID ` set (w_clusters w) \<and> map Cluster_ID (w_clusters w1) = map Cluster_ID (w_clusters w) \<and>
    (\<not> IsLeader env w \<longrightarrow> mon1 = mon \<and> w1 = w \<and> processed = [])"
proof (cases "IsLeader env w")
  case True
  obtain q cy where i: "initMonitoringCycle cfg mon w = (q, cy)" by force
  note init = init_cycle [OF assms(2,3), of cfg, unfolded i, simplified]
  from cycle.walk_total [of env cy q cfg m] assms(1) init obtain cy1 where
    "monitor_loop env cfg m q cy = Some cy1" "distinct (cy_processed cy1)" "same_table w (cy_world cy1)"
    "set (cy_processed cy1) \<subseteq> Cluster_ID ` set (w_clusters w)" by auto
  with True i show ?thesis by (simp add: ClusterMonitoring_def same_table_def)
qed (simp add: ClusterMonitoring_def)

lemma sample_store_healthy: "query_healthy (sample_store s h)"
  by (simp add: query_healthy_def sample_store_def sample_cluster_world_def)

theorem monitor_cycle_returns_witness:
  "\<exists>mon1 w1 processed. ClusterMonitoring sample_env sample_config sample_cluster_manager sample_monitor
     (sample_store ClusterStatusReady HostStatusKnown) = Some (mon1, w1, processed) \<and> distinct processed"
  using monitor_cycle_returns [OF sample_env_ok sample_store_healthy, of sample_monitor]
  by (fastforce simp: sample_monitor_def)

section \<open>The cursor\<close>

lemma skip_batch:
  assumes "cy_skipUntilAfterCursor cy" and "resumeAfterClusterID (cy_monitor cy) = Some r"
  shows "\<forall>c \<in> set cs. Cluster_ID c \<noteq> r \<Longrightarrow> monitor_batch env cfg m (cs @ ds) cy = monitor_batch env cfg m ds cy"
  using assms by (induction cs) (auto simp: validateClusterForProcessing_def Let_def)

lemma cursor_batch:
  assumes "cy_skipUntilAfterCursor cy" and "resumeAfterClusterID (cy_monitor cy) = Some (Cluster_ID c)"
    and "distinct (map Cluster_ID (cs @ c # ds))"
  shows "monitor_batch env cfg m (cs @ c # ds) cy = monitor_batch env cfg m ds (cy\<lparr>cy_skipUntilAfterCursor := False\<rparr>)"
proof -
  have "\<forall>d \<in> set cs. Cluster_ID d \<noteq> Cluster_ID c" using assms(3) by (auto simp: image_iff)
  from skip_batch [OF assms(1,2) this] assms show ?thesis by (simp add: validateClusterForProcessing_def Let_def)
qed

lemma skip_loop:
  "query_ready (cy_world cy) q \<Longrightarrow> cy_skipUntilAfterCursor cy \<Longrightarrow> resumeAfterClusterID (cy_monitor cy) = Some r \<Longrightarrow>
   \<forall>c \<in># query_todo monitored (cy_world cy) q. Cluster_ID c \<noteq> r \<Longrightarrow>
   monitor_loop env cfg m q cy = Some (cy\<lparr>cy_monitor := (cy_monitor cy)\<lparr>resumeAfterClusterID := None\<rparr>\<rparr>)"
proof (induction "size (query_todo monitored (cy_world cy) q)" arbitrary: q rule: less_induct)
  case less
  from query.next_batch [OF less.prems(1), of monitored] obtain cs q1 where
    n: "MonitorQuery_Next monitored (cy_world cy) q = Some (Inr cs, q1)" "query_ready (cy_world cy) q1"
      "query_todo monitored (cy_world cy) q = mset cs + query_todo monitored (cy_world cy) q1" by blast
  show ?case
  proof (cases "cs = []")
    case True
    with n show ?thesis by (simp add: monitor_loop.simps [of env cfg m q cy])
  next
    case False
    with n(3) have smaller: "size (query_todo monitored (cy_world cy) q1) < size (query_todo monitored (cy_world cy) q)"
      by (cases cs) auto
    have "monitor_batch env cfg m (cs @ []) cy = (False, cy)"
      using skip_batch [OF less.prems(2,3), of cs env cfg m "[]"] less.prems(4) n(3) by simp
    with n False less.hyps [OF smaller n(2) less.prems(2,3)] less.prems(4) show ?thesis
      by (simp add: monitor_loop.simps [of env cfg m q cy])
  qed
qed

text \<open>
  C33. A cursor that the query does not return costs a cycle: when the cluster at which the previous cycle
  stopped is not among those of the next query, be it installed or gone meanwhile or, in a timed query, not
  triggered, then the whole next cycle examines no cluster at all; it only drops the cursor.
\<close>

theorem absent_cursor_skips_cycle:
  assumes "query_healthy w" and "\<forall>g. monitorQueryGenerator mon = Some g \<longrightarrow> 0 < batchSize g" and "IsLeader env w"
    and "resumeAfterClusterID mon = Some r"
    and "scan (MonitorQuery_Next monitored w) (fst (initMonitoringCycle cfg mon w)) = Some (Inr cs)"
    and "r \<notin> Cluster_ID ` set cs"
  shows "\<exists>mon1. ClusterMonitoring env cfg m mon w = Some (mon1, w, []) \<and> resumeAfterClusterID mon1 = None"
proof -
  obtain q cy where i: "initMonitoringCycle cfg mon w = (q, cy)" by force
  note init = init_cycle [OF assms(1,2), of cfg, unfolded i, simplified]
  from query.scan_todo [OF init(1), of monitored] assms(5) i have "mset cs = query_todo monitored w q" by auto
  with assms(6) have "\<forall>c \<in># query_todo monitored w q. Cluster_ID c \<noteq> r" by (auto simp flip: \<open>mset cs = _\<close>)
  with skip_loop [of cy q r env cfg m] init assms(4) have
    "monitor_loop env cfg m q cy = Some (cy\<lparr>cy_monitor := (cy_monitor cy)\<lparr>resumeAfterClusterID := None\<rparr>\<rparr>)" by simp
  with assms(3) i init show ?thesis by (simp add: ClusterMonitoring_def)
qed

theorem absent_cursor_skips_cycle_witness:
  "let w = sample_store ClusterStatusReady HostStatusKnown; mon = sample_monitor\<lparr>resumeAfterClusterID := Some ''gone''\<rparr>
   in \<exists>mon1. ClusterMonitoring sample_env sample_config sample_cluster_manager mon w = Some (mon1, w, []) \<and>
        resumeAfterClusterID mon1 = None"
proof -
  let ?w = "sample_store ClusterStatusReady HostStatusKnown" and ?mon = "sample_monitor\<lparr>resumeAfterClusterID := Some ''gone''\<rparr>"
  have g: "\<forall>g. monitorQueryGenerator ?mon = Some g \<longrightarrow> 0 < batchSize g" by (simp add: sample_monitor_def)
  have leader: "IsLeader sample_env ?w" by (simp add: sample_env_def)
  have "query_ready ?w (fst (initMonitoringCycle sample_config ?mon ?w))" by (rule init_cycle(1) [OF sample_store_healthy g])
  from query.scan_todo [OF this, of monitored] obtain cs where
    cs: "scan (MonitorQuery_Next monitored ?w) (fst (initMonitoringCycle sample_config ?mon ?w)) = Some (Inr cs)"
      "mset cs = query_todo monitored ?w (fst (initMonitoringCycle sample_config ?mon ?w))" by blast
  have "Cluster_ID c \<in> set (map Cluster_ID (w_clusters ?w))" if "c \<in> set cs" for c
    using query_todo_rows [of c monitored ?w "fst (initMonitoringCycle sample_config ?mon ?w)"] that
    unfolding cs(2) [symmetric] by auto
  then have "''gone'' \<notin> Cluster_ID ` set cs" by (auto simp: sample_store_def sample_cluster_world_def demo_cluster_def)
  from absent_cursor_skips_cycle [OF sample_store_healthy g leader _ cs(1) this, of sample_cluster_manager] show ?thesis by simp
qed

text \<open>What a batch that ends the cycle leaves, when the leader does not change.\<close>

lemma interrupted_batch:
  assumes "\<forall>w. IsLeader env w"
  shows "monitor_batch env cfg m cs cy = (True, cy1) \<Longrightarrow> \<not> cy_skipUntilAfterCursor cy \<Longrightarrow>
    resumeAfterClusterID (cy_monitor cy1) = cy_lastProcessedClusterID cy1 \<and>
    (cy_processed cy1 = cy_processed cy \<and> cy_lastProcessedClusterID cy1 = cy_lastProcessedClusterID cy \<or>
     (\<exists>pre c post zs. cs = pre @ c # post \<and> post \<noteq> [] \<and> cy_lastProcessedClusterID cy1 = Some (Cluster_ID c) \<and>
        cy_processed cy1 = cy_processed cy @ zs @ [Cluster_ID c] \<and> set zs \<subseteq> Cluster_ID ` set pre))"
proof (induction cs arbitrary: cy)
  case (Cons c cs)
  obtain skip ret cy2 where v: "validateClusterForProcessing env c cy = ((skip, ret), cy2)" by (metis prod.exhaust)
  then have v': "cy_processed cy2 = cy_processed cy" "cy_lastProcessedClusterID cy2 = cy_lastProcessedClusterID cy"
    "\<not> cy_skipUntilAfterCursor cy2" "ret \<Longrightarrow> resumeAfterClusterID (cy_monitor cy2) = cy_lastProcessedClusterID cy"
    using assms Cons.prems(2) by (auto simp: validateClusterForProcessing_def Let_def split: if_splits prod.splits bool.splits)
  have more: "\<exists>pre d post zs. c # cs = pre @ d # post \<and> post \<noteq> [] \<and> l = Some (Cluster_ID d) \<and> ps = xs @ zs @ [Cluster_ID d] \<and>
      set zs \<subseteq> Cluster_ID ` set pre"
    if "cs = pre @ d # post \<and> post \<noteq> [] \<and> l = Some (Cluster_ID d) \<and> ps = xs @ zs @ [Cluster_ID d] \<and>
      set zs \<subseteq> Cluster_ID ` set (c # pre)" for pre d post l ps xs zs
    using that by (intro exI [of _ "c # pre"] exI [of _ d] exI [of _ post] exI [of _ zs]) auto
  consider "ret" | "\<not> ret" "skip" "monitor_batch env cfg m cs cy2 = (True, cy1)"
    | "\<not> ret" "\<not> skip" "monitor_batch env cfg m cs (monitor_cluster env cfg m c cy2) = (True, cy1)"
    using Cons.prems(1) v by (auto split: if_splits)
  then show ?case
  proof cases
    case 1
    with Cons.prems(1) v v' show ?thesis by simp
  next
    case 2
    note ih = Cons.IH [OF 2(3) v'(3), unfolded v'(1,2)]
    from ih [THEN conjunct2] show ?thesis
    proof (elim disjE exE)
      fix pre d post zs
      assume "cs = pre @ d # post \<and> post \<noteq> [] \<and> cy_lastProcessedClusterID cy1 = Some (Cluster_ID d) \<and>
        cy_processed cy1 = cy_processed cy @ zs @ [Cluster_ID d] \<and> set zs \<subseteq> Cluster_ID ` set pre"
      then have "cs = pre @ d # post \<and> post \<noteq> [] \<and> cy_lastProcessedClusterID cy1 = Some (Cluster_ID d) \<and>
        cy_processed cy1 = cy_processed cy @ zs @ [Cluster_ID d] \<and> set zs \<subseteq> Cluster_ID ` set (c # pre)" by auto
      from more [OF this] ih [THEN conjunct1] show ?thesis by blast
    qed (use ih in simp)
  next
    case 3
    let ?cy = "monitor_cluster env cfg m c cy2"
    have p: "cy_processed ?cy = cy_processed cy @ [Cluster_ID c]" "cy_lastProcessedClusterID ?cy = Some (Cluster_ID c)"
      "\<not> cy_skipUntilAfterCursor ?cy"
      using v' by (simp_all add: monitor_cluster_def Let_def split_beta)
    have cs: "cs \<noteq> []" using 3(3) by auto
    note ih = Cons.IH [OF 3(3) p(3), unfolded p(1,2)]
    from ih [THEN conjunct2] show ?thesis
    proof (elim disjE exE)
      assume "cy_processed cy1 = cy_processed cy @ [Cluster_ID c] \<and> cy_lastProcessedClusterID cy1 = Some (Cluster_ID c)"
      with cs ih show ?thesis by (intro conjI disjI2 exI [of _ "[]"] exI [of _ c] exI [of _ cs]) simp_all
    next
      fix pre d post zs
      assume "cs = pre @ d # post \<and> post \<noteq> [] \<and> cy_lastProcessedClusterID cy1 = Some (Cluster_ID d) \<and>
        cy_processed cy1 = (cy_processed cy @ [Cluster_ID c]) @ zs @ [Cluster_ID d] \<and> set zs \<subseteq> Cluster_ID ` set pre"
      then have "cs = pre @ d # post \<and> post \<noteq> [] \<and> cy_lastProcessedClusterID cy1 = Some (Cluster_ID d) \<and>
        cy_processed cy1 = cy_processed cy @ (Cluster_ID c # zs) @ [Cluster_ID d] \<and> set (Cluster_ID c # zs) \<subseteq> Cluster_ID ` set (c # pre)"
        by auto
      from more [OF this] ih [THEN conjunct1] show ?thesis by blast
    qed
  qed
qed simp

text \<open>
  C31. An interrupted cycle is resumed within a batch. Let the deadline of a cycle that has begun without a
  cursor end it within its first batch, after clusters of this batch were processed, and let the next cycle
  start with the cursor that was left and see the same clusters in the same order as its first batch, while
  the service stays the leader. Then it begins right behind the last cluster that was processed; there are
  clusters left for it, and within the batch it processes none of those that the first cycle has processed.
\<close>

theorem interrupted_cycle_resumes:
  assumes "env_ok env" and "\<forall>w. IsLeader env w" and "distinct (map Cluster_ID cs)"
    and "\<not> cy_skipUntilAfterCursor cy" and "cy_processed cy = []"
    and "monitor_batch env cfg m cs cy = (True, cy1)" and "cy_processed cy1 \<noteq> []"
    and "cy_skipUntilAfterCursor cy2" and "cy_processed cy2 = []"
    and "resumeAfterClusterID (cy_monitor cy2) = resumeAfterClusterID (cy_monitor cy1)"
    and "monitor_batch env cfg m cs cy2 = (ended, cy3)"
  shows "\<exists>pre c post. cs = pre @ c # post \<and> post \<noteq> [] \<and> Cluster_ID c = last (cy_processed cy1) \<and>
    set (cy_processed cy1) \<subseteq> Cluster_ID ` set (pre @ [c]) \<and>
    monitor_batch env cfg m post (cy2\<lparr>cy_skipUntilAfterCursor := False\<rparr>) = (ended, cy3) \<and>
    set (cy_processed cy1) \<inter> set (cy_processed cy3) = {}"
proof -
  from interrupted_batch [OF assms(2,6,4)] assms(5,7) obtain pre c post zs where
    r: "resumeAfterClusterID (cy_monitor cy1) = Some (Cluster_ID c)" "cs = pre @ c # post" "post \<noteq> []"
      "cy_processed cy1 = zs @ [Cluster_ID c]" "set zs \<subseteq> Cluster_ID ` set pre" by auto
  let ?cy = "cy2\<lparr>cy_skipUntilAfterCursor := False\<rparr>"
  have b: "monitor_batch env cfg m post ?cy = (ended, cy3)"
    using cursor_batch [OF assms(8), of c pre post env cfg m] r(1,2) assms(3,10,11) by simp
  from monitor_batch_frame [OF assms(1) b] assms(9) have "set (cy_processed cy3) \<subseteq> Cluster_ID ` set post" by auto
  moreover have "Cluster_ID ` set (pre @ [c]) \<inter> Cluster_ID ` set post = {}" using assms(3) r(2) by auto
  ultimately have "set (cy_processed cy1) \<inter> set (cy_processed cy3) = {}" using r(4,5) by auto
  with r b show ?thesis by (intro exI [of _ pre] exI [of _ c] exI [of _ post]) auto
qed

lemma monitor_cluster_time:
  assumes "env_ok env" and "w_now (cy_world cy) < cy_deadline cy" and "0 < MonitorPerClusterDeadline cfg"
  shows "w_now (cy_world (monitor_cluster env cfg m c cy)) = w_now (cy_world cy) + refreshDuration env c (cy_world cy)"
    and "cy_deadline (monitor_cluster env cfg m c cy) = cy_deadline cy"
    and "cy_skipUntilAfterCursor (monitor_cluster env cfg m c cy) = cy_skipUntilAfterCursor cy"
proof -
  let ?d = "min (cy_deadline cy) (w_now (cy_world cy) + MonitorPerClusterDeadline cfg)"
  obtain e mon1 w1 where p: "processClusterMonitoring env m ?d (cy_startTime cy) c (cy_monitor cy) (cy_world cy) = (e, mon1, w1)"
    by (metis prod_cases3)
  have "\<not> w_now (cy_world cy) \<ge> ?d" using assms(2,3) by simp
  with process_frame(1) [OF assms(1) p] show "w_now (cy_world (monitor_cluster env cfg m c cy)) = w_now (cy_world cy) + refreshDuration env c (cy_world cy)"
    by (simp add: monitor_cluster_def p Let_def steady_def at_time_def)
  show "cy_deadline (monitor_cluster env cfg m c cy) = cy_deadline cy"
    "cy_skipUntilAfterCursor (monitor_cluster env cfg m c cy) = cy_skipUntilAfterCursor cy"
    by (simp_all add: monitor_cluster_def p Let_def)
qed

text \<open>The first of two clusters takes the minute that the cycle has.\<close>

theorem interrupted_cycle_resumes_witness:
  "let a = sample_row ''a'' ClusterStatusReady 0; b = sample_row ''b'' ClusterStatusReady 0;
       cy = \<lparr>cy_world = sample_query_world, cy_monitor = sample_monitor, cy_startTime = w_now sample_query_world,
             cy_deadline = w_now sample_query_world + Minute, cy_skipUntilAfterCursor = False,
             cy_lastProcessedClusterID = None, cy_processed = []\<rparr>;
       batch = monitor_batch sample_env sample_config sample_cluster_manager;
       cy1 = snd (batch [a, b] cy);
       cy2 = cy\<lparr>cy_monitor := cy_monitor cy1, cy_skipUntilAfterCursor := True\<rparr>
   in cy_processed cy1 = [''a''] \<and> batch [a, b] cy2 = batch [b] (cy2\<lparr>cy_skipUntilAfterCursor := False\<rparr>)"
proof -
  let ?a = "sample_row ''a'' ClusterStatusReady 0" and ?b = "sample_row ''b'' ClusterStatusReady 0"
  define cy where "cy = \<lparr>cy_world = sample_query_world, cy_monitor = sample_monitor, cy_startTime = w_now sample_query_world,
    cy_deadline = w_now sample_query_world + Minute, cy_skipUntilAfterCursor = False,
    cy_lastProcessedClusterID = None, cy_processed = []\<rparr>"
  let ?batch = "monitor_batch sample_env sample_config sample_cluster_manager"
  let ?cya = "monitor_cluster sample_env sample_config sample_cluster_manager ?a cy"
  have ids: "Cluster_ID ?a = ''a''" "Cluster_ID ?b = ''b''" "\<not> SkipMonitoring ?a"
    by (simp_all add: sample_row_def SkipMonitoring_def)
  have lead: "\<forall>w. IsLeader sample_env w" by (simp add: sample_env_def)
  have "validateClusterForProcessing sample_env ?a cy = ((False, False), cy)"
    using ids lead by (simp add: validateClusterForProcessing_def cy_def sample_monitor_def isClusterBlacklisted_def Let_def Minute_def Second_def)
  then have "?batch [?a, ?b] cy = ?batch [?b] ?cya" by simp
  moreover have "w_now (cy_world ?cya) = cy_deadline cy" "cy_deadline ?cya = cy_deadline cy" "\<not> cy_skipUntilAfterCursor ?cya"
    "cy_processed ?cya = [''a'']"
    using monitor_cluster_time [OF sample_env_ok, of cy sample_config sample_cluster_manager ?a]
      monitor_cluster_frame(2) [OF sample_env_ok, where cy = cy and cfg = sample_config and m = sample_cluster_manager and c = ?a] ids
    by (simp_all add: cy_def sample_env_def sample_config_def Minute_def Second_def)
  ultimately obtain cy1 where cy1: "?batch [?a, ?b] cy = (True, cy1)" "cy_processed cy1 = [''a'']"
    by (simp add: validateClusterForProcessing_def Let_def)
  let ?cy2 = "cy\<lparr>cy_monitor := cy_monitor cy1, cy_skipUntilAfterCursor := True\<rparr>"
  obtain ended cy3 where b2: "?batch [?a, ?b] ?cy2 = (ended, cy3)" by force
  have pre: "distinct (map Cluster_ID [?a, ?b])" "\<not> cy_skipUntilAfterCursor cy" "cy_processed cy = []"
    "cy_processed cy1 \<noteq> []" "cy_skipUntilAfterCursor ?cy2" "cy_processed ?cy2 = []"
    "resumeAfterClusterID (cy_monitor ?cy2) = resumeAfterClusterID (cy_monitor cy1)"
    using ids cy1(2) by (simp_all add: cy_def)
  from interrupted_cycle_resumes [OF sample_env_ok lead pre(1-3) cy1(1) pre(4-7) b2] obtain xs c post where
    split: "[?a, ?b] = xs @ c # post" "Cluster_ID c = last (cy_processed cy1)"
      "?batch post (?cy2\<lparr>cy_skipUntilAfterCursor := False\<rparr>) = (ended, cy3)" by blast
  have "c = ?a \<and> post = [?b] \<or> c = ?b" using split(1) by (auto simp: Cons_eq_append_conv)
  with split(2) ids cy1(2) have "post = [?b]" by auto
  with split(3) b2 cy1 show ?thesis unfolding Let_def cy_def [symmetric] by (simp only: snd_conv simp_thms)
qed

end
