(* ===== verification/Spec2Isabelle.thy ===== *)
theory Spec2Isabelle
  imports Host_Control Host_Monitor Cluster_Monitor
begin

text \<open>
  Verification of the host and cluster components of assisted-service (\<open>src/internal/host\<close> and
  \<open>src/internal/cluster\<close>): the state machine that takes a machine from its first registration through
  discovery, validation and preparation to an installed OpenShift node and that binds it to and releases it
  from a cluster, the state machine that takes a cluster of such machines from its registration to an
  installed cluster, and the monitors that drive both.

  \<^bold>\<open>The program.\<close> An agent on every machine registers a host and reports inventory and progress; users
  bind, install, reset and cancel hosts and clusters. Each request, and each tick of a monitor, loads a row of
  the table of hosts or of clusters, wraps it in a \<open>stateHost\<close> or \<open>stateCluster\<close> and runs a transition type on
  a state machine of the package \<open>stateswitch\<close>: the first rule of the type whose source states contain the
  status and whose condition holds sets the new status in memory, and its post transition writes the row with
  an update that is guarded by the old status (optimistic locking), sends events and notifies a stream. A
  refresh first runs the preprocessor, which evaluates all validations and conditions into a map that the
  rules read. The conditions of a cluster count the statuses of its hosts, and its transitions write to them
  (a pending reset), so the two components meet in one store. The monitors walk over the clusters in
  batches and refresh each cluster, and each host of a cluster, under a deadline.

  \<^bold>\<open>The theories.\<close>
  \<^item> \<open>Prelude\<close>: collections of simplification rules, results, lists and strings, times and durations.
  \<^item> \<open>Stateswitch\<close> (\<open>src/vendor/github.com/filanov/stateswitch\<close>): rules, conditions and \<open>Run\<close>; \<open>run_rules\<close>
    is shown equal to selecting the first enabled rule and firing it. Its locale \<open>persistent_switch\<close> is
    the contract between a machine and its store.
  \<^item> \<open>Guarded_Store\<close>: the locale of a table whose rows are updated under a guard, with the facts of
    optimistic locking (a refused update changes nothing, of two racing updates only one succeeds).
  \<^item> \<open>Models\<close> (\<open>src/models\<close>): statuses, stages, roles and the records of hosts, clusters, disks. A record
    has the fields that the modelled code reads or writes.
  \<^item> \<open>Host_Utils\<close> (\<open>hostutil/host_utils.go\<close>, \<open>common/common.go\<close>): hostnames, disks, NTP sources, counting
    of roles.
  \<^item> \<open>Host_Store\<close> (\<open>hostutil/update_host.go\<close>, \<open>common/db.go\<close>): the database as a record \<open>world\<close> with the
    live and the soft-deleted host rows, the clusters, the clock, the events and notifications, and a
    predicate that says which statements fail; \<open>UpdateHost\<close> and \<open>UpdateHostStatus\<close>. Interprets
    \<open>guarded_store\<close>.
  \<^item> \<open>Host_Ids\<close>, \<open>Host_Common\<close>: identifiers of validations and conditions, status texts, stages, timeouts.
  \<^item> \<open>Host_Transition\<close> (\<open>transition.go\<close>): each condition and post transition of the handler.
  \<^item> \<open>Host_Preprocess\<close> (\<open>refresh_status_preprocessor.go\<close>, \<open>conditions.go\<close>): the evaluation loop, disabled
    and ignored validations.
  \<^item> \<open>Host_Statemachine\<close> (\<open>statemachine.go\<close>, \<open>pool_host_statemachine.go\<close>): the rules, in the order in
    which the code adds them.
  \<^item> \<open>Host_Contract\<close>: interprets \<open>persistent_switch\<close> on these rules: a run without error leaves the row
    with the destination of the rule that fired.
  \<^item> \<open>Host_Refresh\<close>: decision tables and the proof that the rule lists select exactly as they say.
  \<^item> \<open>Host_Behaviour\<close>: the tables lifted to total correctness of runs on a stored host.
  \<^item> \<open>Host_Binding\<close>: the invariant between the status of a host and its cluster, kept by every run of the
    machine, also on hosts that were read long ago and also by failing runs.
  \<^item> \<open>Host_Frame\<close>: a locale of relations between worlds that every post transition keeps (its laws are one
    per primitive effect), interpreted for the well-formedness of the tables, the isolation of other rows
    and clusters, the event log, the soft-deleted rows and the clock.
  \<^item> \<open>Host_Manager\<close> (\<open>host.go\<close>, with \<open>disks_info.go\<close>, \<open>image_status.go\<close> and the validation context of
    \<open>validator.go\<close>): the operations that requests and monitors call, each with the statements it executes
    in the order of the code. The record \<open>manager\<close> holds the configuration and the functions that are not
    modelled (JSON decoding, validations, hardware requirements).
  \<^item> \<open>Host_Operations\<close>: for each operation what it keeps of the tables, and the step relation \<open>manager_step\<close>
    of interleaved operations, after any of which the tables and the binding are consistent.
  \<^item> \<open>Host_Evaluation\<close>: the values that the preprocessor computes, stated per validation and per condition.
  \<^item> \<open>Host_Guarantees\<close>, \<open>Host_Control\<close>: the properties of the manager: refresh end to end, progress, role
    assignment, registration, setters, control operations, optimistic locking, convergence.
  \<^item> \<open>Row_Update\<close>: the update of a row by a list of columns and values; its locale has the laws of one
    assignment, which the columns of a table have to provide.
  \<^item> \<open>Cluster_Store\<close> (\<open>cluster/common.go\<close>, \<open>common/db.go\<close>): columns of the cluster table with the types of their
    values, \<open>UpdateCluster\<close>, \<open>updateClusterStatus\<close> and the loading of a cluster with its hosts. Interprets
    \<open>guarded_store\<close> again.
  \<^item> \<open>Cluster_Common\<close>: identifiers of cluster validations, status texts, finalizing stages with their timeouts.
  \<^item> \<open>Cluster_Preprocess\<close> (\<open>refresh_status_preprocessor.go\<close>, \<open>conditions.go\<close>, \<open>validator.go\<close>): the evaluation loop,
    the conditions and the validations that do not compute with networks.
  \<^item> \<open>Cluster_Transition\<close> (\<open>transition.go\<close>), \<open>Cluster_Statemachine\<close> (\<open>statemachine.go\<close>): handler and rules.
  \<^item> \<open>Cluster_Frame\<close>: the locale \<open>cluster_frame\<close> of what every post transition keeps, one law per primitive
    effect, interpreted for well-formedness, isolation, the event log and the clock.
  \<^item> \<open>Cluster_Contract\<close>: interprets \<open>persistent_switch\<close> on the cluster rules.
  \<^item> \<open>Cluster_Refresh\<close>, \<open>Cluster_Behaviour\<close>: the decision table of a refresh, \<open>cluster_refresh_spec\<close>, the proof
    that the rules select as it says, and its lifting to runs on a stored cluster.
  \<^item> \<open>Float64\<close>: the floating-point arithmetic of the percentages, over rationals with the rounding written out.
  \<^item> \<open>Cluster_Manager\<close> (\<open>cluster.go\<close>, \<open>registrar.go\<close>, \<open>network/lease_utils.go\<close>): the operations of the manager.
  \<^item> \<open>Cluster_Guarantees\<close>: \<open>RefreshStatus\<close> is total and equivalent to the decision table; a cluster becomes ready,
    starts to install and is installed only when the conditions for it hold.
  \<^item> \<open>Cluster_Progress\<close>: the percentages stay between 0 and 100, the total does not drop.
  \<^item> \<open>Cluster_Lifecycle\<close>: isolation, the control operations with their errors, registration and its round
    trip, the recovery from a host that registers again during preparation.
  \<^item> \<open>Monitor_Query\<close> (\<open>common/monitor_query_generator.go\<close>): the full and the timed query and their generator. The
    locale \<open>batched_query\<close> is the contract of \<open>Next\<close>, extended by \<open>ordered_query\<close>; both queries and their
    sum interpret it. They return every cluster they should, once, also when the store changes meanwhile.
  \<^item> \<open>Host_Monitor\<close> (\<open>host/monitor.go\<close>): \<open>SortHosts\<close> is one stable sort, and the cycle over the hosts of clusters
    returns and keeps the invariants. Its loop and that of \<open>Cluster_Monitor\<close> interpret the locale
    \<open>monitor_walk\<close> of \<open>Monitor_Query\<close>, whose theorem gives termination and that nothing is done twice.
  \<^item> \<open>Cluster_Monitor\<close> (\<open>ClusterMonitoring\<close> of \<open>cluster.go\<close>): the cycle of the monitor returns and processes no
    cluster twice, deadlines and blacklist, and the cursor by which an interrupted cycle is resumed.

  \<^bold>\<open>Conventions.\<close> A Go function that fails returns \<open>go_error + 'a\<close>; one that writes the database takes and
  returns the \<open>world\<close>. A nil dereference is the error \<open>nil_deref\<close>. Times and durations are integers in
  nanoseconds. Most recursion is structural; \<open>FormatLease\<close> is a function with a termination proof. The loops of
  the timed query and of the monitors, which the code bounds only by what the store returns, are partial
  functions to \<open>option\<close>, and \<open>timed_scan_enumerates\<close>, \<open>monitor_cycle_returns\<close> and
  \<open>host_monitor_cycle_returns\<close> prove that they return; no fuel is used. JSON decoding, the functions of the
  host validator, validations that compute with networks, operators, leader election and the duration of a
  refresh are parameters.

  \<^bold>\<open>Not modelled.\<close> The REST handlers and the Kubernetes controllers, which check requests and call the
  managers; ignition and manifest generation, object storage, release images, authentication, metrics and
  uploads, which are I/O; the generated server and client; the arithmetic of networks and the plug-ins of
  operators, which are parameters where the modelled code calls them; the queries over infra-envs and
  the monitoring of hosts that are not bound to a cluster; the commands that are sent to agents; inventory updates, which rest on JSON and on the
  hardware validator.
\<close>

end
